(* ===== verification/Prelude.thy ===== *)
theory Prelude
  imports Main "HOL-Library.Word"
begin

text \<open>
  Shared vocabulary of the development: names for the machine types the C++
  sources use, the facts that move an overflow guard between words and
  unbounded integers, and the fact collections the component theories extend.

  \<^item> \<open>model_defs\<close> collects the definitions a component unfolds routinely.
  \<^item> \<open>word_nat\<close> collects the facts that replace word arithmetic by natural
    number arithmetic once an overflow guard is known.
\<close>

named_theorems model_defs
named_theorems word_nat

type_synonym u8 = "8 word"
type_synonym u32 = "32 word"
type_synonym u64 = "64 word"
type_synonym ptr = "64 word"

text \<open>A signed 64-bit (or 32-bit) C++ integer is a word read by \<^const>\<open>sint\<close>;
  the constants below are its limits.\<close>

abbreviation int64_max :: int where "int64_max \<equiv> 9223372036854775807"
abbreviation uint64_max :: nat where "uint64_max \<equiv> 18446744073709551615"

subsection \<open>Words and guards\<close>

lemma unat_lt64 [simp]: "unat (w :: u64) < 18446744073709551616"
  using unsigned_less[of w] by simp

lemma unat_le64: "unat (w :: u64) \<le> 18446744073709551615"
  using unat_lt64[of w] by linarith

lemma sint_pos_uint:
  fixes w :: u64
  assumes "0 \<le> sint w"
  shows "sint w = uint w"
proof (cases "uint w < 2 ^ 63")
  case True
  moreover have "- (2 ^ 63) \<le> uint w"
    by (rule order_trans[of _ 0]) simp_all
  ultimately show ?thesis
    using signed_take_bit_int_eq_self[of 63 "uint w"] by (simp add: sint_uint)
next
  case False
  then have "sint w \<le> uint w - 2 ^ 64"
    using signed_take_bit_int_less_eq[of 63 "uint w"] by (simp add: sint_uint)
  moreover have "uint w < 2 ^ 64"
    using unsigned_less[of w, where 'a = int] by simp
  ultimately show ?thesis
    using assms by simp
qed

lemma sint_pos_unat:
  fixes w :: u64
  assumes "0 \<le> sint w"
  shows "sint w = int (unat w)"
  using sint_pos_uint[OF assms] by simp

lemma unat_plus_guard [word_nat]:
  fixes a b :: u64
  assumes "unat a + unat b \<le> uint64_max"
  shows "unat (a + b) = unat a + unat b"
  using assms unat_add_lem[of a b] by simp

lemma unat_times_guard [word_nat]:
  fixes a b :: u64
  assumes "unat a * unat b \<le> uint64_max"
  shows "unat (a * b) = unat a * unat b"
  using assms unat_mult_lem[of a b] by simp

lemma div_guard_iff: "0 < b \<Longrightarrow> a \<le> m div b \<longleftrightarrow> a * b \<le> m" for a b m :: nat
  by (rule less_eq_div_iff_mult_less_eq)

lemma div_guard_iff_int: "0 < b \<Longrightarrow> a \<le> m div b \<longleftrightarrow> a * b \<le> m" for a b m :: int
  by (smt (verit) div_mult_mod_eq div_plus_div_distrib_dvd_left mult_right_mono pos_mod_sign
      nonzero_mult_div_cancel_right zdiv_mono1)

end
