(* ===== verification/Rowwise_Selectors.thy ===== *)
theory Rowwise_Selectors
  imports Prelude "HOL-Library.Signed_Division"
begin

text \<open>
  The dav-c310 row-wise SIMD selectors of
  \<open>include/ascify/target/dav_c310/rowwise_simd_selectors_v1.hpp\<close>: the checked
  construction of byte spans for caller buffers, the aliasing predicates over
  them, and the three selectors that decide whether a softmax, RMS norm or
  layer norm call may leave the SIMT implementation.

  Pointers and \<open>uintptr_t\<close> are 64-bit words with 0 for \<open>nullptr\<close>; \<open>int64_t\<close> is
  a 64-bit word read by \<^const>\<open>sint\<close>, \<open>int\<close> a 32-bit word.  An out parameter is
  an option (None for a null pointer) returned with the result, so the partial
  writes of a failing call are visible.  A \<open>double\<close> is its 64-bit IEEE pattern.
\<close>

section \<open>Data\<close>

(* Source: src/include/ascify/target/dav_c310/rowwise_simd_selectors_v1.hpp 13-14 kHalfStorageBytes *)
definition kHalfStorageBytes :: u64 where [model_defs]: "kHalfStorageBytes = 2"

(* Source: src/include/ascify/target/dav_c310/rowwise_simd_selectors_v1.hpp 15-15 kSoftmaxMinimumColumns *)
definition kSoftmaxMinimumColumns :: int where [model_defs]: "kSoftmaxMinimumColumns = 4096"

(* Source: src/include/ascify/target/dav_c310/rowwise_simd_selectors_v1.hpp 16-16 kSoftmaxMaximumColumns *)
definition kSoftmaxMaximumColumns :: int where [model_defs]: "kSoftmaxMaximumColumns = 256000"

(* Source: src/include/ascify/target/dav_c310/rowwise_simd_selectors_v1.hpp 17-17 kRmsNormCachedMaximumColumns *)
definition kRmsNormCachedMaximumColumns :: int where [model_defs]:
  "kRmsNormCachedMaximumColumns = 16384"

(* Source: src/include/ascify/target/dav_c310/rowwise_simd_selectors_v1.hpp 18-18 kRmsNormPlainRowBatchMaximumColumns *)
definition kRmsNormPlainRowBatchMaximumColumns :: int where [model_defs]:
  "kRmsNormPlainRowBatchMaximumColumns = 3072"

(* Source: src/include/ascify/target/dav_c310/rowwise_simd_selectors_v1.hpp 19-19 kLayerNormCachedMaximumColumns *)
definition kLayerNormCachedMaximumColumns :: int where [model_defs]:
  "kLayerNormCachedMaximumColumns = 8192"

(* Source: src/include/ascify/target/dav_c310/rowwise_simd_selectors_v1.hpp 21-25 RmsNormRoute *)
datatype RmsNormRoute = kSimt | kPlainRowBatch | kCached

(* Source: src/include/ascify/target/dav_c310/rowwise_simd_selectors_v1.hpp 27-30 ByteSpan *)
record ByteSpan =
  span_begin :: u64
  span_end :: u64

(* Source: src/include/ascify/target/dav_c310/rowwise_simd_selectors_v1.hpp 32-38 RmsNormSpans *)
record RmsNormSpans =
  rs_input :: ByteSpan
  rs_output :: ByteSpan
  rs_inverse_rms :: ByteSpan
  rs_weight :: ByteSpan
  rs_has_weight :: bool

(* Source: src/include/ascify/target/dav_c310/rowwise_simd_selectors_v1.hpp 40-45 LayerNormSpans *)
record LayerNormSpans =
  ls_input :: ByteSpan
  ls_output :: ByteSpan
  ls_mean :: ByteSpan
  ls_inverse_variance :: ByteSpan

section \<open>Spans\<close>

(* Source: src/include/ascify/target/dav_c310/rowwise_simd_selectors_v1.hpp 47-51 IsAligned *)
definition IsAligned :: "ptr \<Rightarrow> u64 \<Rightarrow> bool" where
  "IsAligned pointer alignment \<longleftrightarrow>
     pointer \<noteq> 0 \<and> alignment \<noteq> 0
     \<and> and alignment (alignment - 1) = 0
     \<and> and pointer (alignment - 1) = 0"

(* Source: src/include/ascify/target/dav_c310/rowwise_simd_selectors_v1.hpp 53-56 HasValidContiguousExtent *)
definition HasValidContiguousExtent :: "u64 \<Rightarrow> u64 \<Rightarrow> bool" where
  "HasValidContiguousExtent rows columns \<longleftrightarrow>
     sint rows > 0 \<and> sint columns > 0 \<and> sint rows \<le> int64_max div sint columns"

(* Source: src/include/ascify/target/dav_c310/rowwise_simd_selectors_v1.hpp 58-78 TryMakeByteSpan *)
definition TryMakeByteSpan ::
    "ptr \<Rightarrow> u64 \<Rightarrow> u64 \<Rightarrow> ByteSpan option \<Rightarrow> bool \<times> ByteSpan option" where
  "TryMakeByteSpan pointer element_count element_bytes span =
     (case span of
        None \<Rightarrow> (False, None)
      | Some old \<Rightarrow>
          if pointer = 0 \<or> element_count = 0 \<or> element_bytes = 0 then (False, span)
          else let maximum = - 1 :: u64 in
            if element_count > maximum div element_bytes then (False, span)
            else let byte_count = element_count * element_bytes; b = pointer in
              if byte_count > maximum - b then (False, span)
              else (True, Some (old\<lparr>span_begin := b, span_end := b + byte_count\<rparr>)))"

(* Source: src/include/ascify/target/dav_c310/rowwise_simd_selectors_v1.hpp 80-89 TryMakeMatrixByteSpan *)
definition TryMakeMatrixByteSpan ::
    "ptr \<Rightarrow> u64 \<Rightarrow> u64 \<Rightarrow> u64 \<Rightarrow> ByteSpan option \<Rightarrow> bool \<times> ByteSpan option" where
  "TryMakeMatrixByteSpan pointer rows columns element_bytes span =
     (if \<not> HasValidContiguousExtent rows columns then (False, span)
      else TryMakeByteSpan pointer (rows * columns) element_bytes span)"

(* Source: src/include/ascify/target/dav_c310/rowwise_simd_selectors_v1.hpp 91-93 SpansOverlap *)
definition SpansOverlap :: "ByteSpan \<Rightarrow> ByteSpan \<Rightarrow> bool" where
  "SpansOverlap left right \<longleftrightarrow>
     span_begin left < span_end right \<and> span_begin right < span_end left"

(* Source: src/include/ascify/target/dav_c310/rowwise_simd_selectors_v1.hpp 95-97 SpansAreExact *)
definition SpansAreExact :: "ByteSpan \<Rightarrow> ByteSpan \<Rightarrow> bool" where
  "SpansAreExact left right \<longleftrightarrow>
     span_begin left = span_begin right \<and> span_end left = span_end right"

(* Source: src/include/ascify/target/dav_c310/rowwise_simd_selectors_v1.hpp 99-102 SpansAreDisjointOrExact *)
definition SpansAreDisjointOrExact :: "ByteSpan \<Rightarrow> ByteSpan \<Rightarrow> bool" where
  "SpansAreDisjointOrExact left right \<longleftrightarrow>
     \<not> SpansOverlap left right \<or> SpansAreExact left right"

section \<open>Epsilon\<close>

text \<open>The selectors test \<open>epsilon > 0.0\<close> and \<open>std::isfinite(epsilon)\<close> on the
  double and repeat both tests on \<open>static_cast<float>(epsilon)\<close>.  The
  conversion is the language's round to nearest, ties to even.\<close>

definition exp64 :: "u64 \<Rightarrow> nat" where "exp64 b = unat (and (drop_bit 52 b) 0x7FF)"

definition frac64 :: "u64 \<Rightarrow> nat" where "frac64 b = unat (and b 0xFFFFFFFFFFFFF)"

(* Source: src/include/ascify/target/dav_c310/rowwise_simd_selectors_v1.hpp 163-163 epsilon > 0.0 *)
definition double_gt0 :: "u64 \<Rightarrow> bool" where
  "double_gt0 b \<longleftrightarrow> 0 < b \<and> b \<le> 0x7FF0000000000000"

(* Source: src/include/ascify/target/dav_c310/rowwise_simd_selectors_v1.hpp 163-163 std::isfinite(epsilon) *)
definition double_isfinite :: "u64 \<Rightarrow> bool" where
  "double_isfinite b \<longleftrightarrow> exp64 b \<noteq> 2047"

(* Source: src/include/ascify/target/dav_c310/rowwise_simd_selectors_v1.hpp 173-173 narrow_epsilon > 0.0F *)
definition float_gt0 :: "u32 \<Rightarrow> bool" where
  "float_gt0 w \<longleftrightarrow> 0 < w \<and> w \<le> 0x7F800000"

(* Source: src/include/ascify/target/dav_c310/rowwise_simd_selectors_v1.hpp 173-173 std::isfinite(narrow_epsilon) *)
definition float_isfinite :: "u32 \<Rightarrow> bool" where
  "float_isfinite w \<longleftrightarrow> and (drop_bit 23 w) 0xFF \<noteq> 0xFF"

definition rne_shift :: "nat \<Rightarrow> nat \<Rightarrow> nat" where
  "rne_shift m k =
     (let q = m div 2 ^ k; r = m mod 2 ^ k in
      if 2 * r > 2 ^ k \<or> (2 * r = 2 ^ k \<and> odd q) then q + 1 else q)"

definition narrow_magnitude :: "nat \<Rightarrow> nat \<Rightarrow> nat" where
  "narrow_magnitude e f =
     (let m = (if e = 0 then f else 2 ^ 52 + f)
      in min (rne_shift m (max 29 (926 - max e 1)) + (max e 1 - 897) * 2 ^ 23) 0x7F800000)"

(* Source: src/include/ascify/target/dav_c310/rowwise_simd_selectors_v1.hpp 172-172 static_cast<float>(epsilon) *)
definition double_to_float :: "u64 \<Rightarrow> u32" where
  "double_to_float b =
     or (if bit b 63 then 0x80000000 else 0)
        (if exp64 b = 2047 then (if frac64 b = 0 then 0x7F800000 else 0x7FC00000)
         else of_nat (narrow_magnitude (exp64 b) (frac64 b)))"

(* Source: src/include/ascify/target/dav_c310/rowwise_simd_selectors_v1.hpp 172-173 narrow_epsilon test *)
definition epsilon_accepted :: "u64 \<Rightarrow> bool" where
  "epsilon_accepted epsilon \<longleftrightarrow>
     float_gt0 (double_to_float epsilon) \<and> float_isfinite (double_to_float epsilon)"

section \<open>Selectors\<close>

(* Source: src/include/ascify/target/dav_c310/rowwise_simd_selectors_v1.hpp 104-119 IsSoftmaxSimdDomain *)
definition IsSoftmaxSimdDomain ::
    "ptr \<Rightarrow> ptr \<Rightarrow> ptr \<Rightarrow> u64 \<Rightarrow> u64 \<Rightarrow> u32 \<Rightarrow> u32 \<Rightarrow> bool" where
  "IsSoftmaxSimdDomain stream input output rows columns block_threads grid_cap =
     (let zero = \<lparr>span_begin = 0, span_end = 0\<rparr>;
          (input_ok, input_span) =
            TryMakeMatrixByteSpan input rows columns kHalfStorageBytes (Some zero);
          (output_ok, output_span) =
            TryMakeMatrixByteSpan output rows columns kHalfStorageBytes (Some zero)
      in stream \<noteq> 0
         \<and> sint columns \<ge> kSoftmaxMinimumColumns \<and> sint columns \<le> kSoftmaxMaximumColumns
         \<and> block_threads = 0 \<and> grid_cap = 0
         \<and> input_ok \<and> output_ok
         \<and> SpansAreDisjointOrExact (the input_span) (the output_span))"

(* Source: src/include/ascify/target/dav_c310/rowwise_simd_selectors_v1.hpp 121-142 TryMakeRmsNormSpans *)
definition TryMakeRmsNormSpans ::
    "ptr \<Rightarrow> ptr \<Rightarrow> ptr \<Rightarrow> ptr \<Rightarrow> u64 \<Rightarrow> u64 \<Rightarrow> RmsNormSpans option
     \<Rightarrow> bool \<times> RmsNormSpans option" where
  "TryMakeRmsNormSpans input output weight inverse_rms rows columns spans =
     (case spans of
        None \<Rightarrow> (False, None)
      | Some s0 \<Rightarrow>
          let (ok, v) = TryMakeMatrixByteSpan input rows columns kHalfStorageBytes (Some (rs_input s0));
              s1 = s0\<lparr>rs_input := the v\<rparr>
          in if \<not> ok then (False, Some s1) else
          let (ok, v) = TryMakeMatrixByteSpan output rows columns kHalfStorageBytes (Some (rs_output s1));
              s2 = s1\<lparr>rs_output := the v\<rparr>
          in if \<not> ok then (False, Some s2) else
          let (ok, v) = TryMakeByteSpan inverse_rms rows 4 (Some (rs_inverse_rms s2));
              s3 = s2\<lparr>rs_inverse_rms := the v\<rparr>
          in if \<not> ok then (False, Some s3) else
          let s4 = s3\<lparr>rs_has_weight := (weight \<noteq> 0),
                     rs_weight := \<lparr>span_begin = 0, span_end = 0\<rparr>\<rparr>
          in if \<not> rs_has_weight s4 then (True, Some s4) else
          let (ok, v) = TryMakeByteSpan weight columns kHalfStorageBytes (Some (rs_weight s4))
          in (ok, Some (s4\<lparr>rs_weight := the v\<rparr>)))"

(* Source: src/include/ascify/target/dav_c310/rowwise_simd_selectors_v1.hpp 144-153 HasNoRmsNormAuxAliasing *)
definition HasNoRmsNormAuxAliasing :: "RmsNormSpans \<Rightarrow> bool" where
  "HasNoRmsNormAuxAliasing spans =
     (if SpansOverlap (rs_inverse_rms spans) (rs_input spans)
         \<or> SpansOverlap (rs_inverse_rms spans) (rs_output spans) then False
      else \<not> rs_has_weight spans
           \<or> (\<not> SpansOverlap (rs_weight spans) (rs_input spans)
              \<and> \<not> SpansOverlap (rs_weight spans) (rs_output spans)
              \<and> \<not> SpansOverlap (rs_weight spans) (rs_inverse_rms spans)))"

(* Source: src/include/ascify/target/dav_c310/rowwise_simd_selectors_v1.hpp 155-174 HasCommonRmsNormSimdContract *)
definition HasCommonRmsNormSimdContract ::
    "ptr \<Rightarrow> ptr \<Rightarrow> ptr \<Rightarrow> ptr \<Rightarrow> ptr \<Rightarrow> u64 \<Rightarrow> u64 \<Rightarrow> u64 \<Rightarrow> u32 \<Rightarrow> u32
     \<Rightarrow> RmsNormSpans option \<Rightarrow> bool \<times> RmsNormSpans option" where
  "HasCommonRmsNormSimdContract stream input output weight inverse_rms rows columns epsilon
       block_threads grid_cap spans =
     (if stream = 0 \<or> sint columns \<le> 0 \<or> block_threads \<noteq> 0 \<or> grid_cap \<noteq> 0
         \<or> \<not> double_gt0 epsilon \<or> \<not> double_isfinite epsilon
         \<or> \<not> IsAligned input 16 \<or> \<not> IsAligned output 16 \<or> \<not> IsAligned inverse_rms 4
         \<or> (weight \<noteq> 0 \<and> \<not> IsAligned weight 16)
      then (False, spans)
      else let (ok, spans') =
             TryMakeRmsNormSpans input output weight inverse_rms rows columns spans
           in if \<not> ok \<or> \<not> HasNoRmsNormAuxAliasing (the spans') then (False, spans')
              else (epsilon_accepted epsilon, spans'))"

definition zero_rms_spans :: RmsNormSpans where
  "zero_rms_spans =
     (let z = \<lparr>span_begin = 0, span_end = 0\<rparr>
      in \<lparr>rs_input = z, rs_output = z, rs_inverse_rms = z, rs_weight = z, rs_has_weight = False\<rparr>)"

(* Source: src/include/ascify/target/dav_c310/rowwise_simd_selectors_v1.hpp 176-187 IsRmsNormCachedSimdDomain *)
definition IsRmsNormCachedSimdDomain ::
    "ptr \<Rightarrow> ptr \<Rightarrow> ptr \<Rightarrow> ptr \<Rightarrow> ptr \<Rightarrow> u64 \<Rightarrow> u64 \<Rightarrow> u64 \<Rightarrow> u32 \<Rightarrow> u32 \<Rightarrow> bool" where
  "IsRmsNormCachedSimdDomain stream input output weight inverse_rms rows columns epsilon
       block_threads grid_cap =
     (let (ok, spans) = HasCommonRmsNormSimdContract stream input output weight inverse_rms
            rows columns epsilon block_threads grid_cap (Some zero_rms_spans)
      in sint columns \<le> kRmsNormCachedMaximumColumns \<and> sint columns smod 8 = 0
         \<and> ok \<and> \<not> SpansOverlap (rs_input (the spans)) (rs_output (the spans)))"

(* Source: src/include/ascify/target/dav_c310/rowwise_simd_selectors_v1.hpp 189-202 IsRmsNormPlainRowBatchSimdDomain *)
definition IsRmsNormPlainRowBatchSimdDomain ::
    "ptr \<Rightarrow> ptr \<Rightarrow> ptr \<Rightarrow> ptr \<Rightarrow> ptr \<Rightarrow> u64 \<Rightarrow> u64 \<Rightarrow> u64 \<Rightarrow> u32 \<Rightarrow> u32 \<Rightarrow> bool" where
  "IsRmsNormPlainRowBatchSimdDomain stream input output weight inverse_rms rows columns epsilon
       block_threads grid_cap =
     (let (ok, spans) = HasCommonRmsNormSimdContract stream input output weight inverse_rms
            rows columns epsilon block_threads grid_cap (Some zero_rms_spans)
      in weight = 0 \<and> sint columns \<le> kRmsNormPlainRowBatchMaximumColumns
         \<and> sint columns smod 16 = 0
         \<and> ok \<and> SpansAreDisjointOrExact (rs_input (the spans)) (rs_output (the spans)))"

(* Source: src/include/ascify/target/dav_c310/rowwise_simd_selectors_v1.hpp 204-222 SelectRmsNormRoute *)
definition SelectRmsNormRoute ::
    "ptr \<Rightarrow> ptr \<Rightarrow> ptr \<Rightarrow> ptr \<Rightarrow> ptr \<Rightarrow> u64 \<Rightarrow> u64 \<Rightarrow> u64 \<Rightarrow> u32 \<Rightarrow> u32 \<Rightarrow> RmsNormRoute" where
  "SelectRmsNormRoute stream input output weight inverse_rms rows columns epsilon
       block_threads grid_cap =
     (if IsRmsNormPlainRowBatchSimdDomain stream input output weight inverse_rms rows columns
           epsilon block_threads grid_cap then kPlainRowBatch
      else if IsRmsNormCachedSimdDomain stream input output weight inverse_rms rows columns
           epsilon block_threads grid_cap then kCached
      else kSimt)"

(* Source: src/include/ascify/target/dav_c310/rowwise_simd_selectors_v1.hpp 224-238 TryMakeLayerNormSpans *)
definition TryMakeLayerNormSpans ::
    "ptr \<Rightarrow> ptr \<Rightarrow> ptr \<Rightarrow> ptr \<Rightarrow> u64 \<Rightarrow> u64 \<Rightarrow> LayerNormSpans option
     \<Rightarrow> bool \<times> LayerNormSpans option" where
  "TryMakeLayerNormSpans input output mean inverse_variance rows columns spans =
     (case spans of
        None \<Rightarrow> (False, None)
      | Some s0 \<Rightarrow>
          let (ok, v) = TryMakeMatrixByteSpan input rows columns kHalfStorageBytes (Some (ls_input s0));
              s1 = s0\<lparr>ls_input := the v\<rparr>
          in if \<not> ok then (False, Some s1) else
          let (ok, v) = TryMakeMatrixByteSpan output rows columns kHalfStorageBytes (Some (ls_output s1));
              s2 = s1\<lparr>ls_output := the v\<rparr>
          in if \<not> ok then (False, Some s2) else
          let (ok, v) = TryMakeByteSpan mean rows 4 (Some (ls_mean s2));
              s3 = s2\<lparr>ls_mean := the v\<rparr>
          in if \<not> ok then (False, Some s3) else
          let (ok, v) = TryMakeByteSpan inverse_variance rows 4 (Some (ls_inverse_variance s3))
          in (ok, Some (s3\<lparr>ls_inverse_variance := the v\<rparr>)))"

definition zero_layer_spans :: LayerNormSpans where
  "zero_layer_spans =
     (let z = \<lparr>span_begin = 0, span_end = 0\<rparr>
      in \<lparr>ls_input = z, ls_output = z, ls_mean = z, ls_inverse_variance = z\<rparr>)"

(* Source: src/include/ascify/target/dav_c310/rowwise_simd_selectors_v1.hpp 240-264 IsLayerNormCachedHybridDomain *)
definition IsLayerNormCachedHybridDomain ::
    "ptr \<Rightarrow> ptr \<Rightarrow> ptr \<Rightarrow> ptr \<Rightarrow> ptr \<Rightarrow> u64 \<Rightarrow> u64 \<Rightarrow> u64 \<Rightarrow> u32 \<Rightarrow> u32 \<Rightarrow> bool" where
  "IsLayerNormCachedHybridDomain stream input output mean inverse_variance rows columns epsilon
       block_threads grid_cap =
     (if stream = 0 \<or> sint columns \<le> 0
         \<or> sint columns > kLayerNormCachedMaximumColumns \<or> sint columns smod 8 \<noteq> 0
         \<or> block_threads \<noteq> 0 \<or> grid_cap \<noteq> 0
         \<or> \<not> double_gt0 epsilon \<or> \<not> double_isfinite epsilon
         \<or> \<not> IsAligned input 16 \<or> \<not> IsAligned output 16
         \<or> \<not> IsAligned mean 4 \<or> \<not> IsAligned inverse_variance 4
      then False
      else let (ok, v) = TryMakeLayerNormSpans input output mean inverse_variance rows columns
                 (Some zero_layer_spans); spans = the v
           in if \<not> ok
                 \<or> \<not> SpansAreDisjointOrExact (ls_input spans) (ls_output spans)
                 \<or> SpansOverlap (ls_mean spans) (ls_input spans)
                 \<or> SpansOverlap (ls_mean spans) (ls_output spans)
                 \<or> SpansOverlap (ls_inverse_variance spans) (ls_input spans)
                 \<or> SpansOverlap (ls_inverse_variance spans) (ls_output spans)
                 \<or> SpansOverlap (ls_mean spans) (ls_inverse_variance spans)
              then False
              else epsilon_accepted epsilon)"

section \<open>Spans as address sets\<close>

text \<open>The abstraction: a span stands for the set of byte addresses it covers,
  and a caller buffer for the addresses \<open>p, ..., p + n - 1\<close> as unbounded
  numbers, so a buffer that would wrap around the address space is visible.\<close>

definition span_region :: "ByteSpan \<Rightarrow> nat set" where
  "span_region s = {unat (span_begin s) ..< unat (span_end s)}"

definition buffer :: "ptr \<Rightarrow> nat \<Rightarrow> nat set" where
  "buffer p n = {unat p ..< unat p + n}"

definition byte_span_ok :: "ptr \<Rightarrow> u64 \<Rightarrow> u64 \<Rightarrow> bool" where
  "byte_span_ok p n sz \<longleftrightarrow> p \<noteq> 0 \<and> n \<noteq> 0 \<and> sz \<noteq> 0
     \<and> unat p + unat n * unat sz \<le> uint64_max"

lemma unat_minus_one64: "unat (- 1 :: u64) = uint64_max"
  by (simp add: unsigned_minus_1_eq_mask mask_eq_exp_minus_1)

lemma byte_span_guards:
  fixes p n sz :: u64
  assumes "sz \<noteq> 0"
  shows "\<not> n > (- 1) div sz \<and> \<not> n * sz > (- 1) - p
    \<longleftrightarrow> unat p + unat n * unat sz \<le> uint64_max"
proof -
  have sz: "0 < unat sz"
    using assms by (simp add: unat_gt_0)
  have a: "n > (- 1) div sz \<longleftrightarrow> \<not> unat n * unat sz \<le> uint64_max"
    using div_guard_iff[OF sz, of "unat n" uint64_max]
    by (simp add: word_less_nat_alt unat_div unat_minus_one64 flip: not_le)
  have p: "unat ((- 1) - p) = uint64_max - unat p"
    using unat_sub[of p "- 1"] by (simp add: unat_minus_one64)
  show ?thesis
  proof (cases "unat n * unat sz \<le> uint64_max")
    case True
    then show ?thesis
      using a p unat_le64[of p]
      by (simp add: word_less_nat_alt unat_times_guard not_less) linarith
  next
    case False
    then show ?thesis
      using a by linarith
  qed
qed

lemma TryMakeByteSpan_eq:
  "TryMakeByteSpan p n sz (Some s) =
     (byte_span_ok p n sz,
      Some (if byte_span_ok p n sz then \<lparr>span_begin = p, span_end = p + n * sz\<rparr> else s))"
  using byte_span_guards[of sz n p]
  by (cases s) (auto simp: TryMakeByteSpan_def byte_span_ok_def Let_def)

lemma byte_span_end:
  assumes "byte_span_ok p n sz"
  shows "unat (p + n * sz) = unat p + unat n * unat sz"
  using assms unat_times_guard[of n sz] unat_plus_guard[of p "n * sz"]
  by (simp add: byte_span_ok_def)

lemma span_region_made:
  assumes "byte_span_ok p n sz"
  shows "span_region \<lparr>span_begin = p, span_end = p + n * sz\<rparr> = buffer p (unat n * unat sz)"
  using byte_span_end[OF assms] by (simp add: span_region_def buffer_def)

lemma byte_span_nonempty:
  assumes "byte_span_ok p n sz"
  shows "0 < unat n * unat sz"
  using assms by (simp add: byte_span_ok_def unat_gt_0)

definition matrix_ok :: "ptr \<Rightarrow> u64 \<Rightarrow> u64 \<Rightarrow> u64 \<Rightarrow> bool" where
  "matrix_ok p rows columns sz \<longleftrightarrow>
     HasValidContiguousExtent rows columns \<and> byte_span_ok p (rows * columns) sz"

lemma TryMakeMatrixByteSpan_eq:
  "TryMakeMatrixByteSpan p rows columns sz (Some s) =
     (matrix_ok p rows columns sz,
      Some (if matrix_ok p rows columns sz
            then \<lparr>span_begin = p, span_end = p + rows * columns * sz\<rparr> else s))"
  by (simp add: TryMakeMatrixByteSpan_def TryMakeByteSpan_eq matrix_ok_def)

lemma HasValidContiguousExtent_iff:
  "HasValidContiguousExtent rows columns \<longleftrightarrow>
     0 < sint rows \<and> 0 < sint columns \<and> sint rows * sint columns \<le> int64_max"
  using div_guard_iff_int[of "sint columns" "sint rows" int64_max]
  by (auto simp: HasValidContiguousExtent_def)

lemma extent_unat:
  assumes "HasValidContiguousExtent rows columns"
  shows "unat (rows * columns) = unat rows * unat columns"
    and "int (unat rows) = sint rows" and "int (unat columns) = sint columns"
proof -
  show r: "int (unat rows) = sint rows" and c: "int (unat columns) = sint columns"
    using assms by (simp_all add: HasValidContiguousExtent_def sint_pos_unat)
  have "int (unat rows * unat columns) \<le> int64_max"
    using assms by (simp only: HasValidContiguousExtent_iff of_nat_mult r c)
  then show "unat (rows * columns) = unat rows * unat columns"
    by (intro unat_times_guard) linarith
qed

lemma SpansOverlap_regions:
  assumes "span_begin a < span_end a" and "span_begin b < span_end b"
  shows "SpansOverlap a b \<longleftrightarrow> span_region a \<inter> span_region b \<noteq> {}"
proof
  assume "SpansOverlap a b"
  then have "max (unat (span_begin a)) (unat (span_begin b)) \<in> span_region a \<inter> span_region b"
    using assms by (auto simp: SpansOverlap_def span_region_def word_less_nat_alt)
  then show "span_region a \<inter> span_region b \<noteq> {}"
    by blast
next
  assume "span_region a \<inter> span_region b \<noteq> {}"
  then show "SpansOverlap a b"
    by (auto simp: SpansOverlap_def span_region_def word_less_nat_alt)
qed

lemma overlap_made:
  assumes "byte_span_ok p n sz" and "byte_span_ok q m sz'"
  shows "SpansOverlap \<lparr>span_begin = p, span_end = p + n * sz\<rparr>
           \<lparr>span_begin = q, span_end = q + m * sz'\<rparr>
     \<longleftrightarrow> buffer p (unat n * unat sz) \<inter> buffer q (unat m * unat sz') \<noteq> {}"
  using SpansOverlap_regions[of "\<lparr>span_begin = p, span_end = p + n * sz\<rparr>"
      "\<lparr>span_begin = q, span_end = q + m * sz'\<rparr>"]
    byte_span_nonempty[OF assms(1)] byte_span_nonempty[OF assms(2)]
    byte_span_end[OF assms(1)] byte_span_end[OF assms(2)]
  by (simp add: span_region_made[OF assms(1)] span_region_made[OF assms(2)] word_less_nat_alt)

lemma IsAligned_pow2:
  assumes "k < 64"
  shows "IsAligned p (2 ^ k) \<longleftrightarrow> p \<noteq> 0 \<and> unat p mod 2 ^ k = 0"
proof -
  have m: "(2 ^ k :: u64) - 1 = mask k"
    by (simp add: mask_eq_exp_minus_1)
  have "and p (mask k) = take_bit k p" and "and (2 ^ k) (mask k) = take_bit k (2 ^ k :: u64)"
    by (simp_all only: take_bit_eq_mask)
  moreover have "take_bit k (2 ^ k :: u64) = 0"
    by (rule bit_eqI) (simp add: bit_take_bit_iff bit_exp_iff)
  moreover have "take_bit k p = 0 \<longleftrightarrow> unat p mod 2 ^ k = 0"
    by (metis take_bit_eq_mod unat_0_iff unsigned_take_bit_eq)
  moreover have "(2 ^ k :: u64) \<noteq> 0"
    using assms by simp
  ultimately show ?thesis
    by (simp add: IsAligned_def m)
qed

lemma IsAligned_16: "IsAligned p 16 \<longleftrightarrow> p \<noteq> 0 \<and> 16 dvd unat p"
  using IsAligned_pow2[of 4 p] by (simp add: dvd_eq_mod_eq_0)

lemma IsAligned_4: "IsAligned p 4 \<longleftrightarrow> p \<noteq> 0 \<and> 4 dvd unat p"
  using IsAligned_pow2[of 2 p] by (simp add: dvd_eq_mod_eq_0)

end
