(* ===== verification/Acl_Base.thy ===== *)
theory Acl_Base
  imports Prelude
begin

text \<open>
  Vocabulary of the Ascend Computing Language (ACL), which is not part of the
  repository: the error codes the sources name (every other code is
  \<open>Acl_Code n\<close>), and the world type the ACL entry points act on, which stays a
  type variable.  ACL entry points themselves are parameters of the models
  that call them, collected in records of functions over that world.
\<close>

datatype aclError =
    ACL_SUCCESS
  | ACL_ERROR_RT_PARAM_INVALID
  | ACL_ERROR_FEATURE_UNSUPPORTED
  | ACL_ERROR_BAD_ALLOC
  | ACL_ERROR_RT_EVENT_NOT_COMPLETE
  | ACL_ERROR_RT_STREAM_NOT_COMPLETE
  | ACL_ERROR_REPEAT_INITIALIZE
  | ACL_ERROR_REPEAT_FINALIZE
  | ACL_ERROR_RT_CONTEXT_NULL
  | ACL_ERROR_RT_NO_DEVICE
  | ACL_ERROR_RT_MEMORY_ALLOCATION
  | ACL_ERROR_PROFILING_FAILURE
  | Acl_Code int

text \<open>An ACL query that fills an out parameter: its status, the value, the world.\<close>

type_synonym ('w, 'a) acl_query = "'w \<Rightarrow> (aclError \<times> 'a) \<times> 'w"

end
