(* ===== verification/Rowwise_Launch.thy ===== *)
theory Rowwise_Launch
  imports Acl_Base Rowwise_Selectors
begin

text \<open>
  The host dispatch of the fp16 row-wise SIMT kernels
  (\<open>detail/softmax_fp16_impl.hpp\<close> and \<open>detail/rmsnorm_fp16_impl.hpp\<close> under
  \<open>include/ascify/target/dav_c310\<close>), in the production configuration that
  \<open>rowwise_norm_recipes.hpp\<close> fixes (\<open>SMN_USE_BLOCK_PER_ROW\<close> defined,
  \<open>SMN_FORCE_BLOCK_THREADS\<close> not defined, 512 and 256 block-row threads).

  A kernel launch \<open>kernel<<<grid, block, 0, stream>>>\<close> is a value naming the
  kernel specialisation and its geometry, handed to the environment.  Sizes are
  unbounded integers: every intermediate value is bounded by the entry checks
  and the 1024 bound on the core count, so no machine operation wraps.  The kernels' bodies are not modelled.
\<close>

text \<open>What the dispatch uses of ACL, and the process-wide caches of the vector
  core count (function-local statics).\<close>

record 'w acl_env =
  env_get_device :: "('w, int) acl_query"
  env_vector_core_num :: "int \<Rightarrow> ('w, int) acl_query"
  env_peek_last_error :: "'w \<Rightarrow> aclError \<times> 'w"

record 'w host_state =
  hs_world :: 'w
  hs_smn_cached_count :: "int option"
  hs_rms_cached_count :: "int option"

section \<open>Softmax\<close>

definition smn_kWarpSize :: int where [model_defs]: "smn_kWarpSize = 32"

(* Source: src/include/ascify/target/dav_c310/detail/softmax_fp16_impl.hpp 32-33 kCacheColumns *)
definition smn_kCacheColumns :: int where [model_defs]: "smn_kCacheColumns = 4096"

(* Source: src/include/ascify/target/dav_c310/rowwise_norm_recipes.hpp 37-38 SMN_FALLBACK_AIV_COUNT *)
definition SMN_FALLBACK_AIV_COUNT :: int where [model_defs]: "SMN_FALLBACK_AIV_COUNT = 56"

datatype softmax_kernel =
    Smn_block_cached int int
  | Smn_cached
  | Smn_cached_s
  | Smn_stream
  | Smn_stream_s

record 'k launch_geometry =
  lg_kernel :: 'k
  lg_grid :: int
  lg_block :: int

text \<open>The initialiser of the cached static: device and core-count queries with
  the fallback for any failure.\<close>

definition query_core_count :: "'w acl_env \<Rightarrow> int \<Rightarrow> 'w \<Rightarrow> int \<times> 'w" where
  "query_core_count env fallback w =
     (let ((e, device), w) = env_get_device env w in
      if e \<noteq> ACL_SUCCESS then (fallback, w) else
      let ((e, count), w) = env_vector_core_num env device w in
      if e = ACL_SUCCESS \<and> count > 0 \<and> count \<le> 1024 then (count, w) else (fallback, w))"

(* Source: src/include/ascify/target/dav_c310/detail/softmax_fp16_impl.hpp 565-582 smn_vector_core_count *)
definition smn_vector_core_count :: "'w acl_env \<Rightarrow> 'w host_state \<Rightarrow> int \<times> 'w host_state" where
  "smn_vector_core_count env s =
     (case hs_smn_cached_count s of
        Some n \<Rightarrow> (n, s)
      | None \<Rightarrow>
          let (n, w) = query_core_count env SMN_FALLBACK_AIV_COUNT (hs_world s)
          in (n, s\<lparr>hs_world := w, hs_smn_cached_count := Some n\<rparr>))"

(* Source: src/include/ascify/target/dav_c310/detail/softmax_fp16_impl.hpp 584-586 smn_is_aligned16 *)
definition smn_is_aligned16 :: "ptr \<Rightarrow> bool" where
  "smn_is_aligned16 pointer \<longleftrightarrow> and pointer 15 = 0"

text \<open>The three tests that choose a block-per-row kernel, its thread count, and
  the kernel for a row that block-per-row does not take.\<close>

(* Source: src/include/ascify/target/dav_c310/detail/softmax_fp16_impl.hpp 602-626 Launch (block_shape) *)
definition smn_block_shape :: "int \<Rightarrow> int \<Rightarrow> int \<Rightarrow> bool" where
  "smn_block_shape count rows cols =
     (let vector_packets = (if cols > 0 then cols div 8 else 0);
          packet_loops_at_1024 = (vector_packets + 1023) div 1024;
          warp_rows_per_aiv = 16 + 4 * (if packet_loops_at_1024 > 0 then packet_loops_at_1024 else 1);
          warp_ready_rows = count * warp_rows_per_aiv
      in packet_loops_at_1024 \<ge> 3 \<or> rows < warp_ready_rows)"

(* Source: src/include/ascify/target/dav_c310/detail/softmax_fp16_impl.hpp 640-658 Launch (block kernel) *)
definition smn_block_kernel :: "int \<Rightarrow> int \<Rightarrow> int \<Rightarrow> softmax_kernel \<times> int" where
  "smn_block_kernel count rows cols =
     (let packet_loops_at_1024 = (cols div 8 + 1023) div 1024;
          block_1024_work_threshold = count * 96;
          rows_for_1024 =
            (block_1024_work_threshold + packet_loops_at_1024 - 1) div packet_loops_at_1024;
          use_512_threads = (rows < rows_for_1024)
      in if cols \<le> 8192 then (Smn_block_cached 512 8192, 512)
         else if cols \<le> 16384 then (Smn_block_cached 512 16384, 512)
         else if use_512_threads then (Smn_block_cached 512 32768, 512)
         else (Smn_block_cached 1024 32768, 1024))"

(* Source: src/include/ascify/target/dav_c310/detail/softmax_fp16_impl.hpp 665-665 Launch (tiny rows loop) *)
function smn_spread :: "int \<Rightarrow> int \<Rightarrow> int" where
  "smn_spread rows blk =
     (if blk > 256 \<and> rows < (blk div 32) * 16 then smn_spread rows (blk div 2) else blk)"
  by auto
termination
  by (relation "measure (\<lambda>(rows, blk). nat blk)") auto

declare smn_spread.simps [simp del]

(* Source: src/include/ascify/target/dav_c310/detail/softmax_fp16_impl.hpp 662-679 Launch (warp per row) *)
definition smn_warp_plan ::
    "bool \<Rightarrow> int \<Rightarrow> int \<Rightarrow> int \<Rightarrow> int \<Rightarrow> softmax_kernel launch_geometry" where
  "smn_warp_plan vector_aligned rows cols blk grid_cap =
     (let blk = (if blk \<le> 0
                 then smn_spread rows (if cols \<le> smn_kCacheColumns then 1024 else 512) else blk);
          warps_per_blk = blk div 32;
          blocks = 1 + (rows - 1) div warps_per_blk;
          blocks = (if blocks > grid_cap then grid_cap else blocks);
          blocks = (if blocks < 1 then 1 else blocks);
          kernel = (if cols \<le> smn_kCacheColumns
                    then (if vector_aligned then Smn_cached else Smn_cached_s)
                    else (if vector_aligned then Smn_stream else Smn_stream_s))
      in \<lparr>lg_kernel = kernel, lg_grid = blocks, lg_block = blk\<rparr>)"

(* Source: src/include/ascify/target/dav_c310/detail/softmax_fp16_impl.hpp 600-679 Launch (geometry) *)
definition softmax_plan ::
    "int \<Rightarrow> int \<Rightarrow> ptr \<Rightarrow> ptr \<Rightarrow> int \<Rightarrow> int \<Rightarrow> int \<Rightarrow> softmax_kernel launch_geometry" where
  "softmax_plan count grid_cap x y rows cols blk =
     (let vector_aligned = (cols mod 8 = 0 \<and> smn_is_aligned16 x \<and> smn_is_aligned16 y) in
      if cols > smn_kCacheColumns \<and> cols \<le> 32768 \<and> vector_aligned
         \<and> smn_block_shape count rows cols
      then let blocks = (if rows < grid_cap then rows else grid_cap);
               blocks = (if blocks < 1 then 1 else blocks);
               (kernel, threads) = smn_block_kernel count rows cols
           in \<lparr>lg_kernel = kernel, lg_grid = blocks, lg_block = threads\<rparr>
      else smn_warp_plan vector_aligned rows cols blk grid_cap)"

(* Source: src/include/ascify/target/dav_c310/detail/softmax_fp16_impl.hpp 588-679 Launch *)
definition softmax_Launch ::
    "'w acl_env \<Rightarrow> (softmax_kernel launch_geometry \<Rightarrow> 'w \<Rightarrow> 'w)
     \<Rightarrow> ptr \<Rightarrow> ptr \<Rightarrow> ptr \<Rightarrow> int \<Rightarrow> int \<Rightarrow> int \<Rightarrow> int \<Rightarrow> 'w host_state \<Rightarrow> aclError \<times> 'w host_state"
where
  "softmax_Launch env run s x y rows cols blk grid_cap st =
     (if s = 0 \<or> x = 0 \<or> y = 0 \<or> rows \<le> 0 \<or> cols \<le> 0
         \<or> rows > int64_max div cols \<or> grid_cap < 0
      then (ACL_ERROR_RT_PARAM_INVALID, st)
      else if blk \<noteq> 0 \<and> (blk < smn_kWarpSize \<or> blk > 1024 \<or> blk mod smn_kWarpSize \<noteq> 0)
      then (ACL_ERROR_RT_PARAM_INVALID, st)
      else
        let (count, st) = smn_vector_core_count env st;
            grid_cap = (if grid_cap = 0 then count * 32 else grid_cap);
            w = run (softmax_plan count grid_cap x y rows cols blk) (hs_world st);
            (e, w) = env_peek_last_error env w
        in (e, st\<lparr>hs_world := w\<rparr>))"

section \<open>RMS norm\<close>

(* Source: src/include/ascify/target/dav_c310/detail/rmsnorm_fp16_impl.hpp 42-43 kMaxThreadsPerBlock *)
definition rms_kMaxThreadsPerBlock :: int where [model_defs]: "rms_kMaxThreadsPerBlock = 1024"

(* Source: src/include/ascify/target/dav_c310/detail/rmsnorm_fp16_impl.hpp 44-45 kFallbackAivCount *)
definition rms_kFallbackAivCount :: int where [model_defs]: "rms_kFallbackAivCount = 56"

(* Source: src/include/ascify/target/dav_c310/detail/rmsnorm_fp16_impl.hpp 46-49 kCacheColumns *)
definition rms_kCacheColumns :: int where [model_defs]: "rms_kCacheColumns = 8192"

text \<open>A kernel specialisation carries its \<open>kAffine\<close> flag and its capacity
  template arguments.\<close>

datatype rms_kernel =
    Rms_block_cached_vector bool int int
  | Rms_cached_vector bool int
  | Rms_cached_scalar bool int
  | Rms_streaming_vector bool
  | Rms_streaming_scalar bool

(* Source: src/include/ascify/target/dav_c310/detail/rmsnorm_fp16_impl.hpp 387-403 VectorCoreCount *)
definition rms_VectorCoreCount :: "'w acl_env \<Rightarrow> 'w host_state \<Rightarrow> int \<times> 'w host_state" where
  "rms_VectorCoreCount env s =
     (case hs_rms_cached_count s of
        Some n \<Rightarrow> (n, s)
      | None \<Rightarrow>
          let (n, w) = query_core_count env rms_kFallbackAivCount (hs_world s)
          in (n, s\<lparr>hs_world := w, hs_rms_cached_count := Some n\<rparr>))"

function rms_grow_warps :: "int \<Rightarrow> int \<Rightarrow> int" where
  "rms_grow_warps required_warps warps_per_block =
     (if 0 < warps_per_block \<and> warps_per_block < rms_kMaxThreadsPerBlock div 32
         \<and> warps_per_block < required_warps
      then rms_grow_warps required_warps (warps_per_block * 2) else warps_per_block)"
  by auto
termination
  by (relation "measure (\<lambda>(r, w). nat (32 - w))") (auto simp: rms_kMaxThreadsPerBlock_def)

declare rms_grow_warps.simps [simp del]

(* Source: src/include/ascify/target/dav_c310/detail/rmsnorm_fp16_impl.hpp 405-415 ChooseBlockThreads *)
definition rms_ChooseBlockThreads :: "int \<Rightarrow> int \<Rightarrow> int" where
  "rms_ChooseBlockThreads count rows =
     (let target_blocks = count * 4;
          required_warps = 1 + (rows - 1) div target_blocks
      in rms_grow_warps required_warps 1 * 32)"

(* Source: src/include/ascify/target/dav_c310/detail/rmsnorm_fp16_impl.hpp 417-426 IsVectorAligned *)
definition rms_IsVectorAligned :: "ptr \<Rightarrow> ptr \<Rightarrow> ptr \<Rightarrow> int \<Rightarrow> bool" where
  "rms_IsVectorAligned input output weight columns \<longleftrightarrow>
     columns mod 8 = 0 \<and> and input 15 = 0 \<and> and output 15 = 0
     \<and> (weight = 0 \<or> and weight 15 = 0)"

(* Source: src/include/ascify/target/dav_c310/detail/rmsnorm_fp16_impl.hpp 428-432 ShouldUseBlockRow *)
definition rms_ShouldUseBlockRow :: "int \<Rightarrow> int \<Rightarrow> bool \<Rightarrow> bool" where
  "rms_ShouldUseBlockRow rows columns vector_aligned \<longleftrightarrow>
     vector_aligned \<and> rows \<le> 256 \<and> columns \<ge> 4096 \<and> columns \<le> rms_kCacheColumns"

(* Source: src/include/ascify/target/dav_c310/detail/rmsnorm_fp16_impl.hpp 445-459 DispatchBlockCachedVectorCapacity *)
definition rms_block_capacity :: "int \<Rightarrow> int" where
  "rms_block_capacity columns = (if columns \<le> 4096 then 4096 else rms_kCacheColumns)"

(* Source: src/include/ascify/target/dav_c310/detail/rmsnorm_fp16_impl.hpp 461-486 LaunchBlockCachedVector *)
definition rms_LaunchBlockCachedVector ::
    "bool \<Rightarrow> int \<Rightarrow> int \<Rightarrow> int \<Rightarrow> int \<Rightarrow> rms_kernel launch_geometry" where
  "rms_LaunchBlockCachedVector affine rows columns block_threads grid_cap =
     (let grid_blocks = (if rows > grid_cap then grid_cap else rows);
          threads = (if block_threads = 128 then 128 else if block_threads = 256 then 256
                     else if block_threads = 512 then 512 else 1024)
      in \<lparr>lg_kernel = Rms_block_cached_vector affine threads (rms_block_capacity columns),
          lg_grid = grid_blocks, lg_block = threads\<rparr>)"

(* Source: src/include/ascify/target/dav_c310/detail/rmsnorm_fp16_impl.hpp 500-533 DispatchCachedVector *)
definition rms_DispatchCachedVector :: "bool \<Rightarrow> int \<Rightarrow> rms_kernel" where
  "rms_DispatchCachedVector affine columns =
     Rms_cached_vector affine
       (if columns \<le> 256 then 1 else if columns \<le> 512 then 2 else if columns \<le> 1024 then 4
        else if columns \<le> 2048 then 8 else if columns \<le> 4096 then 16 else 32)"

(* Source: src/include/ascify/target/dav_c310/detail/rmsnorm_fp16_impl.hpp 547-591 DispatchCachedScalar *)
definition rms_DispatchCachedScalar :: "bool \<Rightarrow> int \<Rightarrow> rms_kernel" where
  "rms_DispatchCachedScalar affine columns =
     Rms_cached_scalar affine
       (if columns \<le> 32 then 1 else if columns \<le> 64 then 2 else if columns \<le> 128 then 4
        else if columns \<le> 256 then 8 else if columns \<le> 512 then 16 else if columns \<le> 1024 then 32
        else if columns \<le> 2048 then 64 else if columns \<le> 4096 then 128 else 256)"

(* Source: src/include/ascify/target/dav_c310/detail/rmsnorm_fp16_impl.hpp 593-628 LaunchSpecialized *)
definition rms_LaunchSpecialized ::
    "bool \<Rightarrow> ptr \<Rightarrow> ptr \<Rightarrow> ptr \<Rightarrow> int \<Rightarrow> int \<Rightarrow> int \<Rightarrow> int \<Rightarrow> rms_kernel launch_geometry" where
  "rms_LaunchSpecialized affine input output weight rows columns block_threads grid_cap =
     (let warps_per_block = block_threads div 32;
          grid_blocks = 1 + (rows - 1) div warps_per_block;
          grid_blocks = (if grid_blocks > grid_cap then grid_cap else grid_blocks);
          vector_aligned = rms_IsVectorAligned input output (if affine then weight else 0) columns;
          kernel = (if columns \<le> rms_kCacheColumns
                    then (if vector_aligned then rms_DispatchCachedVector affine columns
                          else rms_DispatchCachedScalar affine columns)
                    else (if vector_aligned then Rms_streaming_vector affine
                          else Rms_streaming_scalar affine))
      in \<lparr>lg_kernel = kernel, lg_grid = grid_blocks, lg_block = block_threads\<rparr>)"

(* Source: src/include/ascify/target/dav_c310/detail/rmsnorm_fp16_impl.hpp 650-693 Launch (geometry) *)
definition rms_plan ::
    "int \<Rightarrow> int \<Rightarrow> ptr \<Rightarrow> ptr \<Rightarrow> ptr \<Rightarrow> int \<Rightarrow> int \<Rightarrow> int \<Rightarrow> rms_kernel launch_geometry" where
  "rms_plan count grid_cap input output weight rows columns block_threads =
     (let vector_aligned = rms_IsVectorAligned input output weight columns in
      if rms_ShouldUseBlockRow rows columns vector_aligned
         \<and> block_threads \<in> {0, 128, 256, 512, 1024}
      then let block_row_threads = (if block_threads = 0 then (if weight = 0 then 512 else 256)
                                    else block_threads)
           in rms_LaunchBlockCachedVector (weight \<noteq> 0) rows columns block_row_threads grid_cap
      else let block_threads = (if block_threads = 0 then rms_ChooseBlockThreads count rows
                                else block_threads)
           in rms_LaunchSpecialized (weight \<noteq> 0) input output weight rows columns block_threads
                grid_cap)"

(* Source: src/include/ascify/target/dav_c310/detail/rmsnorm_fp16_impl.hpp 630-694 Launch *)
definition rms_Launch ::
    "'w acl_env \<Rightarrow> (rms_kernel launch_geometry \<Rightarrow> 'w \<Rightarrow> 'w)
     \<Rightarrow> ptr \<Rightarrow> ptr \<Rightarrow> ptr \<Rightarrow> ptr \<Rightarrow> ptr \<Rightarrow> int \<Rightarrow> int \<Rightarrow> u64 \<Rightarrow> int \<Rightarrow> int
     \<Rightarrow> 'w host_state \<Rightarrow> aclError \<times> 'w host_state"
where
  "rms_Launch env run stream input output weight inverse_rms rows columns epsilon block_threads
       grid_cap st =
     (if stream = 0 \<or> input = 0 \<or> output = 0 \<or> inverse_rms = 0 \<or> rows \<le> 0 \<or> columns \<le> 0
         \<or> columns > 2147483647 \<or> rows > int64_max div columns
         \<or> \<not> double_gt0 epsilon \<or> \<not> double_isfinite epsilon
      then (ACL_ERROR_RT_PARAM_INVALID, st)
      else if (block_threads \<noteq> 0
               \<and> (block_threads < 32 \<or> block_threads > rms_kMaxThreadsPerBlock
                  \<or> block_threads mod 32 \<noteq> 0)) \<or> grid_cap < 0
      then (ACL_ERROR_RT_PARAM_INVALID, st)
      else
        let (cap, st) = (if grid_cap = 0
              then (let (n, st) = rms_VectorCoreCount env st in (n * 32, st)) else (grid_cap, st));
            block_row = rms_ShouldUseBlockRow rows columns
              (rms_IsVectorAligned input output weight columns)
              \<and> block_threads \<in> {0, 128, 256, 512, 1024};
            (count, st) = (if \<not> block_row \<and> block_threads = 0 then rms_VectorCoreCount env st
                           else (0, st));
            w = run (rms_plan count cap input output weight rows columns block_threads)
                  (hs_world st);
            (e, w) = env_peek_last_error env w
        in (e, st\<lparr>hs_world := w\<rparr>))"

section \<open>Every launch fits its kernel\<close>

definition valid_count :: "int \<Rightarrow> bool" where
  "valid_count n \<longleftrightarrow> 1 \<le> n \<and> n \<le> 1024"

definition valid_block :: "int \<Rightarrow> bool" where
  "valid_block blk \<longleftrightarrow> 32 \<le> blk \<and> blk \<le> 1024 \<and> 32 dvd blk"

definition host_ok :: "'w host_state \<Rightarrow> bool" where
  "host_ok st \<longleftrightarrow> (\<forall>n. hs_smn_cached_count st = Some n \<longrightarrow> valid_count n)
     \<and> (\<forall>n. hs_rms_cached_count st = Some n \<longrightarrow> valid_count n)"

lemma query_core_count_valid:
  "valid_count fallback \<Longrightarrow> valid_count (fst (query_core_count env fallback w))"
  by (auto simp: query_core_count_def valid_count_def Let_def split: prod.splits)

lemma smn_vector_core_count_ok:
  assumes "host_ok st"
  shows "valid_count (fst (smn_vector_core_count env st))"
    and "host_ok (snd (smn_vector_core_count env st))"
    and "hs_smn_cached_count (snd (smn_vector_core_count env st))
           = Some (fst (smn_vector_core_count env st))"
  using assms query_core_count_valid[of SMN_FALLBACK_AIV_COUNT env "hs_world st"]
  by (auto simp: smn_vector_core_count_def host_ok_def valid_count_def SMN_FALLBACK_AIV_COUNT_def
      Let_def split: option.splits prod.splits)

lemma rms_VectorCoreCount_ok:
  assumes "host_ok st"
  shows "valid_count (fst (rms_VectorCoreCount env st))"
    and "host_ok (snd (rms_VectorCoreCount env st))"
  using assms query_core_count_valid[of rms_kFallbackAivCount env "hs_world st"]
  by (auto simp: rms_VectorCoreCount_def host_ok_def valid_count_def rms_kFallbackAivCount_def
      Let_def split: option.splits prod.splits)

text \<open>A softmax specialisation fits a row of \<open>cols\<close> halves when its cache holds
  the row, its template block size is the launched one, and a 16-byte kernel
  only sees aligned rows.\<close>

fun softmax_kernel_fits :: "softmax_kernel \<Rightarrow> int \<Rightarrow> int \<Rightarrow> bool \<Rightarrow> bool" where
  "softmax_kernel_fits (Smn_block_cached threads cache) blk cols aligned
     \<longleftrightarrow> cols \<le> cache \<and> threads = blk \<and> aligned"
| "softmax_kernel_fits Smn_cached blk cols aligned \<longleftrightarrow> cols \<le> 4096 \<and> aligned"
| "softmax_kernel_fits Smn_cached_s blk cols aligned \<longleftrightarrow> cols \<le> 4096"
| "softmax_kernel_fits Smn_stream blk cols aligned \<longleftrightarrow> aligned"
| "softmax_kernel_fits Smn_stream_s blk cols aligned \<longleftrightarrow> True"

lemma smn_spread_cases:
  assumes "blk \<in> {256, 512, 1024}"
  shows "smn_spread rows blk \<in> {256, 512, 1024}"
proof -
  have a: "smn_spread rows 256 = 256"
    by (subst smn_spread.simps) simp
  have b: "smn_spread rows 512 \<in> {256, 512}"
    by (subst smn_spread.simps) (simp add: a)
  have "smn_spread rows 1024 \<in> {256, 512, 1024}"
    by (subst smn_spread.simps) (use b in auto)
  then show ?thesis
    using assms a b by auto
qed

lemma valid_block_cases: "blk \<in> {256, 512, 1024} \<Longrightarrow> valid_block blk"
  by (auto simp: valid_block_def)

lemma smn_block_kernel_fits:
  assumes "cols \<le> 32768" and "smn_block_kernel count rows cols = (k, threads)"
  shows "softmax_kernel_fits k threads cols True \<and> valid_block threads"
  using assms by (auto simp: smn_block_kernel_def Let_def valid_block_def split: if_splits)

lemma valid_block_warps: "valid_block blk \<Longrightarrow> 1 \<le> blk div 32"
  by (auto simp: valid_block_def elim!: dvdE)

lemma smn_warp_plan_fits:
  assumes "0 < rows" and "blk = 0 \<or> valid_block blk" and "1 \<le> grid_cap"
    and "smn_warp_plan aligned rows cols blk grid_cap = g"
  shows "softmax_kernel_fits (lg_kernel g) (lg_block g) cols aligned \<and> valid_block (lg_block g)
    \<and> 1 \<le> lg_grid g \<and> lg_grid g \<le> grid_cap
    \<and> (lg_grid g - 1) * (lg_block g div 32) < rows"
proof -
  define b where "b = (if blk \<le> 0
      then smn_spread rows (if cols \<le> smn_kCacheColumns then 1024 else 512) else blk)"
  have b: "valid_block b"
    using assms(2) smn_spread_cases[of 1024 rows] smn_spread_cases[of 512 rows]
    by (auto simp: b_def valid_block_cases)
  define wpb where "wpb = b div 32"
  have w: "1 \<le> wpb"
    using valid_block_warps[OF b] by (simp add: wpb_def)
  define q where "q = (rows - 1) div wpb"
  have q: "0 \<le> q"
    using assms(1) w by (simp add: q_def pos_imp_zdiv_nonneg_iff)
  have "q * wpb + (rows - 1) mod wpb = rows - 1" and "0 \<le> (rows - 1) mod wpb"
    using w by (simp_all add: q_def)
  then have m: "q * wpb < rows"
    by linarith
  have grid: "lg_grid g = min grid_cap (1 + q)" and blk: "lg_block g = b"
    using assms(3,4) q by (auto simp: smn_warp_plan_def Let_def b_def[symmetric]
        wpb_def[symmetric] q_def[symmetric])
  have "(lg_grid g - 1) * wpb \<le> q * wpb"
    using grid w by (intro mult_right_mono) auto
  moreover have "softmax_kernel_fits (lg_kernel g) (lg_block g) cols aligned"
    using assms(4) by (auto simp: smn_warp_plan_def Let_def smn_kCacheColumns_def)
  ultimately show ?thesis
    using grid blk b m q assms(3) by (simp add: wpb_def)
qed

text \<open>Every softmax launch the dispatch plans is one the kernel
  supports: the chosen specialisation caches the whole row (or streams it), a
  16-byte kernel is used only for 16-byte aligned rows, the block is 32 to 1024
  threads in whole warps, and the grid has between 1 and \<open>grid_cap\<close> blocks, none
  of them without a row.\<close>
theorem softmax_plan_fits:
  assumes "1 \<le> count" and "count \<le> 1024" and "1 \<le> grid_cap" and "0 < rows" and "0 < cols"
    and "blk = 0 \<or> (32 \<le> blk \<and> blk \<le> 1024 \<and> 32 dvd blk)"
    and "softmax_plan count grid_cap x y rows cols blk = g"
  shows "softmax_kernel_fits (lg_kernel g) (lg_block g) cols
           (cols mod 8 = 0 \<and> smn_is_aligned16 x \<and> smn_is_aligned16 y)
    \<and> 32 \<le> lg_block g \<and> lg_block g \<le> 1024 \<and> 32 dvd lg_block g
    \<and> 1 \<le> lg_grid g \<and> lg_grid g \<le> grid_cap \<and> lg_grid g \<le> rows"
proof (cases "cols > smn_kCacheColumns \<and> cols \<le> 32768
    \<and> (cols mod 8 = 0 \<and> smn_is_aligned16 x \<and> smn_is_aligned16 y)
    \<and> smn_block_shape count rows cols")
  case True
  obtain k threads where k: "smn_block_kernel count rows cols = (k, threads)"
    by fastforce
  then have "g = \<lparr>lg_kernel = k, lg_grid = min rows grid_cap, lg_block = threads\<rparr>"
    using True assms by (auto simp: softmax_plan_def Let_def min_def)
  then show ?thesis
    using smn_block_kernel_fits[OF _ k] True assms by (simp add: valid_block_def)
next
  case False
  then have plan: "smn_warp_plan (cols mod 8 = 0 \<and> smn_is_aligned16 x \<and> smn_is_aligned16 y)
      rows cols blk grid_cap = g"
    using assms by (auto simp: softmax_plan_def Let_def)
  have blk: "blk = 0 \<or> valid_block blk"
    using assms(6) by (simp add: valid_block_def)
  note fits = smn_warp_plan_fits[OF assms(4) blk assms(3) plan]
  have "(lg_grid g - 1) * 1 \<le> (lg_grid g - 1) * (lg_block g div 32)"
    using fits by (intro mult_left_mono) (auto simp: valid_block_def)
  then show ?thesis
    using fits by (auto simp: valid_block_def)
qed

lemma softmax_plan_fits_witness:
  "softmax_plan 56 1792 0x1000 0x8000 4 8192 0
     = \<lparr>lg_kernel = Smn_block_cached 512 8192, lg_grid = 4, lg_block = 512\<rparr>
   \<and> softmax_kernel_fits (Smn_block_cached 512 8192) 512 8192 True"
proof -
  have p: "softmax_plan 56 1792 0x1000 0x8000 4 8192 0
     = \<lparr>lg_kernel = Smn_block_cached 512 8192, lg_grid = 4, lg_block = 512\<rparr>"
    by (simp add: softmax_plan_def smn_block_shape_def smn_block_kernel_def smn_is_aligned16_def
        smn_kCacheColumns_def Let_def)
  show ?thesis
    using softmax_plan_fits[OF _ _ _ _ _ _ p] p by (simp add: smn_is_aligned16_def)
qed

fun rms_kernel_fits :: "rms_kernel \<Rightarrow> int \<Rightarrow> int \<Rightarrow> bool \<Rightarrow> bool \<Rightarrow> bool" where
  "rms_kernel_fits (Rms_block_cached_vector a threads cache) blk cols affine aligned
     \<longleftrightarrow> a = affine \<and> threads = blk \<and> cols \<le> cache \<and> aligned"
| "rms_kernel_fits (Rms_cached_vector a n) blk cols affine aligned
     \<longleftrightarrow> a = affine \<and> 0 < n \<and> n \<le> 32 \<and> cols \<le> 32 * 8 * n \<and> aligned"
| "rms_kernel_fits (Rms_cached_scalar a n) blk cols affine aligned
     \<longleftrightarrow> a = affine \<and> 0 < n \<and> n \<le> 256 \<and> cols \<le> 32 * n"
| "rms_kernel_fits (Rms_streaming_vector a) blk cols affine aligned \<longleftrightarrow> a = affine \<and> aligned"
| "rms_kernel_fits (Rms_streaming_scalar a) blk cols affine aligned \<longleftrightarrow> a = affine"

lemma rms_grow_warps_cases:
  assumes "w \<in> {1, 2, 4, 8, 16, 32}"
  shows "rms_grow_warps r w \<in> {1, 2, 4, 8, 16, 32}
    \<and> (rms_grow_warps r w = 32 \<or> r \<le> rms_grow_warps r w)"
proof -
  let ?P = "\<lambda>w. rms_grow_warps r w \<in> {1, 2, 4, 8, 16, 32}
    \<and> (rms_grow_warps r w = 32 \<or> r \<le> rms_grow_warps r w)"
  have 32: "?P 32"
  proof -
    have "rms_grow_warps r 32 = 32"
      by (subst rms_grow_warps.simps) (simp add: rms_kMaxThreadsPerBlock_def)
    then show ?thesis
      by simp
  qed
  have step: "?P w" if "?P (w * 2)" "w \<in> {1, 2, 4, 8, 16}" for w
  proof -
    have "rms_grow_warps r w = (if w < r then rms_grow_warps r (w * 2) else w)"
      using that(2) by (subst rms_grow_warps.simps) (auto simp: rms_kMaxThreadsPerBlock_def)
    moreover have "w \<in> {1, 2, 4, 8, 16, 32}"
      using that(2) by blast
    ultimately show ?thesis
      using that(1) by (cases "w < r") simp_all
  qed
  have 16: "?P 16" by (rule step) (use 32 in simp_all)
  have 8: "?P 8" by (rule step) (use 16 in simp_all)
  have 4: "?P 4" by (rule step) (use 8 in simp_all)
  have 2: "?P 2" by (rule step) (use 4 in simp_all)
  have 1: "?P 1" by (rule step) (use 2 in simp_all)
  show ?thesis
    using assms by (elim insertE emptyE; hypsubst) (rule 1 2 4 8 16 32)+
qed

lemma rms_ChooseBlockThreads_valid: "valid_block (rms_ChooseBlockThreads count rows)"
  using rms_grow_warps_cases[of 1 "1 + (rows - 1) div (count * 4)"]
  by (auto simp: rms_ChooseBlockThreads_def Let_def valid_block_def)

lemma rms_LaunchSpecialized_fits:
  assumes "0 < rows" and "valid_block blk" and "1 \<le> cap"
    and "rms_LaunchSpecialized (weight \<noteq> 0) input output weight rows cols blk cap = g"
  shows "rms_kernel_fits (lg_kernel g) (lg_block g) cols (weight \<noteq> 0)
           (rms_IsVectorAligned input output weight cols)
    \<and> lg_block g = blk \<and> 1 \<le> lg_grid g \<and> lg_grid g \<le> cap \<and> lg_grid g \<le> rows"
proof -
  have w: "1 \<le> blk div 32"
    using valid_block_warps[OF assms(2)] .
  have q: "0 \<le> (rows - 1) div (blk div 32)" and "(rows - 1) div (blk div 32) \<le> rows - 1"
    using assms(1) w zdiv_mono2[of "rows - 1" 1 "blk div 32"]
    by (simp_all add: pos_imp_zdiv_nonneg_iff)
  moreover have "rms_IsVectorAligned input output (if weight \<noteq> 0 then weight else 0) cols
      = rms_IsVectorAligned input output weight cols"
    by simp
  moreover have "rms_kernel_fits (lg_kernel g) (lg_block g) cols (weight \<noteq> 0)
           (rms_IsVectorAligned input output weight cols)"
    using assms(4)
    by (auto simp: rms_LaunchSpecialized_def Let_def rms_DispatchCachedVector_def
        rms_DispatchCachedScalar_def rms_kCacheColumns_def)
  ultimately show ?thesis
    using assms by (auto simp: rms_LaunchSpecialized_def Let_def)
qed

text \<open>Every RMS norm launch the dispatch plans is one the kernel
  supports: the affine flag matches the presence of a weight, the cache
  capacity of the chosen specialisation holds the row, a 16-byte kernel is
  used only when input, output and weight are 16-byte aligned, the block is 32
  to 1024 threads in whole warps, and the grid has between 1 and \<open>grid_cap\<close>
  blocks and no more blocks than rows.\<close>
theorem rms_plan_fits:
  assumes "1 \<le> grid_cap" and "0 < rows" and "0 < cols"
    and "blk = 0 \<or> (32 \<le> blk \<and> blk \<le> 1024 \<and> 32 dvd blk)"
    and "rms_plan count grid_cap input output weight rows cols blk = g"
  shows "rms_kernel_fits (lg_kernel g) (lg_block g) cols (weight \<noteq> 0)
           (rms_IsVectorAligned input output weight cols)
    \<and> 32 \<le> lg_block g \<and> lg_block g \<le> 1024 \<and> 32 dvd lg_block g
    \<and> 1 \<le> lg_grid g \<and> lg_grid g \<le> grid_cap \<and> lg_grid g \<le> rows"
proof (cases "rms_ShouldUseBlockRow rows cols (rms_IsVectorAligned input output weight cols)
    \<and> blk \<in> {0, 128, 256, 512, 1024}")
  case True
  then show ?thesis
    using assms
    by (auto simp: rms_plan_def Let_def rms_LaunchBlockCachedVector_def rms_block_capacity_def
        rms_ShouldUseBlockRow_def rms_kCacheColumns_def)
next
  case False
  define b where "b = (if blk = 0 then rms_ChooseBlockThreads count rows else blk)"
  have b: "valid_block b"
    using assms(4) rms_ChooseBlockThreads_valid[of count rows] by (auto simp: b_def valid_block_def)
  have g: "rms_LaunchSpecialized (weight \<noteq> 0) input output weight rows cols b grid_cap = g"
    using assms(5) False unfolding rms_plan_def Let_def b_def by argo
  show ?thesis
    using rms_LaunchSpecialized_fits[OF assms(2) b assms(1) g] b by (auto simp: valid_block_def)
qed

lemma rms_plan_fits_witness:
  "rms_plan 56 1792 0x1000 0x8000 0 4 8192 0
     = \<lparr>lg_kernel = Rms_block_cached_vector False 512 8192, lg_grid = 4, lg_block = 512\<rparr>
   \<and> rms_kernel_fits (Rms_block_cached_vector False 512 8192) 512 8192 False True"
proof -
  have p: "rms_plan 56 1792 0x1000 0x8000 0 4 8192 0
     = \<lparr>lg_kernel = Rms_block_cached_vector False 512 8192, lg_grid = 4, lg_block = 512\<rparr>"
    by (simp add: rms_plan_def rms_ShouldUseBlockRow_def rms_IsVectorAligned_def Let_def
        rms_LaunchBlockCachedVector_def rms_block_capacity_def rms_kCacheColumns_def)
  show ?thesis
    using rms_plan_fits[OF _ _ _ _ p] p by (simp add: rms_IsVectorAligned_def)
qed

end
