(* ===== verification/Hybrid_Registry.thy ===== *)
theory Hybrid_Registry
  imports Prelude
begin

text \<open>
  The registry contract of the row-wise hybrid recipes
  (\<open>rowwise_hybrid_registry_v1.hpp\<close>): stage descriptors, the shape validator run
  at compile time, and the dispatcher whose \<open>static_assert\<close> requires a valid
  registered recipe (None stands for a program that does not compile).
\<close>

(* Source: src/include/ascify/target/dav_c310/rowwise_hybrid_registry_v1.hpp 16-20 HybridEngine *)
datatype HybridEngine = kMte | kSimd | kSimtEngine

(* Source: src/include/ascify/target/dav_c310/rowwise_hybrid_registry_v1.hpp 22-34 HybridStageKind *)
datatype HybridStageKind =
    kLoad | kReduceMaximum | kExponentiate | kReduceSum | kSquare | kMean
  | kReciprocalSqrt | kNormalize | kAffine | kOutputAdapt | kStore

(* Source: src/include/ascify/target/dav_c310/rowwise_hybrid_registry_v1.hpp 36-39 HybridStageDescriptor *)
record HybridStageDescriptor =
  stage_engine :: HybridEngine
  stage_kind :: HybridStageKind

(* Source: src/include/ascify/target/dav_c310/rowwise_hybrid_registry_v1.hpp 41-45 HybridRecipeDescriptor *)
record HybridRecipeDescriptor =
  recipe_id :: "string option"
  recipe_stages :: "HybridStageDescriptor list option"
  recipe_stage_count :: nat

(* Source: src/include/ascify/target/dav_c310/rowwise_hybrid_registry_v1.hpp 47-49 HasText *)
definition HasText :: "string option \<Rightarrow> bool" where
  "HasText text \<longleftrightarrow> text \<noteq> None \<and> the text \<noteq> []"

text \<open>The loop over the inner stages, from \<open>index\<close>, with its three flags; the
  result is the value the function returns.\<close>

(* Source: src/include/ascify/target/dav_c310/rowwise_hybrid_registry_v1.hpp 66-94 IsValidHybridRecipe (loop) *)
function hybrid_loop ::
    "HybridStageDescriptor list \<Rightarrow> nat \<Rightarrow> nat \<Rightarrow> bool \<Rightarrow> bool \<Rightarrow> bool \<Rightarrow> bool" where
  "hybrid_loop stages count index saw_simd saw_simt saw_output_adapt =
     (if \<not> index + 1 < count then saw_simd \<and> saw_simt \<and> saw_output_adapt
      else let stage = stages ! index in
        if stage_engine stage = kMte then False
        else if stage_engine stage = kSimd then
          (if saw_simt then False
           else hybrid_loop stages count (index + 1) True saw_simt saw_output_adapt)
        else if stage_engine stage \<noteq> kSimtEngine \<or> \<not> saw_simd \<or> saw_output_adapt then False
        else hybrid_loop stages count (index + 1) saw_simd True
               (stage_kind stage = kOutputAdapt \<or> saw_output_adapt))"
  by auto
termination
  by (relation "measure (\<lambda>(stages, count, index, _). count - index)") auto

declare hybrid_loop.simps [simp del]

(* Source: src/include/ascify/target/dav_c310/rowwise_hybrid_registry_v1.hpp 54-95 IsValidHybridRecipe *)
definition IsValidHybridRecipe :: "HybridRecipeDescriptor \<Rightarrow> bool" where
  "IsValidHybridRecipe recipe =
     (if \<not> HasText (recipe_id recipe) \<or> recipe_stages recipe = None
         \<or> recipe_stage_count recipe < 4
         \<or> stage_engine (the (recipe_stages recipe) ! 0) \<noteq> kMte
         \<or> stage_kind (the (recipe_stages recipe) ! 0) \<noteq> kLoad
         \<or> stage_engine (the (recipe_stages recipe) ! (recipe_stage_count recipe - 1)) \<noteq> kMte
         \<or> stage_kind (the (recipe_stages recipe) ! (recipe_stage_count recipe - 1)) \<noteq> kStore
      then False
      else hybrid_loop (the (recipe_stages recipe)) (recipe_stage_count recipe) 1
             False False False)"

text \<open>A recipe class: its \<open>kRegistered\<close> flag, its descriptor and its \<open>Try\<close>.\<close>

record ('args, 'r) hybrid_recipe =
  hr_registered :: bool
  hr_descriptor :: HybridRecipeDescriptor
  hr_try :: "'args \<Rightarrow> 'r"

(* Source: src/include/ascify/target/dav_c310/rowwise_hybrid_registry_v1.hpp 97-106 IsRegisteredHybridRecipe *)
definition IsRegisteredHybridRecipe :: "('args, 'r) hybrid_recipe \<Rightarrow> bool" where
  "IsRegisteredHybridRecipe recipe \<longleftrightarrow>
     hr_registered recipe \<and> IsValidHybridRecipe (hr_descriptor recipe)"

(* Source: src/include/ascify/target/dav_c310/rowwise_hybrid_registry_v1.hpp 108-115 DispatchRegisteredHybrid *)
definition DispatchRegisteredHybrid :: "('args, 'r) hybrid_recipe \<Rightarrow> 'args \<Rightarrow> 'r option" where
  "DispatchRegisteredHybrid recipe arguments =
     (if IsRegisteredHybridRecipe recipe then Some (hr_try recipe arguments) else None)"

section \<open>The validator accepts exactly one stage grammar\<close>

definition hybrid_inner :: "HybridStageDescriptor list \<Rightarrow> bool" where
  "hybrid_inner inner \<longleftrightarrow>
     (\<exists>simd simt adapt. inner = simd @ simt @ [adapt]
        \<and> simd \<noteq> [] \<and> (\<forall>s \<in> set simd. stage_engine s = kSimd)
        \<and> (\<forall>s \<in> set simt. stage_engine s = kSimtEngine \<and> stage_kind s \<noteq> kOutputAdapt)
        \<and> stage_engine adapt = kSimtEngine \<and> stage_kind adapt = kOutputAdapt)"

fun scan_inner :: "bool \<Rightarrow> bool \<Rightarrow> bool \<Rightarrow> HybridStageDescriptor list \<Rightarrow> bool" where
  "scan_inner saw_simd saw_simt saw_adapt [] = (saw_simd \<and> saw_simt \<and> saw_adapt)"
| "scan_inner saw_simd saw_simt saw_adapt (s # ss) =
     (case stage_engine s of
        kMte \<Rightarrow> False
      | kSimd \<Rightarrow> \<not> saw_simt \<and> scan_inner True saw_simt saw_adapt ss
      | kSimtEngine \<Rightarrow> saw_simd \<and> \<not> saw_adapt
          \<and> scan_inner saw_simd True (stage_kind s = kOutputAdapt \<or> saw_adapt) ss)"

lemma hybrid_loop_scan:
  assumes "count \<le> length stages" and "1 \<le> index" and "index + 1 \<le> count"
  shows "hybrid_loop stages count index a b c =
    scan_inner a b c (drop index (take (count - 1) stages))"
  using assms
proof (induction stages count index a b c rule: hybrid_loop.induct)
  case (1 stages count index a b c)
  show ?case
  proof (cases "index + 1 < count")
    case False
    then show ?thesis
      using 1(4,5) by (subst hybrid_loop.simps) simp
  next
    case True
    then have "drop index (take (count - 1) stages) =
        stages ! index # drop (index + 1) (take (count - 1) stages)"
      using 1(3) by (subst Cons_nth_drop_Suc[symmetric]) (auto simp: min_def)
    then show ?thesis
      using 1 True
      by (subst hybrid_loop.simps) (auto simp: Let_def split: HybridEngine.splits)
  qed
qed

definition simt_stage :: "HybridStageDescriptor \<Rightarrow> bool" where
  "simt_stage s \<longleftrightarrow> stage_engine s = kSimtEngine \<and> stage_kind s \<noteq> kOutputAdapt"

definition adapt_stage :: "HybridStageDescriptor \<Rightarrow> bool" where
  "adapt_stage s \<longleftrightarrow> stage_engine s = kSimtEngine \<and> stage_kind s = kOutputAdapt"

lemma scan_adapted: "scan_inner True True True ss \<longleftrightarrow> ss = []"
  by (cases ss) (auto split: HybridEngine.splits)

lemma scan_simt_intro:
  "list_all simt_stage simt \<Longrightarrow> adapt_stage adapt \<Longrightarrow> scan_inner True saw False (simt @ [adapt])"
  by (induction simt arbitrary: saw) (auto simp: simt_stage_def adapt_stage_def)

lemma scan_simt_elim:
  assumes "scan_inner True True False ss"
  shows "\<exists>simt adapt. ss = simt @ [adapt] \<and> list_all simt_stage simt \<and> adapt_stage adapt"
  using assms
proof (induction ss)
  case (Cons s ss)
  then have s: "stage_engine s = kSimtEngine"
    by (auto split: HybridEngine.splits)
  show ?case
  proof (cases "stage_kind s = kOutputAdapt")
    case True
    then show ?thesis
      using Cons.prems s scan_adapted[of ss]
      by (intro exI[of _ "[]"] exI[of _ s]) (simp add: adapt_stage_def)
  next
    case False
    then obtain simt adapt where "ss = simt @ [adapt]" "list_all simt_stage simt"
        "adapt_stage adapt"
      using Cons s by auto
    moreover have "simt_stage s"
      using False s by (simp add: simt_stage_def)
    ultimately show ?thesis
      by (intro exI[of _ "s # simt"] exI[of _ adapt]) simp
  qed
qed simp

lemma scan_simd_intro:
  "list_all (\<lambda>s. stage_engine s = kSimd) simd \<Longrightarrow> scan_inner True False False rest
    \<Longrightarrow> scan_inner True False False (simd @ rest)"
  by (induction simd) auto

lemma scan_simd_elim:
  assumes "scan_inner True False False ss"
  shows "\<exists>simd simt adapt. ss = simd @ simt @ [adapt]
    \<and> list_all (\<lambda>s. stage_engine s = kSimd) simd \<and> list_all simt_stage simt \<and> adapt_stage adapt"
  using assms
proof (induction ss)
  case (Cons s ss)
  show ?case
  proof (cases "stage_engine s = kSimd")
    case True
    then obtain simd simt adapt where "ss = simd @ simt @ [adapt]" "list_all simt_stage simt"
        "list_all (\<lambda>s. stage_engine s = kSimd) simd" "adapt_stage adapt"
      using Cons by auto
    then show ?thesis
      using True by (intro exI[of _ "s # simd"] exI[of _ simt] exI[of _ adapt]) simp
  next
    case False
    then have "scan_inner True True False (s # ss)"
      using Cons.prems by (auto split: HybridEngine.splits)
    then obtain simt adapt where "s # ss = simt @ [adapt] \<and> list_all simt_stage simt
        \<and> adapt_stage adapt"
      using scan_simt_elim by blast
    then show ?thesis
      by (intro exI[of _ "[]"] exI[of _ simt] exI[of _ adapt]) simp
  qed
qed simp

lemma scan_inner_iff: "scan_inner False False False ss \<longleftrightarrow> hybrid_inner ss"
proof
  assume scan: "scan_inner False False False ss"
  then obtain s ts where ss: "ss = s # ts" "stage_engine s = kSimd" "scan_inner True False False ts"
    by (cases ss) (auto split: HybridEngine.splits)
  obtain simd simt adapt where "ts = simd @ simt @ [adapt]" "list_all simt_stage simt"
      "list_all (\<lambda>s. stage_engine s = kSimd) simd" "adapt_stage adapt"
    using scan_simd_elim[OF ss(3)] by blast
  then show "hybrid_inner ss"
    unfolding hybrid_inner_def using ss
    by (intro exI[of _ "s # simd"] exI[of _ simt] exI[of _ adapt])
      (auto simp: simt_stage_def adapt_stage_def list_all_iff)
next
  assume "hybrid_inner ss"
  then obtain s simd simt adapt where "ss = (s # simd) @ simt @ [adapt]" "stage_engine s = kSimd"
      "list_all simt_stage simt" "list_all (\<lambda>s. stage_engine s = kSimd) simd" "adapt_stage adapt"
    unfolding hybrid_inner_def
    by (auto simp: neq_Nil_conv simt_stage_def adapt_stage_def list_all_iff)
  then show "scan_inner False False False ss"
    using scan_simd_intro[OF _ scan_simt_intro] by simp
qed

text \<open>The compile-time validator's flag machine accepts exactly
  one grammar: a non-empty id, an MTE load, one or more SIMD stages, any number
  of SIMT stages that are not output adaptation, one SIMT output adaptation, and
  an MTE store, in that order.\<close>
theorem hybrid_recipe_grammar:
  assumes "recipe_stages recipe = Some stages" and "recipe_stage_count recipe = length stages"
  shows "IsValidHybridRecipe recipe \<longleftrightarrow>
    HasText (recipe_id recipe)
    \<and> (\<exists>inner. stages = \<lparr>stage_engine = kMte, stage_kind = kLoad\<rparr> # inner
                  @ [\<lparr>stage_engine = kMte, stage_kind = kStore\<rparr>] \<and> hybrid_inner inner)"
  (is "?valid \<longleftrightarrow> ?grammar")
proof
  assume ?valid
  then have v: "HasText (recipe_id recipe)" "4 \<le> length stages"
      "stages ! 0 = \<lparr>stage_engine = kMte, stage_kind = kLoad\<rparr>"
      "stages ! (length stages - 1) = \<lparr>stage_engine = kMte, stage_kind = kStore\<rparr>"
      "hybrid_loop stages (length stages) 1 False False False"
    using assms by (auto simp: IsValidHybridRecipe_def split: if_splits intro!: HybridStageDescriptor.equality)
  obtain s inner t where st: "stages = s # inner @ [t]"
  proof -
    obtain s rest where "stages = s # rest" and "rest \<noteq> []"
      using v(2) by (cases stages) fastforce+
    then show thesis
      using that[of s "butlast rest" "last rest"] by simp
  qed
  have "hybrid_inner inner"
    using v(5) st hybrid_loop_scan[of "length stages" stages 1 False False False]
    by (simp add: scan_inner_iff)
  then show ?grammar
    using v st by (auto simp: nth_append)
next
  assume ?grammar
  then obtain inner where g: "HasText (recipe_id recipe)" "hybrid_inner inner"
      "stages = \<lparr>stage_engine = kMte, stage_kind = kLoad\<rparr> # inner
                  @ [\<lparr>stage_engine = kMte, stage_kind = kStore\<rparr>]"
    by blast
  have "2 \<le> length inner"
    using g(2) by (auto simp: hybrid_inner_def Suc_le_eq)
  moreover have "hybrid_loop stages (length stages) 1 False False False"
    using g hybrid_loop_scan[of "length stages" stages 1 False False False]
    by (simp add: scan_inner_iff)
  ultimately show ?valid
    using g assms by (simp add: IsValidHybridRecipe_def nth_append)
qed

lemma hybrid_recipe_grammar_witness:
  "IsValidHybridRecipe \<lparr>recipe_id = Some ''r'',
     recipe_stages = Some [\<lparr>stage_engine = kMte, stage_kind = kLoad\<rparr>,
        \<lparr>stage_engine = kSimd, stage_kind = kMean\<rparr>,
        \<lparr>stage_engine = kSimtEngine, stage_kind = kOutputAdapt\<rparr>,
        \<lparr>stage_engine = kMte, stage_kind = kStore\<rparr>],
     recipe_stage_count = 4\<rparr>"
  (is "IsValidHybridRecipe ?r")
proof -
  have "hybrid_inner [\<lparr>stage_engine = kSimd, stage_kind = kMean\<rparr>,
      \<lparr>stage_engine = kSimtEngine, stage_kind = kOutputAdapt\<rparr>]"
    by (simp flip: scan_inner_iff)
  then show ?thesis
    by (subst hybrid_recipe_grammar) (auto simp: HasText_def)
qed

end
