(* ===== verification/Rowwise_Recipes.thy ===== *)
theory Rowwise_Recipes
  imports Rowwise_Selectors Rowwise_Launch Hybrid_Registry
begin

text \<open>
  The row-wise recipes a translated launch wrapper calls: the hybrid
  (SIMD+SIMT) entry points of \<open>rowwise_simd_recipes.hpp\<close> and the SIMT entry
  points of \<open>rowwise_norm_recipes.hpp\<close>, each as a raw-pointer form and an
  adapter form, the three registered hybrid recipes with their facade, and the
  dispatch the translator emits around a call.

  The C++ type traits read facts about an adapter class; \<open>adapter_type\<close> records
  those facts.  The precompiled launch functions (\<open>extern "C"\<close>) are the fields
  of \<open>simd_abi\<close>, acting on a state of any type.
\<close>

section \<open>Adapter classes\<close>

datatype cpp_type = Cpp_half | Cpp_float | Cpp_void | Cpp_other nat

datatype cpp_qual = Unqualified cpp_type | Cv_qualified cpp_type

fun remove_cv :: "cpp_qual \<Rightarrow> cpp_type" where
  "remove_cv (Unqualified t) = t"
| "remove_cv (Cv_qualified t) = t"

text \<open>A field is None when the class has no such member.  \<open>at_data_converts\<close>
  tells whether the result of \<open>ascify_target_data()\<close> converts to
  \<open>const half*\<close> and to \<open>half*\<close>.\<close>

record adapter_type =
  at_direct_load_tag :: bool
  at_direct_store_tag :: bool
  at_owner_is_self :: "bool option"
  at_storage_type :: "cpp_qual option"
  at_compute_type :: "cpp_qual option"
  at_store_is_affine :: "bool option"
  at_data_converts :: "(bool \<times> bool) option"
  at_has_row_stride :: bool
  at_weight_converts :: "bool option"

record adapter =
  ad_type :: adapter_type
  ad_data :: ptr
  ad_row_stride :: u64
  ad_weight :: ptr

(* Source: src/include/ascify/target/dav_c310/rowwise_simd_recipes.hpp 102-144 HasMarkedLoadAccess *)
definition HasMarkedLoadAccess :: "adapter_type \<Rightarrow> bool" where
  "HasMarkedLoadAccess T =
     (case (at_owner_is_self T, at_storage_type T, at_compute_type T, at_data_converts T) of
        (Some owner, Some storage, Some compute, Some (to_const_half, _)) \<Rightarrow>
          at_direct_load_tag T \<and> at_has_row_stride T
          \<and> owner \<and> remove_cv storage = Cpp_half \<and> remove_cv compute = Cpp_float
          \<and> to_const_half
      | _ \<Rightarrow> False)"

(* Source: src/include/ascify/target/dav_c310/rowwise_simd_recipes.hpp 146-172 HasMarkedStoreAccess *)
definition HasMarkedStoreAccess :: "adapter_type \<Rightarrow> bool" where
  "HasMarkedStoreAccess T =
     (case (at_owner_is_self T, at_storage_type T, at_compute_type T, at_store_is_affine T,
            at_data_converts T) of
        (Some owner, Some storage, Some compute, Some _, Some (_, to_half)) \<Rightarrow>
          at_direct_store_tag T \<and> at_has_row_stride T
          \<and> owner \<and> remove_cv storage = Cpp_half \<and> remove_cv compute = Cpp_float
          \<and> to_half
      | _ \<Rightarrow> False)"

(* Source: src/include/ascify/target/dav_c310/rowwise_simd_recipes.hpp 174-186 HasMarkedAffineStoreAccess *)
definition HasMarkedAffineStoreAccess :: "adapter_type \<Rightarrow> bool" where
  "HasMarkedAffineStoreAccess T =
     (case (at_owner_is_self T, at_weight_converts T) of
        (Some owner, Some to_const_half) \<Rightarrow> at_direct_store_tag T \<and> owner \<and> to_const_half
      | _ \<Rightarrow> False)"

(* Source: src/include/ascify/target/dav_c310/rowwise_simd_recipes.hpp 188-203 LoadAccess *)
definition LoadAccess_kValid :: "adapter_type \<Rightarrow> bool" where
  "LoadAccess_kValid T = HasMarkedLoadAccess T"

(* Source: src/include/ascify/target/dav_c310/rowwise_simd_recipes.hpp 205-215 StoreAccess::kAffine *)
definition StoreAccess_kAffine :: "adapter_type \<Rightarrow> bool" where
  "StoreAccess_kAffine T = (HasMarkedStoreAccess T \<and> the (at_store_is_affine T))"

(* Source: src/include/ascify/target/dav_c310/rowwise_simd_recipes.hpp 216-221 StoreAccess::kValid *)
definition StoreAccess_kValid :: "adapter_type \<Rightarrow> bool" where
  "StoreAccess_kValid T =
     (HasMarkedStoreAccess T \<and> (\<not> StoreAccess_kAffine T \<or> HasMarkedAffineStoreAccess T))"

(* Source: src/include/ascify/target/dav_c310/rowwise_simd_recipes.hpp 222-234 StoreAccess::Weight *)
definition StoreAccess_Weight :: "adapter \<Rightarrow> ptr" where
  "StoreAccess_Weight value =
     (if StoreAccess_kAffine (ad_type value) \<and> HasMarkedAffineStoreAccess (ad_type value)
      then ad_weight value else 0)"

(* Source: src/include/ascify/target/dav_c310/rowwise_simd_recipes.hpp 236-248 MarkedComputeType *)
definition MarkedComputeType :: "adapter_type \<Rightarrow> cpp_qual" where
  "MarkedComputeType T = (case at_compute_type T of None \<Rightarrow> Unqualified Cpp_void | Some c \<Rightarrow> c)"

(* Source: src/include/ascify/target/dav_c310/rowwise_simd_recipes.hpp 250-262 HasSupportedComputeContract *)
definition HasSupportedComputeContract :: "cpp_qual \<Rightarrow> adapter_type \<Rightarrow> adapter_type \<Rightarrow> bool" where
  "HasSupportedComputeContract Compute Load Store \<longleftrightarrow>
     Compute = Unqualified Cpp_float \<and> Compute = MarkedComputeType Load
     \<and> Compute = MarkedComputeType Store"

section \<open>The hybrid entry points\<close>

(* Source: src/include/ascify/target/dav_c310/rowwise_simd_recipes.hpp 24-29 SimdTryResult *)
record SimdTryResult =
  handled :: bool
  status :: aclError

(* Source: src/include/ascify/target/dav_c310/rowwise_simd_recipes.hpp 31-33 NotHandled *)
definition NotHandled :: SimdTryResult where
  "NotHandled = \<lparr>handled = False, status = ACL_SUCCESS\<rparr>"

record 's simd_abi =
  abi_softmax :: "ptr \<Rightarrow> ptr \<Rightarrow> ptr \<Rightarrow> u64 \<Rightarrow> u32 \<Rightarrow> u32 \<Rightarrow> u32 \<Rightarrow> 's \<Rightarrow> aclError \<times> 's"
  abi_rmsnorm_cached :: "ptr \<Rightarrow> ptr \<Rightarrow> ptr \<Rightarrow> ptr \<Rightarrow> ptr \<Rightarrow> u64 \<Rightarrow> u64 \<Rightarrow> u64 \<Rightarrow> 's \<Rightarrow> aclError \<times> 's"
  abi_rmsnorm_plain_rowbatch :: "ptr \<Rightarrow> ptr \<Rightarrow> ptr \<Rightarrow> ptr \<Rightarrow> u64 \<Rightarrow> u64 \<Rightarrow> u64 \<Rightarrow> 's \<Rightarrow> aclError \<times> 's"
  abi_layernorm_cached :: "ptr \<Rightarrow> ptr \<Rightarrow> ptr \<Rightarrow> ptr \<Rightarrow> ptr \<Rightarrow> u64 \<Rightarrow> u64 \<Rightarrow> u64 \<Rightarrow> 's \<Rightarrow> aclError \<times> 's"

definition handled_launch :: "('s \<Rightarrow> aclError \<times> 's) \<Rightarrow> 's \<Rightarrow> SimdTryResult \<times> 's" where
  "handled_launch launch s = (let (e, s) = launch s in (\<lparr>handled = True, status = e\<rparr>, s))"

(* Source: src/include/ascify/target/dav_c310/rowwise_simd_recipes.hpp 35-45 TrySoftmaxSimd (raw) *)
definition TrySoftmaxSimd_raw ::
    "'s simd_abi \<Rightarrow> ptr \<Rightarrow> ptr \<Rightarrow> ptr \<Rightarrow> u64 \<Rightarrow> u64 \<Rightarrow> 's \<Rightarrow> SimdTryResult \<times> 's" where
  "TrySoftmaxSimd_raw abi stream input output rows columns s =
     (if \<not> IsSoftmaxSimdDomain stream input output rows columns 0 0 then (NotHandled, s)
      else handled_launch (abi_softmax abi stream input output rows (ucast columns) 0 0) s)"

(* Source: src/include/ascify/target/dav_c310/rowwise_simd_recipes.hpp 47-65 TryRmsNormSimd (raw) *)
definition TryRmsNormSimd_raw ::
    "'s simd_abi \<Rightarrow> ptr \<Rightarrow> ptr \<Rightarrow> ptr \<Rightarrow> ptr \<Rightarrow> u64 \<Rightarrow> u64 \<Rightarrow> u64 \<Rightarrow> ptr \<Rightarrow> 's
     \<Rightarrow> SimdTryResult \<times> 's" where
  "TryRmsNormSimd_raw abi stream input output weight rows columns epsilon inverse_rms s =
     (case SelectRmsNormRoute stream input output weight inverse_rms rows columns epsilon 0 0 of
        kPlainRowBatch \<Rightarrow>
          handled_launch (abi_rmsnorm_plain_rowbatch abi stream input output inverse_rms rows
            columns epsilon) s
      | kCached \<Rightarrow>
          handled_launch (abi_rmsnorm_cached abi stream input output weight inverse_rms rows
            columns epsilon) s
      | kSimt \<Rightarrow> (NotHandled, s))"

(* Source: src/include/ascify/target/dav_c310/rowwise_simd_recipes.hpp 67-78 TryLayerNormSimd (raw) *)
definition TryLayerNormSimd_raw ::
    "'s simd_abi \<Rightarrow> ptr \<Rightarrow> ptr \<Rightarrow> ptr \<Rightarrow> u64 \<Rightarrow> u64 \<Rightarrow> u64 \<Rightarrow> ptr \<Rightarrow> ptr \<Rightarrow> 's
     \<Rightarrow> SimdTryResult \<times> 's" where
  "TryLayerNormSimd_raw abi stream input output rows columns epsilon mean inverse_variance s =
     (if \<not> IsLayerNormCachedHybridDomain stream input output mean inverse_variance rows columns
           epsilon 0 0 then (NotHandled, s)
      else handled_launch (abi_layernorm_cached abi stream input output mean inverse_variance rows
             columns epsilon) s)"

(* Source: src/include/ascify/target/dav_c310/rowwise_simd_recipes.hpp 264-285 TrySoftmaxSimd *)
definition TrySoftmaxSimd ::
    "'s simd_abi \<Rightarrow> ptr \<Rightarrow> adapter \<Rightarrow> adapter \<Rightarrow> u64 \<Rightarrow> u64 \<Rightarrow> cpp_qual \<Rightarrow> 's
     \<Rightarrow> SimdTryResult \<times> 's" where
  "TrySoftmaxSimd abi stream load store rows columns Compute s =
     (if \<not> LoadAccess_kValid (ad_type load) \<or> \<not> StoreAccess_kValid (ad_type store)
         \<or> StoreAccess_kAffine (ad_type store)
         \<or> \<not> HasSupportedComputeContract Compute (ad_type load) (ad_type store)
      then (NotHandled, s)
      else if ad_row_stride load \<noteq> columns \<or> ad_row_stride store \<noteq> columns then (NotHandled, s)
      else TrySoftmaxSimd_raw abi stream (ad_data load) (ad_data store) rows columns s)"

(* Source: src/include/ascify/target/dav_c310/rowwise_simd_recipes.hpp 287-315 TryRmsNormSimd *)
definition TryRmsNormSimd ::
    "'s simd_abi \<Rightarrow> ptr \<Rightarrow> adapter \<Rightarrow> adapter \<Rightarrow> u64 \<Rightarrow> u64 \<Rightarrow> u64 \<Rightarrow> cpp_qual \<Rightarrow> ptr \<Rightarrow> cpp_qual
     \<Rightarrow> 's \<Rightarrow> SimdTryResult \<times> 's" where
  "TryRmsNormSimd abi stream load store rows columns epsilon Inverse inverse_rms Compute s =
     (if \<not> LoadAccess_kValid (ad_type load) \<or> \<not> StoreAccess_kValid (ad_type store)
         \<or> Inverse \<noteq> Unqualified Cpp_float
         \<or> \<not> HasSupportedComputeContract Compute (ad_type load) (ad_type store)
      then (NotHandled, s)
      else if ad_row_stride load \<noteq> columns \<or> ad_row_stride store \<noteq> columns then (NotHandled, s)
      else let weight = StoreAccess_Weight store in
        if StoreAccess_kAffine (ad_type store) \<and> weight = 0 then (NotHandled, s)
        else TryRmsNormSimd_raw abi stream (ad_data load) (ad_data store) weight rows columns
               epsilon inverse_rms s)"

(* Source: src/include/ascify/target/dav_c310/rowwise_simd_recipes.hpp 333-359 TryLayerNormSimd *)
definition TryLayerNormSimd ::
    "'s simd_abi \<Rightarrow> ptr \<Rightarrow> adapter \<Rightarrow> adapter \<Rightarrow> u64 \<Rightarrow> u64 \<Rightarrow> u64 \<Rightarrow> cpp_qual \<Rightarrow> ptr \<Rightarrow> cpp_qual
     \<Rightarrow> ptr \<Rightarrow> cpp_qual \<Rightarrow> 's \<Rightarrow> SimdTryResult \<times> 's" where
  "TryLayerNormSimd abi stream load store rows columns epsilon Mean mean Inverse inverse_variance
       Compute s =
     (if \<not> LoadAccess_kValid (ad_type load) \<or> \<not> StoreAccess_kValid (ad_type store)
         \<or> StoreAccess_kAffine (ad_type store)
         \<or> Mean \<noteq> Unqualified Cpp_float \<or> Inverse \<noteq> Unqualified Cpp_float
         \<or> \<not> HasSupportedComputeContract Compute (ad_type load) (ad_type store)
      then (NotHandled, s)
      else if ad_row_stride load \<noteq> columns \<or> ad_row_stride store \<noteq> columns then (NotHandled, s)
      else TryLayerNormSimd_raw abi stream (ad_data load) (ad_data store) rows columns epsilon
             mean inverse_variance s)"

section \<open>The registered recipes and the facade\<close>

definition mk_stages :: "(HybridEngine \<times> HybridStageKind) list \<Rightarrow> HybridStageDescriptor list" where
  "mk_stages = map (\<lambda>(e, k). \<lparr>stage_engine = e, stage_kind = k\<rparr>)"

(* Source: src/include/ascify/target/dav_c310/rowwise_simd_recipes.hpp 374-382 SoftmaxHybridRecipeV1::kStages *)
definition softmax_kStages :: "HybridStageDescriptor list" where
  "softmax_kStages = mk_stages
     [(kMte, kLoad), (kSimd, kReduceMaximum), (kSimd, kExponentiate), (kSimd, kReduceSum),
      (kSimd, kNormalize), (kSimtEngine, kOutputAdapt), (kMte, kStore)]"

(* Source: src/include/ascify/target/dav_c310/rowwise_simd_recipes.hpp 398-408 RmsNormHybridRecipeV1::kStages *)
definition rmsnorm_kStages :: "HybridStageDescriptor list" where
  "rmsnorm_kStages = mk_stages
     [(kMte, kLoad), (kSimd, kSquare), (kSimd, kReduceSum), (kSimd, kMean),
      (kSimd, kReciprocalSqrt), (kSimd, kNormalize), (kSimd, kAffine),
      (kSimtEngine, kOutputAdapt), (kMte, kStore)]"

(* Source: src/include/ascify/target/dav_c310/rowwise_simd_recipes.hpp 424-433 LayerNormHybridRecipeV1::kStages *)
definition layernorm_kStages :: "HybridStageDescriptor list" where
  "layernorm_kStages = mk_stages
     [(kMte, kLoad), (kSimd, kMean), (kSimd, kSquare), (kSimd, kReduceSum),
      (kSimd, kReciprocalSqrt), (kSimtEngine, kNormalize), (kSimtEngine, kOutputAdapt),
      (kMte, kStore)]"

definition v1_recipe ::
    "string \<Rightarrow> HybridStageDescriptor list \<Rightarrow> ('args \<Rightarrow> 'r) \<Rightarrow> ('args, 'r) hybrid_recipe" where
  "v1_recipe name stages entry =
     \<lparr>hr_registered = True,
      hr_descriptor = \<lparr>recipe_id = Some name, recipe_stages = Some stages,
                       recipe_stage_count = length stages\<rparr>,
      hr_try = entry\<rparr>"

(* Source: src/include/ascify/target/dav_c310/rowwise_simd_recipes.hpp 372-394 SoftmaxHybridRecipeV1 *)
definition SoftmaxHybridRecipeV1 where
  "SoftmaxHybridRecipeV1 abi = v1_recipe ''softmax.fp16-fp32.hybrid.v1'' softmax_kStages
     (\<lambda>(stream, load, store, rows, columns, Compute). TrySoftmaxSimd abi stream load store rows
        columns Compute)"

(* Source: src/include/ascify/target/dav_c310/rowwise_simd_recipes.hpp 396-420 RmsNormHybridRecipeV1 *)
definition RmsNormHybridRecipeV1 where
  "RmsNormHybridRecipeV1 abi = v1_recipe ''rmsnorm.fp16-fp32.hybrid.v1'' rmsnorm_kStages
     (\<lambda>(stream, load, store, rows, columns, epsilon, Inverse, inverse_rms, Compute).
        TryRmsNormSimd abi stream load store rows columns epsilon Inverse inverse_rms Compute)"

(* Source: src/include/ascify/target/dav_c310/rowwise_simd_recipes.hpp 422-445 LayerNormHybridRecipeV1 *)
definition LayerNormHybridRecipeV1 where
  "LayerNormHybridRecipeV1 abi = v1_recipe ''layernorm.fp16-fp32.hybrid.v1'' layernorm_kStages
     (\<lambda>(stream, load, store, rows, columns, epsilon, Mean, mean, Inverse, inverse_variance,
         Compute).
        TryLayerNormSimd abi stream load store rows columns epsilon Mean mean Inverse
          inverse_variance Compute)"

(* Source: src/include/ascify/target/dav_c310/rowwise_simd_recipes.hpp 491-497 RowwiseHybridFacadeV1::TrySoftmaxHybrid *)
definition Facade_TrySoftmaxHybrid where
  "Facade_TrySoftmaxHybrid abi stream load store rows columns Compute =
     DispatchRegisteredHybrid (SoftmaxHybridRecipeV1 abi)
       (stream, load, store, rows, columns, Compute)"

(* Source: src/include/ascify/target/dav_c310/rowwise_simd_recipes.hpp 499-506 RowwiseHybridFacadeV1::TryRmsNormHybrid *)
definition Facade_TryRmsNormHybrid where
  "Facade_TryRmsNormHybrid abi stream load store rows columns epsilon Inverse inverse_rms Compute =
     DispatchRegisteredHybrid (RmsNormHybridRecipeV1 abi)
       (stream, load, store, rows, columns, epsilon, Inverse, inverse_rms, Compute)"

(* Source: src/include/ascify/target/dav_c310/rowwise_simd_recipes.hpp 508-517 RowwiseHybridFacadeV1::TryLayerNormHybrid *)
definition Facade_TryLayerNormHybrid where
  "Facade_TryLayerNormHybrid abi stream load store rows columns epsilon Mean mean Inverse
       inverse_variance Compute =
     DispatchRegisteredHybrid (LayerNormHybridRecipeV1 abi)
       (stream, load, store, rows, columns, epsilon, Mean, mean, Inverse, inverse_variance,
        Compute)"

end
