(* ===== verification/Rowwise_Contracts.thy ===== *)
theory Rowwise_Contracts
  imports Rowwise_Selectors
begin

text \<open>
  What the row-wise selectors guarantee to the SIMD kernels they admit, stated
  over caller buffers as sets of addresses: the buffers do not wrap around the
  address space, auxiliary outputs alias nothing, input and output are
  disjoint (or identical where in-place is supported), and the narrowed
  epsilon is a positive finite float.
\<close>

abbreviation made :: "ptr \<Rightarrow> u64 \<Rightarrow> u64 \<Rightarrow> ByteSpan" where
  "made p n sz \<equiv> \<lparr>span_begin = p, span_end = p + n * sz\<rparr>"

text \<open>The definitions a concrete selector call evaluates with.\<close>

lemmas selector_eval =
  SelectRmsNormRoute_def IsRmsNormPlainRowBatchSimdDomain_def IsRmsNormCachedSimdDomain_def
  HasCommonRmsNormSimdContract_def TryMakeRmsNormSpans_def HasNoRmsNormAuxAliasing_def
  zero_rms_spans_def IsLayerNormCachedHybridDomain_def TryMakeLayerNormSpans_def
  zero_layer_spans_def IsSoftmaxSimdDomain_def TryMakeMatrixByteSpan_def TryMakeByteSpan_def
  HasValidContiguousExtent_def SpansAreDisjointOrExact_def SpansAreExact_def SpansOverlap_def
  IsAligned_def epsilon_accepted_def double_to_float_def exp64_def frac64_def
  narrow_magnitude_def rne_shift_def double_gt0_def double_isfinite_def float_gt0_def
  float_isfinite_def Let_def model_defs

section \<open>Contracts in closed form\<close>

definition rms_spans_ok :: "ptr \<Rightarrow> ptr \<Rightarrow> ptr \<Rightarrow> ptr \<Rightarrow> u64 \<Rightarrow> u64 \<Rightarrow> bool" where
  "rms_spans_ok input output weight inverse_rms rows columns \<longleftrightarrow>
     matrix_ok input rows columns 2 \<and> matrix_ok output rows columns 2
     \<and> byte_span_ok inverse_rms rows 4 \<and> (weight \<noteq> 0 \<longrightarrow> byte_span_ok weight columns 2)"

lemma TryMakeRmsNormSpans_fst:
  "fst (TryMakeRmsNormSpans input output weight inverse_rms rows columns (Some s)) \<longleftrightarrow>
     rms_spans_ok input output weight inverse_rms rows columns"
  by (simp add: TryMakeRmsNormSpans_def TryMakeMatrixByteSpan_eq TryMakeByteSpan_eq Let_def
      kHalfStorageBytes_def rms_spans_ok_def)

lemma TryMakeRmsNormSpans_snd:
  assumes "rms_spans_ok input output weight inverse_rms rows columns"
  shows "snd (TryMakeRmsNormSpans input output weight inverse_rms rows columns (Some s)) =
     Some \<lparr>rs_input = made input (rows * columns) 2, rs_output = made output (rows * columns) 2,
           rs_inverse_rms = made inverse_rms rows 4,
           rs_weight = (if weight \<noteq> 0 then made weight columns 2
                        else \<lparr>span_begin = 0, span_end = 0\<rparr>),
           rs_has_weight = (weight \<noteq> 0)\<rparr>"
  using assms
  by (cases s) (simp add: TryMakeRmsNormSpans_def TryMakeMatrixByteSpan_eq TryMakeByteSpan_eq
      Let_def kHalfStorageBytes_def rms_spans_ok_def)

lemmas TryMakeRmsNormSpans_ok = TryMakeRmsNormSpans_fst TryMakeRmsNormSpans_snd

definition disjoint_buffers :: "ptr \<Rightarrow> nat \<Rightarrow> ptr \<Rightarrow> nat \<Rightarrow> bool" where
  "disjoint_buffers p n q m \<longleftrightarrow> buffer p n \<inter> buffer q m = {}"

lemma no_overlap_made:
  assumes "byte_span_ok p n sz" and "byte_span_ok q m sz'"
  shows "SpansOverlap (made p n sz) (made q m sz') \<longleftrightarrow>
    \<not> disjoint_buffers p (unat n * unat sz) q (unat m * unat sz')"
  using overlap_made[OF assms] by (simp add: disjoint_buffers_def)




section \<open>The narrowed epsilon\<close>

lemma unat_and_mask: "unat (and b (mask n)) = unat b mod 2 ^ n" for b :: "'a::len word"
  by (metis take_bit_eq_mask take_bit_eq_mod unsigned_take_bit_eq)

lemma unat_drop_bit: "unat (drop_bit n b) = unat b div 2 ^ n" for b :: "'a::len word"
  by (metis drop_bit_eq_div unsigned_drop_bit_eq take_bit_nat_eq_self_iff unsigned_less
      div_le_dividend le_less_trans)

lemma exp64_div: "exp64 b = unat b div 2 ^ 52 mod 2048"
  using unat_and_mask[of "drop_bit 52 b" 11]
  by (simp add: exp64_def unat_drop_bit mask_numeral)

lemma frac64_mod: "frac64 b = unat b mod 2 ^ 52"
  using unat_and_mask[of b 52] by (simp add: frac64_def mask_numeral)

lemma rne_shift_zero:
  assumes "2 * m \<le> 2 ^ k" shows "rne_shift m k = 0"
proof -
  have "m < 2 ^ k"
    by (rule le_less_trans[of m "2 * m - m"]) (use assms zero_less_power[of "2::nat" k] in \<open>linarith+\<close>)
  then show ?thesis
    using assms by (simp add: rne_shift_def Let_def)
qed

lemma rne_shift_ge: "m div 2 ^ k \<le> rne_shift m k"
  by (simp add: rne_shift_def Let_def)

lemma rne_shift_le: "rne_shift m k \<le> m div 2 ^ k + 1"
  by (simp add: rne_shift_def Let_def)

lemma narrow_pos_iff:
  assumes "e < 2047" and "f < 2 ^ 52"
  shows "0 < narrow_magnitude e f \<longleftrightarrow> 873 * 2 ^ 52 < e * 2 ^ 52 + f"
proof -
  consider "e < 873" | "e = 873" | "873 < e" "e < 898" | "898 \<le> e"
    by linarith
  then show ?thesis
  proof cases
    case 1
    have "2 * (if e = 0 then f else 2 ^ 52 + f) \<le> (2::nat) ^ (926 - max e 1)"
    proof -
      have "2 * (if e = 0 then f else 2 ^ 52 + f) \<le> (2::nat) ^ 54"
        using assms(2) by simp
      also have "\<dots> \<le> 2 ^ (926 - max e 1)"
        using 1 by (intro power_increasing) auto
      finally show ?thesis .
    qed
    then have "narrow_magnitude e f = 0"
      using 1 by (simp add: narrow_magnitude_def Let_def rne_shift_zero)
    then show ?thesis
      using 1 assms(2) by simp
  next
    case 2
    have "rne_shift (2 ^ 52 + f) 53 = (if f = 0 then 0 else 1)"
      using assms(2) by (simp add: rne_shift_def Let_def)
    then show ?thesis
      using 2 by (simp add: narrow_magnitude_def Let_def)
  next
    case 3
    have "(1::nat) \<le> (2 ^ 52 + f) div 2 ^ (926 - e)"
    proof -
      have "(2::nat) ^ (926 - e) \<le> 2 ^ 52 + f"
        by (rule order_trans[OF power_increasing[of "926 - e" 52 "2::nat"]]) (use 3 in simp_all)
      then show ?thesis
        by (simp add: div_greater_zero_iff Suc_le_eq)
    qed
    then have "1 \<le> rne_shift (2 ^ 52 + f) (926 - e)"
      using rne_shift_ge le_trans by blast
    moreover have "max 29 (926 - max e 1) = 926 - e"
      using 3 by simp
    ultimately show ?thesis
      using 3 by (simp add: narrow_magnitude_def Let_def)
  next
    case 4
    have "0 < rne_shift (2 ^ 52 + f) 29"
      using rne_shift_ge[of "2 ^ 52 + f" 29] by (simp add: div_greater_zero_iff)
    then show ?thesis
      using 4 by (simp add: narrow_magnitude_def Let_def max_def)
  qed
qed

lemma rne_shift_bound:
  assumes "m < 2 ^ 53" and "29 \<le> k"
  shows "rne_shift m k \<le> 2 ^ 24"
proof -
  have "m div 2 ^ k \<le> m div 2 ^ 29"
    by (rule div_le_mono2) (use assms(2) power_increasing[of 29 k "2::nat"] in simp_all)
  also have "\<dots> < 2 ^ 24"
    using assms(1) by (simp add: less_mult_imp_div_less)
  finally show ?thesis
    using rne_shift_le[of m k] by simp
qed

lemma rne_shift_top:
  assumes "f < 2 ^ 52"
  shows "rne_shift (2 ^ 52 + f) 29 < 2 ^ 24 \<longleftrightarrow> f < 0xFFFFFF0000000"
proof -
  define q r where "q = f div 2 ^ 29" and "r = f mod 2 ^ 29"
  have f: "f = 2 ^ 29 * q + r" and r: "r < 2 ^ 29"
    by (simp_all add: q_def r_def)
  have q: "q < 2 ^ 23"
    using assms by (simp add: q_def less_mult_imp_div_less)
  have "2 ^ 52 + f = r + 2 ^ 29 * (2 ^ 23 + q)"
    using f by simp
  then have d: "(2 ^ 52 + f) div 2 ^ 29 = 2 ^ 23 + q" and m: "(2 ^ 52 + f) mod 2 ^ 29 = r"
    using r by (simp_all only: div_mult_self2 mod_mult_self2 div_less mod_less)
  have s: "rne_shift (2 ^ 52 + f) 29 =
      (if 2 * r > 2 ^ 29 \<or> (2 * r = 2 ^ 29 \<and> odd q) then 2 ^ 23 + q + 1 else 2 ^ 23 + q)"
    unfolding rne_shift_def Let_def d m by simp
  show ?thesis
  proof (cases "q = 2 ^ 23 - 1")
    case True
    then show ?thesis
      unfolding s using f r by auto
  next
    case False
    then show ?thesis
      unfolding s using f r q by auto
  qed
qed

lemma narrow_finite_iff:
  assumes "e < 2047" and "f < 2 ^ 52"
  shows "narrow_magnitude e f < 0x7F800000 \<longleftrightarrow>
    e * 2 ^ 52 + f < 1150 * 2 ^ 52 + 0xFFFFFF0000000"
proof -
  consider "e < 1150" | "e = 1150" | "1150 < e"
    by linarith
  then show ?thesis
  proof cases
    case 1
    have "rne_shift (if e = 0 then f else 2 ^ 52 + f) (max 29 (926 - max e 1)) \<le> 2 ^ 24"
      using assms(2) by (intro rne_shift_bound) auto
    moreover have "(max e 1 - 897) * 2 ^ 23 \<le> (252 * 2 ^ 23 :: nat)"
      using 1 by (intro mult_right_mono) auto
    ultimately have "rne_shift (if e = 0 then f else 2 ^ 52 + f) (max 29 (926 - max e 1))
        + (max e 1 - 897) * 2 ^ 23 < 0x7F800000"
      by (simp del: max_def)
    then have "narrow_magnitude e f < 0x7F800000"
      unfolding narrow_magnitude_def Let_def by (rule le_less_trans[OF min.cobounded1])
    then show ?thesis
      using 1 assms(2) by simp
  next
    case 2
    then show ?thesis
      using rne_shift_top[OF assms(2)]
      by (simp add: narrow_magnitude_def Let_def min_less_iff_disj)
  next
    case 3
    have "2 ^ 23 \<le> (2 ^ 52 + f) div 2 ^ 29"
      by simp
    then have "2 ^ 23 \<le> rne_shift (2 ^ 52 + f) 29"
      using rne_shift_ge le_trans by blast
    moreover have "254 * 2 ^ 23 \<le> (e - 897) * 2 ^ 23"
      using 3 by (intro mult_right_mono) auto
    ultimately show ?thesis
      using 3 by (simp add: narrow_magnitude_def Let_def min_less_iff_disj)
  qed
qed

lemma double_fields:
  assumes "unat b < 2 ^ 63"
  shows "unat b = exp64 b * 2 ^ 52 + frac64 b" and "exp64 b < 2048" and "frac64 b < 2 ^ 52"
proof -
  have "unat b div 2 ^ 52 < 2048"
    using assms by (simp add: less_mult_imp_div_less)
  then show "unat b = exp64 b * 2 ^ 52 + frac64 b"
    by (simp add: exp64_div frac64_mod)
qed (simp_all add: exp64_div frac64_mod)

lemma double_to_float_finite:
  assumes "unat b < 2 ^ 63" and "exp64 b \<noteq> 2047"
  shows "unat (double_to_float b) = narrow_magnitude (exp64 b) (frac64 b)"
proof -
  have "\<not> bit b 63"
  proof -
    have "bit b 63 \<longleftrightarrow> bit (unat b) 63"
      by (simp add: bit_unsigned_iff)
    then show ?thesis
      using assms(1) by (simp add: bit_iff_odd)
  qed
  then have "double_to_float b = of_nat (narrow_magnitude (exp64 b) (frac64 b))"
    using assms(2) by (simp add: double_to_float_def)
  moreover have "narrow_magnitude (exp64 b) (frac64 b) < 2 ^ 32"
    by (simp add: narrow_magnitude_def Let_def min_less_iff_disj)
  ultimately show ?thesis
    by (simp add: unsigned_of_nat take_bit_nat_eq_self)
qed

lemma float_ok_iff:
  assumes "unat w \<le> 0x7F800000"
  shows "float_gt0 w \<and> float_isfinite w \<longleftrightarrow> 0 < unat w \<and> unat w < 0x7F800000"
proof -
  have "unat (and (drop_bit 23 w) 0xFF) = unat w div 2 ^ 23 mod 256"
    using unat_and_mask[of "drop_bit 23 w" 8] by (simp add: unat_drop_bit mask_numeral)
  moreover have "and (drop_bit 23 w) 0xFF = 0xFF \<longleftrightarrow> unat (and (drop_bit 23 w) 0xFF) = 255"
    by (simp add: word_unat_eq_iff)
  ultimately have "float_isfinite w \<longleftrightarrow> unat w div 2 ^ 23 mod 256 \<noteq> 255"
    by (simp add: float_isfinite_def)
  moreover have "unat w div 2 ^ 23 mod 256 = 255 \<longleftrightarrow> unat w = 0x7F800000"
  proof (cases "unat w = 0x7F800000")
    case False
    then have "unat w div 2 ^ 23 < 255"
      using assms by (intro less_mult_imp_div_less) simp
    then show ?thesis
      using False by simp
  qed simp
  ultimately show ?thesis
    using assms by (auto simp: float_gt0_def word_less_nat_alt word_le_nat_alt)
qed

text \<open>The epsilon a SIMD norm route accepts: the double test and
  the test on \<open>static_cast<float>(epsilon)\<close> together admit exactly the doubles
  strictly between \<open>2^-150\<close> (half the smallest subnormal float, which ties to
  zero) and \<open>2^128 - 2^103\<close> (which ties to infinity), so every admitted
  epsilon is a positive finite float after narrowing, and no other is refused.\<close>
theorem epsilon_range:
  "double_gt0 epsilon \<and> double_isfinite epsilon \<and> epsilon_accepted epsilon \<longleftrightarrow>
     0x3690000000000000 < epsilon \<and> epsilon < 0x47EFFFFFF0000000"
proof (cases "unat epsilon < 2 ^ 63 \<and> exp64 epsilon \<noteq> 2047")
  case True
  note f = double_fields[OF True[THEN conjunct1]]
  have e: "exp64 epsilon < 2047"
    using True f(2) by simp
  have "narrow_magnitude (exp64 epsilon) (frac64 epsilon) \<le> 0x7F800000"
    by (simp add: narrow_magnitude_def Let_def)
  then have "epsilon_accepted epsilon \<longleftrightarrow>
      873 * 2 ^ 52 < unat epsilon \<and> unat epsilon < 1150 * 2 ^ 52 + 0xFFFFFF0000000"
    using narrow_pos_iff[OF e f(3)] narrow_finite_iff[OF e f(3)] True f(1)
      float_ok_iff[of "double_to_float epsilon"]
    by (simp add: epsilon_accepted_def double_to_float_finite)
  moreover have "double_gt0 epsilon \<longleftrightarrow> 0 < unat epsilon"
    using f e by (auto simp: double_gt0_def word_less_nat_alt word_le_nat_alt)
  ultimately show ?thesis
    using True by (auto simp: double_isfinite_def word_less_nat_alt)
next
  case False
  then show ?thesis
    using double_fields[of epsilon]
    by (auto simp: double_gt0_def double_isfinite_def word_less_nat_alt word_le_nat_alt)
qed

section \<open>Buffers\<close>

lemma buffer_bound:
  assumes "byte_span_ok p n sz"
  shows "buffer p (unat n * unat sz) \<subseteq> {..< 2 ^ 64}"
  using assms by (auto simp: byte_span_ok_def buffer_def)

lemma matrix_buffer:
  assumes "matrix_ok p rows columns 2"
  shows "unat (rows * columns) * 2 = nat (sint rows) * nat (sint columns) * 2"
    and "0 < sint rows" and "0 < sint columns"
    and "buffer p (unat (rows * columns) * 2) \<subseteq> {..< 2 ^ 64}"
  using assms extent_unat[of rows columns] buffer_bound[of p "rows * columns" 2]
  by (simp_all add: matrix_ok_def HasValidContiguousExtent_def nat_mult_distrib)
    (metis sint_pos_unat nat_int order_less_imp_le)+

lemma disjoint_or_exact_made:
  assumes "byte_span_ok p n sz" and "byte_span_ok q n sz"
  shows "SpansAreDisjointOrExact (made p n sz) (made q n sz) \<longleftrightarrow>
    p = q \<or> disjoint_buffers p (unat n * unat sz) q (unat n * unat sz)"
  using assms by (auto simp: SpansAreDisjointOrExact_def SpansAreExact_def no_overlap_made)



lemma TryMakeLayerNormSpans_eq:
  "TryMakeLayerNormSpans input output mean inverse_variance rows columns (Some s) =
     (let ok = matrix_ok input rows columns 2 \<and> matrix_ok output rows columns 2
               \<and> byte_span_ok mean rows 4 \<and> byte_span_ok inverse_variance rows 4
      in (ok, if ok then Some \<lparr>ls_input = made input (rows * columns) 2,
                ls_output = made output (rows * columns) 2, ls_mean = made mean rows 4,
                ls_inverse_variance = made inverse_variance rows 4\<rparr>
              else snd (TryMakeLayerNormSpans input output mean inverse_variance rows columns
                     (Some s))))"
  by (cases s) (simp add: TryMakeLayerNormSpans_def TryMakeMatrixByteSpan_eq TryMakeByteSpan_eq
      Let_def kHalfStorageBytes_def)

text \<open>C35 (safety). A layer norm call the cached hybrid selector admits has at
  most 8192 columns, a multiple of 8; its buffers stay inside the address
  space; the mean and inverse-variance buffers share no byte with each other
  or with input and output; input and output are disjoint or the same buffer.\<close>
theorem layer_norm_domain_safe:
  assumes "IsLayerNormCachedHybridDomain stream input output mean inverse_variance rows columns
             epsilon block_threads grid_cap"
  shows "0 < sint rows \<and> 0 < sint columns \<and> sint columns \<le> 8192 \<and> 8 dvd sint columns
    \<and> (let R = nat (sint rows); C = nat (sint columns);
           I = buffer input (R * C * 2); Out = buffer output (R * C * 2);
           M = buffer mean (R * 4); V = buffer inverse_variance (R * 4) in
       I \<union> Out \<union> M \<union> V \<subseteq> {..< 2 ^ 64}
       \<and> M \<inter> V = {} \<and> (M \<union> V) \<inter> (I \<union> Out) = {}
       \<and> (I \<inter> Out = {} \<or> input = output))"
proof -
  have ok: "matrix_ok input rows columns 2" "matrix_ok output rows columns 2"
      "byte_span_ok mean rows 4" "byte_span_ok inverse_variance rows 4"
    and col: "sint columns \<le> 8192" "sint columns smod 8 = 0"
    using assms
    by (auto simp: IsLayerNormCachedHybridDomain_def TryMakeLayerNormSpans_eq Let_def
        kLayerNormCachedMaximumColumns_def split: if_splits)
  have r: "unat rows = nat (sint rows)" and cl: "unat columns = nat (sint columns)"
    using matrix_buffer(2,3)[OF ok(1)] by (metis sint_pos_unat nat_int order_less_imp_le)+
  have ex: "byte_span_ok input (rows * columns) 2" "byte_span_ok output (rows * columns) 2"
    using ok by (simp_all add: matrix_ok_def)
  have d: "input = output \<or> disjoint_buffers input (unat (rows * columns) * 2) output
        (unat (rows * columns) * 2)"
      "disjoint_buffers mean (unat rows * 4) input (unat (rows * columns) * 2)"
      "disjoint_buffers mean (unat rows * 4) output (unat (rows * columns) * 2)"
      "disjoint_buffers inverse_variance (unat rows * 4) input (unat (rows * columns) * 2)"
      "disjoint_buffers inverse_variance (unat rows * 4) output (unat (rows * columns) * 2)"
      "disjoint_buffers mean (unat rows * 4) inverse_variance (unat rows * 4)"
    using assms ok ex
    by (simp_all add: IsLayerNormCachedHybridDomain_def TryMakeLayerNormSpans_eq
        no_overlap_made disjoint_or_exact_made split: if_splits) blast+
  have "8 dvd sint columns"
    using col(2) matrix_buffer(3)[OF ok(1)]
    by (simp add: signed_modulo_int_def dvd_eq_mod_eq_0)
  then show ?thesis
    using col d matrix_buffer[OF ok(1)] matrix_buffer(4)[OF ok(2)] buffer_bound[OF ok(3)]
      buffer_bound[OF ok(4)]
    by (auto simp: Let_def disjoint_buffers_def r cl)
qed

lemma layer_norm_domain_safe_witness:
  "IsLayerNormCachedHybridDomain 1 0x1000 0x1000 0x8000 0x9000 4 72 0x3EE4F8B588E368F1 0 0
    \<and> buffer 0x8000 (4 * 4) \<inter> buffer 0x9000 (4 * 4) = {}"
proof -
  have r: "IsLayerNormCachedHybridDomain 1 0x1000 0x1000 0x8000 0x9000 4 72
      0x3EE4F8B588E368F1 0 0"
    by (simp add: selector_eval)
  show ?thesis
    using layer_norm_domain_safe[OF r] r by (simp add: Let_def Int_commute)
qed

text \<open>The softmax selector admits exactly the calls with a
  stream, default launch shape, 4096 to 256000 columns, and non-null input and
  output buffers that both fit below \<open>2^64\<close> and are disjoint or identical, where
  the element count is computed without overflow.\<close>
theorem softmax_domain_iff:
  "IsSoftmaxSimdDomain stream input output rows columns block_threads grid_cap \<longleftrightarrow>
     stream \<noteq> 0 \<and> block_threads = 0 \<and> grid_cap = 0
     \<and> 4096 \<le> sint columns \<and> sint columns \<le> 256000
     \<and> 0 < sint rows \<and> sint rows * sint columns \<le> int64_max
     \<and> input \<noteq> 0 \<and> output \<noteq> 0
     \<and> (let n = nat (sint rows * sint columns * 2) in
        unat input + n \<le> uint64_max \<and> unat output + n \<le> uint64_max
        \<and> (input = output \<or> buffer input n \<inter> buffer output n = {}))"
proof (cases "HasValidContiguousExtent rows columns")
  case True
  note e = extent_unat[OF True]
  have n: "unat (rows * columns) * 2 = nat (sint rows * sint columns * 2)"
    using True unfolding e(1)
    by (simp add: HasValidContiguousExtent_def nat_mult_distrib flip: e(2,3))
  have "0 < unat (rows * columns)"
  proof -
    have "int (unat (rows * columns)) = sint rows * sint columns"
      by (simp only: e of_nat_mult)
    then show ?thesis
      using True by (simp only: HasValidContiguousExtent_def flip: of_nat_0_less_iff[where 'a = int]) simp
  qed
  then have ok: "\<And>p. byte_span_ok p (rows * columns) 2 \<longleftrightarrow>
      p \<noteq> 0 \<and> unat p + nat (sint rows * sint columns * 2) \<le> uint64_max"
    using n by (auto simp: byte_span_ok_def)
  have m: "\<And>p. matrix_ok p rows columns 2 \<longleftrightarrow>
      p \<noteq> 0 \<and> unat p + nat (sint rows * sint columns * 2) \<le> uint64_max"
    using True ok by (simp add: matrix_ok_def)
  have d: "matrix_ok input rows columns 2 \<Longrightarrow> matrix_ok output rows columns 2 \<Longrightarrow>
      SpansAreDisjointOrExact (made input (rows * columns) 2) (made output (rows * columns) 2)
      \<longleftrightarrow> input = output \<or> disjoint_buffers input (nat (sint rows * sint columns * 2))
             output (nat (sint rows * sint columns * 2))"
    using disjoint_or_exact_made[of input "rows * columns" 2 "output"] n
    by (simp add: matrix_ok_def)
  have x: "0 < sint rows" "sint rows * sint columns \<le> int64_max"
    using True by (simp_all add: HasValidContiguousExtent_iff)
  show ?thesis
    unfolding IsSoftmaxSimdDomain_def Let_def TryMakeMatrixByteSpan_eq kHalfStorageBytes_def
      kSoftmaxMinimumColumns_def kSoftmaxMaximumColumns_def case_prod_conv
    using d x m by (auto simp: disjoint_buffers_def)
next
  case False
  then show ?thesis
    by (auto simp: IsSoftmaxSimdDomain_def Let_def TryMakeMatrixByteSpan_eq matrix_ok_def
        HasValidContiguousExtent_iff)
qed

end
