(* ===== verification/Rowwise_Dispatch.thy ===== *)
theory Rowwise_Dispatch
  imports Rowwise_Recipes Rowwise_Contracts
begin

text \<open>
  The SIMT entry points of \<open>rowwise_norm_recipes.hpp\<close>, the dispatch the
  translator writes around a recipe call, and the contract both recipe
  families obey: a result is final when it is handled, and an unhandled call
  has done nothing, so the converted fallback starts from the caller's state.
\<close>

section \<open>SIMT entry points (v1)\<close>

(* Source: src/include/ascify/target/dav_c310/rowwise_norm_recipes.hpp 120-120 kMaxValidatedRecipeColumns *)
definition kMaxValidatedRecipeColumns :: int where [model_defs]:
  "kMaxValidatedRecipeColumns = 32768"

(* Source: src/include/ascify/target/dav_c310/rowwise_norm_recipes.hpp 126-128 SoftmaxColumnsFitTargetKernel *)
definition SoftmaxColumnsFitTargetKernel :: "u64 \<Rightarrow> bool" where
  "SoftmaxColumnsFitTargetKernel columns \<longleftrightarrow> sint columns > 0 \<and> sint columns \<le> 2147483647"

(* Source: src/include/ascify/target/dav_c310/rowwise_norm_recipes.hpp 130-139 RmsNormDimensionsFitOriginalKernel *)
definition RmsNormDimensionsFitOriginalKernel :: "u64 \<Rightarrow> u64 \<Rightarrow> bool" where
  "RmsNormDimensionsFitOriginalKernel rows columns \<longleftrightarrow>
     sint rows > 0 \<and> sint rows \<le> 2147483647
     \<and> sint columns > 0 \<and> sint columns \<le> 2147483647
     \<and> sint columns \<le> kMaxValidatedRecipeColumns
     \<and> sint rows \<le> int64_max div sint columns"

(* Source: src/include/ascify/target/dav_c310/rowwise_norm_recipes.hpp 143-157 SoftmaxFp16 *)
definition SoftmaxFp16 where
  "SoftmaxFp16 env run stream input output rows columns block_threads grid_cap st =
     (if \<not> SoftmaxColumnsFitTargetKernel columns then (ACL_ERROR_RT_PARAM_INVALID, st)
      else softmax_Launch env run stream input output (sint rows)
             (sint (ucast columns :: u32)) block_threads grid_cap st)"

(* Source: src/include/ascify/target/dav_c310/rowwise_norm_recipes.hpp 159-166 RmsNormFp16 *)
definition RmsNormFp16 where
  "RmsNormFp16 env run stream input output weight rows columns epsilon inverse_rms block_threads
       grid_cap st =
     rms_Launch env run stream input output weight inverse_rms (sint rows) (sint columns) epsilon
       block_threads grid_cap st"

(* Source: src/include/ascify/target/dav_c310/rowwise_norm_recipes.hpp 168-178 TrySoftmax (raw) *)
definition TrySoftmax_raw ::
    "'w acl_env \<Rightarrow> (softmax_kernel launch_geometry \<Rightarrow> 'w \<Rightarrow> 'w) \<Rightarrow> ptr \<Rightarrow> ptr \<Rightarrow> ptr
     \<Rightarrow> u64 \<Rightarrow> u64 \<Rightarrow> 'w host_state \<Rightarrow> SimdTryResult \<times> 'w host_state" where
  "TrySoftmax_raw env run stream input output rows columns st =
     (if stream = 0 \<or> input = 0 \<or> output = 0 \<or> sint rows \<le> 0
         \<or> \<not> SoftmaxColumnsFitTargetKernel columns
         \<or> sint columns > kMaxValidatedRecipeColumns
         \<or> sint rows > int64_max div sint columns
      then (NotHandled, st)
      else handled_launch (SoftmaxFp16 env run stream input output rows columns 0 0) st)"

(* Source: src/include/ascify/target/dav_c310/rowwise_norm_recipes.hpp 180-192 TryRmsNorm (raw) *)
definition TryRmsNorm_raw ::
    "'w acl_env \<Rightarrow> (rms_kernel launch_geometry \<Rightarrow> 'w \<Rightarrow> 'w) \<Rightarrow> ptr \<Rightarrow> ptr \<Rightarrow> ptr \<Rightarrow> ptr
     \<Rightarrow> u64 \<Rightarrow> u64 \<Rightarrow> u64 \<Rightarrow> ptr \<Rightarrow> 'w host_state \<Rightarrow> SimdTryResult \<times> 'w host_state" where
  "TryRmsNorm_raw env run stream input output weight rows columns epsilon inverse_rms st =
     (if stream = 0 \<or> input = 0 \<or> output = 0 \<or> inverse_rms = 0
         \<or> \<not> RmsNormDimensionsFitOriginalKernel rows columns
         \<or> \<not> double_gt0 epsilon \<or> \<not> double_isfinite epsilon
      then (NotHandled, st)
      else handled_launch (RmsNormFp16 env run stream input output weight rows columns epsilon
             inverse_rms 0 0) st)"

text \<open>The adapter traits of this header repeat those of the hybrid header.\<close>

(* Source: src/include/ascify/target/dav_c310/rowwise_norm_recipes.hpp 359-380 TrySoftmax *)
definition TrySoftmax where
  "TrySoftmax env run stream load store rows columns Compute st =
     (if \<not> LoadAccess_kValid (ad_type load) \<or> \<not> StoreAccess_kValid (ad_type store)
         \<or> StoreAccess_kAffine (ad_type store)
         \<or> \<not> HasSupportedComputeContract Compute (ad_type load) (ad_type store)
      then (NotHandled, st)
      else if ad_row_stride load \<noteq> columns \<or> ad_row_stride store \<noteq> columns then (NotHandled, st)
      else TrySoftmax_raw env run stream (ad_data load) (ad_data store) rows columns st)"

(* Source: src/include/ascify/target/dav_c310/rowwise_norm_recipes.hpp 382-412 TryRmsNorm *)
definition TryRmsNorm where
  "TryRmsNorm env run stream load store rows columns epsilon Inverse inverse_rms Compute st =
     (if \<not> LoadAccess_kValid (ad_type load) \<or> \<not> StoreAccess_kValid (ad_type store)
         \<or> Inverse \<noteq> Unqualified Cpp_float
         \<or> \<not> HasSupportedComputeContract Compute (ad_type load) (ad_type store)
      then (NotHandled, st)
      else if ad_row_stride load \<noteq> columns \<or> ad_row_stride store \<noteq> columns then (NotHandled, st)
      else let weight = StoreAccess_Weight store in
        if StoreAccess_kAffine (ad_type store) \<and> weight = 0 then (NotHandled, st)
        else TryRmsNorm_raw env run stream (ad_data load) (ad_data store) weight rows columns
               epsilon inverse_rms st)"

section \<open>The dispatch around a recipe call\<close>

text \<open>The text the translator inserts at the start of a converted launch wrapper:
  when the shape condition holds, call the recipe and return its status if it
  was handled; otherwise run on into the converted body.\<close>

(* Source: src/src/DavC310TargetRecipe.cpp 12088-12145 insertion text (guarded Try call) *)
definition generated_dispatch ::
    "bool \<Rightarrow> ('s \<Rightarrow> SimdTryResult \<times> 's) \<Rightarrow> ('s \<Rightarrow> aclError \<times> 's) \<Rightarrow> 's \<Rightarrow> aclError \<times> 's" where
  "generated_dispatch condition try_recipe fallback s =
     (if condition
      then let (r, s) = try_recipe s in
           if handled r then (status r, s) else fallback s
      else fallback s)"

locale try_route =
  fixes admits :: "'a \<Rightarrow> bool"
    and launch :: "'a \<Rightarrow> 's \<Rightarrow> aclError \<times> 's"
    and attempt :: "'a \<Rightarrow> 's \<Rightarrow> SimdTryResult \<times> 's"
  assumes miss: "\<not> admits a \<Longrightarrow> attempt a s = (NotHandled, s)"
    and hit: "admits a \<Longrightarrow> attempt a s = handled_launch (launch a) s"
begin

lemma handled_iff: "handled (fst (attempt a s)) \<longleftrightarrow> admits a"
  by (cases "admits a") (simp_all add: miss hit NotHandled_def handled_launch_def split: prod.splits)

lemma dispatch_eq:
  "generated_dispatch condition (attempt a) fallback s =
     (if condition \<and> admits a then launch a s else fallback s)"
  by (cases "admits a")
    (simp_all add: generated_dispatch_def miss hit NotHandled_def handled_launch_def
      case_prod_beta)

end

text \<open>Both families of adapters share the compile-time gate.\<close>

definition adapters_ok :: "bool \<Rightarrow> adapter \<Rightarrow> adapter \<Rightarrow> u64 \<Rightarrow> cpp_qual \<Rightarrow> bool" where
  "adapters_ok affine_allowed load store columns Compute \<longleftrightarrow>
     LoadAccess_kValid (ad_type load) \<and> StoreAccess_kValid (ad_type store)
     \<and> HasSupportedComputeContract Compute (ad_type load) (ad_type store)
     \<and> ad_row_stride load = columns \<and> ad_row_stride store = columns
     \<and> (StoreAccess_kAffine (ad_type store) \<longrightarrow> affine_allowed \<and> StoreAccess_Weight store \<noteq> 0)"

definition softmax_hybrid_admits where
  "softmax_hybrid_admits = (\<lambda>(stream, load, store, rows, columns, Compute).
     adapters_ok False load store columns Compute
     \<and> IsSoftmaxSimdDomain stream (ad_data load) (ad_data store) rows columns 0 0)"

lemma TrySoftmaxSimd_eq:
  "TrySoftmaxSimd abi stream load store rows columns Compute s =
     (if softmax_hybrid_admits (stream, load, store, rows, columns, Compute)
      then handled_launch (abi_softmax abi stream (ad_data load) (ad_data store) rows (ucast columns) 0 0) s
      else (NotHandled, s))"
  unfolding TrySoftmaxSimd_def TrySoftmaxSimd_raw_def softmax_hybrid_admits_def adapters_ok_def
  by (simp split: if_split)

interpretation softmax_hybrid: try_route softmax_hybrid_admits
  "\<lambda>(stream, load, store, rows, columns, Compute).
     abi_softmax abi stream (ad_data load) (ad_data store) rows (ucast columns) 0 0"
  "\<lambda>(stream, load, store, rows, columns, Compute).
     TrySoftmaxSimd abi stream load store rows columns Compute"
  for abi :: "'s simd_abi"
  by unfold_locales (auto simp: TrySoftmaxSimd_eq)

definition rms_hybrid_admits where
  "rms_hybrid_admits =
     (\<lambda>(stream, load, store, rows, columns, epsilon, Inverse, inverse_rms, Compute).
        adapters_ok True load store columns Compute \<and> Inverse = Unqualified Cpp_float
        \<and> SelectRmsNormRoute stream (ad_data load) (ad_data store) (StoreAccess_Weight store)
            inverse_rms rows columns epsilon 0 0 \<noteq> kSimt)"

definition rms_hybrid_launch where
  "rms_hybrid_launch abi =
     (\<lambda>(stream, load, store, rows, columns, epsilon, Inverse, inverse_rms, Compute).
        if SelectRmsNormRoute stream (ad_data load) (ad_data store) (StoreAccess_Weight store)
             inverse_rms rows columns epsilon 0 0 = kPlainRowBatch
        then abi_rmsnorm_plain_rowbatch abi stream (ad_data load) (ad_data store) inverse_rms rows
               columns epsilon
        else abi_rmsnorm_cached abi stream (ad_data load) (ad_data store)
               (StoreAccess_Weight store) inverse_rms rows columns epsilon)"

lemma TryRmsNormSimd_eq:
  "TryRmsNormSimd abi stream load store rows columns epsilon Inverse inverse_rms Compute s =
     (if rms_hybrid_admits (stream, load, store, rows, columns, epsilon, Inverse, inverse_rms, Compute)
      then handled_launch (rms_hybrid_launch abi (stream, load, store, rows, columns, epsilon, Inverse,
             inverse_rms, Compute)) s
      else (NotHandled, s))"
  unfolding TryRmsNormSimd_def TryRmsNormSimd_raw_def rms_hybrid_admits_def rms_hybrid_launch_def
    adapters_ok_def Let_def
  by (simp split: if_split RmsNormRoute.splits) blast

interpretation rms_hybrid: try_route rms_hybrid_admits "rms_hybrid_launch abi"
  "\<lambda>(stream, load, store, rows, columns, epsilon, Inverse, inverse_rms, Compute).
     TryRmsNormSimd abi stream load store rows columns epsilon Inverse inverse_rms Compute"
  for abi :: "'s simd_abi"
  by unfold_locales (auto simp: TryRmsNormSimd_eq)

definition layer_hybrid_admits where
  "layer_hybrid_admits =
     (\<lambda>(stream, load, store, rows, columns, epsilon, Mean, mean, Inverse, inverse_variance, Compute).
        adapters_ok False load store columns Compute
        \<and> Mean = Unqualified Cpp_float \<and> Inverse = Unqualified Cpp_float
        \<and> IsLayerNormCachedHybridDomain stream (ad_data load) (ad_data store) mean
            inverse_variance rows columns epsilon 0 0)"

lemma TryLayerNormSimd_eq:
  "TryLayerNormSimd abi stream load store rows columns epsilon Mean mean Inverse
       inverse_variance Compute s =
     (if layer_hybrid_admits (stream, load, store, rows, columns, epsilon, Mean, mean, Inverse,
           inverse_variance, Compute)
      then handled_launch (abi_layernorm_cached abi stream (ad_data load) (ad_data store) mean
             inverse_variance rows columns epsilon) s
      else (NotHandled, s))"
  unfolding TryLayerNormSimd_def TryLayerNormSimd_raw_def layer_hybrid_admits_def adapters_ok_def
  by (simp split: if_split)

interpretation layer_hybrid: try_route layer_hybrid_admits
  "\<lambda>(stream, load, store, rows, columns, epsilon, Mean, mean, Inverse, inverse_variance, Compute).
     abi_layernorm_cached abi stream (ad_data load) (ad_data store) mean inverse_variance rows
       columns epsilon"
  "\<lambda>(stream, load, store, rows, columns, epsilon, Mean, mean, Inverse, inverse_variance, Compute).
     TryLayerNormSimd abi stream load store rows columns epsilon Mean mean Inverse
       inverse_variance Compute"
  for abi :: "'s simd_abi"
  by unfold_locales (auto simp: TryLayerNormSimd_eq)

definition softmax_simt_admits where
  "softmax_simt_admits = (\<lambda>(stream, load, store, rows, columns, Compute).
     adapters_ok False load store columns Compute
     \<and> stream \<noteq> 0 \<and> ad_data load \<noteq> 0 \<and> ad_data store \<noteq> 0
     \<and> HasValidContiguousExtent rows columns \<and> sint columns \<le> kMaxValidatedRecipeColumns)"

lemma TrySoftmax_eq:
  "TrySoftmax env run stream load store rows columns Compute s =
     (if softmax_simt_admits (stream, load, store, rows, columns, Compute)
      then handled_launch (SoftmaxFp16 env run stream (ad_data load) (ad_data store) rows columns
             0 0) s
      else (NotHandled, s))"
  unfolding TrySoftmax_def TrySoftmax_raw_def softmax_simt_admits_def adapters_ok_def
    SoftmaxColumnsFitTargetKernel_def HasValidContiguousExtent_def kMaxValidatedRecipeColumns_def
  by (simp split: if_split) linarith?

interpretation softmax_simt: try_route softmax_simt_admits
  "\<lambda>(stream, load, store, rows, columns, Compute).
     SoftmaxFp16 env run stream (ad_data load) (ad_data store) rows columns 0 0"
  "\<lambda>(stream, load, store, rows, columns, Compute).
     TrySoftmax env run stream load store rows columns Compute"
  for env :: "'w acl_env" and run
  by unfold_locales (auto simp: TrySoftmax_eq)

definition rms_simt_admits where
  "rms_simt_admits =
     (\<lambda>(stream, load, store, rows, columns, epsilon, Inverse, inverse_rms, Compute).
        adapters_ok True load store columns Compute \<and> Inverse = Unqualified Cpp_float
        \<and> stream \<noteq> 0 \<and> ad_data load \<noteq> 0 \<and> ad_data store \<noteq> 0 \<and> inverse_rms \<noteq> 0
        \<and> RmsNormDimensionsFitOriginalKernel rows columns
        \<and> double_gt0 epsilon \<and> double_isfinite epsilon)"

lemma TryRmsNorm_eq:
  "TryRmsNorm env run stream load store rows columns epsilon Inverse inverse_rms Compute s =
     (if rms_simt_admits (stream, load, store, rows, columns, epsilon, Inverse, inverse_rms, Compute)
      then handled_launch (RmsNormFp16 env run stream (ad_data load) (ad_data store)
             (StoreAccess_Weight store) rows columns epsilon inverse_rms 0 0) s
      else (NotHandled, s))"
  unfolding TryRmsNorm_def TryRmsNorm_raw_def rms_simt_admits_def adapters_ok_def Let_def
  by (simp split: if_split) blast

interpretation rms_simt: try_route rms_simt_admits
  "\<lambda>(stream, load, store, rows, columns, epsilon, Inverse, inverse_rms, Compute).
     RmsNormFp16 env run stream (ad_data load) (ad_data store) (StoreAccess_Weight store) rows
       columns epsilon inverse_rms 0 0"
  "\<lambda>(stream, load, store, rows, columns, epsilon, Inverse, inverse_rms, Compute).
     TryRmsNorm env run stream load store rows columns epsilon Inverse inverse_rms Compute"
  for env :: "'w acl_env" and run
  by unfold_locales (auto simp: TryRmsNorm_eq)

section \<open>Properties of the dispatch\<close>

lemma narrow_to_int:
  fixes c :: u64
  assumes "0 < sint c" and "sint c \<le> 2147483647"
  shows "sint (ucast c :: u32) = sint c"
proof -
  have u: "uint c = sint c"
    using sint_pos_uint[of c] assms(1) by simp
  have "sint (ucast c :: u32) = signed_take_bit 31 (uint c)"
    by (simp add: sint_uint unsigned_ucast_eq signed_take_bit_take_bit)
  then show ?thesis
    using assms u signed_take_bit_int_eq_self[of 31 "uint c"] by simp
qed

text \<open>The code emitted around the SIMT softmax recipe: an
  admitted call queries the core count once, launches exactly the planned
  kernel with the caller's row and column counts unchanged by narrowing, and
  returns the launch's error status; every other call runs the converted
  fallback on the untouched state.  The entry checks of the implementation
  never reject an admitted call.\<close>
theorem softmax_simt_dispatch:
  "generated_dispatch condition (TrySoftmax env run stream load store rows columns Compute) fallback
       st =
     (if condition \<and> softmax_simt_admits (stream, load, store, rows, columns, Compute)
      then let (count, st1) = smn_vector_core_count env st;
               plan = softmax_plan count (count * 32) (ad_data load) (ad_data store) (sint rows)
                        (sint columns) 0;
               (e, w) = env_peek_last_error env (run plan (hs_world st1))
           in (e, st1\<lparr>hs_world := w\<rparr>)
      else fallback st)"
proof -
  have d: "generated_dispatch condition (TrySoftmax env run stream load store rows columns Compute)
      fallback st =
     (if condition \<and> softmax_simt_admits (stream, load, store, rows, columns, Compute)
      then SoftmaxFp16 env run stream (ad_data load) (ad_data store) rows columns 0 0 st
      else fallback st)"
    using softmax_simt.dispatch_eq[of condition env run
        "(stream, load, store, rows, columns, Compute)" fallback st] by simp
  show ?thesis
  proof (cases "softmax_simt_admits (stream, load, store, rows, columns, Compute)")
    case True
    then have c: "0 < sint columns" "sint columns \<le> 2147483647" "stream \<noteq> 0" "ad_data load \<noteq> 0"
        "ad_data store \<noteq> 0" "0 < sint rows" "sint rows \<le> int64_max div sint columns"
      by (simp_all add: softmax_simt_admits_def HasValidContiguousExtent_def
          kMaxValidatedRecipeColumns_def)
    show ?thesis
      unfolding d SoftmaxFp16_def softmax_Launch_def narrow_to_int[OF c(1,2)]
      using c by (simp add: SoftmaxColumnsFitTargetKernel_def Let_def case_prod_beta)
  next
    case False
    then show ?thesis
      unfolding d by simp
  qed
qed

lemma valid_v1_recipe:
  assumes "hybrid_loop stages (length stages) 1 False False False" and "4 \<le> length stages"
    and "stages ! 0 = \<lparr>stage_engine = kMte, stage_kind = kLoad\<rparr>"
    and "stages ! (length stages - 1) = \<lparr>stage_engine = kMte, stage_kind = kStore\<rparr>"
    and "name \<noteq> []"
  shows "DispatchRegisteredHybrid (v1_recipe name stages entry) args = Some (entry args)"
  using assms by (simp add: DispatchRegisteredHybrid_def IsRegisteredHybridRecipe_def v1_recipe_def
      IsValidHybridRecipe_def HasText_def)

lemmas stages_eval = mk_stages_def hybrid_loop_scan softmax_kStages_def rmsnorm_kStages_def
  layernorm_kStages_def

lemma facade_softmax:
  "Facade_TrySoftmaxHybrid abi stream load store rows columns Compute =
     Some (TrySoftmaxSimd abi stream load store rows columns Compute)"
  unfolding Facade_TrySoftmaxHybrid_def SoftmaxHybridRecipeV1_def
  by (subst valid_v1_recipe) (simp_all add: stages_eval)

lemma facade_rms:
  "Facade_TryRmsNormHybrid abi stream load store rows columns epsilon Inverse inverse_rms Compute =
     Some (TryRmsNormSimd abi stream load store rows columns epsilon Inverse inverse_rms Compute)"
  unfolding Facade_TryRmsNormHybrid_def RmsNormHybridRecipeV1_def
  by (subst valid_v1_recipe) (simp_all add: stages_eval)

lemma facade_layer:
  "Facade_TryLayerNormHybrid abi stream load store rows columns epsilon Mean mean Inverse
       inverse_variance Compute =
     Some (TryLayerNormSimd abi stream load store rows columns epsilon Mean mean Inverse
       inverse_variance Compute)"
  unfolding Facade_TryLayerNormHybrid_def LayerNormHybridRecipeV1_def
  by (subst valid_v1_recipe) (simp_all add: stages_eval)

text \<open>The code emitted around the hybrid RMS norm recipe: the
  registered recipe passes the compile-time registry, an admitted call makes
  exactly one launch and returns its status, and every other call runs the
  fallback on the untouched state.  A store with a weight is never given to
  the plain row-batch kernel, which has no weight parameter: it goes to the
  cached kernel with that weight.\<close>
theorem rms_hybrid_dispatch:
  "\<exists>attempt.
     Facade_TryRmsNormHybrid abi stream load store rows columns epsilon Inverse inverse_rms Compute
       = Some attempt
     \<and> generated_dispatch condition attempt fallback s =
         (if condition \<and> rms_hybrid_admits (stream, load, store, rows, columns, epsilon, Inverse,
                            inverse_rms, Compute)
          then (if StoreAccess_kAffine (ad_type store)
                   \<or> SelectRmsNormRoute stream (ad_data load) (ad_data store) 0 inverse_rms rows
                       columns epsilon 0 0 = kCached
                then abi_rmsnorm_cached abi stream (ad_data load) (ad_data store)
                       (StoreAccess_Weight store) inverse_rms rows columns epsilon
                else abi_rmsnorm_plain_rowbatch abi stream (ad_data load) (ad_data store)
                       inverse_rms rows columns epsilon) s
          else fallback s)"
proof -
  let ?args = "(stream, load, store, rows, columns, epsilon, Inverse, inverse_rms, Compute)"
  have l: "rms_hybrid_launch abi ?args =
      (if StoreAccess_kAffine (ad_type store)
          \<or> SelectRmsNormRoute stream (ad_data load) (ad_data store) 0 inverse_rms rows
              columns epsilon 0 0 = kCached
       then abi_rmsnorm_cached abi stream (ad_data load) (ad_data store)
              (StoreAccess_Weight store) inverse_rms rows columns epsilon
       else abi_rmsnorm_plain_rowbatch abi stream (ad_data load) (ad_data store)
              inverse_rms rows columns epsilon)"
    if admits: "rms_hybrid_admits ?args"
  proof (cases "StoreAccess_kAffine (ad_type store)")
    case True
    then have "StoreAccess_Weight store \<noteq> 0"
      using admits by (simp add: rms_hybrid_admits_def adapters_ok_def)
    then show ?thesis
      using True by (simp add: rms_hybrid_launch_def SelectRmsNormRoute_def
          IsRmsNormPlainRowBatchSimdDomain_def case_prod_beta)
  next
    case False
    then have "StoreAccess_Weight store = 0"
      by (simp add: StoreAccess_Weight_def)
    then show ?thesis
      using False admits
      by (cases "SelectRmsNormRoute stream (ad_data load) (ad_data store) 0 inverse_rms rows
            columns epsilon 0 0") (simp_all add: rms_hybrid_launch_def rms_hybrid_admits_def)
  qed
  show ?thesis
    using rms_hybrid.dispatch_eq[of condition abi ?args fallback s] l
    by (auto simp: facade_rms)
qed

end
