(* ===== verification/Cuda_Runtime.thy ===== *)
theory Cuda_Runtime
  imports Acl_Base
begin

text \<open>
  The lazily initialised runtime of \<open>include/ascify/ascify_cuda_compat.hpp\<close>:
  \<open>RuntimeManager\<close> (process-wide ACL initialisation, device bindings and exit
  cleanup), the per-thread selected device and pending error, and
  \<open>ensureCurrentDevice\<close>.

  ACL and the C library are outside the repository: \<open>acl_call\<close> names the entry
  points with their arguments, and an environment \<open>'w acl\<close> answers each call
  with a status, out values and a new world.  One thread is modelled; the locks
  make each method atomic and leave no trace in the state.
\<close>

section \<open>The environment\<close>

datatype aclrtMemcpyKind =
    ACL_MEMCPY_HOST_TO_HOST
  | ACL_MEMCPY_HOST_TO_DEVICE
  | ACL_MEMCPY_DEVICE_TO_HOST
  | ACL_MEMCPY_DEVICE_TO_DEVICE
  | Memcpy_other int

datatype acl_progress = Progress_complete | Progress_not_ready | Progress_other int

datatype acl_lifecycle_call =
    AclInit
  | AclFinalize
  | AclrtSetDevice int
  | AclrtResetDevice int
  | AclrtGetDevice
  | Atexit_runtime
  | AclrtGetCurrentContext

datatype acl_device_call =
    AclrtGetDeviceCount
  | AclrtDeviceCanAccessPeer int int
  | AclrtDeviceEnablePeerAccess int
  | AclrtDeviceDisablePeerAccess int
  | AclrtSynchronizeDevice
  | AclrtGetDeviceInfo int int
  | AclrtGetMemInfo
  | AclrtGetSocName
  | AclrtGetLastError
  | AclrtPeekAtLastError
  | AclGetRecentErrMsg

datatype acl_memory_call =
    AclrtMalloc u64
  | AclrtFree ptr
  | AclrtMallocHost u64
  | AclrtFreeHost ptr
  | AclrtMemcpy ptr u64 ptr u64 aclrtMemcpyKind
  | AclrtMemcpy_from_local ptr u64 "u32 list"
  | AclrtMemcpy_to_local ptr u64
  | AclrtMemcpyAsync ptr u64 ptr u64 aclrtMemcpyKind ptr
  | AclrtMemset ptr u64 u32 u64
  | AclrtMemsetAsync ptr u64 u32 u64 ptr

datatype acl_stream_call =
    AclrtCreateStream
  | AclrtCreateStreamWithConfig u32 u32
  | AclrtDestroyStream ptr
  | AclrtSynchronizeStream ptr
  | AclrtStreamQuery ptr
  | AclrtDeviceGetStreamPriorityRange
  | AclrtStreamWaitEvent ptr ptr
  | AclrtLaunchHostFunc ptr ptr ptr

datatype acl_event_call =
    AclrtCreateEvent
  | AclrtCreateEventExWithFlag
  | AclrtCtxGetCurrentDefaultStream
  | AclrtDestroyEvent ptr
  | AclrtRecordEvent ptr ptr
  | AclrtSynchronizeEvent ptr
  | AclrtQueryEventStatus ptr
  | AclrtEventElapsedTime ptr ptr

datatype acl_profiler_call =
    AclprofInit string
  | AclprofCreateConfig int
  | AclprofStart ptr
  | AclprofStop ptr
  | AclprofDestroyConfig ptr
  | AclprofFinalize
  | Atexit_profiler
  | Getenv_profile_dir

text \<open>\<open>Launch_address k p\<close> is the launch of the address kernel of device symbol \<open>k\<close>, which the
  symbol layer generates, with the output pointer \<open>p\<close>.\<close>

datatype acl_symbol_call =
    AclrtGetSymbolSize ptr
  | AclrtMemcpyToSymbol ptr ptr u64 u64 aclrtMemcpyKind
  | AclrtMemcpyFromSymbol ptr u64 ptr u64 u64 aclrtMemcpyKind
  | Launch_address nat ptr

datatype acl_call =
    Lifecycle acl_lifecycle_call
  | Device acl_device_call
  | Memory acl_memory_call
  | Stream acl_stream_call
  | Event acl_event_call
  | Profiler acl_profiler_call
  | Symbol acl_symbol_call

record acl_reply =
  rep_status :: aclError
  rep_int :: int
  rep_int2 :: int
  rep_ptr :: ptr
  rep_float :: u32
  rep_progress :: acl_progress
  rep_text :: "string option"

type_synonym 'w acl = "acl_call \<Rightarrow> 'w \<Rightarrow> acl_reply \<times> 'w"

section \<open>State\<close>

(* Source: src/include/ascify/ascify_cuda_compat.hpp 474-479 RuntimeAllocation *)
record RuntimeAllocation =
  ra_pointer :: ptr
  ra_bytes :: nat
  ra_device :: int
  ra_context :: ptr

definition empty_allocation :: RuntimeAllocation where
  "empty_allocation = \<lparr>ra_pointer = 0, ra_bytes = 0, ra_device = -1, ra_context = 0\<rparr>"

(* Source: src/include/ascify/ascify_cuda_compat.hpp 665-675 RuntimeManager (members) *)
record 'w rt =
  world :: 'w
  exit_cleanup_manager :: bool
  initialization_attempted :: bool
  owns_acl_initialization :: bool
  is_shutdown :: bool
  cleanup_registered :: bool
  device_cleanup_registered :: bool
  initialization_status :: aclError
  active_devices :: "int list"
  selected_device :: int
  pending_error :: aclError
  allocations :: "RuntimeAllocation list"

definition initial_rt :: "'w \<Rightarrow> 'w rt" where
  "initial_rt w =
     \<lparr>world = w, exit_cleanup_manager = False, initialization_attempted = False,
      owns_acl_initialization = False, is_shutdown = False, cleanup_registered = False,
      device_cleanup_registered = False, initialization_status = ACL_SUCCESS,
      active_devices = [], selected_device = 0, pending_error = ACL_SUCCESS,
      allocations = replicate 128 empty_allocation\<rparr>"

definition call :: "'w acl \<Rightarrow> acl_call \<Rightarrow> ('w, 'z) rt_scheme \<Rightarrow> acl_reply \<times> ('w, 'z) rt_scheme" where
  "call acl c s = (let (r, w) = acl c (world s) in (r, s\<lparr>world := w\<rparr>))"

definition call_status :: "'w acl \<Rightarrow> acl_call \<Rightarrow> ('w, 'z) rt_scheme \<Rightarrow> aclError \<times> ('w, 'z) rt_scheme" where
  "call_status acl c s = (let (r, s) = call acl c s in (rep_status r, s))"

section \<open>RuntimeManager\<close>

(* Source: src/include/ascify/ascify_cuda_compat.hpp 502-502 kTrackedDeviceCapacity *)
definition kTrackedDeviceCapacity :: nat where "kTrackedDeviceCapacity = 64"

(* Source: src/include/ascify/ascify_cuda_compat.hpp 652-658 registerExitCleanup *)
definition registerExitCleanup :: "'w acl \<Rightarrow> ('w, 'z) rt_scheme \<Rightarrow> int \<times> ('w, 'z) rt_scheme" where
  "registerExitCleanup acl s = (let (r, s) = call acl (Lifecycle Atexit_runtime) s in (rep_int r, s))"

(* Source: src/include/ascify/ascify_cuda_compat.hpp 509-547 ensureInitialized *)
definition ensureInitialized :: "'w acl \<Rightarrow> ('w, 'z) rt_scheme \<Rightarrow> aclError \<times> ('w, 'z) rt_scheme" where
  "ensureInitialized acl s =
     (if is_shutdown s then (ACL_ERROR_REPEAT_FINALIZE, s)
      else if initialization_attempted s then (initialization_status s, s)
      else
        let s = s\<lparr>initialization_attempted := True\<rparr>;
            (status, s) = call_status acl (Lifecycle AclInit) s
        in if status \<noteq> ACL_SUCCESS \<and> status \<noteq> ACL_ERROR_REPEAT_INITIALIZE
           then (status, s\<lparr>initialization_status := status\<rparr>)
           else
             let s = s\<lparr>owns_acl_initialization := (status = ACL_SUCCESS),
                       exit_cleanup_manager := True\<rparr>;
                 (registration, s) = registerExitCleanup acl s
             in if registration = 0
                then (ACL_SUCCESS, s\<lparr>cleanup_registered := True,
                                     initialization_status := ACL_SUCCESS\<rparr>)
                else
                  let finalize = owns_acl_initialization s;
                      s = s\<lparr>exit_cleanup_manager := False, owns_acl_initialization := False\<rparr>;
                      (rollback, s) = (if finalize then call_status acl (Lifecycle AclFinalize) s
                                       else (ACL_SUCCESS, s));
                      result = (if rollback = ACL_SUCCESS then ACL_ERROR_BAD_ALLOC else rollback)
                  in (result, s\<lparr>initialization_status := result\<rparr>))"

text \<open>The tail of \<open>bindDevice\<close>: track a successfully set device.\<close>

(* Source: src/include/ascify/ascify_cuda_compat.hpp 583-597 bindDevice (tracking) *)
definition track_device :: "'w acl \<Rightarrow> int \<Rightarrow> ('w, 'z) rt_scheme \<Rightarrow> aclError \<times> ('w, 'z) rt_scheme" where
  "track_device acl device s =
     (if device \<in> set (active_devices s) then (ACL_SUCCESS, s)
      else if length (active_devices s) = kTrackedDeviceCapacity
      then let (rollback, s) = call_status acl (Lifecycle (AclrtResetDevice device)) s
           in (if rollback = ACL_SUCCESS then ACL_ERROR_BAD_ALLOC else rollback, s)
      else (ACL_SUCCESS, s\<lparr>active_devices := active_devices s @ [device]\<rparr>))"

text \<open>The rollback of \<open>bindDevice\<close> when no exit callback could be registered.\<close>

(* Source: src/include/ascify/ascify_cuda_compat.hpp 567-581 bindDevice (registration failure) *)
definition unwind_binding :: "'w acl \<Rightarrow> int \<Rightarrow> aclError \<Rightarrow> ('w, 'z) rt_scheme \<Rightarrow> aclError \<times> ('w, 'z) rt_scheme" where
  "unwind_binding acl device status s =
     (let (reset, s) = (if status = ACL_SUCCESS then call_status acl (Lifecycle (AclrtResetDevice device)) s
                        else (ACL_SUCCESS, s));
          finalize = owns_acl_initialization s;
          s = s\<lparr>owns_acl_initialization := False\<rparr>;
          (rollback, s) = (if finalize then call_status acl (Lifecycle AclFinalize) s else (ACL_SUCCESS, s));
          result = (if reset \<noteq> ACL_SUCCESS then reset
                    else if rollback \<noteq> ACL_SUCCESS then rollback
                    else if status \<noteq> ACL_SUCCESS then status else ACL_ERROR_BAD_ALLOC)
      in (result, s\<lparr>initialization_status := result\<rparr>))"

(* Source: src/include/ascify/ascify_cuda_compat.hpp 549-597 bindDevice *)
definition bindDevice :: "'w acl \<Rightarrow> int \<Rightarrow> ('w, 'z) rt_scheme \<Rightarrow> aclError \<times> ('w, 'z) rt_scheme" where
  "bindDevice acl device s =
     (let (initialized, s) = ensureInitialized acl s in
      if initialized \<noteq> ACL_SUCCESS then (initialized, s)
      else if is_shutdown s then (ACL_ERROR_REPEAT_FINALIZE, s)
      else if initialization_status s \<noteq> ACL_SUCCESS then (initialization_status s, s)
      else
        let (status, s) = call_status acl (Lifecycle (AclrtSetDevice device)) s in
        if device_cleanup_registered s
        then (if status \<noteq> ACL_SUCCESS then (status, s) else track_device acl device s)
        else
          let (registration, s) = registerExitCleanup acl s in
          if registration \<noteq> 0 then unwind_binding acl device status s
          else
            let s = s\<lparr>device_cleanup_registered := (status = ACL_SUCCESS)\<rparr>
            in if status \<noteq> ACL_SUCCESS then (status, s) else track_device acl device s)"

(* Source: src/include/ascify/ascify_cuda_compat.hpp 599-621 resetDevice *)
definition resetDevice :: "'w acl \<Rightarrow> int \<Rightarrow> ('w, 'z) rt_scheme \<Rightarrow> aclError \<times> ('w, 'z) rt_scheme" where
  "resetDevice acl device s =
     (let (initialized, s) = ensureInitialized acl s in
      if initialized \<noteq> ACL_SUCCESS then (initialized, s)
      else if is_shutdown s then (ACL_ERROR_REPEAT_FINALIZE, s)
      else if initialization_status s \<noteq> ACL_SUCCESS then (initialization_status s, s)
      else
        let (status, s) = call_status acl (Lifecycle (AclrtResetDevice device)) s in
        if status = ACL_SUCCESS
        then (status, s\<lparr>active_devices := remove1 device (active_devices s)\<rparr>)
        else (status, s))"

text \<open>The reset loop of \<open>shutdown\<close>, over the devices still to reset, the most
  recently acquired first.\<close>

(* Source: src/include/ascify/ascify_cuda_compat.hpp 644-647 shutdown (reset loop) *)
fun reset_all :: "'w acl \<Rightarrow> int list \<Rightarrow> ('w, 'z) rt_scheme \<Rightarrow> ('w, 'z) rt_scheme" where
  "reset_all acl [] s = s"
| "reset_all acl (d # ds) s = reset_all acl ds (snd (call acl (Lifecycle (AclrtResetDevice d)) s))"

(* Source: src/include/ascify/ascify_cuda_compat.hpp 623-649 shutdown *)
definition shutdown :: "'w acl \<Rightarrow> ('w, 'z) rt_scheme \<Rightarrow> ('w, 'z) rt_scheme" where
  "shutdown acl s =
     (if is_shutdown s then s
      else
        let devices = active_devices s;
            finalize = owns_acl_initialization s;
            s = s\<lparr>is_shutdown := True, active_devices := [], owns_acl_initialization := False,
                  cleanup_registered := False\<rparr>;
            s = reset_all acl (rev devices) s
        in if finalize then snd (call acl (Lifecycle AclFinalize) s) else s)"

(* Source: src/include/ascify/ascify_cuda_compat.hpp 660-663 runExitCleanup *)
definition runExitCleanup :: "'w acl \<Rightarrow> ('w, 'z) rt_scheme \<Rightarrow> ('w, 'z) rt_scheme" where
  "runExitCleanup acl s = (if exit_cleanup_manager s then shutdown acl s else s)"

section \<open>The current device\<close>

(* Source: src/include/ascify/ascify_cuda_compat.hpp 692-695 rememberLifecycleError *)
definition rememberLifecycleError :: "aclError \<Rightarrow> ('w, 'z) rt_scheme \<Rightarrow> aclError \<times> ('w, 'z) rt_scheme" where
  "rememberLifecycleError status s =
     (status, if status \<noteq> ACL_SUCCESS then s\<lparr>pending_error := status\<rparr> else s)"

(* Source: src/include/ascify/ascify_cuda_compat.hpp 697-700 isMissingCurrentContext *)
definition isMissingCurrentContext :: "aclError \<Rightarrow> bool" where
  "isMissingCurrentContext status \<longleftrightarrow>
     status = ACL_ERROR_RT_CONTEXT_NULL \<or> status = ACL_ERROR_RT_NO_DEVICE"

(* Source: src/include/ascify/ascify_cuda_compat.hpp 702-728 ensureCurrentDevice *)
definition ensureCurrentDevice :: "'w acl \<Rightarrow> ('w, 'z) rt_scheme \<Rightarrow> aclError \<times> ('w, 'z) rt_scheme" where
  "ensureCurrentDevice acl s =
     (let (status, s) = ensureInitialized acl s in
      if status \<noteq> ACL_SUCCESS then rememberLifecycleError status s
      else
        let (r, s) = call acl (Lifecycle AclrtGetDevice) s in
        if rep_status r = ACL_SUCCESS then (ACL_SUCCESS, s\<lparr>selected_device := rep_int r\<rparr>)
        else if \<not> isMissingCurrentContext (rep_status r)
        then rememberLifecycleError (rep_status r) s
        else
          let (status, s) = bindDevice acl (selected_device s) s
          in rememberLifecycleError status s)"

end
