(* ===== verification/Cuda_Api.thy ===== *)
theory Cuda_Api
  imports Cuda_Runtime
begin

text \<open>
  The CUDA Runtime entry points of \<open>include/ascify/ascify_cuda_compat.hpp\<close>
  over the runtime of \<open>Cuda_Runtime\<close>: devices, memory, streams, events and
  errors.

  An out parameter is an option, None for a null pointer, whose new content is
  returned with the status; an ACL call that fails may still have written its
  out value, as \<open>rep_ptr\<close> of a failed reply.  \<open>admitted\<close> stands for the
  preprocessor condition of the reviewed SDK (legacy beta3 header family with
  ACL 1.17.0).  Texture hooks are functions on the runtime state, installed or
  not.
\<close>

(* Source: src/include/ascify/ascify_cuda_compat.hpp 462-467 RuntimeTextureHooks *)
record ('w, 'z) texture_hooks =
  hook_checkPending :: "('w, 'z) rt_scheme \<Rightarrow> aclError \<times> ('w, 'z) rt_scheme"
  hook_freeAllocation :: "ptr \<Rightarrow> ('w, 'z) rt_scheme \<Rightarrow> (aclError \<times> bool) \<times> ('w, 'z) rt_scheme"
  hook_afterReset :: "int \<Rightarrow> ('w, 'z) rt_scheme \<Rightarrow> ('w, 'z) rt_scheme"

text \<open>The readiness test most entry points start with.\<close>

(* Source: src/include/ascify/ascify_cuda_compat.hpp 726-728 cudaRuntimeEnsureReady *)
definition with_ready :: "'w acl \<Rightarrow> (('w, 'z) rt_scheme \<Rightarrow> aclError \<times> ('w, 'z) rt_scheme) \<Rightarrow> ('w, 'z) rt_scheme \<Rightarrow> aclError \<times> ('w, 'z) rt_scheme" where
  "with_ready acl body s =
     (let (ready, s) = ensureCurrentDevice acl s in
      if ready \<noteq> ACL_SUCCESS then (ready, s) else body s)"

definition check_pending :: "('w, 'z) texture_hooks option \<Rightarrow> ('w, 'z) rt_scheme \<Rightarrow> aclError \<times> ('w, 'z) rt_scheme" where
  "check_pending hooks s = (case hooks of None \<Rightarrow> (ACL_SUCCESS, s) | Some h \<Rightarrow> hook_checkPending h s)"

section \<open>Devices\<close>

(* Source: src/include/ascify/ascify_cuda_compat.hpp 881-886 cudaSetDevice *)
definition cudaSetDevice :: "'w acl \<Rightarrow> int \<Rightarrow> ('w, 'z) rt_scheme \<Rightarrow> aclError \<times> ('w, 'z) rt_scheme" where
  "cudaSetDevice acl device s =
     (if device < 0 then (ACL_ERROR_RT_PARAM_INVALID, s)
      else
        let (status, s) = bindDevice acl device s;
            s = (if status = ACL_SUCCESS then s\<lparr>selected_device := device\<rparr> else s)
        in rememberLifecycleError status s)"

(* Source: src/include/ascify/ascify_cuda_compat.hpp 888-900 cudaGetDevice *)
definition cudaGetDevice :: "'w acl \<Rightarrow> int option \<Rightarrow> ('w, 'z) rt_scheme \<Rightarrow> (aclError \<times> int option) \<times> ('w, 'z) rt_scheme" where
  "cudaGetDevice acl device s =
     (if device = None then ((ACL_ERROR_RT_PARAM_INVALID, device), s)
      else
        let (ready, s) = ensureCurrentDevice acl s in
        if ready \<noteq> ACL_SUCCESS then ((ready, device), s)
        else
          let (r, s) = call acl (Lifecycle AclrtGetDevice) s;
              (device, s) = (if rep_status r = ACL_SUCCESS
                             then (Some (rep_int r), s\<lparr>selected_device := rep_int r\<rparr>)
                             else (device, s));
              (status, s) = rememberLifecycleError (rep_status r) s
          in ((status, device), s))"

(* Source: src/include/ascify/ascify_cuda_compat.hpp 902-914 cudaGetDeviceCount *)
definition cudaGetDeviceCount ::
    "'w acl \<Rightarrow> int option \<Rightarrow> ('w, 'z) rt_scheme \<Rightarrow> (aclError \<times> int option) \<times> ('w, 'z) rt_scheme" where
  "cudaGetDeviceCount acl count s =
     (if count = None then ((ACL_ERROR_RT_PARAM_INVALID, count), s)
      else
        let count = Some 0; (initialized, s) = ensureInitialized acl s in
        if initialized \<noteq> ACL_SUCCESS
        then let (status, s) = rememberLifecycleError initialized s in ((status, count), s)
        else
          let (r, s) = call acl (Device AclrtGetDeviceCount) s;
              count = (if rep_status r = ACL_SUCCESS
                       then Some (sint (word_of_int (rep_int r) :: u32)) else count);
              (status, s) = rememberLifecycleError (rep_status r) s
          in ((status, count), s))"

(* Source: src/include/ascify/ascify_cuda_compat.hpp 916-934 cudaDeviceCanAccessPeer *)
definition cudaDeviceCanAccessPeer ::
    "'w acl \<Rightarrow> int option \<Rightarrow> int \<Rightarrow> int \<Rightarrow> ('w, 'z) rt_scheme \<Rightarrow> (aclError \<times> int option) \<times> ('w, 'z) rt_scheme" where
  "cudaDeviceCanAccessPeer acl can_access_peer device peer_device s =
     (if can_access_peer = None \<or> device < 0 \<or> peer_device < 0
      then ((ACL_ERROR_RT_PARAM_INVALID, can_access_peer), s)
      else
        let (initialized, s) = ensureInitialized acl s in
        if initialized \<noteq> ACL_SUCCESS
        then let (status, s) = rememberLifecycleError initialized s in ((status, can_access_peer), s)
        else
          let (r, s) = call acl (Device (AclrtDeviceCanAccessPeer device peer_device)) s;
              can_access_peer = (if rep_status r = ACL_SUCCESS then Some (rep_int r)
                                 else can_access_peer);
              (status, s) = rememberLifecycleError (rep_status r) s
          in ((status, can_access_peer), s))"

(* Source: src/include/ascify/ascify_cuda_compat.hpp 936-946 cudaDeviceEnablePeerAccess *)
definition cudaDeviceEnablePeerAccess :: "'w acl \<Rightarrow> int \<Rightarrow> u32 \<Rightarrow> ('w, 'z) rt_scheme \<Rightarrow> aclError \<times> ('w, 'z) rt_scheme" where
  "cudaDeviceEnablePeerAccess acl peer_device flags s =
     (if peer_device < 0 \<or> flags \<noteq> 0 then (ACL_ERROR_RT_PARAM_INVALID, s)
      else with_ready acl (\<lambda>s.
        let (status, s) = call_status acl (Device (AclrtDeviceEnablePeerAccess peer_device)) s
        in rememberLifecycleError status s) s)"

(* Source: src/include/ascify/ascify_cuda_compat.hpp 948-954 cudaDeviceDisablePeerAccess *)
definition cudaDeviceDisablePeerAccess :: "'w acl \<Rightarrow> int \<Rightarrow> ('w, 'z) rt_scheme \<Rightarrow> aclError \<times> ('w, 'z) rt_scheme" where
  "cudaDeviceDisablePeerAccess acl peer_device s =
     (if peer_device < 0 then (ACL_ERROR_RT_PARAM_INVALID, s)
      else with_ready acl (\<lambda>s.
        let (status, s) = call_status acl (Device (AclrtDeviceDisablePeerAccess peer_device)) s
        in rememberLifecycleError status s) s)"

(* Source: src/include/ascify/ascify_cuda_compat.hpp 956-963 cudaDeviceSynchronize *)
definition cudaDeviceSynchronize ::
    "'w acl \<Rightarrow> ('w, 'z) texture_hooks option \<Rightarrow> ('w, 'z) rt_scheme \<Rightarrow> aclError \<times> ('w, 'z) rt_scheme" where
  "cudaDeviceSynchronize acl hooks = with_ready acl (\<lambda>s.
     let (status, s) = call_status acl (Device AclrtSynchronizeDevice) s in
     if status \<noteq> ACL_SUCCESS then (status, s) else check_pending hooks s)"

(* Source: src/include/ascify/ascify_cuda_compat.hpp 965-984 cudaDeviceReset *)
definition cudaDeviceReset ::
    "'w acl \<Rightarrow> ('w, 'z) texture_hooks option \<Rightarrow> ('w, 'z) rt_scheme \<Rightarrow> aclError \<times> ('w, 'z) rt_scheme" where
  "cudaDeviceReset acl hooks = with_ready acl (\<lambda>s.
     let (r, s) = call acl (Lifecycle AclrtGetDevice) s in
     if rep_status r \<noteq> ACL_SUCCESS then rememberLifecycleError (rep_status r) s
     else
       let current = rep_int r;
           s = s\<lparr>selected_device := current\<rparr>;
           (status, s) = resetDevice acl current s
       in if status \<noteq> ACL_SUCCESS then rememberLifecycleError status s
          else
            let s = (case hooks of None \<Rightarrow> s | Some h \<Rightarrow> hook_afterReset h current s);
                s = s\<lparr>allocations := map (\<lambda>a. if ra_pointer a \<noteq> 0 \<and> ra_device a = current
                                             then empty_allocation else a) (allocations s)\<rparr>
            in rememberLifecycleError status s)"

section \<open>Memory\<close>

fun slot_of :: "ptr \<Rightarrow> RuntimeAllocation list \<Rightarrow> nat option" where
  "slot_of p [] = None"
| "slot_of p (a # as) = (if ra_pointer a = p then Some 0 else map_option Suc (slot_of p as))"

(* Source: src/include/ascify/ascify_cuda_compat.hpp 488-493 runtimeAllocationLocked *)
definition runtimeAllocationLocked :: "ptr \<Rightarrow> RuntimeAllocation list \<Rightarrow> nat option" where
  "runtimeAllocationLocked p records = (if p = 0 then None else slot_of p records)"

(* Source: src/include/ascify/ascify_cuda_compat.hpp 998-1006 cudaMalloc (record) *)
definition record_allocation :: "'w acl \<Rightarrow> ptr \<Rightarrow> u64 \<Rightarrow> ('w, 'z) rt_scheme \<Rightarrow> ('w, 'z) rt_scheme" where
  "record_allocation acl p bytes s =
     (case slot_of 0 (allocations s) of
        None \<Rightarrow> s
      | Some i \<Rightarrow>
          let (r, s) = call acl (Lifecycle AclrtGetCurrentContext) s
          in if rep_status r = ACL_SUCCESS \<and> rep_ptr r \<noteq> 0
             then s\<lparr>allocations := (allocations s)[i :=
                    \<lparr>ra_pointer = p, ra_bytes = unat bytes, ra_device = selected_device s,
                     ra_context = rep_ptr r\<rparr>]\<rparr>
             else s)"

(* Source: src/include/ascify/ascify_cuda_compat.hpp 986-1008 cudaMalloc *)
definition cudaMalloc ::
    "'w acl \<Rightarrow> ptr option \<Rightarrow> u64 \<Rightarrow> ('w, 'z) rt_scheme \<Rightarrow> (aclError \<times> ptr option) \<times> ('w, 'z) rt_scheme" where
  "cudaMalloc acl device_pointer bytes s =
     (if device_pointer = None then ((ACL_ERROR_RT_PARAM_INVALID, None), s)
      else
        let (ready, s) = ensureCurrentDevice acl s in
        if ready \<noteq> ACL_SUCCESS then ((ready, Some 0), s)
        else
          let (r, s) = call acl (Memory (AclrtMalloc bytes)) s;
              status = rep_status r; p = rep_ptr r
          in if status \<noteq> ACL_SUCCESS \<or> p = 0 \<or> bytes = 0 then ((status, Some p), s)
             else ((status, Some p), record_allocation acl p bytes s))"

(* Source: src/include/ascify/ascify_cuda_compat.hpp 1010-1018 cudaMalloc (T** ) *)
definition cudaMalloc_typed ::
    "'w acl \<Rightarrow> ptr option \<Rightarrow> u64 \<Rightarrow> ('w, 'z) rt_scheme \<Rightarrow> (aclError \<times> ptr option) \<times> ('w, 'z) rt_scheme" where
  "cudaMalloc_typed acl device_pointer bytes s =
     (if device_pointer = None then ((ACL_ERROR_RT_PARAM_INVALID, None), s)
      else
        let ((status, raw_pointer), s) = cudaMalloc acl (Some 0) bytes s
        in ((status, if status = ACL_SUCCESS then raw_pointer else Some 0), s))"

definition clear_slot :: "nat option \<Rightarrow> ('w, 'z) rt_scheme \<Rightarrow> ('w, 'z) rt_scheme" where
  "clear_slot slot s =
     (case slot of None \<Rightarrow> s
      | Some i \<Rightarrow> s\<lparr>allocations := (allocations s)[i := empty_allocation]\<rparr>)"

(* Source: src/include/ascify/ascify_cuda_compat.hpp 1020-1040 cudaFree *)
definition cudaFree ::
    "'w acl \<Rightarrow> ('w, 'z) texture_hooks option \<Rightarrow> ptr \<Rightarrow> ('w, 'z) rt_scheme \<Rightarrow> aclError \<times> ('w, 'z) rt_scheme" where
  "cudaFree acl hooks device_pointer s =
     (if device_pointer = 0 then (ACL_SUCCESS, s)
      else with_ready acl (\<lambda>s.
        let allocation = runtimeAllocationLocked device_pointer (allocations s);
            ((status, handled), s) = (case hooks of None \<Rightarrow> ((ACL_SUCCESS, False), s)
                                      | Some h \<Rightarrow> hook_freeAllocation h device_pointer s)
        in if handled \<or> status \<noteq> ACL_SUCCESS
           then (status, if handled \<and> status = ACL_SUCCESS then clear_slot allocation s else s)
           else
             let (status, s) = call_status acl (Memory (AclrtFree device_pointer)) s
             in (status, if status = ACL_SUCCESS then clear_slot allocation s else s)) s)"

(* Source: src/include/ascify/ascify_cuda_compat.hpp 1042-1048 cudaMallocHost *)
definition cudaMallocHost ::
    "'w acl \<Rightarrow> ptr option \<Rightarrow> u64 \<Rightarrow> ('w, 'z) rt_scheme \<Rightarrow> (aclError \<times> ptr option) \<times> ('w, 'z) rt_scheme" where
  "cudaMallocHost acl host_pointer bytes s =
     (if host_pointer = None then ((ACL_ERROR_RT_PARAM_INVALID, None), s)
      else
        let (ready, s) = ensureCurrentDevice acl s in
        if ready \<noteq> ACL_SUCCESS then ((ready, Some 0), s)
        else let (r, s) = call acl (Memory (AclrtMallocHost bytes)) s
             in ((rep_status r, Some (rep_ptr r)), s))"

(* Source: src/include/ascify/ascify_cuda_compat.hpp 1060-1068 cudaMallocHost (flags) *)
definition cudaMallocHost_flags ::
    "'w acl \<Rightarrow> ptr option \<Rightarrow> u64 \<Rightarrow> u32 \<Rightarrow> ('w, 'z) rt_scheme \<Rightarrow> (aclError \<times> ptr option) \<times> ('w, 'z) rt_scheme" where
  "cudaMallocHost_flags acl host_pointer bytes flags s =
     (if host_pointer = None then ((ACL_ERROR_RT_PARAM_INVALID, None), s)
      else if flags \<noteq> 0 then ((ACL_ERROR_FEATURE_UNSUPPORTED, Some 0), s)
      else cudaMallocHost acl (Some 0) bytes s)"

(* Source: src/include/ascify/ascify_cuda_compat.hpp 1050-1058 cudaMallocHost (T** ) *)
definition cudaMallocHost_typed ::
    "'w acl \<Rightarrow> ptr option \<Rightarrow> u64 \<Rightarrow> ('w, 'z) rt_scheme \<Rightarrow> (aclError \<times> ptr option) \<times> ('w, 'z) rt_scheme" where
  "cudaMallocHost_typed acl host_pointer bytes s =
     (if host_pointer = None then ((ACL_ERROR_RT_PARAM_INVALID, None), s)
      else
        let ((status, raw_pointer), s) = cudaMallocHost acl (Some 0) bytes s
        in ((status, if status = ACL_SUCCESS then raw_pointer else Some 0), s))"

(* Source: src/include/ascify/ascify_cuda_compat.hpp 1070-1079 cudaMallocHost (T**, flags) *)
definition cudaMallocHost_typed_flags ::
    "'w acl \<Rightarrow> ptr option \<Rightarrow> u64 \<Rightarrow> u32 \<Rightarrow> ('w, 'z) rt_scheme \<Rightarrow> (aclError \<times> ptr option) \<times> ('w, 'z) rt_scheme" where
  "cudaMallocHost_typed_flags acl host_pointer bytes flags s =
     (if host_pointer = None then ((ACL_ERROR_RT_PARAM_INVALID, None), s)
      else
        let ((status, raw_pointer), s) = cudaMallocHost_flags acl (Some 0) bytes flags s
        in ((status, if status = ACL_SUCCESS then raw_pointer else Some 0), s))"

(* Source: src/include/ascify/ascify_cuda_compat.hpp 1081-1085 cudaFreeHost *)
definition cudaFreeHost :: "'w acl \<Rightarrow> ptr \<Rightarrow> ('w, 'z) rt_scheme \<Rightarrow> aclError \<times> ('w, 'z) rt_scheme" where
  "cudaFreeHost acl host_pointer =
     with_ready acl (call_status acl (Memory (AclrtFreeHost host_pointer)))"

(* Source: src/include/ascify/ascify_cuda_compat.hpp 1089-1094 isSupportedMemcpyKind *)
definition isSupportedMemcpyKind :: "aclrtMemcpyKind \<Rightarrow> bool" where
  "isSupportedMemcpyKind kind \<longleftrightarrow>
     kind = ACL_MEMCPY_HOST_TO_HOST \<or> kind = ACL_MEMCPY_HOST_TO_DEVICE
     \<or> kind = ACL_MEMCPY_DEVICE_TO_HOST \<or> kind = ACL_MEMCPY_DEVICE_TO_DEVICE"

(* Source: src/include/ascify/ascify_cuda_compat.hpp 1096-1098 nonnullMemoryRange *)
definition nonnullMemoryRange :: "ptr \<Rightarrow> u64 \<Rightarrow> bool" where
  "nonnullMemoryRange pointer bytes \<longleftrightarrow> bytes = 0 \<or> pointer \<noteq> 0"

(* Source: src/include/ascify/ascify_cuda_compat.hpp 1102-1129 cudaMemcpy *)
definition cudaMemcpy ::
    "'w acl \<Rightarrow> ('w, 'z) texture_hooks option \<Rightarrow> ptr \<Rightarrow> ptr \<Rightarrow> u64 \<Rightarrow> aclrtMemcpyKind \<Rightarrow> ('w, 'z) rt_scheme
     \<Rightarrow> aclError \<times> ('w, 'z) rt_scheme" where
  "cudaMemcpy acl hooks destination source bytes kind s =
     (if \<not> isSupportedMemcpyKind kind then (ACL_ERROR_RT_PARAM_INVALID, s)
      else if bytes = 0 then (ACL_SUCCESS, s)
      else if \<not> nonnullMemoryRange destination bytes \<or> \<not> nonnullMemoryRange source bytes
      then (ACL_ERROR_RT_PARAM_INVALID, s)
      else with_ready acl (\<lambda>s.
        let (status, s) = (if kind \<noteq> ACL_MEMCPY_HOST_TO_HOST
                           then call_status acl (Stream (AclrtSynchronizeStream 0)) s
                           else (ACL_SUCCESS, s))
        in if status \<noteq> ACL_SUCCESS then (status, s) else
        let (status, s) = check_pending hooks s
        in if status \<noteq> ACL_SUCCESS then (status, s)
           else call_status acl (Memory (AclrtMemcpy destination bytes source bytes kind)) s) s)"

(* Source: src/include/ascify/ascify_cuda_compat.hpp 1131-1145 cudaMemcpyAsync *)
definition cudaMemcpyAsync ::
    "'w acl \<Rightarrow> ptr \<Rightarrow> ptr \<Rightarrow> u64 \<Rightarrow> aclrtMemcpyKind \<Rightarrow> ptr \<Rightarrow> ('w, 'z) rt_scheme \<Rightarrow> aclError \<times> ('w, 'z) rt_scheme" where
  "cudaMemcpyAsync acl destination source bytes kind stream s =
     (if \<not> isSupportedMemcpyKind kind then (ACL_ERROR_RT_PARAM_INVALID, s)
      else if bytes = 0 then (ACL_SUCCESS, s)
      else if \<not> nonnullMemoryRange destination bytes \<or> \<not> nonnullMemoryRange source bytes
      then (ACL_ERROR_RT_PARAM_INVALID, s)
      else with_ready acl
        (call_status acl (Memory (AclrtMemcpyAsync destination bytes source bytes kind stream))) s)"

(* Source: src/include/ascify/ascify_cuda_compat.hpp 1147-1155 cudaMemset *)
definition cudaMemset :: "'w acl \<Rightarrow> ptr \<Rightarrow> u32 \<Rightarrow> u64 \<Rightarrow> ('w, 'z) rt_scheme \<Rightarrow> aclError \<times> ('w, 'z) rt_scheme" where
  "cudaMemset acl destination value bytes s =
     (if bytes = 0 then (ACL_SUCCESS, s)
      else if \<not> nonnullMemoryRange destination bytes then (ACL_ERROR_RT_PARAM_INVALID, s)
      else with_ready acl (call_status acl (Memory (AclrtMemset destination bytes value bytes))) s)"

(* Source: src/include/ascify/ascify_cuda_compat.hpp 1157-1166 cudaMemsetAsync *)
definition cudaMemsetAsync :: "'w acl \<Rightarrow> ptr \<Rightarrow> u32 \<Rightarrow> u64 \<Rightarrow> ptr \<Rightarrow> ('w, 'z) rt_scheme \<Rightarrow> aclError \<times> ('w, 'z) rt_scheme" where
  "cudaMemsetAsync acl destination value bytes stream s =
     (if bytes = 0 then (ACL_SUCCESS, s)
      else if \<not> nonnullMemoryRange destination bytes then (ACL_ERROR_RT_PARAM_INVALID, s)
      else with_ready acl
        (call_status acl (Memory (AclrtMemsetAsync destination bytes value bytes stream))) s)"

section \<open>Streams\<close>

(* Source: src/include/ascify/ascify_cuda_compat.hpp 179-180 cudaStreamNonBlocking *)
definition cudaStreamNonBlocking :: u32 where [model_defs]: "cudaStreamNonBlocking = 1"

(* Source: src/include/ascify/ascify_cuda_compat.hpp 181-182 cudaEventWaitExternal *)
definition cudaEventWaitExternal :: u32 where [model_defs]: "cudaEventWaitExternal = 1"

(* Source: src/include/ascify/ascify_cuda_compat.hpp 190-195 cudaStreamLegacy, cudaStreamPerThread *)
definition is_implicit_stream :: "ptr \<Rightarrow> bool" where
  "is_implicit_stream stream \<longleftrightarrow> stream = 0 \<or> stream = 1 \<or> stream = 2"

(* Source: src/include/ascify/ascify_cuda_compat.hpp 1168-1174 cudaStreamCreate *)
definition cudaStreamCreate ::
    "'w acl \<Rightarrow> ptr option \<Rightarrow> ('w, 'z) rt_scheme \<Rightarrow> (aclError \<times> ptr option) \<times> ('w, 'z) rt_scheme" where
  "cudaStreamCreate acl stream s =
     (if stream = None then ((ACL_ERROR_RT_PARAM_INVALID, None), s)
      else
        let (ready, s) = ensureCurrentDevice acl s in
        if ready \<noteq> ACL_SUCCESS then ((ready, Some 0), s)
        else let (r, s) = call acl (Stream AclrtCreateStream) s
             in ((rep_status r, Some (rep_ptr r)), s))"

(* Source: src/include/ascify/ascify_cuda_compat.hpp 1176-1198 cudaStreamCreateWithFlags *)
definition cudaStreamCreateWithFlags ::
    "bool \<Rightarrow> 'w acl \<Rightarrow> ptr option \<Rightarrow> u32 \<Rightarrow> ('w, 'z) rt_scheme \<Rightarrow> (aclError \<times> ptr option) \<times> ('w, 'z) rt_scheme" where
  "cudaStreamCreateWithFlags admitted acl stream flags s =
     (if stream = None then ((ACL_ERROR_RT_PARAM_INVALID, None), s)
      else if flags = cudaStreamNonBlocking
      then (if admitted then cudaStreamCreate acl (Some 0) s
            else ((ACL_ERROR_FEATURE_UNSUPPORTED, Some 0), s))
      else if flags \<noteq> 0 then ((ACL_ERROR_RT_PARAM_INVALID, Some 0), s)
      else cudaStreamCreate acl (Some 0) s)"

text \<open>The two outputs of the priority range, each possibly a null pointer.\<close>

(* Source: src/include/ascify/ascify_cuda_compat.hpp 1202-1227 cudaDeviceGetStreamPriorityRange *)
definition cudaDeviceGetStreamPriorityRange ::
    "bool \<Rightarrow> 'w acl \<Rightarrow> int option \<Rightarrow> int option \<Rightarrow> ('w, 'z) rt_scheme
     \<Rightarrow> (aclError \<times> int option \<times> int option) \<times> ('w, 'z) rt_scheme" where
  "cudaDeviceGetStreamPriorityRange admitted acl least_priority greatest_priority s =
     (if \<not> admitted
      then ((ACL_ERROR_FEATURE_UNSUPPORTED, least_priority, greatest_priority), s)
      else
        let (ready, s) = ensureCurrentDevice acl s in
        if ready \<noteq> ACL_SUCCESS then ((ready, least_priority, greatest_priority), s)
        else
          let (r, s) = call acl (Stream AclrtDeviceGetStreamPriorityRange) s;
              least = rep_int r; greatest = rep_int2 r
          in if rep_status r \<noteq> ACL_SUCCESS
             then ((rep_status r, least_priority, greatest_priority), s)
             else if greatest < 0 \<or> least < greatest \<or> least > 7
             then ((ACL_ERROR_FEATURE_UNSUPPORTED, least_priority, greatest_priority), s)
             else ((ACL_SUCCESS, map_option (\<lambda>_. least) least_priority,
                    map_option (\<lambda>_. greatest) greatest_priority), s))"

(* Source: src/include/ascify/ascify_cuda_compat.hpp 1229-1260 cudaStreamCreateWithPriority *)
definition cudaStreamCreateWithPriority ::
    "bool \<Rightarrow> 'w acl \<Rightarrow> ptr option \<Rightarrow> u32 \<Rightarrow> int \<Rightarrow> ('w, 'z) rt_scheme \<Rightarrow> (aclError \<times> ptr option) \<times> ('w, 'z) rt_scheme" where
  "cudaStreamCreateWithPriority admitted acl stream flags priority s =
     (if stream = None then ((ACL_ERROR_RT_PARAM_INVALID, None), s)
      else if flags = 0 then ((ACL_ERROR_FEATURE_UNSUPPORTED, Some 0), s)
      else if flags \<noteq> cudaStreamNonBlocking then ((ACL_ERROR_RT_PARAM_INVALID, Some 0), s)
      else if \<not> admitted then ((ACL_ERROR_FEATURE_UNSUPPORTED, Some 0), s)
      else
        let ((range_status, least, greatest), s) =
              cudaDeviceGetStreamPriorityRange admitted acl (Some (-1)) (Some (-1)) s
        in if range_status \<noteq> ACL_SUCCESS then ((range_status, Some 0), s)
           else
             let priority = (if priority < the greatest then the greatest else priority);
                 priority = (if priority > the least then the least else priority);
                 (r, s) = call acl
                   (Stream (AclrtCreateStreamWithConfig (word_of_int priority) 0)) s
             in if rep_status r \<noteq> ACL_SUCCESS then ((rep_status r, Some 0), s)
                else if rep_ptr r = 0 then ((ACL_ERROR_FEATURE_UNSUPPORTED, Some 0), s)
                else ((ACL_SUCCESS, Some (rep_ptr r)), s))"

(* Source: src/include/ascify/ascify_cuda_compat.hpp 1262-1266 cudaStreamDestroy *)
definition cudaStreamDestroy :: "'w acl \<Rightarrow> ptr \<Rightarrow> ('w, 'z) rt_scheme \<Rightarrow> aclError \<times> ('w, 'z) rt_scheme" where
  "cudaStreamDestroy acl stream =
     with_ready acl (call_status acl (Stream (AclrtDestroyStream stream)))"

(* Source: src/include/ascify/ascify_cuda_compat.hpp 1268-1275 cudaStreamSynchronize *)
definition cudaStreamSynchronize ::
    "'w acl \<Rightarrow> ('w, 'z) texture_hooks option \<Rightarrow> ptr \<Rightarrow> ('w, 'z) rt_scheme \<Rightarrow> aclError \<times> ('w, 'z) rt_scheme" where
  "cudaStreamSynchronize acl hooks stream = with_ready acl (\<lambda>s.
     let (status, s) = call_status acl (Stream (AclrtSynchronizeStream stream)) s in
     if status \<noteq> ACL_SUCCESS then (status, s) else check_pending hooks s)"

(* Source: src/include/ascify/ascify_cuda_compat.hpp 1277-1304 cudaStreamQuery *)
definition cudaStreamQuery :: "bool \<Rightarrow> 'w acl \<Rightarrow> ptr \<Rightarrow> ('w, 'z) rt_scheme \<Rightarrow> aclError \<times> ('w, 'z) rt_scheme" where
  "cudaStreamQuery admitted acl stream s =
     (if is_implicit_stream stream then (ACL_ERROR_FEATURE_UNSUPPORTED, s)
      else if \<not> admitted then (ACL_ERROR_FEATURE_UNSUPPORTED, s)
      else with_ready acl (\<lambda>s.
        let (r, s) = call acl (Stream (AclrtStreamQuery stream)) s in
        if rep_status r = ACL_ERROR_RT_STREAM_NOT_COMPLETE
        then (ACL_ERROR_RT_EVENT_NOT_COMPLETE, s)
        else if rep_status r \<noteq> ACL_SUCCESS then (rep_status r, s)
        else if rep_progress r = Progress_complete then (ACL_SUCCESS, s)
        else if rep_progress r = Progress_not_ready then (ACL_ERROR_RT_EVENT_NOT_COMPLETE, s)
        else (ACL_ERROR_FEATURE_UNSUPPORTED, s)) s)"

(* Source: src/include/ascify/ascify_cuda_compat.hpp 1306-1329 cudaStreamWaitEvent *)
definition cudaStreamWaitEvent ::
    "bool \<Rightarrow> 'w acl \<Rightarrow> ptr \<Rightarrow> ptr \<Rightarrow> u32 \<Rightarrow> ('w, 'z) rt_scheme \<Rightarrow> aclError \<times> ('w, 'z) rt_scheme" where
  "cudaStreamWaitEvent admitted acl stream event flags s =
     (if flags = cudaEventWaitExternal then (ACL_ERROR_FEATURE_UNSUPPORTED, s)
      else if flags \<noteq> 0 \<or> event = 0 then (ACL_ERROR_RT_PARAM_INVALID, s)
      else if is_implicit_stream stream then (ACL_ERROR_FEATURE_UNSUPPORTED, s)
      else if \<not> admitted then (ACL_ERROR_FEATURE_UNSUPPORTED, s)
      else with_ready acl (call_status acl (Stream (AclrtStreamWaitEvent stream event))) s)"

(* Source: src/include/ascify/ascify_cuda_compat.hpp 1333-1352 cudaLaunchHostFunc *)
definition cudaLaunchHostFunc ::
    "bool \<Rightarrow> 'w acl \<Rightarrow> ptr \<Rightarrow> ptr \<Rightarrow> ptr \<Rightarrow> ('w, 'z) rt_scheme \<Rightarrow> aclError \<times> ('w, 'z) rt_scheme" where
  "cudaLaunchHostFunc admitted acl stream host_function user_data s =
     (if host_function = 0 then (ACL_ERROR_RT_PARAM_INVALID, s)
      else if stream = 0 then (ACL_ERROR_FEATURE_UNSUPPORTED, s)
      else if \<not> admitted then (ACL_ERROR_FEATURE_UNSUPPORTED, s)
      else with_ready acl
        (call_status acl (Stream (AclrtLaunchHostFunc stream host_function user_data))) s)"

section \<open>Events\<close>

(* Source: src/include/ascify/ascify_cuda_compat.hpp 1354-1370 cudaEventCreate *)
definition cudaEventCreate ::
    "bool \<Rightarrow> 'w acl \<Rightarrow> ptr option \<Rightarrow> ('w, 'z) rt_scheme \<Rightarrow> (aclError \<times> ptr option) \<times> ('w, 'z) rt_scheme" where
  "cudaEventCreate admitted acl event s =
     (if event = None then ((ACL_ERROR_RT_PARAM_INVALID, None), s)
      else
        let (ready, s) = ensureCurrentDevice acl s in
        if ready \<noteq> ACL_SUCCESS then ((ready, Some 0), s)
        else
          let (r, s) = call acl (Event (if admitted then AclrtCreateEventExWithFlag
                                        else AclrtCreateEvent)) s
          in ((rep_status r, Some (rep_ptr r)), s))"

(* Source: src/include/ascify/ascify_cuda_compat.hpp 1372-1376 cudaEventDestroy *)
definition cudaEventDestroy :: "'w acl \<Rightarrow> ptr \<Rightarrow> ('w, 'z) rt_scheme \<Rightarrow> aclError \<times> ('w, 'z) rt_scheme" where
  "cudaEventDestroy acl event =
     with_ready acl (call_status acl (Event (AclrtDestroyEvent event)))"

text \<open>\<open>default_stream_query\<close> is this function's own SDK condition (ACL 1.17 or later).\<close>

(* Source: src/include/ascify/ascify_cuda_compat.hpp 1378-1397 cudaEventRecord *)
definition cudaEventRecord :: "bool \<Rightarrow> 'w acl \<Rightarrow> ptr \<Rightarrow> ptr \<Rightarrow> ('w, 'z) rt_scheme \<Rightarrow> aclError \<times> ('w, 'z) rt_scheme" where
  "cudaEventRecord default_stream_query acl event stream = with_ready acl (\<lambda>s.
     if stream = 0
     then (if default_stream_query
           then let (r, s) = call acl (Event AclrtCtxGetCurrentDefaultStream) s in
             if rep_status r \<noteq> ACL_SUCCESS then (rep_status r, s)
             else call_status acl (Event (AclrtRecordEvent event (rep_ptr r))) s
           else (ACL_ERROR_FEATURE_UNSUPPORTED, s))
     else call_status acl (Event (AclrtRecordEvent event stream)) s)"

(* Source: src/include/ascify/ascify_cuda_compat.hpp 1399-1406 cudaEventSynchronize *)
definition cudaEventSynchronize ::
    "'w acl \<Rightarrow> ('w, 'z) texture_hooks option \<Rightarrow> ptr \<Rightarrow> ('w, 'z) rt_scheme \<Rightarrow> aclError \<times> ('w, 'z) rt_scheme" where
  "cudaEventSynchronize acl hooks event = with_ready acl (\<lambda>s.
     let (status, s) = call_status acl (Event (AclrtSynchronizeEvent event)) s in
     if status \<noteq> ACL_SUCCESS then (status, s) else check_pending hooks s)"

(* Source: src/include/ascify/ascify_cuda_compat.hpp 1408-1425 cudaEventQuery *)
definition cudaEventQuery :: "bool \<Rightarrow> 'w acl \<Rightarrow> ptr \<Rightarrow> ('w, 'z) rt_scheme \<Rightarrow> aclError \<times> ('w, 'z) rt_scheme" where
  "cudaEventQuery admitted acl event s =
     (if event = 0 then (ACL_ERROR_RT_PARAM_INVALID, s)
      else if \<not> admitted then (ACL_ERROR_FEATURE_UNSUPPORTED, s)
      else with_ready acl (\<lambda>s.
        let (r, s) = call acl (Event (AclrtQueryEventStatus event)) s in
        if rep_status r \<noteq> ACL_SUCCESS then (rep_status r, s)
        else if rep_progress r = Progress_complete then (ACL_SUCCESS, s)
        else if rep_progress r = Progress_not_ready then (ACL_ERROR_RT_EVENT_NOT_COMPLETE, s)
        else (ACL_ERROR_FEATURE_UNSUPPORTED, s)) s)"

(* Source: src/include/ascify/ascify_cuda_compat.hpp 1427-1433 cudaEventElapsedTime *)
definition cudaEventElapsedTime ::
    "'w acl \<Rightarrow> u32 option \<Rightarrow> ptr \<Rightarrow> ptr \<Rightarrow> ('w, 'z) rt_scheme \<Rightarrow> (aclError \<times> u32 option) \<times> ('w, 'z) rt_scheme" where
  "cudaEventElapsedTime acl milliseconds start_event end_event s =
     (if milliseconds = None then ((ACL_ERROR_RT_PARAM_INVALID, None), s)
      else
        let (ready, s) = ensureCurrentDevice acl s in
        if ready \<noteq> ACL_SUCCESS then ((ready, milliseconds), s)
        else let (r, s) = call acl (Event (AclrtEventElapsedTime start_event end_event)) s
             in ((rep_status r, Some (rep_float r)), s))"

section \<open>Errors\<close>

(* Source: src/include/ascify/ascify_cuda_compat.hpp 1435-1443 cudaGetLastError *)
definition cudaGetLastError :: "'w acl \<Rightarrow> ('w, 'z) rt_scheme \<Rightarrow> aclError \<times> ('w, 'z) rt_scheme" where
  "cudaGetLastError acl s =
     (if pending_error s \<noteq> ACL_SUCCESS
      then (pending_error s, s\<lparr>pending_error := ACL_SUCCESS\<rparr>)
      else call_status acl (Device AclrtGetLastError) s)"

(* Source: src/include/ascify/ascify_cuda_compat.hpp 1854-1859 cudaPeekAtLastError *)
definition cudaPeekAtLastError :: "'w acl \<Rightarrow> ('w, 'z) rt_scheme \<Rightarrow> aclError \<times> ('w, 'z) rt_scheme" where
  "cudaPeekAtLastError acl s =
     (if pending_error s \<noteq> ACL_SUCCESS then (pending_error s, s)
      else call_status acl (Device AclrtPeekAtLastError) s)"

(* Source: src/include/ascify/ascify_cuda_compat.hpp 1445-1452 cudaGetErrorString *)
definition cudaGetErrorString :: "'w acl \<Rightarrow> aclError \<Rightarrow> ('w, 'z) rt_scheme \<Rightarrow> string \<times> ('w, 'z) rt_scheme" where
  "cudaGetErrorString acl error s =
     (if error = ACL_SUCCESS then (''ACL_SUCCESS'', s)
      else let (r, s) = call acl (Device AclGetRecentErrMsg) s
           in (case rep_text r of None \<Rightarrow> ''ACL runtime error'' | Some m \<Rightarrow> m, s))"

text \<open>The two sample-helper macro targets: None when the process exits, with the
  message it printed to stderr as the reason left out.\<close>

(* Source: src/include/ascify/ascify_cuda_compat.hpp 1454-1467 sampleCheckCudaErrors *)
definition sampleCheckCudaErrors :: "aclError \<Rightarrow> ('w, 'z) rt_scheme \<Rightarrow> ('w, 'z) rt_scheme option" where
  "sampleCheckCudaErrors status s = (if status = ACL_SUCCESS then Some s else None)"

(* Source: src/include/ascify/ascify_cuda_compat.hpp 1469-1483 sampleGetLastCudaError *)
definition sampleGetLastCudaError :: "'w acl \<Rightarrow> ('w, 'z) rt_scheme \<Rightarrow> ('w, 'z) rt_scheme option" where
  "sampleGetLastCudaError acl s =
     (let (status, s) = cudaGetLastError acl s in if status = ACL_SUCCESS then Some s else None)"

end
