(* ===== verification/Runtime_Invariants.thy ===== *)
theory Runtime_Invariants
  imports Cuda_Runtime
begin

text \<open>
  What the runtime manager guarantees about the ACL calls it makes, for every
  environment and every sequence of its operations.  The calls are observed by
  running the model on a logging environment: \<open>logged acl\<close> answers like \<open>acl\<close>
  and keeps each call with its reply, newest first, beside the world.
\<close>

section \<open>Observed calls\<close>

type_synonym acl_log = "(acl_call \<times> acl_reply) list"

definition logged :: "'w acl \<Rightarrow> ('w \<times> acl_log) acl" where
  "logged acl c wl = (let (r, w) = acl c (fst wl) in (r, (w, (c, r) # snd wl)))"

abbreviation history :: "('w \<times> acl_log, 'z) rt_scheme \<Rightarrow> acl_log" where
  "history s \<equiv> snd (world s)"

definition calls_of :: "acl_call \<Rightarrow> acl_log \<Rightarrow> nat" where
  "calls_of c l = length (filter (\<lambda>e. fst e = c) l)"

definition succeeded :: "acl_call \<Rightarrow> acl_log \<Rightarrow> nat" where
  "succeeded c l = length (filter (\<lambda>e. fst e = c \<and> rep_status (snd e) = ACL_SUCCESS) l)"

lemma calls_of_simps [simp]:
  "calls_of c [] = 0"
  "calls_of c (e # l) = (if fst e = c then Suc (calls_of c l) else calls_of c l)"
  by (simp_all add: calls_of_def)

lemma succeeded_simps [simp]:
  "succeeded c [] = 0"
  "succeeded c (e # l) =
     (if fst e = c \<and> rep_status (snd e) = ACL_SUCCESS then Suc (succeeded c l) else succeeded c l)"
  by (simp_all add: succeeded_def)

text \<open>The devices bound in ACL after a log: set successfully and not reset since.\<close>

fun bound :: "acl_log \<Rightarrow> int set" where
  "bound [] = {}"
| "bound (e # l) =
     (if rep_status (snd e) \<noteq> ACL_SUCCESS then bound l
      else case fst e of
             Lifecycle (AclrtSetDevice d) \<Rightarrow> insert d (bound l)
           | Lifecycle (AclrtResetDevice d) \<Rightarrow> bound l - {d}
           | _ \<Rightarrow> bound l)"

definition resets_succeed :: "acl_log \<Rightarrow> bool" where
  "resets_succeed l \<longleftrightarrow>
     (\<forall>(c, r) \<in> set l. \<forall>d. c = Lifecycle (AclrtResetDevice d) \<longrightarrow> rep_status r = ACL_SUCCESS)"

lemma resets_succeed_Cons [simp]:
  "resets_succeed ((c, r) # l) \<longleftrightarrow>
     ((\<exists>d. c = Lifecycle (AclrtResetDevice d)) \<longrightarrow> rep_status r = ACL_SUCCESS) \<and> resets_succeed l"
  by (auto simp: resets_succeed_def)

lemma resets_succeed_Nil [simp]: "resets_succeed []"
  by (simp add: resets_succeed_def)

definition acl_ready :: "acl_log \<Rightarrow> bool" where
  "acl_ready l \<longleftrightarrow> calls_of (Lifecycle AclFinalize) l = 0
     \<and> (\<exists>r. (Lifecycle AclInit, r) \<in> set l
          \<and> (rep_status r = ACL_SUCCESS \<or> rep_status r = ACL_ERROR_REPEAT_INITIALIZE))"

definition is_device_call :: "acl_call \<Rightarrow> bool" where
  "is_device_call c \<longleftrightarrow>
     (\<exists>d. c = Lifecycle (AclrtSetDevice d) \<or> c = Lifecycle (AclrtResetDevice d))"

text \<open>Every device is set and reset while ACL is initialised and not finalised.\<close>

fun well_ordered :: "acl_log \<Rightarrow> bool" where
  "well_ordered [] = True"
| "well_ordered (e # l) = ((is_device_call (fst e) \<longrightarrow> acl_ready l) \<and> well_ordered l)"

section \<open>The invariant\<close>

definition usable :: "('w, 'z) rt_scheme \<Rightarrow> bool" where
  "usable s \<longleftrightarrow> initialization_attempted s \<and> \<not> is_shutdown s
     \<and> initialization_status s = ACL_SUCCESS"

definition manager_inv :: "('w, 'z) rt_scheme \<Rightarrow> bool" where
  "manager_inv s \<longleftrightarrow>
     distinct (active_devices s) \<and> length (active_devices s) \<le> kTrackedDeviceCapacity
     \<and> (active_devices s \<noteq> [] \<longrightarrow> device_cleanup_registered s \<and> usable s)
     \<and> (owns_acl_initialization s \<longrightarrow> usable s)
     \<and> (usable s \<longrightarrow> exit_cleanup_manager s)"

definition ledger_inv :: "int set \<Rightarrow> ('w \<times> acl_log, 'z) rt_scheme \<Rightarrow> bool" where
  "ledger_inv extra s \<longleftrightarrow>
     calls_of (Lifecycle AclInit) (history s) = (if initialization_attempted s then 1 else 0)
     \<and> calls_of (Lifecycle AclFinalize) (history s) + (if owns_acl_initialization s then 1 else 0)
         = succeeded (Lifecycle AclInit) (history s)
     \<and> well_ordered (history s)
     \<and> (usable s \<longrightarrow> acl_ready (history s))
     \<and> (resets_succeed (history s) \<longrightarrow> bound (history s) = set (active_devices s) \<union> extra)"

lemma call_logged:
  "call (logged acl) c s = (r, s') \<Longrightarrow> \<exists>w. s' = s\<lparr>world := (w, (c, r) # history s)\<rparr>"
  by (auto simp: call_def logged_def Let_def split: prod.splits)

lemma call_status_logged:
  "call_status (logged acl) c s = (e, s') \<Longrightarrow>
     \<exists>w r. s' = s\<lparr>world := (w, (c, r) # history s)\<rparr> \<and> rep_status r = e"
  by (auto simp: call_status_def Let_def dest!: call_logged split: prod.splits)

lemma acl_ready_Cons [simp]:
  "acl_ready ((c, r) # l) \<longleftrightarrow> c \<noteq> Lifecycle AclFinalize \<and>
     (acl_ready l \<or> (calls_of (Lifecycle AclFinalize) l = 0 \<and> c = Lifecycle AclInit
        \<and> (rep_status r = ACL_SUCCESS \<or> rep_status r = ACL_ERROR_REPEAT_INITIALIZE)))"
  by (auto simp: acl_ready_def)

lemma ready_no_finalize: "acl_ready l \<Longrightarrow> calls_of (Lifecycle AclFinalize) l = 0"
  by (simp add: acl_ready_def)

lemma succeeded_le: "succeeded c l \<le> calls_of c l"
  by (induction l) auto

lemma ensureInitialized_inv:
  assumes "ensureInitialized (logged acl) s = (e, s')" and "manager_inv s" and "ledger_inv {} s"
  shows "manager_inv s' \<and> ledger_inv {} s' \<and> (e = ACL_SUCCESS \<longrightarrow> usable s')
    \<and> active_devices s' = active_devices s
    \<and> device_cleanup_registered s' = device_cleanup_registered s"
proof (cases "is_shutdown s \<or> initialization_attempted s")
  case True
  then show ?thesis
    using assms by (auto simp: ensureInitialized_def usable_def split: if_splits)
next
  case False
  then have n: "active_devices s = []" "\<not> owns_acl_initialization s"
      "calls_of (Lifecycle AclInit) (history s) = 0"
      "calls_of (Lifecycle AclFinalize) (history s) = 0" "\<not> is_shutdown s"
      "succeeded (Lifecycle AclInit) (history s) = 0"
    using assms(2,3) succeeded_le[of "Lifecycle AclInit" "history s"]
    by (auto simp: manager_inv_def ledger_inv_def usable_def)
  show ?thesis
    using assms n False
    by (auto simp: ensureInitialized_def registerExitCleanup_def Let_def
        dest!: call_status_logged call_logged split: prod.splits if_splits)
      (simp_all add: manager_inv_def ledger_inv_def usable_def is_device_call_def)
qed

lemma manager_inv_world [simp]: "manager_inv (s\<lparr>world := x\<rparr>) = manager_inv s"
  by (simp add: manager_inv_def usable_def)

lemma usable_world [simp]: "usable (s\<lparr>world := x\<rparr>) = usable s"
  by (simp add: usable_def)

lemma track_device_inv:
  assumes "track_device (logged acl) d s = (e, s')" and "manager_inv s" and "ledger_inv {d} s"
    and "usable s" and "device_cleanup_registered s"
  shows "manager_inv s' \<and> ledger_inv {} s'"
  using assms
  by (auto simp: track_device_def Let_def dest!: call_status_logged split: prod.splits if_splits)
    (auto simp: manager_inv_def ledger_inv_def usable_def is_device_call_def
      kTrackedDeviceCapacity_def)

lemma unwind_binding_inv:
  assumes "unwind_binding (logged acl) d e0 s = (e, s')" and "manager_inv s" and "usable s"
    and "ledger_inv (if e0 = ACL_SUCCESS then {d} else {}) s" and "active_devices s = []"
  shows "manager_inv s' \<and> ledger_inv {} s'"
  using assms
  by (auto simp: unwind_binding_def Let_def dest!: call_status_logged split: prod.splits if_splits)
    (auto simp: manager_inv_def ledger_inv_def usable_def is_device_call_def)

lemma set_device_ledger:
  assumes "ledger_inv {} s" and "usable s"
  shows "ledger_inv (if rep_status r = ACL_SUCCESS then {d} else {})
    (s\<lparr>world := (w, (Lifecycle (AclrtSetDevice d), r) # history s)\<rparr>)"
  using assms by (auto simp: ledger_inv_def is_device_call_def usable_def)

lemma other_call_ledger:
  assumes "ledger_inv extra s" and "\<not> is_device_call c"
    and "c \<noteq> Lifecycle AclInit" and "c \<noteq> Lifecycle AclFinalize"
  shows "ledger_inv extra (s\<lparr>world := (w, (c, r) # history s)\<rparr>)"
  using assms
  by (auto simp: ledger_inv_def is_device_call_def usable_def
      split: acl_call.splits acl_lifecycle_call.splits)

lemma ledger_inv_update [simp]:
  "ledger_inv extra (s\<lparr>device_cleanup_registered := b\<rparr>) = ledger_inv extra s"
  "ledger_inv extra (s\<lparr>pending_error := e\<rparr>) = ledger_inv extra s"
  "ledger_inv extra (s\<lparr>selected_device := d\<rparr>) = ledger_inv extra s"
  "manager_inv (s\<lparr>pending_error := e\<rparr>) = manager_inv s"
  "manager_inv (s\<lparr>selected_device := d\<rparr>) = manager_inv s"
  by (simp_all add: ledger_inv_def manager_inv_def usable_def)

lemma manager_inv_cleanup:
  "manager_inv s \<Longrightarrow> active_devices s = [] \<Longrightarrow> manager_inv (s\<lparr>device_cleanup_registered := b\<rparr>)"
  by (simp add: manager_inv_def usable_def)

lemma bindDevice_inv:
  assumes "bindDevice (logged acl) d s = (e, s')" and "manager_inv s" and "ledger_inv {} s"
  shows "manager_inv s' \<and> ledger_inv {} s'"
proof -
  obtain e1 s1 where init: "ensureInitialized (logged acl) s = (e1, s1)"
    by fastforce
  note i = ensureInitialized_inv[OF init assms(2,3)]
  show ?thesis
  proof (cases "e1 = ACL_SUCCESS")
    case False
    then show ?thesis
      using assms(1) init i by (simp add: bindDevice_def)
  next
    case True
    then have u: "usable s1" and m1: "manager_inv s1" and l1: "ledger_inv {} s1"
      using i by simp_all
    obtain e2 s2 where set: "call_status (logged acl) (Lifecycle (AclrtSetDevice d)) s1 = (e2, s2)"
      by fastforce
    then obtain w r where s2: "s2 = s1\<lparr>world := (w, (Lifecycle (AclrtSetDevice d), r) # history s1)\<rparr>"
        "rep_status r = e2"
      using call_status_logged by blast
    have l2: "ledger_inv (if e2 = ACL_SUCCESS then {d} else {}) s2" and m2: "manager_inv s2"
        and u2: "usable s2"
      using set_device_ledger[OF l1 u, of r d w] s2 m1 u by simp_all
    show ?thesis
    proof (cases "device_cleanup_registered s2")
      case c: True
      then show ?thesis
        using assms(1) init True u set s2 l2 m2 u2 track_device_inv[of acl d s2 e s']
        by (auto simp: bindDevice_def usable_def split: if_splits)
    next
      case False
      then have a2: "active_devices s2 = []"
        using m2 by (auto simp: manager_inv_def)
      obtain n s3 where reg: "registerExitCleanup (logged acl) s2 = (n, s3)"
        by fastforce
      then obtain w' r' where s3: "s3 = s2\<lparr>world := (w', (Lifecycle Atexit_runtime, r') # history s2)\<rparr>"
        by (auto simp: registerExitCleanup_def Let_def dest!: call_logged split: prod.splits)
      have l3: "ledger_inv (if e2 = ACL_SUCCESS then {d} else {}) s3"
        and m3: "manager_inv s3" and u3: "usable s3" and a3: "active_devices s3 = []"
        using other_call_ledger[OF l2] s3 m2 u2 a2 by (simp_all add: is_device_call_def)
      have b: "bindDevice (logged acl) d s =
          (if n \<noteq> 0 then unwind_binding (logged acl) d e2 s3
           else if e2 \<noteq> ACL_SUCCESS
           then (e2, s3\<lparr>device_cleanup_registered := (e2 = ACL_SUCCESS)\<rparr>)
           else track_device (logged acl) d (s3\<lparr>device_cleanup_registered := True\<rparr>))"
        using init True u set False reg by (simp add: bindDevice_def usable_def)
      show ?thesis
        using assms(1) l3 m3 u3 a3 unwind_binding_inv[of acl d e2 s3 e s']
          track_device_inv[of acl d "s3\<lparr>device_cleanup_registered := True\<rparr>" e s']
          manager_inv_cleanup[OF m3 a3]
        unfolding b by (auto simp: usable_def split: if_splits)
    qed
  qed
qed

lemma resetDevice_inv:
  assumes "resetDevice (logged acl) d s = (e, s')" and "manager_inv s" and "ledger_inv {} s"
  shows "manager_inv s' \<and> ledger_inv {} s'"
proof -
  obtain e1 s1 where init: "ensureInitialized (logged acl) s = (e1, s1)"
    by fastforce
  note i = ensureInitialized_inv[OF init assms(2,3)]
  have "e1 = ACL_SUCCESS \<Longrightarrow> manager_inv s' \<and> ledger_inv {} s'"
    using assms(1) init i
    by (auto simp: resetDevice_def Let_def usable_def dest!: call_status_logged
        split: prod.splits if_splits)
      (auto simp: manager_inv_def ledger_inv_def usable_def is_device_call_def length_remove1
        dest: in_set_remove1)
  then show ?thesis
    using assms(1) init i by (cases "e1 = ACL_SUCCESS") (auto simp: resetDevice_def)
qed

lemma reset_all_logged:
  "\<exists>w l. reset_all (logged acl) ds s = s\<lparr>world := (w, l @ history s)\<rparr>
     \<and> map fst l = map (\<lambda>d. Lifecycle (AclrtResetDevice d)) (rev ds)"
proof (induction ds arbitrary: s)
  case Nil
  have "s = s\<lparr>world := (fst (world s), [] @ history s)\<rparr>"
    by simp
  then show ?case
    unfolding reset_all.simps by (intro exI[of _ "fst (world s)"] exI[of _ "[]"]) simp
next
  case (Cons d ds)
  obtain r s1 where c: "call (logged acl) (Lifecycle (AclrtResetDevice d)) s = (r, s1)"
    by fastforce
  then obtain w1 where s1: "s1 = s\<lparr>world := (w1, (Lifecycle (AclrtResetDevice d), r) # history s)\<rparr>"
    using call_logged by blast
  obtain w l where "reset_all (logged acl) ds s1 = s1\<lparr>world := (w, l @ history s1)\<rparr>"
      "map fst l = map (\<lambda>d. Lifecycle (AclrtResetDevice d)) (rev ds)"
    using Cons by blast
  then show ?case
    using c s1 by (intro exI[of _ w] exI[of _ "l @ [(Lifecycle (AclrtResetDevice d), r)]"]) simp
qed

definition reset_entries :: "acl_log \<Rightarrow> bool" where
  "reset_entries l \<longleftrightarrow> (\<forall>e \<in> set l. \<exists>d. fst e = Lifecycle (AclrtResetDevice d))"

lemma reset_entries_Cons [simp]:
  "reset_entries (e # l) \<longleftrightarrow> (\<exists>d. fst e = Lifecycle (AclrtResetDevice d)) \<and> reset_entries l"
  by (simp add: reset_entries_def)

lemma reset_log_counts:
  "reset_entries l \<Longrightarrow> calls_of (Lifecycle AclInit) (l @ h) = calls_of (Lifecycle AclInit) h
    \<and> calls_of (Lifecycle AclFinalize) (l @ h) = calls_of (Lifecycle AclFinalize) h
    \<and> succeeded (Lifecycle AclInit) (l @ h) = succeeded (Lifecycle AclInit) h"
  by (induction l) auto

lemma reset_log_ready:
  "reset_entries l \<Longrightarrow> acl_ready h \<Longrightarrow> acl_ready (l @ h)"
  by (induction l) (auto simp: acl_ready_def)

lemma reset_log_ordered:
  "reset_entries l \<Longrightarrow> acl_ready h \<Longrightarrow> well_ordered h \<Longrightarrow> well_ordered (l @ h)"
  by (induction l) (auto simp: reset_log_ready)

lemma reset_log_bound:
  "reset_entries l \<Longrightarrow> resets_succeed l \<Longrightarrow>
     bound (l @ h) = bound h - {d. Lifecycle (AclrtResetDevice d) \<in> fst ` set l}"
proof (induction l)
  case (Cons e l)
  obtain d r where "e = (Lifecycle (AclrtResetDevice d), r)"
    using Cons.prems(1) by (cases e) auto
  then show ?case
    using Cons by auto
qed simp

lemma resets_succeed_append [simp]:
  "resets_succeed (l @ h) \<longleftrightarrow> resets_succeed l \<and> resets_succeed h"
  by (auto simp: resets_succeed_def)

lemma shutdown_inv:
  assumes "manager_inv s" and "ledger_inv {} s"
  shows "manager_inv (shutdown (logged acl) s) \<and> ledger_inv {} (shutdown (logged acl) s)
    \<and> is_shutdown (shutdown (logged acl) s)"
proof (cases "is_shutdown s")
  case True
  then show ?thesis
    using assms by (simp add: shutdown_def)
next
  case False
  define s1 where "s1 = s\<lparr>is_shutdown := True, active_devices := [],
      owns_acl_initialization := False, cleanup_registered := False\<rparr>"
  obtain w l where l: "reset_all (logged acl) (rev (active_devices s)) s1
        = s1\<lparr>world := (w, l @ history s1)\<rparr>"
      "map fst l = map (\<lambda>d. Lifecycle (AclrtResetDevice d)) (active_devices s)"
    using reset_all_logged[of acl "rev (active_devices s)" s1] by auto
  have f: "fst ` set l = (\<lambda>d. Lifecycle (AclrtResetDevice d)) ` set (active_devices s)"
    using l(2) by (metis set_map)
  then have e: "reset_entries l"
    by (auto simp: reset_entries_def)
  have h: "history s1 = history s"
    by (simp add: s1_def)
  have "l \<noteq> [] \<Longrightarrow> acl_ready (history s)"
    using assms l(2) by (auto simp: manager_inv_def ledger_inv_def)
  then have o: "well_ordered (l @ history s)"
    using assms(2) reset_log_ordered[OF e] by (cases "l = []") (auto simp: ledger_inv_def)
  have b: "resets_succeed (l @ history s) \<Longrightarrow> bound (l @ history s) = {}"
    using assms(2) reset_log_bound[OF e, of "history s"] f by (auto simp: ledger_inv_def)
  show ?thesis
  proof (cases "owns_acl_initialization s")
    case True
    obtain r s2 where c: "call (logged acl) (Lifecycle AclFinalize)
          (s1\<lparr>world := (w, l @ history s1)\<rparr>) = (r, s2)"
      by (rule prod.exhaust)
    obtain w' where "s2 = s1\<lparr>world := (w', (Lifecycle AclFinalize, r) # l @ history s)\<rparr>"
      using call_logged[OF c] h by auto
    then have sh: "shutdown (logged acl) s
        = s1\<lparr>world := (w', (Lifecycle AclFinalize, r) # l @ history s)\<rparr>"
      using False True l(1) c by (simp add: shutdown_def flip: s1_def)
    show ?thesis
      unfolding sh using assms True o b reset_log_counts[OF e, of "history s"]
      by (auto simp: manager_inv_def ledger_inv_def usable_def s1_def is_device_call_def)
  next
    case own: False
    have sh: "shutdown (logged acl) s = s1\<lparr>world := (w, l @ history s)\<rparr>"
      using False own l(1) h by (simp add: shutdown_def flip: s1_def)
    show ?thesis
      unfolding sh using assms own o b reset_log_counts[OF e, of "history s"]
      by (auto simp: manager_inv_def ledger_inv_def usable_def s1_def)
  qed
qed

lemma ensureCurrentDevice_inv:
  assumes "ensureCurrentDevice (logged acl) s = (e, s')" and "manager_inv s" and "ledger_inv {} s"
  shows "manager_inv s' \<and> ledger_inv {} s'"
proof -
  obtain e1 s1 where init: "ensureInitialized (logged acl) s = (e1, s1)"
    by fastforce
  note i = ensureInitialized_inv[OF init assms(2,3)]
  obtain r s2 where g: "call (logged acl) (Lifecycle AclrtGetDevice) s1 = (r, s2)"
    by fastforce
  then have m2: "manager_inv s2" and l2: "ledger_inv {} s2"
    using i other_call_ledger[of "{}" s1 "Lifecycle AclrtGetDevice"]
    by (auto simp: is_device_call_def dest!: call_logged)
  obtain e3 s3 where b: "bindDevice (logged acl) (selected_device s2) s2 = (e3, s3)"
    by fastforce
  show ?thesis
    using assms(1) init i g m2 l2 b bindDevice_inv[OF b m2 l2]
    by (auto simp: ensureCurrentDevice_def rememberLifecycleError_def split: if_splits)
qed

definition runtime_inv :: "('w \<times> acl_log, 'z) rt_scheme \<Rightarrow> bool" where
  "runtime_inv s \<longleftrightarrow> manager_inv s \<and> ledger_inv {} s"

lemma initial_runtime_inv: "runtime_inv (initial_rt (w, []))"
  by (simp add: runtime_inv_def initial_rt_def manager_inv_def ledger_inv_def usable_def)

lemma exit_callback_inv: "runtime_inv s \<Longrightarrow> runtime_inv (runExitCleanup (logged acl) s)"
  using shutdown_inv[of s acl] by (auto simp: runtime_inv_def runExitCleanup_def)

lemma runtime_inv_ledger:
  assumes "runtime_inv s"
  shows "calls_of (Lifecycle AclInit) (history s) \<le> 1
    \<and> calls_of (Lifecycle AclFinalize) (history s) \<le> succeeded (Lifecycle AclInit) (history s)
    \<and> (is_shutdown s \<longrightarrow> calls_of (Lifecycle AclFinalize) (history s)
                          = succeeded (Lifecycle AclInit) (history s))
    \<and> well_ordered (history s)"
  using assms
  by (auto simp: runtime_inv_def ledger_inv_def manager_inv_def usable_def split: if_splits)

lemma runtime_inv_devices:
  assumes "runtime_inv s" and "resets_succeed (history s)"
  shows "bound (history s) = set (active_devices s)
    \<and> distinct (active_devices s) \<and> length (active_devices s) \<le> kTrackedDeviceCapacity
    \<and> (is_shutdown s \<longrightarrow> bound (history s) = {})"
  using assms by (auto simp: runtime_inv_def ledger_inv_def manager_inv_def usable_def)

section \<open>Shutdown\<close>

text \<open>The first shutdown resets every tracked device exactly
  once, the most recently acquired first, then finalises ACL if and only if
  this program's initialisation is still owned, whatever the individual calls
  return; a second shutdown makes no call.\<close>
theorem shutdown_calls:
  "map fst (history (shutdown (logged acl) s)) =
     (if is_shutdown s then []
      else (if owns_acl_initialization s then [Lifecycle AclFinalize] else [])
           @ map (\<lambda>d. Lifecycle (AclrtResetDevice d)) (active_devices s))
     @ map fst (history s)"
proof (cases "is_shutdown s")
  case False
  define s1 where "s1 = s\<lparr>is_shutdown := True, active_devices := [],
      owns_acl_initialization := False, cleanup_registered := False\<rparr>"
  obtain w l where l: "reset_all (logged acl) (rev (active_devices s)) s1
        = s1\<lparr>world := (w, l @ history s1)\<rparr>"
      "map fst l = map (\<lambda>d. Lifecycle (AclrtResetDevice d)) (active_devices s)"
    using reset_all_logged[of acl "rev (active_devices s)" s1] by auto
  have h: "history s1 = history s"
    by (simp add: s1_def)
  obtain r s2 where c: "call (logged acl) (Lifecycle AclFinalize)
        (s1\<lparr>world := (w, l @ history s1)\<rparr>) = (r, s2)"
    by (rule prod.exhaust)
  then show ?thesis
    using False l h call_logged[OF c] by (auto simp: shutdown_def simp flip: s1_def)
qed (simp add: shutdown_def)

end
