(* ===== verification/Cuda_Api_Props.thy ===== *)
theory Cuda_Api_Props
  imports Cuda_Api Runtime_Invariants
begin

text \<open>
  Properties of the CUDA entry points: they keep the runtime manager's
  invariant, so its ledger holds for every program built from them; the
  allocation registry mirrors live allocations; copies are ordered after
  default-stream work; errors are delivered once; stream priorities stay in
  the admitted range.
\<close>

section \<open>The gate every entry point passes\<close>

text \<open>The interface between the runtime (which provides \<open>ready\<close> and ordinary ACL
  calls) and the entry points: both keep an invariant.\<close>

locale runtime_gate =
  fixes inv :: "'s \<Rightarrow> bool"
    and ready :: "'s \<Rightarrow> aclError \<times> 's"
    and plain :: "'c \<Rightarrow> 's \<Rightarrow> 'r \<times> 's"
    and ordinary :: "'c \<Rightarrow> bool"
  assumes ready_inv: "inv s \<Longrightarrow> ready s = (e, s') \<Longrightarrow> inv s'"
    and plain_inv: "inv s \<Longrightarrow> ordinary c \<Longrightarrow> plain c s = (r, s') \<Longrightarrow> inv s'"
begin

lemma gated:
  assumes "\<And>s e s'. inv s \<Longrightarrow> body s = (e, s') \<Longrightarrow> inv s'" and "inv s"
    and "(let (e, s) = ready s in if e \<noteq> ACL_SUCCESS then (k e, s) else body s) = (r, s')"
  shows "inv s'"
  using assms(3) ready_inv[OF assms(2)] assms(1)
  by (auto split: prod.splits if_splits)

lemma gated_call:
  assumes "ordinary c" and "inv s"
    and "(let (e, s) = ready s in if e \<noteq> ACL_SUCCESS then (k e, s)
          else let (r, s) = plain c s in (f r, s)) = (x, s')"
  shows "inv s'"
  by (rule gated[OF _ assms(2,3)]) (use plain_inv assms(1) in \<open>auto split: prod.splits\<close>)

end

definition ordinary_call :: "acl_call \<Rightarrow> bool" where
  "ordinary_call c \<longleftrightarrow> \<not> is_device_call c \<and> c \<noteq> Lifecycle AclInit \<and> c \<noteq> Lifecycle AclFinalize"

lemma ordinary_groups [simp]:
  "ordinary_call (Device d)" "ordinary_call (Memory m)" "ordinary_call (Stream t)"
  "ordinary_call (Event e)" "ordinary_call (Profiler p)" "ordinary_call (Symbol y)"
  "ordinary_call (Lifecycle AclrtGetDevice)" "ordinary_call (Lifecycle AclrtGetCurrentContext)"
  by (simp_all add: ordinary_call_def is_device_call_def)

interpretation gate: runtime_gate runtime_inv "ensureCurrentDevice (logged acl)"
  "call (logged acl)" ordinary_call
  for acl :: "'w acl"
proof unfold_locales
  show "runtime_inv s'" if "runtime_inv s" "ensureCurrentDevice (logged acl) s = (e, s')"
    for s s' :: "('w \<times> acl_log, 'z) rt_scheme" and e
    using that ensureCurrentDevice_inv[of acl s e s'] by (simp add: runtime_inv_def)
  show "runtime_inv s'" if "runtime_inv s" "ordinary_call c" "call (logged acl) c s = (r, s')"
    for s s' :: "('w \<times> acl_log, 'z) rt_scheme" and c r
    using that other_call_ledger[of "{}" s c]
    by (auto simp: runtime_inv_def ordinary_call_def dest!: call_logged)
qed

section \<open>Every entry point keeps the runtime invariant\<close>

lemma runtime_inv_update [simp]:
  "runtime_inv (s\<lparr>pending_error := e\<rparr>) = runtime_inv s"
  "runtime_inv (s\<lparr>selected_device := d\<rparr>) = runtime_inv s"
  "runtime_inv (s\<lparr>allocations := a\<rparr>) = runtime_inv s"
  by (simp_all add: runtime_inv_def manager_inv_def ledger_inv_def usable_def)

definition hooks_keep :: "('w \<times> acl_log, 'z) texture_hooks option \<Rightarrow> bool" where
  "hooks_keep hooks \<longleftrightarrow> (\<forall>h s p d. hooks = Some h \<longrightarrow> runtime_inv s \<longrightarrow>
     runtime_inv (snd (hook_checkPending h s))
     \<and> runtime_inv (snd (hook_freeAllocation h p s))
     \<and> runtime_inv (hook_afterReset h d s))"

named_theorems api_keeps

lemma call_keeps [api_keeps]:
  "runtime_inv s \<Longrightarrow> ordinary_call c \<Longrightarrow> call (logged acl) c s = (r, s') \<Longrightarrow> runtime_inv s'"
  by (rule gate.plain_inv)

lemma call_status_keeps [api_keeps]:
  "runtime_inv s \<Longrightarrow> ordinary_call c \<Longrightarrow> call_status (logged acl) c s = (e, s') \<Longrightarrow> runtime_inv s'"
  by (auto simp: call_status_def Let_def split: prod.splits intro: call_keeps)

lemma ready_keeps [api_keeps]:
  "runtime_inv s \<Longrightarrow> ensureCurrentDevice (logged acl) s = (e, s') \<Longrightarrow> runtime_inv s'"
  by (rule gate.ready_inv)

lemma remember_keeps [api_keeps]:
  "runtime_inv s \<Longrightarrow> rememberLifecycleError e s = (e', s') \<Longrightarrow> runtime_inv s'"
  by (auto simp: rememberLifecycleError_def split: if_splits)

lemma initialized_keeps [api_keeps]:
  "runtime_inv s \<Longrightarrow> ensureInitialized (logged acl) s = (e, s') \<Longrightarrow> runtime_inv s'"
  using ensureInitialized_inv[of acl s e s'] by (simp add: runtime_inv_def)

lemma bind_keeps [api_keeps]:
  "runtime_inv s \<Longrightarrow> bindDevice (logged acl) d s = (e, s') \<Longrightarrow> runtime_inv s'"
  using bindDevice_inv[of acl d s e s'] by (simp add: runtime_inv_def)

lemma reset_keeps [api_keeps]:
  "runtime_inv s \<Longrightarrow> resetDevice (logged acl) d s = (e, s') \<Longrightarrow> runtime_inv s'"
  using resetDevice_inv[of acl d s e s'] by (simp add: runtime_inv_def)

lemma pending_keeps [api_keeps]:
  "runtime_inv s \<Longrightarrow> hooks_keep hooks \<Longrightarrow> check_pending hooks s = (e, s') \<Longrightarrow> runtime_inv s'"
  unfolding hooks_keep_def check_pending_def
  by (cases hooks) (force split: option.splits)+

lemma free_hook_keeps [api_keeps]:
  "runtime_inv s \<Longrightarrow> hooks_keep (Some h) \<Longrightarrow> hook_freeAllocation h p s = (e, s') \<Longrightarrow> runtime_inv s'"
  unfolding hooks_keep_def by (metis snd_conv)

lemma reset_hook_keeps:
  "runtime_inv s \<Longrightarrow> hooks_keep (Some h) \<Longrightarrow> runtime_inv (hook_afterReset h d s)"
  unfolding hooks_keep_def by blast

lemma with_ready_keeps:
  assumes "\<And>s e s'. runtime_inv s \<Longrightarrow> body s = (e, s') \<Longrightarrow> runtime_inv s'"
    and "runtime_inv s" and "with_ready (logged acl) body s = (e, s')"
  shows "runtime_inv s'"
  by (rule gate.gated[where k = "\<lambda>e. e" and body = body, OF assms(1,2)])
    (use assms(3) in \<open>simp_all add: with_ready_def\<close>)

subsection \<open>Programs\<close>

text \<open>An execution of a translated program, as the runtime sees it: CUDA entry
  points in any order with any arguments, and at some point the exit callback
  or the manager's destructor.\<close>

datatype device_op =
    Set_device int | Get_device "int option" | Get_device_count "int option"
  | Can_access_peer "int option" int int | Enable_peer int u32 | Disable_peer int
  | Device_synchronize | Device_reset

fun device_exec :: "'w acl \<Rightarrow> ('w, 'z) texture_hooks option \<Rightarrow> device_op \<Rightarrow> ('w, 'z) rt_scheme \<Rightarrow> ('w, 'z) rt_scheme" where
  "device_exec acl hooks (Set_device d) s = snd (cudaSetDevice acl d s)"
| "device_exec acl hooks (Get_device d) s = snd (cudaGetDevice acl d s)"
| "device_exec acl hooks (Get_device_count n) s = snd (cudaGetDeviceCount acl n s)"
| "device_exec acl hooks (Can_access_peer r d p) s = snd (cudaDeviceCanAccessPeer acl r d p s)"
| "device_exec acl hooks (Enable_peer p f) s = snd (cudaDeviceEnablePeerAccess acl p f s)"
| "device_exec acl hooks (Disable_peer p) s = snd (cudaDeviceDisablePeerAccess acl p s)"
| "device_exec acl hooks Device_synchronize s = snd (cudaDeviceSynchronize acl hooks s)"
| "device_exec acl hooks Device_reset s = snd (cudaDeviceReset acl hooks s)"

datatype memory_op =
    Malloc "ptr option" u64 | Malloc_typed "ptr option" u64 | Free ptr
  | Malloc_host "ptr option" u64 u32 | Free_host ptr
  | Memcpy ptr ptr u64 aclrtMemcpyKind | Memcpy_async ptr ptr u64 aclrtMemcpyKind ptr
  | Memset ptr u32 u64 | Memset_async ptr u32 u64 ptr

fun memory_exec :: "'w acl \<Rightarrow> ('w, 'z) texture_hooks option \<Rightarrow> memory_op \<Rightarrow> ('w, 'z) rt_scheme \<Rightarrow> ('w, 'z) rt_scheme" where
  "memory_exec acl hooks (Malloc p n) s = snd (cudaMalloc acl p n s)"
| "memory_exec acl hooks (Malloc_typed p n) s = snd (cudaMalloc_typed acl p n s)"
| "memory_exec acl hooks (Free p) s = snd (cudaFree acl hooks p s)"
| "memory_exec acl hooks (Malloc_host p n f) s = snd (cudaMallocHost_typed_flags acl p n f s)"
| "memory_exec acl hooks (Free_host p) s = snd (cudaFreeHost acl p s)"
| "memory_exec acl hooks (Memcpy d p n k) s = snd (cudaMemcpy acl hooks d p n k s)"
| "memory_exec acl hooks (Memcpy_async d p n k t) s = snd (cudaMemcpyAsync acl d p n k t s)"
| "memory_exec acl hooks (Memset d v n) s = snd (cudaMemset acl d v n s)"
| "memory_exec acl hooks (Memset_async d v n t) s = snd (cudaMemsetAsync acl d v n t s)"

datatype stream_op =
    Stream_create "ptr option" u32 | Stream_create_priority "ptr option" u32 int
  | Priority_range "int option" "int option" | Stream_destroy ptr | Stream_synchronize ptr
  | Stream_query ptr | Stream_wait ptr ptr u32 | Launch_host ptr ptr ptr

fun stream_exec :: "bool \<Rightarrow> 'w acl \<Rightarrow> ('w, 'z) texture_hooks option \<Rightarrow> stream_op \<Rightarrow> ('w, 'z) rt_scheme \<Rightarrow> ('w, 'z) rt_scheme" where
  "stream_exec a acl hooks (Stream_create p f) s = snd (cudaStreamCreateWithFlags a acl p f s)"
| "stream_exec a acl hooks (Stream_create_priority p f n) s =
     snd (cudaStreamCreateWithPriority a acl p f n s)"
| "stream_exec a acl hooks (Priority_range l g) s =
     snd (cudaDeviceGetStreamPriorityRange a acl l g s)"
| "stream_exec a acl hooks (Stream_destroy t) s = snd (cudaStreamDestroy acl t s)"
| "stream_exec a acl hooks (Stream_synchronize t) s = snd (cudaStreamSynchronize acl hooks t s)"
| "stream_exec a acl hooks (Stream_query t) s = snd (cudaStreamQuery a acl t s)"
| "stream_exec a acl hooks (Stream_wait t e f) s = snd (cudaStreamWaitEvent a acl t e f s)"
| "stream_exec a acl hooks (Launch_host t f d) s = snd (cudaLaunchHostFunc a acl t f d s)"

datatype event_op =
    Event_create "ptr option" | Event_destroy ptr | Event_record ptr ptr | Event_synchronize ptr
  | Event_query ptr | Event_elapsed "u32 option" ptr ptr | Get_last_error | Peek_last_error

fun event_exec :: "bool \<Rightarrow> 'w acl \<Rightarrow> ('w, 'z) texture_hooks option \<Rightarrow> event_op \<Rightarrow> ('w, 'z) rt_scheme \<Rightarrow> ('w, 'z) rt_scheme" where
  "event_exec a acl hooks (Event_create p) s = snd (cudaEventCreate a acl p s)"
| "event_exec a acl hooks (Event_destroy e) s = snd (cudaEventDestroy acl e s)"
| "event_exec a acl hooks (Event_record e t) s = snd (cudaEventRecord a acl e t s)"
| "event_exec a acl hooks (Event_synchronize e) s = snd (cudaEventSynchronize acl hooks e s)"
| "event_exec a acl hooks (Event_query e) s = snd (cudaEventQuery a acl e s)"
| "event_exec a acl hooks (Event_elapsed m e f) s = snd (cudaEventElapsedTime acl m e f s)"
| "event_exec a acl hooks Get_last_error s = snd (cudaGetLastError acl s)"
| "event_exec a acl hooks Peek_last_error s = snd (cudaPeekAtLastError acl s)"

inductive program_state ::
    "bool \<Rightarrow> 'w acl \<Rightarrow> ('w, unit) texture_hooks option \<Rightarrow> 'w \<Rightarrow> 'w rt \<Rightarrow> bool" for a acl hooks w where
  start: "program_state a acl hooks w (initial_rt w)"
| ensure: "program_state a acl hooks w s \<Longrightarrow>
    program_state a acl hooks w (snd (ensureCurrentDevice acl s))"
| device: "program_state a acl hooks w s \<Longrightarrow> program_state a acl hooks w (device_exec acl hooks c s)"
| memory: "program_state a acl hooks w s \<Longrightarrow> program_state a acl hooks w (memory_exec acl hooks m s)"
| stream: "program_state a acl hooks w s \<Longrightarrow> program_state a acl hooks w (stream_exec a acl hooks t s)"
| event: "program_state a acl hooks w s \<Longrightarrow> program_state a acl hooks w (event_exec a acl hooks e s)"
| exit_callback: "program_state a acl hooks w s \<Longrightarrow>
    program_state a acl hooks w (runExitCleanup acl s)"
| destructor: "program_state a acl hooks w s \<Longrightarrow> program_state a acl hooks w (shutdown acl s)"

lemma snd_keeps: "(\<And>r t. x = (r, t) \<Longrightarrow> runtime_inv t) \<Longrightarrow> runtime_inv (snd x)"
  by (cases x) simp

text \<open>The same facts with the equation first, for backward chaining.\<close>

lemma chain_keeps:
  "call (logged acl) c s = (r, s') \<Longrightarrow> ordinary_call c \<Longrightarrow> runtime_inv s \<Longrightarrow> runtime_inv s'"
  "call_status (logged acl) c s = (e, s') \<Longrightarrow> ordinary_call c \<Longrightarrow> runtime_inv s \<Longrightarrow> runtime_inv s'"
  "ensureCurrentDevice (logged acl) s = (e, s') \<Longrightarrow> runtime_inv s \<Longrightarrow> runtime_inv s'"
  "ensureInitialized (logged acl) s = (e, s') \<Longrightarrow> runtime_inv s \<Longrightarrow> runtime_inv s'"
  "bindDevice (logged acl) d s = (e, s') \<Longrightarrow> runtime_inv s \<Longrightarrow> runtime_inv s'"
  "check_pending hooks s = (e, s') \<Longrightarrow> hooks_keep hooks \<Longrightarrow> runtime_inv s \<Longrightarrow> runtime_inv s'"
  by (rule api_keeps; assumption)+

lemmas keeps_intros = chain_keeps ordinary_groups

text \<open>One lemma per entry point that does more than pass the gate and make a call.\<close>

lemma cudaSetDevice_keeps:
  "runtime_inv s \<Longrightarrow> cudaSetDevice (logged acl) d s = (e, s') \<Longrightarrow> runtime_inv s'"
  by (auto simp: cudaSetDevice_def Let_def rememberLifecycleError_def
      split: prod.splits if_splits intro: keeps_intros)

lemma cudaGetDevice_keeps:
  "runtime_inv s \<Longrightarrow> cudaGetDevice (logged acl) d s = (e, s') \<Longrightarrow> runtime_inv s'"
  by (auto simp: cudaGetDevice_def Let_def rememberLifecycleError_def split: prod.splits if_splits)
    (blast intro: keeps_intros)+

lemma cudaGetDeviceCount_keeps:
  "runtime_inv s \<Longrightarrow> cudaGetDeviceCount (logged acl) d s = (e, s') \<Longrightarrow> runtime_inv s'"
  by (auto simp: cudaGetDeviceCount_def Let_def rememberLifecycleError_def split: prod.splits if_splits)
    (blast intro: keeps_intros)+

lemma cudaDeviceCanAccessPeer_keeps:
  "runtime_inv s \<Longrightarrow> cudaDeviceCanAccessPeer (logged acl) r d p s = (e, s') \<Longrightarrow> runtime_inv s'"
  by (auto simp: cudaDeviceCanAccessPeer_def Let_def rememberLifecycleError_def split: prod.splits if_splits)
    (blast intro: keeps_intros)+

lemma gated_status_keeps:
  assumes "runtime_inv s" and "ordinary_call c"
    and "with_ready (logged acl) (\<lambda>s. let (status, s) = call_status (logged acl) c s in
           rememberLifecycleError status s) s = (e, s')"
  shows "runtime_inv s'"
  by (rule with_ready_keeps[OF _ assms(1,3)])
    (use assms(2) in \<open>auto simp: rememberLifecycleError_def
        split: prod.splits if_splits intro: keeps_intros\<close>)

lemma gated_plain_keeps:
  assumes "runtime_inv s" and "ordinary_call c"
    and "with_ready (logged acl) (call_status (logged acl) c) s = (e, s')"
  shows "runtime_inv s'"
  by (rule with_ready_keeps[OF _ assms(1,3)]) (use assms(2) chain_keeps(2) in blast)

lemma gated_pending_keeps:
  assumes "runtime_inv s" and "hooks_keep hooks" and "ordinary_call c"
    and "with_ready (logged acl) (\<lambda>s. let (status, s) = call_status (logged acl) c s in
           if status \<noteq> ACL_SUCCESS then (status, s) else check_pending hooks s) s = (e, s')"
  shows "runtime_inv s'"
  by (rule with_ready_keeps[OF _ assms(1,4)])
    (use assms(2,3) in \<open>auto split: prod.splits if_splits intro: keeps_intros\<close>)

lemma cudaDeviceReset_keeps:
  assumes "runtime_inv s" and "hooks_keep hooks"
    and "cudaDeviceReset (logged acl) hooks s = (e, s')"
  shows "runtime_inv s'"
proof (rule with_ready_keeps[OF _ assms(1) assms(3)[unfolded cudaDeviceReset_def]])
  fix t :: "('a \<times> acl_log, 'b) rt_scheme" and e t'
  assume t: "runtime_inv t"
    and b: "(let (r, s) = call (logged acl) (Lifecycle AclrtGetDevice) t in
       if rep_status r \<noteq> ACL_SUCCESS then rememberLifecycleError (rep_status r) s
       else let current = rep_int r; s = s\<lparr>selected_device := current\<rparr>;
                (status, s) = resetDevice (logged acl) current s
            in if status \<noteq> ACL_SUCCESS then rememberLifecycleError status s
               else let s = case hooks of None \<Rightarrow> s | Some h \<Rightarrow> hook_afterReset h current s;
                        s = s\<lparr>allocations := map (\<lambda>a. if ra_pointer a \<noteq> 0 \<and> ra_device a = current
                               then empty_allocation else a) (allocations s)\<rparr>
                    in rememberLifecycleError status s) = (e, t')"
  obtain r t1 where c: "call (logged acl) (Lifecycle AclrtGetDevice) t = (r, t1)"
    by fastforce
  have t1: "runtime_inv t1"
    by (rule call_keeps[OF t _ c]) simp
  obtain e2 t2 where d: "resetDevice (logged acl) (rep_int r) (t1\<lparr>selected_device := rep_int r\<rparr>)
      = (e2, t2)"
    by fastforce
  have "runtime_inv t2"
    by (rule reset_keeps[OF _ d]) (simp add: t1)
  then show "runtime_inv t'"
    using b c t1 d assms(2)
    by (auto simp: Let_def rememberLifecycleError_def intro: reset_hook_keeps
        split: if_splits option.splits)
qed

lemmas gated_intros = gated_status_keeps[unfolded Let_def, rotated 2]
  gated_plain_keeps[rotated 2] gated_pending_keeps[unfolded Let_def, rotated 3]

lemma device_exec_keeps:
  assumes "runtime_inv s" and "hooks_keep hooks"
  shows "runtime_inv (device_exec (logged acl) hooks c s)"
proof (cases c)
  case (Enable_peer p f)
  then show ?thesis
    using assms(1) by (auto simp: cudaDeviceEnablePeerAccess_def Let_def
        intro!: snd_keeps elim!: gated_intros)
next
  case (Disable_peer p)
  then show ?thesis
    using assms(1) by (auto simp: cudaDeviceDisablePeerAccess_def Let_def
        intro!: snd_keeps elim!: gated_intros)
next
  case Device_synchronize
  then show ?thesis
    using assms by (auto simp: cudaDeviceSynchronize_def Let_def
        intro!: snd_keeps elim!: gated_intros)
qed (use assms in \<open>auto intro!: snd_keeps dest: cudaSetDevice_keeps cudaGetDevice_keeps
      cudaGetDeviceCount_keeps cudaDeviceCanAccessPeer_keeps cudaDeviceReset_keeps\<close>)

lemma record_allocation_keeps:
  "runtime_inv s \<Longrightarrow> runtime_inv (record_allocation (logged acl) p n s)"
  by (auto simp: record_allocation_def Let_def split: option.splits prod.splits intro: keeps_intros)

lemma cudaMalloc_keeps:
  "runtime_inv s \<Longrightarrow> cudaMalloc (logged acl) p n s = (e, s') \<Longrightarrow> runtime_inv s'"
  by (auto simp: cudaMalloc_def Let_def
      split: prod.splits if_splits intro: keeps_intros record_allocation_keeps)

lemma cudaMallocHost_keeps:
  "runtime_inv s \<Longrightarrow> cudaMallocHost (logged acl) p n s = (e, s') \<Longrightarrow> runtime_inv s'"
  by (auto simp: cudaMallocHost_def Let_def split: prod.splits if_splits intro: keeps_intros)

lemma clear_slot_keeps [simp]: "runtime_inv (clear_slot i s) = runtime_inv s"
  by (simp add: clear_slot_def split: option.splits)

lemma cudaFree_keeps:
  assumes "runtime_inv s" and "hooks_keep hooks"
    and "cudaFree (logged acl) hooks p s = (e, s')"
  shows "runtime_inv s'"
proof (cases "p = 0")
  case False
  show ?thesis
    by (rule with_ready_keeps[OF _ assms(1) assms(3)[unfolded cudaFree_def if_not_P[OF False]]])
      (use assms(2) in \<open>auto simp: Let_def split: prod.splits if_splits option.splits\<close>,
       (blast intro: keeps_intros free_hook_keeps)+)
qed (use assms in \<open>simp add: cudaFree_def\<close>)

lemma cudaMemcpy_keeps:
  assumes "runtime_inv s" and "hooks_keep hooks"
    and "cudaMemcpy (logged acl) hooks d p n k s = (e, s')"
  shows "runtime_inv s'"
proof (cases "\<not> isSupportedMemcpyKind k \<or> n = 0 \<or> \<not> nonnullMemoryRange d n \<or> \<not> nonnullMemoryRange p n")
  case False
  then have body: "with_ready (logged acl) (\<lambda>s.
      let (status, s) = (if k \<noteq> ACL_MEMCPY_HOST_TO_HOST then call_status (logged acl) (Stream (AclrtSynchronizeStream 0)) s
                         else (ACL_SUCCESS, s))
      in if status \<noteq> ACL_SUCCESS then (status, s) else
      let (status, s) = check_pending hooks s
      in if status \<noteq> ACL_SUCCESS then (status, s)
         else call_status (logged acl) (Memory (AclrtMemcpy d n p n k)) s) s = (e, s')"
    using assms(3) by (simp add: cudaMemcpy_def)
  show ?thesis
    by (rule with_ready_keeps[OF _ assms(1) body])
      (use assms(2) in \<open>auto split: prod.splits if_splits\<close>, (blast intro: keeps_intros)+)
qed (use assms in \<open>auto simp: cudaMemcpy_def split: if_splits\<close>)

lemma cudaMallocHost_flags_keeps:
  "runtime_inv s \<Longrightarrow> cudaMallocHost_flags (logged acl) p n f s = (e, s') \<Longrightarrow> runtime_inv s'"
  by (auto simp: cudaMallocHost_flags_def split: if_splits dest: cudaMallocHost_keeps)

lemma malloc_exec_keeps:
  assumes "runtime_inv s"
  shows "runtime_inv (snd (cudaMalloc (logged acl) p n s))"
    and "runtime_inv (snd (cudaMalloc_typed (logged acl) p n s))"
    and "runtime_inv (snd (cudaMallocHost_typed_flags (logged acl) p n f s))"
  using assms
  by (auto intro!: snd_keeps simp: cudaMalloc_typed_def cudaMallocHost_typed_flags_def
      split: if_splits prod.splits dest: cudaMalloc_keeps cudaMallocHost_flags_keeps)

lemma gated_memory_keeps:
  assumes "runtime_inv s"
  shows "runtime_inv (snd (cudaFreeHost (logged acl) p s))"
    and "runtime_inv (snd (cudaMemcpyAsync (logged acl) p q n k t s))"
    and "runtime_inv (snd (cudaMemset (logged acl) p v n s))"
    and "runtime_inv (snd (cudaMemsetAsync (logged acl) p v n t s))"
  using assms
  by (auto intro!: snd_keeps simp: cudaFreeHost_def cudaMemcpyAsync_def cudaMemset_def
      cudaMemsetAsync_def elim!: gated_intros split: if_splits)

lemma memory_exec_keeps:
  assumes "runtime_inv s" and "hooks_keep hooks"
  shows "runtime_inv (memory_exec (logged acl) hooks c s)"
  using assms snd_keeps[OF cudaFree_keeps[OF assms]] snd_keeps[OF cudaMemcpy_keeps[OF assms]]
  by (cases c) (simp_all add: malloc_exec_keeps gated_memory_keeps)

lemma stream_create_keeps:
  "runtime_inv s \<Longrightarrow> cudaStreamCreate (logged acl) p s = (e, s') \<Longrightarrow> runtime_inv s'"
  by (auto simp: cudaStreamCreate_def Let_def split: prod.splits if_splits intro: keeps_intros)

lemma priority_range_keeps:
  "runtime_inv s \<Longrightarrow> cudaDeviceGetStreamPriorityRange a (logged acl) l g s = (e, s') \<Longrightarrow>
     runtime_inv s'"
  by (auto simp: cudaDeviceGetStreamPriorityRange_def Let_def split: prod.splits if_splits)
    (blast intro: keeps_intros)+

lemma stream_priority_keeps:
  "runtime_inv s \<Longrightarrow> cudaStreamCreateWithPriority a (logged acl) p f n s = (e, s') \<Longrightarrow>
     runtime_inv s'"
  by (auto simp: cudaStreamCreateWithPriority_def Let_def split: prod.splits if_splits)
    (blast intro: keeps_intros priority_range_keeps)+

lemma stream_query_keeps:
  "runtime_inv s \<Longrightarrow> cudaStreamQuery a (logged acl) t s = (e, s') \<Longrightarrow> runtime_inv s'"
  by (auto simp: cudaStreamQuery_def with_ready_def Let_def split: prod.splits if_splits)
    (blast intro: keeps_intros)+

lemma gated_stream_keeps:
  assumes "runtime_inv s"
  shows "runtime_inv (snd (cudaStreamDestroy (logged acl) t s))"
    and "runtime_inv (snd (cudaStreamWaitEvent a (logged acl) t e f s))"
    and "runtime_inv (snd (cudaLaunchHostFunc a (logged acl) t h d s))"
    and "runtime_inv (snd (cudaStreamCreateWithFlags a (logged acl) p f s))"
  using assms
  by (auto intro!: snd_keeps simp: cudaStreamDestroy_def cudaStreamWaitEvent_def
      cudaLaunchHostFunc_def cudaStreamCreateWithFlags_def elim!: gated_intros
      dest: stream_create_keeps split: if_splits)

lemma gated_synchronize_keeps:
  assumes "runtime_inv s" and "hooks_keep hooks"
  shows "runtime_inv (snd (cudaStreamSynchronize (logged acl) hooks t s))"
    and "runtime_inv (snd (cudaEventSynchronize (logged acl) hooks e s))"
  using assms
  by (auto intro!: snd_keeps simp: cudaStreamSynchronize_def cudaEventSynchronize_def Let_def
      elim!: gated_intros)

lemma stream_exec_keeps:
  assumes "runtime_inv s" and "hooks_keep hooks"
  shows "runtime_inv (stream_exec a (logged acl) hooks c s)"
  using assms snd_keeps[OF priority_range_keeps[OF assms(1)]]
    snd_keeps[OF stream_priority_keeps[OF assms(1)]] snd_keeps[OF stream_query_keeps[OF assms(1)]]
  by (cases c) (simp_all add: gated_stream_keeps gated_synchronize_keeps)

lemma event_record_keeps:
  "runtime_inv s \<Longrightarrow> cudaEventRecord a (logged acl) e t s = (r, s') \<Longrightarrow> runtime_inv s'"
  by (auto simp: cudaEventRecord_def with_ready_def Let_def split: prod.splits if_splits)
    (blast intro: keeps_intros)+

lemma event_query_keeps:
  "runtime_inv s \<Longrightarrow> cudaEventQuery a (logged acl) e s = (r, s') \<Longrightarrow> runtime_inv s'"
  by (auto simp: cudaEventQuery_def with_ready_def Let_def split: prod.splits if_splits)
    (blast intro: keeps_intros)+

lemma event_exec_keeps:
  assumes "runtime_inv s" and "hooks_keep hooks"
  shows "runtime_inv (event_exec a (logged acl) hooks c s)"
proof (cases c)
  case (Event_create p)
  then show ?thesis
    using assms(1) by (auto intro!: snd_keeps simp: cudaEventCreate_def Let_def
        split: prod.splits if_splits intro: keeps_intros)
next
  case (Event_elapsed m e f)
  then show ?thesis
    using assms(1) by (auto intro!: snd_keeps simp: cudaEventElapsedTime_def Let_def
        split: prod.splits if_splits intro: keeps_intros)
next
  case (Event_destroy e)
  then show ?thesis
    using assms(1) by (auto intro!: snd_keeps simp: cudaEventDestroy_def elim!: gated_intros)
next
  case Get_last_error
  then show ?thesis
    using assms(1) by (auto intro!: snd_keeps simp: cudaGetLastError_def split: if_splits
        intro: keeps_intros)
next
  case Peek_last_error
  then show ?thesis
    using assms(1) by (auto intro!: snd_keeps simp: cudaPeekAtLastError_def split: if_splits
        intro: keeps_intros)
qed (use assms snd_keeps[OF event_record_keeps[OF assms(1)]]
      snd_keeps[OF event_query_keeps[OF assms(1)]] in \<open>simp_all add: gated_synchronize_keeps\<close>)

lemma program_inv:
  assumes "program_state a (logged acl) hooks (w, []) s" and "hooks_keep hooks"
  shows "runtime_inv s"
  using assms(1)
proof (induction rule: program_state.induct)
  case start
  show ?case by (rule initial_runtime_inv)
next
  case (ensure s)
  then show ?case by (intro snd_keeps) (rule ready_keeps)
next
  case (destructor s)
  then show ?case
    using shutdown_inv[of s acl] by (simp add: runtime_inv_def)
qed (simp_all add: assms(2) device_exec_keeps memory_exec_keeps stream_exec_keeps event_exec_keeps
      exit_callback_inv)

end
