(* ===== verification/Cuda_Properties.thy ===== *)
theory Cuda_Properties
  imports Cuda_Api_Props
begin

text \<open>
  The properties of the CUDA runtime layer, for every environment and every
  order of entry points: the ACL ledger and device bindings, delivery of
  lifecycle errors, ordering of copies, the allocation registry, and stream
  priorities.
\<close>

section \<open>Lifecycle\<close>


definition quiet_acl :: "unit acl" where
  "quiet_acl c w =
     (\<lparr>rep_status = (if c = Lifecycle AclrtGetDevice then ACL_ERROR_RT_CONTEXT_NULL else ACL_SUCCESS),
       rep_int = 0, rep_int2 = 0, rep_ptr = 16, rep_float = 0,
       rep_progress = Progress_complete, rep_text = None\<rparr>, w)"

lemmas runtime_eval = quiet_acl_def logged_def call_def call_status_def ensureInitialized_def
  registerExitCleanup_def bindDevice_def track_device_def kTrackedDeviceCapacity_def
  shutdown_def runExitCleanup_def initial_rt_def cudaSetDevice_def rememberLifecycleError_def
  isMissingCurrentContext_def ensureCurrentDevice_def with_ready_def Let_def

lemma no_hooks [simp]: "hooks_keep None"
  by (simp add: hooks_keep_def)


text \<open>In every state a translated program can reach, as long as
  every \<open>aclrtResetDevice\<close> has succeeded: the manager's device list is exactly
  the set of devices bound in ACL; it has no duplicates and at most 64 entries;
  and after a shutdown no device is bound, so no binding outlives the layer.\<close>
theorem runtime_devices:
  assumes "program_state admitted (logged acl) hooks (w, []) s" and "hooks_keep hooks"
    and "resets_succeed (history s)"
  shows "bound (history s) = set (active_devices s)
    \<and> distinct (active_devices s) \<and> length (active_devices s) \<le> kTrackedDeviceCapacity
    \<and> (is_shutdown s \<longrightarrow> bound (history s) = {})"
  by (rule runtime_inv_devices[OF program_inv[OF assms(1,2)] assms(3)])

lemma runtime_devices_witness:
  "let s = device_exec (logged quiet_acl) None (Set_device 5)
             (device_exec (logged quiet_acl) None (Set_device 3) (initial_rt ((), [])))
   in resets_succeed (history s) \<and> bound (history s) = {3, 5}"
proof -
  define s where "s = device_exec (logged quiet_acl) None (Set_device 5)
      (device_exec (logged quiet_acl) None (Set_device 3) (initial_rt ((), [])))"
  have r: "program_state False (logged quiet_acl) None ((), []) s"
    unfolding s_def by (intro program_state.intros)
  have s: "active_devices s = [3, 5]" "resets_succeed (history s)"
    by (simp_all add: s_def runtime_eval)
  show ?thesis
    unfolding s_def[symmetric] Let_def using runtime_devices[OF r no_hooks s(2)] s by simp
qed

section \<open>Errors\<close>

lemma ensureInitialized_pending:
  "ensureInitialized acl s = (e, s') \<Longrightarrow> pending_error s' = pending_error s"
  by (auto simp: ensureInitialized_def registerExitCleanup_def call_status_def call_def Let_def
      split: prod.splits if_splits)

text \<open>A failing readiness check is delivered exactly once through the
  error query: after \<open>ensureCurrentDevice\<close> fails, \<open>cudaPeekAtLastError\<close> returns
  that error without consuming it, \<open>cudaGetLastError\<close> returns it and clears it
  without calling ACL, and the next query goes to ACL.\<close>
theorem lifecycle_error_once:
  assumes "ensureCurrentDevice acl s = (e, s')" and "e \<noteq> ACL_SUCCESS"
  shows "cudaPeekAtLastError acl s' = (e, s')
    \<and> cudaGetLastError acl s' = (e, s'\<lparr>pending_error := ACL_SUCCESS\<rparr>)
    \<and> cudaGetLastError acl (s'\<lparr>pending_error := ACL_SUCCESS\<rparr>)
        = call_status acl (Device AclrtGetLastError) (s'\<lparr>pending_error := ACL_SUCCESS\<rparr>)"
proof -
  have "pending_error s' = e"
    using assms
    by (auto simp: ensureCurrentDevice_def rememberLifecycleError_def Let_def
        split: prod.splits if_splits)
  then show ?thesis
    using assms(2) by (simp add: cudaPeekAtLastError_def cudaGetLastError_def)
qed

definition failing_acl :: "unit acl" where
  "failing_acl c w =
     (\<lparr>rep_status = (if c = Lifecycle AclInit then Acl_Code 7 else ACL_SUCCESS),
       rep_int = 0, rep_int2 = 0, rep_ptr = 0, rep_float = 0,
       rep_progress = Progress_complete, rep_text = None\<rparr>, w)"

lemma lifecycle_error_once_witness:
  "let s = snd (ensureCurrentDevice failing_acl (initial_rt ()))
   in fst (cudaGetLastError failing_acl s) = Acl_Code 7
      \<and> pending_error (snd (cudaGetLastError failing_acl s)) = ACL_SUCCESS"
proof -
  obtain s where s: "ensureCurrentDevice failing_acl (initial_rt ()) = (Acl_Code 7, s)"
    by (simp add: runtime_eval failing_acl_def)
  then show ?thesis
    using lifecycle_error_once[OF s] by (simp add: Let_def)
qed

section \<open>Copies\<close>

text \<open>A successful copy that touches device memory was ordered after
  the default stream: the last two calls are a synchronisation of the default
  stream, which succeeded, and then the one copy, with the caller's extents; a
  copy whose synchronisation fails is not issued.\<close>
theorem memcpy_ordered:
  assumes "cudaMemcpy (logged acl) None destination source bytes kind s = (e, s')"
    and "bytes \<noteq> 0" and "kind \<noteq> ACL_MEMCPY_HOST_TO_HOST"
    and "ensureCurrentDevice (logged acl) s = (ACL_SUCCESS, s1)"
    and "isSupportedMemcpyKind kind" and "destination \<noteq> 0" and "source \<noteq> 0"
  shows "\<exists>r. (rep_status r \<noteq> ACL_SUCCESS \<and> e = rep_status r
            \<and> history s' = (Stream (AclrtSynchronizeStream 0), r) # history s1)
        \<or> (rep_status r = ACL_SUCCESS
            \<and> (\<exists>r'. e = rep_status r'
                 \<and> history s' = (Memory (AclrtMemcpy destination bytes source bytes kind), r')
                     # (Stream (AclrtSynchronizeStream 0), r) # history s1))"
proof -
  obtain e2 s2 where c: "call_status (logged acl) (Stream (AclrtSynchronizeStream 0)) s1 = (e2, s2)"
    by fastforce
  then have e: "cudaMemcpy (logged acl) None destination source bytes kind s =
      (if e2 \<noteq> ACL_SUCCESS then (e2, s2)
       else call_status (logged acl) (Memory (AclrtMemcpy destination bytes source bytes kind)) s2)"
    using assms by (cases "e2 = ACL_SUCCESS")
      (simp_all add: cudaMemcpy_def with_ready_def nonnullMemoryRange_def check_pending_def)
  obtain r where r: "history s2 = (Stream (AclrtSynchronizeStream 0), r) # history s1"
      "rep_status r = e2"
    using c by (auto dest!: call_status_logged)
  show ?thesis
  proof (cases "e2 = ACL_SUCCESS")
    case True
    then have "call_status (logged acl) (Memory (AclrtMemcpy destination bytes source bytes kind)) s2
        = (e, s')"
      using assms(1) e by simp
    then obtain r' where "history s'
        = (Memory (AclrtMemcpy destination bytes source bytes kind), r') # history s2"
        "e = rep_status r'"
      by (auto dest!: call_status_logged)
    then show ?thesis
      using r True by (intro exI[of _ r]) simp
  next
    case False
    then show ?thesis
      using assms(1) e r by (intro exI[of _ r]) simp
  qed
qed

lemma memcpy_ordered_witness:
  "\<exists>s' l r r'. cudaMemcpy (logged quiet_acl) None 16 32 8 ACL_MEMCPY_HOST_TO_DEVICE
       (initial_rt ((), [])) = (ACL_SUCCESS, s')
     \<and> history s' = (Memory (AclrtMemcpy 16 8 32 8 ACL_MEMCPY_HOST_TO_DEVICE), r')
         # (Stream (AclrtSynchronizeStream 0), r) # l"
proof -
  obtain s1 where s1: "ensureCurrentDevice (logged quiet_acl) (initial_rt ((), []))
      = (ACL_SUCCESS, s1)"
    by (simp add: runtime_eval)
  obtain s' where s': "cudaMemcpy (logged quiet_acl) None 16 32 8 ACL_MEMCPY_HOST_TO_DEVICE
      (initial_rt ((), [])) = (ACL_SUCCESS, s')"
    by (simp add: runtime_eval cudaMemcpy_def isSupportedMemcpyKind_def nonnullMemoryRange_def
        check_pending_def)
  show ?thesis
    using memcpy_ordered[OF s' _ _ s1] s'
    by (auto simp: isSupportedMemcpyKind_def)
qed

section \<open>Allocations\<close>

definition allocation_of :: "('w, 'z) rt_scheme \<Rightarrow> ptr \<Rightarrow> RuntimeAllocation option" where
  "allocation_of s p =
     map_option (\<lambda>i. allocations s ! i) (runtimeAllocationLocked p (allocations s))"

lemma slot_of_Some:
  "slot_of p as = Some i \<Longrightarrow> i < length as \<and> ra_pointer (as ! i) = p
     \<and> (\<forall>j < i. ra_pointer (as ! j) \<noteq> p)"
proof (induction as arbitrary: i)
  case (Cons a as)
  then show ?case
    by (auto split: if_splits simp: less_Suc_eq_0_disj nth_Cons split: nat.splits)
qed simp

lemma slot_of_None: "slot_of p as = None \<longleftrightarrow> (\<forall>a \<in> set as. ra_pointer a \<noteq> p)"
  by (induction as) auto

lemma slot_of_update_new:
  "i < length as \<Longrightarrow> (\<forall>a \<in> set as. ra_pointer a \<noteq> p) \<Longrightarrow> ra_pointer a = p \<Longrightarrow>
     slot_of p (as[i := a]) = Some i"
  by (induction as arbitrary: i) (auto split: nat.splits)

lemma slot_of_update_other:
  "i < length as \<Longrightarrow> ra_pointer a \<noteq> p \<Longrightarrow> ra_pointer (as ! i) \<noteq> p \<Longrightarrow>
     slot_of p (as[i := a]) = slot_of p as"
  by (induction as arbitrary: i) (auto split: nat.splits)

lemma allocation_of_update_other:
  assumes "i < length (allocations s)" and "ra_pointer a \<noteq> p" and "p \<noteq> 0"
    and "ra_pointer (allocations s ! i) \<noteq> p"
  shows "allocation_of (s\<lparr>allocations := (allocations s)[i := a]\<rparr>) p = allocation_of s p"
proof -
  have "allocations s ! j = (allocations s)[i := a] ! j" if "slot_of p (allocations s) = Some j" for j
    using slot_of_Some[OF that] assms by (cases "j = i") auto
  then show ?thesis
    using assms slot_of_update_other[OF assms(1,2,4)]
    by (auto simp: allocation_of_def runtimeAllocationLocked_def intro!: option.map_cong)
qed

lemma allocations_call: "call acl c s = (r, s') \<Longrightarrow> allocations s' = allocations s
    \<and> selected_device s' = selected_device s"
  by (auto simp: call_def split: prod.splits)

lemma record_allocation_other:
  assumes "q \<noteq> 0" and "q \<noteq> p"
  shows "allocation_of (record_allocation acl p n s) q = allocation_of s q"
proof (cases "slot_of 0 (allocations s)")
  case (Some i)
  obtain r s1 where c: "call acl (Lifecycle AclrtGetCurrentContext) s = (r, s1)"
    by fastforce
  have s1: "allocations s1 = allocations s"
    using allocations_call[OF c] by simp
  have "allocation_of s1 q = allocation_of s q"
    by (simp add: allocation_of_def s1)
  moreover have "allocation_of (s1\<lparr>allocations := (allocations s1)[i := a]\<rparr>) q = allocation_of s1 q"
    if "ra_pointer a = p" for a
    using slot_of_Some[OF Some] assms that s1 by (intro allocation_of_update_other) auto
  ultimately show ?thesis
    using Some c s1 by (auto simp: record_allocation_def Let_def)
qed (simp add: record_allocation_def)

text \<open>Recording an allocation never changes the outcome of
  \<open>cudaMalloc\<close>: its status and pointer are those of \<open>aclrtMalloc\<close>, even when the
  128-entry table is full or the context query fails; the record of every other
  live pointer is untouched; and a recorded pointer carries the requested size
  and the selected device.\<close>
theorem malloc_records:
  assumes "ensureCurrentDevice acl s = (ACL_SUCCESS, s1)"
    and "call acl (Memory (AclrtMalloc bytes)) s1 = (r, s2)"
    and "cudaMalloc acl (Some old) bytes s = (result, s')"
    and "allocation_of s1 (rep_ptr r) = None"
  shows "result = (rep_status r, Some (rep_ptr r))
    \<and> (\<forall>q. q \<noteq> 0 \<and> q \<noteq> rep_ptr r \<longrightarrow> allocation_of s' q = allocation_of s1 q)
    \<and> (\<forall>a. allocation_of s' (rep_ptr r) = Some a \<longrightarrow>
          rep_status r = ACL_SUCCESS \<and> ra_pointer a = rep_ptr r \<and> ra_bytes a = unat bytes
          \<and> ra_device a = selected_device s1)"
proof -
  have s2: "allocations s2 = allocations s1" "selected_device s2 = selected_device s1"
    using allocations_call[OF assms(2)] by simp_all
  then have a2: "\<And>q. allocation_of s2 q = allocation_of s1 q"
    by (simp add: allocation_of_def)
  show ?thesis
  proof (cases "rep_status r \<noteq> ACL_SUCCESS \<or> rep_ptr r = 0 \<or> bytes = 0")
    case True
    then show ?thesis
      using assms a2 by (auto simp: cudaMalloc_def Let_def)
  next
    case False
    then have res: "result = (rep_status r, Some (rep_ptr r))"
        "s' = record_allocation acl (rep_ptr r) bytes s2"
      using assms by (auto simp: cudaMalloc_def Let_def)
    have new: "allocation_of s' (rep_ptr r) = Some a \<Longrightarrow> ra_pointer a = rep_ptr r
        \<and> ra_bytes a = unat bytes \<and> ra_device a = selected_device s1" for a
    proof (cases "slot_of 0 (allocations s2)")
      case None
      then show "allocation_of s' (rep_ptr r) = Some a \<Longrightarrow> ?thesis"
        using res a2 assms(4) by (simp add: record_allocation_def)
    next
      case (Some i)
      obtain rc s3 where c: "call acl (Lifecycle AclrtGetCurrentContext) s2 = (rc, s3)"
        by fastforce
      note s3 = allocations_call[OF c]
      have fresh: "\<forall>x \<in> set (allocations s2). ra_pointer x \<noteq> rep_ptr r"
        using assms(4) False a2 s2
        by (auto simp: allocation_of_def runtimeAllocationLocked_def slot_of_None)
      show "allocation_of s' (rep_ptr r) = Some a \<Longrightarrow> ?thesis"
        using res Some c s3 s2 fresh slot_of_Some[OF Some] False a2[of "rep_ptr r"] assms(4)
        by (auto simp: record_allocation_def Let_def allocation_of_def
            runtimeAllocationLocked_def slot_of_update_new split: if_splits)
    qed
    then show ?thesis
      using res a2 False record_allocation_other[of _ "rep_ptr r" acl bytes s2] by auto
  qed
qed

lemma distinct_nonzero:
  "distinct (filter (\<lambda>q. q \<noteq> 0) (map f xs)) \<Longrightarrow> i < length xs \<Longrightarrow> j < length xs \<Longrightarrow>
     f (xs ! i) = f (xs ! j) \<Longrightarrow> f (xs ! i) \<noteq> 0 \<Longrightarrow> i = j"
proof (induction xs arbitrary: i j)
  case (Cons x xs)
  have mem: "f (xs ! k) \<in> f ` set xs" if "k < length xs" for k
    using that by simp
  have d: "distinct (filter (\<lambda>q. q \<noteq> 0) (map f xs))" and x: "f x \<noteq> 0 \<Longrightarrow> f x \<notin> f ` set xs"
    using Cons.prems(1) by (simp_all split: if_splits)
  note eq = Cons.prems(4) and nz = Cons.prems(5)
  show ?case
  proof (cases i)
    case i: 0
    show ?thesis
    proof (cases j)
      case (Suc j')
      have "f x = f (xs ! j')" and "f x \<noteq> 0" and "j' < length xs"
        using eq nz Cons.prems(3) i Suc by simp_all
      then show ?thesis
        using x mem[of j'] by metis
    qed (simp add: i)
  next
    case i: (Suc i')
    show ?thesis
    proof (cases j)
      case 0
      have "f x = f (xs ! i')" and "f x \<noteq> 0" and "i' < length xs"
        using eq nz Cons.prems(2) i 0 by simp_all
      then show ?thesis
        using x mem[of i'] by metis
    next
      case (Suc j')
      then show ?thesis
        using Cons.IH[OF d, of i' j'] Cons.prems(2,3) eq nz i by simp
    qed
  qed
qed simp

text \<open>\<open>cudaFree\<close> undoes the record: after a successful free
  without texture hooks the freed pointer has no record and every other live
  pointer keeps its own, provided no pointer is recorded twice.\<close>
theorem free_forgets:
  assumes "cudaFree acl None p s = (ACL_SUCCESS, s')" and "p \<noteq> 0"
    and "ensureCurrentDevice acl s = (ACL_SUCCESS, s1)"
    and "distinct (filter (\<lambda>q. q \<noteq> 0) (map ra_pointer (allocations s1)))"
  shows "allocation_of s' p = None
    \<and> (\<forall>q. q \<noteq> 0 \<and> q \<noteq> p \<longrightarrow> allocation_of s' q = allocation_of s1 q)"
proof -
  obtain e s2 where f: "call_status acl (Memory (AclrtFree p)) s1 = (e, s2)"
    by fastforce
  have s2: "allocations s2 = allocations s1"
    using f by (auto simp: call_status_def dest: allocations_call split: prod.splits)
  have s': "s' = clear_slot (slot_of p (allocations s1)) s2"
    using assms f by (auto simp: cudaFree_def with_ready_def runtimeAllocationLocked_def Let_def
        split: if_splits)
  show ?thesis
  proof (cases "slot_of p (allocations s1)")
    case None
    then show ?thesis
      using s' s2 assms(2) by (auto simp: clear_slot_def allocation_of_def runtimeAllocationLocked_def)
  next
    case (Some i)
    note i = slot_of_Some[OF Some]
    have "ra_pointer (allocations s1 ! j) \<noteq> p" if "j < length (allocations s1)" "j \<noteq> i" for j
      using distinct_nonzero[OF assms(4), of i j] i that assms(2) by auto
    then have "slot_of p ((allocations s1)[i := empty_allocation]) = None"
    proof -
      have "ra_pointer ((allocations s1)[i := empty_allocation] ! k) \<noteq> p"
        if "k < length (allocations s1)" for k
        using that assms(2) i \<open>\<And>j. j < length (allocations s1) \<Longrightarrow> j \<noteq> i \<Longrightarrow>
            ra_pointer (allocations s1 ! j) \<noteq> p\<close>
        by (cases "k = i") (simp_all add: empty_allocation_def)
      then show ?thesis
        unfolding slot_of_None by (metis in_set_conv_nth length_list_update)
    qed
    then show ?thesis
      using s' s2 Some i assms(2) allocation_of_update_other[of i s2 empty_allocation]
      by (auto simp: clear_slot_def allocation_of_def runtimeAllocationLocked_def
          empty_allocation_def)
  qed
qed

text \<open>A small table for the concrete runs.\<close>

definition small_rt :: "RuntimeAllocation list \<Rightarrow> unit rt" where
  "small_rt as = (initial_rt ())\<lparr>allocations := as\<rparr>"

lemmas small_eval = runtime_eval small_rt_def allocation_of_def runtimeAllocationLocked_def
  record_allocation_def empty_allocation_def

lemma malloc_records_witness:
  "let s' = snd (cudaMalloc quiet_acl (Some 0) 100 (small_rt [empty_allocation]))
   in map_option ra_bytes (allocation_of s' 16) = Some 100"
proof -
  obtain s1 where s1: "ensureCurrentDevice quiet_acl (small_rt [empty_allocation])
      = (ACL_SUCCESS, s1)" "allocations s1 = [empty_allocation]"
    by (simp add: small_eval)
  obtain r s2 where r: "call quiet_acl (Memory (AclrtMalloc 100)) s1 = (r, s2)" "rep_ptr r = 16"
    by (simp add: call_def quiet_acl_def)
  obtain res s' where m: "cudaMalloc quiet_acl (Some 0) 100 (small_rt [empty_allocation]) = (res, s')"
    by fastforce
  have n: "allocation_of s1 (rep_ptr r) = None"
    using s1 r by (simp add: allocation_of_def runtimeAllocationLocked_def empty_allocation_def)
  have "\<exists>a. allocation_of s' 16 = Some a"
    using m by (auto simp: small_eval cudaMalloc_def)
  then show ?thesis
    using malloc_records[OF s1(1) r(1) m n] r(2) m by auto
qed

lemma free_forgets_witness:
  "let a = \<lparr>ra_pointer = 16, ra_bytes = 4, ra_device = 0, ra_context = 1\<rparr>;
       b = \<lparr>ra_pointer = 32, ra_bytes = 8, ra_device = 0, ra_context = 1\<rparr>;
       s' = snd (cudaFree quiet_acl None 16 (small_rt [a, b]))
   in allocation_of s' 16 = None \<and> allocation_of s' 32 = Some b"
proof -
  define a b :: RuntimeAllocation
    where "a = \<lparr>ra_pointer = 16, ra_bytes = 4, ra_device = 0, ra_context = 1\<rparr>"
      and "b = \<lparr>ra_pointer = 32, ra_bytes = 8, ra_device = 0, ra_context = 1\<rparr>"
  obtain s1 where s1: "ensureCurrentDevice quiet_acl (small_rt [a, b]) = (ACL_SUCCESS, s1)"
      "allocations s1 = [a, b]"
    by (simp add: small_eval)
  obtain s' where f: "cudaFree quiet_acl None 16 (small_rt [a, b]) = (ACL_SUCCESS, s')"
    by (simp add: small_eval cudaFree_def)
  have "allocation_of s' 16 = None \<and> (\<forall>q. q \<noteq> 0 \<and> q \<noteq> 16 \<longrightarrow>
      allocation_of s' q = allocation_of s1 q)"
    by (rule free_forgets[OF f _ s1(1)]) (simp_all add: s1(2) a_def b_def)
  moreover have "allocation_of s1 32 = Some b"
    by (simp add: s1(2) allocation_of_def runtimeAllocationLocked_def a_def b_def)
  ultimately have "allocation_of s' 16 = None \<and> allocation_of s' 32 = Some b"
    by simp
  then show ?thesis
    unfolding Let_def a_def[symmetric] b_def[symmetric] f by simp
qed

section \<open>Stream priorities\<close>

text \<open>A prioritised stream is created with the requested priority
  clamped into the range the device reports, which always lies within 0 to 7
  with the greatest priority numerically smallest; that creation is the last
  call, and the caller receives the non-null stream it returned.\<close>
theorem stream_priority_clamped:
  assumes "cudaStreamCreateWithPriority admitted (logged acl) (Some old) flags priority s
             = ((ACL_SUCCESS, handle), s')"
  shows "\<exists>least greatest r l.
     0 \<le> greatest \<and> greatest \<le> least \<and> least \<le> 7
     \<and> history s' = (Stream (AclrtCreateStreamWithConfig
                        (word_of_int (max greatest (min least priority))) 0), r) # l
     \<and> handle = Some (rep_ptr r) \<and> rep_ptr r \<noteq> 0"
proof -
  obtain range_status l g s1 where q: "cudaDeviceGetStreamPriorityRange admitted (logged acl)
      (Some (-1)) (Some (-1)) s = ((range_status, l, g), s1)"
    by (metis prod.exhaust)
  have ok: "range_status = ACL_SUCCESS"
    using assms q by (auto simp: cudaStreamCreateWithPriority_def Let_def split: if_splits)
  then obtain least greatest where r: "l = Some least" "g = Some greatest"
      "0 \<le> greatest" "greatest \<le> least" "least \<le> 7"
    using q by (auto simp: cudaDeviceGetStreamPriorityRange_def Let_def split: prod.splits if_splits)
  define p where "p = max greatest (min least priority)"
  have clamp: "(let priority = (if priority < greatest then greatest else priority)
      in if priority > least then least else priority) = p"
    using r by (auto simp: p_def Let_def)
  obtain rep s2 where c: "call (logged acl) (Stream (AclrtCreateStreamWithConfig (word_of_int p) 0)) s1
      = (rep, s2)"
    by fastforce
  have "cudaStreamCreateWithPriority admitted (logged acl) (Some old) flags priority s =
      (if rep_status rep \<noteq> ACL_SUCCESS then ((rep_status rep, Some 0), s2)
       else if rep_ptr rep = 0 then ((ACL_ERROR_FEATURE_UNSUPPORTED, Some 0), s2)
       else ((ACL_SUCCESS, Some (rep_ptr rep)), s2))"
    using assms q ok r c clamp
    by (simp add: cudaStreamCreateWithPriority_def Let_def split: if_splits)
  then have "handle = Some (rep_ptr rep)" "rep_ptr rep \<noteq> 0" "s' = s2"
    using assms by (auto split: if_splits)
  then show ?thesis
    using r call_logged[OF c]
    by (intro exI[of _ least] exI[of _ greatest] exI[of _ rep] exI[of _ "history s1"])
      (auto simp: p_def)
qed

definition priority_acl :: "unit acl" where
  "priority_acl c w =
     (\<lparr>rep_status = ACL_SUCCESS,
       rep_int = (if c = Stream AclrtDeviceGetStreamPriorityRange then 7 else 0),
       rep_int2 = 0, rep_ptr = 64, rep_float = 0,
       rep_progress = Progress_complete, rep_text = None\<rparr>, w)"

lemma stream_priority_clamped_witness:
  "\<exists>s' r l. cudaStreamCreateWithPriority True (logged priority_acl) (Some 0) 1 3
       (initial_rt ((), [])) = ((ACL_SUCCESS, Some 64), s')
     \<and> history s' = (Stream (AclrtCreateStreamWithConfig r 0), l) # tl (history s')"
proof -
  obtain s' where s': "cudaStreamCreateWithPriority True (logged priority_acl) (Some 0) 1 3
       (initial_rt ((), [])) = ((ACL_SUCCESS, Some 64), s')"
    by (simp add: runtime_eval priority_acl_def cudaStreamCreateWithPriority_def
        cudaDeviceGetStreamPriorityRange_def cudaStreamNonBlocking_def)
  show ?thesis
    using stream_priority_clamped[OF s'] s' by auto
qed

end
