(* ===== verification/Profiler.thy ===== *)
theory Profiler
  imports Cuda_Api_Props
begin

text \<open>
  The profiling session of \<open>include/ascify/ascify_cuda_compat.hpp\<close>
  (\<open>ProfilerManager\<close>): a session owns, in this order, ACL's profiler
  initialisation, a configuration and a running collection, and gives them back
  in the reverse order, resuming at the stage that failed when it is stopped
  again.  A C string is an option, None for a null pointer; the profile
  directory is the answer to \<open>getenv\<close>.
\<close>

(* Source: src/include/ascify/ascify_cuda_compat.hpp 858-867 ProfilerManager (members) *)
record 'w prof =
  base :: "'w rt"
  pf_exit_set :: bool
  pf_config :: ptr
  pf_context :: ptr
  pf_device :: int
  pf_failure :: aclError
  pf_initialized :: bool
  pf_active :: bool
  pf_cleanup_registered :: bool


definition pcall :: "'w acl \<Rightarrow> acl_call \<Rightarrow> 'w prof \<Rightarrow> acl_reply \<times> 'w prof" where
  "pcall acl c p = (let (r, s) = call acl c (base p) in (r, p\<lparr>base := s\<rparr>))"


text \<open>The three stages of \<open>cleanup\<close>.\<close>


text \<open>The part of \<open>start\<close> that opens a new session for a non-empty path.\<close>


section \<open>Ownership\<close>

abbreviation prof_log :: "('w \<times> acl_log) prof \<Rightarrow> acl_log" where
  "prof_log p \<equiv> history (base p)"

text \<open>What the log says the process holds: profiler initialisations not yet
  finalised, configurations not yet destroyed, collections not yet stopped.\<close>

definition prof_event :: "(acl_profiler_call \<Rightarrow> acl_reply \<Rightarrow> bool) \<Rightarrow> acl_log \<Rightarrow> nat" where
  "prof_event P l = length (filter (\<lambda>(c, r). case c of Profiler pc \<Rightarrow> P pc r | _ \<Rightarrow> False) l)"

lemma prof_event_simps [simp]:
  "prof_event P [] = 0"
  "prof_event P ((c, r) # l) =
     (if (case c of Profiler pc \<Rightarrow> P pc r | _ \<Rightarrow> False) then Suc (prof_event P l)
      else prof_event P l)"
  by (simp_all add: prof_event_def)

definition ok :: "acl_reply \<Rightarrow> bool" where "ok r \<longleftrightarrow> rep_status r = ACL_SUCCESS"

definition inits :: "acl_log \<Rightarrow> nat" where
  "inits = prof_event (\<lambda>c r. (\<exists>p. c = AclprofInit p) \<and> ok r)"
definition finals :: "acl_log \<Rightarrow> nat" where
  "finals = prof_event (\<lambda>c r. c = AclprofFinalize \<and> ok r)"
definition configs :: "acl_log \<Rightarrow> nat" where
  "configs = prof_event (\<lambda>c r. (\<exists>d. c = AclprofCreateConfig d) \<and> rep_ptr r \<noteq> 0)"
definition destroys :: "acl_log \<Rightarrow> nat" where
  "destroys = prof_event (\<lambda>c r. (\<exists>q. c = AclprofDestroyConfig q) \<and> ok r)"
definition starts :: "acl_log \<Rightarrow> nat" where
  "starts = prof_event (\<lambda>c r. (\<exists>q. c = AclprofStart q) \<and> ok r)"
definition stops :: "acl_log \<Rightarrow> nat" where
  "stops = prof_event (\<lambda>c r. (\<exists>q. c = AclprofStop q) \<and> ok r)"


definition session_inv :: "('w \<times> acl_log) prof \<Rightarrow> bool" where
  "session_inv p \<longleftrightarrow>
     inits (prof_log p) = finals (prof_log p) + (if pf_initialized p then 1 else 0)
     \<and> configs (prof_log p) = destroys (prof_log p) + (if pf_config p \<noteq> 0 then 1 else 0)
     \<and> starts (prof_log p) = stops (prof_log p) + (if pf_active p then 1 else 0)
     \<and> (pf_active p \<longrightarrow> pf_config p \<noteq> 0) \<and> (pf_config p \<noteq> 0 \<longrightarrow> pf_initialized p)"

lemma pcall_logged:
  "pcall (logged acl) c p = (r, p') \<Longrightarrow>
     \<exists>w. p' = p\<lparr>base := (base p)\<lparr>world := (w, (c, r) # prof_log p)\<rparr>\<rparr>"
  by (auto simp: pcall_def Let_def dest!: call_logged split: prod.splits)










lemma session_inv_notes [simp]:
  "session_inv (p\<lparr>pf_failure := x\<rparr>) = session_inv p"
  "session_inv (p\<lparr>pf_cleanup_registered := b\<rparr>) = session_inv p"
  "session_inv (p\<lparr>pf_cleanup_registered := b, pf_failure := x\<rparr>) = session_inv p"
  "session_inv (p\<lparr>pf_exit_set := b\<rparr>) = session_inv p"
  by (simp_all add: session_inv_def)






lemma pcall_keeps:
  assumes "pcall (logged acl) c p = (r, q)"
  shows "pf_initialized q = pf_initialized p" "pf_config q = pf_config p"
    "pf_active q = pf_active p"
  using pcall_logged[OF assms] by auto








lemma session_inv_pending [simp]:
  "session_inv (p\<lparr>base := (base p)\<lparr>pending_error := e\<rparr>\<rparr>) = session_inv p"
  by (simp add: session_inv_def)









end
