(* ===== verification/Fs_Path.thy ===== *)
theory Fs_Path
  imports Prelude
begin

text \<open>
  The part of \<open>std::filesystem::path\<close> that \<open>src/LocalHeader.cpp\<close> uses, on POSIX
  paths.  A path is a root flag and the sequence of its file names, the way the
  path iterator yields them: a trailing separator shows as a last empty name.
  The lexical operations (parsing, \<open>operator/\<close>, \<open>parent_path\<close>,
  \<open>lexically_normal\<close>, \<open>lexically_relative\<close>) are functions; the operations that
  consult the file system (\<open>canonical\<close>, \<open>weakly_canonical\<close>, \<open>absolute\<close>,
  \<open>exists\<close>, reading a file) are the fields of a host record.
\<close>

record fspath =
  rooted :: bool
  parts :: "string list"

definition empty_path :: fspath where
  "empty_path = \<lparr>rooted = False, parts = []\<rparr>"

definition dot_path :: fspath where
  "dot_path = \<lparr>rooted = False, parts = [''.'']\<rparr>"

section \<open>Text\<close>

fun split_slash :: "string \<Rightarrow> string list" where
  "split_slash [] = [[]]"
| "split_slash (c # cs) =
     (if c = CHR ''/'' then [] # split_slash cs
      else case split_slash cs of [] \<Rightarrow> [[c]] | w # ws \<Rightarrow> (c # w) # ws)"

text \<open>Repeated separators count once; only the empty name after a trailing
  separator is kept.\<close>

definition to_path :: "string \<Rightarrow> fspath" where
  "to_path s =
     (let ws = split_slash s;
          r = (s \<noteq> [] \<and> hd s = CHR ''/'');
          names = filter (\<lambda>w. w \<noteq> []) ws
      in \<lparr>rooted = r,
          parts = names @ (if names \<noteq> [] \<and> last ws = [] then [[]] else [])\<rparr>)"

fun join_slash :: "string list \<Rightarrow> string" where
  "join_slash [] = []"
| "join_slash [w] = w"
| "join_slash (w # ws) = w @ CHR ''/'' # join_slash ws"

definition generic_string :: "fspath \<Rightarrow> string" where
  "generic_string p = (if rooted p then CHR ''/'' # join_slash (parts p) else join_slash (parts p))"

fun digits :: "nat \<Rightarrow> string" where
  "digits n = (if n < 10 then [char_of (48 + n)] else digits (n div 10) @ [char_of (48 + n mod 10)])"

declare digits.simps [simp del]

section \<open>Lexical operations\<close>

text \<open>\<open>p / q\<close>: an absolute right operand replaces the left one, and a trailing
  empty name is filled by it.\<close>

definition path_append :: "fspath \<Rightarrow> fspath \<Rightarrow> fspath" where
  "path_append p q =
     (if rooted q then q
      else p\<lparr>parts := (if parts p \<noteq> [] \<and> last (parts p) = [] then butlast (parts p) else parts p)
                       @ parts q\<rparr>)"

definition parent_path :: "fspath \<Rightarrow> fspath" where
  "parent_path p = p\<lparr>parts := butlast (parts p)\<rparr>"

text \<open>\<open>p += s\<close> for a text without separators: it extends the last file name.\<close>

definition path_concat :: "fspath \<Rightarrow> string \<Rightarrow> fspath" where
  "path_concat p s =
     p\<lparr>parts := (if parts p = [] then [s] else butlast (parts p) @ [last (parts p) @ s])\<rparr>"

fun normal_stack :: "bool \<Rightarrow> string list \<Rightarrow> string list \<Rightarrow> string list" where
  "normal_stack r st [] = st"
| "normal_stack r st (c # cs) =
     (if c = [] \<or> c = ''.'' then normal_stack r st cs
      else if c = ''..'' then
        (case st of
           [] \<Rightarrow> normal_stack r (if r then [] else [''..'']) cs
         | t # ts \<Rightarrow> normal_stack r (if t = ''..'' then ''..'' # st else ts) cs)
      else normal_stack r (c # st) cs)"

definition lexically_normal :: "fspath \<Rightarrow> fspath" where
  "lexically_normal p =
     (if \<not> rooted p \<and> parts p = [] then p else
      let st = normal_stack (rooted p) [] (parts p);
          trail = (parts p \<noteq> [] \<and> last (parts p) \<in> {[], ''.'', ''..''} \<and> st \<noteq> [] \<and> hd st \<noteq> ''..'')
      in if \<not> rooted p \<and> st = [] then dot_path
         else p\<lparr>parts := rev st @ (if trail then [[]] else [])\<rparr>)"

fun drop_common :: "string list \<Rightarrow> string list \<Rightarrow> string list \<times> string list" where
  "drop_common (a # as) (b # bs) = (if a = b then drop_common as bs else (a # as, b # bs))"
| "drop_common as bs = (as, bs)"

definition climb_count :: "string list \<Rightarrow> int" where
  "climb_count bs = int (length (filter (\<lambda>c. c \<noteq> [] \<and> c \<noteq> ''.'' \<and> c \<noteq> ''..'') bs))
                    - int (length (filter (\<lambda>c. c = ''..'') bs))"

definition lexically_relative :: "fspath \<Rightarrow> fspath \<Rightarrow> fspath" where
  "lexically_relative p base =
     (if rooted p \<noteq> rooted base then empty_path else
      let (as, bs) = drop_common (parts p) (parts base)
      in if as = [] \<and> bs = [] then dot_path
         else if climb_count bs < 0 then empty_path
         else if climb_count bs = 0 \<and> (as = [] \<or> hd as = []) then dot_path
         else \<lparr>rooted = False, parts = replicate (nat (climb_count bs)) ''..'' @ as\<rparr>)"

section \<open>The host's file system, as a translation reads it\<close>

record host =
  canonical_of :: "fspath \<Rightarrow> fspath option"
  weakly_of :: "fspath \<Rightarrow> fspath option"
  absolute_of :: "fspath \<Rightarrow> fspath option"
  exists_at :: "fspath \<Rightarrow> bool"
  content_at :: "fspath \<Rightarrow> string option"
  nonempty_file_at :: "fspath \<Rightarrow> bool"
  status_of :: "fspath \<Rightarrow> (nat \<times> nat \<times> nat) option"
  sha256_of :: "string \<Rightarrow> string"

definition relative_of :: "host \<Rightarrow> fspath \<Rightarrow> fspath \<Rightarrow> fspath option" where
  "relative_of h p base =
     (case weakly_of h p of None \<Rightarrow> None
      | Some p' \<Rightarrow> (case weakly_of h base of None \<Rightarrow> None
                   | Some b' \<Rightarrow> Some (lexically_relative p' b')))"

section \<open>Canonical paths\<close>

text \<open>The shape of what \<open>canonical\<close> returns: absolute, with no empty, dot or
  dot-dot name.\<close>

definition plain_name :: "string \<Rightarrow> bool" where
  "plain_name w \<longleftrightarrow> w \<noteq> [] \<and> w \<noteq> ''.'' \<and> w \<noteq> ''..''"

definition canonical_form :: "fspath \<Rightarrow> bool" where
  "canonical_form p \<longleftrightarrow> rooted p \<and> (\<forall>w \<in> set (parts p). plain_name w)"

lemma drop_common_Nil [simp]: "drop_common as [] = (as, [])"
  by (cases as) simp_all

lemma drop_common_append [simp]: "drop_common (as @ bs) as = (bs, [])"
  by (induction as) simp_all

lemma drop_common_split:
  "drop_common as bs = (x, y) \<Longrightarrow> \<exists>c. as = c @ x \<and> bs = c @ y"
  by (induction as bs rule: drop_common.induct) (auto split: if_splits intro: exI[of _ "_ # _"])

lemma climb_count_plain:
  "\<forall>w \<in> set bs. plain_name w \<Longrightarrow> climb_count bs = int (length bs)"
  by (induction bs) (auto simp: climb_count_def plain_name_def)

lemma relative_prefix:
  assumes "canonical_form p" and "canonical_form b" and "parts p = parts b @ rel" and "rel \<noteq> []"
  shows "lexically_relative p b = \<lparr>rooted = False, parts = rel\<rparr>"
  using assms by (auto simp: lexically_relative_def canonical_form_def climb_count_def plain_name_def)

lemma relative_self:
  "lexically_relative p p = dot_path"
  using drop_common_append[of "parts p" "[]"] by (simp add: lexically_relative_def)

text \<open>A relative path between canonical paths climbs exactly when the base is
  not a prefix.\<close>

lemma relative_cases:
  assumes "canonical_form p" and "canonical_form b"
  shows "(\<exists>rel. parts p = parts b @ rel \<and>
            lexically_relative p b = (if rel = [] then dot_path
                                      else \<lparr>rooted = False, parts = rel\<rparr>))
    \<or> (''..'' \<in> set (parts (lexically_relative p b)) \<and> \<not> rooted (lexically_relative p b))"
proof -
  obtain x y where d: "drop_common (parts p) (parts b) = (x, y)"
    by fastforce
  obtain c where c: "parts p = c @ x" "parts b = c @ y"
    using drop_common_split[OF d] by auto
  have cc: "climb_count y = int (length y)"
    using assms(2) c(2) by (intro climb_count_plain) (auto simp: canonical_form_def)
  show ?thesis
  proof (cases "y = []")
    case True
    then have b: "parts b = c"
      using c(2) by simp
    show ?thesis
      using assms c(1) b relative_prefix[OF assms, of x] relative_self[of p]
      by (cases "x = []"; cases p; cases b) (auto simp: canonical_form_def)
  next
    case False
    then have "parts (lexically_relative p b) = replicate (length y) ''..'' @ x"
        "\<not> rooted (lexically_relative p b)"
      using assms d cc by (auto simp: lexically_relative_def canonical_form_def)
    then show ?thesis
      using False by (cases y) auto
  qed
qed

lemma normal_stack_plain:
  "\<forall>w \<in> set cs. plain_name w \<Longrightarrow> normal_stack r st cs = rev cs @ st"
  by (induction cs arbitrary: st) (auto simp: plain_name_def)

lemma normal_canonical:
  "\<forall>w \<in> set (parts p). plain_name w \<Longrightarrow> lexically_normal p = p"
proof -
  assume plain: "\<forall>w \<in> set (parts p). plain_name w"
  have last: "parts p = [] \<or> last (parts p) \<notin> {[], ''.'', ''..''}"
    using plain last_in_set[of "parts p"] unfolding plain_name_def by blast
  have stack: "normal_stack (rooted p) [] (parts p) = rev (parts p)"
    using normal_stack_plain[OF plain, of "rooted p" "[]"] by simp
  show ?thesis
    unfolding lexically_normal_def Let_def stack using last by auto
qed

section \<open>Decimal names\<close>

lemma digits_nonempty [simp]: "digits n \<noteq> []" "[] \<noteq> digits n"
proof -
  show "digits n \<noteq> []"
    by (subst digits.simps) auto
  then show "[] \<noteq> digits n"
    by metis
qed

lemma digit_char_inj:
  assumes "a < 10" and "b < (10 :: nat)"
  shows "(char_of (48 + a) = (char_of (48 + b) :: char)) = (a = b)"
proof
  assume "char_of (48 + a) = (char_of (48 + b) :: char)"
  then have "(48 + a) mod 256 = (48 + b) mod 256"
    using of_char_of[of "48 + a"] of_char_of[of "48 + b"] by simp
  then show "a = b"
    using assms by simp
qed simp

lemma digits_inj: "digits m = digits n \<Longrightarrow> m = n"
proof (induction m arbitrary: n rule: digits.induct)
  case (1 m)
  show ?case
  proof (cases "m < 10")
    case True
    then show ?thesis
      using 1(2) by (cases "n < 10")
        (simp_all add: digits.simps[of m] digits.simps[of n] digit_char_inj)
  next
    case m: False
    then have "\<not> n < 10"
      using 1(2) by (auto simp: digits.simps[of m] digits.simps[of n])
    then have "digits (m div 10) = digits (n div 10) \<and>
        char_of (48 + m mod 10) = (char_of (48 + n mod 10) :: char)"
      using 1(2) m by (auto simp: digits.simps[of m] digits.simps[of n])
    then have "m div 10 = n div 10" "m mod 10 = n mod 10"
      using 1(1)[OF m] digit_char_inj[of "m mod 10" "n mod 10"] by auto
    then show ?thesis
      by (metis div_mult_mod_eq)
  qed
qed

end
