(* ===== verification/Closure_Plan.thy ===== *)
theory Closure_Plan
  imports Fs_Path "HOL-Library.List_Lexorder" "HOL-Library.Char_ord"
begin

text \<open>
  The local-header closure plan of \<open>src/LocalHeader.h\<close> and \<open>src/LocalHeader.cpp\<close>
  (\<open>LocalHeaderClosurePlan\<close>): which quoted includes of a translated root are
  redirected to translated headers, where each translated header is written, and
  why a closure is refused.  An empty \<open>std::string\<close> path is \<open>empty_path\<close>; a
  \<open>std::map\<close> that is iterated is an association list in key order; counters and
  offsets are naturals.
\<close>

section \<open>Data\<close>

(* Source: src/src/LocalHeader.h 16-20 LocalHeaderClosureMode *)
datatype closure_mode = Disabled | Direct | Recursive

(* Source: src/src/LocalHeader.h 22-27 LocalHeaderNodeState *)
datatype node_state = Discovered | Translating | Staged | Failed

(* Source: src/src/LocalHeader.h 29-36 LocalHeaderNode *)
record node =
  n_source :: fspath
  n_artifact :: fspath
  n_relative :: fspath
  n_depth :: nat
  n_root_id :: nat
  n_state :: node_state

(* Source: src/src/LocalHeader.h 38-51 LocalHeaderEdge *)
record edge =
  e_parent :: fspath
  e_spelling :: string
  e_child :: fspath
  e_emitted :: string
  e_offset :: nat
  e_resume_line :: nat
  e_resume_file :: string
  e_angled :: bool
  e_direct_literal :: bool
  e_filename_offset :: nat
  e_skipped :: bool

(* Source: src/src/LocalHeader.h 55-82 LocalHeaderInputEvidence *)
record evidence =
  standard_preprocessing :: bool
  token_sha :: string
  macro_sha :: string
  pragma_sha :: string
  warp_sdk_tuple :: string
  has_line_directive :: bool
  ordinary_input :: bool
  parsed_root :: fspath
  parsed_root_sha :: string
  file_sha :: "(fspath \<times> string) list"
  provider_ids :: "(fspath \<times> nat \<times> nat) list"
  provider_sizes :: "fspath \<rightharpoonup> nat"
  path_bindings :: "(fspath \<times> fspath) list"
  changed_binding :: string
  file_entries :: "fspath \<Rightarrow> nat"
  pragma_files :: "fspath set"
  literal_pragma_files :: "fspath set"
  once_offsets :: "fspath \<Rightarrow> nat list"
  quoted_parents :: "fspath set"
  original_edges :: "edge list"

definition no_evidence :: evidence where
  "no_evidence =
     \<lparr>standard_preprocessing = False, token_sha = [], macro_sha = [], pragma_sha = [],
      warp_sdk_tuple = [], has_line_directive = False, ordinary_input = False,
      parsed_root = empty_path, parsed_root_sha = [], file_sha = [], provider_ids = [],
      provider_sizes = Map.empty, path_bindings = [], changed_binding = [],
      file_entries = (\<lambda>_. 0), pragma_files = {}, literal_pragma_files = {},
      once_offsets = (\<lambda>_. []), quoted_parents = {}, original_edges = []\<rparr>"

(* Source: src/src/LocalHeader.h 84-88 LocalHeaderContextInline *)
record context_inline =
  ci_source :: fspath
  ci_sha :: string
  ci_offset :: nat

(* Source: src/src/LocalHeader.h 92-102 LocalKernelThreadBoundPolicy *)
record bound_policy =
  bp_source :: fspath
  bp_sha :: string
  bp_kernel :: string
  bp_artifact :: fspath
  bp_bytes :: nat
  bp_declaration :: nat
  bp_qualifier :: nat
  bp_maximum :: nat

type_synonym policy_key = "fspath \<times> nat"
type_synonym policies = "(policy_key \<times> bound_policy) list"

(* Source: src/src/LocalHeader.h 107-112 LocalHeaderIncludeDecision *)
record decision =
  redirect :: bool
  fatal :: bool
  emitted :: string
  reason :: string

(* Source: src/src/LocalHeader.h 114-126 LocalHeaderClosureStats *)
record closure_stats =
  quoted_seen :: nat
  angle_ignored :: nat
  external_quoted :: nat
  selected_includes :: nat
  redirected_root :: nat
  redirected_header :: nat
  duplicates :: nat
  cycles :: nat
  already_translated :: nat
  missing_required :: nat
  macro_includes :: nat

definition no_stats :: closure_stats where
  "no_stats =
     \<lparr>quoted_seen = 0, angle_ignored = 0, external_quoted = 0, selected_includes = 0,
      redirected_root = 0, redirected_header = 0, duplicates = 0, cycles = 0,
      already_translated = 0, missing_required = 0, macro_includes = 0\<rparr>"

type_synonym eligible_root = "fspath \<times> nat"

(* Source: src/src/LocalHeader.h 225-253 LocalHeaderClosurePlan (members) *)
record plan =
  root_source :: fspath
  root_artifact_lexical :: fspath
  bundle_lexical :: fspath
  root_artifact :: fspath
  bundle_at :: fspath
  mode :: closure_mode
  roots :: "eligible_root list"
  excluded :: "fspath list"
  dependencies :: "fspath list"
  nodes :: "node list"
  node_by_source :: "fspath \<rightharpoonup> nat"
  edges :: "edge list"
  plan_stats :: closure_stats
  helper_headers :: "fspath set"
  source_headers :: "fspath set"
  bound_policies :: policies
  bound_artifacts :: "(policy_key \<times> string) list"
  context_evidence :: evidence
  context_inlines :: "context_inline list"
  failed :: bool
  failure_reason :: string

text \<open>One include directive as the preprocessor callback reports it.\<close>

record include_event =
  i_parent :: fspath
  i_parent_artifact :: fspath
  i_depth :: nat
  i_offset :: nat
  i_spelling :: string
  i_resolved :: fspath
  i_angled :: bool
  i_literal :: bool
  i_resume_line :: nat
  i_resume_file :: string

section \<open>Paths of the plan\<close>

(* Source: src/src/LocalHeader.cpp 503-512 LocalHeaderClosurePlan::canonicalExisting *)
definition canonicalExisting :: "host \<Rightarrow> fspath \<Rightarrow> fspath" where
  "canonicalExisting h p =
     (if p = empty_path then empty_path
      else case canonical_of h p of None \<Rightarrow> empty_path | Some c \<Rightarrow> lexically_normal c)"

(* Source: src/src/LocalHeader.cpp 514-526 LocalHeaderClosurePlan::weaklyCanonical *)
definition weaklyCanonical :: "host \<Rightarrow> fspath \<Rightarrow> fspath" where
  "weaklyCanonical h p =
     (if p = empty_path then empty_path
      else case absolute_of h p of None \<Rightarrow> empty_path
           | Some a \<Rightarrow> (case weakly_of h a of None \<Rightarrow> empty_path | Some c \<Rightarrow> lexically_normal c))"

(* Source: src/src/LocalHeader.cpp 528-537 LocalHeaderClosurePlan::absoluteNormalized *)
definition absoluteNormalized :: "host \<Rightarrow> fspath \<Rightarrow> fspath" where
  "absoluteNormalized h p =
     (if p = empty_path then empty_path
      else case absolute_of h p of None \<Rightarrow> empty_path | Some a \<Rightarrow> lexically_normal a)"

(* Source: src/src/LocalHeader.cpp 539-552 LocalHeaderClosurePlan::isWithin *)
definition isWithin :: "host \<Rightarrow> fspath \<Rightarrow> fspath \<Rightarrow> bool" where
  "isWithin h p root =
     (case relative_of h p root of
        None \<Rightarrow> False
      | Some rel \<Rightarrow> \<not> rooted rel \<and>
          (rel = empty_path \<or> rel = dot_path \<or> ''..'' \<notin> set (parts rel)))"

(* Source: src/src/LocalHeader.cpp 554-560 LocalHeaderClosurePlan::isExcluded *)
definition isExcluded :: "host \<Rightarrow> plan \<Rightarrow> fspath \<Rightarrow> bool" where
  "isExcluded h p path = (\<exists>r \<in> set (excluded p). isWithin h path r)"

text \<open>The scan for the longest eligible root: the candidate so far and the next.\<close>

(* Source: src/src/LocalHeader.cpp 566-578 LocalHeaderClosurePlan::findEligibleRoot (scan) *)
fun longest_root :: "host \<Rightarrow> fspath \<Rightarrow> eligible_root option \<Rightarrow> eligible_root list \<Rightarrow> eligible_root option"
where
  "longest_root h path best [] = best"
| "longest_root h path best (c # cs) =
     (if \<not> isWithin h path (fst c) then longest_root h path best cs
      else case best of
             None \<Rightarrow> longest_root h path (Some c) cs
           | Some b \<Rightarrow>
               if length (generic_string (fst b)) < length (generic_string (fst c))
                  \<or> length (generic_string (fst c)) = length (generic_string (fst b)) \<and> snd c < snd b
               then longest_root h path (Some c) cs
               else longest_root h path (Some b) cs)"

(* Source: src/src/LocalHeader.cpp 562-593 LocalHeaderClosurePlan::findEligibleRoot *)
definition findEligibleRoot :: "host \<Rightarrow> plan \<Rightarrow> fspath \<Rightarrow> (eligible_root \<times> fspath) option" where
  "findEligibleRoot h p path =
     (case longest_root h path None (roots p) of
        None \<Rightarrow> None
      | Some r \<Rightarrow>
          (case relative_of h path (fst r) of
             None \<Rightarrow> None
           | Some rel \<Rightarrow>
               if rel = empty_path \<or> rooted rel \<or> ''..'' \<in> set (parts rel) then None
               else Some (r, lexically_normal rel)))"

(* Source: src/src/LocalHeader.cpp 595-603 LocalHeaderClosurePlan::makeArtifactPath *)
definition makeArtifactPath :: "fspath \<Rightarrow> nat \<Rightarrow> fspath \<Rightarrow> fspath" where
  "makeArtifactPath b i rel =
     lexically_normal (path_concat
       (path_append (path_append b \<lparr>rooted = False, parts = [''r'' @ digits i]\<rparr>) rel) ''.dpp'')"

(* Source: src/src/LocalHeader.cpp 605-614 LocalHeaderClosurePlan::makeRelativeInclude *)
definition makeRelativeInclude :: "host \<Rightarrow> fspath \<Rightarrow> fspath \<Rightarrow> fspath" where
  "makeRelativeInclude h parent child =
     (case relative_of h child (parent_path parent) of
        None \<Rightarrow> empty_path
      | Some rel \<Rightarrow> if rel = empty_path \<or> rooted rel then empty_path else lexically_normal rel)"

(* Source: src/src/LocalHeader.cpp 616-621 LocalHeaderClosurePlan::endsWithDpp *)
definition endsWithDpp :: "string \<Rightarrow> bool" where
  "endsWithDpp s = (4 \<le> length s \<and> drop (length s - 4) s = ''.dpp'')"

(* Source: src/src/LocalHeader.cpp 878-883 LocalHeaderClosurePlan::fail *)
definition fail :: "string \<Rightarrow> plan \<Rightarrow> plan" where
  "fail why p = (if failed p then p else p\<lparr>failed := True, failure_reason := why\<rparr>)"

definition add_dependency :: "fspath \<Rightarrow> fspath list \<Rightarrow> fspath list" where
  "add_dependency d ds = (if d \<in> set ds then ds else insort_key generic_string d ds)"

text \<open>Candidate roots in order, each canonical directory once, numbered from 0.\<close>

fun number_roots :: "nat \<Rightarrow> fspath list \<Rightarrow> fspath list \<Rightarrow> eligible_root list" where
  "number_roots n seen [] = []"
| "number_roots n seen (c # cs) =
     (if c = empty_path \<or> c \<in> set seen then number_roots n seen cs
      else (c, n) # number_roots (Suc n) (c # seen) cs)"

(* Source: src/src/LocalHeader.cpp 458-501 LocalHeaderClosurePlan::LocalHeaderClosurePlan *)
definition new_plan :: "host \<Rightarrow> fspath list \<Rightarrow> fspath list \<Rightarrow> fspath \<Rightarrow> fspath \<Rightarrow> fspath \<Rightarrow> closure_mode \<Rightarrow> plan"
where
  "new_plan h includeDirs external rootSource rootArtifact bundlePath m =
     (let p = \<lparr>root_source = canonicalExisting h rootSource,
               root_artifact_lexical = absoluteNormalized h rootArtifact,
               bundle_lexical = absoluteNormalized h bundlePath,
               root_artifact = weaklyCanonical h rootArtifact,
               bundle_at = weaklyCanonical h bundlePath,
               mode = m, roots = [], excluded = [], dependencies = [], nodes = [],
               node_by_source = Map.empty, edges = [], plan_stats = no_stats,
               helper_headers = {}, source_headers = {}, bound_policies = [], bound_artifacts = [],
               context_evidence = no_evidence, context_inlines = [],
               failed = False, failure_reason = []\<rparr>
      in if root_source p = empty_path then fail ''cannot canonicalize root source'' p
         else if root_artifact_lexical p = empty_path \<or> bundle_lexical p = empty_path
                 \<or> root_artifact p = empty_path \<or> bundle_at p = empty_path
         then fail ''cannot weakly canonicalize local-header artifact paths'' p
         else p\<lparr>dependencies := [root_source p],
                roots := number_roots 0 []
                   (map (canonicalExisting h)
                      (lexically_normal (parent_path (root_source p)) # includeDirs)),
                excluded := filter (\<lambda>e. e \<noteq> empty_path) (map (canonicalExisting h) external)\<rparr>)"

section \<open>Observing an include\<close>

definition no_decision :: decision where
  "no_decision = \<lparr>redirect = False, fatal = False, emitted = [], reason = []\<rparr>"

definition bump :: "(closure_stats \<Rightarrow> closure_stats) \<Rightarrow> plan \<Rightarrow> plan" where
  "bump f p = p\<lparr>plan_stats := f (plan_stats p)\<rparr>"

definition refuse :: "string \<Rightarrow> plan \<Rightarrow> decision \<times> plan" where
  "refuse why p =
     (let p = fail why p
      in (\<lparr>redirect = False, fatal = True, emitted = [], reason = failure_reason p\<rparr>, p))"

text \<open>A resolved header under no eligible root: an error when the spelling climbs
  or names a file under an eligible root, otherwise an external header.\<close>

(* Source: src/src/LocalHeader.cpp 705-736 LocalHeaderClosurePlan::observeInclude (no eligible root) *)
definition outside_root :: "host \<Rightarrow> include_event \<Rightarrow> plan \<Rightarrow> decision \<times> plan" where
  "outside_root h i p =
     (let lexical = to_path (i_spelling i);
          climbs = (''..'' \<in> set (parts lexical));
          candidate = path_append (parent_path (i_parent i)) lexical;
          inside = (exists_at h candidate
            \<and> (\<exists>r \<in> set (roots p). isWithin h (absoluteNormalized h (lexically_normal candidate)) (fst r)))
      in if climbs \<or> inside
         then refuse (''quoted include resolves outside its eligible root: '' @ i_spelling i) p
         else (no_decision, bump (external_quoted_update Suc) p))"

text \<open>The node of a selected header: a new one, or the one found, counted as a
  duplicate and perhaps a cycle.  None when no artifact path can be allocated.\<close>

(* Source: src/src/LocalHeader.cpp 744-769 LocalHeaderClosurePlan::observeInclude (node) *)
definition select_node :: "host \<Rightarrow> nat \<Rightarrow> fspath \<Rightarrow> eligible_root \<Rightarrow> fspath \<Rightarrow> plan \<Rightarrow> (nat \<times> plan) option"
where
  "select_node h depth canonical root relative p =
     (case node_by_source p canonical of
        None \<Rightarrow>
          (let artifact = makeArtifactPath (bundle_at p) (snd root) relative
           in case relative_of h artifact (bundle_at p) of
                None \<Rightarrow> None
              | Some rel \<Rightarrow>
                  if lexically_normal rel = empty_path then None
                  else Some (length (nodes p),
                    p\<lparr>nodes := nodes p @
                        [\<lparr>n_source = canonical, n_artifact = artifact, n_relative = lexically_normal rel,
                          n_depth = depth + 1, n_root_id = snd root, n_state = Discovered\<rparr>],
                      node_by_source := (node_by_source p)(canonical \<mapsto> length (nodes p))\<rparr>))
      | Some k \<Rightarrow>
          (let p = bump (duplicates_update Suc) p
           in Some (k, if n_state (nodes p ! k) = Translating \<or> n_depth (nodes p ! k) \<le> depth
                       then bump (cycles_update Suc) p else p)))"

(* Source: src/src/LocalHeader.cpp 771-791 LocalHeaderClosurePlan::observeInclude (redirect) *)
definition redirect_to :: "host \<Rightarrow> include_event \<Rightarrow> fspath \<Rightarrow> nat \<Rightarrow> plan \<Rightarrow> decision \<times> plan" where
  "redirect_to h i canonical k p =
     (let rel = makeRelativeInclude h (i_parent_artifact i) (n_artifact (nodes p ! k))
      in if rel = empty_path
         then refuse (''cannot form relative include from artifact to: ''
                      @ generic_string (n_artifact (nodes p ! k))) p
         else
         let text = ''\"'' @ generic_string rel @ ''\"'';
             p = bump (selected_includes_update Suc) p;
             p = (if i_depth i = 0 then bump (redirected_root_update Suc) p
                  else bump (redirected_header_update Suc) p)
         in (\<lparr>redirect = True, fatal = False, emitted = text, reason = []\<rparr>,
             p\<lparr>edges := edges p @
                [\<lparr>e_parent = canonicalExisting h (i_parent i), e_spelling = i_spelling i,
                  e_child = canonical, e_emitted = text, e_offset = i_offset i,
                  e_resume_line = i_resume_line i, e_resume_file = i_resume_file i,
                  e_angled = False, e_direct_literal = False, e_filename_offset = 0,
                  e_skipped = False\<rparr>]\<rparr>))"

(* Source: src/src/LocalHeader.cpp 623-792 LocalHeaderClosurePlan::observeInclude *)
definition observeInclude :: "host \<Rightarrow> include_event \<Rightarrow> plan \<Rightarrow> decision \<times> plan" where
  "observeInclude h i p =
     (if mode p = Disabled then (no_decision, p) else
      let canonical = (if i_resolved i \<noteq> empty_path then canonicalExisting h (i_resolved i)
                       else empty_path);
          p = (if canonical \<noteq> empty_path
               then p\<lparr>dependencies := add_dependency canonical (dependencies p)\<rparr> else p)
      in if i_angled i then (no_decision, bump (angle_ignored_update Suc) p)
      else if \<not> i_literal i then
        (let p = bump (macro_includes_update Suc) p
         in if mode p = Recursive
            then refuse ''macro-produced quoted include cannot form a strict recursive closure'' p
            else (no_decision, p))
      else let p = bump (quoted_seen_update Suc) p
      in if endsWithDpp (i_spelling i) then (no_decision, bump (already_translated_update Suc) p)
      else if i_resolved i = empty_path
      then refuse (''quoted local include has no resolved FileEntry: '' @ i_spelling i)
             (bump (missing_required_update Suc) p)
      else if rooted (to_path (i_spelling i))
      then refuse (''absolute quoted include is not eligible: '' @ i_spelling i) p
      else if canonical = empty_path
      then refuse (''cannot canonicalize resolved quoted include: '' @ generic_string (i_resolved i))
             (bump (missing_required_update Suc) p)
      else if endsWithDpp (generic_string canonical)
      then (no_decision, bump (already_translated_update Suc) p)
      else if canonical = root_source p
      then refuse (''a selected local header resolves back to the root input: '' @ i_spelling i) p
      else if isExcluded h p canonical then (no_decision, bump (external_quoted_update Suc) p)
      else case findEligibleRoot h p canonical of
        None \<Rightarrow> outside_root h i p
      | Some (root, relative) \<Rightarrow>
          if node_by_source p canonical = None \<and> i_depth i \<noteq> 0 \<and> mode p \<noteq> Recursive
          then (no_decision, p)
          else case select_node h (i_depth i) canonical root relative p of
                 None \<Rightarrow> refuse (''cannot allocate local-header artifact path for: ''
                                 @ generic_string canonical) p
               | Some (k, p) \<Rightarrow> redirect_to h i canonical k p)"

section \<open>Nodes, contexts and evidence\<close>

(* Source: src/src/LocalHeader.cpp 794-797 LocalHeaderClosurePlan::isSelectedRootHeader *)
definition isSelectedRootHeader :: "host \<Rightarrow> plan \<Rightarrow> fspath \<Rightarrow> bool" where
  "isSelectedRootHeader h p path =
     (case node_by_source p (canonicalExisting h path) of
        None \<Rightarrow> False | Some k \<Rightarrow> n_depth (nodes p ! k) = 1)"

(* Source: src/src/LocalHeader.cpp 799-802 LocalHeaderClosurePlan::requireInheritedHelperContext *)
definition requireInheritedHelperContext :: "host \<Rightarrow> fspath \<Rightarrow> plan \<Rightarrow> plan" where
  "requireInheritedHelperContext h path p =
     (if mode p = Recursive \<and> isSelectedRootHeader h p path
      then p\<lparr>helper_headers := insert (canonicalExisting h path) (helper_headers p)\<rparr> else p)"

(* Source: src/src/LocalHeader.cpp 804-807 LocalHeaderClosurePlan::requireInheritedSourceContext *)
definition requireInheritedSourceContext :: "host \<Rightarrow> fspath \<Rightarrow> plan \<Rightarrow> plan" where
  "requireInheritedSourceContext h path p =
     (if mode p = Recursive \<and> isSelectedRootHeader h p path
      then p\<lparr>source_headers := insert (canonicalExisting h path) (source_headers p)\<rparr> else p)"

(* Source: src/src/LocalHeader.cpp 809-816 LocalHeaderClosurePlan::retainContextEvidence *)
definition retainContextEvidence :: "evidence \<Rightarrow> context_inline list \<Rightarrow> plan \<Rightarrow> plan" where
  "retainContextEvidence e inlined p =
     p\<lparr>context_evidence := e, context_inlines := inlined,
       dependencies := foldl (\<lambda>ds f. add_dependency (fst f) ds) (dependencies p) (file_sha e)\<rparr>"

definition binding_changed :: "host \<Rightarrow> fspath \<times> fspath \<Rightarrow> bool" where
  "binding_changed h b = (canonicalExisting h (fst b) \<noteq> snd b)"

definition input_changed :: "host \<Rightarrow> fspath \<times> string \<Rightarrow> bool" where
  "input_changed h f =
     (canonicalExisting h (fst f) \<noteq> fst f
      \<or> (case content_at h (fst f) of None \<Rightarrow> True
         | Some contents \<Rightarrow> snd f = [] \<or> sha256_of h contents \<noteq> snd f))"

definition provider_changed :: "host \<Rightarrow> (fspath \<rightharpoonup> nat) \<Rightarrow> fspath \<times> nat \<times> nat \<Rightarrow> bool" where
  "provider_changed h sizes f =
     (case sizes (fst f) of None \<Rightarrow> True
      | Some sz \<Rightarrow>
          (case status_of h (fst f) of None \<Rightarrow> True
           | Some (dev, file, n) \<Rightarrow> dev \<noteq> fst (snd f) \<or> file \<noteq> snd (snd f) \<or> n \<noteq> sz))"

(* Source: src/src/LocalHeader.cpp 818-852 LocalHeaderClosurePlan::verifyContextInputs *)
definition verifyContextInputs :: "host \<Rightarrow> plan \<Rightarrow> bool \<times> plan" where
  "verifyContextInputs h p =
     (let e = context_evidence p in
      if changed_binding e \<noteq> []
      then (False, fail (''contextual input path binding changed during parse: '' @ changed_binding e) p)
      else case find (binding_changed h) (path_bindings e) of
        Some b \<Rightarrow> (False, fail (''contextual input path binding changed: ''
                                @ generic_string (fst b)) p)
      | None \<Rightarrow>
      (case find (input_changed h) (file_sha e) of
        Some f \<Rightarrow> (False, fail (''contextual local-header input changed or cannot be verified: ''
                                @ generic_string (fst f)) p)
      | None \<Rightarrow>
      (case find (provider_changed h (provider_sizes e)) (provider_ids e) of
        Some f \<Rightarrow> (False, fail (''contextual original SDK provider identity changed: ''
                                @ generic_string (fst f)) p)
      | None \<Rightarrow> (\<not> failed p, p))))"

text \<open>The first node still to be translated, in order of discovery.\<close>

fun first_discovered :: "nat \<Rightarrow> node list \<Rightarrow> nat option" where
  "first_discovered k [] = None"
| "first_discovered k (n # ns) =
     (if n_state n = Discovered then Some k else first_discovered (Suc k) ns)"

(* Source: src/src/LocalHeader.cpp 854-862 LocalHeaderClosurePlan::nextDiscovered *)
definition nextDiscovered :: "plan \<Rightarrow> nat option" where
  "nextDiscovered p = first_discovered 0 (nodes p)"

definition set_state :: "nat \<Rightarrow> node_state \<Rightarrow> plan \<Rightarrow> plan" where
  "set_state k st p = p\<lparr>nodes := (nodes p)[k := (nodes p ! k)\<lparr>n_state := st\<rparr>]\<rparr>"

(* Source: src/src/LocalHeader.cpp 864-866 LocalHeaderClosurePlan::markTranslating *)
definition markTranslating :: "nat \<Rightarrow> plan \<Rightarrow> plan" where
  "markTranslating k p = set_state k Translating p"

(* Source: src/src/LocalHeader.cpp 868-870 LocalHeaderClosurePlan::markStaged *)
definition markStaged :: "nat \<Rightarrow> plan \<Rightarrow> plan" where
  "markStaged k p = set_state k Staged p"

(* Source: src/src/LocalHeader.cpp 872-876 LocalHeaderClosurePlan::markFailed *)
definition markFailed :: "nat \<Rightarrow> string \<Rightarrow> plan \<Rightarrow> plan" where
  "markFailed k why p = fail why (set_state k Failed p)"

end
