(* ===== verification/Closure_Checks.thy ===== *)
theory Closure_Checks
  imports Closure_Plan "HOL-Library.Product_Lexorder"
begin

text \<open>
  What a closure plan must pass before its artifacts are published
  (\<open>src/LocalHeader.cpp\<close>): isolation of the outputs from the inputs, the
  kernel-bound policies and their seals, and the staged files.  A
  \<open>std::map::at\<close> on an absent key throws; that outcome is None.
\<close>

section \<open>Isolation of the artifacts\<close>

text \<open>An artifact: its label, its path, and whether it stands for a directory.\<close>

type_synonym artifact = "string \<times> fspath \<times> bool"

definition artifact_paths :: "host \<Rightarrow> plan \<Rightarrow> artifact list" where
  "artifact_paths h p =
     [(''root output'', weaklyCanonical h (root_artifact_lexical p), False),
      (''local-header bundle'', weaklyCanonical h (bundle_lexical p), True),
      (''root backup'',
        weaklyCanonical h (path_concat (root_artifact_lexical p) ''.ascify-backup''), False),
      (''local-header bundle backup'',
        weaklyCanonical h (path_concat (bundle_lexical p) ''.ascify-backup''), True)]"

fun ordered_pairs :: "'a list \<Rightarrow> ('a \<times> 'a) list" where
  "ordered_pairs [] = []"
| "ordered_pairs (x # xs) = map (Pair x) xs @ ordered_pairs xs"

definition artifacts_overlap :: "host \<Rightarrow> artifact \<times> artifact \<Rightarrow> bool" where
  "artifacts_overlap h ab =
     (case ab of ((_, a, adir), (_, b, bdir)) \<Rightarrow>
        a = b \<or> adir \<and> isWithin h b a \<or> bdir \<and> isWithin h a b)"

definition input_clash :: "host \<Rightarrow> bool \<Rightarrow> plan \<Rightarrow> artifact \<times> fspath \<Rightarrow> bool" where
  "input_clash h inplace p ad =
     (case ad of ((label, a, adir), d) \<Rightarrow>
        \<not> (inplace \<and> label = ''root output'' \<and> d = root_source p \<and> a = d)
        \<and> (a = d \<or> adir \<and> isWithin h d a))"

(* Source: src/src/LocalHeader.cpp 885-941 LocalHeaderClosurePlan::validateArtifactIsolation *)
definition validateArtifactIsolation :: "host \<Rightarrow> bool \<Rightarrow> plan \<Rightarrow> bool \<times> plan" where
  "validateArtifactIsolation h inplace p =
     (let artifacts = artifact_paths h p in
      case find (\<lambda>a. fst (snd a) = empty_path) artifacts of
        Some a \<Rightarrow> (False, fail (''cannot weakly canonicalize '' @ fst a) p)
      | None \<Rightarrow>
      (case find (artifacts_overlap h) (ordered_pairs artifacts) of
        Some (a, b) \<Rightarrow> (False, fail (fst a @ '' aliases '' @ fst b @ '': ''
                                     @ generic_string (fst (snd a))) p)
      | None \<Rightarrow>
      (case find (input_clash h inplace p) (List.product artifacts (dependencies p)) of
        Some (a, d) \<Rightarrow> (False, fail (fst a @ '' aliases or contains an input dependency: ''
                                     @ generic_string d) p)
      | None \<Rightarrow> (True, p))))"

section \<open>Kernel-bound policies\<close>

fun occurs :: "string \<Rightarrow> string \<Rightarrow> bool" where
  "occurs t [] = (t = [])"
| "occurs t (c # cs) = (take (length t) (c # cs) = t \<or> occurs t cs)"

text \<open>\<open>std::map::emplace\<close> and \<open>operator[]\<close> on a map kept in key order.\<close>

definition key_order :: "policy_key \<Rightarrow> string \<times> nat" where
  "key_order k = (generic_string (fst k), snd k)"

definition emplace :: "policy_key \<Rightarrow> 'a \<Rightarrow> (policy_key \<times> 'a) list \<Rightarrow> (policy_key \<times> 'a) list" where
  "emplace k v m = (if k \<in> fst ` set m then m else insort_key (\<lambda>e. key_order (fst e)) (k, v) m)"

definition assign :: "policy_key \<Rightarrow> 'a \<Rightarrow> (policy_key \<times> 'a) list \<Rightarrow> (policy_key \<times> 'a) list" where
  "assign k v m = (if k \<in> fst ` set m then map (\<lambda>e. if fst e = k then (k, v) else e) m
                   else emplace k v m)"

definition hash_matches :: "host \<Rightarrow> fspath \<Rightarrow> nat \<Rightarrow> string \<Rightarrow> bool" where
  "hash_matches h path bytes sha =
     (case content_at h path of None \<Rightarrow> False
      | Some s \<Rightarrow> length s = bytes \<and> sha \<noteq> [] \<and> sha256_of h s = sha)"

definition proved_policy :: "host \<Rightarrow> bound_policy \<Rightarrow> plan \<Rightarrow> bool" where
  "proved_policy h b p \<longleftrightarrow>
     \<not> failed p \<and> mode p = Recursive
     \<and> canonicalExisting h (bp_source b) = bp_source b
     \<and> (case node_by_source p (bp_source b) of None \<Rightarrow> False
        | Some k \<Rightarrow> n_depth (nodes p ! k) = 1 \<and> bp_artifact b = n_artifact (nodes p ! k))
     \<and> 1 \<le> bp_maximum b \<and> bp_maximum b \<le> 2048 \<and> bp_kernel b \<noteq> []
     \<and> bp_qualifier b < bp_bytes b \<and> bp_declaration b < bp_bytes b
     \<and> hash_matches h (bp_source b) (bp_bytes b) (bp_sha b)"

definition policy_conflict :: "bound_policy \<Rightarrow> bound_policy \<Rightarrow> bool" where
  "policy_conflict b other =
     (bp_source other = bp_source b
      \<and> (bp_qualifier other = bp_qualifier b \<or> bp_declaration other = bp_declaration b)
      \<and> other \<noteq> b)"

(* Source: src/src/LocalHeader.cpp 943-969 LocalHeaderClosurePlan::requireKernelThreadBoundPolicy *)
definition requireKernelThreadBoundPolicy :: "host \<Rightarrow> bound_policy \<Rightarrow> plan \<Rightarrow> bool \<times> plan" where
  "requireKernelThreadBoundPolicy h b p =
     (if \<not> proved_policy h b p
      then (False,
        fail ''kernel-bound header policy has an unproved physical selected-header identity'' p)
      else if \<exists>e \<in> set (bound_policies p). policy_conflict b (snd e)
      then (False,
        fail ''kernel-bound header policy conflicts with a prior kernel identity/bound'' p)
      else (True, p\<lparr>bound_policies := emplace (bp_source b, bp_qualifier b) b (bound_policies p)\<rparr>))"

definition bound_annotation :: "nat \<Rightarrow> string" where
  "bound_annotation n = ''ASCIFY_GLOBAL __launch_bounds__('' @ digits n @ '')''"

definition seal_ok :: "host \<Rightarrow> fspath \<Rightarrow> fspath \<Rightarrow> string \<Rightarrow> string \<Rightarrow> plan \<Rightarrow> policy_key \<times> bound_policy \<Rightarrow> bool"
where
  "seal_ok h source artifact text staged p e =
     (canonicalExisting h source = source \<and> artifact = bp_artifact (snd e)
      \<and> length text = bp_bytes (snd e) \<and> sha256_of h text = bp_sha (snd e)
      \<and> occurs (bound_annotation (bp_maximum (snd e))) staged
      \<and> fst e \<notin> fst ` set (bound_artifacts p))"

(* Source: src/src/LocalHeader.cpp 971-1002 LocalHeaderClosurePlan::sealKernelThreadBoundPolicies *)
definition sealKernelThreadBoundPolicies ::
  "host \<Rightarrow> fspath \<Rightarrow> fspath \<Rightarrow> fspath \<Rightarrow> policies \<Rightarrow> plan \<Rightarrow> bool \<times> plan" where
  "sealKernelThreadBoundPolicies h source artifact stagedPath applied p =
     (let expected = filter (\<lambda>e. bp_source (snd e) = source) (bound_policies p) in
      if failed p \<or> expected \<noteq> applied
      then (False, fail ''kernel-bound header annotation was not independently applied exactly once'' p)
      else if expected = [] then (True, p)
      else case (content_at h source, nonempty_file_at h stagedPath, content_at h stagedPath) of
        (Some text, True, Some staged) \<Rightarrow>
          if sha256_of h staged = []
          then (False, fail ''kernel-bound staged header or its original input is missing'' p)
          else if \<not> (\<forall>e \<in> set expected. seal_ok h source artifact text staged p e)
          then (False,
            fail ''kernel-bound staged header identity/annotation changed or was sealed twice'' p)
          else (True, p\<lparr>bound_artifacts :=
                 foldl (\<lambda>m e. assign (fst e) (sha256_of h staged) m) (bound_artifacts p) expected\<rparr>)
      | _ \<Rightarrow> (False, fail ''kernel-bound staged header or its original input is missing'' p))"

definition policy_node :: "plan \<Rightarrow> bound_policy \<Rightarrow> node option" where
  "policy_node p b =
     (case node_by_source p (bp_source b) of None \<Rightarrow> None
      | Some k \<Rightarrow> if n_depth (nodes p ! k) = 1 \<and> n_artifact (nodes p ! k) = bp_artifact b
                  then Some (nodes p ! k) else None)"

fun policies_hold :: "host \<Rightarrow> fspath \<Rightarrow> plan \<Rightarrow> policies \<Rightarrow> bool option" where
  "policies_hold h staged p [] = Some True"
| "policies_hold h staged p (e # es) =
     (if canonicalExisting h (bp_source (snd e)) \<noteq> bp_source (snd e) then Some False else
      case policy_node p (snd e) of None \<Rightarrow> Some False
      | Some n \<Rightarrow>
          (case content_at h (bp_source (snd e)) of None \<Rightarrow> Some False
           | Some source \<Rightarrow>
               if length source \<noteq> bp_bytes (snd e) \<or> sha256_of h source \<noteq> bp_sha (snd e)
               then Some False
               else case content_at h (lexically_normal (path_append staged (n_relative n))) of
                      None \<Rightarrow> Some False
                    | Some text \<Rightarrow>
                        (case map_of (bound_artifacts p) (fst e) of None \<Rightarrow> None
                         | Some hash \<Rightarrow> if sha256_of h text \<noteq> hash then Some False
                                        else policies_hold h staged p es)))"

(* Source: src/src/LocalHeader.cpp 1004-1027 LocalHeaderClosurePlan::validateKernelThreadBoundPolicies *)
definition validateKernelThreadBoundPolicies :: "host \<Rightarrow> fspath \<Rightarrow> plan \<Rightarrow> (bool \<times> plan) option" where
  "validateKernelThreadBoundPolicies h staged p =
     (if failed p \<or> length (bound_artifacts p) \<noteq> length (bound_policies p)
      then Some (False, fail ''kernel-bound header policy remains unfulfilled before publication'' p)
      else case policies_hold h staged p (bound_policies p) of
             None \<Rightarrow> None
           | Some True \<Rightarrow> Some (True, p)
           | Some False \<Rightarrow> Some (False,
               fail ''kernel-bound source or sealed artifact changed before publication'' p))"

section \<open>Staged artifacts\<close>

definition staged_path :: "fspath \<Rightarrow> node \<Rightarrow> fspath" where
  "staged_path staged n = lexically_normal (path_append staged (n_relative n))"

fun nodes_staged :: "host \<Rightarrow> fspath \<Rightarrow> node list \<Rightarrow> string option" where
  "nodes_staged h staged [] = None"
| "nodes_staged h staged (n # ns) =
     (if n_state n \<noteq> Staged
      then Some (''local-header node was not staged: '' @ generic_string (n_source n))
      else if \<not> nonempty_file_at h (staged_path staged n)
      then Some (''staged local-header artifact is missing: '' @ generic_string (staged_path staged n))
      else nodes_staged h staged ns)"

fun edges_staged :: "host \<Rightarrow> fspath \<Rightarrow> fspath \<Rightarrow> plan \<Rightarrow> edge list \<Rightarrow> string option" where
  "edges_staged h root staged p [] = None"
| "edges_staged h root staged p (e # es) =
     (case (if e_parent e = root_source p then Some root
            else map_option (\<lambda>k. staged_path staged (nodes p ! k)) (node_by_source p (e_parent e))) of
        None \<Rightarrow> Some ''edge parent is absent from closure plan''
      | Some parent \<Rightarrow>
          if (case content_at h parent of None \<Rightarrow> False | Some s \<Rightarrow> occurs (e_emitted e) s)
          then edges_staged h root staged p es
          else Some (''staged artifact did not contain planned .dpp include: ''
                     @ generic_string parent))"

(* Source: src/src/LocalHeader.cpp 1029-1070 LocalHeaderClosurePlan::validateStagedArtifacts *)
definition validateStagedArtifacts :: "host \<Rightarrow> fspath \<Rightarrow> fspath \<Rightarrow> plan \<Rightarrow> (bool \<times> plan) option" where
  "validateStagedArtifacts h root staged p =
     (if failed p \<or> \<not> nonempty_file_at h root then Some (False, p)
      else case nodes_staged h staged (nodes p) of
        Some why \<Rightarrow> Some (False, fail why p)
      | None \<Rightarrow>
      (case validateKernelThreadBoundPolicies h staged p of
        None \<Rightarrow> None
      | Some (False, p) \<Rightarrow> Some (False, p)
      | Some (True, p) \<Rightarrow>
      (case edges_staged h root staged p (edges p) of
        Some why \<Rightarrow> Some (False, fail why p)
      | None \<Rightarrow> Some (True, p))))"

end
