(* ===== verification/Closure_Invariants.thy ===== *)
theory Closure_Invariants
  imports Closure_Checks
begin

text \<open>
  What every operation on a closure plan keeps: the index and the node list
  agree, each node's artifact is computed from its eligible root, every recorded
  edge leads to a node, the counters add up, no node is forgotten, and the first
  failure is final.  The laws are the locale \<open>plan_operation\<close>, interpreted for
  each operation.
\<close>

section \<open>The host's laws\<close>

text \<open>What \<open>canonical\<close> and \<open>weakly_canonical\<close> promise: a canonical path is
  absolute and plain, and canonicalising it again changes nothing.\<close>

definition sane_host :: "host \<Rightarrow> bool" where
  "sane_host h \<longleftrightarrow>
     (\<forall>p c. canonical_of h p = Some c \<longrightarrow> canonical_form c \<and> weakly_of h c = Some c)"

definition settled :: "host \<Rightarrow> fspath \<Rightarrow> bool" where
  "settled h p \<longleftrightarrow> canonical_form p \<and> weakly_of h p = Some p"

lemma settled_not_empty: "settled h p \<Longrightarrow> p \<noteq> empty_path"
  by (auto simp: settled_def canonical_form_def empty_path_def)

lemma normal_settled [simp]: "settled h p \<Longrightarrow> lexically_normal p = p"
  by (simp add: settled_def canonical_form_def normal_canonical)

lemma canonicalExisting_settled:
  "sane_host h \<Longrightarrow> canonicalExisting h p \<noteq> empty_path \<Longrightarrow> settled h (canonicalExisting h p)"
  by (auto simp: canonicalExisting_def sane_host_def settled_def normal_canonical
      canonical_form_def split: option.splits if_splits)

lemma relative_settled:
  "settled h p \<Longrightarrow> settled h b \<Longrightarrow> relative_of h p b = Some (lexically_relative p b)"
  by (simp add: relative_of_def settled_def)

lemma within_settled:
  assumes "settled h p" and "settled h b"
  shows "isWithin h p b \<longleftrightarrow> (\<exists>xs. parts p = parts b @ xs)"
proof -
  have c: "canonical_form p" "canonical_form b"
    using assms by (simp_all add: settled_def)
  have plain: "''..'' \<notin> set (parts p)"
    using c(1) by (auto simp: canonical_form_def plain_name_def)
  show ?thesis
  proof
    assume "isWithin h p b"
    then show "\<exists>xs. parts p = parts b @ xs"
      using relative_cases[OF c]
      by (auto simp: isWithin_def relative_settled[OF assms] empty_path_def dot_path_def)
  next
    assume "\<exists>xs. parts p = parts b @ xs"
    then obtain xs where xs: "parts p = parts b @ xs"
      by auto
    show "isWithin h p b"
    proof (cases "xs = []")
      case True
      then have "p = b"
        using xs c by (cases p; cases b) (auto simp: canonical_form_def)
      then show ?thesis
        using assms by (simp add: isWithin_def relative_settled relative_self dot_path_def)
    next
      case False
      then show ?thesis
        using xs plain
        by (simp add: isWithin_def relative_settled[OF assms] relative_prefix[OF c xs])
    qed
  qed
qed

section \<open>Eligible roots\<close>

lemma longest_root_source:
  "longest_root h path best cs = Some r \<Longrightarrow> best = Some r \<or> (r \<in> set cs \<and> isWithin h path (fst r))"
  by (induction cs arbitrary: best) (auto split: if_splits option.splits)

lemma longest_root_max:
  "longest_root h path best cs = Some r \<Longrightarrow>
     (\<forall>b. best = Some b \<longrightarrow> length (generic_string (fst b)) \<le> length (generic_string (fst r)))
     \<and> (\<forall>c \<in> set cs. isWithin h path (fst c) \<longrightarrow>
           length (generic_string (fst c)) \<le> length (generic_string (fst r)))"
  by (induction cs arbitrary: best) (fastforce split: if_splits option.splits)+

lemma longest_root_none:
  "longest_root h path best cs = None \<longleftrightarrow> best = None \<and> (\<forall>c \<in> set cs. \<not> isWithin h path (fst c))"
  by (induction cs arbitrary: best) (auto simp del: not_None_eq split: option.splits)

text \<open>The name of a path below a root; the root itself is the name dot.\<close>

definition below :: "string list \<Rightarrow> fspath" where
  "below xs = \<lparr>rooted = False, parts = (if xs = [] then [''.''] else xs)\<rparr>"

definition roots_ok :: "host \<Rightarrow> plan \<Rightarrow> bool" where
  "roots_ok h p \<longleftrightarrow> (\<forall>r \<in> set (roots p). settled h (fst r))
     \<and> distinct (map fst (roots p)) \<and> distinct (map snd (roots p))"

lemma normal_dot: "lexically_normal dot_path = dot_path"
  by (simp add: lexically_normal_def dot_path_def)

lemma relative_below:
  assumes "settled h p" and "settled h b" and "parts p = parts b @ xs"
  shows "relative_of h p b = Some (below xs)" "lexically_normal (below xs) = below xs"
proof -
  have c: "canonical_form p" "canonical_form b"
    using assms by (simp_all add: settled_def)
  have xs: "\<forall>w \<in> set xs. plain_name w"
    using c(1) assms(3) by (auto simp: canonical_form_def)
  show "lexically_normal (below xs) = below xs"
    using xs normal_dot normal_canonical[of "below xs"]
    by (cases "xs = []") (auto simp: below_def dot_path_def)
  show "relative_of h p b = Some (below xs)"
  proof (cases "xs = []")
    case True
    then have "p = b"
      using assms(3) c by (cases p; cases b) (auto simp: canonical_form_def)
    then show ?thesis
      using True assms by (simp add: relative_settled relative_self below_def dot_path_def)
  next
    case False
    then show ?thesis
      using relative_prefix[OF c assms(3)] assms by (simp add: relative_settled below_def)
  qed
qed

lemma findEligibleRoot_below:
  assumes "findEligibleRoot h p path = Some (r, rel)" and "settled h path" and "roots_ok h p"
  shows "r \<in> set (roots p) \<and> (\<exists>xs. parts path = parts (fst r) @ xs \<and> rel = below xs)"
proof -
  have l: "longest_root h path None (roots p) = Some r"
    using assms(1) by (auto simp: findEligibleRoot_def Let_def split: option.splits if_splits)
  then have r: "r \<in> set (roots p)" "isWithin h path (fst r)"
    using longest_root_source[OF l] by auto
  have s: "settled h (fst r)"
    using r(1) assms(3) by (simp add: roots_ok_def)
  obtain xs where xs: "parts path = parts (fst r) @ xs"
    using r(2) within_settled[OF assms(2) s] by auto
  show ?thesis
    using assms(1) l r xs relative_below[OF assms(2) s xs]
    by (auto simp: findEligibleRoot_def split: if_splits)
qed

section \<open>Artifact paths\<close>

lemma artifact_parts:
  assumes "canonical_form b" and "xs = [] \<or> (\<forall>w \<in> set xs. plain_name w)"
  shows "parts (makeArtifactPath b i (below xs)) =
     parts b @ (''r'' @ digits i) # butlast (parts (below xs)) @ [last (parts (below xs)) @ ''.dpp'']"
    and "canonical_form (makeArtifactPath b i (below xs))"
proof -
  define q where "q = path_concat
       (path_append (path_append b \<lparr>rooted = False, parts = [''r'' @ digits i]\<rparr>) (below xs)) ''.dpp''"
  have last: "parts b \<noteq> [] \<Longrightarrow> last (parts b) \<noteq> []"
    using assms(1) last_in_set[of "parts b"] by (auto simp: canonical_form_def plain_name_def)
  define r where "r = ''r'' @ digits i"
  have r: "plain_name r"
    by (simp add: r_def plain_name_def)
  have ne: "parts (below xs) \<noteq> []" "\<not> rooted (below xs)"
    by (simp_all add: below_def)
  have a: "path_append b \<lparr>rooted = False, parts = [r]\<rparr> = b\<lparr>parts := parts b @ [r]\<rparr>"
    using last by (cases "parts b = []") (simp_all add: path_append_def)
  have b: "path_append (b\<lparr>parts := parts b @ [r]\<rparr>) (below xs)
      = b\<lparr>parts := parts b @ r # parts (below xs)\<rparr>"
    using r ne by (simp add: path_append_def plain_name_def)
  have q: "parts q = parts b @ r # butlast (parts (below xs))
              @ [last (parts (below xs)) @ ''.dpp'']" "rooted q"
    using assms(1) ne unfolding q_def r_def[symmetric] a b
    by (simp_all add: path_concat_def canonical_form_def butlast_append)
  have "plain_name w" if "w \<in> set (butlast (parts (below xs)))" for w
  proof (cases "xs = []")
    case False
    then show ?thesis
      using that assms(2) in_set_butlastD[of w xs] by (simp add: below_def)
  qed (use that in \<open>simp add: below_def\<close>)
  moreover have "plain_name (last (parts (below xs)) @ ''.dpp'')"
    by (simp add: plain_name_def append_eq_Cons_conv)
  ultimately have plain: "\<forall>w \<in> set (parts q). plain_name w"
    using assms(1) r unfolding q(1) canonical_form_def by auto
  have n: "makeArtifactPath b i (below xs) = q"
    unfolding makeArtifactPath_def q_def[symmetric] by (rule normal_canonical[OF plain])
  show "parts (makeArtifactPath b i (below xs)) =
     parts b @ (''r'' @ digits i) # butlast (parts (below xs)) @ [last (parts (below xs)) @ ''.dpp'']"
    using n q(1) unfolding r_def by simp
  show "canonical_form (makeArtifactPath b i (below xs))"
    using n q plain by (simp add: canonical_form_def)
qed

lemma last_extended_inj:
  assumes "as \<noteq> []" and "bs \<noteq> []"
    and "butlast as @ [last as @ t] = butlast bs @ [last bs @ (t :: string)]"
  shows "as = bs"
proof -
  have "butlast as = butlast bs" "last as = last bs"
    using append1_eq_conv[THEN iffD1, OF assms(3)] by simp_all
  then show ?thesis
    by (metis assms(1,2) append_butlast_last_id)
qed

lemma below_inj:
  assumes "\<forall>w \<in> set xs. plain_name w" and "\<forall>w \<in> set ys. plain_name w"
    and "parts (below xs) = parts (below ys)"
  shows "xs = ys"
proof -
  have dot: "zs \<noteq> [''.'']" if "\<forall>w \<in> set zs. plain_name w" for zs
  proof
    assume "zs = [''.'']"
    with that have "plain_name ''.''"
      by simp
    then show False
      by (simp add: plain_name_def)
  qed
  have p: "parts (below zs) = (if zs = [] then [''.''] else zs)" for zs
    by (simp add: below_def)
  have e: "(if xs = [] then [''.''] else xs) = (if ys = [] then [''.''] else ys)"
    using assms(3) unfolding p .
  show ?thesis
    using e dot[OF assms(1)] dot[OF assms(2)] by (metis (no_types))
qed

lemma makeArtifactPath_inj:
  assumes "canonical_form b" and "\<forall>w \<in> set xs. plain_name w" and "\<forall>w \<in> set ys. plain_name w"
    and "makeArtifactPath b i (below xs) = makeArtifactPath b j (below ys)"
  shows "i = j \<and> xs = ys"
proof -
  have "''r'' @ digits i = ''r'' @ digits j
      \<and> butlast (parts (below xs)) @ [last (parts (below xs)) @ ''.dpp'']
          = butlast (parts (below ys)) @ [last (parts (below ys)) @ ''.dpp'']"
    using artifact_parts(1)[OF assms(1), of xs i] artifact_parts(1)[OF assms(1), of ys j] assms(2-)
    by simp
  moreover have "parts (below zs) \<noteq> []" for zs
    by (simp add: below_def)
  ultimately have "digits i = digits j" "parts (below xs) = parts (below ys)"
    using last_extended_inj by (blast, blast)
  then show ?thesis
    using digits_inj below_inj[OF assms(2,3)] by blast
qed

section \<open>The invariant\<close>

definition index_ok :: "plan \<Rightarrow> bool" where
  "index_ok p \<longleftrightarrow>
     (\<forall>s k. node_by_source p s = Some k \<longleftrightarrow> k < length (nodes p) \<and> n_source (nodes p ! k) = s)"

definition node_ok :: "host \<Rightarrow> plan \<Rightarrow> node \<Rightarrow> bool" where
  "node_ok h p n \<longleftrightarrow>
     settled h (n_source n) \<and> n_source n \<noteq> root_source p \<and> 1 \<le> n_depth n
     \<and> (mode p \<noteq> Recursive \<longrightarrow> n_depth n = 1)
     \<and> (\<exists>r \<in> set (roots p). \<exists>xs. parts (n_source n) = parts (fst r) @ xs
          \<and> n_root_id n = snd r \<and> n_artifact n = makeArtifactPath (bundle_at p) (snd r) (below xs))
     \<and> (\<exists>rel. relative_of h (n_artifact n) (bundle_at p) = Some rel
          \<and> n_relative n = lexically_normal rel)"

definition stats_ok :: "plan \<Rightarrow> bool" where
  "stats_ok p \<longleftrightarrow> selected_includes (plan_stats p) = length (edges p)
     \<and> redirected_root (plan_stats p) + redirected_header (plan_stats p) = length (edges p)"

definition plan_inv :: "host \<Rightarrow> plan \<Rightarrow> bool" where
  "plan_inv h p \<longleftrightarrow> roots_ok h p \<and> index_ok p \<and> (\<forall>n \<in> set (nodes p). node_ok h p n)
     \<and> (\<forall>e \<in> set (edges p). node_by_source p (e_child e) \<noteq> None) \<and> stats_ok p"

text \<open>What every operation leaves alone, and the order in which plans grow: the
  listed nodes stay, with their sources, artifacts and depths; edges are only
  appended; a failure and its reason are final.\<close>

definition identity_of :: "node \<Rightarrow> fspath \<times> fspath \<times> fspath \<times> nat \<times> nat" where
  "identity_of n = (n_source n, n_artifact n, n_relative n, n_depth n, n_root_id n)"

definition extends :: "plan \<Rightarrow> plan \<Rightarrow> bool" where
  "extends p q \<longleftrightarrow>
     root_source q = root_source p \<and> bundle_at q = bundle_at p \<and> mode q = mode p
     \<and> roots q = roots p
     \<and> (\<exists>ns. map identity_of (nodes q) = map identity_of (nodes p) @ ns)
     \<and> (\<exists>es. edges q = edges p @ es)
     \<and> (failed p \<longrightarrow> failed q \<and> failure_reason q = failure_reason p)"

lemma extends_refl [simp]: "extends p p"
  by (simp add: extends_def)

lemma extends_trans: "extends p q \<Longrightarrow> extends q r \<Longrightarrow> extends p r"
  by (auto simp: extends_def)

text \<open>A step that touches neither nodes, edges nor the two counters of edges.\<close>

definition inert :: "plan \<Rightarrow> plan \<Rightarrow> bool" where
  "inert p q \<longleftrightarrow>
     root_source q = root_source p \<and> bundle_at q = bundle_at p \<and> mode q = mode p
     \<and> roots q = roots p \<and> nodes q = nodes p \<and> node_by_source q = node_by_source p
     \<and> edges q = edges p
     \<and> selected_includes (plan_stats q) = selected_includes (plan_stats p)
     \<and> redirected_root (plan_stats q) = redirected_root (plan_stats p)
     \<and> redirected_header (plan_stats q) = redirected_header (plan_stats p)
     \<and> (failed p \<longrightarrow> failed q \<and> failure_reason q = failure_reason p)"

lemma inert_refl [simp]: "inert p p"
  by (simp add: inert_def)

lemma inert_trans: "inert p q \<Longrightarrow> inert q r \<Longrightarrow> inert p r"
  by (auto simp: inert_def)

lemma inert_extends: "inert p q \<Longrightarrow> extends p q"
  by (simp add: inert_def extends_def)

lemma node_ok_cong:
  "root_source q = root_source p \<Longrightarrow> bundle_at q = bundle_at p \<Longrightarrow> mode q = mode p \<Longrightarrow>
     roots q = roots p \<Longrightarrow> node_ok h q n = node_ok h p n"
  by (simp add: node_ok_def)

lemma inert_inv: "inert p q \<Longrightarrow> plan_inv h p \<Longrightarrow> plan_inv h q"
  by (auto simp: inert_def plan_inv_def roots_ok_def index_ok_def stats_ok_def node_ok_def)

lemma inert_fail [simp]: "inert p (fail why p)"
  by (simp add: inert_def fail_def)

lemma inert_refuse: "refuse why p = (d, q) \<Longrightarrow> inert p q \<and> \<not> redirect d \<and> failed q"
  by (auto simp: refuse_def Let_def fail_def inert_def split: if_splits)

lemma inert_bump [simp]:
  "inert p (bump (angle_ignored_update f) p)" "inert p (bump (macro_includes_update f) p)"
  "inert p (bump (quoted_seen_update f) p)" "inert p (bump (already_translated_update f) p)"
  "inert p (bump (missing_required_update f) p)" "inert p (bump (external_quoted_update f) p)"
  "inert p (bump (duplicates_update f) p)" "inert p (bump (cycles_update f) p)"
  by (simp_all add: inert_def bump_def)

lemma refuse_bump:
  "refuse why (bump (macro_includes_update f) p) = (d, q) \<Longrightarrow> inert p q \<and> \<not> redirect d"
  "refuse why (bump (missing_required_update f) p) = (d, q) \<Longrightarrow> inert p q \<and> \<not> redirect d"
  using inert_refuse[of why] inert_trans[OF inert_bump(2)] inert_trans[OF inert_bump(5)] by blast+

lemma inert_dependencies [simp]: "inert p (p\<lparr>dependencies := ds\<rparr>)"
  by (simp add: inert_def)

lemma inert_outside: "outside_root h i p = (d, q) \<Longrightarrow> inert p q \<and> \<not> redirect d"
  by (auto simp: outside_root_def Let_def no_decision_def dest: inert_refuse split: if_splits)

text \<open>The two ways an include is observed: nothing is selected, or a node is
  selected and the include redirected to it.\<close>

lemma observe_cases:
  assumes "observeInclude h i p = (d, q)"
  shows "inert p q \<and> \<not> redirect d
    \<or> (\<exists>p1 root rel k p2. inert p p1
        \<and> canonicalExisting h (i_resolved i) \<noteq> empty_path
        \<and> canonicalExisting h (i_resolved i) \<noteq> root_source p
        \<and> findEligibleRoot h p1 (canonicalExisting h (i_resolved i)) = Some (root, rel)
        \<and> (node_by_source p1 (canonicalExisting h (i_resolved i)) = None \<longrightarrow>
             i_depth i = 0 \<or> mode p = Recursive)
        \<and> select_node h (i_depth i) (canonicalExisting h (i_resolved i)) root rel p1 = Some (k, p2)
        \<and> redirect_to h i (canonicalExisting h (i_resolved i)) k p2 = (d, q))"
proof -
  define c where "c = (if i_resolved i \<noteq> empty_path then canonicalExisting h (i_resolved i)
                       else empty_path)"
  define p1 where "p1 = (if c \<noteq> empty_path
      then p\<lparr>dependencies := add_dependency c (dependencies p)\<rparr> else p)"
  define p2 where "p2 = bump (quoted_seen_update Suc) p1"
  have i1: "inert p p1"
    by (simp add: p1_def)
  have i2: "inert p p2"
    unfolding p2_def by (rule inert_trans[OF i1]) simp
  have m: "mode p1 = mode p" "root_source p2 = root_source p" "mode p2 = mode p"
    using i1 i2 by (simp_all add: inert_def)
  have inert2: "inert p2 x \<Longrightarrow> inert p x" "inert p1 x \<Longrightarrow> inert p x" for x
    using inert_trans i1 i2 by blast+
  note form = assms[unfolded observeInclude_def Let_def, folded c_def, folded p1_def, folded p2_def]
  show ?thesis
  proof (cases "mode p = Disabled \<or> i_angled i \<or> \<not> i_literal i \<or> endsWithDpp (i_spelling i)
      \<or> i_resolved i = empty_path \<or> rooted (to_path (i_spelling i)) \<or> c = empty_path
      \<or> endsWithDpp (generic_string c) \<or> c = root_source p2 \<or> isExcluded h p2 c
      \<or> findEligibleRoot h p2 c = None")
    case True
    have "inert p q \<and> \<not> redirect d"
      using form True
      by (auto simp: no_decision_def intro: inert2 dest!: refuse_bump
          dest: inert_refuse inert_outside split: if_splits)
    then show ?thesis ..
  next
    case False
    then obtain root rel where r: "findEligibleRoot h p2 c = Some (root, rel)"
      by auto
    have cc: "c = canonicalExisting h (i_resolved i)"
      using False by (auto simp: c_def)
    have step: "(if node_by_source p2 c = None \<and> i_depth i \<noteq> 0 \<and> mode p2 \<noteq> Recursive
           then (no_decision, p2)
           else case select_node h (i_depth i) c root rel p2 of
                 None \<Rightarrow> refuse (''cannot allocate local-header artifact path for: ''
                                 @ generic_string c) p2
               | Some (k, p) \<Rightarrow> redirect_to h i c k p) = (d, q)"
      using form False r by simp
    show ?thesis
    proof (cases "(node_by_source p2 c = None \<and> i_depth i \<noteq> 0 \<and> mode p2 \<noteq> Recursive)
        \<or> select_node h (i_depth i) c root rel p2 = None")
      case True
      then have "inert p2 q \<and> \<not> redirect d"
        using step by (auto simp: no_decision_def dest: inert_refuse split: if_splits)
      then show ?thesis
        using inert2 by blast
    next
      case go: False
      then obtain k p3 where s: "select_node h (i_depth i) c root rel p2 = Some (k, p3)"
        by auto
      have "redirect_to h i c k p3 = (d, q)"
        using step go s by auto
      then show ?thesis
        using i2 False r go s m unfolding cc[symmetric]
        by (intro disjI2 exI[of _ p2] exI[of _ root] exI[of _ rel] exI[of _ k] exI[of _ p3]) auto
    qed
  qed
qed

section \<open>Selecting and redirecting\<close>

lemma new_node_inv:
  assumes "plan_inv h p" and "node_by_source p c = None" and "settled h c"
    and "c \<noteq> root_source p" and "findEligibleRoot h p c = Some (root, rel)"
    and "dp = 0 \<or> mode p = Recursive"
    and "relative_of h (makeArtifactPath (bundle_at p) (snd root) rel) (bundle_at p) = Some a"
    and "q = p\<lparr>nodes := nodes p @
          [\<lparr>n_source = c, n_artifact = makeArtifactPath (bundle_at p) (snd root) rel,
            n_relative = lexically_normal a, n_depth = dp + 1, n_root_id = snd root,
            n_state = Discovered\<rparr>],
        node_by_source := (node_by_source p)(c \<mapsto> length (nodes p))\<rparr>"
  shows "plan_inv h q \<and> extends p q"
proof -
  have inv: "roots_ok h p" "index_ok p" "\<forall>n \<in> set (nodes p). node_ok h p n"
      "\<forall>e \<in> set (edges p). node_by_source p (e_child e) \<noteq> None" "stats_ok p"
    using assms(1) by (simp_all add: plan_inv_def)
  obtain xs where xs: "root \<in> set (roots p)" "parts c = parts (fst root) @ xs" "rel = below xs"
    using findEligibleRoot_below[OF assms(5,3) inv(1)] by auto
  have fresh: "\<forall>k < length (nodes p). n_source (nodes p ! k) \<noteq> c"
    using inv(2) assms(2) unfolding index_ok_def by (metis option.distinct(1))
  have q: "root_source q = root_source p" "bundle_at q = bundle_at p" "mode q = mode p"
      "roots q = roots p" "edges q = edges p" "plan_stats q = plan_stats p"
      "failed q = failed p" "failure_reason q = failure_reason p"
    using assms(8) by simp_all
  have "index_ok q"
    unfolding index_ok_def
  proof (intro allI)
    fix s k
    show "node_by_source q s = Some k \<longleftrightarrow> k < length (nodes q) \<and> n_source (nodes q ! k) = s"
    proof (cases "s = c")
      case True
      then show ?thesis
        using fresh assms(8) by (auto simp: nth_append less_Suc_eq)
    next
      case False
      then have "node_by_source q s = Some k \<longleftrightarrow> k < length (nodes p) \<and> n_source (nodes p ! k) = s"
        using inv(2) assms(8) by (simp add: index_ok_def)
      then show ?thesis
        using False assms(8) by (auto simp: nth_append less_Suc_eq)
    qed
  qed
  moreover have "node_ok h q n" if "n \<in> set (nodes p)" for n
    using that inv(3) node_ok_cong[OF q(1-4)] by blast
  moreover have "node_ok h q (nodes q ! length (nodes p))"
    using assms xs by (auto simp: node_ok_def)
  moreover have "set (nodes q) = insert (nodes q ! length (nodes p)) (set (nodes p))"
    using assms(8) by simp
  ultimately show ?thesis
    using inv q assms(8)
    by (auto simp: plan_inv_def roots_ok_def stats_ok_def extends_def)
qed

lemma select_node_inv:
  assumes "select_node h dp c root rel p = Some (k, q)" and "plan_inv h p" and "settled h c"
    and "c \<noteq> root_source p" and "findEligibleRoot h p c = Some (root, rel)"
    and "node_by_source p c = None \<longrightarrow> dp = 0 \<or> mode p = Recursive"
  shows "plan_inv h q \<and> extends p q \<and> node_by_source q c = Some k"
proof (cases "node_by_source p c")
  case None
  then obtain a where a: "relative_of h (makeArtifactPath (bundle_at p) (snd root) rel) (bundle_at p)
      = Some a" and k: "k = length (nodes p)"
    using assms(1) by (auto simp: select_node_def Let_def split: option.splits if_splits)
  have q: "q = p\<lparr>nodes := nodes p @
          [\<lparr>n_source = c, n_artifact = makeArtifactPath (bundle_at p) (snd root) rel,
            n_relative = lexically_normal a, n_depth = dp + 1, n_root_id = snd root,
            n_state = Discovered\<rparr>],
        node_by_source := (node_by_source p)(c \<mapsto> length (nodes p))\<rparr>"
    using assms(1) None a by (auto simp: select_node_def Let_def split: if_splits)
  show ?thesis
    using new_node_inv[OF assms(2) None assms(3,4,5) _ a q] assms(6) None k q by simp
next
  case (Some k')
  then have "inert p q \<and> k' = k"
    using assms(1) inert_trans[OF inert_bump(7) inert_bump(8)]
    by (auto simp: select_node_def Let_def split: if_splits)
  then show ?thesis
    using Some inert_inv[OF _ assms(2)] inert_extends by (auto simp: inert_def)
qed

lemma redirect_inv:
  assumes "redirect_to h i c k p = (d, q)" and "plan_inv h p" and "node_by_source p c = Some k"
  shows "plan_inv h q \<and> extends p q
    \<and> (redirect d \<longrightarrow> node_by_source q c = Some k \<and> length (edges q) = Suc (length (edges p)))"
proof (cases "makeRelativeInclude h (i_parent_artifact i) (n_artifact (nodes p ! k)) = empty_path")
  case True
  then have "inert p q \<and> \<not> redirect d"
    using assms(1) inert_refuse[of _ p d q] by (auto simp: redirect_to_def Let_def)
  then show ?thesis
    using assms(2) inert_inv inert_extends by blast
next
  case False
  then have q: "root_source q = root_source p" "bundle_at q = bundle_at p" "mode q = mode p"
      "roots q = roots p" "nodes q = nodes p" "node_by_source q = node_by_source p"
      "failed q = failed p" "failure_reason q = failure_reason p"
      "\<exists>e. edges q = edges p @ [e] \<and> e_child e = c"
      "selected_includes (plan_stats q) = Suc (selected_includes (plan_stats p))"
      "redirected_root (plan_stats q) + redirected_header (plan_stats q)
         = Suc (redirected_root (plan_stats p) + redirected_header (plan_stats p))"
    using assms(1) by (cases "i_depth i = 0"; auto simp: redirect_to_def Let_def bump_def)+
  then obtain e where e: "edges q = edges p @ [e]" "e_child e = c"
    by auto
  have n: "node_ok h q n = node_ok h p n" for n
    by (rule node_ok_cong[OF q(1-4)])
  have index: "index_ok q = index_ok p"
    using q(5,6) by (simp add: index_ok_def)
  show ?thesis
    using q(1-8,10-) e n assms(2,3) index
    by (simp add: plan_inv_def roots_ok_def stats_ok_def extends_def)
qed

lemma observe_inv:
  assumes "observeInclude h i p = (d, q)" and "sane_host h" and "plan_inv h p"
  shows "plan_inv h q \<and> extends p q
    \<and> (redirect d \<longrightarrow> node_by_source q (canonicalExisting h (i_resolved i)) \<noteq> None
         \<and> length (edges q) = Suc (length (edges p)))"
proof -
  define c where "c = canonicalExisting h (i_resolved i)"
  consider (quiet) "inert p q" "\<not> redirect d"
    | (chosen) p1 root rel k p2 where "inert p p1" "c \<noteq> empty_path" "c \<noteq> root_source p"
        "findEligibleRoot h p1 c = Some (root, rel)"
        "node_by_source p1 c = None \<longrightarrow> i_depth i = 0 \<or> mode p = Recursive"
        "select_node h (i_depth i) c root rel p1 = Some (k, p2)"
        "redirect_to h i c k p2 = (d, q)"
    using observe_cases[OF assms(1)] unfolding c_def[symmetric]
    by (elim disjE exE conjE) (rule that; assumption)+
  then show ?thesis
  proof cases
    case quiet
    then show ?thesis
      using inert_inv[OF _ assms(3)] inert_extends by blast
  next
    case chosen
    have s: "settled h c"
      using canonicalExisting_settled[OF assms(2)] chosen(2) by (simp add: c_def)
    have m: "mode p1 = mode p" "root_source p1 = root_source p" "edges p1 = edges p"
      using chosen(1) by (simp_all add: inert_def)
    have 1: "plan_inv h p2 \<and> extends p1 p2 \<and> node_by_source p2 c = Some k"
      using select_node_inv[OF chosen(6) inert_inv[OF chosen(1) assms(3)] s _ chosen(4)]
        chosen(3,5) m by simp
    have 2: "edges p2 = edges p1"
      using chosen(6) by (auto simp: select_node_def Let_def bump_def split: option.splits if_splits)
    show ?thesis
      using redirect_inv[OF chosen(7)] 1 2 m extends_trans inert_extends[OF chosen(1)]
      unfolding c_def[symmetric] by (metis option.distinct(1))
  qed
qed

section \<open>The contract of a plan operation\<close>

locale plan_operation =
  fixes f :: "host \<Rightarrow> plan \<Rightarrow> plan"
  assumes keeps: "sane_host h \<Longrightarrow> plan_inv h p \<Longrightarrow> plan_inv h (f h p)"
    and grows: "sane_host h \<Longrightarrow> plan_inv h p \<Longrightarrow> extends p (f h p)"
begin

lemma sticky:
  "sane_host h \<Longrightarrow> plan_inv h p \<Longrightarrow> failed p \<Longrightarrow>
     failed (f h p) \<and> failure_reason (f h p) = failure_reason p"
  using grows by (auto simp: extends_def)

lemma step: "sane_host h \<Longrightarrow> plan_inv h p \<Longrightarrow> plan_inv h (f h p) \<and> extends p (f h p)"
  using keeps grows by blast

end

lemma inert_operation:
  "(\<And>h p. inert p (f h p)) \<Longrightarrow> plan_operation f"
  by unfold_locales (auto intro: inert_inv inert_extends)

interpretation observe: plan_operation "\<lambda>h p. snd (observeInclude h i p)" for i
proof
  fix h p
  assume "sane_host h" and "plan_inv h p"
  then show "plan_inv h (snd (observeInclude h i p))" "extends p (snd (observeInclude h i p))"
    using observe_inv[OF prod.collapse[symmetric]] by blast+
qed

interpretation fail: plan_operation "\<lambda>_. fail why" for why
  by (rule inert_operation) simp

interpretation helper: plan_operation "\<lambda>h. requireInheritedHelperContext h path" for path
  by (rule inert_operation) (simp add: requireInheritedHelperContext_def inert_def)

interpretation source: plan_operation "\<lambda>h. requireInheritedSourceContext h path" for path
  by (rule inert_operation) (simp add: requireInheritedSourceContext_def inert_def)

interpretation retain: plan_operation "\<lambda>_. retainContextEvidence e inlined" for e inlined
  by (rule inert_operation) (simp add: retainContextEvidence_def inert_def)

interpretation verify: plan_operation "\<lambda>h p. snd (verifyContextInputs h p)"
  by (rule inert_operation) (simp add: verifyContextInputs_def Let_def split: option.splits)

interpretation isolate: plan_operation "\<lambda>h p. snd (validateArtifactIsolation h inplace p)" for inplace
  by (rule inert_operation) (auto simp: validateArtifactIsolation_def Let_def split: option.splits)

interpretation bound: plan_operation "\<lambda>h p. snd (requireKernelThreadBoundPolicy h b p)" for b
  by (rule inert_operation) (simp add: requireKernelThreadBoundPolicy_def inert_def fail_def)

lemma seal_inert: "inert p (snd (sealKernelThreadBoundPolicies h s a t applied p))"
  unfolding sealKernelThreadBoundPolicies_def Let_def
  by (auto simp: inert_def fail_def split: option.splits prod.splits bool.splits)

interpretation seal: plan_operation
  "\<lambda>h p. snd (sealKernelThreadBoundPolicies h s a t applied p)" for s a t applied
  by (rule inert_operation) (rule seal_inert)

lemma set_state_fields [simp]:
  "root_source (set_state k st p) = root_source p" "bundle_at (set_state k st p) = bundle_at p"
  "mode (set_state k st p) = mode p" "roots (set_state k st p) = roots p"
  "edges (set_state k st p) = edges p" "plan_stats (set_state k st p) = plan_stats p"
  "node_by_source (set_state k st p) = node_by_source p"
  "failed (set_state k st p) = failed p" "failure_reason (set_state k st p) = failure_reason p"
  "length (nodes (set_state k st p)) = length (nodes p)"
  by (simp_all add: set_state_def)

lemma set_state_nth:
  "j < length (nodes p) \<Longrightarrow> nodes (set_state k st p) ! j =
     (if j = k then (nodes p ! k)\<lparr>n_state := st\<rparr> else nodes p ! j)"
  by (simp add: set_state_def nth_list_update)

lemma identity_set_state [simp]:
  "map identity_of (nodes (set_state k st p)) = map identity_of (nodes p)"
  by (rule nth_equalityI) (auto simp: set_state_nth identity_of_def)

lemma set_state_inv: "plan_inv h p \<Longrightarrow> plan_inv h (set_state k st p)"
proof -
  assume inv: "plan_inv h p"
  have "node_ok h (set_state k st p) n" if "n \<in> set (nodes (set_state k st p))" for n
  proof -
    obtain j where j: "j < length (nodes p)" "n = nodes (set_state k st p) ! j"
      using \<open>n \<in> set _\<close> by (auto simp: in_set_conv_nth)
    have "node_ok h p (nodes p ! j)"
      using inv j(1) by (simp add: plan_inv_def)
    then show ?thesis
      using j by (auto simp: set_state_nth node_ok_def)
  qed
  moreover have "index_ok (set_state k st p)"
    using inv by (auto simp: plan_inv_def index_ok_def set_state_nth)
  ultimately show ?thesis
    using inv by (simp add: plan_inv_def roots_ok_def stats_ok_def)
qed

lemma set_state_extends: "extends p (set_state k st p)"
  by (simp add: extends_def)

interpretation translating: plan_operation "\<lambda>_. markTranslating k" for k
  by unfold_locales (simp_all add: markTranslating_def set_state_inv set_state_extends)

interpretation staged: plan_operation "\<lambda>_. markStaged k" for k
  by unfold_locales (simp_all add: markStaged_def set_state_inv set_state_extends)

interpretation mark_failed: plan_operation "\<lambda>_. markFailed k why" for k why
proof
  fix h p
  assume h: "sane_host h" and p: "plan_inv h p"
  show "plan_inv h (markFailed k why p)"
    unfolding markFailed_def by (rule fail.keeps[OF h set_state_inv[OF p]])
  show "extends p (markFailed k why p)"
    unfolding markFailed_def
    by (rule extends_trans[OF set_state_extends fail.grows[OF h set_state_inv[OF p]]])
qed

text \<open>Operations compose.\<close>

lemma operations_compose:
  assumes "plan_operation f" and "plan_operation g"
  shows "plan_operation (\<lambda>h p. g h (f h p))"
proof -
  note f = plan_operation.step[OF assms(1)] and g = plan_operation.step[OF assms(2)]
  show ?thesis
    by unfold_locales (use f g extends_trans in blast)+
qed

section \<open>A parse and its calls\<close>

text \<open>What a parse of one file (\<open>ascifySingleSource\<close>) does to the plan: a list of
  calls on it, in order.\<close>

datatype plan_call =
    Observe include_event
  | Inherit_helper fspath
  | Inherit_source fspath
  | Require_bound bound_policy
  | Refuse string

definition perform :: "plan_call \<Rightarrow> host \<Rightarrow> plan \<Rightarrow> plan" where
  "perform c h p =
     (case c of
        Observe i \<Rightarrow> snd (observeInclude h i p)
      | Inherit_helper path \<Rightarrow> requireInheritedHelperContext h path p
      | Inherit_source path \<Rightarrow> requireInheritedSourceContext h path p
      | Require_bound b \<Rightarrow> snd (requireKernelThreadBoundPolicy h b p)
      | Refuse why \<Rightarrow> fail why p)"

interpretation perform: plan_operation "perform c" for c
proof
  fix h p
  assume "sane_host h" and "plan_inv h p"
  then show "plan_inv h (perform c h p)" and "extends p (perform c h p)"
    using observe.step bound.step helper.step source.step fail.step
    by (auto simp: perform_def split: plan_call.splits)
qed

fun perform_all :: "plan_call list \<Rightarrow> host \<Rightarrow> plan \<Rightarrow> plan" where
  "perform_all [] h p = p"
| "perform_all (c # cs) h p = perform_all cs h (perform c h p)"

interpretation perform_all: plan_operation "perform_all cs" for cs
proof (induction cs)
  case Nil
  show ?case
    by unfold_locales simp_all
next
  case (Cons c cs)
  show ?case
    using operations_compose[OF perform.plan_operation_axioms Cons] by simp
qed

section \<open>A new plan\<close>

lemma number_roots_ids:
  "r \<in> set (number_roots n seen cs) \<Longrightarrow> n \<le> snd r \<and> fst r \<in> set cs \<and> fst r \<notin> set seen \<and> fst r \<noteq> empty_path"
  by (induction n seen cs rule: number_roots.induct) (auto split: if_splits)

lemma number_roots_distinct:
  "distinct (map fst (number_roots n seen cs)) \<and> distinct (map snd (number_roots n seen cs))"
proof (induction n seen cs rule: number_roots.induct)
  case (2 n seen c cs)
  then show ?case
    using number_roots_ids[of _ "Suc n" "c # seen" cs] by fastforce
qed simp

lemma new_plan_inv:
  assumes "sane_host h"
  shows "plan_inv h (new_plan h includes external src out headers m)"
proof -
  have "settled h c" if "c \<in> set (map (canonicalExisting h) xs)" "c \<noteq> empty_path" for c xs
    using that canonicalExisting_settled[OF assms] by auto
  then have "settled h (fst r)"
    if "r \<in> set (number_roots 0 [] (map (canonicalExisting h) xs))" for r xs
    using number_roots_ids[OF that] by blast
  then show ?thesis
    by (auto simp del: list.map(2) simp: new_plan_def Let_def fail_def plan_inv_def roots_ok_def index_ok_def
        stats_ok_def no_stats_def number_roots_distinct)
qed

end
