(* ===== verification/Closure_Loop.thy ===== *)
theory Closure_Loop
  imports Closure_Invariants
begin

text \<open>
  The translation loop of \<open>ascifySourceWithLocalHeaderClosure\<close>
  (\<open>src/LocalHeader.cpp\<close>): the discovered headers are translated one after the
  other, and each translation may discover more.  The translation of a file is a
  parameter: the calls it makes on the plan, whether it succeeded, and the
  kernel-bound policies it applied.  The loop is a partial function; that it
  returns is a theorem.
\<close>

type_synonym translator = "node \<Rightarrow> plan_call list \<times> bool \<times> policies"

(* Source: src/src/LocalHeader.cpp 1562-1596 ascifySourceWithLocalHeaderClosure (header loop) *)
partial_function (option) translate_headers ::
  "host \<Rightarrow> (fspath \<Rightarrow> bool) \<Rightarrow> translator \<Rightarrow> fspath \<Rightarrow> plan \<Rightarrow> plan option" where
  "translate_headers h mkdir tr staged p =
     (case nextDiscovered p of
        None \<Rightarrow> Some p
      | Some k \<Rightarrow>
          (let p = markTranslating k p;
               n = nodes p ! k;
               target = lexically_normal (path_append staged (n_relative n));
               calls = fst (tr n); ok = fst (snd (tr n)); applied = snd (snd (tr n))
           in if \<not> mkdir (lexically_normal (parent_path (path_append staged (n_relative n))))
              then Some (markFailed k ''cannot create staged header directory'' p)
              else
              let p = perform_all calls h p in
              if \<not> ok \<or> failed p
              then Some (markFailed k (''local-header translation failed: ''
                     @ generic_string (n_source n)
                     @ '' (standalone header parse; parent macro/declaration context is not replayed)'') p)
              else
              let r = sealKernelThreadBoundPolicies h (n_source n) (n_artifact n) target applied p in
              if \<not> fst r
              then Some (markFailed k ''kernel-bound selected-header annotation was not sealed'' (snd r))
              else translate_headers h mkdir tr staged (markStaged k (snd r))))"

section \<open>How far a plan is\<close>

lemma first_discovered_Some:
  "first_discovered j ns = Some k \<Longrightarrow>
     \<exists>m < length ns. k = j + m \<and> n_state (ns ! m) = Discovered"
proof (induction j ns rule: first_discovered.induct)
  case (2 j n ns)
  show ?case
  proof (cases "n_state n = Discovered")
    case True
    then show ?thesis
      using 2(2) by (intro exI[of _ 0]) simp
  next
    case False
    then obtain m where "m < length ns" "k = Suc j + m" "n_state (ns ! m) = Discovered"
      using 2 by auto
    then show ?thesis
      by (intro exI[of _ "Suc m"]) simp
  qed
qed simp

lemma first_discovered_None:
  "first_discovered j ns = None \<longleftrightarrow> (\<forall>n \<in> set ns. n_state n \<noteq> Discovered)"
  by (induction j ns rule: first_discovered.induct) auto

lemma nextDiscovered_Some:
  "nextDiscovered p = Some k \<Longrightarrow> k < length (nodes p) \<and> n_state (nodes p ! k) = Discovered"
  using first_discovered_Some[of 0] by (fastforce simp: nextDiscovered_def)

lemma nextDiscovered_None:
  "nextDiscovered p = None \<longleftrightarrow> (\<forall>n \<in> set (nodes p). n_state n \<noteq> Discovered)"
  by (simp add: nextDiscovered_def first_discovered_None)

definition handled :: "plan \<Rightarrow> nat" where
  "handled p = length (filter (\<lambda>n. n_state n \<noteq> Discovered) (nodes p))"

text \<open>A parse only appends discovered nodes, for headers it resolved.\<close>

definition resolved_by :: "host \<Rightarrow> plan_call \<Rightarrow> fspath set" where
  "resolved_by h c = (case c of Observe i \<Rightarrow> {canonicalExisting h (i_resolved i)} | _ \<Rightarrow> {})"

definition appends :: "fspath set \<Rightarrow> plan \<Rightarrow> plan \<Rightarrow> bool" where
  "appends U p q \<longleftrightarrow>
     (\<exists>ns. nodes q = nodes p @ ns \<and> (\<forall>n \<in> set ns. n_state n = Discovered \<and> n_source n \<in> U))"

lemma inert_appends: "inert p q \<Longrightarrow> appends U p q"
  by (simp add: inert_def appends_def)

lemma appends_trans: "appends U p q \<Longrightarrow> appends U q r \<Longrightarrow> appends U p r"
  by (auto simp: appends_def)

lemma appends_mono: "appends U p q \<Longrightarrow> U \<subseteq> V \<Longrightarrow> appends V p q"
  unfolding appends_def by blast

lemma redirect_nodes: "redirect_to h i c k p = (d, q) \<Longrightarrow> nodes q = nodes p"
  by (auto simp: redirect_to_def refuse_def fail_def bump_def Let_def split: if_splits)

lemma select_appends:
  "select_node h dp c root rel p = Some (k, q) \<Longrightarrow> appends {c} p q"
  by (auto simp: select_node_def appends_def bump_def Let_def split: option.splits if_splits)

lemma observe_appends:
  "appends {canonicalExisting h (i_resolved i)} p (snd (observeInclude h i p))"
proof -
  obtain d q where o: "observeInclude h i p = (d, q)"
    by fastforce
  from observe_cases[OF o] show ?thesis
  proof (elim disjE exE conjE)
    fix p1 root rel k p2
    assume "inert p p1"
      and s: "select_node h (i_depth i) (canonicalExisting h (i_resolved i)) root rel p1 = Some (k, p2)"
      and r: "redirect_to h i (canonicalExisting h (i_resolved i)) k p2 = (d, q)"
    then have "appends {canonicalExisting h (i_resolved i)} p p2"
      using appends_trans[OF inert_appends select_appends] by blast
    then show ?thesis
      using redirect_nodes[OF r] o by (simp add: appends_def)
  qed (simp add: o inert_appends)
qed

lemma perform_appends: "appends (resolved_by h c) p (perform c h p)"
proof (cases c)
  case (Observe i)
  then show ?thesis
    using observe_appends by (simp add: perform_def resolved_by_def)
qed (auto simp: perform_def resolved_by_def requireInheritedHelperContext_def inert_def fail_def
      requireInheritedSourceContext_def requireKernelThreadBoundPolicy_def intro!: inert_appends)

lemma perform_all_appends:
  "appends (\<Union> (resolved_by h ` set cs)) p (perform_all cs h p)"
proof (induction cs arbitrary: p)
  case Nil
  show ?case
    by (simp add: appends_def)
next
  case (Cons c cs)
  have "appends (resolved_by h c \<union> \<Union> (resolved_by h ` set cs)) p (perform c h p)"
    by (rule appends_mono[OF perform_appends]) blast
  moreover have "appends (resolved_by h c \<union> \<Union> (resolved_by h ` set cs))
      (perform c h p) (perform_all cs h (perform c h p))"
    by (rule appends_mono[OF Cons]) blast
  ultimately show ?case
    using appends_trans by auto
qed

lemma seal_nodes: "nodes (snd (sealKernelThreadBoundPolicies h s a t applied p)) = nodes p"
  using seal_inert[of p h s a t applied] by (simp add: inert_def)

section \<open>Termination\<close>

lemma distinct_sources:
  assumes "plan_inv h p"
  shows "distinct (map n_source (nodes p))"
proof -
  have "index_ok p"
    using assms by (simp add: plan_inv_def)
  then have "k = l" if "k < length (nodes p)" "l < length (nodes p)"
      "n_source (nodes p ! k) = n_source (nodes p ! l)" for k l
    using that unfolding index_ok_def by (metis option.inject)
  then show ?thesis
    by (auto simp: distinct_conv_nth)
qed

lemma handled_bound:
  assumes "plan_inv h p" and "finite U" and "n_source ` set (nodes p) \<subseteq> U"
  shows "handled p \<le> card U"
proof -
  have "handled p \<le> length (nodes p)"
    by (simp add: handled_def)
  also have "\<dots> = card (n_source ` set (nodes p))"
    using distinct_card[OF distinct_sources[OF assms(1)]] by simp
  also have "\<dots> \<le> card U"
    by (rule card_mono[OF assms(2,3)])
  finally show ?thesis .
qed

lemma length_filter_update:
  "k < length xs \<Longrightarrow>
     length (filter P (xs[k := y])) + (if P (xs ! k) then 1 else 0)
       = length (filter P xs) + (if P y then 1 else (0 :: nat))"
proof (induction xs arbitrary: k)
  case (Cons x xs)
  then show ?case
    by (cases k) auto
qed simp

lemma handled_set_state:
  assumes "k < length (nodes p)" and "n_state (nodes p ! k) = Discovered" and "st \<noteq> Discovered"
  shows "handled (set_state k st p) = Suc (handled p)"
  using length_filter_update[OF assms(1), of "\<lambda>n. n_state n \<noteq> Discovered"
      "(nodes p ! k)\<lparr>n_state := st\<rparr>"] assms
  by (simp add: handled_def set_state_def)

lemma handled_appends: "appends U p q \<Longrightarrow> handled q = handled p"
  by (auto simp: appends_def handled_def filter_empty_conv)

lemma handled_set_state_again:
  assumes "k < length (nodes p)" and "n_state (nodes p ! k) \<noteq> Discovered" and "st \<noteq> Discovered"
  shows "handled (set_state k st p) = handled p"
  using length_filter_update[OF assms(1), of "\<lambda>n. n_state n \<noteq> Discovered"
      "(nodes p ! k)\<lparr>n_state := st\<rparr>"] assms
  by (simp add: handled_def set_state_def)

definition only_settled_states :: "plan \<Rightarrow> bool" where
  "only_settled_states p \<longleftrightarrow> (\<forall>n \<in> set (nodes p). n_state n = Discovered \<or> n_state n = Staged)"

text \<open>What the loop may assume of its plan: the invariant, only headers of a given
  set, and no node half way.\<close>

definition ready_plan :: "host \<Rightarrow> fspath set \<Rightarrow> plan \<Rightarrow> bool" where
  "ready_plan h U p \<longleftrightarrow> plan_inv h p \<and> n_source ` set (nodes p) \<subseteq> U \<and> only_settled_states p"

lemma markFailed_failed [simp]: "failed (markFailed k why p)"
  by (simp add: markFailed_def fail_def)

text \<open>One iteration stops with a failure, or stages the node and goes on.\<close>

lemma iteration:
  assumes k: "nextDiscovered p = Some k" and h: "sane_host h" and p: "ready_plan h U p"
    and tr: "\<And>n c. c \<in> set (fst (tr n)) \<Longrightarrow> resolved_by h c \<subseteq> U"
  obtains q where "translate_headers h mkdir tr staged p = Some q" "failed q" "plan_inv h q"
      "extends p q"
    | q where "translate_headers h mkdir tr staged p = translate_headers h mkdir tr staged q"
      "ready_plan h U q" "extends p q" "handled q = Suc (handled p)"
proof -
  have kp: "k < length (nodes p)" "n_state (nodes p ! k) = Discovered"
    using nextDiscovered_Some[OF k] by auto
  define p1 where "p1 = markTranslating k p"
  define n where "n = nodes p1 ! k"
  define target where "target = lexically_normal (path_append staged (n_relative n))"
  define p2 where "p2 = perform_all (fst (tr n)) h p1"
  define r where "r = sealKernelThreadBoundPolicies h (n_source n) (n_artifact n) target
                        (snd (snd (tr n))) p2"
  define p3 where "p3 = snd r"
  have ip: "plan_inv h p"
    using p by (simp add: ready_plan_def)
  have 1: "plan_inv h p1 \<and> extends p p1"
    unfolding p1_def by (rule translating.step[OF h ip])
  have 2: "plan_inv h p2 \<and> extends p p2"
    using perform_all.step[OF h, of p1 "fst (tr n)"] 1 extends_trans unfolding p2_def by blast
  have 3: "plan_inv h p3 \<and> extends p p3"
    using seal.step[OF h, of p2] 2 extends_trans unfolding p3_def r_def by blast
  have fail: "plan_inv h (markFailed k why x) \<and> extends p (markFailed k why x)"
    if "plan_inv h x \<and> extends p x" for why x
    using mark_failed.step[OF h] that extends_trans by blast
  have unfolded: "translate_headers h mkdir tr staged p =
     (if \<not> mkdir (lexically_normal (parent_path (path_append staged (n_relative n))))
      then Some (markFailed k ''cannot create staged header directory'' p1)
      else if \<not> fst (snd (tr n)) \<or> failed p2
      then Some (markFailed k (''local-header translation failed: '' @ generic_string (n_source n)
             @ '' (standalone header parse; parent macro/declaration context is not replayed)'') p2)
      else if \<not> fst r
      then Some (markFailed k ''kernel-bound selected-header annotation was not sealed'' p3)
      else translate_headers h mkdir tr staged (markStaged k p3))"
    by (subst translate_headers.simps)
      (simp only: k option.case Let_def p1_def[symmetric] n_def[symmetric] target_def[symmetric]
        p2_def[symmetric] r_def[symmetric] p3_def[symmetric])
  show thesis
  proof (cases "\<not> mkdir (lexically_normal (parent_path (path_append staged (n_relative n)))) \<or> \<not> fst (snd (tr n)) \<or> failed p2 \<or> \<not> fst r")
    case True
    then obtain why x where "translate_headers h mkdir tr staged p = Some (markFailed k why x)"
        "plan_inv h x \<and> extends p x"
      using unfolded 1 2 3 by (metis (full_types))
    then show thesis
      using that(1) fail by (metis markFailed_failed)
  next
    case False
    define q where "q = markStaged k p3"
    have go: "translate_headers h mkdir tr staged p = translate_headers h mkdir tr staged q"
      using unfolded False by (simp add: q_def)
    have q: "plan_inv h q" "extends p q"
      using staged.step[OF h, of p3] 3 extends_trans unfolding q_def by blast+
    have U: "\<Union> (resolved_by h ` set (fst (tr n))) \<subseteq> U"
      using tr by blast
    have "appends U p1 p2"
      unfolding p2_def by (rule appends_mono[OF perform_all_appends U])
    moreover have "nodes p3 = nodes p2"
      unfolding p3_def r_def by (rule seal_nodes)
    ultimately obtain ns where ns: "nodes p3 = nodes p1 @ ns"
        "\<forall>m \<in> set ns. n_state m = Discovered \<and> n_source m \<in> U"
      by (auto simp: appends_def)
    have n1: "nodes p1 = (nodes p)[k := (nodes p ! k)\<lparr>n_state := Translating\<rparr>]"
      by (simp add: p1_def markTranslating_def set_state_def)
    have qn: "nodes q = (nodes p)[k := (nodes p ! k)\<lparr>n_state := Staged\<rparr>] @ ns"
      using kp(1) by (simp add: q_def markStaged_def set_state_def ns(1) n1 nth_append list_update_append)
    have old: "n_source x \<in> U \<and> (n_state x = Discovered \<or> n_state x = Staged)"
      if "x \<in> set (nodes p)" for x
      using that p by (auto simp: ready_plan_def only_settled_states_def)
    have "x = (nodes p ! k)\<lparr>n_state := Staged\<rparr> \<or> x \<in> set (nodes p) \<or> x \<in> set ns"
      if "x \<in> set (nodes q)" for x
      using that set_update_subset_insert[of "nodes p" k "(nodes p ! k)\<lparr>n_state := Staged\<rparr>"]
      unfolding qn set_append by blast
    then have "n_source x \<in> U \<and> (n_state x = Discovered \<or> n_state x = Staged)"
      if "x \<in> set (nodes q)" for x
      using that old[of x] old[of "nodes p ! k"] nth_mem[OF kp(1)] ns(2) by force
    then have "n_source ` set (nodes q) \<subseteq> U" "only_settled_states q"
      by (auto simp: only_settled_states_def)
    moreover have "handled q = Suc (handled p)"
      using length_filter_update[OF kp(1), of "\<lambda>n. n_state n \<noteq> Discovered"
          "(nodes p ! k)\<lparr>n_state := Staged\<rparr>"] kp(2) ns(2)
      by (simp add: handled_def qn filter_False)
    ultimately show thesis
      using that(2)[OF go] q by (simp add: ready_plan_def)
  qed
qed

lemma loop_returns:
  assumes h: "sane_host h" and "ready_plan h U p" and "finite U"
    and tr: "\<And>n c. c \<in> set (fst (tr n)) \<Longrightarrow> resolved_by h c \<subseteq> U"
  shows "\<exists>q. translate_headers h mkdir tr staged p = Some q \<and> plan_inv h q \<and> extends p q
    \<and> (failed q \<or> (\<forall>n \<in> set (nodes q). n_state n = Staged))"
  using assms(2)
proof (induction "card U - handled p" arbitrary: p rule: less_induct)
  case less
  show ?case
  proof (cases "nextDiscovered p")
    case None
    then have "translate_headers h mkdir tr staged p = Some p"
      by (subst translate_headers.simps) simp
    moreover have "\<forall>n \<in> set (nodes p). n_state n = Staged"
      using None less(2) by (auto simp: nextDiscovered_None ready_plan_def only_settled_states_def)
    ultimately show ?thesis
      using less(2) by (simp add: ready_plan_def)
  next
    case (Some k)
    consider (stops) q where "translate_headers h mkdir tr staged p = Some q" "failed q"
        "plan_inv h q" "extends p q"
      | (goes_on) q where
        "translate_headers h mkdir tr staged p = translate_headers h mkdir tr staged q"
        "ready_plan h U q" "extends p q" "handled q = Suc (handled p)"
      by (rule iteration[OF Some h less(2) tr])
    then show ?thesis
    proof cases
      case stops
      then show ?thesis
        by blast
    next
      case goes_on
      have "handled q \<le> card U"
        using handled_bound[of h q U] assms(3) goes_on(2) by (simp add: ready_plan_def)
      then have "card U - handled q < card U - handled p"
        using goes_on(4) by simp
      then show ?thesis
        using less(1)[OF _ goes_on(2)] goes_on(1,3) extends_trans by metis
    qed
  qed
qed

end
