(* ===== verification/Closure_Publish.thy ===== *)
theory Closure_Publish
  imports Closure_Checks
begin

text \<open>
  The publication transaction of \<open>src/LocalHeader.cpp\<close> (\<open>publishClosure\<close> and the
  functions under it): the existing outputs are moved aside, the staged ones
  moved into place, and every failure is rolled back.

  The disk maps the paths of the transaction to what they hold; a directory is
  held with its tree.  Each call to the operating system takes the next item of
  the disk's luck: it may fail, and a failed removal of a directory may leave
  any part of it behind.  An exhausted list means no more faults.  Diagnostics
  are not modelled.
\<close>

section \<open>The disk\<close>

datatype entry = File string | Link | Dir "(string \<times> entry) list"

datatype luck = Works | Fails | Fails_midway "(string \<times> entry) list"

record disk =
  entries :: "string \<Rightarrow> entry option"
  lucks :: "luck list"

definition draw :: "disk \<Rightarrow> luck \<times> disk" where
  "draw d = (case lucks d of [] \<Rightarrow> (Works, d) | l # ls \<Rightarrow> (l, d\<lparr>lucks := ls\<rparr>))"

definition put :: "string \<Rightarrow> entry option \<Rightarrow> disk \<Rightarrow> disk" where
  "put p e d = d\<lparr>entries := (entries d)(p := e)\<rparr>"

definition is_dir :: "entry option \<Rightarrow> bool" where
  "is_dir e = (case e of Some (Dir _) \<Rightarrow> True | _ \<Rightarrow> False)"

text \<open>What \<open>rename\<close> requires of its two paths.\<close>

definition renameable :: "entry option \<Rightarrow> entry option \<Rightarrow> bool" where
  "renameable a b =
     (case a of None \<Rightarrow> False
      | Some x \<Rightarrow>
          (case b of None \<Rightarrow> True
           | Some (Dir es) \<Rightarrow> is_dir (Some x) \<and> es = []
           | Some _ \<Rightarrow> \<not> is_dir (Some x)))"

definition can_rename :: "disk \<Rightarrow> string \<Rightarrow> string \<Rightarrow> bool" where
  "can_rename d from to = renameable (entries d from) (entries d to)"

section \<open>Ownership of an existing bundle\<close>

definition child :: "string \<Rightarrow> entry \<Rightarrow> entry option" where
  "child n e = (case e of Dir es \<Rightarrow> map_of es n | _ \<Rightarrow> None)"

text \<open>The files of a tree with their relative paths, in iteration order.\<close>

fun leaves :: "string \<Rightarrow> entry \<Rightarrow> (string \<times> entry) list"
  and leaves_of :: "string \<Rightarrow> (string \<times> entry) list \<Rightarrow> (string \<times> entry) list" where
  "leaves path (Dir es) = leaves_of path es"
| "leaves path e = [(path, e)]"
| "leaves_of path [] = []"
| "leaves_of path ((n, e) # es) = leaves (path @ ''/'' @ n) e @ leaves_of path es"

fun split_lines :: "string \<Rightarrow> string list" where
  "split_lines [] = []"
| "split_lines (c # cs) =
     (if c = CHR ''\<newline>'' then [] # split_lines cs
      else case split_lines cs of
             [] \<Rightarrow> [[c]]
           | l # ls \<Rightarrow> (c # l) # ls)"

definition starts_with :: "string \<Rightarrow> string \<Rightarrow> bool" where
  "starts_with t s = (take (length t) s = t)"

definition is_hex_digest :: "string \<Rightarrow> bool" where
  "is_hex_digest s = (length s = 64 \<and> (\<forall>c \<in> set s. c \<in> set ''0123456789abcdef''))"

definition text_before :: "char \<Rightarrow> string \<Rightarrow> string" where
  "text_before c s = takeWhile (\<lambda>x. x \<noteq> c) s"

definition text_after :: "char \<Rightarrow> string \<Rightarrow> string" where
  "text_after c s = drop 1 (dropWhile (\<lambda>x. x \<noteq> c) s)"

text \<open>The device artifacts a marker lists: None when a line is malformed or a
  path is listed twice.\<close>

fun listed_artifacts :: "string list \<Rightarrow> (string \<times> string) list \<Rightarrow> (string \<times> string) list option" where
  "listed_artifacts [] acc = Some acc"
| "listed_artifacts (l # ls) acc =
     (if \<not> starts_with ''device_artifact='' l then listed_artifacts ls acc
      else if CHR 0x09 \<notin> set l then None
      else
      let name = drop 16 (text_before (CHR 0x09) l); digest = text_after (CHR 0x09) l in
      if \<not> starts_with ''.ascify-device/'' name \<or> rooted (to_path name)
         \<or> generic_string (lexically_normal (to_path name)) \<noteq> name
         \<or> \<not> is_hex_digest digest \<or> name \<in> fst ` set acc
         \<or> ''..'' \<in> set (parts (to_path name))
      then None
      else listed_artifacts ls ((name, digest) # acc))"

(* Source: src/src/LocalHeader.cpp 148-192 ownedBundle *)
definition ownedBundle :: "(string \<Rightarrow> string) \<Rightarrow> entry option \<Rightarrow> bool" where
  "ownedBundle sha256 e =
     (case e of
        Some (Dir es) \<Rightarrow>
          (case child ''.ascify-local-closure'' (Dir es) of
             Some (File content) \<Rightarrow>
               starts_with (''schema=1'' @ [CHR ''\<newline>'']) content
               \<and> (case listed_artifacts (split_lines content) [] of
                    None \<Rightarrow> False
                  | Some expected \<Rightarrow>
                      (case child ''.ascify-device'' (Dir es) of
                         None \<Rightarrow> expected = []
                       | Some (Dir device) \<Rightarrow>
                           expected \<noteq> []
                           \<and> (\<forall>(n, x) \<in> set (leaves ''.ascify-device'' (Dir device)).
                                case x of File bytes \<Rightarrow> map_of expected n = Some (sha256 bytes)
                                | _ \<Rightarrow> False)
                           \<and> card (fst ` set (leaves ''.ascify-device'' (Dir device)))
                               = length expected
                       | Some _ \<Rightarrow> False))
           | _ \<Rightarrow> False)
      | _ \<Rightarrow> False)"

section \<open>Checked operations\<close>

text \<open>None is an error of the inspection itself.\<close>

(* Source: src/src/LocalHeader.cpp 194-211 inspectPath *)
definition inspectPath :: "string \<Rightarrow> disk \<Rightarrow> entry option option \<times> disk" where
  "inspectPath p d =
     (let (l, d) = draw d in (if l = Works then Some (entries d p) else None, d))"

(* Source: src/src/LocalHeader.cpp 213-224 renameChecked *)
definition renameChecked :: "string \<Rightarrow> string \<Rightarrow> disk \<Rightarrow> bool \<times> disk" where
  "renameChecked from to d =
     (let (l, d) = draw d
      in if l = Works \<and> can_rename d from to
         then (True, put to (entries d from) (put from None d))
         else (False, d))"

(* Source: src/src/LocalHeader.cpp 226-249 removeExactChecked *)
definition removeExactChecked :: "string \<Rightarrow> disk \<Rightarrow> bool \<times> disk" where
  "removeExactChecked p d =
     (case inspectPath p d of
        (None, d) \<Rightarrow> (False, d)
      | (Some None, d) \<Rightarrow> (True, d)
      | (Some (Some x), d) \<Rightarrow>
          (case draw d of
             (Works, d) \<Rightarrow> (True, put p None d)
           | (Fails, d) \<Rightarrow> (False, d)
           | (Fails_midway rest, d) \<Rightarrow>
               (False, if is_dir (Some x) then put p (Some (Dir rest)) d else d)))"

text \<open>The backup of a path that was moved aside; None for an empty name.\<close>

definition backup_of :: "string \<Rightarrow> string" where
  "backup_of p = p @ ''.ascify-backup''"

(* Source: src/src/LocalHeader.cpp 251-273 moveAside *)
definition moveAside :: "string \<Rightarrow> disk \<Rightarrow> bool \<times> string option \<times> disk" where
  "moveAside p d =
     (case inspectPath p d of
        (None, d) \<Rightarrow> (False, None, d)
      | (Some None, d) \<Rightarrow> (True, None, d)
      | (Some (Some _), d) \<Rightarrow>
          (case inspectPath (backup_of p) d of
             (None, d) \<Rightarrow> (False, Some (backup_of p), d)
           | (Some (Some _), d) \<Rightarrow> (False, Some (backup_of p), d)
           | (Some None, d) \<Rightarrow>
               (let (ok, d) = renameChecked p (backup_of p) d in (ok, Some (backup_of p), d))))"

(* Source: src/src/LocalHeader.cpp 275-292 retryRollbackRemove *)
definition retryRollbackRemove :: "string \<Rightarrow> disk \<Rightarrow> bool \<times> disk" where
  "retryRollbackRemove p d =
     (let (ok, d) = removeExactChecked p d in if ok then (True, d) else removeExactChecked p d)"

(* Source: src/src/LocalHeader.cpp 294-311 retryRollbackRename *)
definition retryRollbackRename :: "string \<Rightarrow> string \<Rightarrow> disk \<Rightarrow> bool \<times> disk" where
  "retryRollbackRename backup p d =
     (let (ok, d) = renameChecked backup p d in if ok then (True, d) else renameChecked backup p d)"

(* Source: src/src/LocalHeader.cpp 313-336 restoreBackup *)
definition restoreBackup :: "string \<Rightarrow> string option \<Rightarrow> disk \<Rightarrow> bool \<times> disk" where
  "restoreBackup p backup d =
     (let (ok, d) = retryRollbackRemove p d in
      if \<not> ok then (False, d) else
      case backup of None \<Rightarrow> (True, d)
      | Some b \<Rightarrow>
          (let (ok, d) = retryRollbackRename b p d in
           if \<not> ok then (False, d) else
           case inspectPath p d of
             (None, d) \<Rightarrow> (False, d)
           | (Some restored, d) \<Rightarrow>
               (case inspectPath b d of
                  (None, d) \<Rightarrow> (False, d)
                | (Some left, d) \<Rightarrow> (restored \<noteq> None \<and> left = None, d))))"

(* Source: src/src/LocalHeader.cpp 338-343 removeBackup *)
definition removeBackup :: "string option \<Rightarrow> disk \<Rightarrow> bool \<times> disk" where
  "removeBackup backup d =
     (case backup of None \<Rightarrow> (True, d) | Some b \<Rightarrow> removeExactChecked b d)"

(* Source: src/src/LocalHeader.cpp 345-362 reportRollback *)
definition reportRollback :: "string \<Rightarrow> string option \<Rightarrow> string \<Rightarrow> string option \<Rightarrow> disk \<Rightarrow> bool \<times> disk"
where
  "reportRollback root rootBackup bundl bundleBackup d =
     (let (b, d) = restoreBackup bundl bundleBackup d;
          (r, d) = restoreBackup root rootBackup d
      in (b \<and> r, d))"

section \<open>The transaction\<close>

(* Source: src/src/LocalHeader.cpp 422-454 publishClosure (publication and commit) *)
definition publish_staged :: "string \<Rightarrow> string \<Rightarrow> string \<Rightarrow> string \<Rightarrow> bool \<Rightarrow> string option \<Rightarrow> string option
    \<Rightarrow> disk \<Rightarrow> bool \<times> disk" where
  "publish_staged stagedRoot stagedBundle root bundl hasHeaders rootBackup bundleBackup d =
     (let (ok, d) = (if hasHeaders then renameChecked stagedBundle bundl d else (True, d)) in
      if \<not> ok then (False, snd (reportRollback root rootBackup bundl bundleBackup d)) else
      let (ok, d) = renameChecked stagedRoot root d in
      if \<not> ok then (False, snd (reportRollback root rootBackup bundl bundleBackup d)) else
      let (ok, d) = removeBackup rootBackup d in
      if \<not> ok then (False, d) else removeBackup bundleBackup d)"

(* Source: src/src/LocalHeader.cpp 364-421 publishClosure *)
definition publishClosure :: "(string \<Rightarrow> string) \<Rightarrow> string \<Rightarrow> string \<Rightarrow> string \<Rightarrow> string \<Rightarrow> bool
    \<Rightarrow> disk \<Rightarrow> bool \<times> disk" where
  "publishClosure sha256 stagedRoot stagedBundle root bundl hasHeaders d =
     (let (l, d) = draw d;
          owned = (l = Works \<and> ownedBundle sha256 (entries d bundl))
      in case inspectPath root d of
        (None, d) \<Rightarrow> (False, d)
      | (Some rootEntry, d) \<Rightarrow>
      if rootEntry = Some Link \<or> is_dir rootEntry then (False, d)
      else case inspectPath bundl d of
        (None, d) \<Rightarrow> (False, d)
      | (Some bundleEntry, d) \<Rightarrow>
      if hasHeaders \<and> bundleEntry \<noteq> None \<and> \<not> owned then (False, d) else
      let (ok, bundleBackup, d) =
            (if hasHeaders \<or> owned then moveAside bundl d else (True, None, d))
      in if \<not> ok then (False, d) else
      let (ok, rootBackup, d) = moveAside root d in
      if \<not> ok then (False, snd (restoreBackup bundl bundleBackup d))
      else publish_staged stagedRoot stagedBundle root bundl hasHeaders rootBackup bundleBackup d)"

end
