(* ===== verification/Publish_Atomic.thy ===== *)
theory Publish_Atomic
  imports Closure_Publish
begin

text \<open>
  The publication is atomic: with at most one fault of the operating system,
  anywhere, both outputs are the old ones or both are the new ones.  The proof
  counts the faults still to come: an operation that fails without a reason of
  its own uses one up, and every step of a rollback is tried twice.
\<close>

section \<open>Faults\<close>

definition faults :: "disk \<Rightarrow> nat" where
  "faults d = length (filter (\<lambda>l. l \<noteq> Works) (lucks d))"

lemma draw_spec:
  "draw d = (l, e) \<Longrightarrow> entries e = entries d \<and> faults e + (if l = Works then 0 else 1) = faults d"
  by (auto simp: draw_def faults_def split: list.splits)

lemma faults_put [simp]: "faults (put p e d) = faults d"
  by (simp add: faults_def put_def)

lemma entries_put [simp]: "entries (put p e d) = (entries d)(p := e)"
  by (simp add: put_def)

lemma inspect_spec:
  "inspectPath p d = (r, e) \<Longrightarrow> entries e = entries d \<and>
     (case r of None \<Rightarrow> faults e < faults d | Some x \<Rightarrow> x = entries d p \<and> faults e \<le> faults d)"
  by (auto simp: inspectPath_def Let_def dest!: draw_spec split: prod.splits if_splits)

lemma rename_spec:
  "renameChecked a b d = (ok, e) \<Longrightarrow>
     (if ok then entries e = (entries d)(a := None, b := entries d a) \<and> can_rename d a b
                 \<and> faults e \<le> faults d
      else entries e = entries d \<and> faults e \<le> faults d
           \<and> (faults e < faults d \<or> \<not> can_rename d a b))"
  by (auto simp: renameChecked_def Let_def can_rename_def dest!: draw_spec split: prod.splits if_splits)

lemma remove_spec:
  assumes "removeExactChecked p d = (ok, e)"
  shows "if ok then entries e = (entries d)(p := None) \<and> faults e \<le> faults d
    else (\<exists>x. entries e = (entries d)(p := x)) \<and> faults e < faults d"
proof -
  obtain r d1 where i: "inspectPath p d = (r, d1)"
    by fastforce
  obtain l d2 where l: "draw d1 = (l, d2)"
    by fastforce
  show ?thesis
    using assms inspect_spec[OF i] draw_spec[OF l]
    by (cases l) (auto simp: removeExactChecked_def i l fun_upd_idem
        intro: exI[of _ "entries d p"] split: option.splits if_splits)
qed

lemma retry_remove_spec:
  assumes "retryRollbackRemove p d = (ok, e)" and "faults d \<le> 1"
  shows "ok \<and> entries e = (entries d)(p := None) \<and> faults e \<le> faults d"
proof -
  obtain o1 d1 where 1: "removeExactChecked p d = (o1, d1)"
    by fastforce
  obtain o2 d2 where 2: "removeExactChecked p d1 = (o2, d2)"
    by fastforce
  show ?thesis
    using assms remove_spec[OF 1] remove_spec[OF 2]
    by (auto simp: retryRollbackRemove_def 1 2 split: if_splits)
qed

lemma retry_rename_spec:
  assumes "retryRollbackRename b p d = (ok, e)" and "faults d \<le> 1" and "can_rename d b p"
  shows "ok \<and> entries e = (entries d)(b := None, p := entries d b) \<and> faults e \<le> faults d"
proof -
  obtain o1 d1 where 1: "renameChecked b p d = (o1, d1)"
    by fastforce
  obtain o2 d2 where 2: "renameChecked b p d1 = (o2, d2)"
    by fastforce
  have "entries d1 = entries d \<Longrightarrow> can_rename d1 b p = can_rename d b p"
    by (simp add: can_rename_def)
  then show ?thesis
    using assms rename_spec[OF 1] rename_spec[OF 2]
    by (auto simp: retryRollbackRename_def 1 2 split: if_splits)
qed

text \<open>A rollback puts the backup back, or removes what was not there before.\<close>

lemma restore_spec:
  assumes "restoreBackup p b d = (ok, e)" and "faults d \<le> 1"
    and "\<And>q. b = Some q \<Longrightarrow> q \<noteq> p \<and> entries d q \<noteq> None"
  shows "entries e = (case b of None \<Rightarrow> (entries d)(p := None)
                      | Some q \<Rightarrow> (entries d)(p := entries d q, q := None))
    \<and> faults e \<le> faults d"
proof -
  obtain o1 d1 where 1: "retryRollbackRemove p d = (o1, d1)"
    by fastforce
  have r: "o1" "entries d1 = (entries d)(p := None)" "faults d1 \<le> faults d"
    using retry_remove_spec[OF 1 assms(2)] by auto
  show ?thesis
  proof (cases b)
    case None
    then show ?thesis
      using assms(1) r by (auto simp: restoreBackup_def 1)
  next
    case (Some q)
    then have q: "q \<noteq> p" "entries d q \<noteq> None"
      using assms(3) by auto
    obtain o2 d2 where 2: "retryRollbackRename q p d1 = (o2, d2)"
      by fastforce
    have "can_rename d1 q p"
      using r(2) q by (auto simp: can_rename_def renameable_def split: option.splits)
    then have s: "o2" "entries d2 = (entries d1)(q := None, p := entries d1 q)" "faults d2 \<le> faults d1"
      using retry_rename_spec[OF 2] r(3) assms(2) by auto
    have "entries e = entries d2 \<and> faults e \<le> faults d2"
      using assms(1) r(1) s(1)
      by (auto simp: restoreBackup_def Some 1 2 split: prod.splits option.splits dest!: inspect_spec)
    then show ?thesis
      using s r q by (auto simp: Some fun_upd_twist)
  qed
qed

text \<open>Moving a path aside: it is absent, or it becomes its backup, or nothing changes.\<close>

lemma moveAside_spec:
  assumes "moveAside p d = (ok, b, e)"
  shows "faults e \<le> faults d \<and>
    (if \<not> ok then entries e = entries d
     else case b of
       None \<Rightarrow> entries d p = None \<and> entries e = entries d
     | Some q \<Rightarrow> q = backup_of p \<and> entries d p \<noteq> None \<and> entries d q = None
         \<and> entries e = (entries d)(p := None, q := entries d p))"
proof -
  obtain r d1 where 1: "inspectPath p d = (r, d1)"
    by fastforce
  obtain r2 d2 where 2: "inspectPath (backup_of p) d1 = (r2, d2)"
    by fastforce
  obtain o3 d3 where 3: "renameChecked p (backup_of p) d2 = (o3, d3)"
    by fastforce
  show ?thesis
    using assms inspect_spec[OF 1] inspect_spec[OF 2] rename_spec[OF 3]
    by (auto simp: moveAside_def 1 2 3 split: option.splits if_splits)
qed

lemma removeBackup_spec:
  "removeBackup b d = (ok, e) \<Longrightarrow>
     faults e \<le> faults d \<and>
     (case b of None \<Rightarrow> ok \<and> e = d
      | Some q \<Rightarrow> (\<exists>x. entries e = (entries d)(q := x)) \<and> (ok \<longrightarrow> entries e q = None))"
  by (cases b) (auto simp: removeBackup_def dest!: remove_spec split: if_splits)

section \<open>Rolling back and committing\<close>

text \<open>The paths of a transaction do not alias: neither the outputs, nor their
  backups, nor the staged files.\<close>

definition separate :: "string \<Rightarrow> string \<Rightarrow> string \<Rightarrow> string \<Rightarrow> bool" where
  "separate stagedRoot stagedBundle root bundl \<longleftrightarrow>
     distinct [stagedRoot, stagedBundle, root, bundl, backup_of root, backup_of bundl]"

text \<open>What an output's backup restores to.\<close>

definition kept :: "(string \<Rightarrow> entry option) \<Rightarrow> string option \<Rightarrow> entry option" where
  "kept m b = (case b of None \<Rightarrow> None | Some q \<Rightarrow> m q)"

lemma rollback_spec:
  assumes "reportRollback r rb b bb d = (ok, e)" and "faults d \<le> 1"
    and "rb = None \<or> rb = Some (backup_of r) \<and> entries d (backup_of r) \<noteq> None"
    and "bb = None \<or> bb = Some (backup_of b) \<and> entries d (backup_of b) \<noteq> None"
    and "distinct [r, b, backup_of r, backup_of b]"
  shows "entries e r = kept (entries d) rb \<and> entries e b = kept (entries d) bb"
proof -
  obtain o1 d1 where 1: "restoreBackup b bb d = (o1, d1)"
    by fastforce
  obtain o2 d2 where 2: "restoreBackup r rb d1 = (o2, d2)"
    by fastforce
  have e: "e = d2"
    using assms(1) by (simp add: reportRollback_def 1 2)
  have s1: "entries d1 = (case bb of None \<Rightarrow> (entries d)(b := None)
      | Some q \<Rightarrow> (entries d)(b := entries d q, q := None))" "faults d1 \<le> 1"
    using restore_spec[OF 1 assms(2)] assms(2,4,5) by auto
  then have "rb = Some q \<Longrightarrow> q \<noteq> r \<and> entries d1 q \<noteq> None" for q
    using assms(3-5) by auto
  then have s2: "entries d2 = (case rb of None \<Rightarrow> (entries d1)(r := None)
      | Some q \<Rightarrow> (entries d1)(r := entries d1 q, q := None))"
    using restore_spec[OF 2 s1(2)] by auto
  show ?thesis
    unfolding e s2 kept_def using s1(1) assms(3-5) by auto
qed

text \<open>After both outputs were moved aside: the new ones appear together or the old
  ones come back.\<close>

lemma publish_staged_spec:
  assumes "publish_staged sr sb r b hh rb bb d = (ok, e)" and "faults d \<le> 1"
    and "separate sr sb r b"
    and "rb = None \<or> rb = Some (backup_of r) \<and> entries d (backup_of r) \<noteq> None"
    and "bb = None \<or> bb = Some (backup_of b) \<and> entries d (backup_of b) \<noteq> None"
    and "entries d b = None"
  shows "(entries e r = kept (entries d) rb \<and> entries e b = kept (entries d) bb \<and> \<not> ok)
    \<or> (entries e r = entries d sr \<and> entries d sr \<noteq> None
        \<and> entries e b = (if hh then entries d sb else None)
        \<and> (ok \<longrightarrow> (rb \<noteq> None \<longrightarrow> entries e (backup_of r) = None)
              \<and> (bb \<noteq> None \<longrightarrow> entries e (backup_of b) = None)))"
proof -
  have ds: "distinct [sr, sb, r, b, backup_of r, backup_of b]"
    using assms(3) by (simp add: separate_def)
  then have ds4: "distinct [r, b, backup_of r, backup_of b]"
    by simp
  obtain o1 d1 where 1: "(if hh then renameChecked sb b d else (True, d)) = (o1, d1)"
    by fastforce
  have s1: "faults d1 \<le> 1" "entries d1 (backup_of r) = entries d (backup_of r)"
      "entries d1 (backup_of b) = entries d (backup_of b)" "entries d1 sr = entries d sr"
      "o1 \<Longrightarrow> entries d1 b = (if hh then entries d sb else None)"
    using 1 assms(2,6) ds by (auto dest!: rename_spec split: if_splits)
  obtain o2 d2 where 2: "renameChecked sr r d1 = (o2, d2)"
    by fastforce
  have s2: "faults d2 \<le> 1" "entries d2 (backup_of r) = entries d (backup_of r)"
      "entries d2 (backup_of b) = entries d (backup_of b)" "entries d2 b = entries d1 b"
      "o2 \<Longrightarrow> entries d2 r = entries d sr \<and> entries d sr \<noteq> None"
    using rename_spec[OF 2] s1 ds
    by (auto simp: can_rename_def renameable_def split: if_splits option.splits)
  have undo: "entries (snd (reportRollback r rb b bb x)) r = kept (entries d) rb
      \<and> entries (snd (reportRollback r rb b bb x)) b = kept (entries d) bb"
    if "faults x \<le> 1" "entries x (backup_of r) = entries d (backup_of r)"
      "entries x (backup_of b) = entries d (backup_of b)" for x
  proof -
    obtain o3 d3 where 3: "reportRollback r rb b bb x = (o3, d3)"
      by fastforce
    have "kept (entries x) rb = kept (entries d) rb" "kept (entries x) bb = kept (entries d) bb"
      using that assms(4,5) by (auto simp: kept_def)
    then show ?thesis
      using rollback_spec[OF 3 that(1) _ _ ds4] that assms(4,5) 3 by auto
  qed
  obtain o4 d4 where 4: "removeBackup rb d2 = (o4, d4)"
    by fastforce
  obtain o5 d5 where 5: "removeBackup bb d4 = (o5, d5)"
    by fastforce
  have form: "(ok, e) =
     (if \<not> o1 then (False, snd (reportRollback r rb b bb d1))
      else if \<not> o2 then (False, snd (reportRollback r rb b bb d2))
      else if \<not> o4 then (False, d4) else (o5, d5))"
    using assms(1) unfolding publish_staged_def Let_def 1 prod.case 2 4 5 by simp
  show ?thesis
  proof (cases "o1 \<and> o2")
    case False
    then show ?thesis
      using form undo[OF s1(1-3)] undo[OF s2(1-3)] by (auto split: if_splits)
  next
    case True
    have r4: "entries d4 r = entries d2 r" "entries d4 b = entries d2 b"
        "o4 \<Longrightarrow> rb \<noteq> None \<Longrightarrow> entries d4 (backup_of r) = None"
      using removeBackup_spec[OF 4] assms(4) ds by (auto split: option.splits)
    have r5: "entries d5 r = entries d4 r" "entries d5 b = entries d4 b"
        "entries d5 (backup_of r) = entries d4 (backup_of r)"
        "o5 \<Longrightarrow> bb \<noteq> None \<Longrightarrow> entries d5 (backup_of b) = None"
      using removeBackup_spec[OF 5] assms(5) ds by (auto split: option.splits)
    show ?thesis
      using form True s1(5) s2(4,5) r4 r5 by (auto split: if_splits)
  qed
qed

section \<open>The whole transaction\<close>

text \<open>The cases in which a rollback of the bundle is right: there is something to
  publish, nothing to lose, or an owned bundle that could be read.\<close>

definition rollback_safe :: "(string \<Rightarrow> string) \<Rightarrow> bool \<Rightarrow> string \<Rightarrow> disk \<Rightarrow> bool" where
  "rollback_safe sha256 hh b d \<longleftrightarrow>
     hh \<or> entries d b = None \<or> (fst (draw d) = Works \<and> ownedBundle sha256 (entries d b))"

lemma publish_cases:
  assumes "publishClosure sha256 sr sb r b hh d = (ok, e)" and "faults d \<le> 1"
    and "separate sr sb r b" and "rollback_safe sha256 hh b d"
  shows "(entries e r = entries d r \<and> entries e b = entries d b \<and> \<not> ok)
    \<or> (entries e r = entries d sr \<and> entries d sr \<noteq> None
        \<and> entries e b = (if hh then entries d sb else None)
        \<and> (ok \<longrightarrow> (entries d r \<noteq> None \<longrightarrow> entries e (backup_of r) = None)
              \<and> (entries d b \<noteq> None \<longrightarrow> entries e (backup_of b) = None)))"
proof -
  have ds: "distinct [sr, sb, r, b, backup_of r, backup_of b]"
    using assms(3) by (simp add: separate_def)
  obtain l d0 where 0: "draw d = (l, d0)"
    by fastforce
  define owned where "owned = (l = Works \<and> ownedBundle sha256 (entries d0 b))"
  have e0: "entries d0 = entries d" "faults d0 \<le> 1"
    using draw_spec[OF 0] assms(2) by (auto split: if_splits)
  obtain i1 d1 where 1: "inspectPath r d0 = (i1, d1)"
    by fastforce
  obtain i2 d2 where 2: "inspectPath b d1 = (i2, d2)"
    by fastforce
  have e2: "entries d1 = entries d" "entries d2 = entries d" "faults d2 \<le> 1"
    using inspect_spec[OF 1] inspect_spec[OF 2] e0 by (auto split: option.splits)
  obtain o3 bb d3 where 3: "(if hh \<or> owned then moveAside b d2 else (True, None, d2)) = (o3, bb, d3)"
    by (metis prod_cases3)
  obtain o4 rb d4 where 4: "moveAside r d3 = (o4, rb, d4)"
    by (metis prod_cases3)
  obtain ok5 d5 where 5: "publish_staged sr sb r b hh rb bb d4 = (ok5, d5)"
    by fastforce
  have form: "(entries e = entries d \<and> \<not> ok)
     \<or> (\<not> o3 \<and> e = d3 \<and> \<not> ok)
     \<or> (o3 \<and> \<not> o4 \<and> e = snd (restoreBackup b bb d4) \<and> \<not> ok)
     \<or> (o3 \<and> o4 \<and> (ok, e) = (ok5, d5))"
    using assms(1) e2(1,2)
    unfolding publishClosure_def Let_def 0 prod.case owned_def[symmetric] 1
    by (auto simp: 2 3 4 5 split: option.splits if_splits)
  have absent: "bb = None \<and> o3 \<longrightarrow> entries d b = None"
    using 3 assms(4) 0 e0(1) e2(2) moveAside_spec[of b d2 o3 bb d3]
    by (auto simp: rollback_safe_def owned_def split: if_splits)
  have e3: "faults d3 \<le> 1" "\<not> o3 \<Longrightarrow> entries d3 = entries d"
      "o3 \<Longrightarrow> bb = None \<and> entries d b = None \<and> entries d3 = entries d
         \<or> bb = Some (backup_of b) \<and> entries d b \<noteq> None
             \<and> entries d3 = (entries d)(b := None, backup_of b := entries d b)"
  proof -
    show "faults d3 \<le> 1" "\<not> o3 \<Longrightarrow> entries d3 = entries d"
      using 3 e2(2,3) moveAside_spec[of b d2 o3 bb d3] by (auto split: if_splits)
    assume o3: "o3"
    show "bb = None \<and> entries d b = None \<and> entries d3 = entries d
         \<or> bb = Some (backup_of b) \<and> entries d b \<noteq> None
             \<and> entries d3 = (entries d)(b := None, backup_of b := entries d b)"
    proof (cases bb)
      case None
      then have "entries d b = None"
        using absent o3 by blast
      then show ?thesis
        using 3 None e2(2) o3 moveAside_spec[of b d2 o3 bb d3] by (auto split: if_splits)
    next
      case (Some q)
      then show ?thesis
        using 3 e2(2) o3 moveAside_spec[of b d2 o3 bb d3] by (auto split: if_splits)
    qed
  qed
  have e4: "faults d4 \<le> 1" "\<not> o4 \<Longrightarrow> entries d4 = entries d3"
      "o4 \<Longrightarrow> rb = None \<and> entries d3 r = None \<and> entries d4 = entries d3
         \<or> rb = Some (backup_of r) \<and> entries d3 r \<noteq> None
             \<and> entries d4 = (entries d3)(r := None, backup_of r := entries d3 r)"
    using moveAside_spec[OF 4] e3(1) by (auto split: if_splits option.splits)
  consider (same) "entries e = entries d" "\<not> ok"
    | (undone) "o3" "\<not> o4" "e = snd (restoreBackup b bb d4)" "\<not> ok"
    | (staged) "o3" "o4" "ok = ok5" "e = d5"
    using form e3(2) by auto
  then show ?thesis
  proof cases
    case same
    then show ?thesis
      by simp
  next
    case undone
    obtain o6 d6 where 6: "restoreBackup b bb d4 = (o6, d6)"
      by fastforce
    have "entries d6 r = entries d r \<and> entries d6 b = entries d b"
      using restore_spec[OF 6 e4(1)] e4(2)[OF undone(2)] e3(3)[OF undone(1)] ds by auto
    then show ?thesis
      using undone 6 by simp
  next
    case staged
    have f: "bb = None \<and> entries d b = None \<or> bb = Some (backup_of b) \<and> entries d b \<noteq> None
             \<and> entries d4 (backup_of b) = entries d b"
        "rb = None \<and> entries d r = None \<or> rb = Some (backup_of r) \<and> entries d r \<noteq> None
             \<and> entries d4 (backup_of r) = entries d r"
        "entries d4 b = None" "entries d4 sr = entries d sr" "entries d4 sb = entries d sb"
      using e3(3)[OF staged(1)] e4(3)[OF staged(2)] ds by auto
    have "kept (entries d4) rb = entries d r" "kept (entries d4) bb = entries d b"
      using f(1,2) by (auto simp: kept_def)
    moreover have "rb = None \<or> rb = Some (backup_of r) \<and> entries d4 (backup_of r) \<noteq> None"
        "bb = None \<or> bb = Some (backup_of b) \<and> entries d4 (backup_of b) \<noteq> None"
      using f(1,2) by auto
    ultimately show ?thesis
      using publish_staged_spec[OF 5 e4(1) assms(3) _ _ f(3)] f staged(3,4) by auto
  qed
qed

end
