(* ===== verification/Closure_Properties.thy ===== *)
theory Closure_Properties
  imports Closure_Loop Publish_Atomic
begin

text \<open>
  The properties of the local-header closure: the translation returns and is
  complete, artifacts do not collide, inputs survive, failures are final, and
  the publication transaction is all or nothing.
\<close>

section \<open>Inputs are remembered\<close>

definition inputs_known :: "plan \<Rightarrow> bool" where
  "inputs_known p \<longleftrightarrow> n_source ` set (nodes p) \<subseteq> set (dependencies p)"

lemma add_dependency_set [simp]: "set (add_dependency d ds) = insert d (set ds)"
  by (auto simp: add_dependency_def set_insort_key)

definition same_inputs :: "plan \<Rightarrow> plan \<Rightarrow> bool" where
  "same_inputs p q \<longleftrightarrow>
     set (dependencies p) \<subseteq> set (dependencies q)
     \<and> n_source ` set (nodes q) \<subseteq> n_source ` set (nodes p) \<union> set (dependencies q)"

lemma same_inputs_known: "same_inputs p q \<Longrightarrow> inputs_known p \<Longrightarrow> inputs_known q"
  unfolding same_inputs_def inputs_known_def by blast

lemma same_inputs_refl: "same_inputs p p"
  by (simp add: same_inputs_def)

definition bounds_of :: "plan \<Rightarrow> policies \<times> (policy_key \<times> string) list" where
  "bounds_of p = (bound_policies p, bound_artifacts p)"

lemma fail_fields [simp]: "nodes (fail why p) = nodes p" "dependencies (fail why p) = dependencies p"
  "bounds_of (fail why p) = bounds_of p"
  by (simp_all add: fail_def bounds_of_def)

lemma refuse_fields:
  "refuse why p = (d, q) \<Longrightarrow>
     nodes q = nodes p \<and> dependencies q = dependencies p \<and> bounds_of q = bounds_of p"
  by (auto simp: refuse_def Let_def)

lemma bump_fields [simp]: "nodes (bump f p) = nodes p" "dependencies (bump f p) = dependencies p"
  "bounds_of (bump f p) = bounds_of p"
  by (simp_all add: bump_def bounds_of_def)

lemma plan_bounds [simp]:
  "bounds_of (p\<lparr>dependencies := ds\<rparr>) = bounds_of p" "bounds_of (p\<lparr>edges := es\<rparr>) = bounds_of p"
  "bounds_of (p\<lparr>nodes := ns, node_by_source := m\<rparr>) = bounds_of p"
  by (simp_all add: bounds_of_def)

lemma outside_fields:
  "outside_root h i p = (d, q) \<Longrightarrow>
     nodes q = nodes p \<and> dependencies q = dependencies p \<and> bounds_of q = bounds_of p"
  by (auto simp: outside_root_def Let_def dest: refuse_fields split: if_splits)

lemma redirect_fields:
  "redirect_to h i c k p = (d, q) \<Longrightarrow>
     nodes q = nodes p \<and> dependencies q = dependencies p \<and> bounds_of q = bounds_of p"
  by (cases "i_depth i = 0"; auto simp: redirect_to_def Let_def dest: refuse_fields split: if_splits)

lemma select_fields:
  "select_node h dp c root rel p = Some (k, q) \<Longrightarrow>
     dependencies q = dependencies p \<and> bounds_of q = bounds_of p
     \<and> n_source ` set (nodes q) \<subseteq> insert c (n_source ` set (nodes p))"
  by (auto simp: select_node_def Let_def split: option.splits if_splits)

lemma observe_fields:
  "same_inputs p (snd (observeInclude h i p)) \<and> bounds_of (snd (observeInclude h i p)) = bounds_of p"
proof -
  define c where "c = (if i_resolved i \<noteq> empty_path then canonicalExisting h (i_resolved i)
                       else empty_path)"
  define p1 where "p1 = (if c \<noteq> empty_path
      then p\<lparr>dependencies := add_dependency c (dependencies p)\<rparr> else p)"
  define p2 where "p2 = bump (quoted_seen_update Suc) p1"
  have f: "nodes p1 = nodes p" "set (dependencies p) \<subseteq> set (dependencies p1)"
      "c \<noteq> empty_path \<Longrightarrow> c \<in> set (dependencies p1)" "nodes p2 = nodes p"
      "dependencies p2 = dependencies p1" "bounds_of p1 = bounds_of p" "bounds_of p2 = bounds_of p"
    by (auto simp: p1_def p2_def)
  obtain d q where o: "observeInclude h i p = (d, q)"
    by fastforce
  note form = o[unfolded observeInclude_def Let_def, folded c_def, folded p1_def, folded p2_def]
  have "(nodes q = nodes p \<and> set (dependencies p) \<subseteq> set (dependencies q)
      \<or> c \<noteq> empty_path \<and> dependencies q = dependencies p1
        \<and> n_source ` set (nodes q) \<subseteq> insert c (n_source ` set (nodes p)))
    \<and> bounds_of q = bounds_of p"
  proof (cases "mode p = Disabled \<or> i_angled i \<or> \<not> i_literal i \<or> endsWithDpp (i_spelling i)
      \<or> i_resolved i = empty_path \<or> rooted (to_path (i_spelling i)) \<or> c = empty_path
      \<or> endsWithDpp (generic_string c) \<or> c = root_source p2 \<or> isExcluded h p2 c
      \<or> findEligibleRoot h p2 c = None")
    case True
    have "nodes q = nodes p1 \<and> dependencies q = dependencies p1 \<and> bounds_of q = bounds_of p \<or> q = p"
      using form True
      by (auto simp: f dest!: refuse_fields outside_fields split: if_splits)
    then show ?thesis
      using f by auto
  next
    case False
    then obtain root rel where r: "findEligibleRoot h p2 c = Some (root, rel)"
      by auto
    have step: "(if node_by_source p2 c = None \<and> i_depth i \<noteq> 0 \<and> mode p2 \<noteq> Recursive
           then (no_decision, p2)
           else case select_node h (i_depth i) c root rel p2 of
                 None \<Rightarrow> refuse (''cannot allocate local-header artifact path for: ''
                                 @ generic_string c) p2
               | Some (k, p) \<Rightarrow> redirect_to h i c k p) = (d, q)"
      using form False r by simp
    have c: "c \<noteq> empty_path"
      using False by simp
    show ?thesis
    proof (cases "select_node h (i_depth i) c root rel p2")
      case None
      then show ?thesis
        using step f by (auto dest!: refuse_fields split: if_splits)
    next
      case (Some kp)
      obtain k p3 where kp: "kp = (k, p3)"
        by fastforce
      have "nodes q = nodes p2 \<and> dependencies q = dependencies p2 \<and> bounds_of q = bounds_of p2
          \<or> nodes q = nodes p3 \<and> dependencies q = dependencies p3 \<and> bounds_of q = bounds_of p3"
        using step Some kp by (auto dest!: redirect_fields split: if_splits)
      then show ?thesis
        using select_fields[OF Some[unfolded kp]] f c by (elim disjE; simp)
    qed
  qed
  then show ?thesis
    using f o unfolding same_inputs_def by auto
qed

lemma perform_inputs: "same_inputs p (perform c h p)"
proof (cases c)
  case (Observe i)
  then show ?thesis
    using observe_fields by (simp add: perform_def)
qed (auto simp: perform_def same_inputs_def requireInheritedHelperContext_def fail_def
      requireInheritedSourceContext_def requireKernelThreadBoundPolicy_def)

lemma perform_all_inputs: "inputs_known p \<Longrightarrow> inputs_known (perform_all cs h p)"
  by (induction cs arbitrary: p) (auto intro: same_inputs_known[OF perform_inputs])

lemma seal_dependencies:
  "dependencies (snd (sealKernelThreadBoundPolicies h s a t applied p)) = dependencies p"
  unfolding sealKernelThreadBoundPolicies_def Let_def
  by (auto split: option.splits prod.splits bool.splits)

lemma set_state_known: "inputs_known p \<Longrightarrow> inputs_known (set_state k st p)"
proof -
  assume p: "inputs_known p"
  have "map n_source (nodes (set_state k st p)) = map n_source (nodes p)"
    by (rule nth_equalityI) (auto simp: set_state_nth)
  then have "n_source ` set (nodes (set_state k st p)) = n_source ` set (nodes p)"
    by (metis list.set_map)
  then show ?thesis
    using p by (simp add: inputs_known_def set_state_def)
qed

lemma seal_known:
  "inputs_known p \<Longrightarrow> inputs_known (snd (sealKernelThreadBoundPolicies h s a t applied p))"
  using seal_dependencies seal_nodes by (simp add: inputs_known_def)

lemma fail_known [simp]: "inputs_known (fail why p) = inputs_known p"
  by (simp add: inputs_known_def)

text \<open>A property that every step of the loop keeps holds of its result.\<close>

lemma loop_keeps:
  assumes "translate_headers h mkdir tr staged p = Some q" and "R h p"
    and states: "\<And>h k st x. R h x \<Longrightarrow> R h (set_state k st x)"
    and fails: "\<And>h why x. R h x \<Longrightarrow> R h (fail why x)"
    and calls: "\<And>h cs x. R h x \<Longrightarrow> R h (perform_all cs h x)"
    and seals: "\<And>h s a t ap x. R h x \<Longrightarrow> R h (snd (sealKernelThreadBoundPolicies h s a t ap x))"
  shows "R h q"
proof -
  note steps = states fails calls seals
  have "R h p \<longrightarrow> R h q"
  proof (rule translate_headers.raw_induct[where P = "\<lambda>h mkdir tr staged p q. R h p \<longrightarrow> R h q",
        OF _ assms(1)])
    fix f h mkdir tr staged p q
    assume IH: "\<And>h mkdir tr staged p q. f h mkdir tr staged p = Some q \<Longrightarrow> R h p \<longrightarrow> R h q"
      and eq: "(case nextDiscovered p of
        None \<Rightarrow> Some p
      | Some k \<Rightarrow>
          (let p = markTranslating k p;
               n = nodes p ! k;
               target = lexically_normal (path_append staged (n_relative n));
               calls = fst (tr n); ok = fst (snd (tr n)); applied = snd (snd (tr n))
           in if \<not> mkdir (lexically_normal (parent_path (path_append staged (n_relative n))))
              then Some (markFailed k ''cannot create staged header directory'' p)
              else
              let p = perform_all calls h p in
              if \<not> ok \<or> failed p
              then Some (markFailed k (''local-header translation failed: ''
                     @ generic_string (n_source n)
                     @ '' (standalone header parse; parent macro/declaration context is not replayed)'') p)
              else
              let r = sealKernelThreadBoundPolicies h (n_source n) (n_artifact n) target applied p in
              if \<not> fst r
              then Some (markFailed k ''kernel-bound selected-header annotation was not sealed'' (snd r))
              else f h mkdir tr staged (markStaged k (snd r)))) = Some q"
    have IH': "f h mkdir tr staged x = Some q \<Longrightarrow> R h x \<Longrightarrow> R h q" for x
      using IH by blast
    show "R h p \<longrightarrow> R h q"
    proof (cases "nextDiscovered p")
      case None
      then show ?thesis
        using eq by simp
    next
      case (Some k)
      show ?thesis
        using eq unfolding Some option.case Let_def
        by (auto simp: markTranslating_def markStaged_def markFailed_def
            intro!: steps elim: IH' split: if_splits)
    qed
  qed
  then show ?thesis
    using assms(2) by blast
qed

lemma loop_inputs:
  "translate_headers h mkdir tr staged p = Some q \<Longrightarrow> inputs_known p \<Longrightarrow> inputs_known q"
  by (rule loop_keeps[where R = "\<lambda>_. inputs_known"])
    (auto intro: set_state_known perform_all_inputs seal_known)

lemma loop_inv:
  assumes "translate_headers h mkdir tr staged p = Some q" and "sane_host h" and "plan_inv h p"
  shows "plan_inv h q \<and> extends p q"
proof -
  have step: "plan_inv g (f g x) \<and> extends p (f g x)"
    if "plan_operation f" "sane_host g" "plan_inv g x" "extends p x" for f g x
    using plan_operation.step[OF that(1-3)] that(4) extends_trans by blast
  have "sane_host h \<longrightarrow> plan_inv h q \<and> extends p q"
    by (rule loop_keeps[where R = "\<lambda>g x. sane_host g \<longrightarrow> plan_inv g x \<and> extends p x", OF assms(1)])
      (use assms(3) step[OF fail.plan_operation_axioms] step[OF perform_all.plan_operation_axioms]
        step[OF seal.plan_operation_axioms] set_state_inv extends_trans[OF _ set_state_extends]
       in auto)
  then show ?thesis
    using assms(2) by blast
qed

section \<open>The translation of a closure\<close>

text \<open>The driver up to the end of the header loop: a new plan, the calls of the
  root's own parse, then the headers.\<close>

definition translate_closure :: "host \<Rightarrow> fspath list \<Rightarrow> fspath list \<Rightarrow> fspath \<Rightarrow> fspath \<Rightarrow> fspath
    \<Rightarrow> closure_mode \<Rightarrow> plan_call list \<Rightarrow> (fspath \<Rightarrow> bool) \<Rightarrow> translator \<Rightarrow> fspath \<Rightarrow> plan option" where
  "translate_closure h includes external src out headers m root_calls mkdir tr staged =
     translate_headers h mkdir tr staged
       (perform_all root_calls h (new_plan h includes external src out headers m))"

lemma new_plan_empty [simp]:
  "nodes (new_plan h includes external src out headers m) = []"
  by (simp add: new_plan_def Let_def fail_def)

lemma started_ready:
  assumes "sane_host h" and "\<And>c. c \<in> set cs \<Longrightarrow> resolved_by h c \<subseteq> U"
  shows "ready_plan h U (perform_all cs h (new_plan h includes external src out headers m))"
proof -
  let ?p = "new_plan h includes external src out headers m"
  have "plan_inv h (perform_all cs h ?p)"
    by (rule perform_all.keeps[OF assms(1) new_plan_inv[OF assms(1)]])
  moreover have "appends U ?p (perform_all cs h ?p)"
    by (rule appends_mono[OF perform_all_appends]) (use assms(2) in blast)
  ultimately show ?thesis
    by (auto simp: ready_plan_def only_settled_states_def appends_def)
qed

lemma closure_inv:
  assumes "sane_host h"
    and "translate_closure h includes external src out headers m cs mkdir tr staged = Some q"
  shows "plan_inv h q \<and> inputs_known q
    \<and> extends (new_plan h includes external src out headers m) q"
proof -
  let ?p = "new_plan h includes external src out headers m"
  have p: "plan_inv h (perform_all cs h ?p) \<and> extends ?p (perform_all cs h ?p)"
    by (rule perform_all.step[OF assms(1) new_plan_inv[OF assms(1)]])
  have "inputs_known (perform_all cs h ?p)"
    by (rule perform_all_inputs) (simp add: inputs_known_def)
  then show ?thesis
    using loop_inv[OF _ assms(1)] loop_inputs p extends_trans assms(2)
    unfolding translate_closure_def by blast
qed

section \<open>Properties of a translated closure\<close>

text \<open>C2 (termination). The translation of a closure returns: when the files it reads
  include finitely many headers, in whatever cycles, the header loop ends, and it
  ends either with a recorded failure or with every discovered header translated
  and staged.\<close>
theorem closure_returns:
  assumes "sane_host h" and "finite U"
    and "\<And>c. c \<in> set root_calls \<Longrightarrow> resolved_by h c \<subseteq> U"
    and "\<And>n c. c \<in> set (fst (tr n)) \<Longrightarrow> resolved_by h c \<subseteq> U"
  shows "\<exists>q. translate_closure h includes external src out headers m root_calls mkdir tr staged = Some q
    \<and> (failed q \<or> (\<forall>n \<in> set (nodes q). n_state n = Staged))"
proof -
  have "ready_plan h U (perform_all root_calls h (new_plan h includes external src out headers m))"
    by (rule started_ready[OF assms(1,3)])
  then show ?thesis
    using loop_returns[OF assms(1) _ assms(2), of _ tr mkdir staged] assms(4)
    unfolding translate_closure_def by blast
qed

lemma distinct_artifacts:
  assumes "plan_inv h q" and "canonical_form (bundle_at q)" and "i < length (nodes q)"
    and "j < length (nodes q)" and "n_artifact (nodes q ! i) = n_artifact (nodes q ! j)"
  shows "i = j"
proof -
  have n: "node_ok h q (nodes q ! i)" "node_ok h q (nodes q ! j)"
    using assms(1,3,4) by (simp_all add: plan_inv_def)
  obtain r xs where r: "r \<in> set (roots q)" "parts (n_source (nodes q ! i)) = parts (fst r) @ xs"
      "n_artifact (nodes q ! i) = makeArtifactPath (bundle_at q) (snd r) (below xs)"
    using n(1) by (auto simp: node_ok_def)
  obtain r' ys where r': "r' \<in> set (roots q)" "parts (n_source (nodes q ! j)) = parts (fst r') @ ys"
      "n_artifact (nodes q ! j) = makeArtifactPath (bundle_at q) (snd r') (below ys)"
    using n(2) by (auto simp: node_ok_def)
  have s: "settled h (n_source (nodes q ! i))" "settled h (n_source (nodes q ! j))"
    using n by (simp_all add: node_ok_def)
  have "\<forall>w \<in> set xs. plain_name w" "\<forall>w \<in> set ys. plain_name w"
    using s r(2) r'(2) by (auto simp: settled_def canonical_form_def)
  then have e: "snd r = snd r'" "xs = ys"
    using makeArtifactPath_inj[OF assms(2)] assms(5) r(3) r'(3) by metis+
  have "distinct (map snd (roots q))"
    using assms(1) by (simp add: plan_inv_def roots_ok_def)
  then have "r = r'"
    using e(1) r(1) r'(1) by (auto simp: distinct_map inj_on_def)
  then have "n_source (nodes q ! i) = n_source (nodes q ! j)"
    using s r(2) r'(2) e(2) by (cases "n_source (nodes q ! i)"; cases "n_source (nodes q ! j)")
      (simp add: settled_def canonical_form_def)
  then show ?thesis
    using distinct_sources[OF assms(1)] assms(3,4) by (simp add: distinct_conv_nth) (metis nth_map)
qed

text \<open>C16 (safety). Two translated headers never share an artifact: whatever the files
  include and however often, two different nodes of the resulting plan have
  different source files and different artifact paths, and every artifact lies in
  a numbered subdirectory of the bundle.\<close>
theorem closure_artifacts_distinct:
  assumes "sane_host h"
    and "translate_closure h includes external src out headers m root_calls mkdir tr staged = Some q"
    and "canonical_form (weaklyCanonical h headers)" and "i < j" and "j < length (nodes q)"
  shows "n_source (nodes q ! i) \<noteq> n_source (nodes q ! j)
    \<and> n_artifact (nodes q ! i) \<noteq> n_artifact (nodes q ! j)
    \<and> (\<exists>r rel. parts (n_artifact (nodes q ! i))
           = parts (weaklyCanonical h headers) @ (''r'' @ digits r) # rel)"
proof -
  have q: "plan_inv h q" "extends (new_plan h includes external src out headers m) q"
    using closure_inv[OF assms(1,2)] by auto
  then have b: "bundle_at q = weaklyCanonical h headers"
    by (simp add: extends_def new_plan_def Let_def fail_def)
  have n: "node_ok h q (nodes q ! i)"
    using q(1) assms(4,5) by (simp add: plan_inv_def)
  then have s: "settled h (n_source (nodes q ! i))"
    by (simp add: node_ok_def)
  have "\<exists>(r :: eligible_root) xs. parts (n_source (nodes q ! i)) = parts (fst r) @ xs
      \<and> n_artifact (nodes q ! i) = makeArtifactPath (bundle_at q) (snd r) (below xs)"
    using n unfolding node_ok_def by blast
  then obtain r :: eligible_root and xs
    where r: "parts (n_source (nodes q ! i)) = parts (fst r) @ xs"
      "n_artifact (nodes q ! i) = makeArtifactPath (bundle_at q) (snd r) (below xs)"
    by blast
  have "\<forall>w \<in> set xs. plain_name w"
    using r(1) s by (auto simp: settled_def canonical_form_def)
  then have "parts (n_artifact (nodes q ! i)) = parts (weaklyCanonical h headers)
      @ (''r'' @ digits (snd r)) # butlast (parts (below xs)) @ [last (parts (below xs)) @ ''.dpp'']"
    unfolding r(2) b by (intro artifact_parts(1)[OF assms(3)] disjI2)
  then have "\<exists>r rel. parts (n_artifact (nodes q ! i))
      = parts (weaklyCanonical h headers) @ (''r'' @ digits r) # rel"
    by blast
  moreover have "n_source (nodes q ! i) \<noteq> n_source (nodes q ! j)"
    using distinct_sources[OF q(1)] assms(4,5) by (simp add: distinct_conv_nth)
  ultimately show ?thesis
    using distinct_artifacts[OF q(1), of i j] assms(3-5) b by auto
qed

text \<open>The plan of a translated closure is consistent: a source file is
  indexed exactly at its node, every redirected include leads to a node of the
  plan, the counter of selected includes is the number of redirected edges and
  splits into root and header edges, and no header is the root itself.\<close>
theorem closure_plan_consistent:
  assumes "sane_host h"
    and "translate_closure h includes external src out headers m root_calls mkdir tr staged = Some q"
  shows "(\<forall>s k. node_by_source q s = Some k \<longleftrightarrow> k < length (nodes q) \<and> n_source (nodes q ! k) = s)
    \<and> (\<forall>e \<in> set (edges q). node_by_source q (e_child e) \<noteq> None)
    \<and> selected_includes (plan_stats q) = length (edges q)
    \<and> redirected_root (plan_stats q) + redirected_header (plan_stats q) = length (edges q)
    \<and> (\<forall>n \<in> set (nodes q). n_source n \<noteq> root_source q \<and> (m \<noteq> Recursive \<longrightarrow> n_depth n = 1))"
proof -
  have q: "plan_inv h q" "extends (new_plan h includes external src out headers m) q"
    using closure_inv[OF assms] by auto
  then have "mode q = m"
    by (simp add: extends_def new_plan_def Let_def fail_def)
  then show ?thesis
    using q(1) unfolding plan_inv_def index_ok_def stats_ok_def node_ok_def by blast
qed

text \<open>The first failure is final: once a plan has failed, no later include,
  policy or header changes the verdict or the reason that is reported.\<close>
theorem closure_failure_final:
  assumes "sane_host h" and "plan_inv h p" and "failed p"
    and "translate_headers h mkdir tr staged (perform_all calls h p) = Some q"
  shows "failed q \<and> failure_reason q = failure_reason p"
proof -
  have c: "plan_inv h (perform_all calls h p)"
    "failed (perform_all calls h p) \<and> failure_reason (perform_all calls h p) = failure_reason p"
    using perform_all.keeps[OF assms(1,2)] perform_all.sticky[OF assms(1-3)] by auto
  then show ?thesis
    using loop_inv[OF assms(4,1) c(1)] by (auto simp: extends_def)
qed


declare translate_headers.simps [code]

section \<open>A closure of two headers that include each other\<close>

definition demo_host :: host where
  "demo_host =
     \<lparr>canonical_of = (\<lambda>p. if canonical_form p then Some p else None),
      weakly_of = Some, absolute_of = Some, exists_at = (\<lambda>_. True), content_at = (\<lambda>_. None),
      nonempty_file_at = (\<lambda>_. False), status_of = (\<lambda>_. None), sha256_of = (\<lambda>s. s)\<rparr>"

definition demo_path :: "string list \<Rightarrow> fspath" where
  "demo_path ws = \<lparr>rooted = True, parts = ws\<rparr>"

definition demo_include :: "nat \<Rightarrow> string \<Rightarrow> plan_call" where
  "demo_include depth name = Observe
     \<lparr>i_parent = demo_path [''w'', ''m''], i_parent_artifact = demo_path [''o'', ''m''],
      i_depth = depth, i_offset = 0, i_spelling = name, i_resolved = demo_path [''w'', name],
      i_angled = False, i_literal = True, i_resume_line = 2, i_resume_file = ''m''\<rparr>"

definition demo_translator :: translator where
  "demo_translator n = ([demo_include 1 ''a'', demo_include 1 ''b''], True, [])"

definition demo_closure :: "plan_call list \<Rightarrow> plan option" where
  "demo_closure calls = translate_closure demo_host [] [] (demo_path [''w'', ''m''])
     (demo_path [''o'', ''m'']) (demo_path [''o'', ''h'']) Recursive calls (\<lambda>_. True)
     demo_translator (demo_path [''s''])"

lemma demo_sane: "sane_host demo_host"
  by (simp add: sane_host_def demo_host_def)

lemma demo_canonical [simp]:
  "canonical_form (demo_path ws) \<longleftrightarrow> (\<forall>w \<in> set ws. plain_name w)"
  by (simp add: canonical_form_def demo_path_def)

lemma demo_resolved:
  "name \<noteq> [] \<Longrightarrow> name \<noteq> ''.'' \<Longrightarrow> name \<noteq> ''..'' \<Longrightarrow>
     resolved_by demo_host (demo_include d name) = {demo_path [''w'', name]}"
  by (simp add: resolved_by_def demo_include_def canonicalExisting_def demo_host_def
      empty_path_def plain_name_def normal_canonical) (simp add: demo_path_def normal_canonical plain_name_def)

lemma closure_returns_witness:
  "\<exists>q. demo_closure [demo_include 0 ''a'', demo_include 0 ''b''] = Some q
     \<and> (failed q \<or> (\<forall>n \<in> set (nodes q). n_state n = Staged))"
  unfolding demo_closure_def
proof (rule closure_returns[OF demo_sane])
  show "finite {demo_path [''w'', ''a''], demo_path [''w'', ''b'']}"
    by simp
qed (auto simp: demo_resolved demo_translator_def)

lemma demo_two:
  "map_option (\<lambda>q. (length (nodes q), length (edges q), failed q))
     (demo_closure [demo_include 0 ''a'', demo_include 0 ''b'']) = Some (2, 6, False)"
  by code_simp

lemma closure_artifacts_distinct_witness:
  "\<exists>q. demo_closure [demo_include 0 ''a'', demo_include 0 ''b''] = Some q
     \<and> n_artifact (nodes q ! 0) \<noteq> n_artifact (nodes q ! 1)"
proof -
  obtain q where q: "demo_closure [demo_include 0 ''a'', demo_include 0 ''b''] = Some q"
      "length (nodes q) = 2"
    using demo_two by auto
  have "canonical_form (weaklyCanonical demo_host (demo_path [''o'', ''h'']))"
    by code_simp
  then show ?thesis
    using closure_artifacts_distinct[OF demo_sane q(1)[unfolded demo_closure_def], of 0 1] q by simp
qed

lemma closure_plan_consistent_witness:
  "\<exists>q. demo_closure [demo_include 0 ''a'', demo_include 0 ''b''] = Some q
     \<and> selected_includes (plan_stats q) = 6"
proof -
  obtain q where q: "demo_closure [demo_include 0 ''a'', demo_include 0 ''b''] = Some q"
      "length (edges q) = 6"
    using demo_two by auto
  then show ?thesis
    using closure_plan_consistent[OF demo_sane q(1)[unfolded demo_closure_def]] by simp
qed

lemma demo_inv:
  "plan_inv demo_host (new_plan demo_host [] [] (demo_path [''w'', ''m''])
     (demo_path [''o'', ''m'']) (demo_path [''o'', ''h'']) Recursive)"
  by (rule new_plan_inv[OF demo_sane])

lemma closure_failure_final_witness:
  "let p = fail ''first'' (new_plan demo_host [] [] (demo_path [''w'', ''m''])
             (demo_path [''o'', ''m'']) (demo_path [''o'', ''h'']) Recursive)
   in \<exists>q. translate_headers demo_host (\<lambda>_. True) demo_translator (demo_path [''s''])
            (perform_all [demo_include 0 ''a'', Refuse ''second''] demo_host p) = Some q
        \<and> failure_reason q = ''first''"
proof -
  define p where "p = fail ''first'' (new_plan demo_host [] [] (demo_path [''w'', ''m''])
      (demo_path [''o'', ''m'']) (demo_path [''o'', ''h'']) Recursive)"
  have inv: "plan_inv demo_host p"
    unfolding p_def by (rule fail.keeps[OF demo_sane demo_inv])
  have "failed p \<and> failure_reason p = ''first''"
    unfolding p_def by code_simp
  moreover have "translate_headers demo_host (\<lambda>_. True) demo_translator (demo_path [''s''])
      (perform_all [demo_include 0 ''a'', Refuse ''second''] demo_host p) \<noteq> None"
    unfolding p_def by code_simp
  then have "\<exists>q. translate_headers demo_host (\<lambda>_. True) demo_translator (demo_path [''s''])
      (perform_all [demo_include 0 ''a'', Refuse ''second''] demo_host p) = Some q"
    unfolding not_None_eq .
  ultimately show ?thesis
    using closure_failure_final[OF demo_sane inv] unfolding Let_def p_def[symmetric] by metis
qed


section \<open>Publication\<close>


definition demo_disk :: disk where
  "demo_disk =
     \<lparr>entries = [''s'' \<mapsto> File ''new'', ''t'' \<mapsto> Dir [(''x'', File ''h'')], ''r'' \<mapsto> File ''old''],
      lucks = [Works, Works, Works, Works, Works, Works, Works, Fails]\<rparr>"


text \<open>A publication refuses what it does not own: with headers to publish
  over an existing bundle that carries no valid ownership marker, or over a root
  output that is a symbolic link or a directory, it fails and every path of the
  disk is as before, whatever faults occur.\<close>
theorem publish_refuses:
  assumes "publishClosure sha256 stagedRoot stagedBundle root bundl hasHeaders d = (ok, d')"
    and "entries d root = Some Link \<or> is_dir (entries d root)
         \<or> hasHeaders \<and> entries d bundl \<noteq> None \<and> \<not> ownedBundle sha256 (entries d bundl)"
  shows "\<not> ok \<and> entries d' = entries d"
proof -
  obtain l d0 where 0: "draw d = (l, d0)"
    by fastforce
  obtain i1 d1 where 1: "inspectPath root d0 = (i1, d1)"
    by fastforce
  obtain i2 d2 where 2: "inspectPath bundl d1 = (i2, d2)"
    by fastforce
  have e: "entries d0 = entries d" "entries d1 = entries d" "entries d2 = entries d"
      "i1 = None \<or> i1 = Some (entries d root)" "i2 = None \<or> i2 = Some (entries d bundl)"
    using draw_spec[OF 0] inspect_spec[OF 1] inspect_spec[OF 2] by (auto split: option.splits)
  show ?thesis
    using assms(1,2) e
    unfolding publishClosure_def Let_def 0 prod.case 1
    by (auto simp: 2 split: option.splits if_splits)
qed

lemma publish_refuses_witness:
  "let d = demo_disk\<lparr>entries := (entries demo_disk)(''b'' \<mapsto> Dir [(''mine'', File ''text'')])\<rparr>;
       (ok, d') = publishClosure (\<lambda>s. s) ''s'' ''t'' ''r'' ''b'' True d
   in \<not> ok \<and> entries d' ''b'' = Some (Dir [(''mine'', File ''text'')])"
proof -
  define d where "d = demo_disk\<lparr>entries := (entries demo_disk)(''b'' \<mapsto> Dir [(''mine'', File ''text'')])\<rparr>"
  obtain ok d' where p: "publishClosure (\<lambda>s. s) ''s'' ''t'' ''r'' ''b'' True d = (ok, d')"
    by fastforce
  have "entries d ''b'' = Some (Dir [(''mine'', File ''text'')])"
      "\<not> ownedBundle (\<lambda>s. s) (entries d ''b'')"
    unfolding d_def by code_simp+
  then show ?thesis
    using publish_refuses[OF p] p unfolding d_def[symmetric] by (simp add: Let_def)
qed

text \<open>C37 (safety). The rollback of a translation without headers does not spare a
  foreign directory: when nothing is to be published in the bundle, a directory
  the tool does not own stands at its path, and an old backup of the root output
  is in the way, the publication fails and that directory is gone, although no
  fault occurred and nothing of it was moved aside.\<close>
theorem publish_rollback_removes_foreign_bundle:
  assumes "publishClosure sha256 stagedRoot stagedBundle root bundl False d = (ok, d')"
    and "faults d = 0" and "entries d root = Some (File old)"
    and "entries d (backup_of root) = Some stale"
    and "entries d bundl = Some (Dir foreign)" and "\<not> ownedBundle sha256 (Some (Dir foreign))"
    and "root \<noteq> bundl"
  shows "\<not> ok \<and> entries d' bundl = None \<and> entries d' root = Some (File old)"
proof -
  have works: "fst (draw x) = Works \<and> faults (snd (draw x)) = 0 \<and> entries (snd (draw x)) = entries x"
    if "faults x = 0" for x
    using draw_spec[of x "fst (draw x)" "snd (draw x)"] that by (auto split: if_splits)
  have look: "inspectPath p x = (Some (entries x p), snd (draw x))" if "faults x = 0" for p x
    using works[OF that] by (auto simp: inspectPath_def Let_def split: prod.splits)
  define da where "da = snd (draw d)"
  define db where "db = snd (draw da)"
  define d1 where "d1 = snd (draw db)"
  have da: "faults da = 0" "entries da = entries d" "draw d = (Works, da)"
    using works[OF assms(2)] by (auto simp: da_def prod_eq_iff)
  have db: "faults db = 0" "entries db = entries d"
    using works[OF da(1)] da(2) by (simp_all add: db_def)
  have d1: "faults d1 = 0" "entries d1 = entries d"
    using works[OF db(1)] db(2) by (simp_all add: d1_def)
  have i: "inspectPath root da = (Some (Some (File old)), db)"
      "inspectPath bundl db = (Some (Some (Dir foreign)), d1)"
    using look[OF da(1), of root] look[OF db(1), of bundl] assms(3,5) da(2) db(2)
    by (simp_all add: db_def d1_def)
  obtain o3 b3 d3 where m: "moveAside root d1 = (o3, b3, d3)"
    by (metis prod_cases3)
  have m': "\<not> o3" "entries d3 = entries d" "faults d3 = 0"
    using moveAside_spec[OF m] look[OF d1(1), of root] look works[OF d1(1)] m assms(3,4) d1
    by (auto simp: moveAside_def split: option.splits)
  obtain o4 d4 where r: "restoreBackup bundl None d3 = (o4, d4)"
    by fastforce
  have "entries d4 = (entries d)(bundl := None)"
    using restore_spec[OF r] m'(2,3) by simp
  moreover have "(ok, d') = (False, d4)"
    using assms(1,5,6) m m'(1) r da(2)
    by (simp add: publishClosure_def Let_def da(3) i is_dir_def)
  ultimately show ?thesis
    using assms(3,7) by simp
qed

lemma publish_rollback_removes_foreign_bundle_witness:
  "let d = \<lparr>entries = [''s'' \<mapsto> File ''new'', ''r'' \<mapsto> File ''old'',
              ''r.ascify-backup'' \<mapsto> File ''older'', ''b'' \<mapsto> Dir [(''mine'', File ''text'')]],
            lucks = []\<rparr>;
       (ok, d') = publishClosure (\<lambda>s. s) ''s'' ''t'' ''r'' ''b'' False d
   in \<not> ok \<and> entries d' ''b'' = None"
proof -
  define d where "d = \<lparr>entries = [''s'' \<mapsto> File ''new'', ''r'' \<mapsto> File ''old'',
              ''r.ascify-backup'' \<mapsto> File ''older'', ''b'' \<mapsto> Dir [(''mine'', File ''text'')]],
            lucks = []\<rparr>"
  obtain ok d' where p: "publishClosure (\<lambda>s. s) ''s'' ''t'' ''r'' ''b'' False d = (ok, d')"
    by fastforce
  have "faults d = 0" "entries d ''r'' = Some (File ''old'')"
      "entries d (backup_of ''r'') = Some (File ''older'')"
      "entries d ''b'' = Some (Dir [(''mine'', File ''text'')])"
      "\<not> ownedBundle (\<lambda>s. s) (Some (Dir [(''mine'', File ''text'')]))" "''r'' \<noteq> ''b''"
    unfolding d_def by code_simp+
  from publish_rollback_removes_foreign_bundle[OF p this] show ?thesis
    unfolding d_def[symmetric] Let_def p by simp
qed

end
