(* ===== verification/Closure_Policies.thy ===== *)
theory Closure_Policies
  imports Closure_Properties
begin

text \<open>
  Further properties of the closure: the eligible root of a header, what a
  passed validation of the staged files means, and the seals of the kernel-bound
  policies, whose lookup before publication cannot throw.
\<close>

section \<open>The eligible root\<close>

lemma join_slash_length:
  "length (join_slash (as @ bs)) =
     length (join_slash as) + length (join_slash bs) + (if as \<noteq> [] \<and> bs \<noteq> [] then 1 else 0)"
proof (induction as rule: join_slash.induct)
  case (2 w)
  then show ?case
    by (cases bs) auto
next
  case (3 w v ws)
  then show ?case
    by simp
qed simp

lemma longer_root:
  assumes "canonical_form a" and "canonical_form b" and "parts a @ xs = parts b @ ys"
    and "length (generic_string a) \<le> length (generic_string b)"
  shows "length (parts a) \<le> length (parts b)"
proof (rule ccontr)
  assume "\<not> length (parts a) \<le> length (parts b)"
  then have l: "length (parts b) < length (parts a)"
    by simp
  obtain zs where "parts a = parts b @ zs \<or> parts a @ zs = parts b"
    using assms(3) unfolding append_eq_append_conv2 by blast
  moreover have "parts a @ zs \<noteq> parts b"
  proof
    assume "parts a @ zs = parts b"
    then have "length (parts b) = length (parts a) + length zs"
      by (metis length_append)
    then show False
      using l by simp
  qed
  ultimately have z: "parts a = parts b @ zs" "zs \<noteq> []"
    using l by auto
  then have "hd zs \<noteq> []"
    using assms(1) by (cases zs) (auto simp: canonical_form_def plain_name_def)
  then have "0 < length (join_slash zs)"
    using z(2) by (cases zs rule: join_slash.cases) auto
  then show False
    using assms(1,2,4) z by (simp add: generic_string_def canonical_form_def join_slash_length)
qed

text \<open>A header belongs to the deepest eligible root that contains it:
  the search succeeds exactly when some root is a prefix of the header's path, the
  root it returns is the longest such prefix, and the relative path it returns is
  the rest of the path.\<close>
theorem eligible_root_deepest:
  assumes "roots_ok h p" and "settled h path"
  shows "case findEligibleRoot h p path of
      None \<Rightarrow> \<forall>r \<in> set (roots p). \<nexists>xs. parts path = parts (fst r) @ xs
    | Some (r, rel) \<Rightarrow> r \<in> set (roots p)
        \<and> (\<exists>xs. parts path = parts (fst r) @ xs \<and> rel = below xs)
        \<and> (\<forall>r' \<in> set (roots p). (\<exists>xs. parts path = parts (fst r') @ xs) \<longrightarrow>
              length (parts (fst r')) \<le> length (parts (fst r)))"
proof (cases "longest_root h path None (roots p)")
  case None
  then have "\<forall>r \<in> set (roots p). \<not> isWithin h path (fst r)"
    by (simp add: longest_root_none)
  then show ?thesis
    using None assms within_settled[OF assms(2)] by (auto simp: findEligibleRoot_def roots_ok_def)
next
  case (Some r)
  then have r: "r \<in> set (roots p)" "isWithin h path (fst r)"
    using longest_root_source[OF Some] by auto
  have s: "settled h (fst r')" if "r' \<in> set (roots p)" for r'
    using that assms(1) by (simp add: roots_ok_def)
  obtain xs where xs: "parts path = parts (fst r) @ xs"
    using r within_settled[OF assms(2) s[OF r(1)]] by auto
  have plain: "\<forall>w \<in> set (parts path). plain_name w"
    using assms(2) by (simp add: settled_def canonical_form_def)
  then have "below xs \<noteq> empty_path" "\<not> rooted (below xs)" "''..'' \<notin> set (parts (below xs))"
    unfolding xs by (auto simp: below_def empty_path_def plain_name_def)
  then have f: "findEligibleRoot h p path = Some (r, below xs)"
    using Some relative_below[OF assms(2) s[OF r(1)] xs] by (simp add: findEligibleRoot_def)
  have "length (parts (fst r')) \<le> length (parts (fst r))"
    if "r' \<in> set (roots p)" "parts path = parts (fst r') @ ys" for r' ys
    using longer_root[of "fst r'" "fst r" ys xs] longest_root_max[OF Some] that xs
      s[OF that(1)] s[OF r(1)] within_settled[OF assms(2) s[OF that(1)]]
    by (auto simp: settled_def)
  then show ?thesis
    using f r(1) xs by auto
qed

lemma eligible_root_deepest_witness:
  "let p = new_plan demo_host [demo_path [''w'', ''i'']] [] (demo_path [''w'', ''m''])
             (demo_path [''o'', ''m'']) (demo_path [''o'', ''h'']) Recursive
   in map_option (\<lambda>x. (fst x, parts (snd x))) (findEligibleRoot demo_host p (demo_path [''w'', ''i'', ''a'']))
        = Some ((demo_path [''w'', ''i''], 1), [''a''])
      \<and> (\<forall>r' \<in> set (roots p). (\<exists>xs. [''w'', ''i'', ''a''] = parts (fst r') @ xs) \<longrightarrow>
            length (parts (fst r')) \<le> 2)"
proof -
  define p where "p = new_plan demo_host [demo_path [''w'', ''i'']] [] (demo_path [''w'', ''m''])
             (demo_path [''o'', ''m'']) (demo_path [''o'', ''h'']) Recursive"
  have "plan_inv demo_host p"
    unfolding p_def by (rule new_plan_inv[OF demo_sane])
  then have ok: "roots_ok demo_host p"
    by (simp add: plan_inv_def)
  have s: "settled demo_host (demo_path [''w'', ''i'', ''a''])"
    unfolding settled_def by code_simp
  have f: "map_option (\<lambda>x. (fst x, parts (snd x)))
        (findEligibleRoot demo_host p (demo_path [''w'', ''i'', ''a'']))
      = Some ((demo_path [''w'', ''i''], 1), [''a''])"
    unfolding p_def by code_simp
  then obtain rel where "findEligibleRoot demo_host p (demo_path [''w'', ''i'', ''a''])
      = Some ((demo_path [''w'', ''i''], 1), rel)"
    by (auto simp: prod_eq_iff)
  then show ?thesis
    using eligible_root_deepest[OF ok s] f unfolding p_def[symmetric] Let_def
    by (simp add: demo_path_def numeral_2_eq_2)
qed

section \<open>The staged files\<close>

lemma nodes_staged_None:
  "nodes_staged h staged ns = None \<longleftrightarrow>
     (\<forall>n \<in> set ns. n_state n = Staged \<and> nonempty_file_at h (staged_path staged n))"
  by (induction ns) auto

definition edge_parent :: "fspath \<Rightarrow> fspath \<Rightarrow> plan \<Rightarrow> edge \<Rightarrow> fspath option" where
  "edge_parent root staged p e =
     (if e_parent e = root_source p then Some root
      else map_option (\<lambda>k. staged_path staged (nodes p ! k)) (node_by_source p (e_parent e)))"

lemma edges_staged_None:
  "edges_staged h root staged p es = None \<longleftrightarrow>
     (\<forall>e \<in> set es. \<exists>parent s. edge_parent root staged p e = Some parent
        \<and> content_at h parent = Some s \<and> occurs (e_emitted e) s)"
  by (induction es) (auto simp: edge_parent_def split: option.splits)

lemma occurs_iff: "occurs t s \<longleftrightarrow> (\<exists>u v. s = u @ t @ v)"
proof (induction s)
  case (Cons c s)
  have "take (length t) (c # s) = t \<longleftrightarrow> (\<exists>v. c # s = t @ v)"
    by (metis append_eq_conv_conj append_take_drop_id)
  then show ?case
    using Cons by (auto simp: Cons_eq_append_conv)
qed auto

text \<open>A closure that passes validation is complete on disk: the plan has not
  failed, the root and every translated header are non-empty files in the staging
  area, every header was staged, and for every redirected include the staged text
  of the including file contains the new spelling.\<close>
theorem staged_closure_complete:
  assumes "validateStagedArtifacts h root staged p = Some (True, p')"
  shows "p' = p \<and> \<not> failed p \<and> nonempty_file_at h root
    \<and> (\<forall>n \<in> set (nodes p). n_state n = Staged \<and> nonempty_file_at h (staged_path staged n))
    \<and> (\<forall>e \<in> set (edges p). \<exists>parent u v. edge_parent root staged p e = Some parent
          \<and> content_at h parent = Some (u @ e_emitted e @ v))"
proof -
  have v: "\<not> failed p" "nonempty_file_at h root" "nodes_staged h staged (nodes p) = None"
      "\<exists>p1. validateKernelThreadBoundPolicies h staged p = Some (True, p1)
        \<and> edges_staged h root staged p1 (edges p1) = None \<and> p' = p1"
    using assms by (auto simp: validateStagedArtifacts_def split: if_splits option.splits bool.splits)
  moreover have "p1 = p" if "validateKernelThreadBoundPolicies h staged p = Some (True, p1)" for p1
    using that by (auto simp: validateKernelThreadBoundPolicies_def split: if_splits option.splits bool.splits)
  ultimately show ?thesis
    using nodes_staged_None edges_staged_None unfolding occurs_iff by metis
qed

definition demo_staged_host :: host where
  "demo_staged_host =
     demo_host\<lparr>content_at := (\<lambda>q. if q = demo_path [''s'', ''root'']
                  then Some (''x'' @ ''\"h/r0/a.dpp\"'') else None),
       nonempty_file_at := (\<lambda>_. True)\<rparr>"

lemma staged_closure_complete_witness:
  "\<exists>q. translate_closure demo_staged_host [] [] (demo_path [''w'', ''m''])
         (demo_path [''o'', ''m'']) (demo_path [''o'', ''h'']) Recursive [demo_include 0 ''a'']
         (\<lambda>_. True) (\<lambda>_. ([], True, [])) (demo_path [''s'', ''h'']) = Some q
     \<and> length (nodes q) = 1 \<and> (\<forall>n \<in> set (nodes q). n_state n = Staged)"
proof -
  have "map_option (\<lambda>q. (map_option fst (validateStagedArtifacts demo_staged_host
           (demo_path [''s'', ''root'']) (demo_path [''s'', ''h'']) q), length (nodes q)))
      (translate_closure demo_staged_host [] [] (demo_path [''w'', ''m''])
         (demo_path [''o'', ''m'']) (demo_path [''o'', ''h'']) Recursive [demo_include 0 ''a'']
         (\<lambda>_. True) (\<lambda>_. ([], True, [])) (demo_path [''s'', ''h'']))
      = Some (Some True, 1)"
    by code_simp
  then obtain q q' where q: "translate_closure demo_staged_host [] [] (demo_path [''w'', ''m''])
         (demo_path [''o'', ''m'']) (demo_path [''o'', ''h'']) Recursive [demo_include 0 ''a'']
         (\<lambda>_. True) (\<lambda>_. ([], True, [])) (demo_path [''s'', ''h'']) = Some q"
      "validateStagedArtifacts demo_staged_host (demo_path [''s'', ''root''])
         (demo_path [''s'', ''h'']) q = Some (True, q')" "length (nodes q) = 1"
    by (auto simp: prod_eq_iff)
  then show ?thesis
    using staged_closure_complete[OF q(2)] by auto
qed

section \<open>Seals\<close>

definition seals_ok :: "plan \<Rightarrow> bool" where
  "seals_ok p \<longleftrightarrow> distinct (map fst (bound_policies p)) \<and> distinct (map fst (bound_artifacts p))
     \<and> fst ` set (bound_artifacts p) \<subseteq> fst ` set (bound_policies p)"

lemma emplace_keys:
  assumes "distinct (map fst m)"
  shows "distinct (map fst (emplace k v m)) \<and> fst ` set (emplace k v m) = insert k (fst ` set m)"
proof (cases "k \<in> fst ` set m")
  case True
  then show ?thesis
    using assms by (simp add: emplace_def insert_absorb)
next
  case False
  define key where "key = (\<lambda>e :: policy_key \<times> 'a. key_order (fst e))"
  have "distinct (map fst (insort_key key (k, v) m))"
    using assms False by (induction m) (auto simp: set_insort_key)
  moreover have "fst ` set (insort_key key (k, v) m) = insert k (fst ` set m)"
    by (simp add: set_insort_key)
  ultimately show ?thesis
    using False by (simp add: emplace_def key_def)
qed

lemma assign_keys:
  assumes "distinct (map fst m)"
  shows "distinct (map fst (assign k v m)) \<and> fst ` set (assign k v m) = insert k (fst ` set m)"
proof (cases "k \<in> fst ` set m")
  case True
  have f: "map fst (map (\<lambda>e. if fst e = k then (k, v) else e) m) = map fst m"
    by (induction m) auto
  have "fst ` set (map (\<lambda>e. if fst e = k then (k, v) else e) m) = fst ` set m"
    using arg_cong[OF f, of set] by (simp only: set_map)
  then show ?thesis
    using True assms f by (simp only: assign_def if_True insert_absorb)
next
  case False
  then show ?thesis
    using emplace_keys[OF assms] by (simp add: assign_def)
qed

lemma assign_all_keys:
  "distinct (map fst m) \<Longrightarrow>
     distinct (map fst (foldl (\<lambda>m e. assign (fst e) v m) m es))
     \<and> fst ` set (foldl (\<lambda>m e. assign (fst e) v m) m es) = fst ` set m \<union> fst ` set es"
proof (induction es arbitrary: m)
  case (Cons e es)
  then show ?case
    using Cons.IH[of "assign (fst e) v m"] assign_keys[OF Cons.prems, of "fst e" v] by auto
qed simp

lemma seal_seals:
  assumes "seals_ok p"
  shows "seals_ok (snd (sealKernelThreadBoundPolicies h s a t applied p))"
proof -
  define es where "es = filter (\<lambda>e. bp_source (snd e) = s) (bound_policies p)"
  have sub: "fst ` set es \<subseteq> fst ` set (bound_policies p)"
    by (auto simp: es_def)
  have same: "seals_ok (fail why p)" for why
    using assms by (simp add: fail_def seals_ok_def)
  have "seals_ok (p\<lparr>bound_artifacts := foldl (\<lambda>m e. assign (fst e) v m) (bound_artifacts p) es\<rparr>)" for v
    using assms assign_all_keys[of "bound_artifacts p" v es] sub by (auto simp: seals_ok_def)
  then show ?thesis
    unfolding sealKernelThreadBoundPolicies_def Let_def es_def[symmetric]
    using same assms by (auto split: option.splits bool.splits prod.splits)
qed

lemma seals_bounds: "bounds_of q = bounds_of p \<Longrightarrow> seals_ok q = seals_ok p"
  by (simp add: seals_ok_def bounds_of_def)

lemma seals_fields [simp]:
  "seals_ok (fail why p) = seals_ok p" "seals_ok (set_state k st p) = seals_ok p"
  "seals_ok (p\<lparr>helper_headers := hs\<rparr>) = seals_ok p" "seals_ok (p\<lparr>source_headers := hs\<rparr>) = seals_ok p"
  by (simp_all add: seals_ok_def fail_def set_state_def)

lemma require_seals:
  assumes "seals_ok p"
  shows "seals_ok (snd (requireKernelThreadBoundPolicy h b p))"
proof -
  have "seals_ok (p\<lparr>bound_policies := emplace k b (bound_policies p)\<rparr>)" for k
    using assms emplace_keys[of "bound_policies p" k b] unfolding seals_ok_def by simp blast
  then show ?thesis
    using assms by (simp add: requireKernelThreadBoundPolicy_def)
qed

lemma perform_seals:
  assumes "seals_ok p"
  shows "seals_ok (perform c h p)"
proof (cases c)
  case (Observe i)
  have "bounds_of (snd (observeInclude h i p)) = bounds_of p"
    using observe_fields by blast
  then have "seals_ok (snd (observeInclude h i p)) = seals_ok p"
    by (rule seals_bounds)
  then show ?thesis
    using assms by (simp add: perform_def Observe)
next
  case (Require_bound b)
  then show ?thesis
    using require_seals[OF assms] by (simp add: perform_def)
qed (use assms in \<open>simp_all add: perform_def requireInheritedHelperContext_def
      requireInheritedSourceContext_def\<close>)

lemma perform_all_seals: "seals_ok p \<Longrightarrow> seals_ok (perform_all cs h p)"
  by (induction cs arbitrary: p) (auto intro: perform_seals)

lemma loop_seals:
  "translate_headers h mkdir tr staged p = Some q \<Longrightarrow> seals_ok p \<Longrightarrow> seals_ok q"
  by (rule loop_keeps[where R = "\<lambda>_. seals_ok"])
    (auto intro: perform_all_seals seal_seals)

lemma policies_hold_total:
  "fst ` set es \<subseteq> fst ` set (bound_artifacts p) \<Longrightarrow> policies_hold h staged p es \<noteq> None"
proof (induction es)
  case (Cons e es)
  have "map_of (bound_artifacts p) (fst e) \<noteq> None"
    using Cons.prems by (simp add: map_of_eq_None_iff)
  then show ?case
    using Cons by (auto split: option.splits)
qed simp

text \<open>The publication check cannot throw: for every translated closure the
  lookup of the seal of each kernel-bound policy (\<open>std::map::at\<close>) succeeds whenever
  it is reached, because a seal is only ever recorded for a recorded policy and the
  counts are compared first; so the validation always returns a verdict.\<close>
theorem policy_validation_returns:
  assumes "translate_closure h includes external src out headers m root_calls mkdir tr staged = Some q"
  shows "\<exists>verdict q'. validateStagedArtifacts h' root staged' q = Some (verdict, q')"
proof -
  have "seals_ok (perform_all root_calls h (new_plan h includes external src out headers m))"
    by (rule perform_all_seals) (simp add: seals_ok_def new_plan_def Let_def fail_def)
  then have s: "seals_ok q"
    using assms loop_seals unfolding translate_closure_def by blast
  have "fst ` set (bound_policies q) \<subseteq> fst ` set (bound_artifacts q)"
    if "length (bound_artifacts q) = length (bound_policies q)"
  proof -
    have "card (fst ` set (bound_artifacts q)) = card (fst ` set (bound_policies q))"
      using s that distinct_card[of "map fst (bound_artifacts q)"]
        distinct_card[of "map fst (bound_policies q)"] by (simp add: seals_ok_def)
    then show ?thesis
      using s card_subset_eq[of "fst ` set (bound_policies q)" "fst ` set (bound_artifacts q)"]
      by (simp add: seals_ok_def)
  qed
  then have "validateKernelThreadBoundPolicies h' staged' q \<noteq> None"
    using policies_hold_total[of "bound_policies q" q h' staged']
    by (auto simp: validateKernelThreadBoundPolicies_def split: option.splits bool.splits)
  then show ?thesis
    by (auto simp: validateStagedArtifacts_def split: option.splits bool.splits)
qed

lemma policy_validation_returns_witness:
  "\<exists>q v q'. demo_closure [demo_include 0 ''a''] = Some q
     \<and> validateStagedArtifacts demo_host (demo_path [''s'']) (demo_path [''t'']) q = Some (v, q')"
proof -
  have "demo_closure [demo_include 0 ''a''] \<noteq> None"
    by code_simp
  then obtain q where q: "demo_closure [demo_include 0 ''a''] = Some q"
    by auto
  then show ?thesis
    using policy_validation_returns[OF q[unfolded demo_closure_def]] by blast
qed

end
