(* ===== verification/Binary64.thy ===== *)
theory Binary64
  imports Prelude
begin

unbundle bit_operations_syntax

text \<open>
  The integer-only binary64 addition of \<open>include/ascify/binary64_rne_v1.hpp\<close>.
  A \<open>uint64_t\<close> is a \<open>u64\<close>; the \<open>int32_t\<close> exponents stay within
  \<open>[-70, 2048]\<close>, so they are integers, with the conversions to \<open>uint32_t\<close>
  written out.
\<close>

section \<open>The fields of a binary64\<close>

(* Source: src/include/ascify/binary64_rne_v1.hpp 54-54 sign *)
definition sign :: "u64 \<Rightarrow> bool" where
  "sign v = (drop_bit 63 v \<noteq> 0)"

(* Source: src/include/ascify/binary64_rne_v1.hpp 55-55 exponent *)
definition exponent :: "u64 \<Rightarrow> int" where
  "exponent v = uint (drop_bit 52 v AND 0x7ff)"

(* Source: src/include/ascify/binary64_rne_v1.hpp 56-56 fraction *)
definition fraction :: "u64 \<Rightarrow> u64" where
  "fraction v = v AND 0x000fffffffffffff"

(* Source: src/include/ascify/binary64_rne_v1.hpp 57-61 pack *)
definition pack :: "bool \<Rightarrow> int \<Rightarrow> u64 \<Rightarrow> u64" where
  "pack negative e s = push_bit 63 (of_bool negative) + push_bit 52 (word_of_int e) + s"

(* Source: src/include/ascify/binary64_rne_v1.hpp 62-64 is_nan *)
definition is_nan :: "u64 \<Rightarrow> bool" where
  "is_nan v = (exponent v = 0x7ff \<and> fraction v \<noteq> 0)"

(* Source: src/include/ascify/binary64_rne_v1.hpp 65-69 propagate_nan *)
definition propagate_nan :: "u64 \<Rightarrow> u64 \<Rightarrow> u64" where
  "propagate_nan l r = (if is_nan l then l else r) OR 0x0008000000000000"

section \<open>Rounding\<close>

text \<open>Shift distances are \<open>uint32_t\<close>, here naturals.\<close>

(* Source: src/include/ascify/binary64_rne_v1.hpp 70-76 shift_right_jam *)
definition shift_right_jam :: "u64 \<Rightarrow> nat \<Rightarrow> u64" where
  "shift_right_jam v d =
     (if d = 0 then v
      else if 64 \<le> d then of_bool (v \<noteq> 0)
      else drop_bit d v OR of_bool (push_bit (64 - d) v \<noteq> 0))"

(* Source: src/include/ascify/binary64_rne_v1.hpp 77-89 leading_zeros *)
definition leading_zeros :: "u64 \<Rightarrow> int" where
  "leading_zeros v =
     (if v = 0 then 64 else
      let (c, v) = (if drop_bit 32 v = 0 then (32, push_bit 32 v) else (0, v));
          (c, v) = (if drop_bit 48 v = 0 then (c + 16, push_bit 16 v) else (c, v));
          (c, v) = (if drop_bit 56 v = 0 then (c + 8, push_bit 8 v) else (c, v));
          (c, v) = (if drop_bit 60 v = 0 then (c + 4, push_bit 4 v) else (c, v));
          (c, v) = (if drop_bit 62 v = 0 then (c + 2, push_bit 2 v) else (c, v))
      in if drop_bit 63 v = 0 then c + 1 else c)"

text \<open>The common end of \<open>round_pack\<close>: the significand has ten bits to round off.\<close>

(* Source: src/include/ascify/binary64_rne_v1.hpp 100-103 round_pack (rounding) *)
definition round_bits_off :: "bool \<Rightarrow> int \<Rightarrow> u64 \<Rightarrow> u64 \<Rightarrow> u64" where
  "round_bits_off negative e s round_bits =
     (let s = drop_bit 10 (s + 0x200);
          s = (if round_bits = 0x200 then s AND NOT 1 else s)
      in pack negative (if s = 0 then 0 else e) s)"

(* Source: src/include/ascify/binary64_rne_v1.hpp 90-104 round_pack *)
definition round_pack :: "bool \<Rightarrow> int \<Rightarrow> u64 \<Rightarrow> u64" where
  "round_pack negative e s =
     (if e < 0 then
        (let s = shift_right_jam s (nat (- e)) in round_bits_off negative 0 s (s AND 0x3ff))
      else if e > 0x7fd \<or> (e = 0x7fd \<and> 0x8000000000000000 \<le> s + 0x200)
      then pack negative 0x7ff 0
      else round_bits_off negative e s (s AND 0x3ff))"

(* Source: src/include/ascify/binary64_rne_v1.hpp 105-111 normalize_round_pack *)
definition normalize_round_pack :: "bool \<Rightarrow> int \<Rightarrow> u64 \<Rightarrow> u64" where
  "normalize_round_pack negative e s =
     (let shift = leading_zeros s - 1;
          e = e - shift
      in if 10 \<le> shift \<and> e mod 2 ^ 32 < 0x7fd
         then pack negative (if s \<noteq> 0 then e else 0) (push_bit (nat (shift - 10)) s)
         else round_pack negative e (push_bit (nat (shift mod 2 ^ 32)) s))"

section \<open>Addition\<close>

(* Source: src/include/ascify/binary64_rne_v1.hpp 113-149 add_magnitudes *)
definition add_magnitudes :: "u64 \<Rightarrow> u64 \<Rightarrow> bool \<Rightarrow> u64" where
  "add_magnitudes l r negative =
     (let el = exponent l; er = exponent r; sl = fraction l; sr = fraction r; d = el - er in
      if d = 0 then
        (if el = 0 then l + sr
         else if el = 0x7ff then (if sl OR sr \<noteq> 0 then propagate_nan l r else l)
         else round_pack negative el (push_bit 9 (0x0020000000000000 + sl + sr)))
      else
      let sl = push_bit 9 sl; sr = push_bit 9 sr in
      if d < 0 then
        (if er = 0x7ff then (if sr \<noteq> 0 then propagate_nan l r else pack negative 0x7ff 0)
         else
         let sl = (if el \<noteq> 0 then sl + 0x2000000000000000 else push_bit 1 sl);
             sl = shift_right_jam sl (nat (- d));
             s = 0x2000000000000000 + sl + sr
         in if s < 0x4000000000000000 then round_pack negative (er - 1) (push_bit 1 s)
            else round_pack negative er s)
      else
        (if el = 0x7ff then (if sl \<noteq> 0 then propagate_nan l r else l)
         else
         let sr = (if er \<noteq> 0 then sr + 0x2000000000000000 else push_bit 1 sr);
             sr = shift_right_jam sr (nat d);
             s = 0x2000000000000000 + sl + sr
         in if s < 0x4000000000000000 then round_pack negative (el - 1) (push_bit 1 s)
            else round_pack negative el s))"

text \<open>Equal exponents: the difference of the fractions, shifted as far up as the
  exponent allows.\<close>

(* Source: src/include/ascify/binary64_rne_v1.hpp 156-173 subtract_magnitudes (equal exponents) *)
definition subtract_equal :: "u64 \<Rightarrow> u64 \<Rightarrow> bool \<Rightarrow> u64" where
  "subtract_equal l r negative =
     (let el = exponent l; sl = fraction l; sr = fraction r in
      if el = 0x7ff
      then (if sl OR sr \<noteq> 0 then propagate_nan l r else 0xfff8000000000000)
      else if sl = sr then 0
      else
      let (negative, s) = (if sl < sr then (\<not> negative, sr - sl) else (negative, sl - sr));
          el = (if el \<noteq> 0 then el - 1 else el);
          shift = leading_zeros s - 11;
          e = el - shift;
          (shift, e) = (if e < 0 then (el, 0) else (shift, e))
      in pack negative e (push_bit (nat shift) s))"

(* Source: src/include/ascify/binary64_rne_v1.hpp 151-196 subtract_magnitudes *)
definition subtract_magnitudes :: "u64 \<Rightarrow> u64 \<Rightarrow> bool \<Rightarrow> u64" where
  "subtract_magnitudes l r negative =
     (let el = exponent l; er = exponent r; d = el - er in
      if d = 0 then subtract_equal l r negative
      else
      let sl = push_bit 10 (fraction l); sr = push_bit 10 (fraction r) in
      if d < 0 then
        (let negative = (\<not> negative) in
         if er = 0x7ff then (if sr \<noteq> 0 then propagate_nan l r else pack negative 0x7ff 0)
         else
         let sl = sl + (if el \<noteq> 0 then 0x4000000000000000 else sl);
             sl = shift_right_jam sl (nat (- d));
             sr = sr OR 0x4000000000000000
         in normalize_round_pack negative (er - 1) (sr - sl))
      else
        (if el = 0x7ff then (if sl \<noteq> 0 then propagate_nan l r else l)
         else
         let sr = sr + (if er \<noteq> 0 then 0x4000000000000000 else sr);
             sr = shift_right_jam sr (nat d);
             sl = sl OR 0x4000000000000000
         in normalize_round_pack negative (el - 1) (sl - sr)))"

(* Source: src/include/ascify/binary64_rne_v1.hpp 198-202 add_rne_bits *)
definition add_rne_bits :: "u64 \<Rightarrow> u64 \<Rightarrow> u64" where
  "add_rne_bits l r =
     (let negative = sign l
      in if negative = sign r then add_magnitudes l r negative else subtract_magnitudes l r negative)"

end
