(* ===== verification/Rounding.thy ===== *)
theory Rounding
  imports Prelude
begin

text \<open>
  Round to nearest, ties to even, on exact integers: the reference the binary64
  addition is compared with.  Magnitudes are measured in units of \<open>2 ^ -1074\<close>, the
  smallest binary64, so every finite binary64 is an integer.
\<close>

section \<open>The lattice of magnitudes\<close>

text \<open>The magnitude that the packed bits without sign stand for; the exponent may grow
  without bound here.\<close>

definition magnitude :: "nat \<Rightarrow> nat" where
  "magnitude p =
     (if p div 2 ^ 52 = 0 then p mod 2 ^ 52
      else (2 ^ 52 + p mod 2 ^ 52) * 2 ^ (p div 2 ^ 52 - 1))"

text \<open>IEEE 754 roundTiesToEven: no representable magnitude is closer, and of two
  equally close ones the even one is taken.\<close>

definition dist :: "nat \<Rightarrow> nat \<Rightarrow> int" where
  "dist a b = \<bar>int a - int b\<bar>"

definition nearest_even :: "nat \<Rightarrow> nat \<Rightarrow> bool" where
  "nearest_even m r \<longleftrightarrow>
     (\<forall>p. dist (magnitude r) m \<le> dist (magnitude p) m
        \<and> (p \<noteq> r \<and> dist (magnitude p) m = dist (magnitude r) m \<longrightarrow> even r))"

lemma magnitude_small: "p < 2 ^ 53 \<Longrightarrow> magnitude p = p"
proof -
  assume p: "p < 2 ^ 53"
  show ?thesis
  proof (cases "p < 2 ^ 52")
    case True
    then show ?thesis
      by (simp add: magnitude_def)
  next
    case False
    then have "p div 2 ^ 52 = 1"
      using p by (simp add: div_nat_eqI)
    moreover then have "p mod 2 ^ 52 = p - 2 ^ 52"
      using minus_mod_eq_mult_div[of p "2 ^ 52"] by (simp add: modulo_nat_def)
    ultimately show ?thesis
      using False by (simp add: magnitude_def)
  qed
qed

text \<open>A significand of 53 bits above \<open>k\<close> more.\<close>

lemma magnitude_normal:
  assumes "2 ^ 52 \<le> q" and "q \<le> 2 ^ 53"
  shows "magnitude (k * 2 ^ 52 + q) = q * 2 ^ k"
proof (cases "q = 2 ^ 53")
  case True
  have "(k * 2 ^ 52 + 2 ^ 53) div 2 ^ 52 = k + 2" "(k * 2 ^ 52 + 2 ^ 53) mod 2 ^ 52 = (0 :: nat)"
    by (simp_all add: div_add1_eq mod_add_eq[symmetric])
  then show ?thesis
    using True by (simp add: magnitude_def)
next
  case False
  define f where "f = q - 2 ^ 52"
  have f: "q = 2 ^ 52 + f" "f < 2 ^ 52"
    using assms False by (simp_all add: f_def)
  have e: "k * 2 ^ 52 + q = (k + 1) * 2 ^ 52 + f"
    using f by simp
  have "(k * 2 ^ 52 + q) div 2 ^ 52 = k + 1" "(k * 2 ^ 52 + q) mod 2 ^ 52 = f"
    unfolding e using f(2) by (simp_all only: div_mult_self3 mod_mult_self3 div_less mod_less)
  then show ?thesis
    using f by (simp add: magnitude_def)
qed

lemma magnitude_step: "magnitude p < magnitude (Suc p)"
proof (cases "p < 2 ^ 52")
  case True
  then show ?thesis
    using magnitude_small[of p] magnitude_small[of "Suc p"] by simp
next
  case False
  define k where "k = p div 2 ^ 52 - 1"
  define q where "q = 2 ^ 52 + p mod 2 ^ 52"
  have "1 \<le> p div 2 ^ 52"
    using False by (simp add: Suc_le_eq div_greater_zero_iff)
  then have p: "p = k * 2 ^ 52 + q"
    using div_mult_mod_eq[of p "2 ^ 52"] by (simp add: k_def q_def algebra_simps)
  have q: "2 ^ 52 \<le> q" "Suc q \<le> 2 ^ 53"
    by (simp_all add: q_def Suc_le_eq)
  have "magnitude p = q * 2 ^ k"
    unfolding p using q by (intro magnitude_normal) simp_all
  moreover have "magnitude (Suc p) = Suc q * 2 ^ k"
    using magnitude_normal[of "Suc q" k] q unfolding p by simp
  ultimately show ?thesis
    by simp
qed

lemma magnitude_mono: "p < q \<Longrightarrow> magnitude p < magnitude q"
  using lift_Suc_mono_less[of magnitude] magnitude_step by blast

lemma magnitude_le: "p \<le> q \<Longrightarrow> magnitude p \<le> magnitude q"
  using magnitude_mono[of p q] by (cases "p = q") auto

section \<open>Rounding off low bits\<close>

definition rne_shift :: "nat \<Rightarrow> nat \<Rightarrow> nat" where
  "rne_shift k m =
     (let q = m div 2 ^ k; r = m mod 2 ^ k
      in if 2 ^ k < 2 * r \<or> (2 * r = 2 ^ k \<and> odd q) then q + 1 else q)"

lemma rne_shift_0 [simp]: "rne_shift 0 m = m"
  by (simp add: rne_shift_def)

lemma rne_shift_scale: "rne_shift (k + j) (m * 2 ^ j) = rne_shift k m"
proof -
  have "m * 2 ^ j div 2 ^ (k + j) = m div 2 ^ k"
    by (simp add: power_add)
  moreover have "m * 2 ^ j mod 2 ^ (k + j) = m mod 2 ^ k * 2 ^ j"
    by (simp add: power_add mult_mod_left)
  ultimately show ?thesis
    by (simp add: rne_shift_def Let_def power_add)
qed

text \<open>Between two neighbours the midpoint decides.\<close>

lemma nearest_between:
  assumes "magnitude p \<le> m" and "m < magnitude (Suc p)"
    and "r = (if 2 * m < magnitude p + magnitude (Suc p) then p
              else if 2 * m = magnitude p + magnitude (Suc p) \<and> even p then p else Suc p)"
  shows "nearest_even m r"
  unfolding nearest_even_def
proof (intro allI)
  fix x
  have rd: "dist (magnitude r) m = (if r = p then int m - int (magnitude p)
      else int (magnitude (Suc p)) - int m)"
    using assms by (auto simp: dist_def)
  consider "x = p" | "x = Suc p" | "x < p" "magnitude x < magnitude p"
    | "Suc p < x" "magnitude (Suc p) < magnitude x"
    using magnitude_mono by (metis Suc_lessI linorder_neqE_nat)
  then show "dist (magnitude r) m \<le> dist (magnitude x) m
      \<and> (x \<noteq> r \<and> dist (magnitude x) m = dist (magnitude r) m \<longrightarrow> even r)"
    using assms rd by cases (auto simp: dist_def split: if_splits)
qed

section \<open>The reference\<close>

text \<open>The packed result for an exact sum \<open>m\<close>: the bits above the 53 most significant ones
  give the exponent.\<close>

definition rne_pack :: "nat \<Rightarrow> nat \<Rightarrow> nat" where
  "rne_pack k m = k * 2 ^ 52 + rne_shift k m"

lemma rne_pack_nearest:
  assumes "k = 0 \<and> m < 2 ^ 53 \<or> 2 ^ (52 + k) \<le> m \<and> m < 2 ^ (53 + k)"
  shows "nearest_even m (rne_pack k m)"
proof (cases "k = 0 \<and> m < 2 ^ 53")
  case True
  then have "rne_pack k m = m" "magnitude m = m"
    by (simp_all add: rne_pack_def magnitude_small)
  moreover have "magnitude m < magnitude (Suc m)"
    by (rule magnitude_step)
  ultimately show ?thesis
    by (intro nearest_between[of m]) auto
next
  case False
  then have m: "2 ^ (52 + k) \<le> m" "m < 2 ^ (53 + k)"
    using assms by auto
  define q where "q = m div 2 ^ k"
  define r where "r = m mod 2 ^ k"
  have mq: "m = q * 2 ^ k + r" "r < 2 ^ k"
    unfolding q_def r_def by (rule div_mult_mod_eq[symmetric]) simp
  have q: "2 ^ 52 \<le> q" "q < 2 ^ 53"
    using m by (simp_all add: q_def power_add less_eq_div_iff_mult_less_eq div_less_iff_less_mult)
  define p where "p = k * 2 ^ 52 + q"
  have mp: "magnitude p = q * 2 ^ k" "magnitude (Suc p) = Suc q * 2 ^ k"
    using magnitude_normal[of q k] magnitude_normal[of "Suc q" k] q by (simp_all add: p_def)
  have "magnitude p \<le> m" "m < magnitude (Suc p)"
    using mq by (simp_all add: mp)
  moreover have "rne_pack k m = (if 2 * m < magnitude p + magnitude (Suc p) then p
              else if 2 * m = magnitude p + magnitude (Suc p) \<and> even p then p else Suc p)"
  proof -
    have "even p = even q"
      by (simp add: p_def)
    moreover have "2 * m < magnitude p + magnitude (Suc p) \<longleftrightarrow> 2 * r < 2 ^ k"
      "2 * m = magnitude p + magnitude (Suc p) \<longleftrightarrow> 2 * r = 2 ^ k"
      unfolding mp by (subst mq, simp)+
    ultimately show ?thesis
      by (auto simp: rne_pack_def rne_shift_def Let_def q_def[symmetric] r_def[symmetric] p_def)
  qed
  ultimately show ?thesis
    by (rule nearest_between)
qed

text \<open>A magnitude is rounded to one value only.\<close>

lemma nearest_unique:
  assumes "nearest_even m r" and "nearest_even m s"
  shows "r = s"
proof (rule ccontr)
  assume n: "r \<noteq> s"
  have d: "dist (magnitude r) m = dist (magnitude s) m"
    using assms unfolding nearest_even_def by (meson order_antisym)
  have e: "even r" "even s"
    using assms n d unfolding nearest_even_def by metis+
  have mid: False if "a < b" "dist (magnitude a) m = dist (magnitude b) m" "nearest_even m a"
      "even a" "even b" for a b
  proof -
    have "Suc a < b"
      using that(1,4,5) by (metis Suc_lessI even_Suc)
    then have "magnitude a < magnitude (Suc a)" "magnitude (Suc a) < magnitude b"
      using magnitude_mono by simp_all
    moreover have "dist (magnitude a) m \<le> dist (magnitude (Suc a)) m"
      using that(3) by (simp add: nearest_even_def)
    ultimately show False
      using that(2) by (simp add: dist_def abs_if split: if_splits)
  qed
  show False
    using mid[of r s] mid[of s r] n d e assms by (metis linorder_neqE_nat)
qed

section \<open>Sticky bits\<close>

text \<open>\<open>agrees g n x y\<close>: seen from the multiples of \<open>g\<close>, the number \<open>y\<close> lies where
  \<open>x / 2 ^ n\<close> does.\<close>

definition agrees :: "nat \<Rightarrow> nat \<Rightarrow> nat \<Rightarrow> nat \<Rightarrow> bool" where
  "agrees g n x y \<longleftrightarrow>
     (\<forall>c. (x < c * g * 2 ^ n \<longleftrightarrow> y < c * g) \<and> (c * g * 2 ^ n < x \<longleftrightarrow> c * g < y))"

definition jam :: "nat \<Rightarrow> nat \<Rightarrow> nat" where
  "jam n x = (if x mod 2 ^ n = 0 \<or> odd (x div 2 ^ n) then x div 2 ^ n else x div 2 ^ n + 1)"

lemma agrees_exact: "agrees g n (y * 2 ^ n) y"
  by (simp add: agrees_def)

lemma agrees_multiple:
  assumes "agrees g n x y"
  shows "agrees (g * h) n x y"
  unfolding agrees_def
proof
  fix c
  show "(x < c * (g * h) * 2 ^ n) = (y < c * (g * h)) \<and> (c * (g * h) * 2 ^ n < x) = (c * (g * h) < y)"
    using assms[unfolded agrees_def, rule_format, of "c * h"] by (simp add: ac_simps)
qed

lemma agrees_jam: "agrees 2 n x (jam n x)"
proof -
  define q where "q = x div 2 ^ n"
  define r where "r = x mod 2 ^ n"
  have x: "x = q * 2 ^ n + r" "r < 2 ^ n"
    unfolding q_def r_def by (rule div_mult_mod_eq[symmetric]) simp
  have j: "jam n x = (if r = 0 \<or> odd q then q else q + 1)"
    by (simp add: jam_def q_def r_def)
  have lt: "x < c * 2 ^ n \<longleftrightarrow> q < c" for c
  proof
    assume "x < c * 2 ^ n"
    then have "q * 2 ^ n < c * 2 ^ n"
      using x(1) by linarith
    then show "q < c"
      by simp
  next
    assume "q < c"
    then have "Suc q * 2 ^ n \<le> c * 2 ^ n"
      by (intro mult_le_mono1) simp
    then show "x < c * 2 ^ n"
      using x by simp
  qed
  have gt: "c * 2 ^ n < x \<longleftrightarrow> c < q \<or> (c = q \<and> r \<noteq> 0)" for c
    using lt[of "Suc c"] lt[of c] x by (cases "c = q") (auto simp: not_less le_less)
  show ?thesis
    unfolding agrees_def
  proof (intro allI conjI)
    fix c
    show "(x < c * 2 * 2 ^ n) = (jam n x < c * 2)"
      unfolding lt j by (auto elim!: oddE evenE)
    show "(c * 2 * 2 ^ n < x) = (c * 2 < jam n x)"
      unfolding gt j by (cases "r = 0"; cases "odd q"; simp; presburger)
  qed
qed

lemma jam_exact: "jam n (y * 2 ^ n) = y"
  by (simp add: jam_def)

lemma jam_le:
  assumes "0 < n" and "x \<le> 2 ^ Suc k"
  shows "jam n x \<le> 2 ^ k"
proof -
  obtain j where j: "n = Suc j"
    using assms(1) by (cases n) auto
  have "x div 2 ^ n * 2 ^ n \<le> 2 ^ k * 2 ^ 1"
    using assms(2) order_trans[OF div_times_less_eq_dividend] by simp
  have "x div 2 ^ n \<le> x div 2"
    unfolding j by (simp add: div_mult2_eq)
  also have "\<dots> \<le> 2 ^ k"
    using assms(2) by simp
  finally have d: "x div 2 ^ n \<le> 2 ^ k" .
  show ?thesis
  proof (cases "x div 2 ^ n = 2 ^ k")
    case True
    then have "2 ^ k * 2 ^ n + x mod 2 ^ n = x"
      using div_mult_mod_eq[of x "2 ^ n"] by simp
    moreover have "2 ^ Suc k \<le> (2 :: nat) ^ k * 2 ^ n"
      by (simp add: j)
    ultimately have "x mod 2 ^ n = 0"
      using assms(2) by linarith
    then show ?thesis
      using d by (simp add: jam_def)
  next
    case False
    then show ?thesis
      using d by (simp add: jam_def)
  qed
qed

lemma agreesD:
  assumes "agrees g n x y" and "g dvd a"
  shows "x < a * 2 ^ n \<longleftrightarrow> y < a" "a * 2 ^ n < x \<longleftrightarrow> a < y"
        "x = a * 2 ^ n \<longleftrightarrow> y = a"
proof -
  obtain c where c: "a = c * g"
    using assms(2) by (metis dvdE mult.commute)
  show 1: "x < a * 2 ^ n \<longleftrightarrow> y < a" and 2: "a * 2 ^ n < x \<longleftrightarrow> a < y"
    using assms(1) by (simp_all add: agrees_def c)
  show "x = a * 2 ^ n \<longleftrightarrow> y = a"
    using 1 2 by auto
qed

lemma agrees_add:
  assumes "agrees g n x y" and "g dvd b"
  shows "agrees g n (x + b * 2 ^ n) (y + b)"
  unfolding agrees_def
proof
  fix c
  obtain h where h: "b = h * g"
    using assms(2) by (metis dvdE mult.commute)
  show "(x + b * 2 ^ n < c * g * 2 ^ n) = (y + b < c * g)
      \<and> (c * g * 2 ^ n < x + b * 2 ^ n) = (c * g < y + b)"
  proof (cases "h \<le> c")
    case True
    then obtain e where e: "c = e + h"
      by (metis add.commute le_Suc_ex)
    show ?thesis
      using assms(1)[unfolded agrees_def, rule_format, of e] by (simp add: e h algebra_simps)
  next
    case False
    then obtain e where e: "h = e + c" "0 < e"
      by (metis add.commute le_Suc_ex nat_le_linear add_0 gr0I)
    show ?thesis
    proof (cases "g = 0")
      case False
      then have "0 < e * g * 2 ^ n" "0 < e * g"
        using e(2) by simp_all
      then show ?thesis
        by (simp add: e(1) h algebra_simps)
    qed (use assms(1) in \<open>simp add: h agrees_def\<close>)
  qed
qed

lemma agrees_diff:
  assumes "agrees g n x y" and "g dvd b" and "0 < g" and "x \<le> b * 2 ^ n"
  shows "agrees g n (b * 2 ^ n - x) (b - y)" and "y \<le> b"
proof -
  show yb: "y \<le> b"
    using agreesD(2)[OF assms(1,2)] assms(4) by (simp add: not_less[symmetric])
  show "agrees g n (b * 2 ^ n - x) (b - y)"
    unfolding agrees_def
  proof
    fix c
    show "(b * 2 ^ n - x < c * g * 2 ^ n) = (b - y < c * g)
        \<and> (c * g * 2 ^ n < b * 2 ^ n - x) = (c * g < b - y)"
    proof (cases "c * g \<le> b")
      case True
      have d: "g dvd (b - c * g)"
        using assms(2) by (simp add: dvd_diff_nat)
      have "b * 2 ^ n = (b - c * g) * 2 ^ n + c * g * 2 ^ n"
        using True by (metis add_mult_distrib le_add_diff_inverse2)
      then show ?thesis
        using agreesD[OF assms(1) d] assms(4) yb True by auto
    next
      case False
      then have "b * 2 ^ n < c * g * 2 ^ n" "b < c * g"
        by simp_all
      moreover have "b * 2 ^ n - x \<le> b * 2 ^ n" "b - y \<le> b"
        by simp_all
      ultimately have "b * 2 ^ n - x < c * g * 2 ^ n" "b - y < c * g"
        by (blast intro: le_less_trans)+
      then show ?thesis
        by (blast dest: less_asym)
    qed
  qed
qed

lemma agrees_scale: "agrees g n x y \<Longrightarrow> agrees (g * 2 ^ s) n (x * 2 ^ s) (y * 2 ^ s)"
proof -
  assume a: "agrees g n x y"
  have "(x * 2 ^ s < c * (g * 2 ^ s) * 2 ^ n) = (y * 2 ^ s < c * (g * 2 ^ s))
      \<and> (c * (g * 2 ^ s) * 2 ^ n < x * 2 ^ s) = (c * (g * 2 ^ s) < y * 2 ^ s)" for c
  proof -
    have e: "c * (g * 2 ^ s) * 2 ^ n = c * g * 2 ^ n * 2 ^ s" "c * (g * 2 ^ s) = c * g * 2 ^ s"
      by simp_all
    show ?thesis
      unfolding e mult_less_cancel2 using a[unfolded agrees_def, rule_format, of c]
      by (simp add: mult.assoc)
  qed
  then show ?thesis
    unfolding agrees_def by blast
qed

lemma agrees_trans:
  assumes "agrees g n x y" and "agrees h d y z" and "g dvd h * 2 ^ d"
  shows "agrees h (n + d) x z"
  unfolding agrees_def
proof
  fix c
  have d: "g dvd c * h * 2 ^ d"
    using assms(3) by (simp add: mult.assoc)
  show "(x < c * h * 2 ^ (n + d)) = (z < c * h) \<and> (c * h * 2 ^ (n + d) < x) = (c * h < z)"
    using agreesD(1,2)[OF assms(1) d] assms(2)[unfolded agrees_def, rule_format, of c]
    by (simp add: power_add ac_simps)
qed

section \<open>Rounding what agrees\<close>

lemma rne_shift_between:
  assumes "q * 2 ^ Suc k \<le> m" and "m < Suc q * 2 ^ Suc k"
  shows "rne_shift (Suc k) m =
     (if (2 * q + 1) * 2 ^ k < m \<or> ((2 * q + 1) * 2 ^ k = m \<and> odd q) then q + 1 else q)"
proof -
  have q: "m div 2 ^ Suc k = q"
    using assms by (intro div_nat_eqI) (simp_all add: mult.commute)
  define r where "r = m mod 2 ^ Suc k"
  have r: "m = q * 2 ^ Suc k + r"
    unfolding r_def using div_mult_mod_eq[of m "2 ^ Suc k"] q by simp
  have e: "(2 * q + 1) * 2 ^ k = q * 2 ^ Suc k + 2 ^ k"
    by (simp add: algebra_simps)
  have "2 ^ Suc k < 2 * r \<longleftrightarrow> (2 * q + 1) * 2 ^ k < m"
    "2 * r = 2 ^ Suc k \<longleftrightarrow> (2 * q + 1) * 2 ^ k = m"
    unfolding e by (auto simp: r)
  then show ?thesis
    unfolding rne_shift_def Let_def q r_def[symmetric] by (simp only:)
qed

lemma rne_shift_agrees:
  assumes "agrees g n x y" and "g dvd 2 ^ k"
  shows "rne_shift (n + Suc k) x = rne_shift (Suc k) y"
proof -
  define q where "q = y div 2 ^ Suc k"
  have y: "q * 2 ^ Suc k \<le> y" "y < Suc q * 2 ^ Suc k"
    unfolding q_def by (rule div_times_less_eq_dividend)
      (simp only: mult_Suc dividend_less_div_times zero_less_power zero_less_numeral)
  have d: "g dvd q * 2 ^ Suc k" "g dvd Suc q * 2 ^ Suc k" "g dvd (2 * q + 1) * 2 ^ k"
    using assms(2) by (auto intro: dvd_mult)
  have x: "q * 2 ^ (Suc k + n) \<le> x" "x < Suc q * 2 ^ (Suc k + n)"
    using agreesD(1)[OF assms(1) d(1)] agreesD(1)[OF assms(1) d(2)] y
    by (simp_all only: power_add mult.assoc not_less[symmetric] simp_thms)
  have "rne_shift (Suc (k + n)) x =
     (if (2 * q + 1) * 2 ^ (k + n) < x \<or> ((2 * q + 1) * 2 ^ (k + n) = x \<and> odd q) then q + 1 else q)"
    using x by (intro rne_shift_between) simp_all
  moreover have "(2 * q + 1) * 2 ^ (k + n) < x \<longleftrightarrow> (2 * q + 1) * 2 ^ k < y"
    "(2 * q + 1) * 2 ^ (k + n) = x \<longleftrightarrow> (2 * q + 1) * 2 ^ k = y"
    using agreesD(2,3)[OF assms(1) d(3)] by (simp_all only: power_add mult.assoc eq_commute)
  ultimately show ?thesis
    using rne_shift_between[OF y] by (simp add: add.commute)
qed

lemma jam_le2:
  assumes "2 \<le> n" and "x < 2 ^ Suc (Suc k)"
  shows "jam n x \<le> 2 ^ k"
proof -
  have "x div 2 ^ n \<le> x div 2 ^ 2"
    using assms(1) by (intro div_le_mono2 power_increasing) simp_all
  also have "\<dots> < 2 ^ k"
    using assms(2) by (simp add: less_mult_imp_div_less mult.commute)
  finally show ?thesis
    by (simp add: jam_def)
qed

text \<open>Rounding the sticky approximation of a scaled exact sum is rounding the sum.\<close>

lemma rounding_correct:
  assumes "agrees g n x y" and "g dvd 2 ^ 9" and "m * 2 ^ (n + 10) = x * 2 ^ k"
    and "y < 2 ^ 63" and "k = 0 \<or> 2 ^ 62 \<le> y"
  shows "nearest_even m (rne_pack k m)" and "rne_pack k m = k * 2 ^ 52 + rne_shift 10 y"
proof -
  have "rne_shift k m = rne_shift (k + (n + 10)) (x * 2 ^ k)"
    using rne_shift_scale[of k "n + 10" m] assms(3) by simp
  also have "\<dots> = rne_shift (n + Suc 9) x"
    using rne_shift_scale[of "n + 10" k x] by (simp add: add.commute)
  also have "\<dots> = rne_shift 10 y"
    using rne_shift_agrees[OF assms(1,2)] by simp
  finally show "rne_pack k m = k * 2 ^ 52 + rne_shift 10 y"
    by (simp add: rne_pack_def)
  have g: "g dvd 2 ^ 63" "g dvd 2 ^ 62"
    using assms(2) by (auto intro: dvd_trans[OF assms(2)] le_imp_power_dvd)
  have up: "x < 2 ^ 63 * 2 ^ n"
    using agreesD(1)[OF assms(1) g(1)] assms(4) by simp
  then have "m * 2 ^ (n + 10) < 2 ^ 63 * 2 ^ n * 2 ^ k"
    using assms(3) by simp
  then have "m * (2 ^ n * 2 ^ 10) < 2 ^ 53 * 2 ^ k * (2 ^ n * 2 ^ 10)"
    by (simp add: power_add)
  then have m: "m < 2 ^ (53 + k)"
    by (simp only: mult_less_cancel2 power_add)
  have low: "2 ^ (52 + k) \<le> m" if "2 ^ 62 \<le> y"
  proof -
    have "2 ^ 62 * 2 ^ n \<le> x"
      using agreesD(1)[OF assms(1) g(2)] that by (simp add: not_less[symmetric])
    then have "2 ^ 62 * 2 ^ n * 2 ^ k \<le> m * 2 ^ (n + 10)"
      using assms(3) by simp
    then have "2 ^ 52 * 2 ^ k * (2 ^ n * 2 ^ 10) \<le> m * (2 ^ n * 2 ^ 10)"
      by (simp add: power_add)
    then show ?thesis
      by (simp only: mult_le_cancel2 power_add) simp
  qed
  show "nearest_even m (rne_pack k m)"
    using m low assms(5) by (intro rne_pack_nearest) auto
qed

end
