(* ===== verification/Binary64_Words.thy ===== *)
theory Binary64_Words
  imports Binary64 Rounding
begin

unbundle bit_operations_syntax

text \<open>
  What the word operations of \<open>Binary64\<close> do to the numbers the words stand for:
  the fields of a packed value, shifts that lose no bit, the sticky shift and the
  rounding of ten bits, each as a function on naturals of theory \<open>Rounding\<close>.
\<close>

section \<open>Words as numbers\<close>

lemma unat_u64_less: "unat (w :: u64) < 2 ^ 64"
  using unsigned_less[of w, where 'a = nat] by simp

lemma unat_push_u64: "unat (w :: u64) * 2 ^ n < 2 ^ 64 \<Longrightarrow> unat (push_bit n w) = unat w * 2 ^ n"
  unfolding unsigned_push_bit_eq by (simp add: push_bit_eq_mult take_bit_nat_eq_self)

lemma unat_drop_u64: "unat (drop_bit n (w :: u64)) = unat w div 2 ^ n"
  unfolding unsigned_drop_bit_eq using unat_u64_less[of w]
  by (simp add: drop_bit_eq_div take_bit_nat_eq_self)

lemma unat_add_u64: "unat a + unat b < 2 ^ 64 \<Longrightarrow> unat (a + b :: u64) = unat a + unat b"
  by (simp add: unat_word_ariths take_bit_nat_eq_self)

lemma unat_mask_u64: "unat (w AND mask n :: u64) = unat w mod 2 ^ n"
  unfolding take_bit_eq_mask[symmetric] unsigned_take_bit_eq by (simp add: take_bit_eq_mod)

lemma mask_52: "(0x000fffffffffffff :: u64) = mask 52"
  and mask_10: "(0x3ff :: u64) = mask 10"
  and mask_11: "(0x7ff :: u64) = mask 11"
  by (simp_all add: mask_eq_exp_minus_1)

section \<open>The fields\<close>

definition bexp :: "u64 \<Rightarrow> nat" where
  "bexp v = unat v div 2 ^ 52 mod 2048"

definition bfrac :: "u64 \<Rightarrow> nat" where
  "bfrac v = unat v mod 2 ^ 52"

lemma exponent_bexp: "exponent v = int (bexp v)"
proof -
  have "uint (drop_bit 52 v AND 0x7ff) = int (unat (drop_bit 52 v AND mask 11))"
    unfolding mask_11 by simp
  then show ?thesis
    unfolding exponent_def unat_mask_u64 unat_drop_u64 by (simp add: bexp_def)
qed

lemma unat_fraction: "unat (fraction v) = bfrac v"
  unfolding fraction_def mask_52 bfrac_def by (rule unat_mask_u64)

lemma sign_unat: "sign v \<longleftrightarrow> 2 ^ 63 \<le> unat v"
proof -
  have "sign v \<longleftrightarrow> unat (drop_bit 63 v) \<noteq> 0"
    unfolding sign_def by (simp add: unat_eq_zero)
  also have "\<dots> \<longleftrightarrow> 2 ^ 63 \<le> unat v"
    unfolding unat_drop_u64 by (simp add: div_eq_0_iff not_less)
  finally show ?thesis .
qed

lemma bits_split: "unat v = of_bool (sign v) * 2 ^ 63 + bexp v * 2 ^ 52 + bfrac v"
proof -
  have "unat v div 2 ^ 52 div 2048 = unat v div 2 ^ 63"
    by (simp add: div_mult2_eq[symmetric])
  also have "\<dots> = of_bool (sign v)"
    using unat_u64_less[of v] by (auto simp: sign_unat div_nat_eqI)
  finally have "unat v div 2 ^ 52 = of_bool (sign v) * 2048 + bexp v"
    using div_mult_mod_eq[of "unat v div 2 ^ 52" 2048] by (simp add: bexp_def)
  then have "unat v = (of_bool (sign v) * 2048 + bexp v) * 2 ^ 52 + bfrac v"
    using div_mult_mod_eq[of "unat v" "2 ^ 52"] by (metis bfrac_def)
  also have "(s * 2048 + e) * 2 ^ 52 + f = s * 2 ^ 63 + e * 2 ^ 52 + f" for s e f :: nat
    by simp
  finally show ?thesis .
qed

lemma bfrac_less: "bfrac v < 2 ^ 52" and bexp_less: "bexp v < 2048"
  by (simp_all add: bfrac_def bexp_def)

lemma word_eq_unat: "(v :: u64) = w \<longleftrightarrow> unat v = unat w"
  by (simp add: word_unat_eq_iff)

lemma unat_pack:
  assumes "e * 2 ^ 52 + unat s < 2 ^ 63"
  shows "unat (pack negative (int e) s) = of_bool negative * 2 ^ 63 + (e * 2 ^ 52 + unat s)"
proof -
  have e: "e < 2 ^ 11"
    using assms by simp
  then have 1: "unat (word_of_nat e :: u64) = e"
    using take_bit_nat_eq_self[of e 64] by (simp add: unsigned_of_nat)
  have 2: "unat (push_bit 52 (word_of_int (int e) :: u64)) = e * 2 ^ 52"
    using e by (subst unat_push_u64) (simp_all add: 1 del: push_bit_word_beyond)
  have 3: "unat (push_bit 63 (of_bool negative) :: u64) = of_bool negative * 2 ^ 63"
    by (cases negative) simp_all
  have 4: "unat (push_bit 63 (of_bool negative) + push_bit 52 (word_of_int (int e)) :: u64)
      = of_bool negative * 2 ^ 63 + e * 2 ^ 52"
    using e by (subst unat_add_u64) (simp_all only: 2 3, cases negative, simp_all)
  show ?thesis
    unfolding pack_def using assms by (subst unat_add_u64) (simp_all only: 4, cases negative, simp_all)
qed

section \<open>Shifts\<close>

lemma unat_shift_right_jam: "unat (shift_right_jam v d) = jam d (unat v)"
proof (cases "d = 0 \<or> 64 \<le> d")
  case True
  then show ?thesis
  proof
    assume d: "64 \<le> d"
    have "unat v < 2 ^ d"
      using unat_u64_less[of v] power_increasing[OF d, of "2 :: nat"] by linarith
    then show ?thesis
      using d by (auto simp: shift_right_jam_def jam_def unat_eq_zero)
  qed (simp add: shift_right_jam_def jam_def)
next
  case False
  have low: "push_bit (64 - d) v \<noteq> 0 \<longleftrightarrow> unat v mod 2 ^ d \<noteq> 0"
  proof -
    have "push_bit (64 - d) v = 0 \<longleftrightarrow> unat v * 2 ^ (64 - d) mod 2 ^ 64 = 0"
      unfolding word_eq_unat unsigned_push_bit_eq by (simp add: push_bit_eq_mult take_bit_eq_mod)
    also have "(2 :: nat) ^ 64 = 2 ^ d * 2 ^ (64 - d)"
      using False by (simp flip: power_add)
    finally show ?thesis
      by (simp only: mult_mod_left mod_mult_self2) simp
  qed
  have "unat (drop_bit d v OR 1) = unat v div 2 ^ d + of_bool (even (unat v div 2 ^ d))"
  proof -
    have "unat (drop_bit d v OR 1) = unat (drop_bit d v) OR 1"
      by (simp add: unsigned_or_eq)
    then show ?thesis
      by (simp only: unat_drop_u64 or_one_eq)
  qed
  then show ?thesis
    using False low by (auto simp: shift_right_jam_def jam_def unat_drop_u64)
qed

text \<open>The six tests of \<open>leading_zeros\<close> are one step each: with the top \<open>64 - k\<close> bits clear,
  count \<open>j\<close> and shift.\<close>

definition lz_step :: "nat \<Rightarrow> nat \<Rightarrow> int \<times> u64 \<Rightarrow> int \<times> u64" where
  "lz_step k j cw =
     (if drop_bit k (snd cw) = 0 then (fst cw + int j, push_bit j (snd cw)) else cw)"

lemma lz_step_fold:
  "(if drop_bit k (snd cw) = 0 then (fst cw + numeral n, push_bit (numeral n) (snd cw)) else cw)
   = lz_step k (numeral n) cw"
  by (simp add: lz_step_def)

lemma lz_step_last:
  "(if drop_bit k (snd cw) = 0 then fst cw + 1 else fst cw) = fst (lz_step k 1 cw)"
  by (simp add: lz_step_def)

definition aligned :: "u64 \<Rightarrow> nat \<Rightarrow> int \<times> u64 \<Rightarrow> bool" where
  "aligned v t cw =
     (0 \<le> fst cw \<and> fst cw \<le> int t \<and> unat (snd cw) = unat v * 2 ^ nat (fst cw) \<and> 2 ^ t \<le> unat (snd cw))"

lemma aligned_step:
  assumes "aligned v t cw" and "t + 2 * j = 64"
  shows "aligned v (t + j) (lz_step (t + j) j cw)"
proof -
  define w where "w = snd cw"
  have z: "drop_bit (t + j) w = 0 \<longleftrightarrow> unat w < 2 ^ (t + j)"
    by (simp only: word_eq_unat unat_drop_u64) (simp add: div_eq_0_iff)
  show ?thesis
  proof (cases "unat w < 2 ^ (t + j)")
    case True
    then have "unat w * 2 ^ j < 2 ^ (t + j) * 2 ^ j"
      by simp
    also have "(2 :: nat) ^ (t + j) * 2 ^ j = 2 ^ 64"
      unfolding power_add[symmetric] using assms(2) by (simp add: add.assoc mult_2[symmetric])
    finally have "unat (push_bit j w) = unat w * 2 ^ j"
      by (rule unat_push_u64)
    then show ?thesis
      using assms(1) True by (simp add: z aligned_def lz_step_def nat_add_distrib power_add flip: w_def)
  next
    case False
    then show ?thesis
      using assms(1) by (simp add: z aligned_def lz_step_def flip: w_def)
  qed
qed

lemma leading_zeros_spec:
  assumes "v \<noteq> 0"
  obtains c where "leading_zeros v = int c" "c \<le> 63"
    "2 ^ 63 \<le> unat v * 2 ^ c" "unat v * 2 ^ c < 2 ^ 64"
proof -
  define cw where
    "cw = lz_step 63 1 (lz_step 62 2 (lz_step 60 4 (lz_step 56 8 (lz_step 48 16 (lz_step 32 32 (0, v))))))"
  have "aligned v 0 (0, v)"
    using assms by (simp add: aligned_def Suc_le_eq unat_gt_0)
  from aligned_step[OF this, of 32] have "aligned v 32 (lz_step 32 32 (0, v))"
    by simp
  from aligned_step[OF this, of 16] have "aligned v 48 (lz_step 48 16 (lz_step 32 32 (0, v)))"
    by simp
  from aligned_step[OF this, of 8]
  have "aligned v 56 (lz_step 56 8 (lz_step 48 16 (lz_step 32 32 (0, v))))"
    by simp
  from aligned_step[OF this, of 4]
  have "aligned v 60 (lz_step 60 4 (lz_step 56 8 (lz_step 48 16 (lz_step 32 32 (0, v)))))"
    by simp
  from aligned_step[OF this, of 2]
  have "aligned v 62 (lz_step 62 2 (lz_step 60 4 (lz_step 56 8 (lz_step 48 16 (lz_step 32 32 (0, v))))))"
    by simp
  from aligned_step[OF this, of 1] have a: "aligned v 63 cw"
    by (simp add: cw_def)
  have 32: "(if drop_bit 32 v = 0 then (32, push_bit 32 v) else (0, v)) = lz_step 32 32 (0, v)"
    by (simp add: lz_step_def)
  have "leading_zeros v = fst cw"
    using assms unfolding leading_zeros_def cw_def 32 Let_def
    by (simp only: if_False split_def prod.collapse lz_step_fold lz_step_last)
  with a show thesis
    using unat_u64_less[of "snd cw"] by (intro that[of "nat (fst cw)"]) (simp_all add: aligned_def nat_le_iff)
qed

end
