(* ===== verification/Binary64_Rounding.thy ===== *)
theory Binary64_Rounding
  imports Binary64_Words
begin

unbundle bit_operations_syntax

text \<open>
  \<open>round_pack\<close> and \<open>normalize_round_pack\<close> round a sticky significand as the
  reference of theory \<open>Rounding\<close> rounds the exact number it stands for.
\<close>

section \<open>Ten bits off\<close>

lemma unat_clear_low: "unat (w AND NOT 1 :: u64) = unat w div 2 * 2"
proof -
  have "w AND NOT 1 = push_bit 1 (drop_bit 1 w)"
    by (rule bit_word_eqI)
      (auto simp only: bit_and_iff bit_not_iff bit_push_bit_iff bit_drop_bit_eq bit_1_iff o_def
        le_add_diff_inverse possible_bit_word not_less_eq_eq)
  moreover have "unat w div 2 * 2 < 2 ^ 64"
    using unat_u64_less[of w] by linarith
  ultimately show ?thesis
    using unat_push_u64[of "drop_bit 1 w" 1] by (simp only: unat_drop_u64 power_one_right)
qed

lemma power2_10: "(2 :: nat) ^ 10 = 1024"
  by simp

lemma rne_shift_10_split:
  assumes "r < 1024"
  shows "rne_shift 10 (q * 1024 + r) =
    (if r = 512 then (q + 1) div 2 * 2 else (q * 1024 + r + 512) div 1024)"
proof -
  have d: "(q * 1024 + r) div 1024 = q" "(q * 1024 + r) mod 1024 = r"
    using assms by simp_all
  consider "r < 512" | "r = 512" | "512 < r"
    by linarith
  then show ?thesis
  proof cases
    case 1
    then have "(q * 1024 + r + 512) div 1024 = q"
      by (intro div_nat_eqI) simp_all
    then show ?thesis
      using 1 by (simp only: rne_shift_def Let_def power2_10 d) simp
  next
    case 2
    have "rne_shift 10 (q * 1024 + r) = (if odd q then q + 1 else q)"
      using 2 by (simp only: rne_shift_def Let_def power2_10 d) simp
    also have "\<dots> = (q + 1) div 2 * 2"
      by presburger
    finally show ?thesis
      using 2 by (simp only: if_True simp_thms)
  next
    case 3
    then have "(q * 1024 + r + 512) div 1024 = q + 1"
      using assms by (intro div_nat_eqI) simp_all
    then show ?thesis
      using 3 by (simp only: rne_shift_def Let_def power2_10 d) simp
  qed
qed

lemma rne_shift_10:
  "rne_shift 10 s =
     (let t = (s + 512) div 1024 in if s mod 1024 = 512 then t div 2 * 2 else t)"
proof -
  obtain q r where s: "s = q * 1024 + r" and r: "r < 1024"
    by (metis div_mult_mod_eq mod_less_divisor zero_less_numeral)
  have "(q * 1024 + r) mod 1024 = r"
    using r by simp
  moreover have "(q * 1024 + r + 512) div 1024 = q + 1" if "r = 512"
    using that by (intro div_nat_eqI) simp_all
  ultimately show ?thesis
    unfolding s rne_shift_10_split[OF r] Let_def by (cases "r = 512") (simp_all only: if_True if_False)
qed

lemma rne_shift_10_range:
  assumes "s < 2 ^ 63"
  shows "rne_shift 10 s \<le> 2 ^ 53"
    and "2 ^ 62 \<le> s \<Longrightarrow> 2 ^ 52 \<le> rne_shift 10 s"
    and "rne_shift 10 s = 2 ^ 53 \<longleftrightarrow> 2 ^ 63 \<le> s + 512"
proof -
  define t where "t = (s + 512) div 1024"
  have b: "t * 1024 \<le> s + 512" "s + 512 < (t + 1) * 1024"
    unfolding t_def by simp_all
  have r: "rne_shift 10 s = t \<or> rne_shift 10 s = t div 2 * 2"
    by (auto simp: rne_shift_10 t_def Let_def)
  have t: "t \<le> 2 ^ 53" "2 ^ 62 \<le> s \<Longrightarrow> 2 ^ 52 \<le> t" "2 ^ 63 \<le> s + 512 \<Longrightarrow> 2 ^ 53 \<le> t"
    using assms b by simp_all
  have t2: "t = 2 ^ 53 \<Longrightarrow> 2 ^ 63 \<le> s + 512"
    using b(1) by simp
  show "rne_shift 10 s \<le> 2 ^ 53"
    using r t(1) by (auto intro: order_trans[OF div_times_less_eq_dividend])
  show "2 ^ 52 \<le> rne_shift 10 s" if "2 ^ 62 \<le> s"
    using r t(2)[OF that] by auto
  have "t div 2 * 2 = 2 ^ 53 \<longleftrightarrow> t = 2 ^ 53"
    using t(1) by auto
  then have "rne_shift 10 s = 2 ^ 53 \<longleftrightarrow> t = 2 ^ 53"
    using r by metis
  also have "\<dots> \<longleftrightarrow> 2 ^ 63 \<le> s + 512"
    using t(1,3) t2 by (blast intro: antisym)
  finally show "rne_shift 10 s = 2 ^ 53 \<longleftrightarrow> 2 ^ 63 \<le> s + 512" .
qed

lemma unat_rounded:
  fixes s :: u64
  assumes "unat s < 2 ^ 63"
  shows "unat (let t = drop_bit 10 (s + 0x200)
          in if s AND 0x3ff = 0x200 then t AND NOT 1 else t) = rne_shift 10 (unat s)"
proof -
  have a: "unat (s + 0x200) = unat s + 512"
    using assms unat_add_u64[of s "0x200"] by simp
  have t: "s AND 0x3ff = 0x200 \<longleftrightarrow> unat s mod 1024 = 512"
    unfolding word_eq_unat mask_10 unat_mask_u64 by simp
  show ?thesis
    unfolding Let_def rne_shift_10 t if_distrib[of unat] unat_clear_low unat_drop_u64 a by simp
qed

text \<open>The bits of a result: the sign, and the packed magnitude or infinity.\<close>

definition packed :: "bool \<Rightarrow> nat \<Rightarrow> nat" where
  "packed negative p = of_bool negative * 2 ^ 63 + min (2047 * 2 ^ 52) p"

lemma unat_round_bits_off:
  assumes "unat s < 2 ^ 63" and "e = 0 \<or> 2 ^ 62 \<le> unat s"
    and "e * 2 ^ 52 + rne_shift 10 (unat s) < 2 ^ 63"
  shows "unat (round_bits_off negative (int e) s (s AND 0x3ff))
    = of_bool negative * 2 ^ 63 + (e * 2 ^ 52 + rne_shift 10 (unat s))"
proof -
  define t where "t = (let t = drop_bit 10 (s + 0x200) in if s AND 0x3ff = 0x200 then t AND NOT 1 else t)"
  have u: "unat t = rne_shift 10 (unat s)"
    unfolding t_def by (rule unat_rounded[OF assms(1)])
  have z: "t = 0 \<Longrightarrow> e = 0"
    using assms(2) rne_shift_10_range(2)[OF assms(1)] u by auto
  have "round_bits_off negative (int e) s (s AND 0x3ff) = pack negative (if t = 0 then 0 else int e) t"
    unfolding round_bits_off_def t_def Let_def by (rule refl)
  also have "\<dots> = pack negative (int e) t"
    using z by auto
  finally show ?thesis
    using unat_pack[of e t negative] assms(3) u by simp
qed

lemma unat_infinity: "unat (pack negative 0x7ff 0) = packed negative p" if "2047 * 2 ^ 52 \<le> p"
  using unat_pack[of 2047 0 negative] that by (simp add: packed_def)

lemma unat_round_pack:
  assumes "unat s < 2 ^ 63" and "k = 0 \<or> 2 ^ 62 \<le> unat s" and "k \<le> 2046"
  shows "unat (round_pack negative (int k) s) = packed negative (k * 2 ^ 52 + rne_shift 10 (unat s))"
proof -
  let ?p = "k * 2 ^ 52 + rne_shift 10 (unat s)"
  have up: "0x8000000000000000 \<le> s + 0x200 \<longleftrightarrow> rne_shift 10 (unat s) = 2 ^ 53"
    using assms(1) unat_add_u64[of s "0x200"] rne_shift_10_range(3)[OF assms(1)]
    by (simp add: word_le_nat_alt)
  have inf: "int k > 0x7fd \<or> (int k = 0x7fd \<and> 0x8000000000000000 \<le> s + 0x200) \<longleftrightarrow> 2047 * 2 ^ 52 \<le> ?p"
    unfolding up using assms rne_shift_10_range(1,2)[OF assms(1)] by auto
  have rp: "round_pack negative (int k) s = (if 2047 * 2 ^ 52 \<le> ?p then pack negative 0x7ff 0
      else round_bits_off negative (int k) s (s AND 0x3ff))"
    unfolding round_pack_def inf by simp
  show ?thesis
  proof (cases "2047 * 2 ^ 52 \<le> ?p")
    case True
    then show ?thesis
      unfolding rp using unat_infinity by simp
  next
    case False
    then have "unat (round_bits_off negative (int k) s (s AND 0x3ff)) = packed negative ?p"
      using unat_round_bits_off[of s k negative] assms by (simp add: packed_def)
    then show ?thesis
      unfolding rp using False by (simp only: if_False)
  qed
qed

section \<open>Rounding an exact magnitude\<close>

text \<open>The word is the rounding of the magnitude \<open>m\<close>, infinity when that is out of range.\<close>

definition rounds_to :: "bool \<Rightarrow> nat \<Rightarrow> u64 \<Rightarrow> bool" where
  "rounds_to negative m v \<longleftrightarrow> (\<exists>p. nearest_even m p \<and> unat v = packed negative p)"

lemma rounds_to_unique: "rounds_to s m v \<Longrightarrow> rounds_to s m w \<Longrightarrow> v = w"
  unfolding rounds_to_def word_eq_unat using nearest_unique by metis

lemma round_pack_rounds:
  assumes "agrees g n x (unat s)" and "g dvd 2 ^ 9" and "m * 2 ^ (n + 10) = x * 2 ^ k"
    and "unat s < 2 ^ 63" and "k = 0 \<or> 2 ^ 62 \<le> unat s" and "k \<le> 2046"
  shows "rounds_to negative m (round_pack negative (int k) s)"
  unfolding rounds_to_def
  using rounding_correct[OF assms(1-5)] unat_round_pack[OF assms(4-6)] by metis

text \<open>An exact significand at an exponent needs no rounding.\<close>

lemma pack_rounds:
  assumes "m = unat s * 2 ^ k" and "k = 0 \<or> 2 ^ 52 \<le> unat s" and "unat s < 2 ^ 53" and "k \<le> 2045"
  shows "rounds_to negative m (pack negative (int k) s)"
proof -
  have r: "rne_pack k m = k * 2 ^ 52 + unat s"
    using rne_shift_scale[of 0 k "unat s"] by (simp add: rne_pack_def assms(1))
  have "nearest_even m (rne_pack k m)"
    using assms by (intro rne_pack_nearest) (auto simp: power_add)
  moreover have "k * 2 ^ 52 + unat s < 2047 * 2 ^ 52"
    using assms(3,4) by simp
  ultimately show ?thesis
    unfolding rounds_to_def using unat_pack[of k s negative] r by (auto simp: packed_def)
qed

end
