(* ===== verification/Binary64_Correct.thy ===== *)
theory Binary64_Correct
  imports Binary64_Rounding
begin

unbundle bit_operations_syntax

text \<open>
  \<open>add_rne_bits\<close> computes the IEEE 754 sum: on finite operands the exact sum rounded to
  nearest, ties to even; on NaN and infinity the rules of the 8086-SSE specialization the
  header names.
\<close>

section \<open>Finite values\<close>

definition is_finite :: "u64 \<Rightarrow> bool" where
  "is_finite v = (exponent v \<noteq> 0x7ff)"

definition is_inf :: "u64 \<Rightarrow> bool" where
  "is_inf v = (exponent v = 0x7ff \<and> fraction v = 0)"

definition mag :: "u64 \<Rightarrow> nat" where
  "mag v = magnitude (unat v mod 2 ^ 63)"

text \<open>The value in units of \<open>2 ^ -1074\<close>.\<close>

definition value_of :: "u64 \<Rightarrow> int" where
  "value_of v = (if sign v then - int (mag v) else int (mag v))"

lemma finite_bexp: "is_finite v \<longleftrightarrow> bexp v \<le> 2046"
  using bexp_less[of v] by (auto simp: is_finite_def exponent_bexp)

lemma low63: "unat v mod 2 ^ 63 = bexp v * 2 ^ 52 + bfrac v"
proof -
  have "bexp v * 2 ^ 52 + bfrac v < 2 ^ 63"
    using bexp_less[of v] bfrac_less[of v] by simp
  then have "(of_bool (sign v) * 2 ^ 63 + (bexp v * 2 ^ 52 + bfrac v)) mod 2 ^ 63 = bexp v * 2 ^ 52 + bfrac v"
    by (simp only: mod_mult_self3 mod_less)
  then show ?thesis
    using bits_split[of v] by (simp only: add.assoc)
qed

lemma mag_fields: "mag v = (if bexp v = 0 then bfrac v else (2 ^ 52 + bfrac v) * 2 ^ (bexp v - 1))"
proof -
  have "(bexp v * 2 ^ 52 + bfrac v) div 2 ^ 52 = bexp v" "(bexp v * 2 ^ 52 + bfrac v) mod 2 ^ 52 = bfrac v"
    using bfrac_less[of v] by simp_all
  then show ?thesis
    unfolding mag_def low63 magnitude_def by simp
qed

text \<open>The significands the code works with: nine bits up for the addition, ten for the
  subtraction.\<close>

definition sig9 :: "u64 \<Rightarrow> nat" where
  "sig9 v = (if bexp v = 0 then bfrac v * 2 ^ 10 else 2 ^ 61 + bfrac v * 2 ^ 9)"

lemma sig9_less: "sig9 v < 2 ^ 62"
  using bfrac_less[of v] by (simp add: sig9_def)

lemma mag_sig9: "mag v * 2 ^ 10 = sig9 v * 2 ^ bexp v"
proof (cases "bexp v")
  case (Suc e)
  then show ?thesis
    by (simp only: mag_fields sig9_def) (simp add: algebra_simps)
qed (simp only: mag_fields sig9_def, simp)

lemma sig9_512: "2 ^ 9 dvd sig9 v"
proof -
  have "sig9 v = 2 ^ 9 * (if bexp v = 0 then bfrac v * 2 else 2 ^ 52 + bfrac v)"
    by (simp add: sig9_def)
  then show ?thesis
    by (rule dvdI)
qed

section \<open>Addition of magnitudes\<close>

lemma four_dvd: "2 * 2 ^ 1 dvd (2 ^ 9 :: nat)"
  by (rule dvdI[of _ _ 128]) simp

lemma two_dvd: "2 dvd (2 ^ 9 :: nat)"
  by (rule dvdI[of _ _ 256]) simp

lemma add_significands:
  assumes e: "bexp a < bexp b" "bexp b \<le> 2046"
    and s: "unat s = 2 ^ 61 + bfrac b * 2 ^ 9 + jam (bexp b - bexp a) (sig9 a)"
  shows "rounds_to negative (mag a + mag b)
    (if s < 0x4000000000000000 then round_pack negative (int (bexp b) - 1) (push_bit 1 s)
     else round_pack negative (int (bexp b)) s)"
proof -
  define n where "n = bexp b - bexp a"
  have n: "bexp b = bexp a + n" "0 < n"
    using e(1) by (simp_all add: n_def)
  have sb: "sig9 b = 2 ^ 61 + bfrac b * 2 ^ 9"
    using e(1) by (simp add: sig9_def)
  define x where "x = sig9 a + sig9 b * 2 ^ n"
  have s': "unat s = jam n (sig9 a) + sig9 b"
    using s by (simp add: sb n_def)
  have ag: "agrees 2 n x (unat s)"
    unfolding x_def s' using dvd_trans[OF _ sig9_512[of b], of 2] by (intro agrees_add agrees_jam) simp
  have "mag b * 2 ^ 10 = sig9 b * 2 ^ n * 2 ^ bexp a" "mag a * 2 ^ 10 = sig9 a * 2 ^ bexp a"
    unfolding mag_sig9 n(1) by (simp_all add: power_add)
  then have "(mag a + mag b) * 2 ^ 10 = x * 2 ^ bexp a"
    by (simp add: x_def distrib_right)
  then have m: "(mag a + mag b) * 2 ^ (n + 10) = x * 2 ^ bexp b"
    by (simp add: n(1) power_add)
  have j: "jam n (sig9 a) \<le> 2 ^ 61"
    by (rule jam_le[OF n(2)]) (use sig9_less[of a] in simp)
  have range: "2 ^ 61 \<le> unat s" "unat s < 2 ^ 63"
    using j bfrac_less[of b] by (simp_all add: s' sb)
  show ?thesis
  proof (cases "s < 0x4000000000000000")
    case True
    then have lt: "unat s < 2 ^ 62"
      by (simp add: word_less_nat_alt)
    define w where "w = push_bit 1 s"
    have u: "unat w = unat s * 2 ^ 1"
      unfolding w_def using lt by (intro unat_push_u64) simp
    obtain k where k: "bexp b = Suc k"
      using e(1) gr0_implies_Suc[of "bexp b"] by auto
    have "agrees (2 * 2 ^ 1) n (x * 2 ^ 1) (unat w)"
      unfolding u by (rule agrees_scale[OF ag])
    moreover have "(mag a + mag b) * 2 ^ (n + 10) = x * 2 ^ 1 * 2 ^ k"
      unfolding m k by simp
    ultimately have "rounds_to negative (mag a + mag b) (round_pack negative (int k) w)"
      using lt range e(2) k by (intro round_pack_rounds[OF _ four_dvd]) (simp_all add: u)
    then show ?thesis
      using True k by (simp add: w_def)
  next
    case False
    then have "2 ^ 62 \<le> unat s"
      by (simp add: word_less_nat_alt not_less)
    then have "rounds_to negative (mag a + mag b) (round_pack negative (int (bexp b)) s)"
      using ag m range e(2) by (intro round_pack_rounds[OF _ two_dvd]) simp_all
    then show ?thesis
      using False by simp
  qed
qed

section \<open>Subtraction of magnitudes\<close>

lemma int_mod_neg: "- (2 ^ 32) \<le> i \<Longrightarrow> i < 0 \<Longrightarrow> i mod 2 ^ 32 = i + (2 ^ 32 :: int)"
  using mod_pos_pos_trivial[of "i + 2 ^ 32" "2 ^ 32"] by (simp del: mod_pos_pos_trivial)

lemma round_pack_neg:
  "e < 0 \<Longrightarrow> round_pack negative e s = round_pack negative 0 (shift_right_jam s (nat (- e)))"
  by (simp add: round_pack_def Let_def)

lemma normalize_at:
  assumes "leading_zeros s = int (Suc h)" and "h < 64" and "k0 \<le> 2046"
  shows "normalize_round_pack negative (int k0) s =
    (if 10 \<le> h \<and> h \<le> k0 \<and> k0 - h < 0x7fd
     then pack negative (if s \<noteq> 0 then int (k0 - h) else 0) (push_bit (h - 10) s)
     else if h \<le> k0 then round_pack negative (int (k0 - h)) (push_bit h s)
     else round_pack negative 0 (shift_right_jam (push_bit h s) (h - k0)))"
proof -
  have u: "(int k0 - int h) mod 2 ^ 32 < 0x7fd \<longleftrightarrow> h \<le> k0 \<and> k0 - h < 0x7fd"
  proof (cases "h \<le> k0")
    case True
    then obtain j where j: "k0 = h + j"
      using le_Suc_ex by blast
    have "int j mod 2 ^ 32 = int j"
      using assms(3) by (intro mod_pos_pos_trivial) (simp_all add: j)
    then show ?thesis
      by (simp add: j)
  next
    case False
    then have "(int k0 - int h) mod 2 ^ 32 = int k0 - int h + 2 ^ 32"
      using assms(2) by (intro int_mod_neg) simp_all
    then show ?thesis
      using False assms(2) by simp
  qed
  have m: "int h mod 2 ^ 32 = int h"
    using assms(2) by (intro mod_pos_pos_trivial) simp_all
  have neg: "round_pack negative (int k0 - int h) (push_bit h s)
      = round_pack negative 0 (shift_right_jam (push_bit h s) (h - k0))" if "\<not> h \<le> k0"
    using that round_pack_neg[of "int k0 - int h"] by (simp add: nat_diff_distrib)
  have "normalize_round_pack negative (int k0) s =
    (if 10 \<le> h \<and> h \<le> k0 \<and> k0 - h < 0x7fd
     then pack negative (if s \<noteq> 0 then int k0 - int h else 0) (push_bit (h - 10) s)
     else round_pack negative (int k0 - int h) (push_bit h s))"
    unfolding normalize_round_pack_def Let_def assms(1)
    using u m by (simp add: nat_diff_distrib)
  then show ?thesis
    using neg by (simp add: of_nat_diff)
qed

text \<open>What is known of the difference before it is normalised: its bits start at \<open>h\<close>
  places below the top, and either it is exact or at most one place is missing.\<close>

lemma normalized_rounds:
  assumes m: "m * 2 ^ (n + 10) = x * 2 ^ k0" and k0: "k0 \<le> 2045"
    and h: "2 ^ 62 \<le> unat s * 2 ^ h" "unat s * 2 ^ h < 2 ^ 63" "h < 64" "leading_zeros s = int (Suc h)"
    and ag: "agrees 2 n x (unat s)"
    and exact: "n = 1 \<and> x = unat s * 2 \<or> h \<le> 1 \<and> h \<le> k0"
  shows "rounds_to negative m (normalize_round_pack negative (int k0) s)"
proof -
  define w where "w = push_bit h s"
  have w: "unat w = unat s * 2 ^ h"
    unfolding w_def using h(2) by (intro unat_push_u64) simp
  consider (packs) "10 \<le> h" "h \<le> k0" "k0 - h < 0x7fd"
    | (rounds) "h \<le> k0" "\<not> (10 \<le> h \<and> h \<le> k0 \<and> k0 - h < 0x7fd)" | (subnormal) "k0 < h"
    by linarith
  then show ?thesis
  proof cases
    case packs
    then obtain i j where i: "h = 10 + i" and j: "k0 = h + j"
      by (metis le_Suc_ex)
    have n: "n = 1" "x = unat s * 2"
      using exact packs by auto
    have r: "2 ^ 52 \<le> unat s * 2 ^ i" "unat s * 2 ^ i < 2 ^ 53"
      using h(1,2) by (simp_all add: i power_add)
    have "unat (push_bit i s) = unat s * 2 ^ i"
      using r(2) by (intro unat_push_u64) simp
    moreover have "m = unat s * 2 ^ i * 2 ^ j"
      using m by (simp add: n i j power_add)
    ultimately have "rounds_to negative m (pack negative (int j) (push_bit i s))"
      using r k0 j i by (intro pack_rounds) simp_all
    moreover have "s \<noteq> 0"
      using h(1) by auto
    ultimately show ?thesis
      using normalize_at[OF h(4,3), of k0] packs k0 by (simp add: i j)
  next
    case rounds
    then obtain j where j: "k0 = h + j"
      by (metis le_Suc_ex)
    have mj: "m * 2 ^ (n + 10) = x * 2 ^ h * 2 ^ j"
      unfolding m unfolding j power_add mult.assoc ..
    have "rounds_to negative m (round_pack negative (int j) w)"
      using exact
    proof
      assume e: "n = 1 \<and> x = unat s * 2"
      then have "x * 2 ^ h = unat w * 2 ^ n"
        by (simp add: w)
      then have "agrees 1 n (x * 2 ^ h) (unat w)"
        by (simp only: agrees_exact)
      then show ?thesis
        using h(1,2) k0 j by (intro round_pack_rounds[OF _ one_dvd mj]) (simp_all only: w simp_thms)
    next
      assume "h \<le> 1 \<and> h \<le> k0"
      then have "2 * 2 ^ h dvd (2 ^ 9 :: nat)"
        using le_imp_power_dvd[of "Suc h" 9 "2 :: nat"] by simp
      moreover have "agrees (2 * 2 ^ h) n (x * 2 ^ h) (unat w)"
        unfolding w by (rule agrees_scale[OF ag])
      ultimately show ?thesis
        using h(1,2) k0 j by (intro round_pack_rounds[OF _ _ mj]) (simp_all only: w simp_thms)
    qed
    then show ?thesis
      using normalize_at[OF h(4,3), of k0] rounds k0 by (simp add: j w_def)
  next
    case subnormal
    then obtain d where d: "h = k0 + d"
      by (metis le_Suc_ex less_imp_le)
    have n: "n = 1" "x = unat s * 2"
      using exact subnormal by auto
    define v where "v = shift_right_jam w d"
    have v: "unat v = unat s * 2 ^ k0"
      using jam_exact[of d "unat s * 2 ^ k0"] by (simp add: v_def unat_shift_right_jam w d power_add ac_simps)
    have "unat v * 1 \<le> unat v * 2 ^ d"
      by (intro mult_le_mono) simp_all
    also have "unat v * 2 ^ d = unat s * 2 ^ h"
      by (simp add: v d power_add)
    finally have "unat v < 2 ^ 63"
      using h(2) by simp
    moreover have "x * 2 ^ k0 = unat v * 2 ^ n"
      by (simp add: v n)
    then have "agrees 1 n (x * 2 ^ k0) (unat v)"
      by (simp only: agrees_exact)
    moreover have m0: "m * 2 ^ (n + 10) = x * 2 ^ k0 * 2 ^ 0"
      by (simp add: m)
    ultimately have "rounds_to negative m (round_pack negative (int 0) v)"
      by (intro round_pack_rounds[OF _ one_dvd m0]) simp_all
    then show ?thesis
      using normalize_at[OF h(4,3), of k0] subnormal k0 by (simp add: d v_def w_def)
  qed
qed

lemma sub_significands:
  assumes e: "bexp a < bexp b" "bexp b \<le> 2046"
    and s: "unat s = 2 * sig9 b - jam (bexp b - bexp a) (2 * sig9 a)"
  shows "rounds_to negative (mag b - mag a) (normalize_round_pack negative (int (bexp b) - 1) s)"
proof -
  define n where "n = bexp b - bexp a"
  define k0 where "k0 = bexp b - 1"
  define A where "A = 2 * sig9 a"
  define B where "B = 2 * sig9 b"
  define x where "x = B * 2 ^ n - A"
  have n: "bexp b = bexp a + n" "0 < n" and k0: "bexp b = Suc k0" "k0 \<le> 2045"
    using e by (simp_all add: n_def k0_def)
  have s: "unat s = B - jam n A"
    using s by (simp add: A_def B_def n_def)
  have B: "2 ^ 62 \<le> B" "B < 2 ^ 63" and A: "A < 2 ^ 63"
    using e(1) sig9_less[of a] sig9_less[of b] by (simp_all add: A_def B_def sig9_def)
  have "2 ^ 62 * 2 ^ 1 \<le> B * 2 ^ n"
    using B(1) n(2) by (intro mult_le_mono power_increasing) simp_all
  then have x0: "A < B * 2 ^ n"
    using A by simp
  have ag: "agrees 2 n x (unat s)"
    unfolding x_def s
  proof (rule agrees_diff(1)[OF agrees_jam])
    show "2 dvd B"
      by (simp add: B_def)
  qed (use x0 in simp_all)
  have s0: "0 < unat s"
    using agreesD(2)[OF ag, of 0] x0 by (simp add: x_def)
  have m: "(mag b - mag a) * 2 ^ (n + 10) = x * 2 ^ k0"
  proof -
    have b: "mag b * 2 ^ 11 = B * 2 ^ n * 2 ^ bexp a"
      using mag_sig9[of b] by (simp add: n(1) power_add B_def ac_simps)
    have a: "mag a * 2 ^ 11 = A * 2 ^ bexp a"
      using mag_sig9[of a] by (simp add: A_def)
    have "(mag b - mag a) * 2 ^ 11 = x * 2 ^ bexp a"
      unfolding x_def diff_mult_distrib a b ..
    then have "(mag b - mag a) * 2 ^ (n + 10) * 2 = x * 2 ^ (bexp a + n)"
      by (simp add: power_add)
    then show ?thesis
      by (simp add: n(1)[symmetric] k0(1))
  qed
  have exact: "x = unat s * 2" if "n = 1"
    using jam_exact[of 1 "sig9 a"] by (simp add: s x_def A_def that mult.commute diff_mult_distrib2)
  have "s \<noteq> 0"
    using s0 by (intro notI) simp
  then obtain c where c: "leading_zeros s = int c" "c \<le> 63"
      "2 ^ 63 \<le> unat s * 2 ^ c" "unat s * 2 ^ c < 2 ^ 64"
    by (rule leading_zeros_spec)
  have "unat s < 2 ^ 63"
    using B(2) by (simp add: s)
  then obtain h where h: "c = Suc h"
    using c(3) by (cases c) simp_all
  have hr: "2 ^ 62 \<le> unat s * 2 ^ h" "unat s * 2 ^ h < 2 ^ 63" "h < 64"
    using c(2-4) by (simp_all add: h)
  have small: "h \<le> 1 \<and> h \<le> k0" if "n \<noteq> 1"
  proof -
    have "jam n A \<le> 2 ^ 61"
      using n(2) that A by (intro jam_le2) simp_all
    then have "2 ^ 61 \<le> unat s"
      using B(1) by (simp add: s)
    then have "2 ^ 61 * 2 ^ 2 \<le> unat s * 2 ^ h" if "2 \<le> h"
      using that by (intro mult_le_mono power_increasing) simp_all
    then have "h < 2"
      using hr(2) by (auto simp: not_le[symmetric])
    then show ?thesis
      using that n k0(1) by simp
  qed
  have "rounds_to negative (mag b - mag a) (normalize_round_pack negative (int k0) s)"
  proof (rule normalized_rounds[OF m k0(2) hr _ ag])
    show "leading_zeros s = int (Suc h)"
      using c(1) h by simp
    show "n = 1 \<and> x = unat s * 2 \<or> h \<le> 1 \<and> h \<le> k0"
      using exact small by metis
  qed
  then show ?thesis
    by (simp add: k0(1))
qed

end
