(* ===== verification/Binary64_Properties.thy ===== *)
theory Binary64_Properties
  imports Binary64_Correct
begin

unbundle bit_operations_syntax

text \<open>
  The two routines on finite operands, composed from the significand lemmas of theory
  \<open>Binary64_Correct\<close>, and the properties of \<open>add_rne_bits\<close>.
\<close>

section \<open>Equal signs\<close>

lemma finite_exponent: "is_finite v \<Longrightarrow> exponent v \<noteq> 2047"
  by (simp add: is_finite_def)

lemma unat_push_fraction: "n \<le> 11 \<Longrightarrow> unat (push_bit n (fraction v)) = bfrac v * 2 ^ n"
proof -
  assume "n \<le> 11"
  then have "bfrac v * 2 ^ n < 2 ^ 52 * 2 ^ 12"
    using bfrac_less[of v] by (intro mult_less_le_imp_less power_increasing) simp_all
  then show ?thesis
    using unat_push_u64[of "fraction v" n] by (simp add: unat_fraction)
qed

text \<open>The word the code forms for the operand with the smaller exponent is \<open>sig9\<close>.\<close>

lemma unat_sig9:
  "unat (if exponent v \<noteq> 0 then push_bit 9 (fraction v) + 0x2000000000000000
         else push_bit 1 (push_bit 9 (fraction v))) = sig9 v"
proof (cases "bexp v = 0")
  case True
  have "push_bit 1 (push_bit 9 (fraction v)) = push_bit 10 (fraction v)"
    unfolding push_bit_push_bit by simp
  then show ?thesis
    using True unat_push_fraction[of 10 v] by (simp add: exponent_bexp sig9_def)
next
  case False
  then show ?thesis
    using unat_add_u64[of "push_bit 9 (fraction v)" "0x2000000000000000"]
      unat_push_fraction[of 9 v] bfrac_less[of v]
    by (simp add: exponent_bexp sig9_def)
qed

lemma unat_sum:
  assumes "bexp a < bexp b"
    and "unat x = jam (bexp b - bexp a) (sig9 a)"
  shows "unat (0x2000000000000000 + (push_bit 9 (fraction b) + x))
    = 2 ^ 61 + bfrac b * 2 ^ 9 + jam (bexp b - bexp a) (sig9 a)"
proof -
  have "jam (bexp b - bexp a) (sig9 a) \<le> 2 ^ 61"
    using assms(1) sig9_less[of a] by (intro jam_le) simp_all
  then show ?thesis
    using assms(2) unat_push_fraction[of 9 b] bfrac_less[of b]
      unat_add_u64[of "push_bit 9 (fraction b)" x]
      unat_add_u64[of "0x2000000000000000" "push_bit 9 (fraction b) + x"]
    by simp
qed

lemma add_magnitudes_rounds:
  assumes fin: "is_finite l" "is_finite r" and sg: "sign l = sign r"
  shows "rounds_to (sign l) (mag l + mag r) (add_magnitudes l r (sign l))"
proof -
  have e: "bexp l \<le> 2046" "bexp r \<le> 2046"
    using fin by (simp_all add: finite_bexp)
  note inf = finite_exponent[OF fin(1)] finite_exponent[OF fin(2)]
  consider (zero) "bexp l = 0" "bexp r = 0" | (same) "bexp l = bexp r" "bexp r \<noteq> 0"
    | (less) "bexp l < bexp r" | (more) "bexp r < bexp l"
    by linarith
  then show ?thesis
  proof cases
    case zero
    have "unat l = of_bool (sign l) * 2 ^ 63 + bfrac l"
      using bits_split[of l] zero by simp
    then have u: "unat (l + fraction r) = of_bool (sign l) * 2 ^ 63 + (bfrac l + bfrac r)"
      using bfrac_less[of l] bfrac_less[of r] by (subst unat_add_u64) (auto simp: unat_fraction)
    have m: "bfrac l + bfrac r < 2 ^ 53"
      using bfrac_less[of l] bfrac_less[of r] by simp
    have "nearest_even (bfrac l + bfrac r) (rne_pack 0 (bfrac l + bfrac r))"
      using m by (intro rne_pack_nearest) simp
    then have "rounds_to (sign l) (mag l + mag r) (l + fraction r)"
      unfolding rounds_to_def u using m zero
      by (intro exI[of _ "bfrac l + bfrac r"]) (simp add: rne_pack_def packed_def mag_fields)
    then show ?thesis
      using zero by (simp add: add_magnitudes_def Let_def exponent_bexp)
  next
    case same
    define s where "s = push_bit 9 (0x0020000000000000 + fraction l + fraction r)"
    have "unat (0x0020000000000000 + fraction l + fraction r) = 2 ^ 53 + bfrac l + bfrac r"
      using unat_add_u64[of "0x0020000000000000" "fraction l"] bfrac_less[of l] bfrac_less[of r]
        unat_add_u64[of "0x0020000000000000 + fraction l" "fraction r"] by (simp add: unat_fraction)
    then have u: "unat s = (2 ^ 53 + bfrac l + bfrac r) * 2 ^ 9"
      unfolding s_def using bfrac_less[of l] bfrac_less[of r] by (subst unat_push_u64) simp_all
    have us: "unat s = sig9 l + sig9 r"
      using same by (simp add: u sig9_def)
    have m: "(mag l + mag r) * 2 ^ (0 + 10) = unat s * 2 ^ bexp l"
      using mag_sig9[of l] mag_sig9[of r] same(1) by (simp add: us distrib_right)
    have "agrees 1 0 (unat s) (unat s)"
      using agrees_exact[of 1 0 "unat s"] by simp
    then have "rounds_to (sign l) (mag l + mag r) (round_pack (sign l) (int (bexp l)) s)"
      using e(1) sig9_less[of l] sig9_less[of r] u
      by (intro round_pack_rounds[OF _ one_dvd m]) (simp_all add: us)
    then show ?thesis
      using same inf by (simp add: add_magnitudes_def Let_def exponent_bexp s_def)
  next
    case less
    let ?x = "shift_right_jam (if exponent l \<noteq> 0 then push_bit 9 (fraction l) + 0x2000000000000000
         else push_bit 1 (push_bit 9 (fraction l))) (bexp r - bexp l)"
    have x: "unat ?x = jam (bexp r - bexp l) (sig9 l)"
      by (simp only: unat_shift_right_jam unat_sig9)
    have d: "nat (- (exponent l - exponent r)) = bexp r - bexp l"
      by (simp add: exponent_bexp nat_diff_distrib)
    show ?thesis
      using add_significands[OF less e(2) unat_sum[OF less x], of "sign l"] less inf
      unfolding add_magnitudes_def Let_def d
      by (simp only: exponent_bexp if_False add_ac) simp
  next
    case more
    let ?x = "shift_right_jam (if exponent r \<noteq> 0 then push_bit 9 (fraction r) + 0x2000000000000000
         else push_bit 1 (push_bit 9 (fraction r))) (bexp l - bexp r)"
    have x: "unat ?x = jam (bexp l - bexp r) (sig9 r)"
      by (simp only: unat_shift_right_jam unat_sig9)
    have d: "nat (exponent l - exponent r) = bexp l - bexp r"
      by (simp add: exponent_bexp nat_diff_distrib)
    show ?thesis
      using add_significands[OF more e(1) unat_sum[OF more x], of "sign l"] more inf
      unfolding add_magnitudes_def Let_def d
      by (simp only: exponent_bexp if_False add_ac) (simp add: add_ac)
  qed
qed

section \<open>Opposite signs\<close>

lemma unat_sub_u64: "unat b \<le> unat a \<Longrightarrow> unat (a - b :: u64) = unat a - unat b"
  by (simp add: unat_sub word_le_nat_alt)

lemma unat_sig10:
  "unat (push_bit 10 (fraction v) +
     (if exponent v \<noteq> 0 then 0x4000000000000000 else push_bit 10 (fraction v))) = 2 * sig9 v"
proof (cases "bexp v = 0")
  case True
  then show ?thesis
    using unat_add_u64[of "push_bit 10 (fraction v)" "push_bit 10 (fraction v)"]
      unat_push_fraction[of 10 v] bfrac_less[of v] by (simp add: exponent_bexp sig9_def)
next
  case False
  then show ?thesis
    using unat_add_u64[of "push_bit 10 (fraction v)" "0x4000000000000000"]
      unat_push_fraction[of 10 v] bfrac_less[of v] by (simp add: exponent_bexp sig9_def)
qed

lemma or_implicit_bit:
  assumes "bexp v \<noteq> 0"
  shows "unat (push_bit 10 (fraction v) OR 0x4000000000000000) = 2 * sig9 v"
proof -
  have "push_bit 10 (fraction v) AND 0x4000000000000000 = 0"
  proof (rule bit_word_eqI)
    fix n assume n: "n < LENGTH(64)"
    have "bit (0x4000000000000000 :: u64) n \<longleftrightarrow> n = 62"
      using bit_exp_iff[of 62 n, where 'a = u64] n by simp
    moreover have "\<not> bit (push_bit 10 (fraction v)) 62"
      by (simp add: fraction_def mask_52 bit_simps)
    ultimately show "bit (push_bit 10 (fraction v) AND 0x4000000000000000) n = bit 0 n"
      by (auto simp: bit_and_iff)
  qed
  then have "push_bit 10 (fraction v) OR 0x4000000000000000
      = push_bit 10 (fraction v) + 0x4000000000000000"
    by (simp add: disjunctive_add_eq_or)
  then show ?thesis
    using unat_sig10[of v] assms by (simp add: exponent_bexp)
qed

lemma unat_difference:
  assumes "bexp a < bexp b" and "unat x = jam (bexp b - bexp a) (2 * sig9 a)"
  shows "unat ((push_bit 10 (fraction b) OR 0x4000000000000000) - x)
    = 2 * sig9 b - jam (bexp b - bexp a) (2 * sig9 a)"
proof -
  have "jam (bexp b - bexp a) (2 * sig9 a) \<le> 2 ^ 62"
    using assms(1) sig9_less[of a] by (intro jam_le) simp_all
  moreover have "2 ^ 62 \<le> 2 * sig9 b"
    using assms(1) by (simp add: sig9_def)
  ultimately show ?thesis
    using or_implicit_bit[of b] assms by (subst unat_sub_u64) simp_all
qed

text \<open>Operands with one exponent: the difference of the fractions is exact.\<close>

definition difference :: "u64 \<Rightarrow> u64 \<Rightarrow> nat" where
  "difference l r = (if mag l < mag r then mag r - mag l else mag l - mag r)"

lemma mag_less_iff:
  assumes "bexp l = bexp r"
  shows "mag l < mag r \<longleftrightarrow> bfrac l < bfrac r" "mag l = mag r \<longleftrightarrow> bfrac l = bfrac r"
    and "mag l - mag r = (bfrac l - bfrac r) * 2 ^ (bexp r - 1)"
    and "mag r - mag l = (bfrac r - bfrac l) * 2 ^ (bexp r - 1)"
  using assms by (simp_all add: mag_fields diff_mult_distrib distrib_right)

lemma exact_difference:
  assumes "0 < unat s" and "unat s < 2 ^ 52" and "k \<le> 2045"
  shows "rounds_to negative (unat s * 2 ^ k)
    (let shift = leading_zeros s - 11; e = int k - shift;
         (shift, e) = (if e < 0 then (int k, 0) else (shift, e))
     in pack negative e (push_bit (nat shift) s))"
proof -
  have "s \<noteq> 0"
    using assms(1) by (intro notI) simp
  then obtain c where c: "leading_zeros s = int c" "c \<le> 63"
      "2 ^ 63 \<le> unat s * 2 ^ c" "unat s * 2 ^ c < 2 ^ 64"
    by (rule leading_zeros_spec)
  have "unat s * 2 ^ c < 2 ^ 52 * 2 ^ c"
    using assms(2) by simp
  with c(3) have "2 ^ 63 < (2 :: nat) ^ 52 * 2 ^ c"
    by (rule le_less_trans)
  then have "2 ^ 63 < (2 :: nat) ^ (52 + c)"
    by (simp only: power_add)
  then have "63 < 52 + c"
    by (rule power_less_imp_less_exp[rotated]) simp
  then obtain h where h: "c = h + 11"
    using le_Suc_ex[of 11 c] by auto
  have r: "2 ^ 52 \<le> unat s * 2 ^ h" "unat s * 2 ^ h < 2 ^ 53"
    using c(3,4) by (simp_all add: h power_add)
  show ?thesis
  proof (cases "h \<le> k")
    case True
    then obtain j where j: "k = h + j"
      by (metis le_Suc_ex)
    have u: "unat (push_bit h s) = unat s * 2 ^ h"
      using r(2) by (intro unat_push_u64) simp
    have "rounds_to negative (unat s * 2 ^ k) (pack negative (int j) (push_bit h s))"
      using r assms(3) by (intro pack_rounds) (simp_all add: u j power_add)
    then show ?thesis
      by (simp add: c(1) h j)
  next
    case False
    then have "unat s * 2 ^ k \<le> unat s * 2 ^ h"
      by (intro mult_le_mono power_increasing) simp_all
    then have le: "unat s * 2 ^ k < 2 ^ 53"
      using r(2) by (rule le_less_trans)
    have u: "unat (push_bit k s) = unat s * 2 ^ k"
      using le by (intro unat_push_u64) simp
    have "rounds_to negative (unat s * 2 ^ k) (pack negative (int 0) (push_bit k s))"
      using le by (intro pack_rounds) (simp_all add: u)
    then show ?thesis
      using False by (simp add: c(1) h)
  qed
qed

lemma subtract_equal_rounds:
  assumes "is_finite l" "bexp l = bexp r" "mag l \<noteq> mag r"
  shows "rounds_to (negative \<noteq> (mag l < mag r)) (difference l r) (subtract_equal l r negative)"
proof -
  note m = mag_less_iff[OF assms(2)]
  have lt: "fraction l < fraction r \<longleftrightarrow> mag l < mag r"
    by (simp add: word_less_nat_alt unat_fraction m)
  have ne: "fraction l \<noteq> fraction r"
    using assms(3) by (auto simp: m word_eq_unat unat_fraction)
  define s where "s = (if fraction l < fraction r then fraction r - fraction l else fraction l - fraction r)"
  have u: "unat s = (if mag l < mag r then bfrac r - bfrac l else bfrac l - bfrac r)"
    using lt m(1) by (auto simp: s_def unat_sub_u64 unat_fraction)
  have d: "difference l r = unat s * 2 ^ (bexp l - 1)"
    by (simp add: difference_def u m assms(2))
  have r: "0 < unat s" "unat s < 2 ^ 52" "bexp l - 1 \<le> 2045"
    using assms(1,3) m(1,2) bfrac_less[of l] bfrac_less[of r] by (auto simp: u finite_bexp)
  have e: "(if exponent l \<noteq> 0 then exponent l - 1 else exponent l) = int (bexp l - 1)"
    by (simp add: exponent_bexp)
  note x = exact_difference[OF r, of "negative \<noteq> (mag l < mag r)"] ne finite_exponent[OF assms(1)]
  show ?thesis
  proof (cases "mag l < mag r")
    case True
    then have s: "fraction r - fraction l = s"
      by (simp add: s_def lt)
    show ?thesis
      using x True unfolding subtract_equal_def d Let_def e lt by (simp add: s)
  next
    case False
    then have s: "fraction l - fraction r = s"
      by (simp add: s_def lt)
    show ?thesis
      using x False unfolding subtract_equal_def d Let_def e lt by (simp add: s)
  qed
qed

text \<open>A larger exponent is a larger magnitude.\<close>

lemma mag_less:
  assumes "bexp a < bexp b"
  shows "mag a < mag b"
proof -
  have "Suc (bexp a) * 2 ^ 52 \<le> bexp b * 2 ^ 52"
    using assms by (intro mult_le_mono1) simp
  then have "unat a mod 2 ^ 63 < unat b mod 2 ^ 63"
    using bfrac_less[of a] unfolding low63 by simp
  then show ?thesis
    unfolding mag_def by (rule magnitude_mono)
qed

lemma subtract_magnitudes_rounds:
  assumes fin: "is_finite l" "is_finite r" and ne: "mag l \<noteq> mag r"
  shows "rounds_to (negative \<noteq> (mag l < mag r)) (difference l r) (subtract_magnitudes l r negative)"
proof -
  have e: "bexp l \<le> 2046" "bexp r \<le> 2046"
    using fin by (simp_all add: finite_bexp)
  note inf = finite_exponent[OF fin(1)] finite_exponent[OF fin(2)]
  consider (same) "bexp l = bexp r" | (less) "bexp l < bexp r" | (more) "bexp r < bexp l"
    by linarith
  then show ?thesis
  proof cases
    case same
    then show ?thesis
      using subtract_equal_rounds[OF fin(1) same ne, of negative]
      by (simp add: subtract_magnitudes_def Let_def exponent_bexp)
  next
    case less
    let ?x = "shift_right_jam (push_bit 10 (fraction l) +
      (if exponent l \<noteq> 0 then 0x4000000000000000 else push_bit 10 (fraction l))) (bexp r - bexp l)"
    have x: "unat ?x = jam (bexp r - bexp l) (2 * sig9 l)"
      by (simp only: unat_shift_right_jam unat_sig10)
    have d: "nat (- (exponent l - exponent r)) = bexp r - bexp l"
      by (simp add: exponent_bexp nat_diff_distrib)
    have m: "mag l < mag r" "difference l r = mag r - mag l"
      using mag_less[OF less] by (simp_all add: difference_def)
    show ?thesis
      using sub_significands[OF less e(2) unat_difference[OF less x], of "\<not> negative"] less inf m
      unfolding subtract_magnitudes_def Let_def d
      by (simp only: exponent_bexp if_False) simp
  next
    case more
    let ?x = "shift_right_jam (push_bit 10 (fraction r) +
      (if exponent r \<noteq> 0 then 0x4000000000000000 else push_bit 10 (fraction r))) (bexp l - bexp r)"
    have x: "unat ?x = jam (bexp l - bexp r) (2 * sig9 r)"
      by (simp only: unat_shift_right_jam unat_sig10)
    have d: "nat (exponent l - exponent r) = bexp l - bexp r"
      by (simp add: exponent_bexp nat_diff_distrib)
    have m: "\<not> mag l < mag r" "difference l r = mag l - mag r"
      using mag_less[OF more] by (simp_all add: difference_def)
    show ?thesis
      using sub_significands[OF more e(1) unat_difference[OF more x], of negative] more inf m
      unfolding subtract_magnitudes_def Let_def d
      by (simp only: exponent_bexp if_False) simp
  qed
qed

lemma subtract_magnitudes_cancel:
  assumes "is_finite l" "mag l = mag r"
  shows "subtract_magnitudes l r negative = 0"
proof -
  have b: "bexp l = bexp r"
    using mag_less[of l r] mag_less[of r l] assms(2) by (metis less_irrefl linorder_neqE_nat)
  then have "bfrac l = bfrac r"
    using mag_less_iff(2) assms(2) by blast
  then have "fraction l = fraction r"
    by (simp add: word_eq_unat unat_fraction)
  then show ?thesis
    using b finite_exponent[OF assms(1)]
    by (simp add: subtract_magnitudes_def subtract_equal_def Let_def exponent_bexp)
qed

section \<open>The sum\<close>

lemma add_rne_rounds:
  assumes "is_finite l" "is_finite r" and "value_of l + value_of r \<noteq> 0"
  shows "rounds_to (value_of l + value_of r < 0) (nat \<bar>value_of l + value_of r\<bar>) (add_rne_bits l r)"
proof (cases "sign l = sign r")
  case True
  have "value_of l + value_of r < 0 \<longleftrightarrow> sign l" "nat \<bar>value_of l + value_of r\<bar> = mag l + mag r"
    using assms(3) True by (auto simp: value_of_def nat_add_distrib)
  then show ?thesis
    using add_magnitudes_rounds[OF assms(1,2) True] True by (simp add: add_rne_bits_def Let_def)
next
  case False
  then have ne: "mag l \<noteq> mag r"
    using assms(3) by (auto simp: value_of_def)
  have "value_of l + value_of r < 0 \<longleftrightarrow> sign l \<noteq> (mag l < mag r)"
    "nat \<bar>value_of l + value_of r\<bar> = difference l r"
    using False ne by (auto simp: value_of_def difference_def)
  then show ?thesis
    using subtract_magnitudes_rounds[OF assms(1,2) ne, of "sign l"] False
    by (simp add: add_rne_bits_def Let_def)
qed

lemma add_rne_zero:
  assumes "is_finite l" "is_finite r" and "value_of l + value_of r = 0"
  shows "add_rne_bits l r = (if sign l \<and> sign r then 0x8000000000000000 else 0)"
proof (cases "sign l = sign r")
  case True
  then have z: "mag l = 0" "mag r = 0"
    using assms(3) by (auto simp: value_of_def split: if_splits)
  then have b: "bexp l = 0" "bfrac l = 0" "bexp r = 0" "bfrac r = 0"
    by (auto simp: mag_fields split: if_splits)
  then have "unat l = of_bool (sign l) * 2 ^ 63" and f: "fraction r = 0"
    using bits_split[of l] by (simp_all add: word_eq_unat unat_fraction)
  then show ?thesis
    using b True unfolding add_rne_bits_def add_magnitudes_def Let_def exponent_bexp f
    by (auto simp: word_eq_unat)
next
  case False
  then have "mag l = mag r"
    using assms(3) by (auto simp: value_of_def split: if_splits)
  then show ?thesis
    using False subtract_magnitudes_cancel[OF assms(1)] by (auto simp: add_rne_bits_def Let_def)
qed

section \<open>NaN and infinity\<close>

lemma pack_infinity:
  assumes "is_inf v"
  shows "pack (sign v) 0x7ff 0 = v"
proof -
  have "bexp v = 2047" "bfrac v = 0"
    using assms by (simp_all add: is_inf_def exponent_bexp word_eq_unat unat_fraction)
  then have "unat v = of_bool (sign v) * 2 ^ 63 + 2047 * 2 ^ 52"
    using bits_split[of v] by simp
  then show ?thesis
    using unat_pack[of 2047 0 "sign v"] by (simp add: word_eq_unat)
qed

lemma kinds: "is_nan v \<longleftrightarrow> exponent v = 2047 \<and> fraction v \<noteq> 0"
  "is_inf v \<longleftrightarrow> exponent v = 2047 \<and> fraction v = 0" "is_finite v \<longleftrightarrow> exponent v \<noteq> 2047"
  by (simp_all add: is_nan_def is_inf_def is_finite_def)

lemma push_fraction_0: "push_bit 9 (fraction v) = 0 \<longleftrightarrow> fraction v = 0"
    "push_bit 10 (fraction v) = 0 \<longleftrightarrow> fraction v = 0"
  unfolding word_eq_unat using unat_push_fraction[of 9 v] unat_push_fraction[of 10 v]
  by (simp_all add: unat_fraction)

lemma exponent_max: "exponent v \<le> 2047"
  using bexp_less[of v] by (simp add: exponent_bexp)

lemma or_zero: "a OR b \<noteq> (0 :: u64) \<longleftrightarrow> a \<noteq> 0 \<or> b \<noteq> 0"
  by (auto simp: or_eq_0_iff)

lemma add_magnitudes_special:
  assumes "\<not> (is_finite l \<and> is_finite r)" and "sign r = sign l"
  shows "add_magnitudes l r (sign l) =
    (if is_nan l \<or> is_nan r then propagate_nan l r else if is_inf l then l else r)"
proof -
  consider "exponent l = 2047" "exponent r = 2047" | "exponent l = 2047" "exponent r < 2047"
    | "exponent l < 2047" "exponent r = 2047"
    using assms(1) exponent_max[of l] exponent_max[of r] unfolding kinds le_less by blast
  then show ?thesis
  proof cases
    case 1
    then show ?thesis
      by (simp add: add_magnitudes_def Let_def kinds or_zero)
  next
    case 2
    then show ?thesis
      by (simp add: add_magnitudes_def Let_def kinds push_fraction_0)
  next
    case 3
    then show ?thesis
      using pack_infinity[of r] assms(2)
      by (simp add: add_magnitudes_def Let_def kinds push_fraction_0)
  qed
qed

lemma subtract_magnitudes_special:
  assumes "\<not> (is_finite l \<and> is_finite r)" and "sign r \<noteq> sign l"
  shows "subtract_magnitudes l r (sign l) =
    (if is_nan l \<or> is_nan r then propagate_nan l r
     else if is_inf l \<and> is_inf r then 0xfff8000000000000 else if is_inf l then l else r)"
proof -
  consider "exponent l = 2047" "exponent r = 2047" | "exponent l = 2047" "exponent r < 2047"
    | "exponent l < 2047" "exponent r = 2047"
    using assms(1) exponent_max[of l] exponent_max[of r] unfolding kinds le_less by blast
  then show ?thesis
  proof cases
    case 1
    then show ?thesis
      by (simp add: subtract_magnitudes_def subtract_equal_def Let_def kinds or_zero)
  next
    case 2
    then show ?thesis
      by (simp add: subtract_magnitudes_def Let_def kinds push_fraction_0)
  next
    case 3
    then show ?thesis
      using pack_infinity[of r] assms(2)
      by (simp add: subtract_magnitudes_def Let_def kinds push_fraction_0)
  qed
qed

lemma add_rne_nonfinite:
  assumes "\<not> (is_finite l \<and> is_finite r)"
  shows "add_rne_bits l r =
    (if is_nan l \<or> is_nan r then (if is_nan l then l else r) OR 0x0008000000000000
     else if is_inf l \<and> is_inf r \<and> sign l \<noteq> sign r then 0xfff8000000000000
     else if is_inf l then l else r)"
proof (cases "sign r = sign l")
  case True
  then show ?thesis
    using add_magnitudes_special[OF assms True]
    by (simp only: add_rne_bits_def Let_def propagate_nan_def simp_thms if_True if_False)
next
  case False
  then have "(sign l = sign r) = False"
    by blast
  then show ?thesis
    using subtract_magnitudes_special[OF assms False]
    by (simp only: add_rne_bits_def Let_def propagate_nan_def simp_thms if_True if_False)
qed

lemma trichotomy: "is_finite v \<or> is_inf v \<or> is_nan v"
  by (auto simp: kinds)

lemma infinities:
  assumes "is_inf v" "is_inf w" "sign v = sign w"
  shows "v = w"
proof -
  have "v = pack (sign v) 0x7ff 0"
    by (rule pack_infinity[OF assms(1), symmetric])
  also have "\<dots> = w"
    unfolding assms(3) by (rule pack_infinity[OF assms(2)])
  finally show ?thesis .
qed

section \<open>Properties\<close>

text \<open>C99 (functional). Addition of finite binary64 values is correctly rounded: the exact sum
  (an integer in units of \<open>2 ^ -1074\<close>), when it is not zero, is rounded to the nearest packed
  magnitude, ties to the even one, with the sign of the sum, and to infinity when that magnitude
  is out of range; a zero sum is \<open>+0\<close> unless both operands are negative zeros.\<close>

theorem add_rne_correct:
  assumes "is_finite l" and "is_finite r"
  shows "if value_of l + value_of r = 0
    then add_rne_bits l r = (if sign l \<and> sign r then 0x8000000000000000 else 0)
    else \<exists>p. nearest_even (nat \<bar>value_of l + value_of r\<bar>) p
      \<and> unat (add_rne_bits l r)
          = of_bool (value_of l + value_of r < 0) * 2 ^ 63 + min (2047 * 2 ^ 52) p"
  using add_rne_zero[OF assms] add_rne_rounds[OF assms] unfolding rounds_to_def packed_def by simp

text \<open>\<open>1 + 2 ^ -53\<close> is half way to the next value and rounds down to the even \<open>1\<close>.\<close>

lemma add_rne_correct_witness:
  "is_finite 0x3ff0000000000000 \<and> is_finite 0x3ca0000000000000
   \<and> add_rne_bits 0x3ff0000000000000 0x3ca0000000000000 = 0x3ff0000000000000
   \<and> (\<exists>p. nearest_even (nat \<bar>value_of 0x3ff0000000000000 + value_of 0x3ca0000000000000\<bar>) p
      \<and> 0x3ff0000000000000 = min (2047 * 2 ^ 52) p)"
proof -
  have f: "is_finite 0x3ff0000000000000" "is_finite 0x3ca0000000000000"
    and r: "add_rne_bits 0x3ff0000000000000 0x3ca0000000000000 = 0x3ff0000000000000"
    by code_simp+
  have v: "0 < value_of 0x3ff0000000000000 + value_of 0x3ca0000000000000"
    by (simp add: value_of_def sign_unat mag_def magnitude_def)
  have u: "unat (0x3ff0000000000000 :: u64) = 0x3ff0000000000000"
    by simp
  have "\<exists>p. nearest_even (nat \<bar>value_of 0x3ff0000000000000 + value_of 0x3ca0000000000000\<bar>) p
      \<and> 0x3ff0000000000000 = min (2047 * 2 ^ 52) p"
    using add_rne_correct[OF f] v
    by (simp only: less_imp_neq[THEN not_sym] order_less_not_sym if_False r u of_bool_eq mult_zero_left add_0)
  then show ?thesis
    using f r by blast
qed

text \<open>With a NaN or infinite operand: the first NaN operand is quieted and returned;
  opposite infinities give the default NaN; otherwise the infinite operand is the sum.\<close>

theorem add_rne_special:
  assumes "\<not> (is_finite l \<and> is_finite r)"
  shows "add_rne_bits l r =
    (if is_nan l \<or> is_nan r then (if is_nan l then l else r) OR 0x0008000000000000
     else if is_inf l \<and> is_inf r \<and> sign l \<noteq> sign r then 0xfff8000000000000
     else if is_inf l then l else r)"
  by (rule add_rne_nonfinite[OF assms])

lemma add_rne_special_witness:
  "\<not> (is_finite 0x7ff0000000000000 \<and> is_finite 0xfff0000000000000)
   \<and> add_rne_bits 0x7ff0000000000000 0xfff0000000000000 = 0xfff8000000000000"
proof -
  have f: "\<not> (is_finite 0x7ff0000000000000 \<and> is_finite 0xfff0000000000000)"
    and k: "\<not> is_nan 0x7ff0000000000000" "\<not> is_nan 0xfff0000000000000" "is_inf 0x7ff0000000000000"
      "is_inf 0xfff0000000000000" "sign 0x7ff0000000000000 \<noteq> sign 0xfff0000000000000"
    by code_simp+
  show ?thesis
    using add_rne_special[OF f] f k by simp
qed

text \<open>The sum does not depend on the order of the operands, two NaN operands
  apart.\<close>

theorem add_rne_commute:
  assumes "\<not> (is_nan l \<and> is_nan r)"
  shows "add_rne_bits l r = add_rne_bits r l"
proof (cases "is_finite l \<and> is_finite r")
  case True
  show ?thesis
  proof (cases "value_of l + value_of r = 0")
    case z: True
    then show ?thesis
      using True add_rne_zero[of l r] add_rne_zero[of r l] by (simp only: add.commute conj_commute)
  next
    case False
    have c: "value_of r + value_of l = value_of l + value_of r"
      by (rule add.commute)
    show ?thesis
      using rounds_to_unique[OF add_rne_rounds add_rne_rounds[of r l, unfolded c]] True False by blast
  qed
next
  case False
  then have o: "\<not> (is_finite r \<and> is_finite l)"
    by blast
  show ?thesis
    unfolding add_rne_nonfinite[OF False] add_rne_nonfinite[OF o]
    using assms False trichotomy[of l] trichotomy[of r] infinities[of l r]
    by (cases "is_nan l"; cases "is_nan r"; cases "is_inf l"; cases "is_inf r"; simp; blast?)
qed

lemma add_rne_commute_witness:
  "\<not> (is_nan 0x3ff0000000000000 \<and> is_nan 0x7ff8000000000001)
   \<and> add_rne_bits 0x3ff0000000000000 0x7ff8000000000001 = 0x7ff8000000000001
   \<and> add_rne_bits 0x7ff8000000000001 0x3ff0000000000000 = 0x7ff8000000000001"
proof -
  have n: "\<not> (is_nan 0x3ff0000000000000 \<and> is_nan 0x7ff8000000000001)"
    and r: "add_rne_bits 0x3ff0000000000000 0x7ff8000000000001 = 0x7ff8000000000001"
    by code_simp+
  show ?thesis
    using add_rne_commute[OF n] n r by simp
qed

end
