(* ===== verification/Warp_Groups.thy ===== *)
theory Warp_Groups
  imports Prelude "HOL-Library.Monad_Syntax"
begin

unbundle bit_operations_syntax

text \<open>
  The warp collectives of \<open>include/ascify\<close>: masked warp primitives, dynamic coalesced
  groups and register tiles.  The lanes that are active together execute one
  instruction at a time, so a register is a function from lanes to values and a
  collective maps the registers of all lanes to the result of one lane.  A rejected
  device contract traps the kernel and is \<open>None\<close>.
\<close>

section \<open>The native primitives\<close>

text \<open>The warp instructions are CANN's.  A shuffle gives one lane the value of another
  register; \<open>asc_ballot active p\<close> collects a predicate over the active lanes.\<close>

record warp =
  asc_ballot :: "u32 \<Rightarrow> (nat \<Rightarrow> bool) \<Rightarrow> u32"
  asc_shfl :: "u32 \<Rightarrow> (nat \<Rightarrow> u32) \<Rightarrow> nat \<Rightarrow> nat \<Rightarrow> u32"
  asc_shfl_up :: "u32 \<Rightarrow> (nat \<Rightarrow> u32) \<Rightarrow> nat \<Rightarrow> nat \<Rightarrow> nat \<Rightarrow> u32"
  asc_shfl_down :: "u32 \<Rightarrow> (nat \<Rightarrow> u32) \<Rightarrow> nat \<Rightarrow> nat \<Rightarrow> nat \<Rightarrow> u32"

definition guard :: "bool \<Rightarrow> unit option" where
  "guard b = (if b then Some () else None)"

section \<open>Masked warp primitives\<close>

text \<open>Every lane supplies its own mask.\<close>

(* Source: src/include/ascify/masked_warp_compat.hpp 17-24 require_converged_warp_mask *)
definition require_converged_warp_mask :: "warp \<Rightarrow> u32 \<Rightarrow> (nat \<Rightarrow> u32) \<Rightarrow> unit option" where
  "require_converged_warp_mask W active msk =
     (let invalid = asc_ballot W active (\<lambda>i. msk i \<noteq> active \<or> active = 0)
      in guard (\<not> (invalid \<noteq> 0 \<or> active = 0)))"

(* Source: src/include/ascify/masked_warp_compat.hpp 26-30 converged_ballot_sync *)
definition converged_ballot_sync :: "warp \<Rightarrow> u32 \<Rightarrow> (nat \<Rightarrow> u32) \<Rightarrow> (nat \<Rightarrow> int) \<Rightarrow> nat \<Rightarrow> u32 option" where
  "converged_ballot_sync W active msk predicate l = do {
     require_converged_warp_mask W active msk;
     Some (asc_ballot W active (\<lambda>i. predicate i \<noteq> 0) AND msk l)
   }"

(* Source: src/include/ascify/masked_warp_compat.hpp 32-56 converged_shfl_up_sync *)
definition converged_shfl_up_sync ::
  "warp \<Rightarrow> u32 \<Rightarrow> (nat \<Rightarrow> u32) \<Rightarrow> (nat \<Rightarrow> u32) \<Rightarrow> (nat \<Rightarrow> nat) \<Rightarrow> (nat \<Rightarrow> nat) \<Rightarrow> nat \<Rightarrow> u32 option" where
  "converged_shfl_up_sync W active msk v delta width l = do {
     require_converged_warp_mask W active msk;
     guard (asc_ballot W active (\<lambda>i. width i \<notin> {2, 4, 8, 16, 32}) = 0);
     let native_delta = (if width l \<le> delta l then 0 else delta l);
     Some (asc_shfl_up W active v native_delta (width l) l)
   }"

(* Source: src/include/ascify/masked_warp_compat.hpp 58-77 converged_shfl_down_sync *)
definition converged_shfl_down_sync ::
  "warp \<Rightarrow> u32 \<Rightarrow> (nat \<Rightarrow> u32) \<Rightarrow> (nat \<Rightarrow> u32) \<Rightarrow> (nat \<Rightarrow> nat) \<Rightarrow> (nat \<Rightarrow> nat) \<Rightarrow> nat \<Rightarrow> u32 option" where
  "converged_shfl_down_sync W active msk v delta width l = do {
     require_converged_warp_mask W active msk;
     guard (asc_ballot W active (\<lambda>i. width i \<notin> {1, 2, 4, 8, 16, 32}) = 0);
     Some (asc_shfl_down W active v (delta l) (width l) l)
   }"

section \<open>Lanes of a mask\<close>

lemma and_pred_less: "m \<noteq> 0 \<Longrightarrow> unat (m AND (m - 1)) < unat (m :: u32)"
proof -
  assume m: "m \<noteq> 0"
  have "unat (m AND (m - 1)) \<le> unat (m - 1)"
    by (metis and.commute word_and_le2 word_le_nat_alt)
  also have "\<dots> < unat m"
    using m by (simp add: unat_gt_0 unat_minus_one)
  finally show ?thesis .
qed

(* Source: src/include/ascify/dynamic_warp_groups_compat.hpp 9-13 count *)
function count_lanes :: "u32 \<Rightarrow> nat" where
  "count_lanes msk = (if msk = 0 then 0 else Suc (count_lanes (msk AND (msk - 1))))"
  by pat_completeness auto
termination
  by (relation "measure unat") (simp_all add: and_pred_less)

(* Source: src/include/ascify/dynamic_warp_groups_compat.hpp 14-16 lane *)
definition lane :: "nat \<Rightarrow> nat" where
  "lane thread_rank = thread_rank mod 32"

text \<open>The loop of \<open>member\<close> over the bits from \<open>b\<close> on.\<close>

function member_from :: "nat \<Rightarrow> u32 \<Rightarrow> nat \<Rightarrow> nat option" where
  "member_from b msk rank =
     (if 32 \<le> b then None
      else if bit msk b
      then (if rank = 0 then Some b else member_from (b + 1) msk (rank - 1))
      else member_from (b + 1) msk rank)"
  by pat_completeness auto
termination
  by (relation "measure (\<lambda>(b, _). 32 - b)") auto

declare count_lanes.simps [simp del] member_from.simps [simp del]

(* Source: src/include/ascify/dynamic_warp_groups_compat.hpp 17-26 member *)
definition member :: "u32 \<Rightarrow> nat \<Rightarrow> nat option" where
  "member msk rank = member_from 0 msk rank"

(* Source: src/include/ascify/dynamic_warp_groups_compat.hpp 27-33 require_members_active *)
definition require_members_active :: "u32 \<Rightarrow> nat \<Rightarrow> u32 \<Rightarrow> unit option" where
  "require_members_active active l msk =
     guard (\<not> (msk = 0 \<or> \<not> bit msk l \<or> active AND msk \<noteq> msk))"

section \<open>Coalesced groups\<close>

text \<open>The copy of the group object that one lane holds.\<close>

(* Source: src/include/ascify/dynamic_warp_groups_compat.hpp 36-39 coalesced_group *)
record coalesced_group =
  cg_mask :: u32
  meta_rank :: nat
  meta_size :: nat

(* Source: src/include/ascify/dynamic_warp_groups_compat.hpp 40-45 coalesced_group::coalesced_group *)
definition new_group :: "nat \<Rightarrow> u32 \<Rightarrow> nat \<Rightarrow> nat \<Rightarrow> coalesced_group option" where
  "new_group l msk rank groups = do {
     guard (\<not> (msk = 0 \<or> \<not> bit msk l));
     Some \<lparr>cg_mask = msk, meta_rank = rank, meta_size = groups\<rparr>
   }"

(* Source: src/include/ascify/dynamic_warp_groups_compat.hpp 55-58 coalesced_group::size *)
definition group_size :: "coalesced_group \<Rightarrow> nat" where
  "group_size g = count_lanes (cg_mask g)"

(* Source: src/include/ascify/dynamic_warp_groups_compat.hpp 59-62 coalesced_group::thread_rank *)
definition group_rank :: "coalesced_group \<Rightarrow> nat \<Rightarrow> nat" where
  "group_rank g l = count_lanes (cg_mask g AND (push_bit l 1 - 1))"

(* Source: src/include/ascify/dynamic_warp_groups_compat.hpp 65-73 coalesced_group::shfl *)
definition group_shfl :: "warp \<Rightarrow> u32 \<Rightarrow> coalesced_group \<Rightarrow> (nat \<Rightarrow> u32) \<Rightarrow> int \<Rightarrow> nat \<Rightarrow> u32 option" where
  "group_shfl W active g v source_rank l = do {
     require_members_active active l (cg_mask g);
     guard (\<not> (source_rank < 0 \<or> int (group_size g) \<le> source_rank));
     source \<leftarrow> member (cg_mask g) (nat source_rank);
     Some (asc_shfl W active v source l)
   }"

(* Source: src/include/ascify/dynamic_warp_groups_compat.hpp 76-78 coalesced_threads *)
definition coalesced_threads :: "u32 \<Rightarrow> nat \<Rightarrow> coalesced_group option" where
  "coalesced_threads active l = new_group l active 0 1"

(* Source: src/include/ascify/dynamic_warp_groups_compat.hpp 79-87 binary_partition *)
definition binary_partition ::
  "warp \<Rightarrow> u32 \<Rightarrow> coalesced_group \<Rightarrow> (nat \<Rightarrow> bool) \<Rightarrow> nat \<Rightarrow> coalesced_group option" where
  "binary_partition W active parent p l = do {
     require_members_active active l (cg_mask parent);
     let yes = asc_ballot W active p AND cg_mask parent;
     let homogeneous = (yes = 0 \<or> yes = cg_mask parent);
     let selected = (if p l then yes else cg_mask parent AND NOT yes);
     new_group l selected (if homogeneous then 0 else of_bool (p l)) (if homogeneous then 1 else 2)
   }"

(* Source: src/include/ascify/dynamic_warp_groups_compat.hpp 88-99 binary_partition (tile) *)
definition binary_partition_tile :: "warp \<Rightarrow> u32 \<Rightarrow> (nat \<Rightarrow> bool) \<Rightarrow> nat \<Rightarrow> coalesced_group option" where
  "binary_partition_tile W active p l = do {
     require_members_active active l 0xffffffff;
     let yes = asc_ballot W active p;
     let homogeneous = (yes = 0 \<or> yes = 0xffffffff);
     new_group l (if p l then yes else NOT yes)
       (if homogeneous then 0 else of_bool (p l)) (if homogeneous then 1 else 2)
   }"

text \<open>The loop over the ranks of the parent that fetches every label.\<close>

(* Source: src/include/ascify/dynamic_warp_groups_compat.hpp 110-114 labeled_partition (loop) *)
fun select_label ::
  "warp \<Rightarrow> u32 \<Rightarrow> coalesced_group \<Rightarrow> (nat \<Rightarrow> u32) \<Rightarrow> nat \<Rightarrow> nat list \<Rightarrow> u32 \<Rightarrow> u32 option" where
  "select_label W active parent label l [] selected = Some selected"
| "select_label W active parent label l (rank # ranks) selected = do {
     candidate \<leftarrow> group_shfl W active parent label (int rank) l;
     selected \<leftarrow> (if candidate = label l
       then do { b \<leftarrow> member (cg_mask parent) rank; Some (selected OR push_bit b 1) }
       else Some selected);
     select_label W active parent label l ranks selected
   }"

(* Source: src/include/ascify/dynamic_warp_groups_compat.hpp 107-115 labeled_partition (selected, leader) *)
definition label_leader ::
  "warp \<Rightarrow> u32 \<Rightarrow> coalesced_group \<Rightarrow> (nat \<Rightarrow> u32) \<Rightarrow> nat \<Rightarrow> (u32 \<times> nat) option" where
  "label_leader W active parent label l = do {
     require_members_active active l (cg_mask parent);
     selected \<leftarrow> select_label W active parent label l [0..<group_size parent] 0;
     leader \<leftarrow> member selected 0;
     Some (selected, leader)
   }"

text \<open>The ballot sees, from every active lane, whether that lane is the leader it found.\<close>

definition is_leader :: "warp \<Rightarrow> u32 \<Rightarrow> coalesced_group \<Rightarrow> (nat \<Rightarrow> u32) \<Rightarrow> nat \<Rightarrow> bool" where
  "is_leader W active parent label i =
     (case label_leader W active parent label i of None \<Rightarrow> False | Some (_, leader) \<Rightarrow> i = leader)"

(* Source: src/include/ascify/dynamic_warp_groups_compat.hpp 105-121 labeled_partition *)
definition labeled_partition ::
  "warp \<Rightarrow> u32 \<Rightarrow> coalesced_group \<Rightarrow> (nat \<Rightarrow> u32) \<Rightarrow> nat \<Rightarrow> coalesced_group option" where
  "labeled_partition W active parent label l = do {
     (selected, leader) \<leftarrow> label_leader W active parent label l;
     require_members_active active l (cg_mask parent);
     let leaders = asc_ballot W active (is_leader W active parent label) AND cg_mask parent;
     new_group l selected (count_lanes (leaders AND (push_bit leader 1 - 1))) (count_lanes leaders)
   }"

section \<open>Reduction over a group\<close>

(* Source: src/include/ascify/dynamic_warp_groups_compat.hpp 139-146 sum_int32 *)
definition sum_int32 :: "u32 \<Rightarrow> u32 \<Rightarrow> u32" where
  "sum_int32 left right = left + right"

(* Source: src/include/ascify/dynamic_warp_groups_compat.hpp 123-129 greater *)
definition greater :: "u32 \<Rightarrow> u32 \<Rightarrow> u32" where
  "greater left right = (if sint right < sint left then left else right)"

text \<open>What one lane computes in one round of the tree.\<close>

(* Source: src/include/ascify/dynamic_warp_groups_compat.hpp 153-157 reduce_int (round) *)
definition reduce_round ::
  "warp \<Rightarrow> u32 \<Rightarrow> coalesced_group \<Rightarrow> (u32 \<Rightarrow> u32 \<Rightarrow> u32) \<Rightarrow> nat \<Rightarrow> (nat \<Rightarrow> u32) \<Rightarrow> nat \<Rightarrow> u32 option" where
  "reduce_round W active g operation offset v l =
     (let rank = group_rank g l;
          combine = (rank mod (offset * 2) = 0 \<and> rank + offset < group_size g);
          source = (if combine then rank + offset else rank)
      in do {
        peer \<leftarrow> group_shfl W active g v (int source) l;
        Some (if combine then operation (v l) peer else v l)
      })"

text \<open>All members take the round together; a rejection in one lane traps the kernel.\<close>

definition group_round ::
  "warp \<Rightarrow> u32 \<Rightarrow> coalesced_group \<Rightarrow> (u32 \<Rightarrow> u32 \<Rightarrow> u32) \<Rightarrow> nat \<Rightarrow> (nat \<Rightarrow> u32) \<Rightarrow> (nat \<Rightarrow> u32) option" where
  "group_round W active g operation offset v =
     (if list_all (\<lambda>l. bit (cg_mask g) l \<longrightarrow> reduce_round W active g operation offset v l \<noteq> None) [0..<32]
      then Some (\<lambda>l. if bit (cg_mask g) l
        then the (reduce_round W active g operation offset v l) else v l)
      else None)"

text \<open>The offset of round \<open>k\<close> is \<open>2 ^ k\<close>.\<close>

(* Source: src/include/ascify/dynamic_warp_groups_compat.hpp 150-158 reduce_int (loop) *)
function reduce_rounds ::
  "warp \<Rightarrow> u32 \<Rightarrow> coalesced_group \<Rightarrow> (u32 \<Rightarrow> u32 \<Rightarrow> u32) \<Rightarrow> nat \<Rightarrow> (nat \<Rightarrow> u32) \<Rightarrow> (nat \<Rightarrow> u32) option" where
  "reduce_rounds W active g operation k v =
     (if 2 ^ k < group_size g
      then do {
        v \<leftarrow> group_round W active g operation (2 ^ k) v;
        reduce_rounds W active g operation (k + 1) v
      }
      else Some v)"
  by pat_completeness auto
termination
proof (relation "measure (\<lambda>(W, active, g, operation, k, v). group_size g - 2 ^ k)")
  fix k :: nat and g :: coalesced_group
  assume "2 ^ k < group_size g"
  moreover have "(2 :: nat) ^ k < 2 ^ (k + 1)"
    by simp
  ultimately show "((W, active, g, operation, k + 1, v), W, active, g, operation, k, u)
      \<in> measure (\<lambda>(W, active, g, operation, k, v). group_size g - 2 ^ k)"
    for W active operation v u
    by (simp add: diff_less_mono2)
qed simp

declare reduce_rounds.simps [simp del]

(* Source: src/include/ascify/dynamic_warp_groups_compat.hpp 147-160 reduce_int *)
definition reduce_int ::
  "warp \<Rightarrow> u32 \<Rightarrow> coalesced_group \<Rightarrow> (u32 \<Rightarrow> u32 \<Rightarrow> u32) \<Rightarrow> (nat \<Rightarrow> u32) \<Rightarrow> nat \<Rightarrow> u32 option" where
  "reduce_int W active g operation v l = do {
     v \<leftarrow> reduce_rounds W active g operation 0 v;
     group_shfl W active g v 0 l
   }"

(* Source: src/include/ascify/dynamic_warp_groups_compat.hpp 162-165 reduce (plus) *)
definition reduce_plus :: "warp \<Rightarrow> u32 \<Rightarrow> coalesced_group \<Rightarrow> (nat \<Rightarrow> u32) \<Rightarrow> nat \<Rightarrow> u32 option" where
  "reduce_plus W active g v l = reduce_int W active g sum_int32 v l"

(* Source: src/include/ascify/dynamic_warp_groups_compat.hpp 166-169 reduce (greater) *)
definition reduce_greater :: "warp \<Rightarrow> u32 \<Rightarrow> coalesced_group \<Rightarrow> (nat \<Rightarrow> u32) \<Rightarrow> nat \<Rightarrow> u32 option" where
  "reduce_greater W active g v l = reduce_int W active g greater v l"

end
