(* ===== verification/Warp_Facts.thy ===== *)
theory Warp_Facts
  imports Warp_Groups
begin

unbundle bit_operations_syntax

text \<open>
  The lanes of a mask as a list, the documented behaviour of the warp instructions,
  and the tree reduction as a fold over the members in rank order.
\<close>

section \<open>Members of a mask\<close>

definition members :: "u32 \<Rightarrow> nat list" where
  "members m = filter (bit m) [0..<32]"

lemma set_members [simp]: "l \<in> set (members m) \<longleftrightarrow> bit m l"
  using bit_imp_le_length[of m l] by (auto simp: members_def)

lemma distinct_members [simp]: "distinct (members m)"
  by (simp add: members_def)

lemma bit_less_32: "bit (m :: u32) l \<Longrightarrow> l < 32"
  using bit_imp_le_length[of m l] by simp

lemma members_split: "bit m l \<Longrightarrow> members m = filter (bit m) [0..<l] @ l # filter (bit m) [Suc l..<32]"
proof -
  assume b: "bit m l"
  then have "[0..<32] = [0..<l] @ l # [Suc l..<32]"
    using bit_less_32[OF b] upt_add_eq_append[of 0 l "32 - l"] upt_conv_Cons[of l 32] by simp
  then show ?thesis
    using b by (simp add: members_def)
qed

lemma mask_nonzero: "bit (m :: u32) l \<Longrightarrow> m \<noteq> 0"
  by auto

text \<open>\<open>m AND (m - 1)\<close> clears the lowest bit.\<close>

lemma clear_lowest_nat:
  "0 < n \<Longrightarrow> \<exists>i. bit n i \<and> (\<forall>j. bit (n AND (n - 1)) j \<longleftrightarrow> bit n j \<and> j \<noteq> i)" for n :: nat
proof (induction n rule: less_induct)
  case (less n)
  show ?case
  proof (cases "even n")
    case False
    then have d: "(n - 1) div 2 = n div 2"
      by (auto elim!: oddE)
    have "bit (n AND (n - 1)) j \<longleftrightarrow> bit n j \<and> j \<noteq> 0" for j
      unfolding bit_and_iff using False by (cases j) (simp_all add: bit_Suc bit_0 d[simplified])
    then show ?thesis
      using False by (intro exI[of _ 0]) (simp add: bit_0)
  next
    case True
    then obtain k where k: "n = 2 * k" "0 < k"
      using less.prems by (metis evenE gr0I mult_0_right)
    then obtain i where i: "bit k i" "\<And>j. bit (k AND (k - 1)) j \<longleftrightarrow> bit k j \<and> j \<noteq> i"
      using less.IH[of k] by auto
    have d: "(2 * k - 1) div 2 = k - 1"
      using k(2) by simp
    have "bit (n AND (n - 1)) j \<longleftrightarrow> bit n j \<and> j \<noteq> Suc i" for j
      unfolding bit_and_iff using i(2)[unfolded bit_and_iff]
      by (cases j) (simp_all add: bit_Suc bit_0 k(1) d[unfolded One_nat_def])
    then show ?thesis
      using i(1) by (intro exI[of _ "Suc i"]) (simp add: bit_Suc k(1))
  qed
qed

lemma bit_unat: "bit (unat (m :: u32)) i \<longleftrightarrow> bit m i"
  by (auto simp: bit_unsigned_iff)

lemma clear_lowest:
  assumes "m \<noteq> 0"
  obtains i where "bit (m :: u32) i" "\<And>j. bit (m AND (m - 1)) j \<longleftrightarrow> bit m j \<and> j \<noteq> i"
proof -
  have u: "unat (m AND (m - 1)) = unat m AND (unat m - 1)"
    using assms by (simp add: unsigned_and_eq unat_minus_one)
  obtain i where "bit (unat m) i"
      "\<forall>j. bit (unat m AND (unat m - 1)) j \<longleftrightarrow> bit (unat m) j \<and> j \<noteq> i"
    using clear_lowest_nat[of "unat m"] assms by (auto simp: unat_gt_0)
  then show thesis
    using that[of i] unfolding u[symmetric] bit_unat by blast
qed

lemma count_lanes: "count_lanes m = length (members m)"
proof (induction m rule: count_lanes.induct)
  case (1 m)
  show ?case
  proof (cases "m = 0")
    case False
    then obtain i where i: "bit m i" "\<And>j. bit (m AND (m - 1)) j \<longleftrightarrow> bit m j \<and> j \<noteq> i"
      by (rule clear_lowest) blast
    have "set (members m) = insert i (set (members (m AND (m - 1))))"
      "i \<notin> set (members (m AND (m - 1)))"
      unfolding set_eq_iff insert_iff set_members i(2) using i(1) by blast+
    then have "card (set (members m)) = Suc (card (set (members (m AND (m - 1)))))"
      by simp
    then have "length (members m) = Suc (length (members (m AND (m - 1))))"
      by (simp add: distinct_card)
    moreover have "count_lanes m = Suc (count_lanes (m AND (m - 1)))"
      using False by (subst count_lanes.simps) simp
    ultimately show ?thesis
      using 1[OF False] by (simp only:)
  next
    case True
    then show ?thesis
      by (simp add: members_def) (subst count_lanes.simps, simp)
  qed
qed

lemma count_lanes_card: "count_lanes m = card {l. bit m l}"
proof -
  have "{l. bit m l} = set (members m)"
    by auto
  then show ?thesis
    by (simp add: count_lanes distinct_card)
qed

lemma member_from:
  "member_from b m r = (let xs = filter (bit m) [b..<32] in if r < length xs then Some (xs ! r) else None)"
proof (induction b m r rule: member_from.induct)
  case (1 b m r)
  show ?case
  proof (cases "32 \<le> b")
    case False
    then have "[b..<32] = b # [Suc b..<32]"
      by (simp add: upt_conv_Cons)
    then show ?thesis
      using 1 False by (cases r) (simp_all add: member_from.simps[of b m] Let_def)
  qed (simp add: member_from.simps[of b m])
qed

lemma member: "member m r = (if r < length (members m) then Some (members m ! r) else None)"
  by (simp add: member_def member_from members_def)

lemma group_rank:
  assumes "l < 32"
  shows "group_rank g l = length (filter (bit (cg_mask g)) [0..<l])"
proof -
  have m: "push_bit l 1 - 1 = (mask l :: u32)"
    by (simp add: mask_eq_exp_minus_1 push_bit_eq_mult)
  have b: "bit (cg_mask g AND mask l) j \<longleftrightarrow> bit (cg_mask g) j \<and> j < l" for j
    using assms by (auto simp: bit_and_iff bit_mask_iff)
  have "[0..<32] = [0..<l] @ [l..<32]"
    using assms upt_add_eq_append[of 0 l "32 - l"] by simp
  then have "members (cg_mask g AND mask l) = filter (bit (cg_mask g)) [0..<l]"
    by (auto simp: members_def b intro: filter_cong)
  then show ?thesis
    unfolding group_rank_def m count_lanes by (simp only:)
qed

text \<open>Ranks and members are inverse to each other.\<close>

lemma rank_of:
  assumes "bit (cg_mask g) l"
  shows "group_rank g l < length (members (cg_mask g))"
    and "members (cg_mask g) ! group_rank g l = l"
  using members_split[OF assms] bit_less_32[OF assms] by (simp_all add: group_rank nth_append)

lemma of_rank:
  assumes "r < length (members (cg_mask g))"
  shows "bit (cg_mask g) (members (cg_mask g) ! r)"
    and "group_rank g (members (cg_mask g) ! r) = r"
proof -
  show b: "bit (cg_mask g) (members (cg_mask g) ! r)"
    using nth_mem[OF assms] by simp
  show "group_rank g (members (cg_mask g) ! r) = r"
    using rank_of[OF b] assms by (simp add: nth_eq_iff_index_eq)
qed

section \<open>The documented behaviour of the instructions\<close>

text \<open>A ballot has the bits of the active lanes that vote for it; an index shuffle from an
  active lane gives its value; up and down shuffles move values within segments of
  \<open>width\<close> lanes, and a lane whose source falls out of its segment keeps its value.\<close>

definition warp_documented :: "warp \<Rightarrow> bool" where
  "warp_documented W \<longleftrightarrow>
     (\<forall>active p i. bit (asc_ballot W active p) i \<longleftrightarrow> bit active i \<and> p i)
   \<and> (\<forall>active v s l. bit active s \<and> bit active l \<longrightarrow> asc_shfl W active v s l = v s)
   \<and> (\<forall>active v d w l. d < w \<and> w \<in> {2, 4, 8, 16, 32} \<and> bit active l \<longrightarrow>
        (l mod w < d \<longrightarrow> asc_shfl_up W active v d w l = v l)
      \<and> (d \<le> l mod w \<and> bit active (l - d) \<longrightarrow> asc_shfl_up W active v d w l = v (l - d)))
   \<and> (\<forall>active v d w l. w \<in> {1, 2, 4, 8, 16, 32} \<and> bit active l \<longrightarrow>
        (w \<le> l mod w + d \<longrightarrow> asc_shfl_down W active v d w l = v l)
      \<and> (l mod w + d < w \<and> bit active (l + d) \<longrightarrow> asc_shfl_down W active v d w l = v (l + d)))"

text \<open>A warp that behaves so, for the examples.\<close>

fun lanes_word :: "(nat \<Rightarrow> bool) \<Rightarrow> nat list \<Rightarrow> u32" where
  "lanes_word p [] = 0"
| "lanes_word p (i # is) = (if p i then push_bit i 1 OR lanes_word p is else lanes_word p is)"

definition model_warp :: warp where
  "model_warp =
     \<lparr>asc_ballot = (\<lambda>active p. lanes_word (\<lambda>i. bit active i \<and> p i) [0..<32]),
      asc_shfl = (\<lambda>active v s l. v s),
      asc_shfl_up = (\<lambda>active v d w l. if l mod w < d then v l else v (l - d)),
      asc_shfl_down = (\<lambda>active v d w l. if w \<le> l mod w + d then v l else v (l + d))\<rparr>"

lemma bit_lanes_word: "bit (lanes_word p is) j \<longleftrightarrow> j < 32 \<and> j \<in> set is \<and> p j"
  by (induction "is") (auto simp: bit_or_iff bit_exp_iff)

lemma model_warp_documented: "warp_documented model_warp"
  by (auto simp: warp_documented_def model_warp_def bit_lanes_word dest: bit_less_32)

lemma ballot_bit: "warp_documented W \<Longrightarrow> bit (asc_ballot W active p) i \<longleftrightarrow> bit active i \<and> p i"
  by (simp add: warp_documented_def)

lemma shfl_value: "warp_documented W \<Longrightarrow> bit active s \<Longrightarrow> bit active l \<Longrightarrow> asc_shfl W active v s l = v s"
  by (simp add: warp_documented_def)

section \<open>Exchange within a group\<close>

text \<open>A group all of whose members are active.\<close>

definition running :: "u32 \<Rightarrow> coalesced_group \<Rightarrow> bool" where
  "running active g \<longleftrightarrow> active AND cg_mask g = cg_mask g"

lemma running_bit: "running active g \<Longrightarrow> bit (cg_mask g) l \<Longrightarrow> bit active l"
  unfolding running_def by (metis bit_and_iff)

lemma members_active:
  "running active g \<Longrightarrow> bit (cg_mask g) l \<Longrightarrow> require_members_active active l (cg_mask g) = Some ()"
  using mask_nonzero by (auto simp: require_members_active_def guard_def running_def)

lemma group_shfl:
  assumes "warp_documented W" and "running active g" and "bit (cg_mask g) l"
    and "r < length (members (cg_mask g))"
  shows "group_shfl W active g v (int r) l = Some (v (members (cg_mask g) ! r))"
  using members_active[OF assms(2,3)] assms(4) of_rank[OF assms(4)]
    shfl_value[OF assms(1)] running_bit[OF assms(2)] assms(3)
  by (simp add: group_shfl_def guard_def group_size_def count_lanes member)

end
