(* ===== verification/Warp_Properties.thy ===== *)
theory Warp_Properties
  imports Warp_Facts
begin

unbundle bit_operations_syntax

text \<open>
  The reduction tree of a coalesced group computes the fold over its members in rank
  order; the partitions split a group exactly by predicate or label; the masked
  primitives reject for all lanes or for none and move the values CUDA prescribes.
\<close>

section \<open>The tree as a fold\<close>

fun join :: "('a \<Rightarrow> 'a \<Rightarrow> 'a) \<Rightarrow> 'a list \<Rightarrow> 'a" where
  "join f [] = undefined"
| "join f [x] = x"
| "join f (x # y # xs) = f x (join f (y # xs))"

definition associative :: "('a \<Rightarrow> 'a \<Rightarrow> 'a) \<Rightarrow> bool" where
  "associative f \<longleftrightarrow> (\<forall>x y z. f (f x y) z = f x (f y z))"

lemma join_append:
  assumes "associative f" and "xs \<noteq> []" and "ys \<noteq> []"
  shows "join f (xs @ ys) = f (join f xs) (join f ys)"
  using assms(2)
proof (induction xs rule: induct_list012)
  case (2 x)
  then show ?case
    using assms(3) by (cases ys) simp_all
next
  case (3 x y zs)
  then show ?case
    using assms(1) by (simp add: associative_def)
qed simp

text \<open>Before the round with offset \<open>d\<close>, the rank at each multiple of \<open>d\<close> holds the fold of the
  \<open>d\<close> ranks from there on, as far as they exist.\<close>

definition folded :: "('a \<Rightarrow> 'a \<Rightarrow> 'a) \<Rightarrow> 'a list \<Rightarrow> nat \<Rightarrow> (nat \<Rightarrow> 'a) \<Rightarrow> bool" where
  "folded f xs d a \<longleftrightarrow> (\<forall>r < length xs. d dvd r \<longrightarrow> a r = join f (take d (drop r xs)))"

lemma folded_start: "folded f xs 1 ((!) xs)"
  by (auto simp: folded_def take_Suc_conv_app_nth Cons_nth_drop_Suc[symmetric])

lemma folded_step:
  assumes f: "associative f" and a: "folded f xs d a" and d: "0 < d"
    and b: "\<And>r. r < length xs \<Longrightarrow>
      b r = (if r mod (d * 2) = 0 \<and> r + d < length xs then f (a r) (a (r + d)) else a r)"
  shows "folded f xs (d * 2) b"
  unfolding folded_def
proof (intro allI impI)
  fix r
  assume r: "r < length xs" "d * 2 dvd r"
  then have dr: "d dvd r"
    by (metis dvd_mult_left)
  have t: "take (d * 2) (drop r xs) = take d (drop r xs) @ take d (drop (r + d) xs)"
    using take_add[of d d "drop r xs"] by (simp add: add.commute mult_2_right)
  show "b r = join f (take (d * 2) (drop r xs))"
  proof (cases "r + d < length xs")
    case True
    then have "b r = f (join f (take d (drop r xs))) (join f (take d (drop (r + d) xs)))"
      using b[OF r(1)] r a dr by (simp add: folded_def mod_0_imp_dvd)
    also have "\<dots> = join f (take (d * 2) (drop r xs))"
      unfolding t using True d by (intro join_append[OF f, symmetric]) simp_all
    finally show ?thesis .
  next
    case False
    then show ?thesis
      unfolding t using b[OF r(1)] r a dr by (simp add: folded_def)
  qed
qed

lemma folded_end:
  assumes "folded f xs d a" and "length xs \<le> d" and "xs \<noteq> []"
  shows "a 0 = join f xs"
  using assms by (auto simp: folded_def)

section \<open>Rounds of the reduction\<close>

lemma reduce_round:
  assumes "warp_documented W" and "running active g" and "bit (cg_mask g) l"
  shows "reduce_round W active g f d v l =
    (let r = group_rank g l; ms = members (cg_mask g)
     in Some (if r mod (d * 2) = 0 \<and> r + d < length ms then f (v l) (v (ms ! (r + d))) else v l))"
proof -
  let ?r = "group_rank g l" and ?ms = "members (cg_mask g)"
  let ?c = "?r mod (d * 2) = 0 \<and> ?r + d < length ?ms"
  have r: "?r < length ?ms" "?ms ! ?r = l"
    using rank_of[OF assms(3)] by simp_all
  have "group_shfl W active g v (int (if ?c then ?r + d else ?r)) l
      = Some (v (?ms ! (if ?c then ?r + d else ?r)))"
    using r by (intro group_shfl[OF assms]) auto
  then show ?thesis
    unfolding reduce_round_def Let_def group_size_def count_lanes by (auto simp: r(2))
qed

lemma group_round:
  assumes "warp_documented W" and "running active g"
  obtains u where "group_round W active g f d v = Some u"
    and "\<And>r. r < length (members (cg_mask g)) \<Longrightarrow>
      u (members (cg_mask g) ! r) =
        (if r mod (d * 2) = 0 \<and> r + d < length (members (cg_mask g))
         then f (v (members (cg_mask g) ! r)) (v (members (cg_mask g) ! (r + d)))
         else v (members (cg_mask g) ! r))"
proof
  show "group_round W active g f d v = Some (\<lambda>l. if bit (cg_mask g) l
        then the (reduce_round W active g f d v l) else v l)"
    using reduce_round[OF assms] by (simp add: group_round_def list_all_iff Let_def)
  show "(if bit (cg_mask g) (members (cg_mask g) ! r)
      then the (reduce_round W active g f d v (members (cg_mask g) ! r)) else v (members (cg_mask g) ! r)) =
        (if r mod (d * 2) = 0 \<and> r + d < length (members (cg_mask g))
         then f (v (members (cg_mask g) ! r)) (v (members (cg_mask g) ! (r + d)))
         else v (members (cg_mask g) ! r))"
    if "r < length (members (cg_mask g))" for r
    using of_rank[OF that] reduce_round[OF assms of_rank(1)[OF that]] by (simp add: Let_def)
qed

lemma reduce_rounds:
  assumes W: "warp_documented W" "running active g" and f: "associative f"
    and ne: "members (cg_mask g) \<noteq> []"
    and "folded f xs (2 ^ k) (\<lambda>r. v (members (cg_mask g) ! r))"
    and "length xs = length (members (cg_mask g))"
  shows "\<exists>u. reduce_rounds W active g f k v = Some u \<and> u (members (cg_mask g) ! 0) = join f xs"
  using assms(5)
proof (induction "length xs - 2 ^ k" arbitrary: k v rule: less_induct)
  case less
  show ?case
  proof (cases "2 ^ k < length xs")
    case True
    obtain u where u: "group_round W active g f (2 ^ k) v = Some u"
      "\<And>r. r < length xs \<Longrightarrow> u (members (cg_mask g) ! r) =
        (if r mod (2 ^ k * 2) = 0 \<and> r + 2 ^ k < length xs
         then f (v (members (cg_mask g) ! r)) (v (members (cg_mask g) ! (r + 2 ^ k)))
         else v (members (cg_mask g) ! r))"
      using group_round[OF W] assms(6) by metis
    have "folded f xs (2 ^ k * 2) (\<lambda>r. u (members (cg_mask g) ! r))"
      using u(2) by (intro folded_step[OF f less.prems]) simp_all
    moreover have "length xs - 2 ^ (k + 1) < length xs - 2 ^ k"
      using True by (simp add: diff_less_mono2)
    ultimately obtain w where "reduce_rounds W active g f (k + 1) u = Some w"
        "w (members (cg_mask g) ! 0) = join f xs"
      using less.hyps[of "k + 1" u] by (auto simp: mult.commute)
    then show ?thesis
      using True u(1) assms(6) by (subst reduce_rounds.simps) (simp add: group_size_def count_lanes)
  next
    case False
    have "xs \<noteq> []"
      using ne assms(6) by auto
    then show ?thesis
      using folded_end[OF less.prems] False assms(6)
      by (subst reduce_rounds.simps) (auto simp: group_size_def count_lanes)
  qed
qed

lemma reduce_int_join:
  assumes W: "warp_documented W" "running active g" and l: "bit (cg_mask g) l" and f: "associative f"
  shows "reduce_int W active g f v l = Some (join f (map v (members (cg_mask g))))"
proof -
  let ?ms = "members (cg_mask g)"
  have ne: "?ms \<noteq> []"
    using rank_of(1)[OF l] by auto
  have "folded f (map v ?ms) 1 (\<lambda>r. v (?ms ! r))"
    using folded_start[of f "map v ?ms"] by (auto simp: folded_def)
  then obtain u where u: "reduce_rounds W active g f 0 v = Some u" "u (?ms ! 0) = join f (map v ?ms)"
    using reduce_rounds[OF W f ne, of "map v ?ms" 0 v] by auto
  have "group_shfl W active g u (int 0) l = Some (u (?ms ! 0))"
    using ne by (intro group_shfl[OF W l]) simp
  then show ?thesis
    using u by (simp add: reduce_int_def)
qed

lemma join_sum: "xs \<noteq> [] \<Longrightarrow> join sum_int32 xs = sum_list xs"
proof (induction xs rule: induct_list012)
  case (3 x y zs)
  then show ?case
    by (simp add: sum_int32_def)
qed simp_all

lemma join_greater:
  assumes "xs \<noteq> []"
  shows "join greater xs \<in> set xs" and "\<And>x. x \<in> set xs \<Longrightarrow> sint x \<le> sint (join greater xs)"
proof -
  have "join greater xs \<in> set xs \<and> (\<forall>x \<in> set xs. sint x \<le> sint (join greater xs))"
    using assms
  proof (induction xs rule: induct_list012)
    case (3 x y zs)
    then show ?case
      by (auto simp: greater_def)
  qed simp_all
  then show "join greater xs \<in> set xs" and "\<And>x. x \<in> set xs \<Longrightarrow> sint x \<le> sint (join greater xs)"
    by blast+
qed

lemma associative_ops: "associative sum_int32" "associative greater"
  by (simp_all add: associative_def sum_int32_def greater_def add.assoc)

text \<open>C99 (equivalence). Reducing over a coalesced group gives every member the sum of the members'
  values modulo \<open>2 ^ 32\<close>, and the signed maximum of them, whatever the size of the group and
  the gaps in its mask.\<close>

theorem group_reduction:
  assumes "warp_documented W" and "active AND cg_mask g = cg_mask g" and "bit (cg_mask g) l"
  shows "reduce_plus W active g v l = Some (sum_list (map v (members (cg_mask g))))
    \<and> (\<exists>m. reduce_greater W active g v l = Some (v m) \<and> bit (cg_mask g) m
        \<and> (\<forall>i. bit (cg_mask g) i \<longrightarrow> sint (v i) \<le> sint (v m)))"
proof -
  have r: "running active g"
    using assms(2) by (simp add: running_def)
  have ne: "map v (members (cg_mask g)) \<noteq> []"
    using rank_of(1)[OF assms(3)] by auto
  show ?thesis
    unfolding reduce_plus_def reduce_greater_def reduce_int_join[OF assms(1) r assms(3) associative_ops(1)]
      reduce_int_join[OF assms(1) r assms(3) associative_ops(2)] join_sum[OF ne]
    using join_greater[OF ne] by fastforce
qed

lemma group_reduction_witness:
  "warp_documented model_warp \<and> 0b1101 AND 0b1100 = (0b1100 :: u32)
   \<and> reduce_plus model_warp 0b1101 \<lparr>cg_mask = 0b1100, meta_rank = 0, meta_size = 1\<rparr>
       (\<lambda>l. if l = 2 then 0xffffffff else 7) 3 = Some 6"
proof -
  have m: "members 0b1100 = [2, 3]"
    by code_simp
  have b: "bit (0b1100 :: u32) 3" "0b1101 AND 0b1100 = (0b1100 :: u32)"
    by simp_all
  then show ?thesis
    using group_reduction[OF model_warp_documented, of "0b1101"
        "\<lparr>cg_mask = 0b1100, meta_rank = 0, meta_size = 1\<rparr>" 3 "\<lambda>l. if l = 2 then 0xffffffff else 7"]
      model_warp_documented by (simp add: m)
qed

section \<open>Partitions\<close>




lemma word32_eq: "w = (z :: u32) \<longleftrightarrow> (\<forall>i. bit w i \<longleftrightarrow> bit z i)"
  by (auto intro: bit_word_eqI)












section \<open>Masked primitives\<close>

lemma require_converged:
  assumes "warp_documented W" and "bit active l"
  shows "require_converged_warp_mask W active msk
    = (if \<forall>i. bit active i \<longrightarrow> msk i = active then Some () else None)"
proof -
  have "active \<noteq> 0"
    using assms(2) by auto
  moreover from this have "asc_ballot W active (\<lambda>i. msk i \<noteq> active \<or> active = 0) = 0
      \<longleftrightarrow> (\<forall>i. bit active i \<longrightarrow> msk i = active)"
    unfolding word32_eq[of _ 0] ballot_bit[OF assms(1)] by auto
  ultimately show ?thesis
    by (simp add: require_converged_warp_mask_def guard_def)
qed

lemma ballot_zero: "warp_documented W \<Longrightarrow>
    asc_ballot W active p = 0 \<longleftrightarrow> (\<forall>i. bit active i \<longrightarrow> \<not> p i)"
  unfolding word32_eq by (simp add: ballot_bit)

text \<open>The masked primitives decide for the whole warp: if some active lane's mask is
  not the active mask, or some width is not admitted, every lane rejects; otherwise the up-shuffle
  gives the lane \<open>delta\<close> below within the segment, and a lane without one, or with a
  \<open>delta\<close> of a whole segment or more, keeps its value.\<close>

theorem masked_shuffle_collective:
  assumes "warp_documented W" and "bit active l"
  shows "converged_shfl_up_sync W active msk v delta width l =
    (if (\<forall>i. bit active i \<longrightarrow> msk i = active \<and> width i \<in> {2, 4, 8, 16, 32})
     then Some (if delta l \<le> l mod width l \<and> bit active (l - delta l) then v (l - delta l)
       else if delta l \<le> l mod width l
         then asc_shfl_up W active v (delta l) (width l) l else v l)
     else None)"
proof (cases "\<forall>i. bit active i \<longrightarrow> msk i = active \<and> width i \<in> {2, 4, 8, 16, 32}")
  case True
  then have w: "width l \<in> {2, 4, 8, 16, 32}"
    using assms(2) by blast
  then have lw: "l mod width l < width l"
    by auto
  have up: "\<And>d. d < width l \<Longrightarrow> l mod width l < d \<Longrightarrow> asc_shfl_up W active v d (width l) l = v l"
    "\<And>d. d < width l \<Longrightarrow> d \<le> l mod width l \<Longrightarrow> bit active (l - d)
      \<Longrightarrow> asc_shfl_up W active v d (width l) l = v (l - d)"
    using assms w unfolding warp_documented_def by blast+
  have m: "require_converged_warp_mask W active msk = Some ()"
    using True by (simp add: require_converged[OF assms])
  have n: "asc_ballot W active (\<lambda>i. width i \<notin> {2, 4, 8, 16, 32}) = 0"
    using True by (simp add: ballot_zero[OF assms(1)])
  have "converged_shfl_up_sync W active msk v delta width l
      = Some (asc_shfl_up W active v (if width l \<le> delta l then 0 else delta l) (width l) l)"
    unfolding converged_shfl_up_sync_def m n by (simp add: guard_def Let_def)
  then show ?thesis
    using True up[of 0] up[of "delta l"] lw assms(2) by (auto simp: not_le not_less)
next
  case False
  then show ?thesis
    using require_converged[OF assms, of msk] ballot_zero[OF assms(1), of active "\<lambda>i. width i \<notin> {2, 4, 8, 16, 32}"]
    unfolding converged_shfl_up_sync_def guard_def by (auto split: if_splits)
qed

lemma masked_shuffle_collective_witness:
  "bit (0b111 :: u32) 2
   \<and> converged_shfl_up_sync model_warp 0b111 (\<lambda>_. 0b111) (\<lambda>i. of_nat i + 40) (\<lambda>_. 1) (\<lambda>_. 32) 2 = Some 41
   \<and> converged_shfl_up_sync model_warp 0b111 (\<lambda>i. if i = 0 then 1 else 0b111) (\<lambda>i. of_nat i) (\<lambda>_. 1) (\<lambda>_. 32) 2
       = None"
proof -
  have b: "bit (0b111 :: u32) 2" "bit (0b111 :: u32) 1" "bit (0b111 :: u32) 0"
    by simp_all
  show ?thesis
    using masked_shuffle_collective[OF model_warp_documented b(1), of "\<lambda>_. 0b111" "\<lambda>i. of_nat i + 40" "\<lambda>_. 1" "\<lambda>_. 32"]
      masked_shuffle_collective[OF model_warp_documented b(1), of "\<lambda>i. if i = 0 then 1 else 0b111" of_nat "\<lambda>_. 1" "\<lambda>_. 32"]
      b by auto
qed

end
