(* ===== verification/Block_Reduction.thy ===== *)
theory Block_Reduction
  imports Warp_Facts
begin

unbundle bit_operations_syntax

text \<open>
  Whole-tile reductions: \<open>reduce\<close> of a 32-lane tile
  (\<open>include/ascify/cooperative_groups_compat.hpp\<close>), \<open>reduce\<close> of a block tile through
  shared scratch (\<open>uniform_block_reduction_compat.hpp\<close>), and the register tile whose last
  warp may be partial (\<open>register_tile32_compat.hpp\<close>).  Between two barriers every warp
  writes slots of its own, so one phase is a function on the scratch.
\<close>

section \<open>The tree over a warp\<close>



text \<open>The second tree combines the lanes below the offset only.\<close>



section \<open>The tree over a block tile\<close>

definition scratch_block :: "nat \<Rightarrow> nat \<Rightarrow> unit option" where
  "scratch_block block_size threads = (if threads \<noteq> block_size then None else Some ())"

(* Source: src/include/ascify/uniform_block_reduction_compat.hpp 101-110 reduce (warps) *)

text \<open>The first warp of a tile combines the partial results of the tile's warps.\<close>


section \<open>Register tiles\<close>

(* Source: src/include/ascify/register_tile32_compat.hpp 11-14 register_tile32_v1 *)
record register_tile =
  rt_block_rank :: u32
  rt_block_size :: u32
  member_mask :: u32

(* Source: src/include/ascify/register_tile32_compat.hpp 30-41 register_tile32_v1::register_tile32_v1 *)
definition new_register_tile :: "u32 \<Rightarrow> u32 \<Rightarrow> u32 \<Rightarrow> register_tile option" where
  "new_register_tile active rank threads =
     (if threads = 0 \<or> 1024 < threads \<or> threads \<le> rank then None
      else
        let remaining = threads - (rank AND NOT 31);
            members = (if remaining < 32 then remaining else 32);
            m = (if members = 32 then 0xffffffff else push_bit (unat members) 1 - 1)
        in if active \<noteq> m then None
           else Some \<lparr>rt_block_rank = rank, rt_block_size = threads, member_mask = m\<rparr>)"

(* Source: src/include/ascify/register_tile32_compat.hpp 46-49 thread_rank *)
definition rt_thread_rank :: "register_tile \<Rightarrow> u32" where
  "rt_thread_rank t = rt_block_rank t AND 31"

(* Source: src/include/ascify/register_tile32_compat.hpp 52-54 meta_group_rank *)
definition rt_meta_group_rank :: "register_tile \<Rightarrow> u32" where
  "rt_meta_group_rank t = drop_bit 5 (rt_block_rank t)"

(* Source: src/include/ascify/register_tile32_compat.hpp 55-57 meta_group_size *)
definition rt_meta_group_size :: "register_tile \<Rightarrow> u32" where
  "rt_meta_group_size t = drop_bit 5 (rt_block_size t + 31)"

(* Source: src/include/ascify/register_tile32_compat.hpp 16-19 check_active *)
definition check_active :: "u32 \<Rightarrow> register_tile \<Rightarrow> unit option" where
  "check_active active t = guard (active = member_mask t)"

(* Source: src/include/ascify/register_tile32_compat.hpp 21-27 check_xor *)
definition check_xor :: "u32 \<Rightarrow> register_tile \<Rightarrow> u32 \<Rightarrow> unit option" where
  "check_xor active t lane_mask = do {
     check_active active t;
     let source = rt_thread_rank t XOR lane_mask;
     guard (\<not> (32 \<le> lane_mask \<or> 32 \<le> source \<or> \<not> bit (member_mask t) (unat source)))
   }"

(* Source: src/include/ascify/register_tile32_compat.hpp 59-64 shfl_up *)
definition rt_shfl_up :: "warp \<Rightarrow> u32 \<Rightarrow> register_tile \<Rightarrow> (nat \<Rightarrow> u32) \<Rightarrow> u32 \<Rightarrow> u32 option" where
  "rt_shfl_up W active t v delta = do {
     check_active active t;
     let normalized_delta = (if delta < 32 then delta else 0);
     Some (asc_shfl_up W active v (unat normalized_delta) 32 (unat (rt_thread_rank t)))
   }"

section \<open>Sums\<close>









section \<open>Register tiles of partial warps\<close>

lemma unat_clear5: "unat (w AND NOT 31 :: u32) = unat w div 32 * 32"
proof -
  have "w AND NOT (mask 5) = push_bit 5 (drop_bit 5 w)"
    by (rule bit_word_eqI)
      (auto simp only: bit_and_iff bit_not_iff bit_push_bit_iff bit_drop_bit_eq bit_mask_iff o_def
        le_add_diff_inverse possible_bit_word not_less)
  moreover have "(mask 5 :: u32) = 31"
    by (simp add: mask_eq_exp_minus_1)
  ultimately have e: "w AND NOT 31 = push_bit 5 (drop_bit 5 w)"
    by metis
  have "unat w div 32 * 32 < 2 ^ 32"
    using unsigned_less[of w, where 'a = nat] by (simp add: order_le_less_trans[OF div_times_less_eq_dividend])
  then show ?thesis
    unfolding e unsigned_push_bit_eq unsigned_drop_bit_eq
    by (simp add: push_bit_eq_mult drop_bit_eq_div take_bit_nat_eq_self)
qed

text \<open>A register tile accepts exactly the lanes of its warp that exist in the block:
  of the last, partial warp only the first ones.\<close>

theorem register_tile_members:
  assumes "new_register_tile active rank threads = Some t"
  shows "(\<forall>i. bit active i \<longleftrightarrow> i < 32 \<and> 32 * (unat rank div 32) + i < unat threads)
    \<and> member_mask t = active \<and> unat (rt_thread_rank t) = unat rank mod 32
    \<and> bit (member_mask t) (unat (rt_thread_rank t))
    \<and> unat (rt_meta_group_rank t) < unat (rt_meta_group_size t)
    \<and> unat (rt_meta_group_size t) = (unat threads + 31) div 32"
proof -
  define r where "r = unat rank"
  define n where "n = unat threads"
  have ok: "threads \<noteq> 0" "threads \<le> 1024" "rank < threads"
    using assms by (auto simp: new_register_tile_def split: if_splits)
  then have rn: "r < n" "n \<le> 1024"
    by (simp_all add: r_def n_def word_less_nat_alt word_le_nat_alt)
  define remaining where "remaining = threads - (rank AND NOT 31)"
  have le: "r div 32 * 32 \<le> n"
    using rn(1) div_times_less_eq_dividend[of r 32] by linarith
  then have R: "unat remaining = n - r div 32 * 32"
    using unat_clear5[of rank] by (simp add: remaining_def unat_sub word_le_nat_alt r_def n_def)
  define m :: u32 where "m = (if (if remaining < 32 then remaining else 32) = 32 then 0xffffffff
      else push_bit (unat (if remaining < 32 then remaining else 32)) 1 - 1)"
  have t: "active = m" "t = \<lparr>rt_block_rank = rank, rt_block_size = threads, member_mask = m\<rparr>"
    using assms ok unfolding new_register_tile_def Let_def remaining_def[symmetric] m_def[symmetric]
    by (auto split: if_splits)
  have bits: "bit m i \<longleftrightarrow> i < 32 \<and> 32 * (r div 32) + i < n" for i
  proof (cases "remaining < 32")
    case True
    then have "m = mask (unat remaining)" "unat remaining < 32"
      by (auto simp: m_def mask_eq_exp_minus_1 word_less_nat_alt)
    then show ?thesis
      using R by (auto simp: bit_mask_iff)
  next
    case False
    then have "m = mask 32" "32 \<le> unat remaining"
      by (simp_all add: m_def mask_eq_exp_minus_1 word_less_nat_alt)
    then show ?thesis
      using R by (auto simp: bit_mask_iff)
  qed
  have rank: "unat (rank AND 31) = r mod 32"
  proof -
    have e: "rank AND 31 = take_bit 5 rank"
      unfolding take_bit_eq_mask by (simp add: mask_eq_exp_minus_1)
    show ?thesis
      unfolding r_def e unsigned_take_bit_eq by (simp add: take_bit_eq_mod)
  qed
  have own: "bit m (r mod 32)"
    unfolding bits using rn(1) div_mult_mod_eq[of r 32] by simp
  have groups: "unat (drop_bit 5 rank) = r div 32" "unat (drop_bit 5 (threads + 31)) = (n + 31) div 32"
  proof -
    show "unat (drop_bit 5 rank) = r div 32"
      unfolding unsigned_drop_bit_eq using rn by (simp add: drop_bit_eq_div take_bit_nat_eq_self r_def)
    have "unat (threads + 31) = n + 31"
      using rn(2) by (subst unat_add_lem[THEN iffD1]) (simp_all add: n_def)
    then show "unat (drop_bit 5 (threads + 31)) = (n + 31) div 32"
      unfolding unsigned_drop_bit_eq using rn(2) by (simp add: drop_bit_eq_div take_bit_nat_eq_self)
  qed
  have "r div 32 < (n + 31) div 32"
    using rn(1) by (simp add: less_eq_Suc_le[symmetric])
  then show ?thesis
    using bits rank own groups
    by (simp add: t rt_thread_rank_def rt_meta_group_rank_def rt_meta_group_size_def flip: r_def n_def)
qed

lemma register_tile_members_witness:
  "\<exists>t. new_register_tile 0b111 33 35 = Some t \<and> bit (member_mask t) 2 \<and> unat (rt_thread_rank t) = 1"
proof -
  obtain t where t: "new_register_tile 0b111 33 35 = Some t"
    by (simp add: new_register_tile_def Let_def)
  show ?thesis
    using register_tile_members[OF t] t by auto
qed

end
