(* ===== verification/Pragma_Policy.thy ===== *)
theory Pragma_Policy
  imports Prelude
begin

text \<open>
  The pragma policy of \<open>src/AscifyAction.cpp\<close>: a \<open>#pragma\<close> line is spliced into one logical
  line, scanned for macro-stack operations on protected macros and for observable
  identifiers, and admitted only when its tokens are one of a fixed set of shapes.
  A cursor into the line is the rest of the line from there on.
\<close>

section \<open>Characters\<close>

definition tab :: char where "tab = CHR 0x09"
definition newline :: char where "newline = CHR 0x0A"
definition vertical_tab :: char where "vertical_tab = CHR 0x0B"
definition form_feed :: char where "form_feed = CHR 0x0C"
definition carriage_return :: char where "carriage_return = CHR 0x0D"
definition quote :: char where "quote = CHR 0x22"
definition apostrophe :: char where "apostrophe = CHR 0x27"
definition backslash :: char where "backslash = CHR 0x5C"

text \<open>\<open>current >= 'a' && current <= 'z'\<close> compares the codes.\<close>

definition within :: "char \<Rightarrow> char \<Rightarrow> char \<Rightarrow> bool" where
  "within lo hi c = ((of_char lo :: nat) \<le> of_char c \<and> (of_char c :: nat) \<le> of_char hi)"

definition is_digit :: "char \<Rightarrow> bool" where
  "is_digit c = within CHR ''0'' CHR ''9'' c"

(* Source: src/src/AscifyAction.cpp 373-375 identifierStart *)
definition identifier_start :: "char \<Rightarrow> bool" where
  "identifier_start c = (c = CHR ''_'' \<or> within CHR ''a'' CHR ''z'' c \<or> within CHR ''A'' CHR ''Z'' c)"

definition identifier_char :: "char \<Rightarrow> bool" where
  "identifier_char c = (identifier_start c \<or> is_digit c)"

(* Source: src/src/AscifyAction.cpp 303-308 skipHorizontalWhitespace *)
definition blank :: "char \<Rightarrow> bool" where
  "blank c = (c = CHR '' '' \<or> c = tab \<or> c = form_feed \<or> c = vertical_tab)"

section \<open>Protected macros\<close>

(* Source: src/src/AscifyAction.cpp 287-289 NvidiaSampleHelperObservableMacros *)
definition NvidiaSampleHelperObservableMacros :: "string list" where
  "NvidiaSampleHelperObservableMacros =
     [''COMMON_HELPER_CUDA_H_'', ''EXIT_WAIVED'', ''checkCudaErrors'', ''getLastCudaError'',
      ''printLastCudaError'', ''MAX'']"

(* Source: src/src/AscifyAction.cpp 291-297 isNvidiaSampleHelperObservableMacro *)
definition isNvidiaSampleHelperObservableMacro :: "string \<Rightarrow> bool" where
  "isNvidiaSampleHelperObservableMacro name = (name \<in> set NvidiaSampleHelperObservableMacros)"

(* Source: src/src/AscifyAction.cpp 617-646 isAscifyCudaCompatReservedMacro *)
definition isAscifyCudaCompatReservedMacro :: "string \<Rightarrow> bool" where
  "isAscifyCudaCompatReservedMacro name = (name \<in> set
     [''ASCIFY_ASCIFY_CUDA_COMPAT_HPP'', ''ASCIFY_SIMT_HEADER_FAMILY_PUBLIC_85'',
      ''ASCIFY_SIMT_HEADER_FAMILY_LEGACY_BETA3'', ''ASCIFY_SIMT_LEGACY_HAS_VECTOR_CONSTRUCTORS'',
      ''ASCIFY_SIMT_LEGACY_HAS_GM_ATOMICS'', ''ASCIFY_ALIGN'', ''ASCIFY_FORCEINLINE'',
      ''ASCIFY_GLOBAL'', ''ASCIFY_REGISTER_DEVICE_SYMBOL'', ''ASCIFY_DEFINE_GLOBAL_ATOMIC_BINARY'',
      ''ASCIFY_DEFINE_GLOBAL_ATOMIC_CAS'', ''ASCIFY_DEFINE_GLOBAL_ATOMIC_UNSIGNED'',
      ''ASCIFY_DEFINE_UNAVAILABLE_GLOBAL_ATOMIC_BINARY'',
      ''ASCIFY_DEFINE_UNAVAILABLE_GLOBAL_ATOMIC_CAS'', ''ASCIFY_NVIDIA_SAMPLE_CHECK_CUDA_ERRORS'',
      ''ASCIFY_NVIDIA_SAMPLE_GET_LAST_CUDA_ERROR'', ''ASCIFY_TEST_CONTROLLABLE_EXIT_REGISTRATION'',
      ''ascify'', ''sampleCheckCudaErrors'', ''sampleGetLastCudaError'', ''sampleFindCudaDevice''])"

(* Source: src/src/AscifyAction.cpp 648-667 isAscifyCudaCompatPublishedMacro *)
definition isAscifyCudaCompatPublishedMacro :: "string \<Rightarrow> bool" where
  "isAscifyCudaCompatPublishedMacro name = (name \<in> set
     [''ASCIFY_ASCIFY_CUDA_COMPAT_HPP'', ''ASCIFY_SIMT_HEADER_FAMILY_PUBLIC_85'',
      ''ASCIFY_SIMT_HEADER_FAMILY_LEGACY_BETA3'', ''ASCIFY_SIMT_LEGACY_HAS_VECTOR_CONSTRUCTORS'',
      ''ASCIFY_SIMT_LEGACY_HAS_GM_ATOMICS'', ''ASCIFY_ALIGN'', ''ASCIFY_FORCEINLINE'',
      ''ASCIFY_GLOBAL'', ''ASCIFY_REGISTER_DEVICE_SYMBOL'', ''ASCIFY_NVIDIA_SAMPLE_CHECK_CUDA_ERRORS'',
      ''ASCIFY_NVIDIA_SAMPLE_GET_LAST_CUDA_ERROR''])"

section \<open>Macro-stack operations\<close>

text \<open>The name between the quotes: the loop stops at the closing quote, which stays.\<close>

(* Source: src/src/AscifyAction.cpp 316-327 directPragmaMacroStackTarget (name) *)
fun stack_target_name :: "bool \<Rightarrow> string \<Rightarrow> (string \<times> string) option" where
  "stack_target_name first [] = Some ([], [])"
| "stack_target_name first (c # cs) =
     (if c = quote then Some ([], c # cs)
      else if c = backslash \<or> \<not> (identifier_start c \<or> (\<not> first \<and> is_digit c)) then None
      else case stack_target_name False cs of
        None \<Rightarrow> None
      | Some (name, rest) \<Rightarrow> Some (c # name, rest))"

text \<open>The argument is the line after the operation; the result is the target when it returns
  true.\<close>

(* Source: src/src/AscifyAction.cpp 299-334 directPragmaMacroStackTarget *)
definition directPragmaMacroStackTarget :: "string \<Rightarrow> string option" where
  "directPragmaMacroStackTarget rest =
     (case dropWhile blank rest of
        [] \<Rightarrow> None
      | c # rest \<Rightarrow>
        if c \<noteq> CHR ''('' then None else
        (case dropWhile blank rest of
           [] \<Rightarrow> None
         | c # rest \<Rightarrow>
           if c \<noteq> quote then None else
           (case stack_target_name True rest of
              None \<Rightarrow> None
            | Some (name, rest) \<Rightarrow>
              if name = [] \<or> rest = [] then None
              else (case dropWhile blank (tl rest) of
                  [] \<Rightarrow> None
                | c # _ \<Rightarrow> if c = CHR '')'' then Some name else None))))"

text \<open>Both scans of a line skip strings and character literals, stop at a line comment and look
  at each identifier with the rest of the line after it.\<close>

datatype literal = Code | InString bool | InCharacter bool

(* Source: src/src/AscifyAction.cpp 341-388 pragmaLineHasUnsafeMacroStackOperation (scan) *)
function scan_line :: "(string \<Rightarrow> string \<Rightarrow> 'a option) \<Rightarrow> literal \<Rightarrow> string \<Rightarrow> 'a option" where
  "scan_line found mode [] = None"
| "scan_line found (InString escaped) (c # cs) =
     (if escaped then scan_line found (InString False) cs
      else if c = backslash then scan_line found (InString True) cs
      else if c = quote then scan_line found Code cs
      else scan_line found (InString False) cs)"
| "scan_line found (InCharacter escaped) (c # cs) =
     (if escaped then scan_line found (InCharacter False) cs
      else if c = backslash then scan_line found (InCharacter True) cs
      else if c = apostrophe then scan_line found Code cs
      else scan_line found (InCharacter False) cs)"
| "scan_line found Code (c # cs) =
     (if c = quote then scan_line found (InString False) cs
      else if c = apostrophe then scan_line found (InCharacter False) cs
      else if c = CHR ''/'' \<and> take 1 cs = ''/'' then None
      else if \<not> identifier_start c then scan_line found Code cs
      else
        let identifier = c # takeWhile identifier_char cs;
            rest = dropWhile identifier_char cs
        in case found identifier rest of
             None \<Rightarrow> scan_line found Code rest
           | Some r \<Rightarrow> Some r)"
  by pat_completeness auto
termination
  by (relation "measure (\<lambda>(_, _, cs). length cs)")
    (auto simp: less_Suc_eq_le intro: length_dropWhile_le)

(* Source: src/src/AscifyAction.cpp 386-401 pragmaLineHasUnsafeMacroStackOperation (identifier) *)
definition unsafe_operation :: "string \<Rightarrow> string \<Rightarrow> (string \<times> string) option" where
  "unsafe_operation identifier rest =
     (if identifier \<noteq> ''push_macro'' \<and> identifier \<noteq> ''pop_macro'' then None
      else case directPragmaMacroStackTarget rest of
        None \<Rightarrow> Some (identifier, [])
      | Some target \<Rightarrow>
          if isNvidiaSampleHelperObservableMacro target \<or> isAscifyCudaCompatReservedMacro target
          then Some (identifier, target) else None)"

(* Source: src/src/AscifyAction.cpp 338-403 pragmaLineHasUnsafeMacroStackOperation *)
definition pragmaLineHasUnsafeMacroStackOperation :: "string \<Rightarrow> (string \<times> string) option" where
  "pragmaLineHasUnsafeMacroStackOperation line = scan_line unsafe_operation Code line"

(* Source: src/src/AscifyAction.cpp 405-460 pragmaLineContainsObservableIdentifier *)
definition pragmaLineContainsObservableIdentifier :: "string \<Rightarrow> string option" where
  "pragmaLineContainsObservableIdentifier line =
     scan_line (\<lambda>identifier _. if isNvidiaSampleHelperObservableMacro identifier
       then Some identifier else None) Code line"

section \<open>Tokens\<close>

(* Source: src/src/AscifyAction.cpp 461-465 DirectPragmaToken *)
datatype kind = Identifier | Number | StringLiteral | Punctuation

type_synonym token = "kind \<times> string"

text \<open>A string token runs to the first quote that is not escaped, or to the end.\<close>

(* Source: src/src/AscifyAction.cpp 505-524 directPragmaTokens (string) *)
fun string_body :: "bool \<Rightarrow> string \<Rightarrow> string \<times> string" where
  "string_body escaped [] = ([], [])"
| "string_body escaped (c # cs) =
     (if \<not> escaped \<and> c = quote then ([c], cs)
      else let (body, rest) = string_body (\<not> escaped \<and> c = backslash) cs in (c # body, rest))"

lemma string_body_length: "length (snd (string_body e cs)) \<le> length cs"
  by (induction e cs rule: string_body.induct) (auto simp: case_prod_beta le_SucI)

(* Source: src/src/AscifyAction.cpp 467-532 directPragmaTokens *)
function directPragmaTokens :: "string \<Rightarrow> token list" where
  "directPragmaTokens [] = []"
| "directPragmaTokens (c # cs) =
     (if blank c then directPragmaTokens cs
      else if c = CHR ''/'' \<and> take 1 cs = ''/'' then []
      else if identifier_start c
      then (Identifier, c # takeWhile identifier_char cs) # directPragmaTokens (dropWhile identifier_char cs)
      else if is_digit c
      then (Number, c # takeWhile is_digit cs) # directPragmaTokens (dropWhile is_digit cs)
      else if c = quote
      then (StringLiteral, c # fst (string_body False cs)) # directPragmaTokens (snd (string_body False cs))
      else (Punctuation, [c]) # directPragmaTokens cs)"
  by pat_completeness auto
termination
  by (relation "measure length")
    (auto simp: less_Suc_eq_le string_body_length intro: length_dropWhile_le)

(* Source: src/src/AscifyAction.cpp 1721-1731 hasExactDirectiveTokens *)
definition hasExactDirectiveTokens :: "string \<Rightarrow> string list \<Rightarrow> bool" where
  "hasExactDirectiveTokens line expected = (map snd (directPragmaTokens line) = expected)"

section \<open>Admitted pragmas\<close>

definition identifierAt :: "token list \<Rightarrow> nat \<Rightarrow> string \<Rightarrow> bool" where
  "identifierAt ts i spelling = (i < length ts \<and> ts ! i = (Identifier, spelling))"

definition punctuationAt :: "token list \<Rightarrow> nat \<Rightarrow> string \<Rightarrow> bool" where
  "punctuationAt ts i spelling = (i < length ts \<and> ts ! i = (Punctuation, spelling))"

definition kindAt :: "token list \<Rightarrow> nat \<Rightarrow> kind \<Rightarrow> bool" where
  "kindAt ts i k = (i < length ts \<and> fst (ts ! i) = k)"

text \<open>The tokens after \<open>pragma\<close>, so the source's index \<open>pragma\<close> is 0 and \<open>remaining\<close> the
  length.\<close>

(* Source: src/src/AscifyAction.cpp 558-614 isDirectlyAllowedHashPragma (shapes) *)
definition allowed_shape :: "bool \<Rightarrow> token list \<Rightarrow> bool" where
  "allowed_shape initiallyTrustedSystemFile ts =
     (let remaining = length ts;
          compiler = (identifierAt ts 0 ''GCC'' \<or> identifierAt ts 0 ''clang'') in
        (remaining = 1 \<and>
          (identifierAt ts 0 ''once'' \<or> identifierAt ts 0 ''nounroll'' \<or>
           identifierAt ts 0 ''nv_exec_check_disable'' \<or> identifierAt ts 0 ''hd_warning_disable''))
      \<or> (identifierAt ts 0 ''unroll'' \<and> (remaining = 1 \<or> (remaining = 2 \<and> kindAt ts 1 Number)))
      \<or> (remaining = 2 \<and> compiler \<and> identifierAt ts 1 ''system_header'')
      \<or> (3 \<le> remaining \<and> compiler \<and> identifierAt ts 1 ''diagnostic'' \<and>
          ((remaining = 3 \<and> (identifierAt ts 2 ''push'' \<or> identifierAt ts 2 ''pop''))
           \<or> (remaining = 4 \<and>
               (identifierAt ts 2 ''ignored'' \<or> identifierAt ts 2 ''warning'' \<or>
                identifierAt ts 2 ''error'' \<or> identifierAt ts 2 ''fatal'') \<and>
               kindAt ts 3 StringLiteral)))
      \<or> ((remaining = 4 \<or> (remaining = 5 \<and> punctuationAt ts 4 '';'')) \<and>
          (identifierAt ts 0 ''push_macro'' \<or> identifierAt ts 0 ''pop_macro'') \<and>
          punctuationAt ts 1 ''('' \<and> kindAt ts 2 StringLiteral \<and> punctuationAt ts 3 '')'')
      \<or> (initiallyTrustedSystemFile \<and> identifierAt ts 0 ''GCC'' \<and> identifierAt ts 1 ''visibility'' \<and>
          ((remaining = 3 \<and> identifierAt ts 2 ''pop'')
           \<or> (remaining = 6 \<and> identifierAt ts 2 ''push'' \<and> punctuationAt ts 3 ''('' \<and>
               identifierAt ts 4 ''default'' \<and> punctuationAt ts 5 '')''))))"

text \<open>The result and the reported operation.\<close>

(* Source: src/src/AscifyAction.cpp 534-615 isDirectlyAllowedHashPragma *)
definition isDirectlyAllowedHashPragma :: "string \<Rightarrow> bool \<Rightarrow> bool \<times> string" where
  "isDirectlyAllowedHashPragma line initiallyTrustedSystemFile =
     (case dropWhile (\<lambda>t. t \<noteq> (Identifier, ''pragma'')) (directPragmaTokens line) of
        _ # t # ts \<Rightarrow> (allowed_shape initiallyTrustedSystemFile (t # ts), snd t)
      | _ \<Rightarrow> (False, ''<unparsed>''))"

section \<open>The audit of a hash pragma\<close>

datatype verdict =
    Trigraph | BlockComment | UnsafeStack string string | Observed string | Unproven string | Admitted

text \<open>A backslash, blanks and a line end join two physical lines; both kinds of line end count.\<close>

(* Source: src/src/AscifyAction.cpp 7123-7139 PragmaDirective (splice) *)
definition after_splice :: "string \<Rightarrow> string option" where
  "after_splice cs =
     (case dropWhile blank cs of
        [] \<Rightarrow> None
      | c # r \<Rightarrow>
        if c = newline then Some r
        else if c = carriage_return then Some (if take 1 r = [newline] then tl r else r)
        else None)"

lemma after_splice_length: "after_splice cs = Some r \<Longrightarrow> length r \<le> length cs"
  using length_dropWhile_le[of blank cs]
  by (auto simp: after_splice_def split: list.splits if_splits)

(* Source: src/src/AscifyAction.cpp 7098-7144 PragmaDirective (logical line) *)
function logical_line :: "string \<Rightarrow> verdict + string" where
  "logical_line [] = Inr []"
| "logical_line (c # cs) =
     (if c = CHR ''?'' \<and> take 2 cs = ''?/'' then Inl Trigraph
      else if c = CHR ''/'' \<and> take 1 cs = ''*'' then Inl BlockComment
      else case (if c = backslash then after_splice cs else None) of
        Some r \<Rightarrow> logical_line r
      | None \<Rightarrow>
          if c = carriage_return \<or> c = newline then Inr []
          else case logical_line cs of Inl v \<Rightarrow> Inl v | Inr line \<Rightarrow> Inr (c # line))"
  by pat_completeness auto
termination
  by (relation "measure length")
    (auto dest!: after_splice_length split: if_splits simp: less_Suc_eq_le)

text \<open>\<open>exempt\<close>: an OpenMP or packed-record pragma that its own proof has taken over.\<close>

(* Source: src/src/AscifyAction.cpp 7145-7219 PragmaDirective (audit) *)
definition audit_hash_pragma :: "bool \<Rightarrow> bool \<Rightarrow> string \<Rightarrow> verdict" where
  "audit_hash_pragma exempt trusted buffer =
     (case logical_line buffer of
        Inl v \<Rightarrow> v
      | Inr line \<Rightarrow>
        (case pragmaLineHasUnsafeMacroStackOperation line of
           Some (operation, target) \<Rightarrow> UnsafeStack operation target
         | None \<Rightarrow>
           (case pragmaLineContainsObservableIdentifier line of
              Some name \<Rightarrow> Observed name
            | None \<Rightarrow>
              if exempt then Admitted
              else (case isDirectlyAllowedHashPragma line trusted of
                  (allowed, operation) \<Rightarrow> if allowed then Admitted else Unproven operation))))"

end
