(* ===== verification/Pragma_Properties.thy ===== *)
theory Pragma_Properties
  imports Pragma_Policy
begin

text \<open>
  The three scanners of the pragma policy agree: what the token lexer takes for an
  admitted macro-stack pragma, the macro-stack scan has seen with the same target.
\<close>

section \<open>Characters\<close>

lemmas char_defs = tab_def newline_def vertical_tab_def form_feed_def carriage_return_def quote_def
  apostrophe_def backslash_def within_def is_digit_def identifier_start_def identifier_char_def blank_def

lemma blank_plain: "blank c \<Longrightarrow> \<not> identifier_start c \<and> \<not> is_digit c \<and> c \<noteq> quote \<and> c \<noteq> apostrophe \<and> c \<noteq> CHR ''/''"
  by (auto simp: char_defs)

lemma start_plain: "identifier_start c \<Longrightarrow> \<not> blank c \<and> \<not> is_digit c \<and> c \<noteq> quote \<and> c \<noteq> apostrophe \<and> c \<noteq> CHR ''/''"
  by (auto simp: char_defs)

lemma digit_plain: "is_digit c \<Longrightarrow> \<not> blank c \<and> \<not> identifier_start c \<and> c \<noteq> quote \<and> c \<noteq> CHR ''/''"
  by (auto simp: char_defs)

lemma quote_plain: "\<not> blank quote" "\<not> identifier_start quote" "\<not> is_digit quote" "quote \<noteq> CHR ''/''" "quote \<noteq> backslash"
  by (simp_all add: char_defs)

text \<open>Characters that neither scanner gives a meaning to.\<close>

definition harmless :: "char \<Rightarrow> bool" where
  "harmless c \<longleftrightarrow> \<not> identifier_start c \<and> \<not> is_digit c \<and> c \<noteq> quote \<and> c \<noteq> apostrophe \<and> c \<noteq> CHR ''/''"

definition word_end :: "string \<Rightarrow> bool" where
  "word_end cs \<longleftrightarrow> (case cs of [] \<Rightarrow> True | c # _ \<Rightarrow> \<not> identifier_char c)"

lemma word_split:
  assumes "\<forall>c \<in> set w. identifier_char c" and "word_end cs"
  shows "takeWhile identifier_char (w @ cs) = w" and "dropWhile identifier_char (w @ cs) = cs"
  using assms by (auto simp: takeWhile_append dropWhile_append word_end_def split: list.splits)

lemma dropWhile_word_end: "word_end (dropWhile identifier_char cs)"
proof (cases "dropWhile identifier_char cs")
  case (Cons a r)
  then have "\<not> identifier_char a"
    by (metis hd_dropWhile list.distinct(1) list.sel(1))
  then show ?thesis
    unfolding Cons by (simp add: word_end_def)
qed (simp only: word_end_def list.case)

section \<open>Both lexers over a prefix\<close>

lemma scan_harmless: "\<forall>c \<in> set pre. harmless c \<Longrightarrow> scan_line f Code (pre @ cs) = scan_line f Code cs"
  by (induction pre) (auto simp: harmless_def)

lemma tokens_harmless:
  assumes "\<forall>c \<in> set pre. harmless c"
  shows "\<exists>ps. (\<forall>t \<in> set ps. fst t = Punctuation) \<and> directPragmaTokens (pre @ cs) = ps @ directPragmaTokens cs"
  using assms
proof (induction pre)
  case (Cons c pre)
  then obtain ps where ps: "\<forall>t \<in> set ps. fst t = Punctuation"
      "directPragmaTokens (pre @ cs) = ps @ directPragmaTokens cs"
    by auto
  show ?case
  proof (cases "blank c")
    case True
    then show ?thesis
      using ps by (intro exI[of _ ps]) simp
  next
    case False
    then show ?thesis
      using ps Cons.prems by (intro exI[of _ "(Punctuation, [c]) # ps"]) (simp add: harmless_def)
  qed
qed simp

lemma scan_word:
  assumes "identifier_start c" and "\<forall>d \<in> set w. identifier_char d" and "word_end cs"
  shows "scan_line f Code (c # w @ cs) = (case f (c # w) cs of None \<Rightarrow> scan_line f Code cs | Some r \<Rightarrow> Some r)"
  using start_plain[OF assms(1)] assms word_split[OF assms(2,3)] by (simp add: Let_def)

lemma tokens_word:
  assumes "identifier_start c" and "\<forall>d \<in> set w. identifier_char d" and "word_end cs"
  shows "directPragmaTokens (c # w @ cs) = (Identifier, c # w) # directPragmaTokens cs"
  using start_plain[OF assms(1)] assms word_split[OF assms(2,3)] by simp

section \<open>What the first token says about the text\<close>

lemma tokens_blank: "directPragmaTokens cs = directPragmaTokens (dropWhile blank cs)"
  by (induction cs) simp_all

lemma scan_blank: "scan_line f Code cs = scan_line f Code (dropWhile blank cs)"
  by (induction cs) (auto dest: blank_plain)

lemma tokens_cons:
  assumes "directPragmaTokens cs = t # ts"
  obtains c r where "dropWhile blank cs = c # r" "\<not> blank c" "directPragmaTokens (c # r) = t # ts"
proof (cases "dropWhile blank cs")
  case Nil
  then show thesis
    using assms tokens_blank[of cs] unfolding Nil by simp
next
  case (Cons c r)
  then have "\<not> blank c"
    by (auto simp: dropWhile_eq_Cons_conv)
  then show thesis
    using that[OF Cons] assms by (simp add: tokens_blank[of cs] Cons)
qed

lemma tokens_identifier:
  assumes "directPragmaTokens cs = (Identifier, w) # ts"
  obtains r where "dropWhile blank cs = w @ r" "word_end r" "ts = directPragmaTokens r"
    "w \<noteq> []" "identifier_start (hd w)" "\<forall>d \<in> set (tl w). identifier_char d"
proof -
  obtain c r where c: "dropWhile blank cs = c # r" "\<not> blank c"
      "directPragmaTokens (c # r) = (Identifier, w) # ts"
    by (rule tokens_cons[OF assms])
  then have s: "identifier_start c" "w = c # takeWhile identifier_char r"
      "ts = directPragmaTokens (dropWhile identifier_char r)"
    by (auto split: if_splits)
  show thesis
    by (rule that[of "dropWhile identifier_char r"])
      (use c(1) s dropWhile_word_end in \<open>auto dest: set_takeWhileD\<close>)
qed

lemma tokens_punctuation:
  assumes "directPragmaTokens cs = (Punctuation, [p]) # ts"
  obtains r where "dropWhile blank cs = p # r" "ts = directPragmaTokens r"
proof -
  obtain c r where "dropWhile blank cs = c # r" "\<not> blank c"
      "directPragmaTokens (c # r) = (Punctuation, [p]) # ts"
    by (rule tokens_cons[OF assms])
  then show thesis
    using that by (auto split: if_splits)
qed

lemma tokens_string:
  assumes "directPragmaTokens cs = (StringLiteral, s) # ts"
  obtains r where "dropWhile blank cs = quote # r" "s = quote # fst (string_body False r)"
    "ts = directPragmaTokens (snd (string_body False r))"
proof -
  obtain c r where "dropWhile blank cs = c # r" "\<not> blank c"
      "directPragmaTokens (c # r) = (StringLiteral, s) # ts"
    by (rule tokens_cons[OF assms])
  then show thesis
    using that by (auto split: if_splits)
qed

text \<open>A name accepted as a target is exactly what the string token holds.\<close>

lemma target_name:
  assumes "stack_target_name first cs = Some (name, rest)" and "rest \<noteq> []"
  shows "fst (string_body False cs) = name @ [quote]"
  using assms
  by (induction first cs arbitrary: name rest rule: stack_target_name.induct)
    (auto split: if_splits option.splits simp: case_prod_beta quote_plain)

lemma stack_target:
  assumes "directPragmaMacroStackTarget cs = Some name"
    and "directPragmaTokens cs = (Punctuation, ''('') # (StringLiteral, s) # ts"
  shows "s = quote # name @ [quote]"
proof -
  obtain r where r: "dropWhile blank cs = CHR ''('' # r"
      "directPragmaTokens r = (StringLiteral, s) # ts"
    using tokens_punctuation[OF assms(2)] by metis
  obtain q where q: "dropWhile blank r = quote # q" "s = quote # fst (string_body False q)"
    by (rule tokens_string[OF r(2)])
  show ?thesis
    using assms(1) q(2) target_name
    by (auto simp: directPragmaMacroStackTarget_def r(1) q(1) split: option.splits if_splits list.splits)
qed

section \<open>Admitted macro-stack pragmas\<close>

definition stack_operation :: "string \<Rightarrow> bool" where
  "stack_operation w \<longleftrightarrow> w = ''push_macro'' \<or> w = ''pop_macro''"

definition protected_macro :: "string \<Rightarrow> bool" where
  "protected_macro name \<longleftrightarrow> isNvidiaSampleHelperObservableMacro name \<or> isAscifyCudaCompatReservedMacro name"

lemma three_or_more: "3 \<le> length xs \<Longrightarrow> \<exists>a b c more. xs = a # b # c # more"
  by (metis Suc_le_length_iff numeral_3_eq_3)

lemma allowed_stack_shape:
  assumes "allowed_shape trusted ((Identifier, w) # ts)" and "stack_operation w"
  obtains s more where "ts = (Punctuation, ''('') # (StringLiteral, s) # (Punctuation, '')'') # more"
    "more = [] \<or> more = [(Punctuation, '';'')]"
proof -
  let ?ts = "(Identifier, w) # ts"
  have w: "w \<noteq> ''GCC''" "w \<noteq> ''clang''" "w \<noteq> ''unroll''" "w \<noteq> ''once''" "w \<noteq> ''nounroll''"
    "w \<noteq> ''nv_exec_check_disable''" "w \<noteq> ''hd_warning_disable''"
    using assms(2) by (auto simp: stack_operation_def)
  have i0: "identifierAt ?ts 0 x \<longleftrightarrow> w = x" for x
    by (simp add: identifierAt_def)
  have "(length ?ts = 4 \<or> (length ?ts = 5 \<and> punctuationAt ?ts 4 '';'')) \<and> punctuationAt ?ts 1 ''(''
      \<and> kindAt ?ts 2 StringLiteral \<and> punctuationAt ?ts 3 '')''"
    using assms(1) unfolding allowed_shape_def Let_def i0 by (simp only: w simp_thms)
  then have l: "length ts = 3 \<or> (length ts = 4 \<and> ts ! 3 = (Punctuation, '';''))"
    and k: "ts ! 0 = (Punctuation, ''('')" "fst (ts ! 1) = StringLiteral" "ts ! 2 = (Punctuation, '')'')"
    by (auto simp: punctuationAt_def kindAt_def numeral_eq_Suc)
  then obtain a b c more where ts: "ts = a # b # c # more"
    using three_or_more[of ts] by auto
  show thesis
    by (rule that[of "snd b" more]) (use l k in \<open>auto simp: ts length_Suc_conv numeral_eq_Suc prod_eq_iff\<close>)
qed

lemma first_pragma:
  assumes "\<forall>t \<in> set ps. fst t = Punctuation"
  shows "dropWhile (\<lambda>t. t \<noteq> (Identifier, ''pragma'')) (ps @ (Identifier, ''pragma'') # ts) = (Identifier, ''pragma'') # ts"
  using assms by (induction ps) auto

lemma pragma_line:
  assumes pre: "\<forall>c \<in> set pre. harmless c" and w: "word_end rest"
  shows "isDirectlyAllowedHashPragma (pre @ ''pragma'' @ rest) trusted =
      (case directPragmaTokens rest of [] \<Rightarrow> (False, ''<unparsed>'')
       | t # ts \<Rightarrow> (allowed_shape trusted (t # ts), snd t))"
    and "f ''pragma'' rest = None \<Longrightarrow>
      scan_line f Code (pre @ ''pragma'' @ rest) = scan_line f Code rest"
proof -
  have p: "identifier_start CHR ''p''" "\<forall>d \<in> set ''ragma''. identifier_char d"
    by (simp_all add: char_defs)
  obtain ps where ps: "\<forall>t \<in> set ps. fst t = Punctuation"
      "directPragmaTokens (pre @ ''pragma'' @ rest) = ps @ (Identifier, ''pragma'') # directPragmaTokens rest"
    using tokens_harmless[OF pre, of "''pragma'' @ rest"] tokens_word[OF p w] by auto
  show "isDirectlyAllowedHashPragma (pre @ ''pragma'' @ rest) trusted =
      (case directPragmaTokens rest of [] \<Rightarrow> (False, ''<unparsed>'')
       | t # ts \<Rightarrow> (allowed_shape trusted (t # ts), snd t))"
    unfolding isDirectlyAllowedHashPragma_def ps(2) first_pragma[OF ps(1)] by (simp split: list.split)
  show "scan_line f Code (pre @ ''pragma'' @ rest) = scan_line f Code rest" if "f ''pragma'' rest = None"
    using scan_harmless[OF pre, of f "''pragma'' @ rest"] scan_word[OF p w, of f] that by simp
qed

lemma logical_line_rejects: "logical_line cs \<noteq> Inl Admitted"
  by (induction cs rule: logical_line.induct) (auto split: option.splits sum.splits)

lemma admitted:
  assumes "audit_hash_pragma False trusted buffer = Admitted"
  obtains line where "logical_line buffer = Inr line"
    "pragmaLineHasUnsafeMacroStackOperation line = None"
    "pragmaLineContainsObservableIdentifier line = None"
    "fst (isDirectlyAllowedHashPragma line trusted)"
  using assms logical_line_rejects
  by (auto simp: audit_hash_pragma_def split: sum.splits option.splits prod.splits if_splits)

lemma stack_pragma_target:
  assumes pre: "\<forall>c \<in> set pre. harmless c" and w: "word_end rest"
    and unsafe: "pragmaLineHasUnsafeMacroStackOperation (pre @ ''pragma'' @ rest) = None"
    and allowed: "fst (isDirectlyAllowedHashPragma (pre @ ''pragma'' @ rest) trusted)"
    and operation: "directPragmaTokens rest = (Identifier, operation) # ts" "stack_operation operation"
  shows "\<exists>name more. ts = (Punctuation, ''('') # (StringLiteral, quote # name @ [quote]) # (Punctuation, '')'') # more
    \<and> (more = [] \<or> more = [(Punctuation, '';'')]) \<and> \<not> protected_macro name"
proof -
  have "allowed_shape trusted ((Identifier, operation) # ts)"
    using allowed unfolding pragma_line(1)[OF pre w] operation(1) by simp
  then obtain s more where ts: "ts = (Punctuation, ''('') # (StringLiteral, s) # (Punctuation, '')'') # more"
    "more = [] \<or> more = [(Punctuation, '';'')]"
    by (rule allowed_stack_shape[OF _ operation(2)])
  obtain r where r: "dropWhile blank rest = operation @ r" "word_end r" "ts = directPragmaTokens r"
    "operation \<noteq> []" "identifier_start (hd operation)" "\<forall>d \<in> set (tl operation). identifier_char d"
    by (rule tokens_identifier[OF operation(1)])
  have "unsafe_operation ''pragma'' rest = None"
    by (simp add: unsafe_operation_def)
  then have "scan_line unsafe_operation Code rest = None"
    using unsafe pragma_line(2)[OF pre w, of unsafe_operation]
    by (simp add: pragmaLineHasUnsafeMacroStackOperation_def)
  then have "scan_line unsafe_operation Code (operation @ r) = None"
    unfolding scan_blank[of unsafe_operation rest] r(1) .
  moreover have "operation @ r = hd operation # tl operation @ r" "hd operation # tl operation = operation"
    using r(4) by simp_all
  ultimately have u: "unsafe_operation operation r = None"
    using scan_word[OF r(5,6,2), of unsafe_operation] by (metis option.exhaust option.simps(5))
  have "operation = ''push_macro'' \<or> operation = ''pop_macro''"
    using operation(2) by (simp add: stack_operation_def)
  then have u: "(case directPragmaMacroStackTarget r of None \<Rightarrow> Some (operation, [])
      | Some target \<Rightarrow> if protected_macro target then Some (operation, target) else None) = None"
    using u unfolding unsafe_operation_def protected_macro_def by (metis (no_types))
  then obtain name where n: "directPragmaMacroStackTarget r = Some name" "\<not> protected_macro name"
    by (auto split: option.splits if_splits)
  have "s = quote # name @ [quote]"
    using stack_target[OF n(1)] r(3) ts(1) by metis
  then show ?thesis
    using ts n(2) by blast
qed

section \<open>Printing and lexing\<close>

fun closed_string :: "bool \<Rightarrow> string \<Rightarrow> bool" where
  "closed_string escaped [] = False"
| "closed_string escaped (c # cs) =
     (if \<not> escaped \<and> c = quote then cs = [] else closed_string (\<not> escaped \<and> c = backslash) cs)"

definition word_token :: "string \<Rightarrow> bool" where
  "word_token s = (case s of [] \<Rightarrow> False | c # cs \<Rightarrow> identifier_start c \<and> list_all identifier_char cs)"

definition string_token :: "string \<Rightarrow> bool" where
  "string_token s = (case s of [] \<Rightarrow> False | c # cs \<Rightarrow> c = quote \<and> closed_string False cs)"

definition mark_token :: "string \<Rightarrow> bool" where
  "mark_token s = (case s of [c] \<Rightarrow>
     \<not> blank c \<and> \<not> identifier_start c \<and> \<not> is_digit c \<and> c \<noteq> quote | _ \<Rightarrow> False)"

definition proper_token :: "token \<Rightarrow> bool" where
  "proper_token t =
     (case fst t of
        Identifier \<Rightarrow> word_token (snd t)
      | Number \<Rightarrow> snd t \<noteq> [] \<and> list_all is_digit (snd t)
      | StringLiteral \<Rightarrow> string_token (snd t)
      | Punctuation \<Rightarrow> mark_token (snd t))"

definition print_tokens :: "token list \<Rightarrow> string" where
  "print_tokens ts = concat (map (\<lambda>t. snd t @ '' '') ts)"

lemma space: "blank CHR '' ''" "\<not> identifier_char CHR '' ''" "\<not> is_digit CHR '' ''"
  by (simp_all add: char_defs)

lemma string_body_closed: "closed_string e s \<Longrightarrow> string_body e (s @ cs) = (s, cs)"
  by (induction e s rule: closed_string.induct) (auto split: if_splits)

lemma digits_split:
  "list_all is_digit ds \<Longrightarrow> takeWhile is_digit (ds @ CHR '' '' # cs) = ds
   \<and> dropWhile is_digit (ds @ CHR '' '' # cs) = CHR '' '' # cs"
  by (auto simp: list_all_iff takeWhile_append dropWhile_append space)

lemma lex_proper:
  assumes "proper_token t"
  shows "directPragmaTokens (snd t @ '' '' @ cs) = t # directPragmaTokens cs"
proof (cases t)
  case (Pair k s)
  have blank_end: "directPragmaTokens (CHR '' '' # cs) = directPragmaTokens cs"
    by (simp add: space)
  show ?thesis
  proof (cases k)
    case Identifier
    then obtain c w where s: "s = c # w" "identifier_start c" "\<forall>d \<in> set w. identifier_char d"
      using assms Pair by (auto simp: proper_token_def word_token_def list_all_iff split: list.splits)
    have "word_end (CHR '' '' # cs)"
      by (simp add: word_end_def space)
    then show ?thesis
      using tokens_word[OF s(2,3), of "CHR '' '' # cs"] blank_end by (simp add: Pair Identifier s(1))
  next
    case Number
    then obtain c w where s: "s = c # w" "is_digit c" "list_all is_digit w"
      using assms Pair by (cases s) (auto simp: proper_token_def)
    then show ?thesis
      using digit_plain[OF s(2)] digits_split[OF s(3)] blank_end by (simp add: Pair Number)
  next
    case StringLiteral
    then obtain w where s: "s = quote # w" "closed_string False w"
      using assms Pair by (auto simp: proper_token_def string_token_def split: list.splits)
    then show ?thesis
      using string_body_closed[OF s(2), of "CHR '' '' # cs"] blank_end quote_plain
      by (simp add: Pair StringLiteral)
  next
    case Punctuation
    then obtain c where s: "s = [c]" "\<not> blank c" "\<not> identifier_start c" "\<not> is_digit c" "c \<noteq> quote"
      using assms Pair by (auto simp: proper_token_def mark_token_def split: list.splits)
    then show ?thesis
      using blank_end by (simp add: Pair Punctuation)
  qed
qed

section \<open>Properties\<close>

text \<open>C13 (safety). A pragma line that the audit admits never pushes or pops a protected macro:
  the operation's only argument is one string literal, whose content is a name that is neither an
  observable macro of the NVIDIA sample helpers nor a reserved macro of the compatibility layer.\<close>

theorem pragma_stack_protected:
  assumes "audit_hash_pragma False trusted buffer = Admitted"
    and "logical_line buffer = Inr (pre @ ''pragma'' @ rest)"
    and "\<forall>c \<in> set pre. harmless c" and "word_end rest"
    and "directPragmaTokens rest = (Identifier, operation) # ts"
    and "operation = ''push_macro'' \<or> operation = ''pop_macro''"
  shows "\<exists>name more. ts = (Punctuation, ''('') # (StringLiteral, quote # name @ [quote]) # (Punctuation, '')'') # more
    \<and> (more = [] \<or> more = [(Punctuation, '';'')])
    \<and> \<not> isNvidiaSampleHelperObservableMacro name \<and> \<not> isAscifyCudaCompatReservedMacro name"
proof -
  obtain line where line: "logical_line buffer = Inr line"
    "pragmaLineHasUnsafeMacroStackOperation line = None"
    "fst (isDirectlyAllowedHashPragma line trusted)"
    by (rule admitted[OF assms(1)])
  have "stack_operation operation"
    using assms(6) by (simp only: stack_operation_def)
  moreover have "line = pre @ ''pragma'' @ rest"
    using line(1) assms(2) by simp
  ultimately show ?thesis
    using stack_pragma_target[OF assms(3,4) _ _ assms(5)] line(2,3) unfolding protected_macro_def by blast
qed

definition sample_pragma :: string where
  "sample_pragma = ''#pragma push_macro('' @ [quote] @ ''mine'' @ [quote] @ '');'' @ [newline]"

lemma pragma_stack_protected_witness:
  "audit_hash_pragma False False sample_pragma = Admitted
   \<and> audit_hash_pragma False True (''#pragma pop_macro('' @ [quote] @ ''MAX'' @ [quote] @ '')'')
       = UnsafeStack ''pop_macro'' ''MAX''
   \<and> (\<exists>name. directPragmaTokens ('' push_macro('' @ [quote] @ ''mine'' @ [quote] @ '');'')
        = [(Identifier, ''push_macro''), (Punctuation, ''(''), (StringLiteral, quote # name @ [quote]),
           (Punctuation, '')''), (Punctuation, '';'')]
      \<and> \<not> isAscifyCudaCompatReservedMacro name)"
proof -
  define rest where "rest = '' push_macro('' @ [quote] @ ''mine'' @ [quote] @ '');''"
  have a: "audit_hash_pragma False False sample_pragma = Admitted"
    and u: "audit_hash_pragma False True (''#pragma pop_macro('' @ [quote] @ ''MAX'' @ [quote] @ '')'')
       = UnsafeStack ''pop_macro'' ''MAX''"
    and l: "logical_line sample_pragma = Inr (''#'' @ ''pragma'' @ '' push_macro('' @ [quote] @ ''mine'' @ [quote] @ '');'')"
    and h: "\<forall>c \<in> set ''#''. harmless c"
    and w: "word_end ('' push_macro('' @ [quote] @ ''mine'' @ [quote] @ '');'')"
    by code_simp+
  have t: "directPragmaTokens ('' push_macro('' @ [quote] @ ''mine'' @ [quote] @ '');'')
      = (Identifier, ''push_macro'') # [(Punctuation, ''(''), (StringLiteral, quote # ''mine'' @ [quote]),
           (Punctuation, '')''), (Punctuation, '';'')]"
    by code_simp
  obtain name more where "[(Punctuation, ''(''), (StringLiteral, quote # ''mine'' @ [quote]),
           (Punctuation, '')''), (Punctuation, '';'')]
      = (Punctuation, ''('') # (StringLiteral, quote # name @ [quote]) # (Punctuation, '')'') # more"
    "\<not> isAscifyCudaCompatReservedMacro name"
    using pragma_stack_protected[OF a l h w t] by blast
  then have "\<not> isAscifyCudaCompatReservedMacro ''mine''"
    by simp
  then show ?thesis
    using a u t by blast
qed

text \<open>The directive lexer reads back every token list from its spellings
  separated by blanks, so the shapes it compares with are determined by the text.\<close>

theorem pragma_tokens_roundtrip:
  assumes "list_all proper_token ts"
  shows "directPragmaTokens (print_tokens ts) = ts"
  using assms
proof (induction ts)
  case (Cons t ts)
  then show ?case
    using lex_proper[of t "print_tokens ts"] by (simp add: print_tokens_def)
qed (simp add: print_tokens_def)

lemma pragma_tokens_roundtrip_witness:
  "directPragmaTokens (print_tokens [(Punctuation, ''#''), (Identifier, ''pragma''), (Identifier, ''unroll''), (Number, ''4'')])
   = [(Punctuation, ''#''), (Identifier, ''pragma''), (Identifier, ''unroll''), (Number, ''4'')]"
  by (rule pragma_tokens_roundtrip) code_simp

end
