(* ===== verification/Outer_Guard.thy ===== *)
theory Outer_Guard
  imports Pragma_Policy
begin

text \<open>
  The include-guard recognizers of \<open>src/AscifyAction.cpp\<close>.  Clang's raw lexer is the
  environment: a file is the list of its tokens, or nothing when its buffer or a spelling
  cannot be read.
\<close>

(* Source: src/src/AscifyAction.cpp 1389-1390 RawToken *)
record raw_token =
  spelling :: string
  startsLine :: bool
  isHash :: bool
  isComment :: bool
  isUnknown :: bool
  isIdentifier :: bool

section \<open>The conventional guard\<close>

text \<open>The first six tokens that are not comments; \<open>None\<close> stands for a spelling the lexer
  cannot give.\<close>

(* Source: src/src/AscifyAction.cpp 1339-1357 findConventionalOuterGuardInFile (tokens) *)
fun first_tokens :: "nat \<Rightarrow> raw_token option list \<Rightarrow> raw_token list option" where
  "first_tokens n [] = Some []"
| "first_tokens n (t # ts) =
     (if n = 0 then Some []
      else case t of
        None \<Rightarrow> None
      | Some t \<Rightarrow>
          if isComment t then first_tokens n ts
          else case first_tokens (n - 1) ts of None \<Rightarrow> None | Some r \<Rightarrow> Some (t # r))"

text \<open>The empty name stands for no guard.\<close>

(* Source: src/src/AscifyAction.cpp 1326-1366 findConventionalOuterGuardInFile *)
definition findConventionalOuterGuardInFile :: "raw_token option list \<Rightarrow> string" where
  "findConventionalOuterGuardInFile file =
     (case first_tokens 6 file of
        Some [a, b, c, d, e, f] \<Rightarrow>
          if spelling a = ''#'' \<and> spelling b = ''ifndef'' \<and> spelling c \<noteq> [] \<and> spelling d = ''#''
            \<and> spelling e = ''define'' \<and> spelling f = spelling c \<and> startsLine a \<and> startsLine d
          then spelling c else []
      | _ \<Rightarrow> [])"

section \<open>A guard around the whole file\<close>

text \<open>The tokens kept for the structure check; \<open>None\<close> where the source returns false.\<close>

(* Source: src/src/AscifyAction.cpp 1391-1408 hasCompleteOuterGuardInFile (tokens) *)
fun structure_tokens :: "raw_token option list \<Rightarrow> raw_token list option" where
  "structure_tokens [] = Some []"
| "structure_tokens (None # ts) = None"
| "structure_tokens (Some t # ts) =
     (if isComment t then structure_tokens ts
      else if isUnknown t then None
      else if isIdentifier t \<and> (spelling t = ''_Pragma'' \<or> spelling t = ''__pragma'') then None
      else case structure_tokens ts of None \<Rightarrow> None | Some r \<Rightarrow> Some (t # r))"

text \<open>The loop: \<open>i\<close> is the index of the first remaining token, and a directive is that token
  and the following ones up to the next start of a line.\<close>

(* Source: src/src/AscifyAction.cpp 1409-1454 hasCompleteOuterGuardInFile (loop) *)
function guard_loop :: "string \<Rightarrow> nat \<Rightarrow> nat \<Rightarrow> bool \<Rightarrow> raw_token list \<Rightarrow> bool" where
  "guard_loop guard i depth defined [] = False"
| "guard_loop guard i depth defined (t # ts) =
     (if \<not> isHash t \<or> \<not> startsLine t
      then (if depth = 0 \<or> \<not> defined then False else guard_loop guard (i + 1) depth defined ts)
      else
        let line = takeWhile (\<lambda>t. \<not> startsLine t) ts;
            rest = dropWhile (\<lambda>t. \<not> startsLine t) ts;
            size = length line + 1;
            next = i + size
        in if size < 2 then False
        else
        let directive = spelling (line ! 0); operand = (\<lambda>s. 3 \<le> size \<and> spelling (line ! 1) = s)
        in if i = 0
           then (if size \<noteq> 3 \<or> directive \<noteq> ''ifndef'' \<or> \<not> operand guard then False
                 else guard_loop guard next 1 defined rest)
           else if \<not> defined
           then (if i \<noteq> 3 \<or> size \<noteq> 3 \<or> directive \<noteq> ''define'' \<or> \<not> operand guard then False
                 else guard_loop guard next depth True rest)
           else if directive = ''if'' \<or> directive = ''ifdef'' \<or> directive = ''ifndef''
           then guard_loop guard next (depth + 1) defined rest
           else if directive = ''endif''
           then (if depth = 0 \<or> size \<noteq> 2 then False
                 else if depth - 1 = 0 then rest = []
                 else guard_loop guard next (depth - 1) defined rest)
           else if directive = ''else'' \<or> directive = ''elif'' \<or> directive = ''elifdef'' \<or> directive = ''elifndef''
           then (if depth \<le> 1 then False else guard_loop guard next depth defined rest)
           else if (directive = ''define'' \<or> directive = ''undef'') \<and> operand guard then False
           else if directive = ''pragma'' \<and> (operand ''push_macro'' \<or> operand ''pop_macro'') then False
           else guard_loop guard next depth defined rest)"
  by pat_completeness auto
termination
  by (relation "measure (\<lambda>(_, _, _, _, ts). length ts)")
    (auto simp: less_Suc_eq_le intro: length_dropWhile_le)

(* Source: src/src/AscifyAction.cpp 1377-1455 hasCompleteOuterGuardInFile *)
definition hasCompleteOuterGuardInFile :: "raw_token option list \<Rightarrow> bool" where
  "hasCompleteOuterGuardInFile file =
     (let guard = findConventionalOuterGuardInFile file in
      if guard = [] \<or> isAscifyCudaCompatPublishedMacro guard \<or> isNvidiaSampleHelperObservableMacro guard
      then False
      else case structure_tokens file of None \<Rightarrow> False | Some ts \<Rightarrow> guard_loop guard 0 0 False ts)"

end
