(* ===== verification/Guard_Properties.thy ===== *)
theory Guard_Properties
  imports Outer_Guard
begin

text \<open>
  What the structure check of \<open>Outer_Guard\<close> accepts is described by a grammar: the
  directives of the file, with the conditional groups nested, inside one group of the guard.
\<close>

section \<open>Lines\<close>

datatype item = Text raw_token | Directive "raw_token list"

function items :: "raw_token list \<Rightarrow> item list" where
  "items [] = []"
| "items (t # ts) =
     (if \<not> isHash t \<or> \<not> startsLine t then Text t # items ts
      else Directive (t # takeWhile (\<lambda>t. \<not> startsLine t) ts) # items (dropWhile (\<lambda>t. \<not> startsLine t) ts))"
  by pat_completeness auto
termination
  by (relation "measure length") (auto simp: less_Suc_eq_le intro: length_dropWhile_le)

lemma items_Nil [simp]: "items ts = [] \<longleftrightarrow> ts = []"
  by (cases ts) auto

definition directive :: "raw_token list \<Rightarrow> string" where
  "directive l = spelling (l ! 1)"

definition operand :: "raw_token list \<Rightarrow> string \<Rightarrow> bool" where
  "operand l s \<longleftrightarrow> 3 \<le> length l \<and> spelling (l ! 2) = s"

definition opens :: "raw_token list \<Rightarrow> bool" where
  "opens l \<longleftrightarrow> 2 \<le> length l \<and> directive l \<in> {''if'', ''ifdef'', ''ifndef''}"

definition alternates :: "raw_token list \<Rightarrow> bool" where
  "alternates l \<longleftrightarrow> 2 \<le> length l \<and> directive l \<in> {''else'', ''elif'', ''elifdef'', ''elifndef''}"

definition closes :: "raw_token list \<Rightarrow> bool" where
  "closes l \<longleftrightarrow> length l = 2 \<and> directive l = ''endif''"

text \<open>A directive that neither opens nor ends a conditional and leaves the guard alone.\<close>

definition neutral :: "string \<Rightarrow> raw_token list \<Rightarrow> bool" where
  "neutral guard l \<longleftrightarrow> 2 \<le> length l
     \<and> directive l \<notin> {''if'', ''ifdef'', ''ifndef'', ''endif'', ''else'', ''elif'', ''elifdef'', ''elifndef''}
     \<and> \<not> ((directive l = ''define'' \<or> directive l = ''undef'') \<and> operand l guard)
     \<and> \<not> (directive l = ''pragma'' \<and> (operand l ''push_macro'' \<or> operand l ''pop_macro''))"

section \<open>The grammar\<close>

inductive body :: "string \<Rightarrow> item list \<Rightarrow> bool" and branches :: "string \<Rightarrow> item list \<Rightarrow> bool"
  for guard :: string where
  body_Nil: "body guard []"
| body_Text: "body guard is \<Longrightarrow> body guard (Text t # is)"
| body_Neutral: "neutral guard l \<Longrightarrow> body guard is \<Longrightarrow> body guard (Directive l # is)"
| body_Group: "opens l \<Longrightarrow> branches guard bs \<Longrightarrow> closes e \<Longrightarrow> body guard is
    \<Longrightarrow> body guard (Directive l # bs @ Directive e # is)"
| branches_One: "body guard b \<Longrightarrow> branches guard b"
| branches_More: "body guard b \<Longrightarrow> alternates l \<Longrightarrow> branches guard bs
    \<Longrightarrow> branches guard (b @ Directive l # bs)"

text \<open>What remains to be read inside \<open>d\<close> open groups.\<close>

inductive closing :: "string \<Rightarrow> nat \<Rightarrow> item list \<Rightarrow> bool" for guard :: string where
  closing_Last: "body guard b \<Longrightarrow> closes e \<Longrightarrow> closing guard (Suc 0) (b @ [Directive e])"
| closing_More: "branches guard bs \<Longrightarrow> closes e \<Longrightarrow> closing guard (Suc d) is
    \<Longrightarrow> closing guard (Suc (Suc d)) (bs @ Directive e # is)"

section \<open>The loop on lines\<close>

fun line_loop :: "string \<Rightarrow> nat \<Rightarrow> item list \<Rightarrow> bool" where
  "line_loop guard d [] = False"
| "line_loop guard d (Text t # is) = line_loop guard d is"
| "line_loop guard d (Directive l # is) =
     (if length l < 2 then False
      else if opens l then line_loop guard (d + 1) is
      else if directive l = ''endif''
      then (if length l \<noteq> 2 then False else if d = 1 then is = [] else line_loop guard (d - 1) is)
      else if alternates l then (if d \<le> 1 then False else line_loop guard d is)
      else if neutral guard l then line_loop guard d is else False)"

lemma loop_lines:
  assumes "1 \<le> depth" and "6 \<le> i"
  shows "guard_loop guard i depth True ts = line_loop guard depth (items ts)"
  using assms
proof (induction ts arbitrary: i depth rule: length_induct)
  case (1 ts)
  show ?case
  proof (cases ts)
    case (Cons t more)
    let ?line = "takeWhile (\<lambda>t. \<not> startsLine t) more" and ?rest = "dropWhile (\<lambda>t. \<not> startsLine t) more"
    have IH: "1 \<le> d \<Longrightarrow> 6 \<le> j \<Longrightarrow> guard_loop guard j d True us = line_loop guard d (items us)"
      if "length us < length ts" for us j d
      using 1 that by blast
    show ?thesis
    proof (cases "isHash t \<and> startsLine t")
      case False
      then show ?thesis
        using IH[of more depth "i + 1"] 1(2,3) by (simp add: Cons)
    next
      case True
      define l where "l = t # ?line"
      have r: "length ?rest < length ts"
        using length_dropWhile_le[of "\<lambda>t. \<not> startsLine t" more] by (simp add: Cons less_Suc_eq_le)
      have o: "operand l s \<longleftrightarrow> 3 \<le> length ?line + 1 \<and> spelling (?line ! 1) = s" for s
        by (simp add: operand_def l_def)
      have d: "directive l = spelling (?line ! 0)"
        by (simp add: directive_def l_def)
      have len: "length l = length ?line + 1"
        by (simp add: l_def)
      have lines: "items ts = Directive l # items ?rest"
        using True by (simp add: Cons l_def)
      have step: "guard_loop guard j k True ?rest = line_loop guard k (items ?rest)"
        if "1 \<le> k" "6 \<le> j" for j k
        using IH[OF r that] .
      define P1 where "P1 \<longleftrightarrow> directive l = ''if'' \<or> directive l = ''ifdef'' \<or> directive l = ''ifndef''"
      define P2 where "P2 \<longleftrightarrow> directive l = ''endif''"
      define P3 where "P3 \<longleftrightarrow> directive l = ''else'' \<or> directive l = ''elif'' \<or> directive l = ''elifdef'' \<or> directive l = ''elifndef''"
      define P4 where "P4 \<longleftrightarrow> (directive l = ''define'' \<or> directive l = ''undef'') \<and> operand l guard"
      define P5 where "P5 \<longleftrightarrow> directive l = ''pragma'' \<and> (operand l ''push_macro'' \<or> operand l ''pop_macro'')"
      have ps: "opens l \<longleftrightarrow> 2 \<le> length l \<and> P1" "alternates l \<longleftrightarrow> 2 \<le> length l \<and> P3"
        "neutral guard l \<longleftrightarrow> 2 \<le> length l \<and> \<not> P1 \<and> \<not> P2 \<and> \<not> P3 \<and> \<not> P4 \<and> \<not> P5"
        unfolding opens_def alternates_def neutral_def P1_def P2_def P3_def P4_def P5_def
        by (simp_all only: insert_iff empty_iff simp_thms de_Morgan_disj conj_assoc)
      have "guard_loop guard i depth True (t # more) =
        (if length l < 2 then False
         else if i = 0 then (if length l \<noteq> 3 \<or> directive l \<noteq> ''ifndef'' \<or> \<not> operand l guard then False
           else guard_loop guard (i + length l) 1 True ?rest)
         else if P1 then guard_loop guard (i + length l) (depth + 1) True ?rest
         else if P2 then (if depth = 0 \<or> length l \<noteq> 2 then False
           else if depth - 1 = 0 then ?rest = [] else guard_loop guard (i + length l) (depth - 1) True ?rest)
         else if P3 then (if depth \<le> 1 then False else guard_loop guard (i + length l) depth True ?rest)
         else if P4 then False else if P5 then False
         else guard_loop guard (i + length l) depth True ?rest)"
        unfolding P1_def P2_def P3_def P4_def P5_def o d len using True
        by (subst guard_loop.simps) (simp only: Let_def simp_thms if_True if_False)
      then show ?thesis
        unfolding lines unfolding Cons line_loop.simps ps P2_def[symmetric]
        using 1(2,3) step[of "depth + 1" "i + length l"] step[of "depth - 1" "i + length l"]
          step[of depth "i + length l"] items_Nil[of ?rest]
        by (auto simp del: guard_loop.simps items_Nil split: if_splits)
    qed
  qed simp
qed

section \<open>The loop accepts the grammar\<close>

lemma line_loop_text: "line_loop guard d (b @ is) = line_loop guard d is" if "b = []"
  using that by simp

lemma accepts:
  "body guard b \<Longrightarrow> 1 \<le> d \<Longrightarrow> line_loop guard d (b @ is) = line_loop guard d is"
  "branches guard bs \<Longrightarrow> 2 \<le> d \<Longrightarrow> line_loop guard d (bs @ is) = line_loop guard d is"
proof (induction arbitrary: d "is" and d "is" rule: body_branches.inducts)
  case (body_Neutral l js)
  then show ?case
    by (auto simp: neutral_def opens_def alternates_def)
next
  case (body_Group l bs e js)
  have "\<not> opens e" "length e = 2" "directive e = ''endif''"
    using body_Group by (auto simp: closes_def opens_def)
  then show ?case
    using body_Group by (simp add: opens_def)
next
  case (branches_More b l bs)
  have "\<not> opens l" "2 \<le> length l" "directive l \<noteq> ''endif''"
    using branches_More by (auto simp: alternates_def opens_def)
  then show ?case
    using branches_More by simp
qed simp_all

lemma prepend_branches:
  assumes "\<And>b. body guard b \<Longrightarrow> body guard (p @ b)" and "branches guard bs"
  shows "branches guard (p @ bs)"
  using assms(2)
proof (cases rule: branches.cases)
  case branches_One
  then show ?thesis
    using assms(1) by (intro body_branches.branches_One)
next
  case (branches_More b l bs')
  then show ?thesis
    using assms(1)[of b] body_branches.branches_More[of guard "p @ b" l bs'] by simp
qed

lemma prepend_closing:
  assumes "\<And>b. body guard b \<Longrightarrow> body guard (p @ b)" and "closing guard d is"
  shows "closing guard d (p @ is)"
  using assms(2)
proof cases
  case (closing_Last b e)
  then show ?thesis
    using assms(1)[of b] closing.closing_Last[of guard "p @ b" e] by simp
next
  case (closing_More bs e d' js)
  then show ?thesis
    using prepend_branches[OF assms(1), of bs] closing.closing_More[of guard "p @ bs" e d' js] by simp
qed

lemma loop_closing: "1 \<le> d \<Longrightarrow> line_loop guard d is \<Longrightarrow> closing guard d is"
proof (induction guard d "is" rule: line_loop.induct)
  case (2 guard d t "is")
  then show ?case
    using prepend_closing[of guard "[Text t]" d "is"] by (auto intro: body_Text)
next
  case (3 guard d l "is")
  have len: "2 \<le> length l"
    using 3(6) by (simp split: if_splits)
  consider (opens) "opens l" | (endif) "\<not> opens l" "directive l = ''endif''"
    | (alternates) "\<not> opens l" "directive l \<noteq> ''endif''" "alternates l"
    | (neutral) "\<not> opens l" "directive l \<noteq> ''endif''" "\<not> alternates l"
    by blast
  then show ?case
  proof cases
    case opens
    then have "closing guard (d + 1) is"
      using 3 len by simp
    then obtain bs e d' js where c: "branches guard bs" "closes e" "is = bs @ Directive e # js"
        "closing guard d js"
      using 3(5) by cases auto
    have "closing guard d ((Directive l # bs @ [Directive e]) @ js)"
      by (rule prepend_closing[OF _ c(4)]) (use body_Group[OF opens c(1,2)] in simp)
    then show ?thesis
      by (simp add: c(3))
  next
    case endif
    then have e: "closes l"
      using 3(6) len by (simp add: closes_def split: if_splits)
    show ?thesis
    proof (cases "d = 1")
      case True
      then have "is = []"
        using 3(6) endif len by (simp split: if_splits)
      then show ?thesis
        using True closing_Last[OF body_Nil e, of guard] by simp
    next
      case False
      then obtain d' where d: "d = Suc (Suc d')"
        using 3(5) by (metis One_nat_def Suc_le_D le_antisym not_less_eq_eq)
      have "closing guard (Suc d') is"
        using 3(2) 3(6) endif len False e by (simp add: d closes_def)
      then show ?thesis
        using closing_More[OF branches_One[OF body_Nil] e, of guard d' "is"] by (simp add: d)
    qed
  next
    case alternates
    then have d: "\<not> d \<le> 1" and c: "closing guard d is"
      using 3 len by (simp_all split: if_splits)
    obtain bs e d' js where "branches guard bs" "closes e" "is = bs @ Directive e # js"
        "closing guard (Suc d') js" "d = Suc (Suc d')"
      using c d by cases auto
    then show ?thesis
      using closing_More[OF branches_More[OF body_Nil alternates(3)], of guard bs e d' js] by simp
  next
    case neutral
    then have n: "neutral guard l" and c: "closing guard d is"
      using 3 len by (simp_all split: if_splits)
    show ?thesis
      using prepend_closing[OF _ c, of "[Directive l]"] body_Neutral[OF n] by simp
  qed
qed simp

lemma loop_grammar: "line_loop guard 1 is \<longleftrightarrow> (\<exists>b e. is = b @ [Directive e] \<and> body guard b \<and> closes e)"
proof
  assume "line_loop guard 1 is"
  then have "closing guard 1 is"
    by (rule loop_closing[rotated]) simp
  then show "\<exists>b e. is = b @ [Directive e] \<and> body guard b \<and> closes e"
    by cases auto
next
  assume "\<exists>b e. is = b @ [Directive e] \<and> body guard b \<and> closes e"
  then show "line_loop guard 1 is"
    using accepts(1)[of guard _ 1] by (auto simp: closes_def opens_def)
qed

section \<open>The guard lines and the whole check\<close>

definition guard_line :: "string \<Rightarrow> string \<Rightarrow> raw_token list \<Rightarrow> bool" where
  "guard_line keyword guard l \<longleftrightarrow> length l = 3 \<and> directive l = keyword \<and> operand l guard"

lemma items_Directive:
  "items ts = Directive l # is \<longleftrightarrow> (\<exists>t more. ts = t # more \<and> isHash t \<and> startsLine t
     \<and> l = t # takeWhile (\<lambda>t. \<not> startsLine t) more \<and> is = items (dropWhile (\<lambda>t. \<not> startsLine t) more))"
  by (cases ts) auto

lemma loop_define:
  "guard_loop guard 3 1 False ts
     \<longleftrightarrow> (\<exists>l is. items ts = Directive l # is \<and> guard_line ''define'' guard l \<and> line_loop guard 1 is)"
proof (cases ts)
  case (Cons t more)
  let ?line = "takeWhile (\<lambda>t. \<not> startsLine t) more" and ?rest = "dropWhile (\<lambda>t. \<not> startsLine t) more"
  have "guard_loop guard 3 1 False ts
    \<longleftrightarrow> isHash t \<and> startsLine t \<and> guard_line ''define'' guard (t # ?line) \<and> guard_loop guard 6 1 True ?rest"
    unfolding Cons guard_line_def directive_def operand_def
    by (subst guard_loop.simps) (auto simp: Let_def simp del: guard_loop.simps)
  also have "guard_loop guard 6 1 True ?rest = line_loop guard 1 (items ?rest)"
    by (rule loop_lines) simp_all
  finally show ?thesis
    by (auto simp: items_Directive Cons)
qed simp

lemma loop_ifndef:
  "guard_loop guard 0 0 False ts
     \<longleftrightarrow> (\<exists>l1 l2 is. items ts = Directive l1 # Directive l2 # is \<and> guard_line ''ifndef'' guard l1
          \<and> guard_line ''define'' guard l2 \<and> line_loop guard 1 is)"
proof (cases ts)
  case (Cons t more)
  let ?line = "takeWhile (\<lambda>t. \<not> startsLine t) more" and ?rest = "dropWhile (\<lambda>t. \<not> startsLine t) more"
  have "guard_loop guard 0 0 False ts
    \<longleftrightarrow> isHash t \<and> startsLine t \<and> guard_line ''ifndef'' guard (t # ?line) \<and> guard_loop guard 3 1 False ?rest"
    unfolding Cons guard_line_def directive_def operand_def
    by (subst guard_loop.simps) (auto simp: Let_def simp del: guard_loop.simps)
  then show ?thesis
    unfolding loop_define by (auto simp: items_Directive Cons)
qed simp

section \<open>Properties\<close>

text \<open>C99 (equivalence). The structure check accepts exactly the files of a grammar.  Without
  comments, unknown tokens and pragma operators, such a file is the line \<open>#ifndef G\<close>, the
  line \<open>#define G\<close>, a body and one final \<open>#endif\<close>, where \<open>G\<close> is the guard its first
  tokens name, neither a published nor a helper-observable macro.  The body nests its conditional
  groups properly (each with any number of alternatives), never has an alternative of the guard's
  own group, never defines or undefines \<open>G\<close> and never saves or restores a macro.\<close>

theorem outer_guard_grammar:
  "hasCompleteOuterGuardInFile file \<longleftrightarrow>
     (\<exists>guard ts l1 l2 b e. guard = findConventionalOuterGuardInFile file \<and> guard \<noteq> []
        \<and> \<not> isAscifyCudaCompatPublishedMacro guard \<and> \<not> isNvidiaSampleHelperObservableMacro guard
        \<and> structure_tokens file = Some ts
        \<and> items ts = Directive l1 # Directive l2 # b @ [Directive e]
        \<and> guard_line ''ifndef'' guard l1 \<and> guard_line ''define'' guard l2
        \<and> body guard b \<and> closes e)"
  unfolding hasCompleteOuterGuardInFile_def Let_def
  by (auto simp: loop_ifndef loop_grammar[unfolded One_nat_def] split: option.split)

end
