(* ===== verification/Statistics.thy ===== *)
theory Statistics
  imports Prelude "HOL-Library.List_Lexorder" "HOL-Library.Char_ord"
begin

text \<open>
  The counters of \<open>src/Statistics.h\<close> and \<open>src/Statistics.cpp\<close>: the classification of a
  reference to a CUDA name, the counters of one input file and their aggregate.  The clock, the
  percentages and the formatting of a report are left out; the counters of a report are a list of
  its lines.
\<close>

unbundle bit_operations_syntax

section \<open>Classification\<close>

(* Source: src/src/Statistics.h 41-175 ConvTypes *)
datatype ConvTypes =
    CONV_ERROR | CONV_INIT | CONV_VERSION | CONV_DEVICE | CONV_CONTEXT | CONV_MODULE |
    CONV_LIBRARY | CONV_MEMORY | CONV_VIRTUAL_MEMORY | CONV_ORDERED_MEMORY | CONV_MULTICAST |
    CONV_UNIFIED | CONV_STREAM | CONV_EVENT | CONV_EXTERNAL_RES | CONV_STREAM_MEMORY |
    CONV_EXECUTION | CONV_GRAPH | CONV_OCCUPANCY | CONV_TEXTURE | CONV_SURFACE | CONV_TENSOR |
    CONV_PEER | CONV_GRAPHICS | CONV_DRIVER_ENTRY_POINT | CONV_CPP | CONV_COREDUMP |
    CONV_GREEN_CONTEXT | CONV_ERROR_LOG | CONV_DRIVER_INTERACT | CONV_PROFILER | CONV_OPENGL |
    CONV_D3D9 | CONV_D3D10 | CONV_D3D11 | CONV_VDPAU | CONV_EGL | CONV_THREAD | CONV_COMPLEX |
    CONV_LIB_FUNC | CONV_LIB_DEVICE_FUNC | CONV_DEVICE_FUNC | CONV_DEVICE_TYPE | CONV_INCLUDE |
    CONV_INCLUDE_CUDA_MAIN_H | CONV_INCLUDE_CUDA_MAIN_V2_H | CONV_TYPE | CONV_LITERAL |
    CONV_NUMERIC_LITERAL | CONV_DEFINE | CONV_EXTERN_SHARED | CONV_KERNEL_LAUNCH

(* Source: src/src/Statistics.h 179-194 ApiTypes *)
datatype ApiTypes =
    API_DRIVER | API_RUNTIME | API_COMPLEX | API_BLAS | API_RAND | API_DNN | API_FFT | API_SPARSE |
    API_SOLVER | API_CUB | API_RTC | API_TENSOR | API_FILE

text \<open>The members of the enumerations in their order, the index range of the counter arrays.\<close>

(* Source: src/src/Statistics.h 41-176 NUM_CONV_TYPES *)
definition conv_types :: "ConvTypes list" where
  "conv_types =
    [CONV_ERROR, CONV_INIT, CONV_VERSION, CONV_DEVICE, CONV_CONTEXT, CONV_MODULE, CONV_LIBRARY,
     CONV_MEMORY, CONV_VIRTUAL_MEMORY, CONV_ORDERED_MEMORY, CONV_MULTICAST, CONV_UNIFIED,
     CONV_STREAM, CONV_EVENT, CONV_EXTERNAL_RES, CONV_STREAM_MEMORY, CONV_EXECUTION, CONV_GRAPH,
     CONV_OCCUPANCY, CONV_TEXTURE, CONV_SURFACE, CONV_TENSOR, CONV_PEER, CONV_GRAPHICS,
     CONV_DRIVER_ENTRY_POINT, CONV_CPP, CONV_COREDUMP, CONV_GREEN_CONTEXT, CONV_ERROR_LOG,
     CONV_DRIVER_INTERACT, CONV_PROFILER, CONV_OPENGL, CONV_D3D9, CONV_D3D10, CONV_D3D11,
     CONV_VDPAU, CONV_EGL, CONV_THREAD, CONV_COMPLEX, CONV_LIB_FUNC, CONV_LIB_DEVICE_FUNC,
     CONV_DEVICE_FUNC, CONV_DEVICE_TYPE, CONV_INCLUDE, CONV_INCLUDE_CUDA_MAIN_H,
     CONV_INCLUDE_CUDA_MAIN_V2_H, CONV_TYPE, CONV_LITERAL, CONV_NUMERIC_LITERAL, CONV_DEFINE,
     CONV_EXTERN_SHARED, CONV_KERNEL_LAUNCH]"

(* Source: src/src/Statistics.h 179-195 NUM_API_TYPES *)
definition api_types :: "ApiTypes list" where
  "api_types =
    [API_DRIVER, API_RUNTIME, API_COMPLEX, API_BLAS, API_RAND, API_DNN, API_FFT, API_SPARSE,
     API_SOLVER, API_CUB, API_RTC, API_TENSOR, API_FILE]"

(* Source: src/src/Statistics.cpp 40-93 counterNames *)
primrec counterNames :: "ConvTypes \<Rightarrow> string" where
  "counterNames CONV_ERROR = ''error''"
| "counterNames CONV_INIT = ''init''"
| "counterNames CONV_VERSION = ''version''"
| "counterNames CONV_DEVICE = ''device''"
| "counterNames CONV_CONTEXT = ''context''"
| "counterNames CONV_MODULE = ''module''"
| "counterNames CONV_LIBRARY = ''library''"
| "counterNames CONV_MEMORY = ''memory''"
| "counterNames CONV_VIRTUAL_MEMORY = ''virtual_memory''"
| "counterNames CONV_ORDERED_MEMORY = ''ordered_memory''"
| "counterNames CONV_MULTICAST = ''multicast''"
| "counterNames CONV_UNIFIED = ''unified''"
| "counterNames CONV_STREAM = ''stream''"
| "counterNames CONV_EVENT = ''event''"
| "counterNames CONV_EXTERNAL_RES = ''external_resource''"
| "counterNames CONV_STREAM_MEMORY = ''stream_memory''"
| "counterNames CONV_EXECUTION = ''execution''"
| "counterNames CONV_GRAPH = ''graph''"
| "counterNames CONV_OCCUPANCY = ''occupancy''"
| "counterNames CONV_TEXTURE = ''texture''"
| "counterNames CONV_SURFACE = ''surface''"
| "counterNames CONV_TENSOR = ''tensor''"
| "counterNames CONV_PEER = ''peer''"
| "counterNames CONV_GRAPHICS = ''graphics''"
| "counterNames CONV_DRIVER_ENTRY_POINT = ''driver_entry_point''"
| "counterNames CONV_CPP = ''cpp''"
| "counterNames CONV_COREDUMP = ''coredump''"
| "counterNames CONV_GREEN_CONTEXT = ''green_context''"
| "counterNames CONV_ERROR_LOG = ''error_log''"
| "counterNames CONV_DRIVER_INTERACT = ''driver_interact''"
| "counterNames CONV_PROFILER = ''profiler''"
| "counterNames CONV_OPENGL = ''openGL''"
| "counterNames CONV_D3D9 = ''D3D9''"
| "counterNames CONV_D3D10 = ''D3D10''"
| "counterNames CONV_D3D11 = ''D3D11''"
| "counterNames CONV_VDPAU = ''VDPAU''"
| "counterNames CONV_EGL = ''EGL''"
| "counterNames CONV_THREAD = ''thread''"
| "counterNames CONV_COMPLEX = ''complex''"
| "counterNames CONV_LIB_FUNC = ''library''"
| "counterNames CONV_LIB_DEVICE_FUNC = ''device_library''"
| "counterNames CONV_DEVICE_FUNC = ''device_function''"
| "counterNames CONV_DEVICE_TYPE = ''device_type''"
| "counterNames CONV_INCLUDE = ''include''"
| "counterNames CONV_INCLUDE_CUDA_MAIN_H = ''include_cuda_main_header''"
| "counterNames CONV_INCLUDE_CUDA_MAIN_V2_H = ''include_cuda_main_header_v2''"
| "counterNames CONV_TYPE = ''type''"
| "counterNames CONV_LITERAL = ''literal''"
| "counterNames CONV_NUMERIC_LITERAL = ''numeric_literal''"
| "counterNames CONV_DEFINE = ''define''"
| "counterNames CONV_EXTERN_SHARED = ''extern_shared''"
| "counterNames CONV_KERNEL_LAUNCH = ''kernel_launch''"

(* Source: src/src/Statistics.cpp 150-164 apiNames *)
primrec apiNames :: "ApiTypes \<Rightarrow> string" where
  "apiNames API_DRIVER = ''CUDA Driver API''"
| "apiNames API_RUNTIME = ''CUDA RT API''"
| "apiNames API_COMPLEX = ''cuComplex API''"
| "apiNames API_BLAS = ''cuBLAS API''"
| "apiNames API_RAND = ''cuRAND API''"
| "apiNames API_DNN = ''cuDNN API''"
| "apiNames API_FFT = ''cuFFT API''"
| "apiNames API_SPARSE = ''cuSPARSE API''"
| "apiNames API_SOLVER = ''cuSOLVER API''"
| "apiNames API_CUB = ''CUB API''"
| "apiNames API_RTC = ''RTC API''"
| "apiNames API_TENSOR = ''TENSOR API''"
| "apiNames API_FILE = ''cuFile API''"

text \<open>The bits of \<open>SupportDegree\<close>.\<close>

(* Source: src/src/Statistics.h 198-199 FULL *)
definition FULL :: "32 word" where "FULL = 0x0"

(* Source: src/src/Statistics.h 199-200 TARGET_UNSUPPORTED *)
definition TARGET_UNSUPPORTED :: "32 word" where "TARGET_UNSUPPORTED = 0x1"

(* Source: src/src/Statistics.h 200-201 UNSUPPORTED *)
definition UNSUPPORTED :: "32 word" where "UNSUPPORTED = 0x4"

(* Source: src/src/Statistics.h 201-202 CUDA_DEPRECATED *)
definition CUDA_DEPRECATED :: "32 word" where "CUDA_DEPRECATED = 0x8"

(* Source: src/src/Statistics.h 203-204 DEPRECATED *)
definition DEPRECATED :: "32 word" where "DEPRECATED = 0x40"

text \<open>The field \<open>type\<close> of the source is \<open>convType\<close> here.\<close>

(* Source: src/src/Statistics.h 439-445 dppCounter *)
record dppCounter =
  dppName :: string
  convType :: ConvTypes
  apiType :: ApiTypes
  apiSection :: "32 word"
  supportDegree :: "32 word"

(* Source: src/src/Statistics.cpp 409-412 isTargetUnsupported *)
definition isTargetUnsupported :: "dppCounter \<Rightarrow> bool" where
  "isTargetUnsupported counter \<longleftrightarrow>
     TARGET_UNSUPPORTED = (supportDegree counter AND TARGET_UNSUPPORTED)
     \<or> UNSUPPORTED = (supportDegree counter AND UNSUPPORTED)"

(* Source: src/src/Statistics.cpp 414-417 isUnsupported *)
definition isUnsupported :: "dppCounter \<Rightarrow> bool" where
  "isUnsupported counter \<longleftrightarrow>
     (if UNSUPPORTED = (supportDegree counter AND UNSUPPORTED) then True
      else isTargetUnsupported counter)"

(* Source: src/src/Statistics.cpp 419-422 isCudaDeprecated *)
definition isCudaDeprecated :: "dppCounter \<Rightarrow> bool" where
  "isCudaDeprecated counter \<longleftrightarrow>
     CUDA_DEPRECATED = (supportDegree counter AND CUDA_DEPRECATED)
     \<or> DEPRECATED = (supportDegree counter AND DEPRECATED)"

section \<open>The counters of one side\<close>

text \<open>The map of names is its list of entries in key order; the arrays are functions of the
  enumeration members.\<close>

(* Source: src/src/Statistics.h 450-463 StatCounter *)
record StatCounter =
  counters :: "(string \<times> int) list"
  apiCounters :: "ApiTypes \<Rightarrow> int"
  convTypeCounters :: "ConvTypes \<Rightarrow> int"

(* Source: src/src/Statistics.h 453-455 StatCounter (initial values) *)
definition new_StatCounter :: StatCounter where
  "new_StatCounter = \<lparr>counters = [], apiCounters = (\<lambda>_. 0), convTypeCounters = (\<lambda>_. 0)\<rparr>"

text \<open>\<open>counters[name] += n\<close>; an absent entry starts at zero.\<close>

(* Source: src/src/Statistics.cpp 223-230 operator[] on counters *)
fun bump :: "string \<Rightarrow> int \<Rightarrow> (string \<times> int) list \<Rightarrow> (string \<times> int) list" where
  "bump name n [] = [(name, n)]"
| "bump name n ((k, v) # xs) =
     (if name = k then (k, v + n) # xs
      else if name < k then (name, n) # (k, v) # xs
      else (k, v) # bump name n xs)"

(* Source: src/src/Statistics.cpp 222-226 StatCounter::incrementCounter *)
definition StatCounter_incrementCounter :: "dppCounter \<Rightarrow> string \<Rightarrow> StatCounter \<Rightarrow> StatCounter" where
  "StatCounter_incrementCounter counter name c = c
     \<lparr>counters := bump name 1 (counters c),
      apiCounters := (apiCounters c)(apiType counter := apiCounters c (apiType counter) + 1),
      convTypeCounters := (convTypeCounters c)(convType counter := convTypeCounters c (convType counter) + 1)\<rparr>"

(* Source: src/src/Statistics.cpp 228-235 StatCounter::add *)
definition StatCounter_add :: "StatCounter \<Rightarrow> StatCounter \<Rightarrow> StatCounter" where
  "StatCounter_add other c = c
     \<lparr>counters := fold (\<lambda>(name, n). bump name n) (counters other) (counters c),
      apiCounters := (\<lambda>i. apiCounters c i + apiCounters other i),
      convTypeCounters := (\<lambda>i. convTypeCounters c i + convTypeCounters other i)\<rparr>"

(* Source: src/src/Statistics.cpp 237-242 getConvSum *)
definition getConvSum :: "StatCounter \<Rightarrow> int" where
  "getConvSum c = foldl (\<lambda>acc i. acc + convTypeCounters c i) 0 conv_types"

text \<open>The lines of the report that \<open>print\<close> writes.\<close>

datatype line = Heading string | Value string int

(* Source: src/src/Statistics.cpp 212-217 printStat *)
definition printStat :: "string \<Rightarrow> int \<Rightarrow> line list" where
  "printStat name v = [Value name v]"

(* Source: src/src/Statistics.cpp 244-271 StatCounter::print *)
definition StatCounter_print :: "StatCounter \<Rightarrow> line list" where
  "StatCounter_print c =
     (if \<exists>i \<in> set conv_types. convTypeCounters c i > 0 then [Heading ''CUDA ref type;Count''] else [])
     @ concat (map (\<lambda>i. if convTypeCounters c i > 0 then printStat (counterNames i) (convTypeCounters c i) else [])
         conv_types)
     @ (if \<exists>i \<in> set api_types. apiCounters c i > 0 then [Heading ''CUDA API;Count''] else [])
     @ concat (map (\<lambda>i. if apiCounters c i > 0 then printStat (apiNames i) (apiCounters c i) else []) api_types)
     @ (if length (counters c) > 0
        then Heading ''CUDA ref name;Count'' # concat (map (\<lambda>(name, n). printStat name n) (counters c))
        else [])"

section \<open>The statistics of one file\<close>

(* Source: src/src/Statistics.h 468-478 Statistics *)
record Statistics =
  supported :: StatCounter
  unsupported :: StatCounter
  fileName :: string
  touchedLinesSet :: "32 word set"
  touchedLines :: "32 word"
  totalLines :: "32 word"
  touchedBytes :: "32 word"
  totalBytes :: "32 word"
  startTime :: nat
  hasErrors :: bool

text \<open>The constructor reads the file: \<open>contents\<close> is what it finds, and \<open>now\<close> the clock.\<close>

(* Source: src/src/Statistics.cpp 275-288 Statistics::Statistics *)
definition new_Statistics :: "string \<Rightarrow> string option \<Rightarrow> nat \<Rightarrow> Statistics" where
  "new_Statistics name contents now =
     \<lparr>supported = new_StatCounter, unsupported = new_StatCounter, fileName = name,
      touchedLinesSet = {}, touchedLines = 0,
      totalLines = (case contents of None \<Rightarrow> 0 | Some s \<Rightarrow> of_nat (length (filter (\<lambda>c. c = CHR 0x0A) s))),
      touchedBytes = 0,
      totalBytes = (case contents of None \<Rightarrow> 0 | Some s \<Rightarrow> of_nat (length s)),
      startTime = now, hasErrors = False\<rparr>"

(* Source: src/src/Statistics.cpp 292-298 Statistics::incrementCounter *)
definition incrementCounter :: "dppCounter \<Rightarrow> string \<Rightarrow> Statistics \<Rightarrow> Statistics" where
  "incrementCounter counter name s =
     (if isUnsupported counter
      then s\<lparr>unsupported := StatCounter_incrementCounter counter name (unsupported s)\<rparr>
      else s\<lparr>supported := StatCounter_incrementCounter counter name (supported s)\<rparr>)"

(* Source: src/src/Statistics.cpp 300-309 Statistics::add *)
definition Statistics_add :: "Statistics \<Rightarrow> Statistics \<Rightarrow> Statistics" where
  "Statistics_add other s = s
     \<lparr>supported := StatCounter_add (supported other) (supported s),
      unsupported := StatCounter_add (unsupported other) (unsupported s),
      touchedBytes := touchedBytes s + touchedBytes other,
      totalBytes := totalBytes s + totalBytes other,
      touchedLines := touchedLines s + touchedLines other,
      totalLines := totalLines s + totalLines other,
      hasErrors := (if hasErrors other \<and> \<not> hasErrors s then True else hasErrors s),
      startTime := (if startTime s > startTime other then startTime other else startTime s)\<rparr>"

(* Source: src/src/Statistics.cpp 311-314 lineTouched *)
definition lineTouched :: "32 word \<Rightarrow> Statistics \<Rightarrow> Statistics" where
  "lineTouched lineNumber s =
     (let lines = insert lineNumber (touchedLinesSet s)
      in s\<lparr>touchedLinesSet := lines, touchedLines := of_nat (card lines)\<rparr>)"

(* Source: src/src/Statistics.cpp 316-318 bytesChanged *)
definition bytesChanged :: "32 word \<Rightarrow> Statistics \<Rightarrow> Statistics" where
  "bytesChanged bytes s = s\<lparr>touchedBytes := touchedBytes s + bytes\<rparr>"

section \<open>The registry of files\<close>

text \<open>The static members: the statistics by file name in key order, and the file being
  processed.\<close>

(* Source: src/src/Statistics.h 509-512 stats, currentStatistics *)
record registry =
  stats :: "(string \<times> Statistics) list"
  currentStatistics :: "string option"

(* Source: src/src/Statistics.cpp 826-827 stats, currentStatistics (initial values) *)
definition new_registry :: registry where
  "new_registry = \<lparr>stats = [], currentStatistics = None\<rparr>"

(* Source: src/src/Statistics.cpp 396-399 emplace *)
fun emplace_stats :: "string \<Rightarrow> Statistics \<Rightarrow> (string \<times> Statistics) list \<Rightarrow> (string \<times> Statistics) list" where
  "emplace_stats name s [] = [(name, s)]"
| "emplace_stats name s ((k, v) # xs) =
     (if name = k then (k, v) # xs
      else if name < k then (name, s) # (k, v) # xs
      else (k, v) # emplace_stats name s xs)"

(* Source: src/src/Statistics.cpp 396-399 setActive *)
definition setActive :: "string \<Rightarrow> string option \<Rightarrow> nat \<Rightarrow> registry \<Rightarrow> registry" where
  "setActive name contents now r = r
     \<lparr>stats := emplace_stats name (new_Statistics name contents now) (stats r), currentStatistics := Some name\<rparr>"

text \<open>An update through \<open>current()\<close>; \<open>None\<close> is its failed assertion.\<close>

(* Source: src/src/Statistics.cpp 391-394 current *)
definition current :: "(Statistics \<Rightarrow> Statistics) \<Rightarrow> registry \<Rightarrow> registry option" where
  "current f r =
     (case currentStatistics r of
        None \<Rightarrow> None
      | Some name \<Rightarrow> Some (r\<lparr>stats := map (\<lambda>(k, v). if k = name then (k, f v) else (k, v)) (stats r)\<rparr>))"

(* Source: src/src/Statistics.cpp 383-389 getAggregate *)
definition getAggregate :: "string option \<Rightarrow> nat \<Rightarrow> registry \<Rightarrow> Statistics" where
  "getAggregate contents now r =
     fold (\<lambda>(name, s). Statistics_add s) (stats r) (new_Statistics ''GLOBAL'' contents now)"

(* Source: src/src/Statistics.cpp 366-372 printAggregate (convertedFiles) *)
definition convertedFiles :: "registry \<Rightarrow> int" where
  "convertedFiles r = foldl (\<lambda>n (name, s).
     if touchedLines s \<noteq> 0 \<and> totalBytes s \<noteq> 0 \<and> totalLines s \<noteq> 0 \<and> \<not> hasErrors s then n + 1 else n) 0 (stats r)"

section \<open>A run over the files\<close>

text \<open>What the tool does to its counters: it selects a file, counts a reference, a changed line or
  changed bytes, or marks the file as failed.\<close>

datatype event =
    Activate string "string option" nat
  | Reference dppCounter string
  | Line "32 word"
  | Bytes "32 word"
  | Failure

fun stat_step :: "event \<Rightarrow> registry \<Rightarrow> registry option" where
  "stat_step (Activate name contents now) r = Some (setActive name contents now r)"
| "stat_step (Reference counter name) r = current (incrementCounter counter name) r"
| "stat_step (Line n) r = current (lineTouched n) r"
| "stat_step (Bytes n) r = current (bytesChanged n) r"
| "stat_step Failure r = current (hasErrors_update (\<lambda>_. True)) r"

fun stat_run :: "event list \<Rightarrow> registry \<Rightarrow> registry option" where
  "stat_run [] r = Some r"
| "stat_run (e # es) r = (case stat_step e r of None \<Rightarrow> None | Some r' \<Rightarrow> stat_run es r')"

section \<open>Counting\<close>

definition name_sum :: "StatCounter \<Rightarrow> int" where
  "name_sum c = (\<Sum>(name, n) \<leftarrow> counters c. n)"

definition api_sum :: "StatCounter \<Rightarrow> int" where
  "api_sum c = (\<Sum>i \<leftarrow> api_types. apiCounters c i)"

lemma conv_types_all: "distinct conv_types" "set conv_types = UNIV"
proof -
  show "set conv_types = UNIV"
    by (rule UNIV_eq_I[symmetric]) (case_tac x; simp add: conv_types_def)
qed (simp add: conv_types_def)

lemma api_types_all: "distinct api_types" "set api_types = UNIV"
proof -
  show "set api_types = UNIV"
    by (rule UNIV_eq_I[symmetric]) (case_tac x; simp add: api_types_def)
qed (simp add: api_types_def)

lemma sum_upd: "distinct xs \<Longrightarrow> i \<in> set xs \<Longrightarrow> (\<Sum>j \<leftarrow> xs. (f(i := f i + 1)) j) = (\<Sum>j \<leftarrow> xs. f j) + (1 :: int)"
proof (induction xs)
  case (Cons a xs)
  then show ?case
    by (cases "a = i") (auto intro: arg_cong[where f = sum_list] map_cong)
qed simp

lemma sum_bump: "(\<Sum>(k, v) \<leftarrow> bump name n xs. v) = (\<Sum>(k, v) \<leftarrow> xs. v) + n"
  by (induction name n xs rule: bump.induct) auto

lemma sum_bumps: "(\<Sum>(k, v) \<leftarrow> fold (\<lambda>(name, n). bump name n) ys xs. v) = (\<Sum>(k, v) \<leftarrow> xs. v) + (\<Sum>(k, v) \<leftarrow> ys. v)"
  by (induction ys arbitrary: xs) (auto simp: sum_bump)

lemma getConvSum_sum: "getConvSum c = (\<Sum>i \<leftarrow> conv_types. convTypeCounters c i)"
proof -
  have "foldl (\<lambda>acc i. acc + convTypeCounters c i) a xs = a + (\<Sum>i \<leftarrow> xs. convTypeCounters c i)" for a xs
    by (induction xs arbitrary: a) auto
  then show ?thesis
    by (simp add: getConvSum_def)
qed

text \<open>A way to count what a \<open>StatCounter\<close> has seen.\<close>

locale counter_measure =
  fixes size_of :: "StatCounter \<Rightarrow> int"
  assumes empty: "size_of new_StatCounter = 0"
    and increment: "size_of (StatCounter_incrementCounter counter name c) = size_of c + 1"
    and add: "size_of (StatCounter_add other c) = size_of c + size_of other"

text \<open>A count of the references that satisfy \<open>P\<close> in the statistics of a file.\<close>

locale tally =
  fixes count :: "Statistics \<Rightarrow> int" and P :: "dppCounter \<Rightarrow> bool"
  assumes fresh: "count (new_Statistics name contents now) = 0"
    and increment: "count (incrementCounter counter name s) = count s + of_bool (P counter)"
    and line: "count (lineTouched n s) = count s"
    and bytes: "count (bytesChanged n s) = count s"
    and failure: "count (hasErrors_update f s) = count s"
    and add: "count (Statistics_add other s) = count s + count other"
begin

definition total :: "registry \<Rightarrow> int" where
  "total r = (\<Sum>(name, s) \<leftarrow> stats r. count s)"

lemma total_aggregate: "count (getAggregate contents now r) = total r"
proof -
  have "count (fold (\<lambda>(name, s). Statistics_add s) xs g) = count g + (\<Sum>(name, s) \<leftarrow> xs. count s)"
    for xs :: "(string \<times> Statistics) list" and g
    by (induction xs arbitrary: g) (auto simp: add)
  then show ?thesis
    by (simp add: getAggregate_def total_def fresh)
qed

lemma total_activate: "total (setActive name contents now r) = total r"
proof -
  have "(\<Sum>(k, s) \<leftarrow> emplace_stats name (new_Statistics name contents now) xs. count s) = (\<Sum>(k, s) \<leftarrow> xs. count s)"
    for xs
    by (induction xs) (auto simp: fresh)
  then show ?thesis
    by (simp add: total_def setActive_def)
qed

lemma total_current:
  assumes "current f r = Some r'" and "\<And>s. count (f s) = count s + d"
    and "distinct (map fst (stats r))" and "\<And>name. currentStatistics r = Some name \<Longrightarrow> name \<in> fst ` set (stats r)"
  shows "total r' = total r + d"
proof -
  obtain name where name: "currentStatistics r = Some name"
      "r' = r\<lparr>stats := map (\<lambda>(k, v). if k = name then (k, f v) else (k, v)) (stats r)\<rparr>"
    using assms(1) by (auto simp: current_def split: option.splits)
  have absent: "name \<notin> fst ` set xs
      \<Longrightarrow> map (\<lambda>(k, v). if k = name then (k, f v) else (k, v)) xs = xs" for xs
    by (induction xs) auto
  have "name \<in> fst ` set xs \<Longrightarrow> distinct (map fst xs) \<Longrightarrow>
      (\<Sum>(k, s) \<leftarrow> map (\<lambda>(k, v). if k = name then (k, f v) else (k, v)) xs. count s) = (\<Sum>(k, s) \<leftarrow> xs. count s) + d" for xs
  proof (induction xs)
    case (Cons x xs)
    obtain k v where x: "x = (k, v)"
      by fastforce
    show ?case
    proof (cases "k = name")
      case True
      then have "name \<notin> fst ` set xs"
        using Cons(3) by (auto simp: x)
      then show ?thesis
        using absent[of xs] True assms(2)[of v] by (simp add: x)
    next
      case False
      then show ?thesis
        using Cons by (simp add: x)
    qed
  qed simp
  then show ?thesis
    using assms(3) assms(4)[OF name(1)] by (simp add: name total_def)
qed

end

text \<open>The registry keeps its keys in order and its current file among them.\<close>

definition registry_inv :: "registry \<Rightarrow> bool" where
  "registry_inv r \<longleftrightarrow> sorted_wrt (<) (map fst (stats r))
     \<and> (\<forall>name. currentStatistics r = Some name \<longrightarrow> name \<in> fst ` set (stats r))"

lemma emplace_stats_keys: "fst ` set (emplace_stats name s xs) = insert name (fst ` set xs)"
  by (induction name s xs rule: emplace_stats.induct) auto

lemma emplace_sorted: "sorted_wrt (<) (map fst xs) \<Longrightarrow> sorted_wrt (<) (map fst (emplace_stats name s xs))"
proof (induction name s xs rule: emplace_stats.induct)
  case (2 name s k v xs)
  have "\<forall>y \<in> set (map fst (emplace_stats name s xs)). k < y" if "\<not> name < k" "name \<noteq> k"
    using that 2(2) emplace_stats_keys[of name s xs] by auto
  then show ?case
    using 2 by (auto simp: order.strict_trans)
qed simp

lemma current_keys: "current f r = Some r' \<Longrightarrow> map fst (stats r') = map fst (stats r) \<and> currentStatistics r' = currentStatistics r"
  by (auto simp: current_def split: option.splits if_splits)

lemma registry_step: "registry_inv r \<Longrightarrow> stat_step e r = Some r' \<Longrightarrow> registry_inv r'"
proof -
  assume inv: "registry_inv r" and step: "stat_step e r = Some r'"
  have update: "registry_inv r'" if "current f r = Some r'" for f
    using inv current_keys[OF that] unfolding registry_inv_def by (metis image_set)
  show ?thesis
  proof (cases e)
    case (Activate name contents now)
    then have "r' = setActive name contents now r"
      using step by simp
    then show ?thesis
      using inv emplace_sorted[of "stats r" name] emplace_stats_keys[of name _ "stats r"]
      by (auto simp: registry_inv_def setActive_def)
  qed (use step update in auto)
qed

definition refers :: "(dppCounter \<Rightarrow> bool) \<Rightarrow> event \<Rightarrow> bool" where
  "refers P e \<longleftrightarrow> (case e of Reference counter name \<Rightarrow> P counter | _ \<Rightarrow> False)"

context tally
begin

lemma total_step:
  assumes "registry_inv r" and "stat_step e r = Some r'"
  shows "total r' = total r + of_bool (refers P e)"
proof -
  have d: "distinct (map fst (stats r))"
    using assms(1) by (simp add: registry_inv_def strict_sorted_iff)
  have c: "\<And>name. currentStatistics r = Some name \<Longrightarrow> name \<in> fst ` set (stats r)"
    using assms(1) by (simp add: registry_inv_def)
  note update = total_current[OF _ _ d c]
  show ?thesis
  proof (cases e)
    case (Activate name contents now)
    then show ?thesis
      using assms(2) by (simp add: refers_def flip: total_activate[of name contents now r])
  next
    case (Reference counter name)
    then show ?thesis
      using assms(2) update[of "incrementCounter counter name" r' "of_bool (P counter)"]
      by (simp add: refers_def increment)
  next
    case (Line n)
    then show ?thesis
      using assms(2) update[of "lineTouched n" r' 0] by (simp add: refers_def line)
  next
    case (Bytes n)
    then show ?thesis
      using assms(2) update[of "bytesChanged n" r' 0] by (simp add: refers_def bytes)
  next
    case Failure
    then show ?thesis
      using assms(2) update[of "hasErrors_update (\<lambda>_. True)" r' 0] by (simp add: refers_def failure)
  qed
qed

lemma total_run:
  "registry_inv r \<Longrightarrow> stat_run es r = Some r' \<Longrightarrow> total r' = total r + int (length (filter (refers P) es))"
proof (induction es arbitrary: r)
  case (Cons e es)
  then obtain r1 where r1: "stat_step e r = Some r1" "stat_run es r1 = Some r'"
    by (auto split: option.splits)
  then show ?case
    using Cons.IH[OF registry_step[OF Cons.prems(1) r1(1)] r1(2)] total_step[OF Cons.prems(1) r1(1)]
    by simp
qed simp

lemma aggregate:
  assumes "stat_run es new_registry = Some r"
  shows "count (getAggregate contents now r) = int (length (filter (refers P) es))"
proof -
  have "registry_inv new_registry" "total new_registry = 0"
    by (simp_all add: registry_inv_def new_registry_def total_def)
  then show ?thesis
    using total_run[OF _ assms] by (simp add: total_aggregate)
qed

end

sublocale counter_measure \<subseteq> converted: tally "\<lambda>s. size_of (supported s)" "\<lambda>c. \<not> isUnsupported c"
  by unfold_locales
    (auto simp: new_Statistics_def incrementCounter_def lineTouched_def bytesChanged_def Statistics_add_def Let_def
      empty increment add)

sublocale counter_measure \<subseteq> unconverted: tally "\<lambda>s. size_of (unsupported s)" isUnsupported
  by unfold_locales
    (auto simp: new_Statistics_def incrementCounter_def lineTouched_def bytesChanged_def Statistics_add_def Let_def
      empty increment add)

interpretation conv: counter_measure getConvSum
  by unfold_locales
    (simp_all add: getConvSum_sum new_StatCounter_def StatCounter_incrementCounter_def StatCounter_add_def
      sum_list_addf sum_upd conv_types_all del: fun_upd_apply)

interpretation api: counter_measure api_sum
  by unfold_locales
    (simp_all add: api_sum_def new_StatCounter_def StatCounter_incrementCounter_def StatCounter_add_def
      sum_list_addf sum_upd api_types_all del: fun_upd_apply)

interpretation names: counter_measure name_sum
  by unfold_locales
    (simp_all add: name_sum_def new_StatCounter_def StatCounter_incrementCounter_def StatCounter_add_def
      sum_bump sum_bumps)

definition counts :: "StatCounter \<Rightarrow> nat \<Rightarrow> bool" where
  "counts c n \<longleftrightarrow> getConvSum c = int n \<and> api_sum c = int n \<and> name_sum c = int n"

section \<open>Properties\<close>

text \<open>Every reference is counted exactly once, on the side of its support, over
  all files: however the tool switches between its files, the aggregate of its registry has as many
  converted references as supported ones were seen, and as many unconverted ones as unsupported
  ones, and on each side the counts by type, by API and by name add up to the same number.\<close>

theorem aggregate_counts_references:
  assumes "stat_run es new_registry = Some r"
    and "g = getAggregate contents now r"
  shows "counts (supported g) (length (filter (refers (\<lambda>c. \<not> isUnsupported c)) es))
    \<and> counts (unsupported g) (length (filter (refers isUnsupported) es))"
  unfolding counts_def assms(2)
  by (intro conjI conv.converted.aggregate api.converted.aggregate names.converted.aggregate
    conv.unconverted.aggregate api.unconverted.aggregate names.unconverted.aggregate assms(1))

definition demo_events :: "event list" where
  "demo_events =
     (let known = \<lparr>dppName = ''aclrtStream'', convType = CONV_TYPE, apiType = API_RUNTIME, apiSection = 20,
        supportDegree = FULL\<rparr>
      in [Activate ''b.cu'' (Some ''x'') 3, Reference known ''cudaStream_t'',
          Activate ''a.cu'' None 4, Reference known ''cudaStream_t'',
          Reference (known\<lparr>supportDegree := UNSUPPORTED\<rparr>) ''cudaGraph_t'', Line 7, Bytes 3,
          Activate ''b.cu'' None 5, Reference known ''cudaStream_t'', Failure])"

theorem aggregate_counts_references_witness:
  "\<exists>r. stat_run demo_events new_registry = Some r
     \<and> getConvSum (supported (getAggregate None 0 r)) = 3 \<and> getConvSum (unsupported (getAggregate None 0 r)) = 1"
proof -
  have "stat_run demo_events new_registry \<noteq> None"
    by (simp add: demo_events_def new_registry_def setActive_def current_def Let_def)
  then obtain r where r: "stat_run demo_events new_registry = Some r"
    by blast
  have "length (filter (refers (\<lambda>c. \<not> isUnsupported c)) demo_events) = 3"
       "length (filter (refers isUnsupported) demo_events) = 1"
    by (simp_all add: demo_events_def Let_def refers_def isUnsupported_def isTargetUnsupported_def
      UNSUPPORTED_def TARGET_UNSUPPORTED_def FULL_def)
  then show ?thesis
    using aggregate_counts_references[OF r refl] r by (simp add: counts_def)
qed

end
