(* ===== verification/Name_Maps.thy ===== *)
theory Name_Maps
  imports Statistics
begin

text \<open>
  The tables of \<open>src/CUDA2DPP*.cpp\<close>: what each CUDA name and header becomes.  A map is the list
  of its entries; the constructors of the source assign the entries of one table in turn and
  insert the tables into their union, where a name that is already there keeps its entry.
\<close>

section \<open>Entries\<close>

(* Source: src/src/CUDA2DPP.h 65-66 DEVICE *)
definition SEC_DEVICE :: "32 word" where "SEC_DEVICE = 1"

(* Source: src/src/CUDA2DPP.h 66-67 MEMORY *)
definition SEC_MEMORY :: "32 word" where "SEC_MEMORY = 10"

(* Source: src/src/CUDA2DPP.h 67-68 STREAM *)
definition SEC_STREAM :: "32 word" where "SEC_STREAM = 20"

(* Source: src/src/CUDA2DPP.h 68-69 EVENT *)
definition SEC_EVENT :: "32 word" where "SEC_EVENT = 30"

(* Source: src/src/CUDA2DPP.h 69-70 EXECUTION *)
definition SEC_EXECUTION :: "32 word" where "SEC_EXECUTION = 40"

(* Source: src/src/CUDA2DPP.h 70-71 ERROR_HANDLING *)
definition SEC_ERROR_HANDLING :: "32 word" where "SEC_ERROR_HANDLING = 50"

(* Source: src/src/CUDA2DPP.h 71-72 VERSION *)
definition SEC_VERSION :: "32 word" where "SEC_VERSION = 60"

(* Source: src/src/CUDA2DPP.h 72-73 OCCUPANCY *)
definition SEC_OCCUPANCY :: "32 word" where "SEC_OCCUPANCY = 70"

(* Source: src/src/CUDA2DPP.h 73-74 DEVICE_MGMT *)
definition SEC_DEVICE_MGMT :: "32 word" where "SEC_DEVICE_MGMT = 80"

type_synonym entry = "string \<times> dppCounter"

text \<open>An entry with the fields that its initializer names; the degree defaults to \<open>FULL\<close>.\<close>

definition entry :: "string \<Rightarrow> string \<Rightarrow> ConvTypes \<Rightarrow> ApiTypes \<Rightarrow> 32 word \<Rightarrow> entry" where
  "entry name target conv api section =
     (name, \<lparr>dppName = target, convType = conv, apiType = api, apiSection = section, supportDegree = FULL\<rparr>)"

section \<open>Tables\<close>

(* Source: src/src/CUDA2DPP_Runtime_API_functions.cpp 28-114 CUDA_RUNTIME_FUNCTION_MAP *)
definition CUDA_RUNTIME_FUNCTION_MAP :: "entry list" where
  "CUDA_RUNTIME_FUNCTION_MAP =
    [entry ''cudaMemcpyFromSymbol'' ''ascify::cudaMemcpyFromSymbol'' CONV_MEMORY API_RUNTIME SEC_MEMORY,
     entry ''cudaMemcpyToSymbol'' ''ascify::cudaMemcpyToSymbol'' CONV_MEMORY API_RUNTIME SEC_MEMORY,
     entry ''cudaGetDeviceProperties'' ''ascify::cudaGetDeviceProperties'' CONV_DEVICE API_RUNTIME SEC_DEVICE_MGMT,
     entry ''cudaGetDeviceProperties_v2'' ''ascify::cudaGetDeviceProperties'' CONV_DEVICE API_RUNTIME SEC_DEVICE_MGMT,
     entry ''cudaMalloc'' ''ascify::cudaMalloc'' CONV_MEMORY API_RUNTIME SEC_MEMORY,
     entry ''cudaFree'' ''ascify::cudaFree'' CONV_MEMORY API_RUNTIME SEC_MEMORY,
     entry ''cudaMemcpy'' ''ascify::cudaMemcpy'' CONV_MEMORY API_RUNTIME SEC_MEMORY,
     entry ''cudaMemcpyAsync'' ''ascify::cudaMemcpyAsync'' CONV_MEMORY API_RUNTIME SEC_MEMORY,
     entry ''cudaMemset'' ''ascify::cudaMemset'' CONV_MEMORY API_RUNTIME SEC_MEMORY,
     entry ''cudaMemsetAsync'' ''ascify::cudaMemsetAsync'' CONV_MEMORY API_RUNTIME SEC_MEMORY,
     entry ''cudaMallocHost'' ''ascify::cudaMallocHost'' CONV_MEMORY API_RUNTIME SEC_MEMORY,
     entry ''cudaProfilerStart'' ''ascify::cudaProfilerStart'' CONV_PROFILER API_RUNTIME 0,
     entry ''cudaProfilerStop'' ''ascify::cudaProfilerStop'' CONV_PROFILER API_RUNTIME 0,
     entry ''cudaLaunchHostFunc'' ''ascify::cudaLaunchHostFunc'' CONV_EXECUTION API_RUNTIME 0,
     entry ''cudaFreeHost'' ''ascify::cudaFreeHost'' CONV_MEMORY API_RUNTIME SEC_MEMORY,
     entry ''cudaMallocPitch'' ''ascify::cudaMallocPitch'' CONV_MEMORY API_RUNTIME SEC_MEMORY,
     entry ''cudaMallocArray'' ''ascify::cudaMallocArray'' CONV_MEMORY API_RUNTIME SEC_MEMORY,
     entry ''cudaMalloc3DArray'' ''ascify::cudaMalloc3DArray'' CONV_MEMORY API_RUNTIME SEC_MEMORY,
     entry ''cudaFreeArray'' ''ascify::cudaFreeArray'' CONV_MEMORY API_RUNTIME SEC_MEMORY,
     entry ''cudaMemcpy2D'' ''ascify::cudaMemcpy2D'' CONV_MEMORY API_RUNTIME SEC_MEMORY,
     entry ''cudaMemset2D'' ''ascify::cudaMemset2D'' CONV_MEMORY API_RUNTIME SEC_MEMORY,
     entry ''cudaMemcpyToArray'' ''ascify::cudaMemcpyToArray'' CONV_MEMORY API_RUNTIME SEC_MEMORY,
     entry ''cudaMemcpy2DToArray'' ''ascify::cudaMemcpy2DToArray'' CONV_MEMORY API_RUNTIME SEC_MEMORY,
     entry ''cudaMemcpy3D'' ''ascify::cudaMemcpy3D'' CONV_MEMORY API_RUNTIME SEC_MEMORY,
     entry ''cudaCreateTextureObject'' ''ascify::cudaCreateTextureObject'' CONV_MEMORY API_RUNTIME SEC_MEMORY,
     entry ''cudaDestroyTextureObject'' ''ascify::cudaDestroyTextureObject'' CONV_MEMORY API_RUNTIME SEC_MEMORY,
     entry ''cudaCreateChannelDesc'' ''ascify::cudaCreateChannelDesc'' CONV_MEMORY API_RUNTIME SEC_MEMORY,
     entry ''make_cudaExtent'' ''ascify::make_cudaExtent'' CONV_MEMORY API_RUNTIME SEC_MEMORY,
     entry ''make_cudaPos'' ''ascify::make_cudaPos'' CONV_MEMORY API_RUNTIME SEC_MEMORY,
     entry ''make_cudaPitchedPtr'' ''ascify::make_cudaPitchedPtr'' CONV_MEMORY API_RUNTIME SEC_MEMORY,
     entry ''tex2D'' ''ascify::tex2D'' CONV_MEMORY API_RUNTIME SEC_MEMORY,
     entry ''tex2DLayered'' ''ascify::tex2DLayered'' CONV_MEMORY API_RUNTIME SEC_MEMORY,
     entry ''texCubemap'' ''ascify::texCubemap'' CONV_MEMORY API_RUNTIME SEC_MEMORY,
     entry ''cudaGetDevice'' ''ascify::cudaGetDevice'' CONV_DEVICE API_RUNTIME SEC_DEVICE_MGMT,
     entry ''cudaSetDevice'' ''ascify::cudaSetDevice'' CONV_DEVICE API_RUNTIME SEC_DEVICE_MGMT,
     entry ''cudaGetDeviceCount'' ''ascify::cudaGetDeviceCount'' CONV_DEVICE API_RUNTIME SEC_DEVICE_MGMT,
     entry ''cudaDeviceCanAccessPeer'' ''ascify::cudaDeviceCanAccessPeer'' CONV_DEVICE API_RUNTIME SEC_DEVICE_MGMT,
     entry ''cudaDeviceEnablePeerAccess'' ''ascify::cudaDeviceEnablePeerAccess'' CONV_DEVICE API_RUNTIME SEC_DEVICE_MGMT,
     entry ''cudaDeviceDisablePeerAccess'' ''ascify::cudaDeviceDisablePeerAccess'' CONV_DEVICE API_RUNTIME SEC_DEVICE_MGMT,
     entry ''cudaDeviceGetAttribute'' ''ascify::cudaDeviceGetAttribute'' CONV_DEVICE API_RUNTIME SEC_DEVICE_MGMT,
     entry ''cudaDeviceSynchronize'' ''ascify::cudaDeviceSynchronize'' CONV_DEVICE API_RUNTIME SEC_DEVICE_MGMT,
     entry ''cudaDeviceReset'' ''ascify::cudaDeviceReset'' CONV_DEVICE API_RUNTIME SEC_DEVICE_MGMT,
     entry ''cudaFuncGetAttributes'' ''ascify::cudaFuncGetAttributes'' CONV_DEVICE API_RUNTIME SEC_DEVICE_MGMT,
     entry ''cudaFuncSetAttribute'' ''ascify::cudaFuncSetAttribute'' CONV_DEVICE API_RUNTIME SEC_DEVICE_MGMT,
     entry ''cudaDeviceGetStreamPriorityRange'' ''ascify::cudaDeviceGetStreamPriorityRange'' CONV_DEVICE API_RUNTIME SEC_DEVICE_MGMT,
     entry ''cudaStreamCreateWithPriority'' ''ascify::cudaStreamCreateWithPriority'' CONV_STREAM API_RUNTIME SEC_STREAM,
     entry ''cudaStreamCreate'' ''ascify::cudaStreamCreate'' CONV_STREAM API_RUNTIME SEC_STREAM,
     entry ''cudaStreamCreateWithFlags'' ''ascify::cudaStreamCreateWithFlags'' CONV_STREAM API_RUNTIME SEC_STREAM,
     entry ''cudaStreamDestroy'' ''ascify::cudaStreamDestroy'' CONV_STREAM API_RUNTIME SEC_STREAM,
     entry ''cudaStreamSynchronize'' ''ascify::cudaStreamSynchronize'' CONV_STREAM API_RUNTIME SEC_STREAM,
     entry ''cudaStreamQuery'' ''ascify::cudaStreamQuery'' CONV_STREAM API_RUNTIME SEC_STREAM,
     entry ''cudaStreamWaitEvent'' ''ascify::cudaStreamWaitEvent'' CONV_STREAM API_RUNTIME SEC_STREAM,
     entry ''cudaEventCreate'' ''ascify::cudaEventCreate'' CONV_EVENT API_RUNTIME SEC_EVENT,
     entry ''cudaEventDestroy'' ''ascify::cudaEventDestroy'' CONV_EVENT API_RUNTIME SEC_EVENT,
     entry ''cudaEventRecord'' ''ascify::cudaEventRecord'' CONV_EVENT API_RUNTIME SEC_EVENT,
     entry ''cudaEventQuery'' ''ascify::cudaEventQuery'' CONV_EVENT API_RUNTIME SEC_EVENT,
     entry ''cudaEventSynchronize'' ''ascify::cudaEventSynchronize'' CONV_EVENT API_RUNTIME SEC_EVENT,
     entry ''cudaEventElapsedTime'' ''ascify::cudaEventElapsedTime'' CONV_EVENT API_RUNTIME SEC_EVENT,
     entry ''cudaGetLastError'' ''ascify::cudaGetLastError'' CONV_ERROR_LOG API_RUNTIME SEC_ERROR_HANDLING,
     entry ''cudaPeekAtLastError'' ''ascify::cudaPeekAtLastError'' CONV_ERROR_LOG API_RUNTIME SEC_ERROR_HANDLING,
     entry ''cudaGetErrorString'' ''ascify::cudaGetErrorString'' CONV_ERROR_LOG API_RUNTIME SEC_ERROR_HANDLING,
     entry ''cudaOccupancyMaxActiveBlocksPerMultiprocessor'' ''ascify::cudaOccupancyMaxActiveBlocksPerMultiprocessor'' CONV_OCCUPANCY API_RUNTIME SEC_OCCUPANCY,
     entry ''cudaOccupancyMaxPotentialBlockSize'' ''ascify::cudaOccupancyMaxPotentialBlockSize'' CONV_OCCUPANCY API_RUNTIME SEC_OCCUPANCY]"

(* Source: src/src/CUDA2DPP_Runtime_API_types.cpp 28-108 CUDA_RUNTIME_TYPE_NAME_MAP *)
definition CUDA_RUNTIME_TYPE_NAME_MAP :: "entry list" where
  "CUDA_RUNTIME_TYPE_NAME_MAP =
    [entry ''cudaError_t'' ''aclError'' CONV_TYPE API_RUNTIME SEC_ERROR_HANDLING,
     entry ''cudaSuccess'' ''ACL_SUCCESS'' CONV_DEFINE API_RUNTIME SEC_ERROR_HANDLING,
     entry ''cudaErrorInvalidValue'' ''ACL_ERROR_RT_PARAM_INVALID'' CONV_DEFINE API_RUNTIME SEC_ERROR_HANDLING,
     entry ''cudaErrorMemoryAllocation'' ''ACL_ERROR_RT_MEMORY_ALLOCATION'' CONV_DEFINE API_RUNTIME SEC_ERROR_HANDLING,
     entry ''cudaErrorInvalidDevice'' ''ACL_ERROR_RT_INVALID_DEVICEID'' CONV_DEFINE API_RUNTIME SEC_ERROR_HANDLING,
     entry ''cudaErrorNotReady'' ''ACL_ERROR_RT_EVENT_NOT_COMPLETE'' CONV_DEFINE API_RUNTIME SEC_ERROR_HANDLING,
     entry ''cudaErrorAssert'' ''ascify::cudaErrorAssert'' CONV_DEFINE API_RUNTIME SEC_ERROR_HANDLING,
     entry ''cudaStream_t'' ''aclrtStream'' CONV_TYPE API_RUNTIME SEC_STREAM,
     entry ''cudaHostFn_t'' ''ascify::cudaHostFn_t'' CONV_TYPE API_RUNTIME SEC_STREAM,
     entry ''cudaStreamDefault'' ''ascify::cudaStreamDefault'' CONV_DEFINE API_RUNTIME SEC_STREAM,
     entry ''cudaStreamNonBlocking'' ''ascify::cudaStreamNonBlocking'' CONV_DEFINE API_RUNTIME SEC_STREAM,
     entry ''cudaStreamLegacy'' ''ascify::cudaStreamLegacy'' CONV_DEFINE API_RUNTIME SEC_STREAM,
     entry ''cudaStreamPerThread'' ''ascify::cudaStreamPerThread'' CONV_DEFINE API_RUNTIME SEC_STREAM,
     entry ''cudaEvent_t'' ''aclrtEvent'' CONV_TYPE API_RUNTIME SEC_EVENT,
     entry ''cudaEventWaitDefault'' ''ascify::cudaEventWaitDefault'' CONV_DEFINE API_RUNTIME SEC_EVENT,
     entry ''cudaEventWaitExternal'' ''ascify::cudaEventWaitExternal'' CONV_DEFINE API_RUNTIME SEC_EVENT,
     entry ''cudaDeviceProp'' ''ascify::cudaDeviceProp'' CONV_TYPE API_RUNTIME SEC_DEVICE_MGMT,
     entry ''cudaDevAttrMultiProcessorCount'' ''ACL_DEV_ATTR_VECTOR_CORE_NUM'' CONV_TYPE API_RUNTIME SEC_DEVICE_MGMT,
     entry ''cudaDevAttrMaxThreadsPerMultiProcessor'' ''ascify::cudaDevAttrMaxThreadsPerVectorCore'' CONV_TYPE API_RUNTIME SEC_DEVICE_MGMT,
     entry ''cudaDevAttrMaxSharedMemoryPerBlock'' ''ascify::cudaDevAttrLocalMemoryPerVectorCore'' CONV_TYPE API_RUNTIME SEC_DEVICE_MGMT,
     entry ''cudaDeviceAttr'' ''aclrtDevAttr'' CONV_TYPE API_RUNTIME SEC_DEVICE_MGMT,
     entry ''cudaDevAttrMaxThreadsPerBlock'' ''ascify::cudaDevAttrMaxThreadsPerBlock'' CONV_TYPE API_RUNTIME SEC_DEVICE_MGMT,
     entry ''cudaDevAttrWarpSize'' ''ascify::cudaDevAttrWarpSize'' CONV_TYPE API_RUNTIME SEC_DEVICE_MGMT,
     entry ''cudaDevAttrMaxSharedMemoryPerBlockOptin'' ''ascify::cudaDevAttrLocalMemoryPerVectorCore'' CONV_TYPE API_RUNTIME SEC_DEVICE_MGMT,
     entry ''cudaFuncAttributes'' ''ascify::cudaFuncAttributes'' CONV_TYPE API_RUNTIME SEC_DEVICE_MGMT,
     entry ''cudaFuncAttribute'' ''ascify::cudaFuncAttribute'' CONV_TYPE API_RUNTIME SEC_DEVICE_MGMT,
     entry ''cudaFuncAttributeMaxDynamicSharedMemorySize'' ''ascify::cudaFuncAttributeMaxDynamicSharedMemorySize'' CONV_DEFINE API_RUNTIME SEC_DEVICE_MGMT,
     entry ''cudaArray'' ''ascify::cudaArray'' CONV_TYPE API_RUNTIME SEC_MEMORY,
     entry ''cudaArray_t'' ''ascify::cudaArray_t'' CONV_TYPE API_RUNTIME SEC_MEMORY,
     entry ''cudaArray_const_t'' ''ascify::cudaArray_const_t'' CONV_TYPE API_RUNTIME SEC_MEMORY,
     entry ''cudaTextureObject_t'' ''ascify::cudaTextureObject_t'' CONV_TYPE API_RUNTIME SEC_MEMORY,
     entry ''cudaChannelFormatDesc'' ''ascify::cudaChannelFormatDesc'' CONV_TYPE API_RUNTIME SEC_MEMORY,
     entry ''cudaChannelFormatKind'' ''ascify::cudaChannelFormatKind'' CONV_TYPE API_RUNTIME SEC_MEMORY,
     entry ''cudaResourceDesc'' ''ascify::cudaResourceDesc'' CONV_TYPE API_RUNTIME SEC_MEMORY,
     entry ''cudaResourceType'' ''ascify::cudaResourceType'' CONV_TYPE API_RUNTIME SEC_MEMORY,
     entry ''cudaTextureDesc'' ''ascify::cudaTextureDesc'' CONV_TYPE API_RUNTIME SEC_MEMORY,
     entry ''cudaTextureAddressMode'' ''ascify::cudaTextureAddressMode'' CONV_TYPE API_RUNTIME SEC_MEMORY,
     entry ''cudaTextureFilterMode'' ''ascify::cudaTextureFilterMode'' CONV_TYPE API_RUNTIME SEC_MEMORY,
     entry ''cudaTextureReadMode'' ''ascify::cudaTextureReadMode'' CONV_TYPE API_RUNTIME SEC_MEMORY,
     entry ''cudaPitchedPtr'' ''ascify::cudaPitchedPtr'' CONV_TYPE API_RUNTIME SEC_MEMORY,
     entry ''cudaExtent'' ''ascify::cudaExtent'' CONV_TYPE API_RUNTIME SEC_MEMORY,
     entry ''cudaPos'' ''ascify::cudaPos'' CONV_TYPE API_RUNTIME SEC_MEMORY,
     entry ''cudaMemcpy3DParms'' ''ascify::cudaMemcpy3DParms'' CONV_TYPE API_RUNTIME SEC_MEMORY,
     entry ''cudaArrayLayered'' ''0x01'' CONV_DEFINE API_RUNTIME SEC_MEMORY,
     entry ''cudaArrayCubemap'' ''0x04'' CONV_DEFINE API_RUNTIME SEC_MEMORY,
     entry ''cudaResourceViewDesc'' ''ascify::cudaResourceViewDesc'' CONV_TYPE API_RUNTIME SEC_MEMORY,
     entry ''cudaChannelFormatKindSigned'' ''ascify::cudaChannelFormatKindSigned'' CONV_TYPE API_RUNTIME SEC_MEMORY,
     entry ''cudaChannelFormatKindUnsigned'' ''ascify::cudaChannelFormatKindUnsigned'' CONV_TYPE API_RUNTIME SEC_MEMORY,
     entry ''cudaChannelFormatKindFloat'' ''ascify::cudaChannelFormatKindFloat'' CONV_TYPE API_RUNTIME SEC_MEMORY,
     entry ''cudaChannelFormatKindNone'' ''ascify::cudaChannelFormatKindNone'' CONV_TYPE API_RUNTIME SEC_MEMORY,
     entry ''cudaResourceTypeArray'' ''ascify::cudaResourceTypeArray'' CONV_TYPE API_RUNTIME SEC_MEMORY,
     entry ''cudaResourceTypeMipmappedArray'' ''ascify::cudaResourceTypeMipmappedArray'' CONV_TYPE API_RUNTIME SEC_MEMORY,
     entry ''cudaResourceTypeLinear'' ''ascify::cudaResourceTypeLinear'' CONV_TYPE API_RUNTIME SEC_MEMORY,
     entry ''cudaResourceTypePitch2D'' ''ascify::cudaResourceTypePitch2D'' CONV_TYPE API_RUNTIME SEC_MEMORY,
     entry ''cudaAddressModeWrap'' ''ascify::cudaAddressModeWrap'' CONV_TYPE API_RUNTIME SEC_MEMORY,
     entry ''cudaAddressModeClamp'' ''ascify::cudaAddressModeClamp'' CONV_TYPE API_RUNTIME SEC_MEMORY,
     entry ''cudaAddressModeMirror'' ''ascify::cudaAddressModeMirror'' CONV_TYPE API_RUNTIME SEC_MEMORY,
     entry ''cudaAddressModeBorder'' ''ascify::cudaAddressModeBorder'' CONV_TYPE API_RUNTIME SEC_MEMORY,
     entry ''cudaFilterModePoint'' ''ascify::cudaFilterModePoint'' CONV_TYPE API_RUNTIME SEC_MEMORY,
     entry ''cudaFilterModeLinear'' ''ascify::cudaFilterModeLinear'' CONV_TYPE API_RUNTIME SEC_MEMORY,
     entry ''cudaReadModeElementType'' ''ascify::cudaReadModeElementType'' CONV_TYPE API_RUNTIME SEC_MEMORY,
     entry ''cudaReadModeNormalizedFloat'' ''ascify::cudaReadModeNormalizedFloat'' CONV_TYPE API_RUNTIME SEC_MEMORY,
     entry ''cudaMemcpyHostToDevice'' ''ACL_MEMCPY_HOST_TO_DEVICE'' CONV_DEFINE API_RUNTIME SEC_MEMORY,
     entry ''cudaMemcpyDeviceToHost'' ''ACL_MEMCPY_DEVICE_TO_HOST'' CONV_DEFINE API_RUNTIME SEC_MEMORY,
     entry ''cudaMemcpyDeviceToDevice'' ''ACL_MEMCPY_DEVICE_TO_DEVICE'' CONV_DEFINE API_RUNTIME SEC_MEMORY,
     entry ''cudaMemcpyHostToHost'' ''ACL_MEMCPY_HOST_TO_HOST'' CONV_DEFINE API_RUNTIME SEC_MEMORY,
     entry ''cudaMemcpyKind'' ''aclrtMemcpyKind'' CONV_TYPE API_RUNTIME SEC_MEMORY]"

(* Source: src/src/CUDA2DPP_Runtime_API_types.cpp 111-117 CUDA_DRIVER_TYPE_NAME_MAP *)
definition CUDA_DRIVER_TYPE_NAME_MAP :: "entry list" where
  "CUDA_DRIVER_TYPE_NAME_MAP =
    [entry ''CUresult'' ''aclError'' CONV_TYPE API_DRIVER 0,
     entry ''CUDA_SUCCESS'' ''ACL_SUCCESS'' CONV_DEFINE API_DRIVER 0]"

(* Source: src/src/CUDA2DPP_Runtime_API_types.cpp 120-124 CUDA_DRIVER_FUNCTION_MAP *)
definition CUDA_DRIVER_FUNCTION_MAP :: "entry list" where
  "CUDA_DRIVER_FUNCTION_MAP =
    []"

(* Source: src/src/CUDA2DPP_Device_API.cpp 26-32 CUDA_DEVICE_TYPE_NAME_MAP *)
definition CUDA_DEVICE_TYPE_NAME_MAP :: "entry list" where
  "CUDA_DEVICE_TYPE_NAME_MAP =
    [entry ''nv_bfloat16'' ''bfloat16_t'' CONV_DEVICE_TYPE API_RUNTIME 0,
     entry ''nv_bfloat16_2'' ''bfloat16x2_t'' CONV_DEVICE_TYPE API_RUNTIME 0]"

(* Source: src/src/CUDA2DPP_Device_API.cpp 35-134 CUDA_DEVICE_FUNCTION_MAP *)
definition CUDA_DEVICE_FUNCTION_MAP :: "entry list" where
  "CUDA_DEVICE_FUNCTION_MAP =
    [entry ''CUDART_INF_F'' ''ASCRT_INF_F'' CONV_NUMERIC_LITERAL API_RUNTIME 0,
     entry ''CUDART_INF'' ''ASCRT_INF_F'' CONV_NUMERIC_LITERAL API_RUNTIME UNSUPPORTED,
     entry ''CUDART_NAN_F'' ''ASCRT_NAN_F'' CONV_NUMERIC_LITERAL API_RUNTIME 0,
     entry ''CUDART_NAN'' ''ASCRT_INF_F'' CONV_NUMERIC_LITERAL API_RUNTIME UNSUPPORTED,
     entry ''CUDART_MAX_NORMAL_F'' ''__FLT_MAX__'' CONV_NUMERIC_LITERAL API_RUNTIME 0,
     entry ''CUDART_MIN_NORMAL_F'' ''__FLT_MIN__'' CONV_NUMERIC_LITERAL API_RUNTIME 0,
     entry ''CUDART_NEG_ZERO_F'' ''(-0.0f)'' CONV_NUMERIC_LITERAL API_RUNTIME 0,
     entry ''CUDART_ZERO_F'' ''(0.0f)'' CONV_NUMERIC_LITERAL API_RUNTIME 0,
     entry ''__shfl_down_sync'' ''ascify::shfl_down_sync'' CONV_DEVICE_FUNC API_RUNTIME 0,
     entry ''__shfl_up_sync'' ''ascify::shfl_up_sync'' CONV_DEVICE_FUNC API_RUNTIME 0,
     entry ''__shfl_xor_sync'' ''ascify::shfl_xor_sync'' CONV_DEVICE_FUNC API_RUNTIME 0,
     entry ''__shfl_sync'' ''ascify::shfl_sync'' CONV_DEVICE_FUNC API_RUNTIME 0,
     entry ''__ballot_sync'' ''ascify::ballot_sync'' CONV_DEVICE_FUNC API_RUNTIME 0,
     entry ''__any_sync'' ''ascify::any_sync'' CONV_DEVICE_FUNC API_RUNTIME 0,
     entry ''__all_sync'' ''ascify::all_sync'' CONV_DEVICE_FUNC API_RUNTIME 0,
     entry ''cooperative_groups'' ''ascify_cg'' CONV_DEVICE_FUNC API_RUNTIME 0,
     entry ''__syncthreads'' ''ascify::syncthreads'' CONV_DEVICE_FUNC API_RUNTIME 0,
     entry ''__syncthreads_and'' ''ascify::syncthreads_and'' CONV_DEVICE_FUNC API_RUNTIME 0,
     entry ''__syncthreads_or'' ''ascify::syncthreads_or'' CONV_DEVICE_FUNC API_RUNTIME 0,
     entry ''__syncthreads_count'' ''ascify::syncthreads_count'' CONV_DEVICE_FUNC API_RUNTIME 0,
     entry ''__syncwarp'' ''ascify::syncwarp'' CONV_DEVICE_FUNC API_RUNTIME 0,
     entry ''__threadfence_block'' ''ascify::threadfence_block'' CONV_DEVICE_FUNC API_RUNTIME 0,
     entry ''__threadfence'' ''ascify::threadfence'' CONV_DEVICE_FUNC API_RUNTIME 0,
     entry ''__threadfence_system'' ''ascify::threadfence_system'' CONV_DEVICE_FUNC API_RUNTIME 0,
     entry ''__expf'' ''expf'' CONV_DEVICE_FUNC API_RUNTIME 0,
     entry ''__logf'' ''logf'' CONV_DEVICE_FUNC API_RUNTIME 0,
     entry ''__log2f'' ''log2f'' CONV_DEVICE_FUNC API_RUNTIME 0,
     entry ''__log10f'' ''log10f'' CONV_DEVICE_FUNC API_RUNTIME 0,
     entry ''__fdividef'' ''ascify::fdividef'' CONV_DEVICE_FUNC API_RUNTIME 0,
     entry ''__fmul_rn'' ''__fmul_rn'' CONV_DEVICE_FUNC API_RUNTIME 0,
     entry ''__fmaf_rn'' ''__fmaf_rn'' CONV_DEVICE_FUNC API_RUNTIME 0,
     entry ''__fadd_rn'' ''__fadd_rn'' CONV_DEVICE_FUNC API_RUNTIME 0,
     entry ''__fsub_rn'' ''__fsub_rn'' CONV_DEVICE_FUNC API_RUNTIME 0,
     entry ''__frsqrt_rn'' ''rsqrtf'' CONV_DEVICE_FUNC API_RUNTIME 0,
     entry ''__fsqrt_rn'' ''sqrtf'' CONV_DEVICE_FUNC API_RUNTIME 0,
     entry ''__frcp_rn'' ''__frcp_rn'' CONV_DEVICE_FUNC API_RUNTIME 0,
     entry ''__float2half_rn'' ''__float2half_rn'' CONV_DEVICE_FUNC API_RUNTIME 0,
     entry ''__half2float'' ''__half2float'' CONV_DEVICE_FUNC API_RUNTIME 0,
     entry ''__float2half2_rn'' ''ascify::float2half2_rn'' CONV_DEVICE_FUNC API_RUNTIME 0,
     entry ''__half22float2'' ''ascify::half22float2'' CONV_DEVICE_FUNC API_RUNTIME 0,
     entry ''__hadd2'' ''__haddx2'' CONV_DEVICE_FUNC API_RUNTIME 0,
     entry ''__hmul2'' ''__hmulx2'' CONV_DEVICE_FUNC API_RUNTIME 0,
     entry ''__hfma2'' ''__hfmax2'' CONV_DEVICE_FUNC API_RUNTIME 0,
     entry ''__floats2half2_rn'' ''__floats2half2_rn'' CONV_DEVICE_FUNC API_RUNTIME 0,
     entry ''__low2float'' ''__low2float'' CONV_DEVICE_FUNC API_RUNTIME 0,
     entry ''__high2float'' ''__high2float'' CONV_DEVICE_FUNC API_RUNTIME 0,
     entry ''__int_as_float'' ''__int_as_float'' CONV_DEVICE_FUNC API_RUNTIME 0,
     entry ''__float_as_int'' ''__float_as_int'' CONV_DEVICE_FUNC API_RUNTIME 0,
     entry ''__longlong_as_double'' ''__longlong_as_double'' CONV_DEVICE_FUNC API_RUNTIME 0,
     entry ''__double_as_longlong'' ''__double_as_longlong'' CONV_DEVICE_FUNC API_RUNTIME 0,
     entry ''__trap'' ''__builtin_trap'' CONV_DEVICE_FUNC API_RUNTIME 0,
     entry ''exp'' ''expf'' CONV_DEVICE_FUNC API_RUNTIME 0,
     entry ''log'' ''logf'' CONV_DEVICE_FUNC API_RUNTIME 0,
     entry ''sqrt'' ''sqrtf'' CONV_DEVICE_FUNC API_RUNTIME 0,
     entry ''rsqrt'' ''rsqrtf'' CONV_DEVICE_FUNC API_RUNTIME 0,
     entry ''blockIdx'' ''blockIdx'' CONV_DEVICE_FUNC API_RUNTIME 0,
     entry ''threadIdx'' ''threadIdx'' CONV_DEVICE_FUNC API_RUNTIME 0,
     entry ''blockDim'' ''blockDim'' CONV_DEVICE_FUNC API_RUNTIME 0,
     entry ''gridDim'' ''gridDim'' CONV_DEVICE_FUNC API_RUNTIME 0,
     entry ''cub'' ''aclcub'' CONV_DEVICE_FUNC API_CUB 0,
     entry ''__global__'' ''ASCIFY_GLOBAL'' CONV_DEVICE_FUNC API_RUNTIME 0,
     entry ''__device__'' ''__aicore__'' CONV_DEVICE_FUNC API_RUNTIME 0,
     entry ''__forceinline__'' ''ASCIFY_FORCEINLINE'' CONV_DEVICE_FUNC API_RUNTIME 0,
     entry ''__shared__'' ''__ubuf__'' CONV_DEVICE_FUNC API_RUNTIME 0,
     entry ''__align__'' ''ASCIFY_ALIGN'' CONV_DEVICE_FUNC API_RUNTIME 0]"

(* Source: src/src/CUDA2DPP.cpp 26-43 CUDA_INCLUDE_MAP *)
definition CUDA_INCLUDE_MAP :: "entry list" where
  "CUDA_INCLUDE_MAP =
    [entry ''cuda_fp16.h'' ''ascify/half2_compat.hpp'' CONV_INCLUDE_CUDA_MAIN_H API_RUNTIME 0,
     entry ''cuda.h'' ''acl/acl.h'' CONV_INCLUDE_CUDA_MAIN_H API_DRIVER 0,
     entry ''cuda_runtime.h'' ''acl/acl.h'' CONV_INCLUDE_CUDA_MAIN_H API_RUNTIME 0,
     entry ''cuda_runtime_api.h'' ''acl/acl.h'' CONV_INCLUDE_CUDA_MAIN_H API_RUNTIME 0,
     entry ''cuda_profiler_api.h'' ''acl/acl_prof.h'' CONV_INCLUDE_CUDA_MAIN_H API_RUNTIME 0,
     entry ''cub/cub.cuh'' ''acl_cub/aclcub.hpp'' CONV_INCLUDE API_CUB 0,
     entry ''cuda_bf16.h'' ''simt_api/asc_bf16.h'' CONV_INCLUDE API_RUNTIME 0,
     entry ''cooperative_groups.h'' ''ascify/cooperative_groups_compat.hpp'' CONV_INCLUDE API_RUNTIME 0,
     entry ''cooperative_groups/reduce.h'' ''ascify/cooperative_groups_compat.hpp'' CONV_INCLUDE API_RUNTIME 0,
     entry ''math_constants.h'' ''simt_api/math_constants.h'' CONV_INCLUDE API_RUNTIME 0]"

text \<open>The union: the first entry of a name is the one that is kept.\<close>

(* Source: src/src/CUDA2DPP.cpp 45-57 CUDA_RENAMES_MAP *)
definition CUDA_RENAMES_MAP :: "entry list" where
  "CUDA_RENAMES_MAP = CUDA_RUNTIME_FUNCTION_MAP @ CUDA_RUNTIME_TYPE_NAME_MAP @ CUDA_DEVICE_TYPE_NAME_MAP
     @ CUDA_DEVICE_FUNCTION_MAP @ CUDA_DRIVER_TYPE_NAME_MAP @ CUDA_DRIVER_FUNCTION_MAP"

definition find_name :: "entry list \<Rightarrow> string \<Rightarrow> dppCounter option" where
  "find_name table = map_of table"

section \<open>Name sets\<close>

(* Source: src/src/CudaTextureBoundary.cpp 15-31 Names *)
definition texture_names :: "string list" where
  "texture_names =
    [''cudaMallocPitch'', ''cudaMallocArray'', ''cudaMalloc3DArray'', ''cudaFreeArray'',
     ''cudaMemcpy2D'', ''cudaMemset2D'', ''cudaMemcpyToArray'', ''cudaMemcpy2DToArray'',
     ''cudaMemcpy3D'', ''cudaCreateTextureObject'', ''cudaDestroyTextureObject'',
     ''cudaCreateChannelDesc'', ''make_cudaExtent'', ''make_cudaPos'', ''make_cudaPitchedPtr'',
     ''tex2D'', ''tex2DLayered'', ''texCubemap'', ''cudaArray'', ''cudaArray_t'',
     ''cudaArray_const_t'', ''cudaTextureObject_t'', ''cudaChannelFormatDesc'',
     ''cudaChannelFormatKind'', ''cudaResourceDesc'', ''cudaResourceType'', ''cudaTextureDesc'',
     ''cudaTextureAddressMode'', ''cudaTextureFilterMode'', ''cudaTextureReadMode'',
     ''cudaPitchedPtr'', ''cudaExtent'', ''cudaPos'', ''cudaMemcpy3DParms'', ''cudaArrayLayered'',
     ''cudaArrayCubemap'', ''cudaResourceViewDesc'', ''cudaChannelFormatKindSigned'',
     ''cudaChannelFormatKindUnsigned'', ''cudaChannelFormatKindFloat'',
     ''cudaChannelFormatKindNone'', ''cudaResourceTypeArray'', ''cudaResourceTypeMipmappedArray'',
     ''cudaResourceTypeLinear'', ''cudaResourceTypePitch2D'', ''cudaAddressModeWrap'',
     ''cudaAddressModeClamp'', ''cudaAddressModeMirror'', ''cudaAddressModeBorder'',
     ''cudaFilterModePoint'', ''cudaFilterModeLinear'', ''cudaReadModeElementType'',
     ''cudaReadModeNormalizedFloat'']"

(* Source: src/src/CudaTextureBoundary.cpp 79-82 IsCudaTextureName *)
definition IsCudaTextureName :: "string \<Rightarrow> bool" where
  "IsCudaTextureName name \<longleftrightarrow> list_ex (\<lambda>item. name = item) texture_names"

(* Source: src/src/AscifyAction.cpp 2308-2398 requiresCudaCompatHeader (names) *)
definition compat_header_names :: "string list" where
  "compat_header_names =
    [''__global__'', ''cudaMalloc'', ''cudaFree'', ''cudaMemcpy'', ''cudaMemcpyToSymbol'',
     ''cudaMemcpyFromSymbol'', ''cudaMemcpyAsync'', ''cudaMemset'', ''cudaMemsetAsync'',
     ''cudaMallocHost'', ''cudaProfilerStart'', ''cudaProfilerStop'', ''cudaLaunchHostFunc'',
     ''cudaHostFn_t'', ''cudaFreeHost'', ''cudaGetDevice'', ''cudaSetDevice'',
     ''cudaGetDeviceCount'', ''cudaDeviceCanAccessPeer'', ''cudaDeviceEnablePeerAccess'',
     ''cudaDeviceDisablePeerAccess'', ''cudaDeviceSynchronize'', ''cudaDeviceReset'',
     ''cudaGetLastError'', ''cudaGetErrorString'', ''cudaDeviceGetAttribute'', ''cudaDeviceProp'',
     ''cudaGetDeviceProperties'', ''cudaGetDeviceProperties_v2'', ''__any_sync'', ''__all_sync'',
     ''cudaStreamCreate'', ''cudaStreamCreateWithFlags'', ''cudaDeviceGetStreamPriorityRange'',
     ''cudaStreamCreateWithPriority'', ''cudaStreamDefault'', ''cudaStreamNonBlocking'',
     ''cudaStreamLegacy'', ''cudaStreamPerThread'', ''cudaStreamDestroy'',
     ''cudaStreamSynchronize'', ''cudaStreamQuery'', ''cudaStreamWaitEvent'',
     ''cudaEventWaitDefault'', ''cudaEventWaitExternal'', ''cudaEventCreate'',
     ''cudaEventDestroy'', ''cudaEventRecord'', ''cudaEventQuery'', ''cudaEventSynchronize'',
     ''cudaEventElapsedTime'', ''cudaDevAttrWarpSize'', ''cudaDevAttrMaxThreadsPerMultiProcessor'',
     ''cudaDevAttrMaxThreadsPerBlock'', ''cudaDevAttrMaxSharedMemoryPerBlock'',
     ''cudaDevAttrMaxSharedMemoryPerBlockOptin'', ''cudaPeekAtLastError'',
     ''cudaOccupancyMaxActiveBlocksPerMultiprocessor'', ''cudaOccupancyMaxPotentialBlockSize'',
     ''cudaErrorAssert'', ''__shfl_sync'', ''__shfl_up_sync'', ''__shfl_down_sync'',
     ''__shfl_xor_sync'', ''__syncthreads'', ''__syncthreads_and'', ''__syncthreads_or'',
     ''__syncthreads_count'', ''__syncwarp'', ''__threadfence'', ''__threadfence_block'',
     ''__threadfence_system'', ''__expf'', ''__logf'', ''__log2f'', ''__log10f'', ''__fdividef'',
     ''__frsqrt_rn'', ''__fsqrt_rn'', ''exp'', ''log'', ''sqrt'', ''rsqrt'', ''__forceinline__'',
     ''__align__'', ''nv_bfloat16'', ''nv_bfloat16_2'', ''cudaFuncAttributes'',
     ''cudaFuncAttribute'', ''cudaFuncAttributeMaxDynamicSharedMemorySize'',
     ''cudaFuncGetAttributes'', ''cudaFuncSetAttribute'']"

(* Source: src/src/AscifyAction.cpp 2307-2308 requiresCudaCompatHeader *)
definition requiresCudaCompatHeader :: "string \<Rightarrow> bool" where
  "requiresCudaCompatHeader name \<longleftrightarrow> IsCudaTextureName name \<or> name \<in> set compat_header_names"

(* Source: src/src/AscifyAction.cpp 901-926 admittedNames *)
definition admittedNames :: "string list" where
  "admittedNames =
    [''cudaMalloc'', ''cudaFree'', ''cudaMemcpy'', ''cudaMemcpyAsync'', ''cudaMallocPitch'',
     ''cudaMallocArray'', ''cudaMalloc3DArray'', ''cudaFreeArray'', ''cudaMemcpy2D'',
     ''cudaMemset2D'', ''cudaMemcpyToArray'', ''cudaMemcpy2DToArray'', ''cudaMemcpy3D'',
     ''cudaCreateTextureObject'', ''cudaDestroyTextureObject'', ''cudaMemset'',
     ''cudaMemsetAsync'', ''cudaMallocHost'', ''cudaProfilerStart'', ''cudaProfilerStop'',
     ''cudaLaunchHostFunc'', ''cudaFreeHost'', ''cudaGetDevice'', ''cudaSetDevice'',
     ''cudaGetDeviceCount'', ''cudaDeviceGetAttribute'', ''cudaDeviceCanAccessPeer'',
     ''cudaDeviceEnablePeerAccess'', ''cudaDeviceDisablePeerAccess'', ''cudaGetDeviceProperties'',
     ''cudaGetDeviceProperties_v2'', ''cudaMemcpyToSymbol'', ''cudaMemcpyFromSymbol'',
     ''cudaDeviceSynchronize'', ''cudaDeviceReset'', ''cudaFuncGetAttributes'',
     ''cudaFuncSetAttribute'', ''cudaStreamCreate'', ''cudaStreamCreateWithFlags'',
     ''cudaDeviceGetStreamPriorityRange'', ''cudaStreamCreateWithPriority'', ''cudaStreamDestroy'',
     ''cudaStreamSynchronize'', ''cudaStreamQuery'', ''cudaStreamWaitEvent'', ''cudaEventCreate'',
     ''cudaEventDestroy'', ''cudaEventRecord'', ''cudaEventSynchronize'', ''cudaEventElapsedTime'',
     ''cudaEventQuery'', ''cudaGetLastError'', ''cudaPeekAtLastError'',
     ''cudaOccupancyMaxActiveBlocksPerMultiprocessor'', ''cudaOccupancyMaxPotentialBlockSize'']"

end
