(* ===== verification/Rename_Pass.thy ===== *)
theory Rename_Pass
  imports Name_Maps Pragma_Policy Fs_Path
begin

text \<open>
  The token pass of \<open>src/AscifyAction.cpp\<close> that renames the CUDA identifiers of the main
  file.  Clang's raw lexer gives its tokens, with the white space, and the earlier AST analyses
  give the plans of the environment; the pass turns them into source replacements, counts and
  diagnostics.  All offsets are offsets into the main file.
\<close>

section \<open>Tokens and state\<close>

datatype token_kind = Unknown_Token | Comment_Token | Identifier_Token | String_Literal | Coloncolon | Other_Token

record token =
  kind :: token_kind
  offset :: nat
  written :: string

record replacement =
  r_offset :: nat
  r_length :: nat
  r_text :: string

datatype report =
    Conflicting nat string
  | Overlapping nat
  | Deprecated_Name nat string
  | Unsupported_Name nat string
  | Unbound_Occupancy nat
  | Unproved_Texture nat string
  | Unproved_SM_Table nat

(* Source: src/src/AscifyAction.h 110-116 NvidiaSampleInactiveBranch *)
record branch =
  b_begin :: nat
  b_end :: nat
  b_skipped :: bool
  b_needed :: bool

text \<open>What the pass reads: the options, and the plans of the analyses before it.  \<open>conflict\<close> is
  the answer of Clang's replacement set, an error message when it refuses one.\<close>

record rename_env =
  conflict :: "replacement list \<Rightarrow> replacement \<Rightarrow> string option"
  line_number :: "nat \<Rightarrow> 32 word"
  print_stats :: bool
  AscifyAMAP :: bool
  TargetPolicy :: string
  SimtMathMode :: string
  SkippedSourceRanges :: "(nat \<times> nat) list"
  policyQualifiers :: "nat \<Rightarrow> nat option"
  occupancyCallees :: "nat \<Rightarrow> string option"
  headerPolicies :: "nat \<Rightarrow> (string \<times> nat) option"
  headerDepth :: "nat option"
  preservedHostMathCalleeOffsets :: "nat list"
  cudaTextureLiteralOffsets :: "nat list"
  sharedQualifiers :: "nat list"
  helperIncludes :: bool
  compatHeaderBeforeHelper :: bool
  unreadable :: "nat \<Rightarrow> bool"
  preservedMaxTokens :: "nat list"
  normalMacroOffsets :: "nat list"
  findDeviceNormalOffsets :: "nat list"
  SMCoresNormalOffsets :: "nat list"

record rename_state =
  replacements :: "replacement list"
  statistics :: Statistics
  reports :: "report list"
  SemanticRewriteRanges :: "(nat \<times> nat) list"
  rawTokenWindow :: "token list"
  needsCudaCompatHeader :: bool
  needsCudaTextureHeader :: bool
  cudaRuntimeApiBoundaryFailed :: bool
  provenCalleeRanges :: "(nat \<times> nat) list"
  appliedPolicies :: "(string \<times> nat) list"
  helperUnsupportedMacroUse :: bool
  SMCoresUnsupportedUse :: bool
  inactiveBranches :: "branch list"

definition report :: "report \<Rightarrow> rename_state \<Rightarrow> rename_state" where
  "report d st = st\<lparr>reports := reports st @ [d]\<rparr>"

section \<open>Strings\<close>

(* Source: src/src/StringUtils.cpp 29-33 unquoteStr *)
definition unquoteStr :: "string \<Rightarrow> string" where
  "unquoteStr s =
     (if length s > 1 \<and> s ! 0 = CHR 0x22 \<and> s ! (length s - 1) = CHR 0x22
      then take (length s - 2) (drop 1 s) else s)"

text \<open>\<open>StringRef::find\<close> of two characters, \<open>find_first_of\<close> one, and \<open>slice\<close>; \<open>None\<close> is
  \<open>npos\<close>.\<close>

fun find_pair :: "char \<Rightarrow> char \<Rightarrow> string \<Rightarrow> nat option" where
  "find_pair a b (x # y # s) = (if x = a \<and> y = b then Some 0 else map_option Suc (find_pair a b (y # s)))"
| "find_pair a b s = None"

fun find_char :: "char \<Rightarrow> string \<Rightarrow> nat option" where
  "find_char a [] = None"
| "find_char a (x # s) = (if x = a then Some 0 else map_option Suc (find_char a s))"

definition find_from :: "(string \<Rightarrow> nat option) \<Rightarrow> string \<Rightarrow> nat \<Rightarrow> nat option" where
  "find_from f s i = map_option ((+) i) (f (drop i s))"

definition slice :: "string \<Rightarrow> nat \<Rightarrow> nat option \<Rightarrow> string" where
  "slice s b e = (case e of None \<Rightarrow> drop b s | Some e \<Rightarrow> take (e - b) (drop b s))"

lemma find_pair_bound: "find_pair a b s = Some i \<Longrightarrow> i + 2 \<le> length s"
  by (induction a b s arbitrary: i rule: find_pair.induct) (auto split: if_splits)

lemma find_char_bound: "find_char a s = Some i \<Longrightarrow> i < length s"
  by (induction s arbitrary: i) (auto split: if_splits)

lemma find_from_pair: "find_from (find_pair a b) s i = Some j \<Longrightarrow> i \<le> j \<and> j + 2 \<le> length s"
  by (auto simp: find_from_def dest: find_pair_bound)

lemma find_from_char: "find_from (find_char a) s i = Some j \<Longrightarrow> i \<le> j \<and> j < length s"
  by (auto simp: find_from_def dest: find_char_bound)

section \<open>Adding a replacement\<close>

(* Source: src/src/AscifyAction.cpp 9938-9955 insertReplacement *)
definition insertReplacement :: "rename_env \<Rightarrow> replacement \<Rightarrow> rename_state \<Rightarrow> bool \<times> rename_state" where
  "insertReplacement env rep st =
     (case conflict env (replacements st) rep of
        Some message \<Rightarrow> (False, report (Conflicting (r_offset rep) message) st)
      | None \<Rightarrow>
          let st = st\<lparr>replacements := replacements st @ [rep]\<rparr> in
          (True,
           if print_stats env
           then st\<lparr>statistics := bytesChanged (of_nat (r_length rep))
                  (lineTouched (line_number env (r_offset rep)) (statistics st))\<rparr>
           else st))"

(* Source: src/src/AscifyAction.cpp 9957-9990 insertSemanticReplacement *)
definition insertSemanticReplacement ::
    "rename_env \<Rightarrow> replacement \<Rightarrow> nat \<Rightarrow> nat \<Rightarrow> rename_state \<Rightarrow> bool \<times> rename_state" where
  "insertSemanticReplacement env rep b e st =
     (if e \<le> b then (False, st)
      else if list_ex (\<lambda>(b', e'). b < e' \<and> b' < e) (SemanticRewriteRanges st)
      then (False, report (Overlapping (r_offset rep)) st)
      else let (ok, st) = insertReplacement env rep st in
        if \<not> ok then (False, st)
        else (True, st\<lparr>SemanticRewriteRanges := SemanticRewriteRanges st @ [(b, e)]\<rparr>))"

(* Source: src/src/AscifyAction.cpp 4461-4477 isInSemanticRewriteRange *)
definition isInSemanticRewriteRange :: "rename_state \<Rightarrow> nat \<Rightarrow> bool" where
  "isInSemanticRewriteRange st pos \<longleftrightarrow> list_ex (\<lambda>(b, e). pos \<ge> b \<and> pos < e) (SemanticRewriteRanges st)"

section \<open>String literals\<close>

text \<open>One step of the loop: the name found at \<open>b\<close> of the literal that starts at \<open>start\<close>.\<close>

(* Source: src/src/AscifyAction.cpp 1469-1481 RewriteString (body) *)
definition rewrite_literal_name :: "rename_env \<Rightarrow> nat \<Rightarrow> nat \<Rightarrow> string \<Rightarrow> rename_state \<Rightarrow> rename_state" where
  "rewrite_literal_name env start b name st =
     (case find_name CUDA_RENAMES_MAP name of
        None \<Rightarrow> st
      | Some found \<Rightarrow>
          let counter = \<lparr>dppName = ''[string literal]'', convType = CONV_LITERAL, apiType = API_RUNTIME,
                apiSection = supportDegree found, supportDegree = FULL\<rparr>;
              st = st\<lparr>statistics := incrementCounter counter name (statistics st)\<rparr>
          in if \<not> isUnsupported counter
             then snd (insertReplacement env
               \<lparr>r_offset = start + (b + 1), r_length = length name, r_text = dppName found\<rparr> st)
             else st)"

(* Source: src/src/AscifyAction.cpp 1463-1485 RewriteString *)
function RewriteString :: "rename_env \<Rightarrow> string \<Rightarrow> nat \<Rightarrow> nat \<Rightarrow> rename_state \<Rightarrow> rename_state" where
  "RewriteString env s start begin st =
     (case find_from (find_pair (CHR ''c'') (CHR ''u'')) s begin of
        None \<Rightarrow> st
      | Some b \<Rightarrow>
          let end = find_from (find_char (CHR '' '')) s (b + 4);
              st = rewrite_literal_name env start b (slice s b end) st
          in case end of None \<Rightarrow> st | Some e \<Rightarrow> RewriteString env s start (e + 1) st)"
  by pat_completeness auto
termination
  by (relation "measure (\<lambda>(env, s, start, begin, st). length s - begin)")
    (auto dest!: find_from_pair find_from_char[OF sym])

section \<open>Identifiers\<close>

(* Source: src/src/AscifyAction.cpp 1529-1534 FindAndReplace (fast texture target) *)
definition fast_texture_target :: "string \<Rightarrow> string \<Rightarrow> string" where
  "fast_texture_target name repName =
     (if name = ''tex2D'' \<and> repName = ''ascify::tex2D'' then ''ascify::tex2DFast''
      else if name = ''tex2DLayered'' \<and> repName = ''ascify::tex2DLayered'' then ''ascify::tex2DLayeredFast''
      else if name = ''texCubemap'' \<and> repName = ''ascify::texCubemap'' then ''ascify::texCubemapFast''
      else repName)"

(* Source: src/src/AscifyAction.cpp 1492-1541 FindAndReplace *)
definition FindAndReplace :: "rename_env \<Rightarrow> string \<Rightarrow> nat \<Rightarrow> entry list \<Rightarrow> bool \<Rightarrow> rename_state \<Rightarrow> rename_state" where
  "FindAndReplace env name pos repMap bReplace st =
     (case find_name repMap name of
        None \<Rightarrow> st
      | Some found \<Rightarrow>
          let st = st\<lparr>statistics := incrementCounter found name (statistics st)\<rparr>;
              st = (if isCudaDeprecated found then report (Deprecated_Name pos name) st else st)
          in if isUnsupported found then report (Unsupported_Name pos name) st
          else if \<not> bReplace then st
          else
            let repName = dppName found;
                repName = (if name = ''__shared__'' \<and> pos \<in> set (sharedQualifiers env)
                  then ''__ubuf__ ASCIFY_ALIGN(4)'' else repName);
                repName = (if TargetPolicy env = ''dav-c310-vec'' \<and> SimtMathMode env = ''fast''
                  then fast_texture_target name repName
                  else repName)
            in snd (insertReplacement env \<lparr>r_offset = pos, r_length = length name, r_text = repName\<rparr> st))"

text \<open>The token before the last of the window that is not white space.\<close>

(* Source: src/src/AscifyAction.cpp 1572-1582 previousSignificantToken *)
definition previousSignificantToken :: "token list \<Rightarrow> token option" where
  "previousSignificantToken tokens =
     (if length tokens < 2 then None
      else find (\<lambda>t. kind t \<noteq> Unknown_Token) (rev (butlast tokens)))"

(* Source: src/src/AscifyAction.cpp 1584-1586 isUnqualifiedFloatMathName *)
definition isUnqualifiedFloatMathName :: "string \<Rightarrow> bool" where
  "isUnqualifiedFloatMathName name \<longleftrightarrow>
     name = ''exp'' \<or> name = ''log'' \<or> name = ''sqrt'' \<or> name = ''rsqrt''"

section \<open>The helper audit\<close>

text \<open>The first skipped branch around the token becomes needed; \<open>None\<close> when there is none.\<close>

(* Source: src/src/AscifyAction.cpp 12972-12978 auditRawNvidiaSampleHelperToken (branches) *)
fun need_branch :: "nat \<Rightarrow> branch list \<Rightarrow> branch list option" where
  "need_branch pos [] = None"
| "need_branch pos (b # bs) =
     (if b_skipped b \<and> pos \<ge> b_begin b \<and> pos < b_end b then Some (b\<lparr>b_needed := True\<rparr> # bs)
      else map_option ((#) b) (need_branch pos bs))"

(* Source: src/src/AscifyAction.cpp 12936-12994 auditRawNvidiaSampleHelperToken *)
definition auditRawNvidiaSampleHelperToken :: "rename_env \<Rightarrow> token \<Rightarrow> rename_state \<Rightarrow> rename_state" where
  "auditRawNvidiaSampleHelperToken env t st =
     (if \<not> helperIncludes env \<or> kind t \<noteq> Identifier_Token then st
      else if unreadable env (offset t) then st\<lparr>helperUnsupportedMacroUse := True\<rparr>
      else
        let name = written t; pos = offset t;
            published = (\<not> compatHeaderBeforeHelper env \<and> isAscifyCudaCompatPublishedMacro name)
        in if \<not> isNvidiaSampleHelperObservableMacro name \<and> name \<noteq> ''findCudaDevice''
             \<and> name \<noteq> ''_ConvertSMVer2Cores'' \<and> \<not> published then st
        else if name = ''MAX'' \<and> pos \<in> set (preservedMaxTokens env) then st
        else if pos \<in> set (normalMacroOffsets env) \<or> pos \<in> set (findDeviceNormalOffsets env)
             \<or> pos \<in> set (SMCoresNormalOffsets env) then st
        else case (if published then None else need_branch pos (inactiveBranches st)) of
          Some branches \<Rightarrow> st\<lparr>inactiveBranches := branches\<rparr>
        | None \<Rightarrow>
            let st = (if name = ''_ConvertSMVer2Cores'' \<and> \<not> SMCoresUnsupportedUse st
              then (report (Unproved_SM_Table pos) st)
                \<lparr>SMCoresUnsupportedUse := True, cudaRuntimeApiBoundaryFailed := True\<rparr>
              else st)
            in st\<lparr>helperUnsupportedMacroUse := True\<rparr>)"

section \<open>The pass\<close>

text \<open>What the proven launch bounds make of a token: nothing, a new text, or a refusal.\<close>

datatype bound_plan = No_Plan | Plan string | Refused

(* Source: src/src/AscifyAction.cpp 5217-5231 RewriteToken (bound plan) *)
definition bound_plan :: "rename_env \<Rightarrow> string \<Rightarrow> nat \<Rightarrow> bound_plan" where
  "bound_plan env name pos =
     (if name = ''__global__'' \<and> policyQualifiers env pos \<noteq> None
      then Plan (''ASCIFY_GLOBAL __launch_bounds__('' @ digits (the (policyQualifiers env pos)) @ '')'')
      else if name = ''cudaOccupancyMaxActiveBlocksPerMultiprocessor'' \<or> name = ''cudaOccupancyMaxPotentialBlockSize''
      then (case occupancyCallees env pos of
              None \<Rightarrow> Refused
            | Some target \<Rightarrow> if target \<noteq> [] then Plan target else No_Plan)
      else No_Plan)"

(* Source: src/src/AscifyAction.cpp 5231-5260 RewriteToken (bound edit) *)
definition apply_bound_plan :: "rename_env \<Rightarrow> string \<Rightarrow> nat \<Rightarrow> string \<Rightarrow> rename_state \<Rightarrow> rename_state" where
  "apply_bound_plan env name pos target st =
     (let st = (case find_name CUDA_RENAMES_MAP name of
            None \<Rightarrow> st
          | Some mapped \<Rightarrow> st\<lparr>statistics := incrementCounter mapped name (statistics st)\<rparr>);
          e = pos + length name;
          (ok, st) = insertSemanticReplacement env
            \<lparr>r_offset = pos, r_length = length name, r_text = target\<rparr> pos e st;
          st = (if \<not> ok then st\<lparr>cudaRuntimeApiBoundaryFailed := True\<rparr>
            else
              let st = (if occupancyCallees env pos \<noteq> None
                then st\<lparr>provenCalleeRanges := provenCalleeRanges st @ [(pos, e)]\<rparr> else st)
              in case headerPolicies env pos of
                None \<Rightarrow> st
              | Some proof_key \<Rightarrow>
                  if headerDepth env \<noteq> Some 1 then st\<lparr>cudaRuntimeApiBoundaryFailed := True\<rparr>
                  else if proof_key \<in> set (appliedPolicies st) then st\<lparr>cudaRuntimeApiBoundaryFailed := True\<rparr>
                  else st\<lparr>appliedPolicies := appliedPolicies st @ [proof_key]\<rparr>)
      in st\<lparr>needsCudaCompatHeader := True\<rparr>)"

text \<open>The part of \<open>RewriteToken\<close> that handles an identifier without a bound plan.\<close>

(* Source: src/src/AscifyAction.cpp 5262-5293 RewriteToken (identifier) *)
definition rewrite_identifier :: "rename_env \<Rightarrow> string \<Rightarrow> nat \<Rightarrow> rename_state \<Rightarrow> rename_state" where
  "rewrite_identifier env name pos st =
     (if isUnqualifiedFloatMathName name
         \<and> ((case previousSignificantToken (rawTokenWindow st) of
               None \<Rightarrow> False | Some previous \<Rightarrow> kind previous = Coloncolon)
            \<or> pos \<in> set (preservedHostMathCalleeOffsets env))
      then st
      else if IsCudaTextureName name \<and> pos \<notin> set (cudaTextureLiteralOffsets env)
      then (report (Unproved_Texture pos name) st)\<lparr>cudaRuntimeApiBoundaryFailed := True\<rparr>
      else
        let st = (if IsCudaTextureName name then st\<lparr>needsCudaTextureHeader := True\<rparr> else st);
            st = (if requiresCudaCompatHeader name then st\<lparr>needsCudaCompatHeader := True\<rparr> else st)
        in FindAndReplace env name pos CUDA_RENAMES_MAP True st)"

(* Source: src/src/AscifyAction.cpp 5186-5293 RewriteToken *)
definition RewriteToken :: "rename_env \<Rightarrow> token \<Rightarrow> rename_state \<Rightarrow> rename_state" where
  "RewriteToken env t st =
     (let st = auditRawNvidiaSampleHelperToken env t st; pos = offset t in
      if isInSemanticRewriteRange st pos then st
      else if \<not> AscifyAMAP env \<and> list_ex (\<lambda>(b, e). b \<le> pos \<and> pos \<le> e) (SkippedSourceRanges env) then st
      else if kind t = String_Literal then RewriteString env (unquoteStr (written t)) pos 0 st
      else if kind t \<noteq> Identifier_Token then st
      else case bound_plan env (written t) pos of
        Plan target \<Rightarrow> apply_bound_plan env (written t) pos target st
      | Refused \<Rightarrow> (report (Unbound_Occupancy pos) st)\<lparr>cudaRuntimeApiBoundaryFailed := True\<rparr>
      | No_Plan \<Rightarrow> rewrite_identifier env (written t) pos st)"

(* Source: src/src/AscifyAction.h 434-435 kRawTokenWindowCap *)
definition kRawTokenWindowCap :: nat where
  "kRawTokenWindowCap = 128"

(* Source: src/src/AscifyAction.cpp 16273-16275 raw token window *)
definition slide :: "token \<Rightarrow> token list \<Rightarrow> token list" where
  "slide t window = drop (length window + 1 - kRawTokenWindowCap) window @ [t]"

(* Source: src/src/AscifyAction.cpp 16269-16279 raw token loop *)
definition raw_pass :: "rename_env \<Rightarrow> token list \<Rightarrow> rename_state \<Rightarrow> rename_state" where
  "raw_pass env tokens st =
     foldl (\<lambda>st t. RewriteToken env t (st\<lparr>rawTokenWindow := slide t (rawTokenWindow st)\<rparr>))
       (st\<lparr>rawTokenWindow := []\<rparr>) tokens"

end
