(* ===== verification/Rename_Properties.thy ===== *)
theory Rename_Properties
  imports Rename_Pass
begin

text \<open>
  The replacements of the token pass, applied to the text they were made for, give the same
  text as a translation of the tokens one by one.
\<close>

section \<open>Edited text\<close>

text \<open>The text that starts at \<open>pos\<close> after the replacements of a list in the order of their
  offsets.\<close>

fun splice :: "nat \<Rightarrow> string \<Rightarrow> replacement list \<Rightarrow> string" where
  "splice pos txt [] = txt"
| "splice pos txt (r # rs) =
     take (r_offset r - pos) txt @ r_text r
     @ splice (r_offset r + r_length r) (drop (r_offset r + r_length r - pos) txt) rs"

text \<open>The replacements of a piece of text, and what they make of it.\<close>

inductive renders :: "nat \<Rightarrow> string \<Rightarrow> replacement list \<Rightarrow> string \<Rightarrow> bool" where
  renders_keep: "renders pos txt [] txt"
| renders_edit: "txt \<noteq> [] \<Longrightarrow> renders pos txt [\<lparr>r_offset = pos, r_length = length txt, r_text = new\<rparr>] new"
| renders_append: "renders pos t1 rs1 o1 \<Longrightarrow> renders (pos + length t1) t2 rs2 o2
    \<Longrightarrow> renders pos (t1 @ t2) (rs1 @ rs2) (o1 @ o2)"

definition within :: "nat \<Rightarrow> nat \<Rightarrow> replacement \<Rightarrow> bool" where
  "within b e r \<longleftrightarrow> b \<le> r_offset r \<and> 0 < r_length r \<and> r_offset r + r_length r \<le> e"

lemma renders_within: "renders pos txt rs out \<Longrightarrow> \<forall>r \<in> set rs. within pos (pos + length txt) r"
  by (induction rule: renders.induct) (auto simp: within_def)

lemma splice_keep: "\<forall>r \<in> set rs. pos + length t1 \<le> r_offset r \<Longrightarrow> splice pos (t1 @ t2) rs = t1 @ splice (pos + length t1) t2 rs"
  by (cases rs) auto

lemma splice_append:
  assumes "\<forall>r \<in> set rs1. within pos (pos + length t1) r" and "\<forall>r \<in> set rs2. within (pos + length t1) e r"
  shows "splice pos (t1 @ t2) (rs1 @ rs2) = splice pos t1 rs1 @ splice (pos + length t1) t2 rs2
    \<or> \<not> sorted_wrt (\<lambda>r q. r_offset r + r_length r \<le> r_offset q) rs1"
  using assms
proof (induction rs1 arbitrary: pos t1)
  case Nil
  then show ?case
    using splice_keep[of rs2 pos t1 t2] by (auto simp: within_def)
next
  case (Cons r rs1)
  let ?k = "r_offset r + r_length r"
  have r: "pos \<le> r_offset r" "?k \<le> pos + length t1"
    using Cons.prems(1) by (auto simp: within_def)
  then have len: "?k + length (drop (?k - pos) t1) = pos + length t1"
    by simp
  show ?case
  proof (cases "sorted_wrt (\<lambda>r q. r_offset r + r_length r \<le> r_offset q) (r # rs1)")
    case True
    then have "\<forall>q \<in> set rs1. within ?k (?k + length (drop (?k - pos) t1)) q"
      unfolding len using Cons.prems(1) by (auto simp: within_def)
    then have "splice ?k (drop (?k - pos) t1 @ t2) (rs1 @ rs2)
        = splice ?k (drop (?k - pos) t1) rs1 @ splice (pos + length t1) t2 rs2"
      using Cons.IH[of ?k "drop (?k - pos) t1"] Cons.prems(2) True unfolding len by auto
    moreover have "drop (?k - pos) (t1 @ t2) = drop (?k - pos) t1 @ t2"
        "take (r_offset r - pos) (t1 @ t2) = take (r_offset r - pos) t1"
      using r by auto
    ultimately show ?thesis
      by simp
  qed simp
qed

lemma renders_sorted: "renders pos txt rs out \<Longrightarrow> sorted_wrt (\<lambda>r q. r_offset r + r_length r \<le> r_offset q) rs"
proof (induction rule: renders.induct)
  case (renders_append pos t1 rs1 o1 t2 rs2 o2)
  then show ?case
    using renders_within[OF renders_append(1)] renders_within[OF renders_append(2)]
    by (fastforce simp: sorted_wrt_append within_def)
qed simp_all

lemma renders_splice: "renders pos txt rs out \<Longrightarrow> splice pos txt rs = out"
proof (induction rule: renders.induct)
  case (renders_append pos t1 rs1 o1 t2 rs2 o2)
  then show ?case
    using splice_append[OF renders_within[OF renders_append(1)] renders_within[OF renders_append(2)], of t2]
      renders_sorted[OF renders_append(1)] by simp
qed simp_all

section \<open>The reference translation\<close>

text \<open>A literal is translated word by word: a word starts at the next \<open>cu\<close>, has at least four
  characters and ends before a space.\<close>

definition literal_word :: "string \<Rightarrow> string" where
  "literal_word name = (case find_name CUDA_RENAMES_MAP name of None \<Rightarrow> name | Some found \<Rightarrow> dppName found)"

function literal_text :: "string \<Rightarrow> string" where
  "literal_text s =
     (case find_pair (CHR ''c'') (CHR ''u'') s of
        None \<Rightarrow> s
      | Some b \<Rightarrow>
          let rest = drop b s in
          case find_char (CHR '' '') (drop 4 rest) of
            None \<Rightarrow> take b s @ literal_word rest
          | Some n \<Rightarrow> take b s @ literal_word (take (n + 4) rest) @ '' '' @ literal_text (drop (n + 5) rest))"
  by pat_completeness auto
termination
  by (relation "measure length") (auto dest!: find_pair_bound find_char_bound)

declare literal_text.simps [simp del] RewriteString.simps [simp del]

text \<open>The text of a name by the table, with the two specialised targets.\<close>

definition mapped_text :: "rename_env \<Rightarrow> string \<Rightarrow> nat \<Rightarrow> string" where
  "mapped_text env name pos =
     (case find_name CUDA_RENAMES_MAP name of
        None \<Rightarrow> name
      | Some found \<Rightarrow>
          if isUnsupported found then name
          else if name = ''__shared__'' \<and> pos \<in> set (sharedQualifiers env) then ''__ubuf__ ASCIFY_ALIGN(4)''
          else if TargetPolicy env = ''dav-c310-vec'' \<and> SimtMathMode env = ''fast''
            \<and> name \<in> {''tex2D'', ''tex2DLayered'', ''texCubemap''} \<and> dppName found = ''ascify::'' @ name
          then dppName found @ ''Fast''
          else dppName found)"

text \<open>An identifier: a bound plan gives its text; otherwise it is looked up, except a qualified or
  preserved math function and a texture name without a proof.\<close>

definition identifier_text :: "rename_env \<Rightarrow> token list \<Rightarrow> string \<Rightarrow> nat \<Rightarrow> string" where
  "identifier_text env window name pos =
     (case bound_plan env name pos of
        Plan target \<Rightarrow> target
      | Refused \<Rightarrow> name
      | No_Plan \<Rightarrow>
          if isUnqualifiedFloatMathName name
            \<and> (map_option kind (previousSignificantToken window) = Some Coloncolon
               \<or> pos \<in> set (preservedHostMathCalleeOffsets env)) then name
          else if IsCudaTextureName name \<and> pos \<notin> set (cudaTextureLiteralOffsets env) then name
          else mapped_text env name pos)"

definition token_text :: "rename_env \<Rightarrow> token list \<Rightarrow> token \<Rightarrow> string" where
  "token_text env window t =
     (if \<not> AscifyAMAP env \<and> list_ex (\<lambda>(b, e). b \<le> offset t \<and> offset t \<le> e) (SkippedSourceRanges env)
      then written t
      else case kind t of
        String_Literal \<Rightarrow> [CHR 0x22] @ literal_text (unquoteStr (written t)) @ [CHR 0x22]
      | Identifier_Token \<Rightarrow> identifier_text env window (written t) (offset t)
      | _ \<Rightarrow> written t)"

fun translation :: "rename_env \<Rightarrow> token list \<Rightarrow> token list \<Rightarrow> string" where
  "translation env window [] = []"
| "translation env window (t # ts) =
     token_text env (slide t window) t @ translation env (slide t window) ts"

section \<open>Literals\<close>

text \<open>What Clang's replacement set promises: it takes a replacement behind all the others.\<close>

definition documented_conflicts :: "(replacement list \<Rightarrow> replacement \<Rightarrow> string option) \<Rightarrow> bool" where
  "documented_conflicts refuses \<longleftrightarrow>
     (\<forall>rs r. 0 < r_length r \<longrightarrow> (\<forall>q \<in> set rs. 0 < r_length q \<and> r_offset q + r_length q \<le> r_offset r) \<longrightarrow> refuses rs r = None)"

text \<open>Everything before \<open>pos\<close> is settled.\<close>

definition settled :: "nat \<Rightarrow> rename_state \<Rightarrow> bool" where
  "settled pos st \<longleftrightarrow> (\<forall>q \<in> set (replacements st). within 0 pos q) \<and> (\<forall>(b, e) \<in> set (SemanticRewriteRanges st). e \<le> pos)"

definition step_renders :: "nat \<Rightarrow> string \<Rightarrow> string \<Rightarrow> rename_state \<Rightarrow> rename_state \<Rightarrow> bool" where
  "step_renders pos txt out st st' \<longleftrightarrow>
     (\<exists>rs. replacements st' = replacements st @ rs \<and> renders pos txt rs out)
     \<and> rawTokenWindow st' = rawTokenWindow st
     \<and> (\<forall>(b, e) \<in> set (SemanticRewriteRanges st'). e \<le> pos + length txt)"

lemma insert_ok:
  assumes "documented_conflicts (conflict env)" and "\<forall>q \<in> set (replacements st). within 0 (r_offset rep) q"
    and "0 < r_length rep"
  shows "\<exists>st'. insertReplacement env rep st = (True, st') \<and> replacements st' = replacements st @ [rep]
    \<and> rawTokenWindow st' = rawTokenWindow st \<and> SemanticRewriteRanges st' = SemanticRewriteRanges st"
proof -
  have "conflict env (replacements st) rep = None"
    using assms by (auto simp: documented_conflicts_def within_def)
  then show ?thesis
    by (simp add: insertReplacement_def Let_def)
qed

lemma find_char_at: "find_char a s = Some i \<Longrightarrow> s ! i = a"
  by (induction s arbitrary: i) (auto split: if_splits)

lemma full_supported: "\<not> isUnsupported (c\<lparr>supportDegree := FULL\<rparr>)"
  by (simp add: isUnsupported_def isTargetUnsupported_def FULL_def UNSUPPORTED_def TARGET_UNSUPPORTED_def)

lemma literal_name_renders:
  assumes "documented_conflicts (conflict env)" and "name \<noteq> []"
    and "\<forall>q \<in> set (replacements st). within 0 (start + (b + 1)) q"
    and "st' = rewrite_literal_name env start b name st"
  shows "(\<exists>rs. replacements st' = replacements st @ rs \<and> renders (start + (b + 1)) name rs (literal_word name))
    \<and> rawTokenWindow st' = rawTokenWindow st \<and> SemanticRewriteRanges st' = SemanticRewriteRanges st"
proof (cases "find_name CUDA_RENAMES_MAP name")
  case None
  then show ?thesis
    using assms(4) renders_keep by (auto simp: rewrite_literal_name_def literal_word_def)
next
  case (Some found)
  define counter where "counter = \<lparr>dppName = ''[string literal]'', convType = CONV_LITERAL, apiType = API_RUNTIME,
    apiSection = supportDegree found, supportDegree = FULL\<rparr>"
  define st1 where "st1 = st\<lparr>statistics := incrementCounter counter name (statistics st)\<rparr>"
  let ?r = "\<lparr>r_offset = start + (b + 1), r_length = length name, r_text = dppName found\<rparr>"
  have "st' = snd (insertReplacement env ?r st1)"
    using full_supported[of counter] by (simp add: assms(4) rewrite_literal_name_def Some Let_def st1_def counter_def)
  then show ?thesis
    using insert_ok[OF assms(1), of st1 ?r] assms(2,3) renders_edit[OF assms(2)]
    by (auto simp: st1_def literal_word_def Some)
qed

lemma literal_text_found:
  assumes "find_pair (CHR ''c'') (CHR ''u'') s = Some b"
  shows "literal_text s =
    (case find_char (CHR '' '') (drop 4 (drop b s)) of
       None \<Rightarrow> take b s @ literal_word (drop b s)
     | Some n \<Rightarrow> take b s @ literal_word (take (n + 4) (drop b s)) @ '' '' @ literal_text (drop (n + 5) (drop b s)))"
  by (subst literal_text.simps) (simp only: assms option.case Let_def)

lemma literal_renders:
  assumes "documented_conflicts (conflict env)" and "i \<le> length s"
    and "\<forall>q \<in> set (replacements st). within 0 (start + (i + 1)) q"
    and "st' = RewriteString env s start i st"
  shows "(\<exists>rs. replacements st' = replacements st @ rs
      \<and> renders (start + (i + 1)) (drop i s) rs (literal_text (drop i s)))
    \<and> rawTokenWindow st' = rawTokenWindow st \<and> SemanticRewriteRanges st' = SemanticRewriteRanges st"
  using assms
proof (induction env s start i st rule: RewriteString.induct)
  case (1 env s start i st)
  show ?case
  proof (cases "find_pair (CHR ''c'') (CHR ''u'') (drop i s)")
    case None
    then have "st' = st"
      using 1(5) by (simp add: find_from_def RewriteString.simps)
    moreover have "literal_text (drop i s) = drop i s"
      using None by (simp add: literal_text.simps)
    ultimately show ?thesis
      using renders_keep by auto
  next
    case (Some k)
    note found_k = Some
    define b where "b = i + k"
    define pre where "pre = take k (drop i s)"
    define rest where "rest = drop b s"
    have k: "i + k + 2 \<le> length s"
      using find_pair_bound[OF Some] 1(3) by simp
    have rest_k: "rest = drop k (drop i s)"
      by (simp add: rest_def b_def add.commute)
    have tsplit: "drop i s = pre @ rest" "length pre = k" "rest = drop k (drop i s)"
      using k by (simp_all only: rest_k pre_def append_take_drop_id) simp
    have found: "find_from (find_pair (CHR ''c'') (CHR ''u'')) s i = Some b"
      by (simp add: find_from_def Some b_def)
    define e where "e = find_from (find_char (CHR '' '')) s (b + 4)"
    define name where "name = slice s b e"
    define st1 where "st1 = rewrite_literal_name env start b name st"
    have before: "\<forall>q \<in> set (replacements st). within 0 (start + (b + 1)) q"
      using 1(4) by (fastforce simp: within_def b_def)
    have rest: "2 \<le> length rest"
      using k by (simp add: rest_def b_def)
    have st': "st' = (case e of None \<Rightarrow> st1 | Some e \<Rightarrow> RewriteString env s start (e + 1) st1)"
      unfolding 1(5) by (subst RewriteString.simps) (simp only: found option.case Let_def e_def[symmetric] name_def[symmetric] st1_def[symmetric])
    have at_b: "start + (i + 1) + length pre = start + (b + 1)"
      by (simp add: tsplit(2) b_def)
    have rest4: "drop (b + 4) s = drop 4 rest"
      by (simp add: rest_def add.commute)
    show ?thesis
    proof (cases "find_char (CHR '' '') (drop 4 rest)")
      case None
      then have e: "e = None"
        by (simp add: e_def find_from_def rest4)
      then have "name = rest" "name \<noteq> []"
        using rest by (auto simp: name_def slice_def rest_def)
      then obtain rs where rs: "replacements st1 = replacements st @ rs"
          "renders (start + (b + 1)) rest rs (literal_word rest)"
          "rawTokenWindow st1 = rawTokenWindow st" "SemanticRewriteRanges st1 = SemanticRewriteRanges st"
        using literal_name_renders[OF 1(2) _ before st1_def] by auto
      have "renders (start + (i + 1)) (pre @ rest) ([] @ rs) (pre @ literal_word rest)"
        by (rule renders_append[OF renders_keep]) (use rs(2) in \<open>simp only: at_b\<close>)
      moreover have "literal_text (drop i s) = pre @ literal_word rest"
        by (simp only: literal_text_found[OF Some, folded pre_def rest_k] None option.case)
      ultimately show ?thesis
        using rs st' e by (auto simp: tsplit(1))
    next
      case (Some n)
      then have e: "e = Some (b + 4 + n)"
        by (simp add: e_def find_from_def rest4 del: drop_drop)
      have n: "n + 4 < length rest" "rest ! (n + 4) = CHR '' ''"
        using find_char_bound[OF Some] find_char_at[OF Some] by (auto simp: nth_drop add.commute)
      define word where "word = take (n + 4) rest"
      define more where "more = drop (n + 5) rest"
      have rest_split: "rest = word @ '' '' @ more"
        using n id_take_nth_drop[of "n + 4" rest] by (simp add: word_def more_def add.commute)
      have word: "word \<noteq> []" "length word = n + 4"
        using n by (auto simp: word_def)
      have "name = word"
        by (simp add: name_def slice_def e word_def rest_def add.commute)
      then obtain rs where rs: "replacements st1 = replacements st @ rs"
          "renders (start + (b + 1)) word rs (literal_word word)"
          "rawTokenWindow st1 = rawTokenWindow st" "SemanticRewriteRanges st1 = SemanticRewriteRanges st"
        using literal_name_renders[OF 1(2) _ before st1_def] word by auto
      have more: "more = drop (b + 4 + n + 1) s" "b + 4 + n + 1 \<le> length s"
        using n k by (simp_all add: more_def rest_def ac_simps)
      have behind: "\<forall>q \<in> set (replacements st1). within 0 (start + (b + 4 + n + 1 + 1)) q"
        using before renders_within[OF rs(2)] by (fastforce simp: rs(1) within_def word(2))
      obtain rs' where rs': "replacements st' = replacements st1 @ rs'"
          "renders (start + (b + 4 + n + 1 + 1)) more rs' (literal_text more)"
          "rawTokenWindow st' = rawTokenWindow st1" "SemanticRewriteRanges st' = SemanticRewriteRanges st1"
        using 1(1)[OF found e_def refl e] 1(2) more behind st' e
        unfolding name_def[symmetric] st1_def[symmetric] by auto
      have "renders (start + (i + 1)) (pre @ word @ '' '' @ more) ([] @ rs @ [] @ rs')
          (pre @ literal_word word @ '' '' @ literal_text more)"
      proof (rule renders_append[OF renders_keep], unfold at_b, rule renders_append[OF rs(2)], rule renders_append[OF renders_keep])
        have "start + (b + 1) + length word + length '' '' = start + (b + 4 + n + 1 + 1)"
          by (simp add: word(2))
        then show "renders (start + (b + 1) + length word + length '' '') more rs' (literal_text more)"
          using rs'(2) by (simp only:)
      qed
      moreover have "literal_text (drop i s) = pre @ literal_word word @ '' '' @ literal_text more"
        by (simp only: literal_text_found[OF found_k, folded pre_def rest_k] Some option.case word_def more_def)
      moreover have "drop i s = pre @ word @ '' '' @ more"
        by (simp only: tsplit(1) rest_split)
      ultimately show ?thesis
        using rs rs' by auto
    qed
  qed
qed

section \<open>Identifiers\<close>

lemma audit_keeps:
  "replacements (auditRawNvidiaSampleHelperToken env t st) = replacements st"
  "SemanticRewriteRanges (auditRawNvidiaSampleHelperToken env t st) = SemanticRewriteRanges st"
  "rawTokenWindow (auditRawNvidiaSampleHelperToken env t st) = rawTokenWindow st"
  unfolding auditRawNvidiaSampleHelperToken_def Let_def report_def
  by (auto split: option.split)

text \<open>How a step of the pass changes the replacements, the window and the ranges.\<close>

definition leaves :: "nat \<Rightarrow> string \<Rightarrow> string \<Rightarrow> rename_state \<Rightarrow> rename_state \<Rightarrow> bool" where
  "leaves pos txt out st st' \<longleftrightarrow>
     (\<exists>rs. replacements st' = replacements st @ rs \<and> renders pos txt rs out)
     \<and> rawTokenWindow st' = rawTokenWindow st \<and> SemanticRewriteRanges st' = SemanticRewriteRanges st"

lemma leaves_keep:
  "replacements st' = replacements st \<Longrightarrow> rawTokenWindow st' = rawTokenWindow st
    \<Longrightarrow> SemanticRewriteRanges st' = SemanticRewriteRanges st \<Longrightarrow> leaves pos txt txt st st'"
  using renders_keep by (auto simp: leaves_def)

lemma leaves_insert:
  assumes "documented_conflicts (conflict env)" and "name \<noteq> []" and "\<forall>q \<in> set (replacements st). within 0 pos q"
    and "replacements st1 = replacements st" and "rawTokenWindow st1 = rawTokenWindow st"
    and "SemanticRewriteRanges st1 = SemanticRewriteRanges st"
  shows "leaves pos name new st (snd (insertReplacement env \<lparr>r_offset = pos, r_length = length name, r_text = new\<rparr> st1))"
  using insert_ok[OF assms(1), of st1 "\<lparr>r_offset = pos, r_length = length name, r_text = new\<rparr>"] assms(2-6)
    renders_edit[OF assms(2), of pos new]
  by (auto simp: leaves_def)

lemma fast_texture_target:
  "fast_texture_target name target =
     (if name \<in> {''tex2D'', ''tex2DLayered'', ''texCubemap''} \<and> target = ''ascify::'' @ name then target @ ''Fast'' else target)"
  unfolding fast_texture_target_def
  by (cases "name = ''tex2D''"; cases "name = ''tex2DLayered''"; cases "name = ''texCubemap''"; simp)

lemma fast_shared: "fast_texture_target ''__shared__'' target = target"
  by (simp add: fast_texture_target_def)

lemma find_and_replace:
  assumes "documented_conflicts (conflict env)" and "name \<noteq> []" and "\<forall>q \<in> set (replacements st). within 0 pos q"
  shows "leaves pos name (mapped_text env name pos) st (FindAndReplace env name pos CUDA_RENAMES_MAP True st)"
proof (cases "find_name CUDA_RENAMES_MAP name")
  case None
  then show ?thesis
    by (simp add: FindAndReplace_def mapped_text_def leaves_keep)
next
  case (Some found)
  define st1 where "st1 = (if isCudaDeprecated found
    then report (Deprecated_Name pos name) (st\<lparr>statistics := incrementCounter found name (statistics st)\<rparr>)
    else st\<lparr>statistics := incrementCounter found name (statistics st)\<rparr>)"
  have st1: "replacements st1 = replacements st" "rawTokenWindow st1 = rawTokenWindow st"
      "SemanticRewriteRanges st1 = SemanticRewriteRanges st"
    by (simp_all add: st1_def report_def)
  show ?thesis
  proof (cases "isUnsupported found")
    case True
    then have "FindAndReplace env name pos CUDA_RENAMES_MAP True st = report (Unsupported_Name pos name) st1"
      by (simp add: FindAndReplace_def Some st1_def Let_def)
    then show ?thesis
      using st1 True by (simp add: mapped_text_def Some leaves_keep report_def)
  next
    case False
    define P where "P \<longleftrightarrow> TargetPolicy env = ''dav-c310-vec'' \<and> SimtMathMode env = ''fast''"
    define shared where "shared \<longleftrightarrow> name = ''__shared__'' \<and> pos \<in> set (sharedQualifiers env)"
    define target where "target = (if shared then ''__ubuf__ ASCIFY_ALIGN(4)'' else dppName found)"
    have "mapped_text env name pos = (if P then fast_texture_target name target else target)"
      unfolding mapped_text_def Some option.case target_def fast_texture_target P_def[symmetric] shared_def[symmetric]
        conj_assoc[symmetric]
      using False fast_shared[unfolded fast_texture_target] by (auto simp: shared_def)
    then have "FindAndReplace env name pos CUDA_RENAMES_MAP True st = snd (insertReplacement env
        \<lparr>r_offset = pos, r_length = length name, r_text = mapped_text env name pos\<rparr> st1)"
      unfolding FindAndReplace_def Some option.case Let_def st1_def[symmetric] P_def[symmetric] shared_def[symmetric]
        target_def[symmetric]
      using False by (simp only: if_False if_True simp_thms)
    then show ?thesis
      using leaves_insert[OF assms st1] by simp
  qed
qed

lemma identifier_renders:
  assumes "documented_conflicts (conflict env)" and "name \<noteq> []" and "\<forall>q \<in> set (replacements st). within 0 pos q"
    and "bound_plan env name pos = No_Plan"
  shows "leaves pos name (identifier_text env (rawTokenWindow st) name pos) st (rewrite_identifier env name pos st)"
proof -
  have unfolded: "identifier_text env (rawTokenWindow st) name pos =
    (if isUnqualifiedFloatMathName name
       \<and> ((case previousSignificantToken (rawTokenWindow st) of
             None \<Rightarrow> False | Some previous \<Rightarrow> kind previous = Coloncolon)
          \<or> pos \<in> set (preservedHostMathCalleeOffsets env)) then name
     else if IsCudaTextureName name \<and> pos \<notin> set (cudaTextureLiteralOffsets env) then name
     else mapped_text env name pos)"
    unfolding identifier_text_def
    by (cases "previousSignificantToken (rawTokenWindow st)") (simp_all add: assms(4))
  define st1 where "st1 = (if IsCudaTextureName name then st\<lparr>needsCudaTextureHeader := True\<rparr> else st)"
  define st2 where "st2 = (if requiresCudaCompatHeader name then st1\<lparr>needsCudaCompatHeader := True\<rparr> else st1)"
  have st2: "replacements st2 = replacements st" "rawTokenWindow st2 = rawTokenWindow st"
      "SemanticRewriteRanges st2 = SemanticRewriteRanges st"
    by (simp_all add: st1_def st2_def)
  have "leaves pos name (mapped_text env name pos) st2 (FindAndReplace env name pos CUDA_RENAMES_MAP True st2)"
    using assms(3) st2 by (intro find_and_replace[OF assms(1,2)]) simp
  then have "leaves pos name (mapped_text env name pos) st (FindAndReplace env name pos CUDA_RENAMES_MAP True st2)"
    using st2 by (simp add: leaves_def)
  then show ?thesis
    unfolding unfolded rewrite_identifier_def Let_def st1_def[symmetric] st2_def[symmetric]
    by (auto intro: leaves_keep simp: report_def)
qed

lemma bound_plan_renders:
  assumes "documented_conflicts (conflict env)" and "name \<noteq> []" and "settled pos st"
  shows "step_renders pos name target st (apply_bound_plan env name pos target st)"
proof -
  let ?r = "\<lparr>r_offset = pos, r_length = length name, r_text = target\<rparr>" and ?e = "pos + length name"
  define st1 where "st1 = (case find_name CUDA_RENAMES_MAP name of
      None \<Rightarrow> st | Some mapped \<Rightarrow> st\<lparr>statistics := incrementCounter mapped name (statistics st)\<rparr>)"
  have st1: "replacements st1 = replacements st" "rawTokenWindow st1 = rawTokenWindow st"
      "SemanticRewriteRanges st1 = SemanticRewriteRanges st"
    by (simp_all add: st1_def split: option.split)
  obtain st2 where st2: "insertReplacement env ?r st1 = (True, st2)" "replacements st2 = replacements st @ [?r]"
      "rawTokenWindow st2 = rawTokenWindow st" "SemanticRewriteRanges st2 = SemanticRewriteRanges st"
    using insert_ok[OF assms(1), of st1 ?r] assms(2,3) st1 by (auto simp: settled_def)
  have free: "\<not> list_ex (\<lambda>(b', e'). pos < e' \<and> b' < ?e) (SemanticRewriteRanges st1)"
    using assms(3) by (auto simp: list_ex_iff settled_def st1)
  define st3 where "st3 = st2\<lparr>SemanticRewriteRanges := SemanticRewriteRanges st2 @ [(pos, ?e)]\<rparr>"
  have semantic: "insertSemanticReplacement env ?r pos ?e st1 = (True, st3)"
    using assms(2) free st2(1) by (simp add: insertSemanticReplacement_def st3_def)
  have st': "replacements (apply_bound_plan env name pos target st) = replacements st3"
      "rawTokenWindow (apply_bound_plan env name pos target st) = rawTokenWindow st3"
      "SemanticRewriteRanges (apply_bound_plan env name pos target st) = SemanticRewriteRanges st3"
    unfolding apply_bound_plan_def Let_def st1_def[symmetric] semantic
    by (auto split: option.split)
  then show ?thesis
    using st2 assms(3) renders_edit[OF assms(2), of pos target]
    by (auto simp: step_renders_def st3_def settled_def)
qed

lemma leaves_step:
  assumes "leaves pos txt out st st'" and "settled pos st"
  shows "step_renders pos txt out st st'"
  using assms by (auto simp: leaves_def step_renders_def settled_def)

section \<open>The pass\<close>

text \<open>The tokens of a file follow one another from the offset \<open>pos\<close> on.\<close>

fun tiles :: "nat \<Rightarrow> token list \<Rightarrow> bool" where
  "tiles pos [] = True"
| "tiles pos (t # ts) \<longleftrightarrow> offset t = pos \<and> written t \<noteq> [] \<and> tiles (pos + length (written t)) ts"

text \<open>A string literal that is written between two quotes: neither raw nor with a suffix.\<close>

definition ordinary :: "token \<Rightarrow> bool" where
  "ordinary t \<longleftrightarrow> kind t \<noteq> String_Literal
     \<or> (2 \<le> length (written t) \<and> hd (written t) = CHR 0x22 \<and> last (written t) = CHR 0x22)"

lemma unquoted:
  assumes "2 \<le> length s" and "hd s = CHR 0x22" and "last s = CHR 0x22"
  shows "s = [CHR 0x22] @ unquoteStr s @ [CHR 0x22]"
proof -
  obtain m where s: "s = CHR 0x22 # m @ [CHR 0x22]"
    using assms by (cases s; cases "tl s" rule: rev_cases) auto
  then show ?thesis
    by (simp add: unquoteStr_def nth_append)
qed

lemma token_renders:
  assumes doc: "documented_conflicts (conflict env)" and "written t \<noteq> []" and "ordinary t" and "settled (offset t) st"
  shows "step_renders (offset t) (written t) (token_text env (rawTokenWindow st) t) st (RewriteToken env t st)"
proof -
  define st1 where "st1 = auditRawNvidiaSampleHelperToken env t st"
  note audit = audit_keeps[of env t st, folded st1_def]
  have settled: "settled (offset t) st1" and window: "rawTokenWindow st1 = rawTokenWindow st"
    using assms(4) by (simp_all add: settled_def audit)
  have before: "\<forall>q \<in> set (replacements st1). within 0 (offset t) q"
    using settled by (simp add: settled_def)
  have "step_renders (offset t) (written t) (token_text env (rawTokenWindow st) t) st1 (RewriteToken env t st)"
  proof -
    have free: "\<not> isInSemanticRewriteRange st1 (offset t)"
      using settled by (auto simp: isInSemanticRewriteRange_def settled_def list_ex_iff)
    define skipped where "skipped \<longleftrightarrow>
      \<not> AscifyAMAP env \<and> list_ex (\<lambda>(b, e). b \<le> offset t \<and> offset t \<le> e) (SkippedSourceRanges env)"
    have step: "RewriteToken env t st =
      (if skipped then st1
       else if kind t = String_Literal then RewriteString env (unquoteStr (written t)) (offset t) 0 st1
       else if kind t \<noteq> Identifier_Token then st1
       else case bound_plan env (written t) (offset t) of
         Plan target \<Rightarrow> apply_bound_plan env (written t) (offset t) target st1
       | Refused \<Rightarrow> (report (Unbound_Occupancy (offset t)) st1)\<lparr>cudaRuntimeApiBoundaryFailed := True\<rparr>
       | No_Plan \<Rightarrow> rewrite_identifier env (written t) (offset t) st1)"
      using free by (simp add: RewriteToken_def Let_def skipped_def flip: st1_def)
    have unchanged: "step_renders (offset t) (written t) (written t) st1 st1"
      by (rule leaves_step[OF leaves_keep settled]) simp_all
    consider "skipped" | (string) "\<not> skipped" "kind t = String_Literal"
      | (name) "\<not> skipped" "kind t = Identifier_Token"
      | (other) "\<not> skipped" "kind t \<noteq> String_Literal" "kind t \<noteq> Identifier_Token"
      by blast
    then show ?thesis
    proof cases
      case 1
      then show ?thesis
        using unchanged by (simp add: step token_text_def flip: skipped_def)
    next
      case string
      let ?s = "unquoteStr (written t)"
      have s: "written t = [CHR 0x22] @ ?s @ [CHR 0x22]"
        using assms(3) string by (intro unquoted) (auto simp: ordinary_def)
      have "\<forall>q \<in> set (replacements st1). within 0 (offset t + (0 + 1)) q"
        using before by (fastforce simp: within_def)
      then obtain rs where rs: "replacements (RewriteToken env t st) = replacements st1 @ rs"
          "renders (offset t + 1) ?s rs (literal_text ?s)"
          "rawTokenWindow (RewriteToken env t st) = rawTokenWindow st1"
          "SemanticRewriteRanges (RewriteToken env t st) = SemanticRewriteRanges st1"
        using literal_renders[OF doc _ _ refl, of 0 ?s st1 "offset t"] string by (auto simp: step)
      have "renders (offset t) ([CHR 0x22] @ ?s @ [CHR 0x22]) ([] @ rs @ []) ([CHR 0x22] @ literal_text ?s @ [CHR 0x22])"
        by (intro renders_append renders_keep) (use rs(2) in simp)
      then have "leaves (offset t) (written t) (token_text env (rawTokenWindow st) t) st1 (RewriteToken env t st)"
        using rs string s by (auto simp: leaves_def token_text_def simp flip: skipped_def)
      then show ?thesis
        by (rule leaves_step[OF _ settled])
    next
      case name
      have out: "token_text env (rawTokenWindow st) t = identifier_text env (rawTokenWindow st1) (written t) (offset t)"
        using name by (simp add: token_text_def window flip: skipped_def)
      show ?thesis
      proof (cases "bound_plan env (written t) (offset t)")
        case No_Plan
        then show ?thesis
          using leaves_step[OF identifier_renders[OF doc assms(2) before No_Plan] settled] name
          by (simp add: step out)
      next
        case (Plan target)
        then show ?thesis
          using bound_plan_renders[OF doc assms(2) settled, of target] name
          by (simp add: step out identifier_text_def)
      next
        case Refused
        then show ?thesis
          using leaves_step[OF leaves_keep settled] name
          by (simp add: step out identifier_text_def report_def)
      qed
    next
      case other
      then show ?thesis
        using unchanged by (cases "kind t") (simp_all add: step token_text_def flip: skipped_def)
    qed
  qed
  then show ?thesis
    by (simp add: step_renders_def audit)
qed

lemma pass_renders:
  assumes "documented_conflicts (conflict env)" and "tiles pos toks" and "\<forall>t \<in> set toks. ordinary t" and "settled pos st"
    and "st' = foldl (\<lambda>st t. RewriteToken env t (st\<lparr>rawTokenWindow := slide t (rawTokenWindow st)\<rparr>)) st toks"
  shows "\<exists>rs. replacements st' = replacements st @ rs
    \<and> renders pos (concat (map written toks)) rs (translation env (rawTokenWindow st) toks)"
  using assms
proof (induction toks arbitrary: pos st)
  case Nil
  then show ?case
    using renders_keep[of pos "[]"] by auto
next
  case (Cons t ts)
  define st0 where "st0 = st\<lparr>rawTokenWindow := slide t (rawTokenWindow st)\<rparr>"
  define st1 where "st1 = RewriteToken env t st0"
  have t: "offset t = pos" "written t \<noteq> []" "tiles (pos + length (written t)) ts"
    using Cons.prems(2) by simp_all
  have "settled (offset t) st0"
    using Cons.prems(4) by (simp add: t st0_def settled_def)
  then have "step_renders pos (written t) (token_text env (rawTokenWindow st0) t) st0 st1"
    using token_renders[OF Cons.prems(1) t(2), of st0] Cons.prems(3) by (simp add: t st1_def)
  then obtain rs where rs: "replacements st1 = replacements st0 @ rs"
      "renders pos (written t) rs (token_text env (rawTokenWindow st0) t)"
      "rawTokenWindow st1 = rawTokenWindow st0" "\<forall>(b, e) \<in> set (SemanticRewriteRanges st1). e \<le> pos + length (written t)"
    unfolding step_renders_def by auto
  have "settled (pos + length (written t)) st1"
    using rs Cons.prems(4) renders_within[OF rs(2)] by (fastforce simp: settled_def st0_def within_def)
  moreover have "st' = foldl (\<lambda>st t. RewriteToken env t (st\<lparr>rawTokenWindow := slide t (rawTokenWindow st)\<rparr>)) st1 ts"
    using Cons.prems(5) by (simp add: st1_def st0_def)
  ultimately obtain rs' where rs': "replacements st' = replacements st1 @ rs'"
      "renders (pos + length (written t)) (concat (map written ts)) rs' (translation env (rawTokenWindow st1) ts)"
    using Cons.IH[OF Cons.prems(1) t(3), of st1] Cons.prems(3) by auto
  then show ?case
    using renders_append[OF rs(2) rs'(2)] rs(1,3) by (auto simp: st0_def)
qed

section \<open>Properties\<close>

text \<open>C4 (refinement). The token pass implements the translation of its tokens.  When no edit was
  made before it, every literal is written between quotes and the replacement set takes a
  replacement behind the others, then the replacements of the pass are in order, do not overlap,
  stay in the file, and turn its text into the translations of its tokens: a name of the table
  becomes its target, in a literal as in the code, bounded kernels and occupancy calls become their
  plans, and everything else is untouched.\<close>

theorem rename_pass_text:
  assumes "documented_conflicts (conflict env)" and "tiles 0 toks" and "\<forall>t \<in> set toks. ordinary t"
    and "replacements st = []" and "SemanticRewriteRanges st = []"
    and "rs = replacements (raw_pass env toks st)" and "source = concat (map written toks)"
  shows "splice 0 source rs = translation env [] toks
    \<and> sorted_wrt (\<lambda>r q. r_offset r + r_length r \<le> r_offset q) rs \<and> (\<forall>r \<in> set rs. within 0 (length source) r)"
proof -
  have "settled 0 (st\<lparr>rawTokenWindow := []\<rparr>)"
    by (simp add: settled_def assms(4,5))
  from pass_renders[OF assms(1-3) this refl] have "renders 0 source rs (translation env [] toks)"
    by (simp add: assms(4,6,7) raw_pass_def)
  then show ?thesis
    using renders_splice renders_sorted renders_within by fastforce
qed

text \<open>A replacement set that refuses an overlap, and a pass with no plans.\<close>

definition overlap_conflict :: "replacement list \<Rightarrow> replacement \<Rightarrow> string option" where
  "overlap_conflict rs r =
     (if list_ex (\<lambda>q. r_offset q < r_offset r + r_length r \<and> r_offset r < r_offset q + r_length q) rs
      then Some ''overlap'' else None)"

definition plain_env :: rename_env where
  "plain_env = \<lparr>conflict = overlap_conflict, line_number = (\<lambda>_. 1), print_stats = True, AscifyAMAP = False,
     TargetPolicy = ''dav-c310-vec'', SimtMathMode = ''fast'', SkippedSourceRanges = [], policyQualifiers = (\<lambda>_. None),
     occupancyCallees = (\<lambda>_. None), headerPolicies = (\<lambda>_. None), headerDepth = None,
     preservedHostMathCalleeOffsets = [], cudaTextureLiteralOffsets = [], sharedQualifiers = [],
     helperIncludes = False, compatHeaderBeforeHelper = False, unreadable = (\<lambda>_. False), preservedMaxTokens = [],
     normalMacroOffsets = [], findDeviceNormalOffsets = [], SMCoresNormalOffsets = []\<rparr>"

definition first_state :: rename_state where
  "first_state = \<lparr>replacements = [], statistics = new_Statistics ''a.cu'' None 0, reports = [],
     SemanticRewriteRanges = [], rawTokenWindow = [], needsCudaCompatHeader = False, needsCudaTextureHeader = False,
     cudaRuntimeApiBoundaryFailed = False, provenCalleeRanges = [], appliedPolicies = [],
     helperUnsupportedMacroUse = False, SMCoresUnsupportedUse = False, inactiveBranches = []\<rparr>"

definition demo_tokens :: "token list" where
  "demo_tokens =
    [\<lparr>kind = Identifier_Token, offset = 0, written = ''std''\<rparr>, \<lparr>kind = Coloncolon, offset = 3, written = ''::''\<rparr>,
     \<lparr>kind = Identifier_Token, offset = 5, written = ''exp''\<rparr>, \<lparr>kind = Unknown_Token, offset = 8, written = '' ''\<rparr>,
     \<lparr>kind = Identifier_Token, offset = 9, written = ''cudaStream_t''\<rparr>,
     \<lparr>kind = String_Literal, offset = 21, written = [CHR 0x22] @ ''see cudaFree now'' @ [CHR 0x22]\<rparr>,
     \<lparr>kind = Identifier_Token, offset = 39, written = ''exp''\<rparr>]"

theorem rename_pass_text_witness:
  "splice 0 (concat (map written demo_tokens)) (replacements (raw_pass plain_env demo_tokens first_state))
     = ''std::exp aclrtStream'' @ [CHR 0x22] @ ''see ascify::cudaFree now'' @ [CHR 0x22] @ ''expf''"
proof -
  have "documented_conflicts (conflict plain_env)"
    by (force simp: documented_conflicts_def plain_env_def overlap_conflict_def list_ex_iff)
  moreover have "tiles 0 demo_tokens" "\<forall>t \<in> set demo_tokens. ordinary t"
    by (simp_all add: demo_tokens_def ordinary_def)
  moreover have "replacements first_state = []" "SemanticRewriteRanges first_state = []"
    by (simp_all add: first_state_def)
  moreover have "translation plain_env [] demo_tokens
      = ''std::exp aclrtStream'' @ [CHR 0x22] @ ''see ascify::cudaFree now'' @ [CHR 0x22] @ ''expf''"
    by code_simp
  ultimately show ?thesis
    using rename_pass_text[of plain_env demo_tokens first_state] by simp
qed

text \<open>A literal that is not written between two quotes is edited at the wrong place: in
  the raw literal \<open>R"(cudaFree x)"\<close> the name is found, but its replacement starts one character
  too late, keeps the \<open>c\<close> and takes the space.\<close>

theorem raw_literal_shifted:
  "let literal = ''R'' @ [CHR 0x22] @ ''(cudaFree x)'' @ [CHR 0x22];
       t = \<lparr>kind = String_Literal, offset = 0, written = literal\<rparr>
   in splice 0 literal (replacements (raw_pass plain_env [t] first_state))
        = ''R'' @ [CHR 0x22] @ ''(cascify::cudaFreex)'' @ [CHR 0x22]"
  by code_simp

text \<open>The list of names that need the compatibility header misses \<open>__ballot_sync\<close>: a
  file whose only mapped name it is gets the name of the layer, but not the header that declares it,
  unlike the other votes.\<close>

theorem ballot_without_header:
  "let pass = (\<lambda>name. raw_pass plain_env [\<lparr>kind = Identifier_Token, offset = 0, written = name\<rparr>] first_state)
   in splice 0 ''__ballot_sync'' (replacements (pass ''__ballot_sync'')) = ''ascify::ballot_sync''
     \<and> \<not> needsCudaCompatHeader (pass ''__ballot_sync'')
     \<and> needsCudaCompatHeader (pass ''__any_sync'') \<and> needsCudaCompatHeader (pass ''__all_sync'')"
  by code_simp

text \<open>\<open>CUDART_NAN\<close>, whose table entry gives \<open>UNSUPPORTED\<close> as its section, is replaced without a
  warning by the name of the infinity.\<close>

lemma nan_becomes_infinity:
  "let st = raw_pass plain_env [\<lparr>kind = Identifier_Token, offset = 0, written = ''CUDART_NAN''\<rparr>] first_state
   in splice 0 ''CUDART_NAN'' (replacements st) = ''ASCRT_INF_F'' \<and> reports st = []"
  by code_simp

end
