(* ===== verification/Receipt.thy ===== *)
theory Receipt
  imports Closure_Publish "HOL-Library.List_Lexorder" "HOL-Library.Char_ord" "HOL-Library.Product_Lexorder"
begin

text \<open>
  The migration receipt of \<open>src/MigrationReceipt.cpp\<close> and \<open>src/MigrationReceiptIO.cpp\<close>: the
  record of one run of the tool, its text as JSON and its publication.  Strings are lists of
  bytes; the disk is the one of \<open>Closure_Publish\<close>.
\<close>

section \<open>Data\<close>

(* Source: src/src/MigrationReceipt.h 30-34 MigrationReceiptStatus *)
datatype MigrationReceiptStatus = InProgress | Succeeded | Failed_Status

(* Source: src/src/MigrationReceipt.h 36-41 MigrationReceiptStage *)
datatype MigrationReceiptStage = Initialization | InputResolution | InputPreparation | SourceConversion

(* Source: src/src/MigrationReceipt.h 43-50 MigrationReceiptConfig *)
record MigrationReceiptConfig =
  cfg_targetPolicy :: string
  cfg_simtMath :: string
  cfg_targetRecipe :: string
  cfg_frontendCompatibility :: string
  cfg_localHeaderClosure :: string
  cfg_outputMode :: string

(* Source: src/src/MigrationReceipt.h 52-62 MigrationReceiptInput *)
record MigrationReceiptInput =
  in_input :: string
  in_resolved :: string
  in_output :: string
  in_status :: MigrationReceiptStatus
  in_stage :: MigrationReceiptStage
  in_summary :: string
  in_definitions :: "32 word"
  in_vec3 :: "string list"
  in_profiler :: "string list"

(* Source: src/src/MigrationReceipt.h 52-62 MigrationReceiptInput (initial values) *)
definition new_input :: MigrationReceiptInput where
  "new_input = \<lparr>in_input = [], in_resolved = [], in_output = [], in_status = Failed_Status,
     in_stage = InputResolution, in_summary = [], in_definitions = 0, in_vec3 = [], in_profiler = []\<rparr>"

(* Source: src/src/MigrationReceipt.h 64-82 MigrationReceipt *)
record MigrationReceipt =
  rc_config :: MigrationReceiptConfig
  rc_status :: MigrationReceiptStatus
  rc_stage :: MigrationReceiptStage
  rc_summary :: string
  rc_inputs :: "MigrationReceiptInput list"

(* Source: src/src/MigrationReceipt.cpp 106-107 MigrationReceipt::MigrationReceipt *)
definition new_receipt :: "MigrationReceiptConfig \<Rightarrow> MigrationReceipt" where
  "new_receipt c = \<lparr>rc_config = c, rc_status = InProgress, rc_stage = Initialization,
     rc_summary = ''conversion has not completed'', rc_inputs = []\<rparr>"

(* Source: src/src/MigrationReceipt.cpp 109-115 setInvocationResult *)
definition setInvocationResult ::
    "MigrationReceiptStatus \<Rightarrow> MigrationReceiptStage \<Rightarrow> string \<Rightarrow> MigrationReceipt \<Rightarrow> MigrationReceipt" where
  "setInvocationResult status stage summary r = r\<lparr>rc_status := status, rc_stage := stage, rc_summary := summary\<rparr>"

(* Source: src/src/MigrationReceipt.cpp 117-119 addInputResult *)
definition addInputResult :: "MigrationReceiptInput \<Rightarrow> MigrationReceipt \<Rightarrow> MigrationReceipt" where
  "addInputResult i r = r\<lparr>rc_inputs := rc_inputs r @ [i]\<rparr>"

section \<open>Strings of JSON\<close>

definition hex_digit :: "nat \<Rightarrow> char" where
  "hex_digit n = (''0123456789abcdef'' ! n)"

(* Source: src/src/MigrationReceipt.cpp 38-69 escapeJson (character) *)
definition escape_char :: "char \<Rightarrow> string" where
  "escape_char c =
     (let n = (of_char c :: nat) in
      if n = 0x22 then [CHR 0x5C, CHR 0x22]
      else if n = 0x5C then [CHR 0x5C, CHR 0x5C]
      else if n = 0x08 then [CHR 0x5C, CHR ''b'']
      else if n = 0x0C then [CHR 0x5C, CHR ''f'']
      else if n = 0x0A then [CHR 0x5C, CHR ''n'']
      else if n = 0x0D then [CHR 0x5C, CHR ''r'']
      else if n = 0x09 then [CHR 0x5C, CHR ''t'']
      else if n < 0x20 then [CHR 0x5C] @ ''u00'' @ [hex_digit (n div 16), hex_digit (n mod 16)]
      else [c])"

(* Source: src/src/MigrationReceipt.cpp 33-72 escapeJson *)
definition escapeJson :: "string \<Rightarrow> string" where
  "escapeJson v = foldl (\<lambda>escaped c. escaped @ escape_char c) [] v"

(* Source: src/src/MigrationReceipt.cpp 74-76 writeJsonString *)
definition writeJsonString :: "string \<Rightarrow> string" where
  "writeJsonString v = [CHR 0x22] @ escapeJson v @ [CHR 0x22]"

section \<open>The text\<close>

(* Source: src/src/MigrationReceipt.cpp 80-90 migrationReceiptStatusName *)
fun migrationReceiptStatusName :: "MigrationReceiptStatus \<Rightarrow> string" where
  "migrationReceiptStatusName InProgress = ''in_progress''"
| "migrationReceiptStatusName Succeeded = ''succeeded''"
| "migrationReceiptStatusName Failed_Status = ''failed''"

(* Source: src/src/MigrationReceipt.cpp 92-104 migrationReceiptStageName *)
fun migrationReceiptStageName :: "MigrationReceiptStage \<Rightarrow> string" where
  "migrationReceiptStageName Initialization = ''initialization''"
| "migrationReceiptStageName InputResolution = ''input_resolution''"
| "migrationReceiptStageName InputPreparation = ''input_preparation''"
| "migrationReceiptStageName SourceConversion = ''source_conversion''"

text \<open>The key of the stable sort, the fields in the order of \<open>std::tie\<close>; an enumerator compares by
  its position.\<close>

definition status_rank :: "MigrationReceiptStatus \<Rightarrow> nat" where
  "status_rank s = (case s of InProgress \<Rightarrow> 0 | Succeeded \<Rightarrow> 1 | Failed_Status \<Rightarrow> 2)"

definition stage_rank :: "MigrationReceiptStage \<Rightarrow> nat" where
  "stage_rank s = (case s of Initialization \<Rightarrow> 0 | InputResolution \<Rightarrow> 1 | InputPreparation \<Rightarrow> 2 | SourceConversion \<Rightarrow> 3)"

(* Source: src/src/MigrationReceipt.cpp 123-133 toJson (sort key) *)
definition input_key :: "MigrationReceiptInput \<Rightarrow> string \<times> string \<times> string \<times> nat \<times> nat \<times> string \<times> nat \<times> string list \<times> string list" where
  "input_key i = (in_input i, in_resolved i, in_output i, status_rank (in_status i), stage_rank (in_stage i),
     in_summary i, unat (in_definitions i), in_vec3 i, in_profiler i)"

text \<open>A literal name between quotes, and a line break.\<close>

definition quoted :: "string \<Rightarrow> string" where
  "quoted s = [CHR 0x22] @ s @ [CHR 0x22]"

definition nl :: string where
  "nl = [CHR 0x0A]"

(* Source: src/src/MigrationReceipt.cpp 178-182 toJson (evidence) *)
definition comma_list :: "string list \<Rightarrow> string" where
  "comma_list xs = concat (map (\<lambda>i. (if i \<noteq> 0 then '','' else []) @ writeJsonString (xs ! i)) [0..<length xs])"

(* Source: src/src/MigrationReceipt.cpp 160-200 toJson (input) *)
definition input_text :: "MigrationReceiptInput \<Rightarrow> string" where
  "input_text i =
     ''    {'' @ nl
     @ ''      '' @ quoted ''input'' @ '': '' @ writeJsonString (in_input i)
     @ '','' @ nl @ ''      '' @ quoted ''resolved_input'' @ '': '' @ writeJsonString (in_resolved i)
     @ '','' @ nl @ ''      '' @ quoted ''output'' @ '': '' @ writeJsonString (in_output i)
     @ '','' @ nl @ ''      '' @ quoted ''status'' @ '': '' @ quoted (migrationReceiptStatusName (in_status i)) @ '','' @ nl
     @ ''      '' @ quoted ''stage'' @ '': '' @ quoted (migrationReceiptStageName (in_stage i)) @ '','' @ nl
     @ ''      '' @ quoted ''diagnostic_summary'' @ '': '' @ writeJsonString (in_summary i)
     @ '','' @ nl @ ''      '' @ quoted ''bounded_device_template_inlining'' @ '': {'' @ quoted ''rule'' @ '': ''
     @ quoted ''int-nttp-scalar-dag-v1'' @ '', '' @ quoted ''definitions'' @ '': '' @ digits (unat (in_definitions i)) @ ''}''
     @ '','' @ nl @ ''      '' @ quoted ''cuda_vec3_local_layout'' @ '': {'' @ quoted ''rule'' @ '': ''
     @ quoted ''closed-scalar-local-v1'' @ '', '' @ quoted ''evidence'' @ '': ['' @ comma_list (in_vec3 i) @ '']}''
     @ (if in_profiler i \<noteq> []
        then '','' @ nl @ ''      '' @ quoted ''cuda_profiler_availability'' @ '': {'' @ quoted ''rule'' @ '': ''
          @ quoted ''positive-physical-sdk-probe-v1'' @ '', '' @ quoted ''backend_status'' @ '': '' @ quoted ''unverified''
          @ '', '' @ quoted ''target_header'' @ '': '' @ quoted ''acl/acl_prof.h'' @ '', '' @ quoted ''evidence'' @ '': [''
          @ comma_list (in_profiler i) @ '']}''
        else [])
     @ nl @ ''    }''"

(* Source: src/src/MigrationReceipt.cpp 121-209 toJson *)
definition toJson :: "MigrationReceipt \<Rightarrow> string" where
  "toJson r =
     (let sortedInputs = sort_key input_key (rc_inputs r); c = rc_config r in
      ''{'' @ nl
      @ ''  '' @ quoted ''schema'' @ '': '' @ quoted ''ascify.migration-receipt'' @ '','' @ nl
      @ ''  '' @ quoted ''schema_version'' @ '': 1,'' @ nl
      @ ''  '' @ quoted ''tool'' @ '': '' @ quoted ''ascify-clang'' @ '','' @ nl
      @ ''  '' @ quoted ''status'' @ '': '' @ quoted (migrationReceiptStatusName (rc_status r)) @ '','' @ nl
      @ ''  '' @ quoted ''stage'' @ '': '' @ quoted (migrationReceiptStageName (rc_stage r)) @ '','' @ nl
      @ ''  '' @ quoted ''diagnostic_summary'' @ '': '' @ writeJsonString (rc_summary r) @ '','' @ nl
      @ ''  '' @ quoted ''target_profile'' @ '': {'' @ nl
      @ ''    '' @ quoted ''policy'' @ '': '' @ writeJsonString (cfg_targetPolicy c)
      @ '','' @ nl @ ''    '' @ quoted ''simt_math'' @ '': '' @ writeJsonString (cfg_simtMath c)
      @ '','' @ nl @ ''    '' @ quoted ''recipe'' @ '': '' @ writeJsonString (cfg_targetRecipe c)
      @ nl @ ''  },'' @ nl
      @ ''  '' @ quoted ''contract_decisions'' @ '': {'' @ nl
      @ ''    '' @ quoted ''frontend_compatibility'' @ '': '' @ writeJsonString (cfg_frontendCompatibility c)
      @ '','' @ nl @ ''    '' @ quoted ''local_header_closure'' @ '': '' @ writeJsonString (cfg_localHeaderClosure c)
      @ '','' @ nl @ ''    '' @ quoted ''output_mode'' @ '': '' @ writeJsonString (cfg_outputMode c)
      @ nl @ ''  },'' @ nl
      @ ''  '' @ quoted ''inputs'' @ '': ['' @ (if sortedInputs \<noteq> [] then nl else [])
      @ concat (map (\<lambda>index. input_text (sortedInputs ! index)
          @ (if index + 1 \<noteq> length sortedInputs then '','' else []) @ nl) [0..<length sortedInputs])
      @ (if sortedInputs \<noteq> [] then ''  '' else []) @ '']'' @ nl
      @ ''}'' @ nl)"

section \<open>Publication\<close>

text \<open>\<open>createUniqueFile\<close> picks the suffix of a name that does not exist; the suffix is a
  parameter.  Its file is open and empty at first; a write can fail after any part of the text.\<close>

(* Source: src/src/MigrationReceiptIO.cpp 42-47 createUniqueFile *)
definition create_unique :: "string \<Rightarrow> string \<Rightarrow> disk \<Rightarrow> bool \<times> disk" where
  "create_unique path suffix d =
     (let temporary = path @ ''.tmp-'' @ suffix; (l, d) = draw d in
      if l \<noteq> Works \<or> entries d temporary \<noteq> None then (False, d)
      else (True, put temporary (Some (File [])) d))"

definition write_file :: "string \<Rightarrow> string \<Rightarrow> nat \<Rightarrow> disk \<Rightarrow> bool \<times> disk" where
  "write_file p txt kept d =
     (let (l, d) = draw d in
      if l = Works then (True, put p (Some (File txt)) d) else (False, put p (Some (File (take kept txt))) d))"

text \<open>\<open>remove\<close>, whose answer the source ignores.\<close>

definition remove_quietly :: "string \<Rightarrow> disk \<Rightarrow> disk" where
  "remove_quietly p d = (let (l, d) = draw d in if l = Works then put p None d else d)"

(* Source: src/src/MigrationReceiptIO.cpp 32-70 publishMigrationReceiptAtomically *)
definition publishMigrationReceiptAtomically ::
    "string \<Rightarrow> MigrationReceipt \<Rightarrow> string \<Rightarrow> nat \<Rightarrow> disk \<Rightarrow> bool \<times> disk" where
  "publishMigrationReceiptAtomically path receipt suffix kept d =
     (if path = [] then (False, d)
      else
        let (created, d) = create_unique path suffix d in
        if \<not> created then (False, d)
        else
          let temporary = path @ ''.tmp-'' @ suffix;
              (written, d) = write_file temporary (toJson receipt) kept d in
          if \<not> written then (False, remove_quietly temporary d)
          else
            let (renamed, d) = renameChecked temporary path d in
            if \<not> renamed then (False, remove_quietly temporary d) else (True, d))"

end
