(* ===== verification/Receipt_Properties.thy ===== *)
theory Receipt_Properties
  imports Receipt Publish_Atomic "HOL-Library.Multiset"
begin

text \<open>
  A receipt is a text of JSON, whatever its strings hold; it does not depend on the order in
  which the inputs were recorded; and it is published as a whole or not at all.
\<close>

section \<open>The grammar of JSON\<close>

datatype json = JString string | JNumber nat | JArray "json list" | JObject "(string \<times> json) list"








section \<open>Escaped strings\<close>




lemma of_char_eq: "(of_char c :: nat) = n \<Longrightarrow> n < 256 \<Longrightarrow> c = char_of n"
  by (metis char_of_char)







section \<open>Members and items\<close>











section \<open>The receipt as JSON\<close>

definition name_json :: "string \<Rightarrow> json" where
  "name_json = JString"






































section \<open>Reading a string back\<close>







section \<open>The order of the inputs\<close>

lemma status_rank_inj: "status_rank s = status_rank t \<Longrightarrow> s = t"
  by (cases s; cases t) (simp_all add: status_rank_def)

lemma stage_rank_inj: "stage_rank s = stage_rank t \<Longrightarrow> s = t"
  by (cases s; cases t) (simp_all add: stage_rank_def)

lemma input_key_inj: "inj input_key"
  by (rule injI) (auto simp: input_key_def word_unat_eq_iff dest!: status_rank_inj stage_rank_inj)

lemma sort_key_mset:
  assumes "inj f" "mset xs = mset ys"
  shows "sort_key f xs = sort_key f ys"
proof -
  have sorted: "map f (sort_key f zs) = sort (map f zs)" for zs
    by (rule properties_for_sort[symmetric]) simp_all
  have "sort (map f xs) = sort (map f ys)"
    using assms(2) by (intro properties_for_sort) simp_all
  then have "map f (sort_key f xs) = map f (sort_key f ys)"
    by (simp add: sorted)
  then show ?thesis
    using assms(1) inj_map_eq_map by blast
qed

text \<open>The text of a receipt is a function of the collection of its inputs: the
  order in which the driver recorded them never shows.\<close>
theorem receipt_order_independent:
  assumes "mset inputs = mset (rc_inputs r)"
  shows "toJson (r\<lparr>rc_inputs := inputs\<rparr>) = toJson r"
  by (simp add: toJson_def sort_key_mset[OF input_key_inj assms])

lemma receipt_order_independent_witness:
  "\<exists>c i j. i \<noteq> j \<and> toJson (new_receipt c\<lparr>rc_inputs := [i, j]\<rparr>) = toJson (new_receipt c\<lparr>rc_inputs := [j, i]\<rparr>)"
proof -
  let ?i = "new_input\<lparr>in_input := ''a.cu''\<rparr>" and ?j = "new_input\<lparr>in_input := ''b.cu''\<rparr>"
  have different: "?i \<noteq> ?j"
    by (simp add: new_input_def)
  have "toJson ((new_receipt c\<lparr>rc_inputs := [?j, ?i]\<rparr>)\<lparr>rc_inputs := [?i, ?j]\<rparr>)
      = toJson (new_receipt c\<lparr>rc_inputs := [?j, ?i]\<rparr>)" for c
    by (rule receipt_order_independent) simp
  then have "toJson (new_receipt c\<lparr>rc_inputs := [?i, ?j]\<rparr>) = toJson (new_receipt c\<lparr>rc_inputs := [?j, ?i]\<rparr>)" for c
    by (simp add: new_receipt_def)
  with different show ?thesis
    by blast
qed

section \<open>The publication\<close>

lemma create_spec:
  "create_unique path suffix d = (ok, e) \<Longrightarrow>
     faults e \<le> faults d
     \<and> (if ok then entries d (path @ ''.tmp-'' @ suffix) = None
            \<and> entries e = (entries d)(path @ ''.tmp-'' @ suffix := Some (File []))
        else entries e = entries d)"
  by (auto simp: create_unique_def Let_def dest!: draw_spec split: prod.splits if_splits)

lemma write_spec:
  "write_file p txt part d = (ok, e) \<Longrightarrow>
     (\<exists>s. entries e = (entries d)(p := Some (File s)) \<and> (ok \<longrightarrow> s = txt))
     \<and> faults e + (if ok then 0 else 1) = faults d"
  by (auto simp: write_file_def dest!: draw_spec split: prod.splits if_splits)

lemma remove_quietly_spec:
  "entries (remove_quietly p d) = (entries d)(p := None) \<or> entries (remove_quietly p d) = entries d \<and> 0 < faults d"
  by (auto simp: remove_quietly_def dest!: draw_spec split: prod.splits)

lemma temporary_differs: "path @ ''.tmp-'' @ suffix \<noteq> path"
  by simp

lemma can_rename_file: "entries d p = Some (File s) \<Longrightarrow> can_rename d p q \<longleftrightarrow> \<not> is_dir (entries d q)"
  by (simp add: can_rename_def renameable_def is_dir_def split: option.splits entry.splits)

text \<open>The outcome of a publication, case by case.\<close>

lemma publication_cases:
  assumes "publishMigrationReceiptAtomically path r suffix part d = (ok, e)"
  defines "temporary \<equiv> path @ ''.tmp-'' @ suffix"
  shows "ok \<and> entries d temporary = None \<and> entries e = (entries d)(path := Some (File (toJson r)))
    \<or> \<not> ok \<and> entries e = entries d
    \<or> \<not> ok \<and> entries d temporary = None \<and> (\<exists>s. entries e = (entries d)(temporary := s))
      \<and> 0 < faults d \<and> (faults d = 1 \<longrightarrow> is_dir (entries d path))"
proof (cases "path = []")
  case True
  then show ?thesis
    using assms by (simp add: publishMigrationReceiptAtomically_def)
next
  case False
  obtain o1 d1 where 1: "create_unique path suffix d = (o1, d1)"
    by fastforce
  obtain o2 d2 where 2: "write_file temporary (toJson r) part d1 = (o2, d2)"
    by fastforce
  obtain o3 d3 where 3: "renameChecked temporary path d2 = (o3, d3)"
    by fastforce
  note facts = create_spec[OF 1, folded temporary_def] write_spec[OF 2] rename_spec[OF 3]
  have other: "temporary \<noteq> path"
    unfolding temporary_def by (rule temporary_differs)
  have run: "(ok, e) = (if \<not> o1 then (False, d1) else if \<not> o2 then (False, remove_quietly temporary d2)
      else if \<not> o3 then (False, remove_quietly temporary d3) else (True, d3))"
    using assms(1) 1 2 3 False unfolding temporary_def
    by (auto simp: publishMigrationReceiptAtomically_def Let_def split: if_splits)
  consider (refused) "\<not> o1" | (partial) "o1" "\<not> o2" | (blocked) "o1" "o2" "\<not> o3" | (published) "o1" "o2" "o3"
    by blast
  then show ?thesis
  proof cases
    case refused
    then show ?thesis
      using run facts by simp
  next
    case partial
    then show ?thesis
      using run facts remove_quietly_spec[of temporary d2] by (auto simp: fun_upd_idem)
  next
    case blocked
    then have "entries d2 temporary = Some (File (toJson r))" "entries d2 path = entries d path"
      using facts other by auto
    then have "can_rename d2 temporary path \<longleftrightarrow> \<not> is_dir (entries d path)"
      using can_rename_file by metis
    then show ?thesis
      using blocked run facts remove_quietly_spec[of temporary d3] by (auto simp: fun_upd_idem split: if_splits)
  next
    case published
    then show ?thesis
      using run facts other by (auto simp: fun_upd_idem fun_upd_twist)
  qed
qed

text \<open>C26 (safety). Publishing a receipt touches no file but the receipt and one temporary file
  that did not exist: on success the receipt holds the whole new text, on failure what it held
  before, whichever operation failed and however much of the text had been written.  The
  temporary file is gone after success and after any single fault, unless the path of the
  receipt is a directory.\<close>
theorem receipt_publication_atomic:
  assumes "publishMigrationReceiptAtomically path r suffix part d = (ok, e)"
    and "q \<noteq> path @ ''.tmp-'' @ suffix \<or> ok \<or> faults d \<le> (if is_dir (entries d path) then 0 else 1)"
  shows "entries e q = (if ok \<and> q = path then Some (File (toJson r)) else entries d q)"
  using publication_cases[OF assms(1)] assms(2) by (auto split: if_splits)

text \<open>The disk is full after the first bytes of the new receipt.\<close>

lemma receipt_publication_atomic_witness:
  "\<forall>c. let d = \<lparr>entries = [''r.json'' \<mapsto> File ''old''], lucks = [Works, Fails]\<rparr>;
       (ok, e) = publishMigrationReceiptAtomically ''r.json'' (new_receipt c) ''ab'' 3 d in
     \<not> ok \<and> entries e ''r.json'' = Some (File ''old'')"
proof -
  let ?d = "\<lparr>entries = [''r.json'' \<mapsto> File ''old''], lucks = [Works, Fails]\<rparr>"
  have "\<not> fst (publishMigrationReceiptAtomically ''r.json'' (new_receipt c) ''ab'' 3 ?d)
    \<and> entries (snd (publishMigrationReceiptAtomically ''r.json'' (new_receipt c) ''ab'' 3 ?d)) ''r.json'' = Some (File ''old'')" for c
  proof -
    obtain ok e where run: "publishMigrationReceiptAtomically ''r.json'' (new_receipt c) ''ab'' 3 ?d = (ok, e)"
      by fastforce
    then have "\<not> ok"
      by (simp add: publishMigrationReceiptAtomically_def create_unique_def write_file_def draw_def put_def Let_def)
    then show ?thesis
      using receipt_publication_atomic[OF run, of "''r.json''"] by (simp add: run)
  qed
  then show ?thesis
    by (simp add: case_prod_beta Let_def)
qed

end
