(* ===== verification/Driver.thy ===== *)
theory Driver
  imports Receipt Statistics
begin

text \<open>
  The driver of \<open>src/main.cpp\<close> after its options are parsed: the checks of the options, the
  conflicts of the receipt with other files, the loop over the sources and the final receipt.  The
  file system, the conversion of one source and the publication of a receipt answer through the
  fields of \<open>world\<close>; the conversions that ran are logged with their output paths.
\<close>

section \<open>Options and environment\<close>

record options =
  fileSources :: "string list"
  OutputFilename :: string
  OutputDir :: string
  TemporaryDir :: string
  OutputStatsFilename :: string
  MigrationReceiptPath :: string
  Inplace :: bool
  NoOutput :: bool
  Versions :: bool
  Examine :: bool
  PrintStatsCSV :: bool
  OptLocalHeaders :: bool
  OptLocalHeadersRecursive :: bool
  StandaloneDeviceExecutable :: bool
  opt_TargetPolicy :: string
  opt_SimtMathMode :: string
  opt_TargetRecipe :: string
  opt_FrontendCompat :: string

text \<open>\<open>None\<close> is an error code.  \<open>jobs\<close> are the jobs of the compilation that clang's driver plans,
  each with the name of its creator and its arguments.\<close>

record world =
  existing :: "string \<Rightarrow> bool"
  regular :: "string \<Rightarrow> bool"
  created :: "string \<Rightarrow> bool"
  raw_inputs_valid :: bool
  real_path :: "string \<Rightarrow> string option"
  file_name :: "string \<Rightarrow> string"
  comparable :: "string \<Rightarrow> string"
  aliased_root :: "string \<Rightarrow> string \<Rightarrow> bool"
  jobs :: "(string \<times> string list) list"
  temporary_created :: "string \<Rightarrow> bool"
  copied :: "string \<Rightarrow> bool"
  converts :: "string \<Rightarrow> string \<Rightarrow> bool"
  definitions_of :: "string \<Rightarrow> 32 word"
  vec3_of :: "string \<Rightarrow> string list"
  profiler_of :: "string \<Rightarrow> string list"
  receipt_published :: "MigrationReceipt \<Rightarrow> bool"
  file_contents :: "string \<Rightarrow> string option"

record driver_state =
  dst :: string
  Result :: int
  migrationReceipt :: "MigrationReceipt option"
  lastReceiptStage :: MigrationReceiptStage
  conversions :: "(string \<times> string) list"
  registry :: registry

section \<open>Paths\<close>

(* Source: src/src/StringUtils.cpp 40-56 getAbsoluteFilePath *)
definition getAbsoluteFilePath :: "world \<Rightarrow> string \<Rightarrow> string option" where
  "getAbsoluteFilePath w sFile =
     (if sFile = [] then Some [] else if \<not> existing w sFile then None else real_path w sFile)"

(* Source: src/src/StringUtils.cpp 58-90 getAbsoluteDirectoryPath *)
definition getAbsoluteDirectoryPath :: "world \<Rightarrow> string \<Rightarrow> bool \<Rightarrow> string option" where
  "getAbsoluteDirectoryPath w sDir bCreateDir =
     (if sDir = [] then Some []
      else if existing w sDir
      then (if regular w sDir then None else real_path w sDir)
      else if bCreateDir
      then (if created w sDir then real_path w sDir else None)
      else None)"

definition output_directory :: "world \<Rightarrow> options \<Rightarrow> string" where
  "output_directory w opts = the (getAbsoluteDirectoryPath w (OutputDir opts) True)"

section \<open>Before the loop\<close>

(* Source: src/src/main.cpp 134-144 Init (arguments of a job) *)
definition main_files :: "string list \<Rightarrow> string \<times> string list \<Rightarrow> string list" where
  "main_files files job =
     (case job of (creator, JA) \<Rightarrow>
        if creator \<noteq> ''clang'' then []
        else map snd (filter (\<lambda>(previous, A). A \<in> set files \<and> previous = ''-main-file-name'') (zip JA (tl JA))))"

(* Source: src/src/main.cpp 132-147 Init (order of the files) *)
definition Init_files :: "(string \<times> string list) list \<Rightarrow> string list \<Rightarrow> string list" where
  "Init_files planned files =
     (if length files < 2 then files
      else
        let sortedFiles = concat (map (main_files files) planned)
        in if sortedFiles = [] then files else rev sortedFiles)"

(* Source: src/src/main.cpp 683-689 migrationReceiptLocalHeaderMode *)
definition migrationReceiptLocalHeaderMode :: "options \<Rightarrow> string" where
  "migrationReceiptLocalHeaderMode opts =
     (if OptLocalHeadersRecursive opts then ''recursive''
      else if OptLocalHeaders opts then ''direct'' else ''disabled'')"

(* Source: src/src/main.cpp 691-701 migrationReceiptOutputMode *)
definition migrationReceiptOutputMode :: "options \<Rightarrow> string" where
  "migrationReceiptOutputMode opts =
     (if NoOutput opts then ''no_output''
      else if Inplace opts then ''inplace''
      else if OutputDir opts \<noteq> [] then ''output_directory''
      else if OutputFilename opts \<noteq> [] then ''output_file''
      else ''side_by_side'')"

(* Source: src/src/main.cpp 719-724 migrationReceiptPathConflicts *)
definition migrationReceiptPathConflicts :: "world \<Rightarrow> string \<Rightarrow> string \<Rightarrow> bool" where
  "migrationReceiptPathConflicts w receiptPath artifactPath \<longleftrightarrow>
     receiptPath \<noteq> [] \<and> artifactPath \<noteq> [] \<and> comparable w receiptPath = comparable w artifactPath"

text \<open>The options that cannot go together; \<open>Some\<close> is the exit code.\<close>

(* Source: src/src/main.cpp 825-889 main (option conflicts) *)
definition option_conflict :: "world \<Rightarrow> options \<Rightarrow> int option" where
  "option_conflict w opts =
     (let sources = fileSources opts in
      if sources = [] \<and> \<not> Versions opts then Some 1
      else if StandaloneDeviceExecutable opts \<and> \<not> raw_inputs_valid w then Some 1
      else if StandaloneDeviceExecutable opts \<and> (length sources \<noteq> 1 \<or> \<not> OptLocalHeadersRecursive opts
        \<or> Inplace opts \<or> NoOutput opts \<or> opt_TargetPolicy opts \<noteq> ''dav-c310-vec'' \<or> opt_TargetRecipe opts \<noteq> ''none'')
      then Some 1
      else if sources = [] then Some 0
      else if getAbsoluteDirectoryPath w (OutputDir opts) True = None then Some 1
      else if OutputFilename opts \<noteq> [] \<and> (length sources > 1 \<or> Inplace opts \<or> NoOutput opts) then Some 1
      else if NoOutput opts \<and> Inplace opts then Some 1
      else if OutputDir opts \<noteq> [] \<and> Inplace opts then Some 1
      else if OutputDir opts \<noteq> [] \<and> length sources > 1
        \<and> \<not> distinct (map (\<lambda>source. file_name w source @ ''.dpp'') sources) then Some 1
      else None)"

(* Source: src/src/main.cpp 846-868 main (dst) *)
definition initial_dst :: "world \<Rightarrow> options \<Rightarrow> string" where
  "initial_dst w opts =
     (if OutputFilename opts \<noteq> [] \<and> OutputDir opts \<noteq> []
      then output_directory w opts @ ''/'' @ OutputFilename opts
      else OutputFilename opts)"

(* Source: src/src/main.cpp 890-892 main (Examine) *)
definition no_output :: "options \<Rightarrow> bool" where
  "no_output opts \<longleftrightarrow> Examine opts \<or> NoOutput opts"

(* Source: src/src/main.cpp 902-918 main (statistics file) *)
definition create_csv :: "options \<Rightarrow> bool" where
  "create_csv opts \<longleftrightarrow> OutputStatsFilename opts \<noteq> [] \<or> (PrintStatsCSV opts \<and> length (fileSources opts) > 1)"

(* Source: src/src/main.cpp 902-918 main (statistics file name) *)
definition csv_name :: "world \<Rightarrow> options \<Rightarrow> string" where
  "csv_name w opts =
     (let name = (if OutputStatsFilename opts \<noteq> [] then OutputStatsFilename opts else ''sum_stat.csv'') in
      if OutputDir opts \<noteq> [] then output_directory w opts @ ''/'' @ name else name)"

(* Source: src/src/main.cpp 929-942 main (prospectiveOutput) *)
definition prospective_output :: "world \<Rightarrow> options \<Rightarrow> string \<Rightarrow> string" where
  "prospective_output w opts source =
     (if no_output opts then []
      else if Inplace opts then source
      else if OutputFilename opts \<noteq> [] then initial_dst w opts
      else if OutputDir opts \<noteq> [] then output_directory w opts @ ''/'' @ file_name w source @ ''.dpp''
      else source @ ''.dpp'')"

(* Source: src/src/main.cpp 920-990 main (receipt conflicts) *)
definition receipt_conflicts :: "world \<Rightarrow> options \<Rightarrow> bool" where
  "receipt_conflicts w opts \<longleftrightarrow>
     (let path = MigrationReceiptPath opts; conflicts = migrationReceiptPathConflicts w path in
      path \<noteq> []
      \<and> (list_ex (\<lambda>source.
            conflicts source
            \<or> conflicts (prospective_output w opts source)
            \<or> (TemporaryDir opts \<noteq> []
               \<and> conflicts (the (getAbsoluteDirectoryPath w (TemporaryDir opts) True) @ ''/'' @ file_name w source @ ''.dpp''))
            \<or> (PrintStatsCSV opts \<and> \<not> create_csv opts
               \<and> conflicts (if OutputDir opts \<noteq> []
                  then output_directory w opts @ ''/'' @ file_name w source @ ''.csv''
                  else file_name w source @ ''.csv'')))
          (fileSources opts)
         \<or> (create_csv opts \<and> conflicts (csv_name w opts))))"

section \<open>One source\<close>

definition add_result :: "MigrationReceiptInput \<Rightarrow> driver_state \<Rightarrow> driver_state" where
  "add_result i st = st\<lparr>migrationReceipt := map_option (addInputResult i) (migrationReceipt st)\<rparr>"

text \<open>A \<open>continue\<close> of the loop: the input is recorded as failed at a stage and the exit code set.\<close>

definition give_up :: "MigrationReceiptInput \<Rightarrow> MigrationReceiptStage \<Rightarrow> string \<Rightarrow> driver_state \<Rightarrow> driver_state" where
  "give_up i stage summary st =
     (add_result (i\<lparr>in_status := Failed_Status, in_stage := stage, in_summary := summary\<rparr>) st)\<lparr>Result := 1\<rparr>"

(* Source: src/src/main.cpp 1079-1089 main (dst of a source) *)
definition choose_dst :: "world \<Rightarrow> options \<Rightarrow> string \<Rightarrow> string \<Rightarrow> string \<Rightarrow> string" where
  "choose_dst w opts src resolved d =
     (if d \<noteq> [] then d
      else if Inplace opts then src
      else if OutputDir opts \<noteq> []
      then output_directory w opts @ ''/'' @ file_name w resolved @ ''.dpp''
      else src @ ''.dpp'')"

(* Source: src/src/main.cpp 1132-1169 main (conversion) *)
definition convert_source :: "world \<Rightarrow> options \<Rightarrow> string \<Rightarrow> MigrationReceiptInput \<Rightarrow> driver_state \<Rightarrow> driver_state" where
  "convert_source w opts src i st =
     (let st = st\<lparr>registry := setActive src (file_contents w src) 0 (registry st)\<rparr>;
          outputPath = (if no_output opts then [] else dst st);
          st = st\<lparr>lastReceiptStage := SourceConversion, conversions := conversions st @ [(src, outputPath)]\<rparr>;
          conversionOk = converts w src outputPath;
          st = (if conversionOk then st
                else st\<lparr>registry := the (current (hasErrors_update (\<lambda>_. True)) (registry st)), Result := 1\<rparr>);
          i = i\<lparr>in_status := (if conversionOk then Succeeded else Failed_Status), in_stage := SourceConversion,
                in_definitions := (if conversionOk then definitions_of w src else 0),
                in_vec3 := (if conversionOk then vec3_of w src else in_vec3 i),
                in_profiler := (if conversionOk then profiler_of w src else in_profiler i),
                in_summary := (if conversionOk
                  then ''source conversion completed; later pipeline stages are outside this receipt''
                  else ''source conversion failed; detailed diagnostics were emitted on stderr'')\<rparr>
      in (add_result i st)\<lparr>dst := []\<rparr>)"

(* Source: src/src/main.cpp 1038-1170 main (loop body) *)
definition process_source :: "world \<Rightarrow> options \<Rightarrow> string \<Rightarrow> driver_state \<Rightarrow> driver_state" where
  "process_source w opts src st =
     (let i = new_input\<lparr>in_input := src\<rparr>; st = st\<lparr>lastReceiptStage := InputResolution\<rparr> in
      case getAbsoluteFilePath w src of
        None \<Rightarrow> give_up i InputResolution ''input path could not be resolved'' st
      | Some resolved \<Rightarrow>
          let i = i\<lparr>in_resolved := resolved\<rparr> in
          if (OptLocalHeaders opts \<or> OptLocalHeadersRecursive opts) \<and> aliased_root w src resolved
          then give_up i InputPreparation ''aliased local-header root has no lexical lookup proof'' st
          else
            let st = st\<lparr>dst := choose_dst w opts src resolved (dst st)\<rparr>;
                i = i\<lparr>in_output := (if no_output opts then [] else dst st)\<rparr>;
                st = st\<lparr>lastReceiptStage := InputPreparation\<rparr>
            in if TemporaryDir opts = [] \<and> \<not> temporary_created w src
               then give_up i InputPreparation ''conversion temporary file could not be created'' st
               else if \<not> copied w src
               then give_up i InputPreparation ''input could not be copied to the conversion temporary file'' st
               else convert_source w opts src i st)"

section \<open>The run\<close>

(* Source: src/src/main.cpp 1012-1027 finishWithMigrationReceipt *)
definition finishWithMigrationReceipt ::
    "world \<Rightarrow> int \<Rightarrow> MigrationReceiptStatus \<Rightarrow> MigrationReceiptStage \<Rightarrow> string \<Rightarrow> driver_state \<Rightarrow> int \<times> driver_state" where
  "finishWithMigrationReceipt w result status stage summary st =
     (case migrationReceipt st of
        None \<Rightarrow> (result, st)
      | Some r \<Rightarrow>
          let r = setInvocationResult status stage summary r; st = st\<lparr>migrationReceipt := Some r\<rparr>
          in if receipt_published w r then (result, st) else (1, st))"

(* Source: src/src/main.cpp 992-1003 main (receipt) *)
definition initial_receipt :: "options \<Rightarrow> MigrationReceipt option" where
  "initial_receipt opts =
     (if MigrationReceiptPath opts = [] then None
      else Some (new_receipt \<lparr>cfg_targetPolicy = opt_TargetPolicy opts, cfg_simtMath = opt_SimtMathMode opts,
        cfg_targetRecipe = opt_TargetRecipe opts, cfg_frontendCompatibility = opt_FrontendCompat opts,
        cfg_localHeaderClosure = migrationReceiptLocalHeaderMode opts,
        cfg_outputMode = migrationReceiptOutputMode (opts\<lparr>NoOutput := no_output opts\<rparr>)\<rparr>))"

definition initial_driver :: "world \<Rightarrow> options \<Rightarrow> driver_state" where
  "initial_driver w opts = \<lparr>dst = initial_dst w opts, Result = 0, migrationReceipt = initial_receipt opts,
     lastReceiptStage = Initialization, conversions = [], registry = new_registry\<rparr>"

(* Source: src/src/main.cpp 1035-1170 main (loop) *)
definition run_sources :: "world \<Rightarrow> options \<Rightarrow> driver_state" where
  "run_sources w opts =
     foldl (\<lambda>st src. process_source w opts src st) (initial_driver w opts) (Init_files (jobs w) (fileSources opts))"

(* Source: src/src/main.cpp 825-1183 main *)
definition driver_main :: "world \<Rightarrow> options \<Rightarrow> int \<times> driver_state" where
  "driver_main w opts =
     (case option_conflict w opts of
        Some code \<Rightarrow> (code, initial_driver w opts)
      | None \<Rightarrow>
          if getAbsoluteDirectoryPath w (TemporaryDir opts) True = None then (1, initial_driver w opts)
          else if receipt_conflicts w opts then (1, initial_driver w opts)
          else if (case initial_receipt opts of None \<Rightarrow> False | Some r \<Rightarrow> \<not> receipt_published w r)
          then (1, initial_driver w opts)
          else
            let st = run_sources w opts in
            if Result st = 0
            then finishWithMigrationReceipt w (Result st) Succeeded (lastReceiptStage st)
              ''all requested source conversions completed; target compilation, linking, and device validation are outside this receipt'' st
            else finishWithMigrationReceipt w (Result st) Failed_Status (lastReceiptStage st)
              ''one or more inputs failed; see per-input results and stderr diagnostics'' st)"

end
