(* ===== verification/Driver_Properties.thy ===== *)
theory Driver_Properties
  imports Driver
begin

text \<open>
  What a run of the driver does with its sources: where each is written, that exit code 0 means
  every source was converted and recorded, that the receipt is never written over an output; and
  three ways in which a source misses its own output.
\<close>

section \<open>One source\<close>

text \<open>The checks of a source before its conversion, up to and after the choice of its output.\<close>

definition reaches_output :: "world \<Rightarrow> options \<Rightarrow> string \<Rightarrow> bool" where
  "reaches_output w opts src \<longleftrightarrow>
     (case getAbsoluteFilePath w src of
        None \<Rightarrow> False
      | Some resolved \<Rightarrow> \<not> ((OptLocalHeaders opts \<or> OptLocalHeadersRecursive opts) \<and> aliased_root w src resolved))"

definition prepared :: "world \<Rightarrow> options \<Rightarrow> string \<Rightarrow> bool" where
  "prepared w opts src \<longleftrightarrow> reaches_output w opts src \<and> (TemporaryDir opts = [] \<longrightarrow> temporary_created w src) \<and> copied w src"

abbreviation resolved_path :: "world \<Rightarrow> string \<Rightarrow> string" where
  "resolved_path w src \<equiv> the (getAbsoluteFilePath w src)"

text \<open>The output that a source was meant for.\<close>

definition own_output :: "world \<Rightarrow> options \<Rightarrow> string \<Rightarrow> string" where
  "own_output w opts src =
     (if no_output opts then [] else choose_dst w opts src (resolved_path w src) (initial_dst w opts))"

lemma add_result_simps [simp]:
  "dst (add_result i st) = dst st" "Result (add_result i st) = Result st"
  "conversions (add_result i st) = conversions st" "lastReceiptStage (add_result i st) = lastReceiptStage st"
  "migrationReceipt (add_result i st) = map_option (addInputResult i) (migrationReceipt st)"
  by (simp_all add: add_result_def)

lemma give_up_simps [simp]:
  "dst (give_up i stage s st) = dst st" "Result (give_up i stage s st) = 1"
  "conversions (give_up i stage s st) = conversions st"
  by (simp_all add: give_up_def)

lemma convert_source_simps [simp]:
  "dst (convert_source w opts src i st) = []"
  "conversions (convert_source w opts src i st) = conversions st @ [(src, if no_output opts then [] else dst st)]"
  "Result (convert_source w opts src i st) = (if converts w src (if no_output opts then [] else dst st) then Result st else 1)"
  by (simp_all add: convert_source_def Let_def)

text \<open>A source leaves \<open>dst\<close> in one of three ways.\<close>

lemma process_dst:
  "dst (process_source w opts src st) =
     (if \<not> reaches_output w opts src then dst st
      else if prepared w opts src then []
      else choose_dst w opts src (resolved_path w src) (dst st))"
  by (auto simp: process_source_def reaches_output_def prepared_def Let_def split: option.splits)

lemma process_conversions:
  "conversions (process_source w opts src st) =
     conversions st @ (if prepared w opts src
       then [(src, if no_output opts then [] else choose_dst w opts src (resolved_path w src) (dst st))] else [])"
  by (auto simp: process_source_def reaches_output_def prepared_def Let_def split: option.splits)

lemma process_result:
  "Result (process_source w opts src st) = 0 \<longleftrightarrow>
     Result st = 0 \<and> prepared w opts src
     \<and> converts w src (if no_output opts then [] else choose_dst w opts src (resolved_path w src) (dst st))"
  by (auto simp: process_source_def reaches_output_def prepared_def Let_def split: option.splits)

section \<open>The loop\<close>

abbreviation loop :: "world \<Rightarrow> options \<Rightarrow> string list \<Rightarrow> driver_state \<Rightarrow> driver_state" where
  "loop w opts files st \<equiv> foldl (\<lambda>st src. process_source w opts src st) st files"

definition sources_run :: "world \<Rightarrow> options \<Rightarrow> string list" where
  "sources_run w opts = Init_files (jobs w) (fileSources opts)"

lemma run_sources_loop: "run_sources w opts = loop w opts (sources_run w opts) (initial_driver w opts)"
  by (simp add: run_sources_def sources_run_def)

lemma initial_driver_simps [simp]:
  "dst (initial_driver w opts) = initial_dst w opts" "Result (initial_driver w opts) = 0"
  "conversions (initial_driver w opts) = []" "migrationReceipt (initial_driver w opts) = initial_receipt opts"
  by (simp_all add: initial_driver_def)

lemma initial_dst_empty: "initial_dst w opts = [] \<longleftrightarrow> OutputFilename opts = []"
  by (simp add: initial_dst_def)

lemma Init_files_subset: "set (Init_files js files) \<subseteq> set files"
  by (auto simp: Init_files_def main_files_def Let_def split: if_splits)

lemma sources_run_subset: "set (sources_run w opts) \<subseteq> set (fileSources opts)"
  unfolding sources_run_def by (rule Init_files_subset)

lemma accepted_options:
  assumes "option_conflict w opts = None"
  shows "OutputFilename opts \<noteq> [] \<Longrightarrow> length (fileSources opts) = 1 \<and> \<not> Inplace opts \<and> \<not> NoOutput opts"
    and "OutputDir opts \<noteq> [] \<Longrightarrow> \<not> Inplace opts"
    and "OutputDir opts \<noteq> [] \<Longrightarrow> distinct (map (file_name w) (fileSources opts))"
    and "fileSources opts \<noteq> []"
proof -
  have some: "fileSources opts \<noteq> []"
    using assms by (auto simp: option_conflict_def Let_def split: if_splits)
  then show "fileSources opts \<noteq> []" .
  show "OutputFilename opts \<noteq> [] \<Longrightarrow> length (fileSources opts) = 1 \<and> \<not> Inplace opts \<and> \<not> NoOutput opts"
    using assms some by (cases "fileSources opts"; cases "tl (fileSources opts)")
      (simp_all add: option_conflict_def Let_def split: if_splits)
  show "OutputDir opts \<noteq> [] \<Longrightarrow> \<not> Inplace opts"
    using assms by (auto simp: option_conflict_def Let_def split: if_splits)
  have "distinct (map (\<lambda>source. file_name w source @ ''.dpp'') (fileSources opts))" if "OutputDir opts \<noteq> []"
    using assms some that by (cases "fileSources opts"; cases "tl (fileSources opts)")
      (simp_all add: option_conflict_def Let_def split: if_splits)
  then show "OutputDir opts \<noteq> [] \<Longrightarrow> distinct (map (file_name w) (fileSources opts))"
    by (simp add: distinct_map inj_on_def)
qed

lemma loop_outputs:
  assumes "\<forall>s \<in> set files. prepared w opts s" and "dst st = []"
  shows "conversions (loop w opts files st) = conversions st
    @ map (\<lambda>s. (s, if no_output opts then [] else choose_dst w opts s (resolved_path w s) [])) files"
  using assms
proof (induction files arbitrary: st)
  case (Cons s files)
  then have "prepared w opts s" "reaches_output w opts s"
    by (simp_all add: prepared_def)
  then show ?case
    using Cons.IH[of "process_source w opts s st"] Cons.prems by (simp add: process_dst process_conversions)
qed simp

lemma single_source: "length (fileSources opts) = 1 \<Longrightarrow> \<exists>s. sources_run w opts = [s] \<and> fileSources opts = [s]"
  by (cases "fileSources opts") (simp_all add: sources_run_def Init_files_def)

lemma run_outputs:
  assumes "option_conflict w opts = None" and "\<forall>s \<in> set (sources_run w opts). prepared w opts s"
  shows "conversions (run_sources w opts) = map (\<lambda>s. (s, own_output w opts s)) (sources_run w opts)"
proof (cases "OutputFilename opts = []")
  case True
  then have "initial_dst w opts = []"
    by (simp add: initial_dst_empty)
  then show ?thesis
    using loop_outputs[OF assms(2), of "initial_driver w opts"]
    by (simp add: run_sources_loop own_output_def)
next
  case False
  then obtain s where "sources_run w opts = [s]"
    using accepted_options(1)[OF assms(1)] single_source by blast
  then show ?thesis
    using assms(2) by (simp add: run_sources_loop own_output_def process_conversions)
qed



definition base_name :: "string \<Rightarrow> string" where
  "base_name p = rev (takeWhile (\<lambda>c. c \<noteq> CHR ''/'') (rev p))"

text \<open>A world in which every operation works, and the options of a plain run.\<close>

definition plain_world :: world where
  "plain_world = \<lparr>existing = \<lambda>_. True, regular = \<lambda>_. False, created = \<lambda>_. True, raw_inputs_valid = True,
     real_path = Some, file_name = base_name, comparable = id, aliased_root = \<lambda>_ _. False, jobs = [],
     temporary_created = \<lambda>_. True, copied = \<lambda>_. True, converts = \<lambda>_ _. True, definitions_of = \<lambda>_. 0,
     vec3_of = \<lambda>_. [], profiler_of = \<lambda>_. [], receipt_published = \<lambda>_. True, file_contents = \<lambda>_. None\<rparr>"

definition plain_options :: "string list \<Rightarrow> options" where
  "plain_options files = \<lparr>fileSources = files, OutputFilename = [], OutputDir = [], TemporaryDir = [],
     OutputStatsFilename = [], MigrationReceiptPath = [], Inplace = False, NoOutput = False, Versions = False,
     Examine = False, PrintStatsCSV = False, OptLocalHeaders = False, OptLocalHeadersRecursive = False,
     StandaloneDeviceExecutable = False, opt_TargetPolicy = ''generic'', opt_SimtMathMode = ''exact'',
     opt_TargetRecipe = ''none'', opt_FrontendCompat = ''none''\<rparr>"


section \<open>Sources that miss their output\<close>

text \<open>C99 (error). \<open>dst\<close> is cleared only at the end of the loop's body: when a source fails after its
  output was chosen (no temporary file, or it cannot be copied), the next source of the run is
  written to the output of the failed one.  With \<open>--inplace\<close> that is the failed source's own file.\<close>
theorem stale_output_path:
  assumes "reaches_output w opts src1" and "\<not> prepared w opts src1" and "prepared w opts src2"
    and "\<not> no_output opts" and "dst st = []" and "src1 \<noteq> []"
  shows "conversions (process_source w opts src2 (process_source w opts src1 st))
      = conversions st @ [(src2, choose_dst w opts src1 (resolved_path w src1) [])]"
proof -
  have "choose_dst w opts src1 (resolved_path w src1) [] \<noteq> []"
    using assms(6) by (simp add: choose_dst_def)
  then have "choose_dst w opts src2 r (choose_dst w opts src1 (resolved_path w src1) [])
      = choose_dst w opts src1 (resolved_path w src1) []" for r
    by (simp add: choose_dst_def[of w opts src2])
  then show ?thesis
    using assms by (simp add: process_conversions process_dst)
qed

text \<open>The second source overwrites the file of the first, which cannot be copied.\<close>

lemma stale_output_path_witness:
  "let w = plain_world\<lparr>copied := \<lambda>p. p \<noteq> ''a.cu''\<rparr>; opts = plain_options [''a.cu'', ''b.cu'']\<lparr>Inplace := True\<rparr> in
     conversions (run_sources w opts) = [(''b.cu'', ''a.cu'')]"
proof -
  let ?w = "plain_world\<lparr>copied := \<lambda>p. p \<noteq> ''a.cu''\<rparr>" and ?opts = "plain_options [''a.cu'', ''b.cu'']\<lparr>Inplace := True\<rparr>"
  have "sources_run ?w ?opts = [''a.cu'', ''b.cu'']"
    by (simp add: sources_run_def Init_files_def plain_world_def plain_options_def)
  moreover have "reaches_output ?w ?opts ''a.cu''" "\<not> prepared ?w ?opts ''a.cu''" "prepared ?w ?opts ''b.cu''"
    "\<not> no_output ?opts" "initial_dst ?w ?opts = []" "choose_dst ?w ?opts ''a.cu'' r [] = ''a.cu''" for r
    by (simp_all add: prepared_def reaches_output_def getAbsoluteFilePath_def no_output_def initial_dst_def
        choose_dst_def plain_world_def plain_options_def)
  ultimately show ?thesis
    using stale_output_path[of ?w ?opts "''a.cu''" "''b.cu''" "initial_driver ?w ?opts"]
    by (simp add: run_sources_loop Let_def)
qed

text \<open>The test for two sources with one output compares the names given on the command
  line, the output is named after the file a source resolves to: two links of different names to
  files of the same name in different directories pass the test and get the same output.\<close>
theorem linked_sources_collide:
  assumes "option_conflict w opts = None" and "\<forall>s \<in> set (sources_run w opts). prepared w opts s"
    and "OutputDir opts \<noteq> []" and "OutputFilename opts = []" and "\<not> no_output opts"
    and "sources_run w opts = [s1, s2]"
    and "file_name w (resolved_path w s1) = file_name w (resolved_path w s2)"
  shows "\<exists>p. conversions (run_sources w opts) = [(s1, p), (s2, p)]"
proof -
  have "own_output w opts s1 = own_output w opts s2"
    using accepted_options(2)[OF assms(1,3)] assms by (simp add: own_output_def choose_dst_def initial_dst_def)
  then show ?thesis
    using run_outputs[OF assms(1,2)] assms(6) by simp
qed

lemma linked_sources_collide_witness:
  "let w = plain_world\<lparr>real_path := \<lambda>p. Some (if p = ''x.cu'' then ''a/k.cu'' else ''b/k.cu'')\<rparr>;
       opts = plain_options [''x.cu'', ''y.cu'']\<lparr>OutputDir := ''out''\<rparr> in
     fst (driver_main w opts) = 0 \<and> (\<exists>p. conversions (run_sources w opts) = [(''x.cu'', p), (''y.cu'', p)])"
proof -
  let ?w = "plain_world\<lparr>real_path := \<lambda>p. Some (if p = ''x.cu'' then ''a/k.cu'' else ''b/k.cu'')\<rparr>"
  let ?opts = "plain_options [''x.cu'', ''y.cu'']\<lparr>OutputDir := ''out''\<rparr>"
  have "fst (driver_main ?w ?opts) = 0" "option_conflict ?w ?opts = None" "OutputDir ?opts \<noteq> []" "OutputFilename ?opts = []"
    "\<not> no_output ?opts" "sources_run ?w ?opts = [''x.cu'', ''y.cu'']"
    "file_name ?w (resolved_path ?w ''x.cu'') = file_name ?w (resolved_path ?w ''y.cu'')"
    by code_simp+
  moreover have "\<forall>s \<in> set (sources_run ?w ?opts). prepared ?w ?opts s"
    by (simp add: prepared_def reaches_output_def getAbsoluteFilePath_def plain_world_def plain_options_def)
  ultimately show ?thesis
    using linked_sources_collide[of ?w ?opts "''x.cu''" "''y.cu''"] by (simp add: Let_def)
qed

section \<open>Sources that are dropped\<close>




lemma finish_simps [simp]:
  "conversions (snd (finishWithMigrationReceipt w result status stage summary st)) = conversions st"
  by (simp add: finishWithMigrationReceipt_def Let_def split: option.split)

lemma driver_conversions:
  "conversions (snd (driver_main w opts)) = [] \<or>
   conversions (snd (driver_main w opts)) = conversions (run_sources w opts)"
  by (simp add: driver_main_def Let_def split: option.split)



section \<open>The exit code and the receipt\<close>

definition converted :: "world \<Rightarrow> options \<Rightarrow> string \<Rightarrow> driver_state \<Rightarrow> bool" where
  "converted w opts src st \<longleftrightarrow> prepared w opts src
     \<and> converts w src (if no_output opts then [] else choose_dst w opts src (resolved_path w src) (dst st))"

lemma process_receipt:
  "\<exists>i. migrationReceipt (process_source w opts src st) = map_option (addInputResult i) (migrationReceipt st)
     \<and> in_input i = src
     \<and> (if converted w opts src st
        then in_status i = Succeeded
          \<and> in_output i = (if no_output opts then [] else choose_dst w opts src (resolved_path w src) (dst st))
        else in_status i = Failed_Status)"
  by (auto simp: process_source_def convert_source_def give_up_def reaches_output_def prepared_def converted_def Let_def
      new_input_def split: option.splits)

definition receipt_inputs :: "driver_state \<Rightarrow> MigrationReceiptInput list" where
  "receipt_inputs st = (case migrationReceipt st of None \<Rightarrow> [] | Some r \<Rightarrow> rc_inputs r)"

definition done_pairs :: "MigrationReceiptInput list \<Rightarrow> (string \<times> string) list" where
  "done_pairs is = map (\<lambda>i. (in_input i, in_output i)) (filter (\<lambda>i. in_status i = Succeeded) is)"

lemma process_recorded:
  assumes "migrationReceipt st \<noteq> None"
  shows "migrationReceipt (process_source w opts src st) \<noteq> None
    \<and> map in_input (receipt_inputs (process_source w opts src st)) = map in_input (receipt_inputs st) @ [src]
    \<and> done_pairs (receipt_inputs (process_source w opts src st)) = done_pairs (receipt_inputs st)
      @ filter (\<lambda>(s, p). converts w s p) (drop (length (conversions st)) (conversions (process_source w opts src st)))"
proof -
  obtain i where i: "migrationReceipt (process_source w opts src st) = map_option (addInputResult i) (migrationReceipt st)"
    "in_input i = src"
    "if converted w opts src st
        then in_status i = Succeeded
          \<and> in_output i = (if no_output opts then [] else choose_dst w opts src (resolved_path w src) (dst st))
        else in_status i = Failed_Status"
    using process_receipt by blast
  obtain r where "migrationReceipt st = Some r"
    using assms by blast
  then have inputs: "receipt_inputs (process_source w opts src st) = receipt_inputs st @ [i]"
    "migrationReceipt (process_source w opts src st) \<noteq> None"
    by (simp_all add: receipt_inputs_def i(1) addInputResult_def)
  show ?thesis
    using i(2,3) by (auto simp: inputs done_pairs_def process_conversions converted_def)
qed

lemma process_extends:
  "\<exists>more. conversions (process_source w opts src st) = conversions st @ more"
  by (simp add: process_conversions)

lemma loop_recorded:
  assumes "migrationReceipt st \<noteq> None" and "done_pairs (receipt_inputs st) = filter (\<lambda>(s, p). converts w s p) (conversions st)"
  shows "migrationReceipt (loop w opts files st) \<noteq> None
    \<and> map in_input (receipt_inputs (loop w opts files st)) = map in_input (receipt_inputs st) @ files
    \<and> done_pairs (receipt_inputs (loop w opts files st)) = filter (\<lambda>(s, p). converts w s p) (conversions (loop w opts files st))"
  using assms
proof (induction files arbitrary: st)
  case (Cons s files)
  obtain more where more: "conversions (process_source w opts s st) = conversions st @ more"
    using process_extends by blast
  show ?case
    using Cons.IH[of "process_source w opts s st"] process_recorded[OF Cons.prems(1), of w opts s] Cons.prems(2)
    by (simp add: more)
qed simp

lemma failure_stays: "Result st \<noteq> 0 \<Longrightarrow> Result (loop w opts files st) \<noteq> 0"
  by (induction files arbitrary: st) (simp_all add: process_result)

lemma loop_result:
  assumes "Result (loop w opts files st) = 0" and "\<forall>(s, p) \<in> set (conversions st). converts w s p"
  shows "Result st = 0 \<and> map fst (conversions (loop w opts files st)) = map fst (conversions st) @ files
    \<and> (\<forall>(s, p) \<in> set (conversions (loop w opts files st)). converts w s p)"
  using assms
proof (induction files arbitrary: st)
  case (Cons s files)
  have "Result (process_source w opts s st) = 0"
    using Cons.prems(1) failure_stays[of "process_source w opts s st"] by auto
  then have "Result st = 0 \<and> prepared w opts s
     \<and> converts w s (if no_output opts then [] else choose_dst w opts s (resolved_path w s) (dst st))"
    using Cons.prems(1) process_result by simp
  then show ?case
    using Cons.IH[of "process_source w opts s st"] Cons.prems by (simp add: process_conversions)
qed simp

lemma initial_receipt_some: "initial_receipt opts = None \<longleftrightarrow> MigrationReceiptPath opts = []"
  by (simp add: initial_receipt_def)

lemma initial_recorded:
  "MigrationReceiptPath opts \<noteq> [] \<Longrightarrow> migrationReceipt (initial_driver w opts) \<noteq> None \<and> receipt_inputs (initial_driver w opts) = []"
  by (simp add: initial_receipt_def receipt_inputs_def new_receipt_def)

lemma run_recorded:
  assumes "MigrationReceiptPath opts \<noteq> []"
  shows "migrationReceipt (run_sources w opts) \<noteq> None
    \<and> map in_input (receipt_inputs (run_sources w opts)) = sources_run w opts
    \<and> done_pairs (receipt_inputs (run_sources w opts)) = filter (\<lambda>(s, p). converts w s p) (conversions (run_sources w opts))"
  using loop_recorded[of "initial_driver w opts" w opts "sources_run w opts"] initial_recorded[OF assms, of w]
  by (simp add: run_sources_loop done_pairs_def)

lemma no_receipt: "MigrationReceiptPath opts = [] \<Longrightarrow> migrationReceipt (run_sources w opts) = None"
proof -
  have "migrationReceipt (process_source w opts s st) = None" if "migrationReceipt st = None" for s st
    using process_receipt[of w opts s st] that by auto
  then have "migrationReceipt (loop w opts files st) = None" if "migrationReceipt st = None" for files st
    using that by (induction files arbitrary: st) simp_all
  then show "MigrationReceiptPath opts = [] \<Longrightarrow> migrationReceipt (run_sources w opts) = None"
    by (simp add: run_sources_loop initial_receipt_some)
qed

text \<open>C9 (functional). The receipt of a run has one entry for each source of the run, in order, and
  those marked as succeeded are exactly the conversions that succeeded, each with the path it was
  really written to, whatever failed before or after.\<close>
theorem receipt_entries_exact:
  assumes "MigrationReceiptPath opts \<noteq> []" and "st = run_sources w opts"
  shows "map in_input (receipt_inputs st) = sources_run w opts
    \<and> done_pairs (receipt_inputs st) = filter (\<lambda>(s, p). converts w s p) (conversions st)"
  using run_recorded[OF assms(1), of w] by (simp add: assms(2))

lemma receipt_entries_exact_witness:
  "let w = plain_world\<lparr>converts := \<lambda>s _. s \<noteq> ''b.cu''\<rparr>;
       opts = plain_options [''a.cu'', ''b.cu'', ''c.cu'']\<lparr>MigrationReceiptPath := ''r.json''\<rparr>;
       st = run_sources w opts in
     map in_input (receipt_inputs st) = [''a.cu'', ''b.cu'', ''c.cu'']
     \<and> done_pairs (receipt_inputs st) = [(''a.cu'', ''a.cu.dpp''), (''c.cu'', ''c.cu.dpp'')]"
proof -
  let ?w = "plain_world\<lparr>converts := \<lambda>s _. s \<noteq> ''b.cu''\<rparr>"
  let ?opts = "plain_options [''a.cu'', ''b.cu'', ''c.cu'']\<lparr>MigrationReceiptPath := ''r.json''\<rparr>"
  have "sources_run ?w ?opts = [''a.cu'', ''b.cu'', ''c.cu'']"
    "filter (\<lambda>(s, p). converts ?w s p) (conversions (run_sources ?w ?opts)) = [(''a.cu'', ''a.cu.dpp''), (''c.cu'', ''c.cu.dpp'')]"
    by code_simp+
  then show ?thesis
    using receipt_entries_exact[of ?opts _ ?w, OF _ refl] by (simp add: plain_options_def Let_def)
qed

lemma run_success:
  assumes "Result (run_sources w opts) = 0"
  shows "map fst (conversions (run_sources w opts)) = sources_run w opts
    \<and> (\<forall>(s, p) \<in> set (conversions (run_sources w opts)). converts w s p)"
  using loop_result[of w opts "initial_driver w opts" "sources_run w opts"] assms by (simp add: run_sources_loop)

lemma driver_zero:
  assumes "driver_main w opts = (0, st)" and "option_conflict w opts = None"
  shows "Result (run_sources w opts) = 0 \<and> conversions st = conversions (run_sources w opts)
    \<and> migrationReceipt st = map_option (setInvocationResult Succeeded (lastReceiptStage (run_sources w opts))
        ''all requested source conversions completed; target compilation, linking, and device validation are outside this receipt'')
        (migrationReceipt (run_sources w opts))
    \<and> (\<forall>r. migrationReceipt st = Some r \<longrightarrow> receipt_published w r)"
  using assms
  by (cases "migrationReceipt (run_sources w opts)")
    (auto simp: driver_main_def finishWithMigrationReceipt_def Let_def simp del: append_Cons split: if_splits option.splits)

lemma all_done:
  assumes "length (done_pairs is) = length is"
  shows "list_all (\<lambda>i. in_status i = Succeeded) is \<and> done_pairs is = map (\<lambda>i. (in_input i, in_output i)) is"
proof -
  have "filter (\<lambda>i. in_status i = Succeeded) is = is"
    using assms length_filter_less[of _ "is" "\<lambda>i. in_status i = Succeeded"] by (fastforce simp: done_pairs_def filter_id_conv)
  then show ?thesis
    by (simp add: done_pairs_def list_all_iff filter_id_conv)
qed

lemma success_receipt:
  assumes "Result (run_sources w opts) = 0" and "migrationReceipt (run_sources w opts) = Some r"
  shows "map (\<lambda>i. (in_input i, in_output i)) (rc_inputs r) = conversions (run_sources w opts)
    \<and> list_all (\<lambda>i. in_status i = Succeeded) (rc_inputs r)"
proof -
  let ?cs = "conversions (run_sources w opts)"
  have path: "MigrationReceiptPath opts \<noteq> []"
    using assms(2) no_receipt by fastforce
  have "filter (\<lambda>(s, p). converts w s p) ?cs = ?cs"
    using run_success[OF assms(1)] by (simp add: filter_id_conv)
  then have recorded: "map in_input (rc_inputs r) = sources_run w opts" "done_pairs (rc_inputs r) = ?cs"
    using run_recorded[OF path, of w] assms(2) by (simp_all add: receipt_inputs_def)
  have "length (rc_inputs r) = length ?cs"
    using run_success[OF assms(1)] recorded(1) by (metis length_map)
  then show ?thesis
    using all_done[of "rc_inputs r"] recorded(2) by simp
qed

text \<open>C6 (safety). Exit code 0 of a run with sources is a promise: every source of the run was
  converted, with success, and the receipt that was asked for is published, marks the run as
  succeeded and holds for every source, in order, a succeeded entry with its output.\<close>
theorem exit_zero_sound:
  assumes "driver_main w opts = (0, st)" and "option_conflict w opts = None"
  shows "map fst (conversions st) = sources_run w opts
    \<and> (\<forall>(s, p) \<in> set (conversions st). converts w s p)
    \<and> (case migrationReceipt st of None \<Rightarrow> MigrationReceiptPath opts = []
       | Some r \<Rightarrow> receipt_published w r \<and> rc_status r = Succeeded
          \<and> map (\<lambda>i. (in_input i, in_output i)) (rc_inputs r) = conversions st
          \<and> list_all (\<lambda>i. in_status i = Succeeded) (rc_inputs r))"
proof -
  note zero = driver_zero[OF assms]
  have "MigrationReceiptPath opts = []" if "migrationReceipt (run_sources w opts) = None"
    using that run_recorded by blast
  then show ?thesis
    using zero run_success[of w opts] success_receipt[of w opts]
    by (cases "migrationReceipt (run_sources w opts)") (simp_all add: setInvocationResult_def)
qed

lemma exit_zero_sound_witness:
  "let opts = plain_options [''a.cu'', ''b.cu'']\<lparr>MigrationReceiptPath := ''r.json''\<rparr>;
       (code, st) = driver_main plain_world opts in
     code = 0 \<and> map fst (conversions st) = [''a.cu'', ''b.cu'']"
proof -
  let ?opts = "plain_options [''a.cu'', ''b.cu'']\<lparr>MigrationReceiptPath := ''r.json''\<rparr>"
  obtain code st where run: "driver_main plain_world ?opts = (code, st)"
    by fastforce
  have "fst (driver_main plain_world ?opts) = 0" "option_conflict plain_world ?opts = None"
    "sources_run plain_world ?opts = [''a.cu'', ''b.cu'']"
    by code_simp+
  then show ?thesis
    using exit_zero_sound[of plain_world ?opts st] run by (simp add: Let_def)
qed

section \<open>The receipt is not an output\<close>

abbreviation prospective :: "world \<Rightarrow> options \<Rightarrow> string set" where
  "prospective w opts \<equiv> prospective_output w opts ` set (fileSources opts)"

lemma process_outputs:
  assumes "snd ` set (conversions st) \<subseteq> P"
    and "(if no_output opts then [] else choose_dst w opts src (resolved_path w src) (dst st)) \<in> P"
  shows "snd ` set (conversions (process_source w opts src st)) \<subseteq> P"
  using assms by (auto simp: process_conversions)

lemma chosen_prospective:
  assumes "\<not> no_output opts" and "OutputFilename opts = []" and "OutputDir opts \<noteq> [] \<Longrightarrow> \<not> Inplace opts"
    and "OutputDir opts \<noteq> [] \<Longrightarrow> file_name w (resolved_path w s) = file_name w s"
    and "s \<in> set (fileSources opts)" and "d = [] \<or> d \<in> prospective w opts"
  shows "choose_dst w opts s (resolved_path w s) d \<in> prospective w opts"
proof (cases "d = []")
  case True
  then have "choose_dst w opts s (resolved_path w s) d = prospective_output w opts s"
    using assms(1-4) by (simp add: choose_dst_def prospective_output_def)
  then show ?thesis
    using assms(5) by simp
next
  case False
  then show ?thesis
    using assms(6) by (simp add: choose_dst_def)
qed

lemma loop_prospective:
  assumes "\<not> no_output opts" and "OutputFilename opts = []" and "OutputDir opts \<noteq> [] \<Longrightarrow> \<not> Inplace opts"
    and "\<And>s. OutputDir opts \<noteq> [] \<Longrightarrow> s \<in> set (fileSources opts) \<Longrightarrow> file_name w (resolved_path w s) = file_name w s"
    and "set files \<subseteq> set (fileSources opts)" and "dst st = [] \<or> dst st \<in> prospective w opts"
    and "snd ` set (conversions st) \<subseteq> prospective w opts"
  shows "snd ` set (conversions (loop w opts files st)) \<subseteq> prospective w opts"
  using assms(5-7)
proof (induction files arbitrary: st)
  case (Cons s files)
  then have chosen: "choose_dst w opts s (resolved_path w s) (dst st) \<in> prospective w opts"
    using chosen_prospective[OF assms(1-3), of w s "dst st"] assms(4) by simp
  have "snd ` set (conversions (process_source w opts s st)) \<subseteq> prospective w opts"
    using process_outputs[OF Cons.prems(3)] chosen assms(1) by simp
  moreover have "dst (process_source w opts s st) = [] \<or> dst (process_source w opts s st) \<in> prospective w opts"
    using Cons.prems(2) chosen by (simp add: process_dst)
  ultimately show ?case
    using Cons.IH[of "process_source w opts s st"] Cons.prems(1) by simp
qed simp

lemma run_prospective:
  assumes "option_conflict w opts = None" and "\<not> no_output opts"
    and "\<And>s. OutputDir opts \<noteq> [] \<Longrightarrow> s \<in> set (fileSources opts) \<Longrightarrow> file_name w (resolved_path w s) = file_name w s"
  shows "snd ` set (conversions (run_sources w opts)) \<subseteq> prospective w opts"
proof (cases "OutputFilename opts = []")
  case True
  then show ?thesis
    using loop_prospective[OF assms(2) True accepted_options(2)[OF assms(1)] assms(3) sources_run_subset]
    by (simp add: run_sources_loop initial_dst_empty)
next
  case False
  then obtain s where s: "sources_run w opts = [s]" "fileSources opts = [s]" "\<not> Inplace opts"
    using accepted_options(1)[OF assms(1)] single_source by blast
  have "initial_dst w opts \<noteq> []"
    using False by (simp add: initial_dst_empty)
  then show ?thesis
    using s assms(2) False process_outputs[of "initial_driver w opts" "prospective w opts" opts w s]
    by (simp add: run_sources_loop choose_dst_def prospective_output_def)
qed

lemma no_conflict_prospective:
  assumes "\<not> receipt_conflicts w opts" and "s \<in> set (fileSources opts)"
  shows "\<not> migrationReceiptPathConflicts w (MigrationReceiptPath opts) (prospective_output w opts s)"
  using assms by (auto simp: receipt_conflicts_def migrationReceiptPathConflicts_def Let_def list_ex_iff)

lemma no_output_conversions: "no_output opts \<Longrightarrow> snd ` set (conversions st) \<subseteq> {[]} \<Longrightarrow>
    snd ` set (conversions (loop w opts files st)) \<subseteq> {[]}"
proof (induction files arbitrary: st)
  case (Cons s files)
  then have "snd ` set (conversions (process_source w opts s st)) \<subseteq> {[]}"
    by (intro process_outputs) simp_all
  then show ?case
    using Cons.IH Cons.prems(1) by simp
qed simp

text \<open>The receipt never shares its path with a file that a conversion writes, whatever
  fails on the way, provided that under \<open>-o-dir\<close> no source is a link to a file of another name.\<close>
theorem receipt_never_overwritten:
  assumes "OutputDir opts \<noteq> [] \<longrightarrow> (\<forall>s \<in> set (fileSources opts). file_name w (resolved_path w s) = file_name w s)"
    and "(s, p) \<in> set (conversions (snd (driver_main w opts)))"
  shows "\<not> migrationReceiptPathConflicts w (MigrationReceiptPath opts) p"
proof -
  have some: "conversions (snd (driver_main w opts)) \<noteq> []"
    using assms(2) by auto
  then have run: "option_conflict w opts = None" "\<not> receipt_conflicts w opts"
    by (auto simp: driver_main_def split: option.splits if_splits)
  have made: "p \<in> snd ` set (conversions (run_sources w opts))"
    using driver_conversions[of w opts] some assms(2) by force
  show ?thesis
  proof (cases "no_output opts")
    case True
    then have "p = []"
      using made no_output_conversions[OF True, of "initial_driver w opts"] by (auto simp: run_sources_loop)
    then show ?thesis
      by (simp add: migrationReceiptPathConflicts_def)
  next
    case False
    then have "p \<in> prospective w opts"
      using made run_prospective[OF run(1) False] assms(1) by blast
    then show ?thesis
      using no_conflict_prospective[OF run(2)] by blast
  qed
qed

lemma receipt_never_overwritten_witness:
  "let opts = plain_options [''a/x.cu'']\<lparr>OutputDir := ''out'', MigrationReceiptPath := ''out/r.json''\<rparr> in
     conversions (snd (driver_main plain_world opts)) = [(''a/x.cu'', ''out/x.cu.dpp'')]
     \<and> \<not> migrationReceiptPathConflicts plain_world ''out/r.json'' ''out/x.cu.dpp''"
proof -
  let ?opts = "plain_options [''a/x.cu'']\<lparr>OutputDir := ''out'', MigrationReceiptPath := ''out/r.json''\<rparr>"
  have "conversions (snd (driver_main plain_world ?opts)) = [(''a/x.cu'', ''out/x.cu.dpp'')]"
    by code_simp
  then show ?thesis
    using receipt_never_overwritten[of ?opts plain_world "''a/x.cu''" "''out/x.cu.dpp''"]
    by (simp add: Let_def plain_world_def plain_options_def getAbsoluteFilePath_def)
qed

end
