(* ===== verification/Texture_Registry.thy ===== *)
theory Texture_Registry
  imports Cuda_Api
begin

text \<open>
  The host side of the texture layer, \<open>include/ascify/texture_compat.hpp\<close>: the fixed slots of
  arrays, pitched allocations and texture objects, their creation, copies and release.  The
  registry extends the state of the runtime.  A \<open>cudaArray_t\<close> is the number of its slot.
\<close>

section \<open>Types\<close>

(* Source: src/include/ascify/texture_types.hpp 31-36 cudaChannelFormatKind *)
datatype cudaChannelFormatKind =
    cudaChannelFormatKindSigned | cudaChannelFormatKindUnsigned | cudaChannelFormatKindFloat | cudaChannelFormatKindNone

(* Source: src/include/ascify/texture_types.hpp 37-40 cudaChannelFormatDesc *)
record cudaChannelFormatDesc =
  cd_x :: int
  cd_y :: int
  cd_z :: int
  cd_w :: int
  cd_f :: cudaChannelFormatKind

(* Source: src/include/ascify/texture_sampling.hpp 28-30 TextureTopology *)
datatype TextureTopology = TextureTopologyPlain | TextureTopologyLayered | TextureTopologyCube

(* Source: src/include/ascify/texture_compat.hpp 9-10 TextureChannelKind *)
datatype TextureChannelKind =
    TextureChannelInvalid | TextureChannelFloat | TextureChannelUnsigned | TextureChannelRGBA

(* Source: src/include/ascify/texture_compat.hpp 15-25 TextureAllocation *)
record TextureAllocation =
  ta_storage :: ptr
  ta_bytes :: u64
  ta_pitch :: u64
  ta_width :: u64
  ta_height :: u64
  ta_layers :: u64
  ta_device :: int
  ta_context :: ptr
  ta_references :: nat
  ta_array :: bool
  ta_topology :: TextureTopology
  ta_channel_kind :: TextureChannelKind
  ta_borrowed :: bool

(* Source: src/include/ascify/texture_compat.hpp 15-25 TextureAllocation (initial values) *)
definition empty_record :: TextureAllocation where
  "empty_record = \<lparr>ta_storage = 0, ta_bytes = 0, ta_pitch = 0, ta_width = 0, ta_height = 0, ta_layers = 0,
     ta_device = -1, ta_context = 0, ta_references = 0, ta_array = False, ta_topology = TextureTopologyPlain,
     ta_channel_kind = TextureChannelInvalid, ta_borrowed = False\<rparr>"

(* Source: src/include/ascify/texture_compat.hpp 26-29 TextureHandle *)
record TextureHandle =
  th_descriptor :: ptr
  th_allocation :: "nat option"

definition empty_handle :: TextureHandle where
  "empty_handle = \<lparr>th_descriptor = 0, th_allocation = None\<rparr>"

(* Source: src/include/ascify/texture_compat.hpp 30-34 TextureRegistry *)
record TextureRegistry =
  records :: "TextureAllocation list"
  handles :: "TextureHandle list"
  hooks_installed :: bool

definition new_texture_registry :: TextureRegistry where
  "new_texture_registry = \<lparr>records = replicate 128 empty_record, handles = replicate 128 empty_handle, hooks_installed = False\<rparr>"

text \<open>The runtime with a registry.\<close>

record 'w trt = "'w rt" +
  registry :: TextureRegistry

definition initial_trt :: "'w \<Rightarrow> 'w trt" where
  "initial_trt w = rt.extend (initial_rt w) \<lparr>registry = new_texture_registry\<rparr>"

definition set_record :: "nat \<Rightarrow> TextureAllocation \<Rightarrow> 'w trt \<Rightarrow> 'w trt" where
  "set_record i a s = s\<lparr>registry := (registry s)\<lparr>records := (records (registry s))[i := a]\<rparr>\<rparr>"

definition set_handle :: "nat \<Rightarrow> TextureHandle \<Rightarrow> 'w trt \<Rightarrow> 'w trt" where
  "set_handle i h s = s\<lparr>registry := (registry s)\<lparr>handles := (handles (registry s))[i := h]\<rparr>\<rparr>"

fun find_index :: "('a \<Rightarrow> bool) \<Rightarrow> 'a list \<Rightarrow> nat option" where
  "find_index P [] = None"
| "find_index P (x # xs) = (if P x then Some 0 else map_option Suc (find_index P xs))"

section \<open>Sizes and channels\<close>

(* Source: src/include/ascify/texture_compat.hpp 40-43 textureMultiply *)
definition textureMultiply :: "u64 \<Rightarrow> u64 \<Rightarrow> u64 option" where
  "textureMultiply a b = (if b \<noteq> 0 \<and> a > - 1 div b then None else Some (a * b))"

(* Source: src/include/ascify/texture_compat.hpp 44-47 textureScalar32Channel *)
definition textureScalar32Channel :: "cudaChannelFormatDesc \<Rightarrow> bool" where
  "textureScalar32Channel c \<longleftrightarrow>
     cd_x c = 32 \<and> cd_y c = 0 \<and> cd_z c = 0 \<and> cd_w c = 0
     \<and> (cd_f c = cudaChannelFormatKindFloat \<or> cd_f c = cudaChannelFormatKindUnsigned)"

(* Source: src/include/ascify/texture_compat.hpp 48-54 textureChannelKind *)
definition textureChannelKind :: "cudaChannelFormatDesc \<Rightarrow> TextureChannelKind" where
  "textureChannelKind c =
     (if textureScalar32Channel c
      then (if cd_f c = cudaChannelFormatKindFloat then TextureChannelFloat else TextureChannelUnsigned)
      else if cd_x c = 8 \<and> cd_y c = 8 \<and> cd_z c = 8 \<and> cd_w c = 8 \<and> cd_f c = cudaChannelFormatKindUnsigned
      then TextureChannelRGBA
      else TextureChannelInvalid)"

section \<open>Lookups\<close>

(* Source: src/include/ascify/texture_compat.hpp 55-63 textureCurrent *)
definition textureCurrent ::
    "'w acl \<Rightarrow> 'w trt \<Rightarrow> (aclError \<times> int \<times> ptr) \<times> 'w trt" where
  "textureCurrent acl s =
     (let (status, s) = ensureCurrentDevice acl s in
      if status \<noteq> ACL_SUCCESS then ((status, -1, 0), s)
      else
        let (d, s) = call acl (Lifecycle AclrtGetDevice) s in
        if rep_status d \<noteq> ACL_SUCCESS then ((rep_status d, rep_int d, 0), s)
        else
          let (c, s) = call acl (Lifecycle AclrtGetCurrentContext) s in
          if rep_status c \<noteq> ACL_SUCCESS then ((rep_status c, rep_int d, rep_ptr c), s)
          else ((if rep_ptr c = 0 then ACL_ERROR_RT_PARAM_INVALID else ACL_SUCCESS, rep_int d, rep_ptr c), s))"

(* Source: src/include/ascify/texture_compat.hpp 64-69 textureArray *)
definition textureArray :: "TextureRegistry \<Rightarrow> nat option \<Rightarrow> nat option" where
  "textureArray g array =
     (case array of None \<Rightarrow> None
      | Some i \<Rightarrow>
          if i < length (records g) \<and> ta_storage (records g ! i) \<noteq> 0 \<and> ta_array (records g ! i)
          then Some i else None)"

(* Source: src/include/ascify/texture_compat.hpp 70-75 texturePointer *)
definition texturePointer :: "TextureRegistry \<Rightarrow> ptr \<Rightarrow> nat option" where
  "texturePointer g p =
     (if p = 0 then None else find_index (\<lambda>a. ta_storage a = p \<and> \<not> ta_array a) (records g))"

(* Source: src/include/ascify/texture_compat.hpp 76-78 textureOwned *)
definition textureOwned :: "TextureAllocation \<Rightarrow> int \<Rightarrow> ptr \<Rightarrow> bool" where
  "textureOwned a device context \<longleftrightarrow> ta_device a = device \<and> ta_context a = context"

definition free_record :: "TextureRegistry \<Rightarrow> nat option" where
  "free_record g = find_index (\<lambda>a. ta_storage a = 0 \<and> ta_references a = 0) (records g)"

text \<open>The allocation of a handle that is in use.\<close>

definition handle_record :: "TextureRegistry \<Rightarrow> TextureHandle \<Rightarrow> TextureAllocation" where
  "handle_record g h = records g ! the (th_allocation h)"

section \<open>Errors of the device\<close>

text \<open>The descriptor occupies 72 bytes, the width is at offset 24 and the sticky flag follows the
  descriptor.\<close>

fun poll_handles ::
    "'w acl \<Rightarrow> int \<Rightarrow> ptr \<Rightarrow> TextureHandle list \<Rightarrow> 'w trt \<Rightarrow> aclError \<times> 'w trt" where
  "poll_handles acl device context [] s = (ACL_SUCCESS, s)"
| "poll_handles acl device context (h # hs) s =
     (if th_descriptor h = 0 \<or> \<not> textureOwned (handle_record (registry s) h) device context
      then poll_handles acl device context hs s
      else
        let (r, s) = call acl (Memory (AclrtMemcpy_to_local (th_descriptor h + 72) 4)) s in
        if rep_status r \<noteq> ACL_SUCCESS then (rep_status r, s)
        else if rep_int r \<noteq> 0 then (ACL_ERROR_FEATURE_UNSUPPORTED, s)
        else poll_handles acl device context hs s)"

(* Source: src/include/ascify/texture_compat.hpp 82-99 textureStatusLocked *)
definition textureStatusLocked ::
    "'w acl \<Rightarrow> int \<Rightarrow> ptr \<Rightarrow> 'w trt \<Rightarrow> aclError \<times> 'w trt" where
  "textureStatusLocked acl device context s =
     (if \<not> list_ex (\<lambda>h. th_descriptor h \<noteq> 0 \<and> textureOwned (handle_record (registry s) h) device context)
           (handles (registry s))
      then (ACL_SUCCESS, s)
      else
        let (status, s) = call_status acl (Device AclrtSynchronizeDevice) s in
        if status \<noteq> ACL_SUCCESS then (status, s)
        else poll_handles acl device context (handles (registry s)) s)"

(* Source: src/include/ascify/texture_compat.hpp 100-108 textureCheckPending *)
definition textureCheckPending :: "'w acl \<Rightarrow> 'w trt \<Rightarrow> aclError \<times> 'w trt" where
  "textureCheckPending acl s =
     (if \<not> list_ex (\<lambda>h. th_descriptor h \<noteq> 0) (handles (registry s)) then (ACL_SUCCESS, s)
      else
        let ((status, device, context), s) = textureCurrent acl s in
        if status = ACL_SUCCESS then textureStatusLocked acl device context s else (status, s))"

section \<open>Release\<close>

fun invalidate_handles ::
    "'w acl \<Rightarrow> nat \<Rightarrow> TextureHandle list \<Rightarrow> 'w trt \<Rightarrow> aclError \<times> 'w trt" where
  "invalidate_handles acl i [] s = (ACL_SUCCESS, s)"
| "invalidate_handles acl i (h # hs) s =
     (if th_descriptor h = 0 \<or> th_allocation h \<noteq> Some i then invalidate_handles acl i hs s
      else
        let (status, s) = call_status acl (Memory (AclrtMemcpy_from_local (th_descriptor h + 24) 4 [0])) s in
        if status \<noteq> ACL_SUCCESS then (status, s) else invalidate_handles acl i hs s)"

(* Source: src/include/ascify/texture_compat.hpp 114-131 textureReleaseStorage *)
definition textureReleaseStorage :: "'w acl \<Rightarrow> nat \<Rightarrow> 'w trt \<Rightarrow> aclError \<times> 'w trt" where
  "textureReleaseStorage acl i s =
     (let (status, s) = call_status acl (Device AclrtSynchronizeDevice) s in
      if status \<noteq> ACL_SUCCESS then (status, s)
      else
        let (status, s) = invalidate_handles acl i (handles (registry s)) s in
        if status \<noteq> ACL_SUCCESS then (status, s)
        else
          let a = records (registry s) ! i;
              (status, s) = call_status acl (Memory (AclrtFree (ta_storage a))) s
          in (status, if status = ACL_SUCCESS
                      then set_record i (if ta_references a = 0 then empty_record else a\<lparr>ta_storage := 0\<rparr>) s
                      else s))"

(* Source: src/include/ascify/texture_compat.hpp 132-142 textureFreeAllocation *)
definition textureFreeAllocation ::
    "'w acl \<Rightarrow> ptr \<Rightarrow> 'w trt \<Rightarrow> (aclError \<times> bool) \<times> 'w trt" where
  "textureFreeAllocation acl pointer s =
     (case texturePointer (registry s) pointer of
        None \<Rightarrow> ((ACL_SUCCESS, False), s)
      | Some i \<Rightarrow>
          let ((status, device, context), s) = textureCurrent acl s in
          if status \<noteq> ACL_SUCCESS then ((status, True), s)
          else if \<not> textureOwned (records (registry s) ! i) device context
          then ((ACL_ERROR_RT_PARAM_INVALID, True), s)
          else let (status, s) = textureReleaseStorage acl i s in ((status, True), s))"

(* Source: src/include/ascify/texture_compat.hpp 143-149 textureAfterReset *)
definition textureAfterReset :: "int \<Rightarrow> 'w trt \<Rightarrow> 'w trt" where
  "textureAfterReset device s =
     (let g = registry s;
          kept = map (\<lambda>h. if th_descriptor h \<noteq> 0 \<and> ta_device (handle_record g h) = device
                           then empty_handle else h) (handles g);
          left = map (\<lambda>a. if ta_device a = device then empty_record else a) (records g)
      in s\<lparr>registry := g\<lparr>handles := kept, records := left\<rparr>\<rparr>)"

(* Source: src/include/ascify/texture_compat.hpp 151-155 textureInstallHooks *)
definition textureInstallHooks :: "'w trt \<Rightarrow> 'w trt" where
  "textureInstallHooks s = s\<lparr>registry := (registry s)\<lparr>hooks_installed := True\<rparr>\<rparr>"

(* Source: src/include/ascify/texture_compat.hpp 151-155 textureInstallHooks (hooks) *)
definition textureHooks ::
    "'w acl \<Rightarrow> 'w trt \<Rightarrow> ('w, unit trt_ext) texture_hooks option" where
  "textureHooks acl s =
     (if hooks_installed (registry s)
      then Some \<lparr>hook_checkPending = textureCheckPending acl, hook_freeAllocation = textureFreeAllocation acl,
             hook_afterReset = textureAfterReset\<rparr>
      else None)"

section \<open>Allocation\<close>

(* Source: src/include/ascify/texture_compat.hpp 157-188 textureAllocate *)
definition textureAllocate ::
    "'w acl \<Rightarrow> u64 \<Rightarrow> u64 \<Rightarrow> u64 \<Rightarrow> bool \<Rightarrow> TextureTopology \<Rightarrow> TextureChannelKind \<Rightarrow> 'w trt
     \<Rightarrow> (aclError \<times> nat option) \<times> 'w trt" where
  "textureAllocate acl width height layers array topology channel_kind s =
     (if width = 0 \<or> height = 0 \<or> layers = 0 \<or> width > 2 ^ 20 \<or> height > 2 ^ 20 \<or> layers > 2 ^ 20
      then ((ACL_ERROR_FEATURE_UNSUPPORTED, None), s)
      else
        case (if array then textureMultiply width 4
              else if width > - 1 - 31 then None else Some (and (width + 31) (not 31))) of
          None \<Rightarrow> ((ACL_ERROR_RT_PARAM_INVALID, None), s)
        | Some pitch \<Rightarrow>
            case Option.bind (textureMultiply pitch height) (\<lambda>plane. textureMultiply plane layers) of
              None \<Rightarrow> ((ACL_ERROR_RT_PARAM_INVALID, None), s)
            | Some bytes \<Rightarrow>
                let ((status, device, context), s) = textureCurrent acl s in
                if status \<noteq> ACL_SUCCESS then ((status, None), s)
                else
                  let s = textureInstallHooks s in
                  case free_record (registry s) of
                    None \<Rightarrow> ((ACL_ERROR_BAD_ALLOC, None), s)
                  | Some i \<Rightarrow>
                      let (r, s) = call acl (Memory (AclrtMalloc bytes)) s in
                      if rep_status r \<noteq> ACL_SUCCESS then ((rep_status r, None), s)
                      else if rep_ptr r = 0 then ((ACL_ERROR_RT_MEMORY_ALLOCATION, None), s)
                      else ((ACL_SUCCESS, Some i), set_record i
                        \<lparr>ta_storage = rep_ptr r, ta_bytes = bytes, ta_pitch = pitch, ta_width = width,
                         ta_height = height, ta_layers = layers, ta_device = device, ta_context = context,
                         ta_references = 0, ta_array = array, ta_topology = topology,
                         ta_channel_kind = channel_kind, ta_borrowed = False\<rparr> s))"

end
