(* ===== verification/Texture_Api.thy ===== *)
theory Texture_Api
  imports Texture_Registry
begin

text \<open>
  The entry points of the texture layer: pitched memory and arrays, copies by rows and boxes,
  and the creation and destruction of texture objects.  An out parameter is an option, None for a
  null pointer, whose new content is returned with the status.
\<close>

section \<open>Rows\<close>

(* Source: src/include/ascify/texture_compat.hpp 190-196 textureRowsRange *)
definition textureRowsRange :: "u64 \<Rightarrow> u64 \<Rightarrow> u64 \<Rightarrow> u64 option" where
  "textureRowsRange pitch width height =
     (if width > pitch then None
      else case textureMultiply (if height \<noteq> 0 then height - 1 else 0) pitch of
        None \<Rightarrow> None
      | Some last_row \<Rightarrow>
          if width > - 1 - last_row then None else Some (if height \<noteq> 0 then last_row + width else 0))"

fun copy_rows ::
    "'w acl \<Rightarrow> (nat \<Rightarrow> acl_memory_call) \<Rightarrow> nat list \<Rightarrow> 'w trt \<Rightarrow> aclError \<times> 'w trt" where
  "copy_rows acl copy_row [] s = (ACL_SUCCESS, s)"
| "copy_rows acl copy_row (r # rs) s =
     (let (status, s) = call_status acl (Memory (copy_row r)) s in
      if status \<noteq> ACL_SUCCESS then (status, s) else copy_rows acl copy_row rs s)"

(* Source: src/include/ascify/texture_compat.hpp 197-218 textureCopyRows *)
definition textureCopyRows ::
    "'w acl \<Rightarrow> ptr \<Rightarrow> u64 \<Rightarrow> ptr \<Rightarrow> u64 \<Rightarrow> u64 \<Rightarrow> u64 \<Rightarrow> aclrtMemcpyKind \<Rightarrow> 'w trt
     \<Rightarrow> aclError \<times> 'w trt" where
  "textureCopyRows acl dst dpitch src spitch width height kind s =
     (case (textureRowsRange dpitch width height, textureRowsRange spitch width height) of
        (Some db, Some sb) \<Rightarrow>
          if \<not> isSupportedMemcpyKind kind \<or> \<not> nonnullMemoryRange dst db \<or> \<not> nonnullMemoryRange src sb
          then (ACL_ERROR_RT_PARAM_INVALID, s)
          else if width = 0 \<or> height = 0 then (ACL_SUCCESS, s)
          else if dst > - 1 - db \<or> src > - 1 - sb then (ACL_ERROR_RT_PARAM_INVALID, s)
          else
            let (status, s) = (if kind \<noteq> ACL_MEMCPY_HOST_TO_HOST
                               then call_status acl (Stream (AclrtSynchronizeStream 0)) s
                               else (ACL_SUCCESS, s))
            in if status \<noteq> ACL_SUCCESS then (status, s)
               else copy_rows acl (\<lambda>r. AclrtMemcpy (dst + of_nat r * dpitch) (db - of_nat r * dpitch)
                      (src + of_nat r * spitch) width kind) [0..<unat height] s
      | _ \<Rightarrow> (ACL_ERROR_RT_PARAM_INVALID, s))"

section \<open>Allocation and release\<close>

(* Source: src/include/ascify/texture_compat.hpp 221-227 cudaMallocPitch *)
definition cudaMallocPitch ::
    "'w acl \<Rightarrow> ptr option \<Rightarrow> u64 option \<Rightarrow> u64 \<Rightarrow> u64 \<Rightarrow> 'w trt
     \<Rightarrow> (aclError \<times> ptr option \<times> u64 option) \<times> 'w trt" where
  "cudaMallocPitch acl pointer pitch width height s =
     (if pointer = None \<or> pitch = None then ((ACL_ERROR_RT_PARAM_INVALID, pointer, pitch), s)
      else
        let ((status, made), s) = textureAllocate acl width height 1 False TextureTopologyPlain TextureChannelInvalid s;
            a = records (registry s) ! the made
        in ((status, if status = ACL_SUCCESS then Some (ta_storage a) else pointer,
             if status = ACL_SUCCESS then Some (ta_pitch a) else pitch), s))"

(* Source: src/include/ascify/texture_compat.hpp 228-235 cudaMallocPitch (T** ) *)
definition cudaMallocPitch_typed ::
    "'w acl \<Rightarrow> ptr option \<Rightarrow> u64 option \<Rightarrow> u64 \<Rightarrow> u64 \<Rightarrow> 'w trt
     \<Rightarrow> (aclError \<times> ptr option \<times> u64 option) \<times> 'w trt" where
  "cudaMallocPitch_typed acl pointer pitch width height s =
     (if pointer = None then ((ACL_ERROR_RT_PARAM_INVALID, pointer, pitch), s)
      else
        let ((status, storage, pitch), s) = cudaMallocPitch acl (Some 0) pitch width height s
        in ((status, if status = ACL_SUCCESS then storage else pointer, pitch), s))"

text \<open>A \<open>cudaArray_t\<close> out parameter: \<open>None\<close> is a null pointer, \<open>Some\<close> its content.\<close>

type_synonym array_slot = "nat option option"

(* Source: src/include/ascify/texture_compat.hpp 236-246 cudaMallocArray *)
definition cudaMallocArray ::
    "'w acl \<Rightarrow> array_slot \<Rightarrow> cudaChannelFormatDesc option \<Rightarrow> u64 \<Rightarrow> u64 \<Rightarrow> u32 \<Rightarrow> 'w trt
     \<Rightarrow> (aclError \<times> array_slot) \<times> 'w trt" where
  "cudaMallocArray acl array channel width height flags s =
     (case (array, channel) of
        (Some _, Some c) \<Rightarrow>
          if flags \<noteq> 0 \<or> textureChannelKind c = TextureChannelInvalid
          then ((ACL_ERROR_FEATURE_UNSUPPORTED, array), s)
          else
            let ((status, made), s) = textureAllocate acl width height 1 True TextureTopologyPlain (textureChannelKind c) s
            in ((status, if status = ACL_SUCCESS then Some made else array), s)
      | _ \<Rightarrow> ((ACL_ERROR_RT_PARAM_INVALID, array), s))"

(* Source: src/include/ascify/texture_types.hpp 45-46 cudaArrayLayered, cudaArrayCubemap *)
definition cudaArrayLayered :: u32 where "cudaArrayLayered = 1"
definition cudaArrayCubemap :: u32 where "cudaArrayCubemap = 4"

(* Source: src/include/ascify/texture_compat.hpp 247-263 cudaMalloc3DArray *)
definition cudaMalloc3DArray ::
    "'w acl \<Rightarrow> array_slot \<Rightarrow> cudaChannelFormatDesc option \<Rightarrow> u64 \<times> u64 \<times> u64 \<Rightarrow> u32 \<Rightarrow> 'w trt
     \<Rightarrow> (aclError \<times> array_slot) \<times> 'w trt" where
  "cudaMalloc3DArray acl array channel extent flags s =
     (case (array, channel, extent) of
        (Some _, Some c, (width, height, depth)) \<Rightarrow>
          if (if flags = cudaArrayCubemap
              then textureChannelKind c \<noteq> TextureChannelFloat \<or> width \<noteq> height \<or> depth \<noteq> 6
              else flags \<noteq> cudaArrayLayered \<or> textureChannelKind c = TextureChannelInvalid)
          then ((ACL_ERROR_FEATURE_UNSUPPORTED, array), s)
          else
            let ((status, made), s) = textureAllocate acl width height depth True
                  (if flags = cudaArrayCubemap then TextureTopologyCube else TextureTopologyLayered)
                  (textureChannelKind c) s
            in ((status, if status = ACL_SUCCESS then Some made else array), s)
      | _ \<Rightarrow> ((ACL_ERROR_RT_PARAM_INVALID, array), s))"

(* Source: src/include/ascify/texture_compat.hpp 264-274 cudaFreeArray *)
definition cudaFreeArray :: "'w acl \<Rightarrow> nat option \<Rightarrow> 'w trt \<Rightarrow> aclError \<times> 'w trt" where
  "cudaFreeArray acl array s =
     (if array = None then (ACL_SUCCESS, s)
      else
        let ((status, device, context), s) = textureCurrent acl s in
        if status \<noteq> ACL_SUCCESS then (status, s)
        else case textureArray (registry s) array of
          None \<Rightarrow> (ACL_ERROR_RT_PARAM_INVALID, s)
        | Some i \<Rightarrow>
            if \<not> textureOwned (records (registry s) ! i) device context then (ACL_ERROR_RT_PARAM_INVALID, s)
            else textureReleaseStorage acl i s)"

section \<open>Copies\<close>

(* Source: src/include/ascify/texture_compat.hpp 275-282 cudaMemcpy2D *)
definition cudaMemcpy2D ::
    "'w acl \<Rightarrow> ptr \<Rightarrow> u64 \<Rightarrow> ptr \<Rightarrow> u64 \<Rightarrow> u64 \<Rightarrow> u64 \<Rightarrow> aclrtMemcpyKind \<Rightarrow> 'w trt
     \<Rightarrow> aclError \<times> 'w trt" where
  "cudaMemcpy2D acl dst dpitch src spitch width height kind s =
     (let (status, s) = ensureCurrentDevice acl s in
      if status \<noteq> ACL_SUCCESS then (status, s)
      else
        let (status, s) = textureCheckPending acl s in
        if status \<noteq> ACL_SUCCESS then (status, s)
        else textureCopyRows acl dst dpitch src spitch width height kind s)"

(* Source: src/include/ascify/texture_compat.hpp 283-300 cudaMemset2D *)
definition cudaMemset2D ::
    "'w acl \<Rightarrow> ptr \<Rightarrow> u64 \<Rightarrow> u32 \<Rightarrow> u64 \<Rightarrow> u64 \<Rightarrow> 'w trt \<Rightarrow> aclError \<times> 'w trt" where
  "cudaMemset2D acl dst pitch value width height s =
     (case textureRowsRange pitch width height of
        None \<Rightarrow> (ACL_ERROR_RT_PARAM_INVALID, s)
      | Some bytes \<Rightarrow>
          if \<not> nonnullMemoryRange dst bytes then (ACL_ERROR_RT_PARAM_INVALID, s)
          else if bytes = 0 then (ACL_SUCCESS, s)
          else if dst > - 1 - bytes then (ACL_ERROR_RT_PARAM_INVALID, s)
          else
            let (status, s) = ensureCurrentDevice acl s in
            if status \<noteq> ACL_SUCCESS then (status, s)
            else
              let (status, s) = textureCheckPending acl s in
              if status \<noteq> ACL_SUCCESS then (status, s)
              else
                let (status, s) = call_status acl (Stream (AclrtSynchronizeStream 0)) s in
                if status \<noteq> ACL_SUCCESS then (status, s)
                else copy_rows acl (\<lambda>r. AclrtMemset (dst + of_nat r * pitch) (bytes - of_nat r * pitch) value width)
                       [0..<unat height] s)"

(* Source: src/include/ascify/texture_compat.hpp 301-321 cudaMemcpyToArray *)
definition cudaMemcpyToArray ::
    "'w acl \<Rightarrow> nat option \<Rightarrow> u64 \<Rightarrow> u64 \<Rightarrow> ptr \<Rightarrow> u64 \<Rightarrow> aclrtMemcpyKind \<Rightarrow> 'w trt
     \<Rightarrow> aclError \<times> 'w trt" where
  "cudaMemcpyToArray acl array x y src bytes kind s =
     (if kind \<noteq> ACL_MEMCPY_HOST_TO_DEVICE \<and> kind \<noteq> ACL_MEMCPY_DEVICE_TO_DEVICE
      then (ACL_ERROR_FEATURE_UNSUPPORTED, s)
      else if \<not> nonnullMemoryRange src bytes then (ACL_ERROR_RT_PARAM_INVALID, s)
      else
        let ((status, device, context), s) = textureCurrent acl s in
        if status \<noteq> ACL_SUCCESS then (status, s)
        else case textureArray (registry s) array of
          None \<Rightarrow> (ACL_ERROR_RT_PARAM_INVALID, s)
        | Some i \<Rightarrow>
            let a = records (registry s) ! i; offset = y * ta_pitch a + x in
            if ta_topology a \<noteq> TextureTopologyPlain \<or> \<not> textureOwned a device context
               \<or> y \<ge> ta_height a \<or> x > ta_pitch a
            then (ACL_ERROR_RT_PARAM_INVALID, s)
            else if bytes > ta_bytes a - offset then (ACL_ERROR_RT_PARAM_INVALID, s)
            else
              let (status, s) = textureStatusLocked acl device context s in
              if status \<noteq> ACL_SUCCESS \<or> bytes = 0 then (status, s)
              else
                let (status, s) = call_status acl (Stream (AclrtSynchronizeStream 0)) s in
                if status \<noteq> ACL_SUCCESS then (status, s)
                else call_status acl (Memory (AclrtMemcpy (ta_storage a + offset) (ta_bytes a - offset) src bytes kind)) s)"

(* Source: src/include/ascify/texture_compat.hpp 327-356 cudaMemcpy2DToArray *)
definition cudaMemcpy2DToArray ::
    "'w acl \<Rightarrow> nat option \<Rightarrow> u64 \<Rightarrow> u64 \<Rightarrow> ptr \<Rightarrow> u64 \<Rightarrow> u64 \<Rightarrow> u64 \<Rightarrow> aclrtMemcpyKind
     \<Rightarrow> 'w trt \<Rightarrow> aclError \<times> 'w trt" where
  "cudaMemcpy2DToArray acl array x y src spitch width height kind s =
     (if kind \<noteq> ACL_MEMCPY_HOST_TO_DEVICE \<and> kind \<noteq> ACL_MEMCPY_DEVICE_TO_DEVICE
      then (ACL_ERROR_FEATURE_UNSUPPORTED, s)
      else if x mod 4 \<noteq> 0 \<or> width mod 4 \<noteq> 0 then (ACL_ERROR_FEATURE_UNSUPPORTED, s)
      else case textureRowsRange spitch width height of
        None \<Rightarrow> (ACL_ERROR_RT_PARAM_INVALID, s)
      | Some sb \<Rightarrow>
          if \<not> nonnullMemoryRange src sb \<or> src > - 1 - sb then (ACL_ERROR_RT_PARAM_INVALID, s)
          else
            let ((status, device, context), s) = textureCurrent acl s in
            if status \<noteq> ACL_SUCCESS then (status, s)
            else case textureArray (registry s) array of
              None \<Rightarrow> (ACL_ERROR_RT_PARAM_INVALID, s)
            | Some i \<Rightarrow>
                let a = records (registry s) ! i in
                if ta_topology a \<noteq> TextureTopologyPlain \<or> \<not> textureOwned a device context
                   \<or> x > ta_pitch a \<or> width > ta_pitch a - x \<or> y > ta_height a \<or> height > ta_height a - y
                then (ACL_ERROR_RT_PARAM_INVALID, s)
                else if ta_channel_kind a \<noteq> TextureChannelFloat \<and> ta_channel_kind a \<noteq> TextureChannelUnsigned
                        \<and> ta_channel_kind a \<noteq> TextureChannelRGBA
                then (ACL_ERROR_FEATURE_UNSUPPORTED, s)
                else
                  let (status, s) = textureStatusLocked acl device context s in
                  if status \<noteq> ACL_SUCCESS \<or> width = 0 \<or> height = 0 then (status, s)
                  else textureCopyRows acl (ta_storage a + (y * ta_pitch a + x)) (ta_pitch a) src spitch width height kind s)"

text \<open>A box: one of its ends is an array or a pitched pointer.\<close>

(* Source: src/include/ascify/texture_types.hpp 88-88 cudaPitchedPtr *)
record cudaPitchedPtr =
  pp_ptr :: ptr
  pp_pitch :: u64
  pp_xsize :: u64
  pp_ysize :: u64

(* Source: src/include/ascify/texture_types.hpp 89-89 cudaExtent, cudaPos *)
record triple =
  t_x :: u64
  t_y :: u64
  t_z :: u64

(* Source: src/include/ascify/texture_types.hpp 91-100 cudaMemcpy3DParms *)
record cudaMemcpy3DParms =
  srcArray :: "nat option"
  srcPos :: triple
  srcPtr :: cudaPitchedPtr
  dstArray :: "nat option"
  dstPos :: triple
  dstPtr :: cudaPitchedPtr
  extent :: triple
  mp_kind :: aclrtMemcpyKind

(* Source: src/include/ascify/texture_compat.hpp 377-377 Endpoint *)
record Endpoint =
  ep_base :: ptr
  ep_pitch :: u64
  ep_plane :: u64
  ep_offset :: u64

(* Source: src/include/ascify/texture_compat.hpp 378-391 endpoint (geometry) *)
definition endpoint_geometry ::
    "TextureRegistry \<Rightarrow> int \<Rightarrow> ptr \<Rightarrow> triple \<Rightarrow> nat option \<Rightarrow> cudaPitchedPtr \<Rightarrow> triple
     \<Rightarrow> (ptr \<times> u64 \<times> u64 \<times> u64) option" where
  "endpoint_geometry g device context ext array pointer position =
     (if array = None then Some (pp_ptr pointer, pp_pitch pointer, pp_ysize pointer, t_x position)
      else case textureArray g array of
        None \<Rightarrow> None
      | Some i \<Rightarrow>
          let a = records g ! i in
          if \<not> textureOwned a device context \<or> t_z position > ta_layers a \<or> t_z ext > ta_layers a - t_z position
          then None
          else case textureMultiply (t_x position) 4 of
            None \<Rightarrow> None
          | Some x \<Rightarrow> Some (ta_storage a, ta_pitch a, ta_height a, x))"

(* Source: src/include/ascify/texture_compat.hpp 378-403 endpoint *)
definition endpoint ::
    "TextureRegistry \<Rightarrow> int \<Rightarrow> ptr \<Rightarrow> triple \<Rightarrow> u64 \<Rightarrow> nat option \<Rightarrow> cudaPitchedPtr \<Rightarrow> triple \<Rightarrow> Endpoint option" where
  "endpoint g device context ext width array pointer position =
     (case endpoint_geometry g device context ext array pointer position of
        None \<Rightarrow> None
      | Some (base, pitch, height, x) \<Rightarrow>
          if base = 0 \<or> x > pitch \<or> width > pitch - x \<or> t_y position > height \<or> t_y ext > height - t_y position
          then None
          else case textureMultiply pitch height of
            None \<Rightarrow> None
          | Some plane \<Rightarrow>
          case (textureMultiply (t_z position) plane, textureMultiply (t_y position) pitch) of
            (Some zbytes, Some ybytes) \<Rightarrow>
              if ybytes > - 1 - zbytes \<or> x > - 1 - zbytes - ybytes then None
              else (case (textureMultiply (t_z ext - 1) plane, textureMultiply (t_y ext - 1) pitch) of
                (Some last_plane, Some last_row) \<Rightarrow>
                  if last_row > - 1 - last_plane \<or> width > - 1 - last_plane - last_row then None
                  else
                    let offset = zbytes + ybytes + x; span = last_plane + last_row + width in
                    if span > - 1 - offset \<or> base > - 1 - offset - span then None
                    else Some \<lparr>ep_base = base, ep_pitch = pitch, ep_plane = plane, ep_offset = offset\<rparr>
              | _ \<Rightarrow> None)
          | _ \<Rightarrow> None)"

(* Source: src/include/ascify/texture_compat.hpp 358-420 cudaMemcpy3D *)
definition cudaMemcpy3D ::
    "'w acl \<Rightarrow> cudaMemcpy3DParms option \<Rightarrow> 'w trt \<Rightarrow> aclError \<times> 'w trt" where
  "cudaMemcpy3D acl parameters s =
     (case parameters of
        None \<Rightarrow> (ACL_ERROR_RT_PARAM_INVALID, s)
      | Some p \<Rightarrow>
          if \<not> isSupportedMemcpyKind (mp_kind p) then (ACL_ERROR_FEATURE_UNSUPPORTED, s)
          else if (srcArray p \<noteq> None) = (pp_ptr (srcPtr p) \<noteq> 0) \<or> (dstArray p \<noteq> None) = (pp_ptr (dstPtr p) \<noteq> 0)
          then (ACL_ERROR_RT_PARAM_INVALID, s)
          else if srcArray p \<noteq> None \<and> mp_kind p \<noteq> ACL_MEMCPY_DEVICE_TO_HOST \<and> mp_kind p \<noteq> ACL_MEMCPY_DEVICE_TO_DEVICE
             \<or> dstArray p \<noteq> None \<and> mp_kind p \<noteq> ACL_MEMCPY_HOST_TO_DEVICE \<and> mp_kind p \<noteq> ACL_MEMCPY_DEVICE_TO_DEVICE
          then (ACL_ERROR_FEATURE_UNSUPPORTED, s)
          else case (if srcArray p \<noteq> None \<or> dstArray p \<noteq> None then textureMultiply (t_x (extent p)) 4
                     else Some (t_x (extent p))) of
            None \<Rightarrow> (ACL_ERROR_RT_PARAM_INVALID, s)
          | Some width \<Rightarrow>
              if width = 0 \<or> t_y (extent p) = 0 \<or> t_z (extent p) = 0 then (ACL_ERROR_RT_PARAM_INVALID, s)
              else
                let ((status, device, context), s) = textureCurrent acl s in
                if status \<noteq> ACL_SUCCESS then (status, s)
                else case (endpoint (registry s) device context (extent p) width (srcArray p) (srcPtr p) (srcPos p),
                           endpoint (registry s) device context (extent p) width (dstArray p) (dstPtr p) (dstPos p)) of
                  (Some source, Some destination) \<Rightarrow>
                    let (status, s) = textureStatusLocked acl device context s in
                    if status \<noteq> ACL_SUCCESS then (status, s)
                    else
                      let (status, s) = (if mp_kind p \<noteq> ACL_MEMCPY_HOST_TO_HOST
                                         then call_status acl (Stream (AclrtSynchronizeStream 0)) s
                                         else (ACL_SUCCESS, s))
                      in if status \<noteq> ACL_SUCCESS then (status, s)
                         else copy_rows acl (\<lambda>k.
                           let layer = of_nat (k div unat (t_y (extent p))); row = of_nat (k mod unat (t_y (extent p))) in
                           AclrtMemcpy (ep_base destination + ep_offset destination + layer * ep_plane destination
                               + row * ep_pitch destination) width
                             (ep_base source + ep_offset source + layer * ep_plane source + row * ep_pitch source)
                             width (mp_kind p))
                           [0..<unat (t_z (extent p)) * unat (t_y (extent p))] s
                | _ \<Rightarrow> (ACL_ERROR_RT_PARAM_INVALID, s))"

end
