(* ===== verification/Texture_Objects.thy ===== *)
theory Texture_Objects
  imports Texture_Api
begin

text \<open>
  Texture objects: the descriptor that host and device share
  (\<open>include/ascify/texture_sampling.hpp\<close>), its creation from a resource and a texture
  description, and its destruction (\<open>include/ascify/texture_compat.hpp\<close>).
\<close>

section \<open>The descriptor\<close>

(* Source: src/include/ascify/texture_sampling.hpp 13-19 TextureSampleKind *)
definition TextureSampleFloat :: u32 where "TextureSampleFloat = 0x54580211"
definition TextureSampleUnsigned :: u32 where "TextureSampleUnsigned = 0x54580212"
definition TextureSampleCubeFloat :: u32 where "TextureSampleCubeFloat = 0x54580231"
definition TextureSampleRGBAElement :: u32 where "TextureSampleRGBAElement = 0x54580221"
definition TextureSampleRGBANormalized :: u32 where "TextureSampleRGBANormalized = 0x54580222"

(* Source: src/include/ascify/texture_sampling.hpp 20-22 TextureDescriptorVersion, TextureFilterPoint, TextureFilterLinear *)
definition TextureDescriptorVersion :: u32 where "TextureDescriptorVersion = 0x54580002"
definition TextureFilterPoint :: u32 where "TextureFilterPoint = 0x32544600"
definition TextureFilterLinear :: u32 where "TextureFilterLinear = 0x32544601"

(* Source: src/include/ascify/texture_sampling.hpp 25-27 TextureAddressMode *)
definition TextureAddressClamp :: u32 where "TextureAddressClamp = 0"
definition TextureAddressWrap :: u32 where "TextureAddressWrap = 1"
definition TextureAddressMirror :: u32 where "TextureAddressMirror = 2"

lemmas texture_tags = TextureSampleFloat_def TextureSampleUnsigned_def TextureSampleCubeFloat_def
  TextureSampleRGBAElement_def TextureSampleRGBANormalized_def TextureDescriptorVersion_def
  TextureFilterPoint_def TextureFilterLinear_def TextureAddressClamp_def TextureAddressWrap_def TextureAddressMirror_def

definition topology_code :: "TextureTopology \<Rightarrow> u32" where
  "topology_code t = (case t of TextureTopologyPlain \<Rightarrow> 0 | TextureTopologyLayered \<Rightarrow> 1 | TextureTopologyCube \<Rightarrow> 2)"

(* Source: src/include/ascify/texture_sampling.hpp 34-49 TextureSamplingDescriptor *)
record TextureSamplingDescriptor =
  ds_data :: u64
  ds_pitch_bytes :: u64
  ds_layer_bytes :: u64
  ds_width :: u32
  ds_height :: u32
  ds_layers :: u32
  ds_normalized :: u32
  ds_wrap_x :: u32
  ds_wrap_y :: u32
  ds_linear :: u32
  ds_layered :: u32
  ds_unsigned_element :: u32
  ds_abi_version :: u32
  ds_error :: u64

text \<open>The image of a descriptor in memory, 24 little-endian words; the words after the descriptor
  are the sticky flag and padding.\<close>

definition two_words :: "u64 \<Rightarrow> u32 list" where
  "two_words x = [ucast x, ucast (drop_bit 32 x)]"

(* Source: src/include/ascify/texture_sampling.hpp 50-58 TextureSamplingDescriptor (layout) *)
definition descriptor_image :: "TextureSamplingDescriptor \<Rightarrow> u32 list" where
  "descriptor_image v = two_words (ds_data v) @ two_words (ds_pitch_bytes v) @ two_words (ds_layer_bytes v)
     @ [ds_width v, ds_height v, ds_layers v, ds_normalized v, ds_wrap_x v, ds_wrap_y v, ds_linear v, ds_layered v,
        ds_unsigned_element v, ds_abi_version v] @ two_words (ds_error v) @ replicate 6 0"

section \<open>Descriptions\<close>

(* Source: src/include/ascify/texture_types.hpp 54-68 cudaResourceDesc *)
datatype cudaResource =
    Resource_Array "nat option"
  | Resource_MipmappedArray
  | Resource_Linear
  | Resource_Pitch2D ptr cudaChannelFormatDesc u64 u64 u64

(* Source: src/include/ascify/texture_types.hpp 54-68 cudaResourceDesc *)
record cudaResourceDesc =
  rd_res :: cudaResource
  rd_flags :: u32

(* Source: src/include/ascify/texture_types.hpp 70-73 cudaTextureAddressMode *)
datatype cudaTextureAddressMode =
    cudaAddressModeWrap | cudaAddressModeClamp | cudaAddressModeMirror | cudaAddressModeBorder | AddressMode_other int

(* Source: src/include/ascify/texture_types.hpp 74-74 cudaTextureFilterMode *)
datatype cudaTextureFilterMode = cudaFilterModePoint | cudaFilterModeLinear | FilterMode_other int

(* Source: src/include/ascify/texture_types.hpp 75-75 cudaTextureReadMode *)
datatype cudaTextureReadMode = cudaReadModeElementType | cudaReadModeNormalizedFloat | ReadMode_other int

text \<open>Floats are kept as their bits.\<close>

(* Source: src/include/ascify/texture_types.hpp 76-87 cudaTextureDesc *)
record cudaTextureDesc =
  td_addressMode :: "cudaTextureAddressMode list"
  td_filterMode :: cudaTextureFilterMode
  td_readMode :: cudaTextureReadMode
  td_sRGB :: int
  td_borderColor :: "u32 list"
  td_normalizedCoords :: int
  td_maxAnisotropy :: u32
  td_mipmapFilterMode :: cudaTextureFilterMode
  td_mipmapLevelBias :: u32
  td_minMipmapLevelClamp :: u32
  td_maxMipmapLevelClamp :: u32
  td_disableTrilinearOptimization :: int
  td_seamlessCubemap :: int

definition float_bits_zero :: "u32 \<Rightarrow> bool" where
  "float_bits_zero b \<longleftrightarrow> and b 0x7FFFFFFF = 0"

(* Source: src/include/ascify/texture_compat.hpp 426-438 cudaCreateTextureObject (texture description) *)
definition description_supported :: "bool \<Rightarrow> cudaResourceDesc \<Rightarrow> cudaTextureDesc \<Rightarrow> bool" where
  "description_supported view resource t \<longleftrightarrow>
     \<not> view \<and> rd_flags resource = 0
     \<and> (td_readMode t = cudaReadModeElementType \<or> td_readMode t = cudaReadModeNormalizedFloat)
     \<and> td_sRGB t = 0 \<and> (td_normalizedCoords t = 0 \<or> td_normalizedCoords t = 1)
     \<and> td_maxAnisotropy t \<le> 1 \<and> td_mipmapFilterMode t = cudaFilterModePoint
     \<and> float_bits_zero (td_mipmapLevelBias t) \<and> float_bits_zero (td_minMipmapLevelClamp t)
     \<and> float_bits_zero (td_maxMipmapLevelClamp t) \<and> td_disableTrilinearOptimization t = 0
     \<and> td_seamlessCubemap t = 0 \<and> (td_filterMode t = cudaFilterModePoint \<or> td_filterMode t = cudaFilterModeLinear)
     \<and> list_all float_bits_zero (td_borderColor t)
     \<and> list_all (\<lambda>m. m = cudaAddressModeWrap \<or> m = cudaAddressModeClamp \<or> m = cudaAddressModeMirror) (td_addressMode t)"

section \<open>Creation\<close>

text \<open>The view that an object has of its record: the record, width, height, pitch and channel.\<close>

type_synonym view = "nat option \<times> u64 \<times> u64 \<times> u64 \<times> TextureChannelKind"

(* Source: src/include/ascify/texture_compat.hpp 449-454 cudaCreateTextureObject (array) *)
definition lookup_array :: "TextureRegistry \<Rightarrow> nat option \<Rightarrow> view" where
  "lookup_array g array =
     (case textureArray g array of
        None \<Rightarrow> (None, 0, 0, 0, TextureChannelInvalid)
      | Some i \<Rightarrow> (Some i, ta_width (records g ! i), ta_height (records g ! i), ta_pitch (records g ! i),
                  ta_channel_kind (records g ! i)))"

(* Source: src/include/ascify/texture_compat.hpp 477-490 cudaCreateTextureObject (borrowed record) *)
definition borrow_record ::
    "int \<Rightarrow> ptr \<Rightarrow> ptr \<Rightarrow> u64 \<Rightarrow> 'w trt \<Rightarrow> (aclError \<times> nat) \<times> 'w trt" where
  "borrow_record device context devPtr bytes s =
     (case runtimeAllocationLocked devPtr (allocations s) of
        None \<Rightarrow> ((ACL_ERROR_RT_PARAM_INVALID, 0), s)
      | Some k \<Rightarrow>
          let owner = allocations s ! k in
          if ra_device owner \<noteq> device \<or> ra_context owner \<noteq> context \<or> unat bytes > ra_bytes owner
          then ((ACL_ERROR_RT_PARAM_INVALID, 0), s)
          else case free_record (registry s) of
            None \<Rightarrow> ((ACL_ERROR_BAD_ALLOC, 0), s)
          | Some i \<Rightarrow> ((ACL_SUCCESS, i), textureInstallHooks (set_record i
              (empty_record\<lparr>ta_storage := ra_pointer owner, ta_bytes := of_nat (ra_bytes owner), ta_layers := 1,
                 ta_device := device, ta_context := context, ta_borrowed := True\<rparr>) s)))"

(* Source: src/include/ascify/texture_compat.hpp 455-493 cudaCreateTextureObject (pitch2D) *)
definition lookup_pitch ::
    "int \<Rightarrow> ptr \<Rightarrow> cudaTextureDesc \<Rightarrow> ptr \<Rightarrow> cudaChannelFormatDesc \<Rightarrow> u64 \<Rightarrow> u64 \<Rightarrow> u64 \<Rightarrow> 'w trt
     \<Rightarrow> (aclError \<times> view) \<times> 'w trt" where
  "lookup_pitch device context t devPtr desc width height pitch s =
     (let c = textureChannelKind desc; none = (None, width, height, pitch, c) in
      if c = TextureChannelInvalid then ((ACL_ERROR_FEATURE_UNSUPPORTED, none), s)
      else case (if width = 0 \<or> height = 0 \<or> width > 2 ^ 20 \<or> height > 2 ^ 20 then None
                 else case textureMultiply width 4 of None \<Rightarrow> None
                      | Some row_bytes \<Rightarrow> textureRowsRange pitch row_bytes height) of
        None \<Rightarrow> ((ACL_ERROR_RT_PARAM_INVALID, none), s)
      | Some bytes \<Rightarrow>
          if devPtr mod 4 \<noteq> 0 \<or> pitch mod 4 \<noteq> 0 then ((ACL_ERROR_RT_PARAM_INVALID, none), s)
          else if c \<noteq> TextureChannelRGBA \<and> td_readMode t \<noteq> cudaReadModeElementType
          then ((ACL_ERROR_FEATURE_UNSUPPORTED, none), s)
          else if (c = TextureChannelUnsigned \<or> c = TextureChannelRGBA \<and> td_readMode t = cudaReadModeElementType)
                  \<and> td_filterMode t \<noteq> cudaFilterModePoint
          then ((ACL_ERROR_FEATURE_UNSUPPORTED, none), s)
          else
            let ((status, i), s) = (case texturePointer (registry s) devPtr of
                  Some i \<Rightarrow> ((ACL_SUCCESS, i), s)
                | None \<Rightarrow> borrow_record device context devPtr bytes s)
            in if status \<noteq> ACL_SUCCESS then ((status, none), s)
               else
                 let a = records (registry s) ! i in
                 if (\<not> ta_borrowed a \<and> pitch \<noteq> ta_pitch a) \<or> bytes > ta_bytes a
                 then ((ACL_ERROR_RT_PARAM_INVALID, none), s)
                 else ((ACL_SUCCESS, (Some i, width, height, pitch, c)), s))"

(* Source: src/include/ascify/texture_compat.hpp 446-493 cudaCreateTextureObject (resource) *)
definition resolve_resource ::
    "int \<Rightarrow> ptr \<Rightarrow> cudaTextureDesc \<Rightarrow> cudaResource \<Rightarrow> 'w trt \<Rightarrow> (aclError \<times> view) \<times> 'w trt" where
  "resolve_resource device context t res s =
     (case res of
        Resource_Array array \<Rightarrow> ((ACL_SUCCESS, lookup_array (registry s) array), s)
      | Resource_Pitch2D devPtr desc width height pitch \<Rightarrow> lookup_pitch device context t devPtr desc width height pitch s
      | _ \<Rightarrow> ((ACL_ERROR_FEATURE_UNSUPPORTED, (None, 0, 0, 0, TextureChannelInvalid)), s))"

(* Source: src/include/ascify/texture_compat.hpp 495-513 cudaCreateTextureObject (sample kind) *)
definition sample_kind_of :: "TextureAllocation \<Rightarrow> TextureChannelKind \<Rightarrow> cudaTextureDesc \<Rightarrow> u32 option" where
  "sample_kind_of a c t =
     (if ta_topology a = TextureTopologyCube
      then (if \<not> ta_array a \<or> ta_width a \<noteq> ta_height a \<or> ta_layers a \<noteq> 6 \<or> c \<noteq> TextureChannelFloat
               \<or> td_normalizedCoords t \<noteq> 1 \<or> td_readMode t \<noteq> cudaReadModeElementType
            then None else Some TextureSampleCubeFloat)
      else if c = TextureChannelRGBA
      then (if td_readMode t = cudaReadModeNormalizedFloat then Some TextureSampleRGBANormalized
            else if td_filterMode t \<noteq> cudaFilterModePoint then None
            else Some TextureSampleRGBAElement)
      else if td_readMode t \<noteq> cudaReadModeElementType \<or> c = TextureChannelInvalid then None
      else if c = TextureChannelUnsigned
      then (if td_filterMode t \<noteq> cudaFilterModePoint then None else Some TextureSampleUnsigned)
      else Some TextureSampleFloat)"

(* Source: src/include/ascify/texture_compat.hpp 527-534 cudaCreateTextureObject (wrap) *)
definition address_mode :: "cudaTextureDesc \<Rightarrow> nat \<Rightarrow> u32" where
  "address_mode t i =
     (if td_normalizedCoords t = 0 then TextureAddressClamp
      else if td_addressMode t ! i = cudaAddressModeWrap then TextureAddressWrap
      else if td_addressMode t ! i = cudaAddressModeMirror then TextureAddressMirror
      else TextureAddressClamp)"

(* Source: src/include/ascify/texture_compat.hpp 521-539 cudaCreateTextureObject (descriptor) *)
definition make_descriptor ::
    "TextureAllocation \<Rightarrow> u64 \<Rightarrow> u64 \<Rightarrow> u64 \<Rightarrow> cudaTextureDesc \<Rightarrow> u32 \<Rightarrow> ptr \<Rightarrow> TextureSamplingDescriptor" where
  "make_descriptor a width height pitch t kind descriptor =
     \<lparr>ds_data = ta_storage a, ds_pitch_bytes = pitch, ds_layer_bytes = ta_pitch a * ta_height a,
      ds_width = ucast width, ds_height = ucast height, ds_layers = ucast (ta_layers a),
      ds_normalized = of_int (td_normalizedCoords t), ds_wrap_x = address_mode t 0, ds_wrap_y = address_mode t 1,
      ds_linear = (if td_filterMode t = cudaFilterModeLinear then TextureFilterLinear else TextureFilterPoint),
      ds_layered = topology_code (ta_topology a), ds_unsigned_element = kind,
      ds_abi_version = TextureDescriptorVersion, ds_error = descriptor + 72\<rparr>"

text \<open>The last part: the descriptor's memory, its image and the handle.\<close>

(* Source: src/include/ascify/texture_compat.hpp 514-548 cudaCreateTextureObject (publication) *)
definition publish_object ::
    "'w acl \<Rightarrow> nat \<Rightarrow> (ptr \<Rightarrow> TextureSamplingDescriptor) \<Rightarrow> 'w trt \<Rightarrow> (aclError \<times> ptr) \<times> 'w trt" where
  "publish_object acl i describe s =
     (case find_index (\<lambda>h. th_descriptor h = 0) (handles (registry s)) of
        None \<Rightarrow> ((ACL_ERROR_BAD_ALLOC, 0), s)
      | Some k \<Rightarrow>
          let (r, s) = call acl (Memory (AclrtMalloc 96)) s; descriptor = rep_ptr r in
          if rep_status r \<noteq> ACL_SUCCESS then ((rep_status r, 0), s)
          else if descriptor = 0 then ((ACL_ERROR_RT_MEMORY_ALLOCATION, 0), s)
          else
            let (status, s) = call_status acl
                  (Memory (AclrtMemcpy_from_local descriptor 96 (descriptor_image (describe descriptor)))) s in
            if status \<noteq> ACL_SUCCESS
            then let (cleanup, s) = call_status acl (Memory (AclrtFree descriptor)) s
                 in ((if cleanup = ACL_SUCCESS then status else cleanup, 0), s)
            else
              let s = set_handle k \<lparr>th_descriptor = descriptor, th_allocation = Some i\<rparr> s;
                  a = records (registry s) ! i
              in ((ACL_SUCCESS, descriptor), set_record i (a\<lparr>ta_references := ta_references a + 1\<rparr>) s))"

(* Source: src/include/ascify/texture_compat.hpp 422-549 cudaCreateTextureObject *)
definition cudaCreateTextureObject ::
    "'w acl \<Rightarrow> u64 option \<Rightarrow> cudaResourceDesc option \<Rightarrow> cudaTextureDesc option \<Rightarrow> bool \<Rightarrow> 'w trt
     \<Rightarrow> (aclError \<times> u64 option) \<times> 'w trt" where
  "cudaCreateTextureObject acl out resource texture view s =
     (case (out, resource, texture) of
        (Some _, Some res, Some t) \<Rightarrow>
          if \<not> description_supported view res t then ((ACL_ERROR_FEATURE_UNSUPPORTED, out), s)
          else
            let ((status, device, context), s) = textureCurrent acl s in
            if status \<noteq> ACL_SUCCESS then ((status, out), s)
            else
              let ((status, i, width, height, pitch, c), s) = resolve_resource device context t (rd_res res) s
              in if status \<noteq> ACL_SUCCESS then ((status, out), s)
                 else (case i of
                   None \<Rightarrow> ((ACL_ERROR_RT_PARAM_INVALID, out), s)
                 | Some i \<Rightarrow>
                     let a = records (registry s) ! i in
                     if \<not> textureOwned a device context then ((ACL_ERROR_RT_PARAM_INVALID, out), s)
                     else (case sample_kind_of a c t of
                       None \<Rightarrow> ((ACL_ERROR_FEATURE_UNSUPPORTED, out), s)
                     | Some kind \<Rightarrow>
                         let ((status, descriptor), s) =
                               publish_object acl i (make_descriptor a width height pitch t kind) s
                         in ((status, if status = ACL_SUCCESS then Some descriptor else out), s)))
      | _ \<Rightarrow> ((ACL_ERROR_RT_PARAM_INVALID, out), s))"

section \<open>Destruction\<close>

(* Source: src/include/ascify/texture_compat.hpp 559-570 cudaDestroyTextureObject (handle) *)
definition release_handle ::
    "'w acl \<Rightarrow> nat \<Rightarrow> 'w trt \<Rightarrow> aclError \<times> 'w trt" where
  "release_handle acl k s =
     (let h = handles (registry s) ! k; (status, s) = call_status acl (Device AclrtSynchronizeDevice) s in
      if status \<noteq> ACL_SUCCESS then (status, s)
      else
        let (r, s) = call acl (Memory (AclrtMemcpy_to_local (th_descriptor h + 72) 4)) s in
        if rep_status r \<noteq> ACL_SUCCESS then (rep_status r, s)
        else
          let (status, s) = call_status acl (Memory (AclrtFree (th_descriptor h))) s in
          if status \<noteq> ACL_SUCCESS then (status, s)
          else
            let i = the (th_allocation h); a = records (registry s) ! i; left = ta_references a - 1;
                s = set_handle k empty_handle s;
                s = set_record i (if ta_storage a = 0 \<and> left = 0 then empty_record else a\<lparr>ta_references := left\<rparr>) s
            in (if rep_int r \<noteq> 0 then ACL_ERROR_FEATURE_UNSUPPORTED else ACL_SUCCESS, s))"

(* Source: src/include/ascify/texture_compat.hpp 550-573 cudaDestroyTextureObject *)
definition cudaDestroyTextureObject :: "'w acl \<Rightarrow> u64 \<Rightarrow> 'w trt \<Rightarrow> aclError \<times> 'w trt" where
  "cudaDestroyTextureObject acl texture s =
     (if texture = 0 then (ACL_ERROR_RT_PARAM_INVALID, s)
      else
        let ((status, device, context), s) = textureCurrent acl s in
        if status \<noteq> ACL_SUCCESS then (status, s)
        else case find_index (\<lambda>h. th_descriptor h = texture) (handles (registry s)) of
          None \<Rightarrow> (ACL_ERROR_RT_PARAM_INVALID, s)
        | Some k \<Rightarrow>
            if \<not> textureOwned (handle_record (registry s) (handles (registry s) ! k)) device context
            then (ACL_ERROR_RT_PARAM_INVALID, s)
            else release_handle acl k s)"

end
