(* ===== verification/Fp32.thy ===== *)
theory Fp32
  imports Complex_Main Prelude
begin

text \<open>
  Binary32 arithmetic as C++ gives it to the samplers: bits, rounding to nearest with ties to
  even, subnormals, infinities, NaN and the sign of zero.  A finite value is a rational number
  with its sign; every operation rounds the exact result once.
\<close>

unbundle bit_operations_syntax

section \<open>Values\<close>

datatype fp32 = NaN | Inf bool | Fin bool rat

definition pow2 :: "int \<Rightarrow> rat" where
  "pow2 e = (if 0 \<le> e then 2 ^ nat e else 1 / 2 ^ nat (- e))"

text \<open>The value of a bit pattern.\<close>

definition fp_of_bits :: "u32 \<Rightarrow> fp32" where
  "fp_of_bits b =
     (let s = bit b 31; e = uint (drop_bit 23 b AND 255); f = uint (b AND 0x7FFFFF);
          sign = (\<lambda>q. if s then - q else q)
      in if e = 255 then (if f = 0 then Inf s else NaN)
         else if e = 0 then Fin s (sign (of_int f * pow2 (-149)))
         else Fin s (sign (of_int (2 ^ 23 + f) * pow2 (e - 150))))"

definition fp_finite :: "fp32 \<Rightarrow> bool" where
  "fp_finite x = (case x of Fin _ _ \<Rightarrow> True | _ \<Rightarrow> False)"

lemma fp_finite_simps [simp]: "fp_finite (Fin s q)" "\<not> fp_finite NaN" "\<not> fp_finite (Inf s)"
  by (simp_all add: fp_finite_def)

section \<open>Rounding\<close>

text \<open>The number of bits of a natural number, and the binary logarithm of a positive rational,
  rounded down.\<close>

fun bits :: "nat \<Rightarrow> nat" where
  "bits n = (if n = 0 then 0 else Suc (bits (n div 2)))"

declare bits.simps [simp del]

definition ilog2 :: "rat \<Rightarrow> int" where
  "ilog2 q =
     (let (n, d) = quotient_of q; k = int (bits (nat n)) - int (bits (nat d))
      in if pow2 k \<le> q then k else k - 1)"

definition rne :: "rat \<Rightarrow> int" where
  "rne x =
     (let f = \<lfloor>x\<rfloor>; r = x - of_int f
      in if r < 1 / 2 \<or> (r = 1 / 2 \<and> even f) then f else f + 1)"

text \<open>Binary32 with an exponent that may grow: 24 significant bits, no unit below \<open>2 ^ -149\<close>.\<close>

definition round32 :: "rat \<Rightarrow> rat" where
  "round32 q =
     (if q = 0 then 0
      else let u = max (ilog2 \<bar>q\<bar>) (-126) - 23 in of_int (rne (q / pow2 u)) * pow2 u)"

text \<open>\<open>s\<close> is the sign of an exact zero.\<close>

definition fp_round :: "bool \<Rightarrow> rat \<Rightarrow> fp32" where
  "fp_round s q =
     (if q = 0 then Fin s 0
      else let r = round32 q in if \<bar>r\<bar> \<ge> 2 ^ 128 then Inf (q < 0) else Fin (q < 0) r)"

section \<open>Operations\<close>

definition fp_of_int :: "int \<Rightarrow> fp32" where
  "fp_of_int i = fp_round False (of_int i)"

fun fp_neg :: "fp32 \<Rightarrow> fp32" where
  "fp_neg NaN = NaN"
| "fp_neg (Inf s) = Inf (\<not> s)"
| "fp_neg (Fin s q) = Fin (\<not> s) (- q)"

fun fp_abs :: "fp32 \<Rightarrow> fp32" where
  "fp_abs NaN = NaN"
| "fp_abs (Inf s) = Inf False"
| "fp_abs (Fin s q) = Fin False \<bar>q\<bar>"

fun fp_add :: "fp32 \<Rightarrow> fp32 \<Rightarrow> fp32" where
  "fp_add (Fin s a) (Fin t b) = fp_round (s \<and> t \<and> a = 0 \<and> b = 0) (a + b)"
| "fp_add (Inf s) (Inf t) = (if s = t then Inf s else NaN)"
| "fp_add (Inf s) (Fin t b) = Inf s"
| "fp_add (Fin s a) (Inf t) = Inf t"
| "fp_add _ _ = NaN"

definition fp_sub :: "fp32 \<Rightarrow> fp32 \<Rightarrow> fp32" where
  "fp_sub x y = fp_add x (fp_neg y)"

fun fp_mul :: "fp32 \<Rightarrow> fp32 \<Rightarrow> fp32" where
  "fp_mul (Fin s a) (Fin t b) = fp_round (s \<noteq> t) (a * b)"
| "fp_mul (Inf s) (Inf t) = Inf (s \<noteq> t)"
| "fp_mul (Inf s) (Fin t b) = (if b = 0 then NaN else Inf (s \<noteq> t))"
| "fp_mul (Fin s a) (Inf t) = (if a = 0 then NaN else Inf (s \<noteq> t))"
| "fp_mul _ _ = NaN"

fun fp_div :: "fp32 \<Rightarrow> fp32 \<Rightarrow> fp32" where
  "fp_div (Fin s a) (Fin t b) =
     (if b = 0 then (if a = 0 then NaN else Inf (s \<noteq> t)) else fp_round (s \<noteq> t) (a / b))"
| "fp_div (Inf s) (Fin t b) = Inf (s \<noteq> t)"
| "fp_div (Fin s a) (Inf t) = Fin (s \<noteq> t) 0"
| "fp_div _ _ = NaN"

fun fp_floor :: "fp32 \<Rightarrow> fp32" where
  "fp_floor (Fin s q) = Fin s (of_int \<lfloor>q\<rfloor>)"
| "fp_floor x = x"

fun fp_lt :: "fp32 \<Rightarrow> fp32 \<Rightarrow> bool" where
  "fp_lt (Fin s a) (Fin t b) = (a < b)"
| "fp_lt (Fin s a) (Inf t) = (\<not> t)"
| "fp_lt (Inf s) (Fin t b) = s"
| "fp_lt (Inf s) (Inf t) = (s \<and> \<not> t)"
| "fp_lt _ _ = False"

fun fp_eq :: "fp32 \<Rightarrow> fp32 \<Rightarrow> bool" where
  "fp_eq (Fin s a) (Fin t b) = (a = b)"
| "fp_eq (Inf s) (Inf t) = (s = t)"
| "fp_eq _ _ = False"

definition fp_le :: "fp32 \<Rightarrow> fp32 \<Rightarrow> bool" where
  "fp_le x y \<longleftrightarrow> fp_lt x y \<or> fp_eq x y"

text \<open>Conversion to \<open>int\<close>: undefined (None) unless the truncated value is one.\<close>

definition fp_to_int :: "fp32 \<Rightarrow> int option" where
  "fp_to_int x =
     (case x of
        Fin _ q \<Rightarrow>
          let i = (if q < 0 then \<lceil>q\<rceil> else \<lfloor>q\<rfloor>)
          in if - (2 ^ 31) \<le> i \<and> i < 2 ^ 31 then Some i else None
      | _ \<Rightarrow> None)"

section \<open>Exact results\<close>

lemma pow2_pos [simp]: "0 < pow2 e" "pow2 e \<noteq> 0" "\<bar>pow2 e\<bar> = pow2 e" "\<not> pow2 e < 0"
  by (simp_all add: pow2_def)

lemma pow2_0 [simp]: "pow2 0 = 1"
  by (simp add: pow2_def)

lemma pow2_nat: "pow2 (int n) = 2 ^ n"
  by (simp add: pow2_def)

lemma pow2_powi: "pow2 e = 2 powi e"
  by (cases e rule: int_cases2) (simp_all add: pow2_def power_int_minus divide_inverse)

lemma pow2_add: "pow2 (a + b) = pow2 a * pow2 b"
  by (simp add: pow2_powi power_int_add)

lemma pow2_diff: "pow2 (a - b) = pow2 a / pow2 b"
  by (simp add: pow2_powi power_int_diff)

lemma pow2_less: "pow2 a < pow2 b \<longleftrightarrow> a < b"
proof -
  have mono: "pow2 x < pow2 y" if "x < y" for x y
    using that by (simp add: pow2_powi power_int_strict_increasing)
  show ?thesis
    using mono[of a b] mono[of b a] by (cases a b rule: linorder_cases) auto
qed

lemma pow2_le: "pow2 a \<le> pow2 b \<longleftrightarrow> a \<le> b"
  using pow2_less[of b a] by (simp flip: not_less)

lemma bits_bound: "0 < n \<Longrightarrow> 2 ^ (bits n - 1) \<le> n \<and> n < 2 ^ bits n \<and> 0 < bits n"
proof (induction n rule: bits.induct)
  case (1 n)
  show ?case
  proof (cases "n div 2 = 0")
    case True
    then have "n = 1"
      using 1(2) by auto
    then show ?thesis
      by (simp add: bits.simps)
  next
    case False
    let ?k = "bits (n div 2)"
    have IH: "2 ^ (?k - 1) \<le> n div 2" "n div 2 < 2 ^ ?k" "0 < ?k"
      using 1 False by auto
    have "bits n = Suc ?k"
      using 1(2) by (simp add: bits.simps[of n])
    moreover have "2 * 2 ^ (?k - 1) = (2 :: nat) ^ ?k"
      using IH(3) by (simp flip: power_Suc)
    moreover have "n div 2 * 2 \<le> n" "n < n div 2 * 2 + 2"
      by simp_all
    ultimately show ?thesis
      using IH(1,2) by simp linarith
  qed
qed

lemma ilog2_bound:
  assumes "0 < q"
  shows "pow2 (ilog2 q) \<le> q" and "q < pow2 (ilog2 q + 1)"
proof -
  obtain n d where nd: "quotient_of q = (n, d)"
    by fastforce
  have d: "0 < d" and q: "q = of_int n / of_int d"
    using quotient_of_denom_pos[OF nd] quotient_of_div[OF nd] by simp_all
  have n: "0 < n"
    using assms d q by (simp add: zero_less_divide_iff)
  let ?bn = "bits (nat n)" and ?bd = "bits (nat d)"
  let ?k = "int ?bn - int ?bd"
  have bn: "(2 :: rat) ^ (?bn - 1) \<le> of_int n" "of_int n < (2 :: rat) ^ ?bn" "0 < ?bn"
    using bits_bound[of "nat n"] n by (simp_all add: nat_less_iff le_nat_iff flip: of_int_power of_int_less_iff of_int_le_iff)
  have bd: "(2 :: rat) ^ (?bd - 1) \<le> of_int d" "of_int d < (2 :: rat) ^ ?bd" "0 < ?bd"
    using bits_bound[of "nat d"] d by (simp_all add: nat_less_iff le_nat_iff flip: of_int_power of_int_less_iff of_int_le_iff)
  have low: "?k - 1 = int (?bn - 1) - int ?bd" and high: "?k + 1 = int ?bn - int (?bd - 1)"
    using bn(3) bd(3) by simp_all
  have "pow2 (?k - 1) = 2 ^ (?bn - 1) / 2 ^ ?bd"
    unfolding low by (simp only: pow2_diff pow2_nat)
  also have "\<dots> \<le> q"
    unfolding q using bn bd d n by (intro frac_le) auto
  finally have lower: "pow2 (?k - 1) \<le> q" .
  have "q < 2 ^ ?bn / 2 ^ (?bd - 1)"
    unfolding q using bn bd d n by (intro frac_less) auto
  also have "\<dots> = pow2 (?k + 1)"
    unfolding high by (simp only: pow2_diff pow2_nat)
  finally have upper: "q < pow2 (?k + 1)" .
  have "ilog2 q = (if pow2 ?k \<le> q then ?k else ?k - 1)"
    by (simp add: ilog2_def nd)
  then show "pow2 (ilog2 q) \<le> q" "q < pow2 (ilog2 q + 1)"
    using lower upper by (auto simp: not_le)
qed

text \<open>A number with 24 significant bits that is not too small is rounded to itself.\<close>

lemma rne_int [simp]: "rne (of_int i) = i"
  by (simp add: rne_def)

lemma round32_exact:
  assumes "\<bar>m\<bar> \<le> 2 ^ 24" and "- 149 \<le> e"
  shows "round32 (of_int m * pow2 e) = of_int m * pow2 e"
proof (cases "m = 0")
  case False
  let ?q = "of_int m * pow2 e"
  let ?k = "ilog2 \<bar>?q\<bar>"
  let ?u = "max ?k (- 126) - 23"
  have "0 < \<bar>?q\<bar>"
    using False by simp
  note k = ilog2_bound(1)[OF this]
  have "\<exists>i. ?q / pow2 ?u = of_int i"
  proof (cases "?u \<le> e")
    case True
    then have "?q / pow2 ?u = of_int (m * 2 ^ nat (e - ?u))"
      using pow2_diff[of e ?u] by (simp add: pow2_def)
    then show ?thesis ..
  next
    case False
    then have u: "?u = ?k - 23"
      using assms(2) by auto
    have "pow2 24 = of_int (2 ^ 24)" and q: "\<bar>?q\<bar> = of_int \<bar>m\<bar> * pow2 e"
      by (simp_all add: pow2_def abs_mult)
    then have "\<bar>?q\<bar> \<le> pow2 24 * pow2 e"
      using assms(1) by (simp only: q of_int_le_iff mult_le_cancel_right_pos pow2_pos)
    then have le: "pow2 ?k \<le> pow2 (24 + e)"
      using k by (simp add: pow2_add)
    then have "?u = e + 1"
      using False u by (simp add: pow2_le)
    have "\<bar>m\<bar> = 2 ^ 24"
    proof (rule ccontr)
      assume "\<bar>m\<bar> \<noteq> 2 ^ 24"
      then have "\<bar>?q\<bar> < pow2 24 * pow2 e"
        using assms(1) \<open>pow2 24 = of_int (2 ^ 24)\<close> by (simp only: q of_int_less_iff mult_less_cancel_right_pos pow2_pos)
      then have "pow2 ?k < pow2 (24 + e)"
        using k by (simp add: pow2_add)
      then show False
        using \<open>?u = e + 1\<close> u by (simp add: pow2_less)
    qed
    then have "even m"
      by (metis abs_eq_iff' even_numeral even_power dvd_abs_iff zero_less_numeral)
    then obtain i where "m = 2 * i"
      by auto
    then have "?q / pow2 ?u = of_int i"
      unfolding \<open>?u = e + 1\<close> pow2_add by (simp add: pow2_def)
    then show ?thesis ..
  qed
  then obtain i where i: "?q / pow2 ?u = of_int i"
    by auto
  then have "?q = of_int i * pow2 ?u"
    by (simp add: field_simps)
  then show ?thesis
    using False i by (simp add: round32_def Let_def)
qed (simp add: round32_def)

lemma fp_round_exact:
  assumes "\<bar>m\<bar> \<le> 2 ^ 24" and "- 149 \<le> e" and "e \<le> 0"
  shows "fp_round s (of_int m * pow2 e) = Fin (if m = 0 then s else m < 0) (of_int m * pow2 e)"
proof -
  have "\<bar>of_int m * pow2 e\<bar> \<le> of_int \<bar>m\<bar> * 1"
    unfolding abs_mult of_int_abs[symmetric]
    by (rule mult_left_mono) (use assms(3) pow2_le[of e 0] in simp_all)
  also have "\<dots> \<le> of_int (2 ^ 24)"
    using assms(1) by (simp only: mult_1_right of_int_le_iff)
  finally have "\<bar>of_int m * pow2 e\<bar> < 2 ^ 128"
    by simp
  then show ?thesis
    unfolding fp_round_def Let_def round32_exact[OF assms(1,2)]
    by (auto simp: mult_less_0_iff not_le)
qed

lemma fp_round_int: "\<bar>m\<bar> \<le> 2 ^ 24 \<Longrightarrow> fp_round s (of_int m) = Fin (if m = 0 then s else m < 0) (of_int m)"
  using fp_round_exact[of m 0 s] by simp

lemma fp_of_int_small: "\<bar>m\<bar> \<le> 2 ^ 24 \<Longrightarrow> fp_of_int m = Fin (m < 0) (of_int m)"
  by (simp add: fp_of_int_def fp_round_int)

end
