(* ===== verification/Texture_Sampling.thy ===== *)
theory Texture_Sampling
  imports Texture_Objects Fp32
begin

text \<open>
  The device side of the texture layer, \<open>include/ascify/texture_sampling.hpp\<close>: reading a
  descriptor, its validation, coordinate transforms, and the samplers for scalar, vector and
  cube textures.  Global memory holds 32-bit words at their addresses; the addresses of the
  texels that are read are recorded.  Undefined behaviour (a conversion of a float that is no
  \<open>int\<close>) is None.
\<close>

section \<open>Device state\<close>

record sampler =
  gm :: "u64 \<Rightarrow> u32"
  texel_reads :: "u64 list"

definition join_words :: "u32 \<Rightarrow> u32 \<Rightarrow> u64" where
  "join_words low high = ucast low OR push_bit 32 (ucast high)"

text \<open>A descriptor is read from its address; the sticky flag, which samplers write, is not one of
  its words.\<close>

(* Source: src/include/ascify/texture_sampling.hpp 34-58 TextureSamplingDescriptor (read) *)
definition read_descriptor :: "(u64 \<Rightarrow> u32) \<Rightarrow> u64 \<Rightarrow> TextureSamplingDescriptor" where
  "read_descriptor m p =
     \<lparr>ds_data = join_words (m p) (m (p + 4)), ds_pitch_bytes = join_words (m (p + 8)) (m (p + 12)),
      ds_layer_bytes = join_words (m (p + 16)) (m (p + 20)), ds_width = m (p + 24), ds_height = m (p + 28),
      ds_layers = m (p + 32), ds_normalized = m (p + 36), ds_wrap_x = m (p + 40), ds_wrap_y = m (p + 44),
      ds_linear = m (p + 48), ds_layered = m (p + 52), ds_unsigned_element = m (p + 56),
      ds_abi_version = m (p + 60), ds_error = join_words (m (p + 64)) (m (p + 68))\<rparr>"

section \<open>Texels\<close>

(* Source: src/include/ascify/texture_sampling.hpp 63-69 textureSamplingReject *)
definition textureSamplingReject :: "TextureSamplingDescriptor \<Rightarrow> sampler \<Rightarrow> fp32 \<times> sampler" where
  "textureSamplingReject d s = (NaN, s\<lparr>gm := (gm s)(ds_error d := gm s (ds_error d) OR 1)\<rparr>)"

(* Source: src/include/ascify/texture_sampling.hpp 71-77 textureAddressIndex *)
definition textureAddressIndex :: "int \<Rightarrow> int \<Rightarrow> bool \<Rightarrow> int" where
  "textureAddressIndex value n wrap =
     (if \<not> wrap then (if value < 0 then 0 else if value \<ge> n then n - 1 else value)
      else if value < 0 then n - 1 else if value \<ge> n then 0 else value)"

definition address_x :: "TextureSamplingDescriptor \<Rightarrow> int \<Rightarrow> int" where
  "address_x d x = textureAddressIndex x (sint (ds_width d)) (ds_wrap_x d = TextureAddressWrap)"

definition address_y :: "TextureSamplingDescriptor \<Rightarrow> int \<Rightarrow> int" where
  "address_y d y = textureAddressIndex y (sint (ds_height d)) (ds_wrap_y d = TextureAddressWrap)"

(* Source: src/include/ascify/texture_sampling.hpp 83-84 textureLoadFloat (address) *)
definition texel_address :: "TextureSamplingDescriptor \<Rightarrow> int \<Rightarrow> int \<Rightarrow> int \<Rightarrow> u64" where
  "texel_address d x y layer = ds_data d + word_of_int layer * ds_layer_bytes d
     + word_of_int y * ds_pitch_bytes d + word_of_int x * 4"

definition load_word :: "u64 \<Rightarrow> sampler \<Rightarrow> u32 \<times> sampler" where
  "load_word a s = (gm s a, s\<lparr>texel_reads := texel_reads s @ [a]\<rparr>)"

(* Source: src/include/ascify/texture_sampling.hpp 79-89 textureLoadFloat *)
definition textureLoadFloat :: "TextureSamplingDescriptor \<Rightarrow> int \<Rightarrow> int \<Rightarrow> int \<Rightarrow> sampler \<Rightarrow> fp32 \<times> sampler" where
  "textureLoadFloat d x y layer s =
     (let (b, s) = load_word (texel_address d (address_x d x) (address_y d y) layer) s; value = fp_of_bits b
      in if fp_finite value then (value, s) else textureSamplingReject d s)"

section \<open>Cube maps\<close>

definition fp_half :: fp32 where "fp_half = Fin False (1 / 2)"
definition fp_zero :: fp32 where "fp_zero = Fin False 0"
definition fp_one :: fp32 where "fp_one = Fin False 1"
definition fp_two :: fp32 where "fp_two = Fin False 2"

(* Source: src/include/ascify/texture_sampling.hpp 93-103 textureCubeCenterIndex *)
definition textureCubeCenterIndex :: "fp32 \<Rightarrow> u32 \<Rightarrow> int option option" where
  "textureCubeCenterIndex axis n =
     (let pixel = fp_sub (fp_mul (fp_add axis fp_one) (fp_mul fp_half (fp_of_int (uint n)))) fp_half in
      if \<not> fp_finite pixel \<or> fp_lt pixel fp_zero \<or> fp_le (fp_of_int (uint n)) pixel \<or> \<not> fp_eq pixel (fp_floor pixel)
      then Some None
      else case fp_to_int pixel of
        None \<Rightarrow> None
      | Some index \<Rightarrow>
          let numerator = 2 * index + 1 - sint n
          in Some (if fp_eq axis (fp_div (fp_of_int numerator) (fp_of_int (uint n))) then Some index else None))"

text \<open>The face of a direction with a strict unit major axis, and the coordinates on it.\<close>

(* Source: src/include/ascify/texture_sampling.hpp 120-131 textureSampleCubeFloat (face) *)
definition cube_face :: "fp32 \<Rightarrow> fp32 \<Rightarrow> fp32 \<Rightarrow> (int \<times> fp32 \<times> fp32) option" where
  "cube_face x y z =
     (let ax = fp_abs x; ay = fp_abs y; az = fp_abs z in
      if fp_lt ay ax \<and> fp_lt az ax \<and> fp_eq ax fp_one
      then Some (if fp_lt fp_zero x then (0, fp_neg z, fp_neg y) else (1, z, fp_neg y))
      else if fp_lt ax ay \<and> fp_lt az ay \<and> fp_eq ay fp_one
      then Some (if fp_lt fp_zero y then (2, x, z) else (3, x, fp_neg z))
      else if fp_lt ax az \<and> fp_lt ay az \<and> fp_eq az fp_one
      then Some (if fp_lt fp_zero z then (4, x, fp_neg y) else (5, fp_neg x, fp_neg y))
      else None)"

(* Source: src/include/ascify/texture_sampling.hpp 110-118 textureSampleCubeFloat (descriptor) *)
definition cube_admitted :: "TextureSamplingDescriptor \<Rightarrow> fp32 \<Rightarrow> fp32 \<Rightarrow> fp32 \<Rightarrow> bool" where
  "cube_admitted d x y z \<longleftrightarrow>
     ds_abi_version d = TextureDescriptorVersion \<and> ds_unsigned_element d = TextureSampleCubeFloat
     \<and> ds_layered d = 2 \<and> ds_layers d = 6 \<and> ds_width d \<noteq> 0 \<and> ds_width d \<le> 2 ^ 20
     \<and> ds_width d AND (ds_width d - 1) = 0 \<and> ds_height d = ds_width d \<and> ds_normalized d = 1
     \<and> ds_wrap_x d \<le> TextureAddressMirror \<and> ds_wrap_y d \<le> TextureAddressMirror
     \<and> (ds_linear d = TextureFilterPoint \<or> ds_linear d = TextureFilterLinear)
     \<and> fp_finite x \<and> fp_finite y \<and> fp_finite z"

(* Source: src/include/ascify/texture_sampling.hpp 105-138 textureSampleCubeFloat *)
definition textureSampleCubeFloat :: "u64 \<Rightarrow> fp32 \<Rightarrow> fp32 \<Rightarrow> fp32 \<Rightarrow> sampler \<Rightarrow> (fp32 \<times> sampler) option" where
  "textureSampleCubeFloat token x y z s =
     (let d = read_descriptor (gm s) token in
      if \<not> cube_admitted d x y z then Some (textureSamplingReject d s)
      else case cube_face x y z of
        None \<Rightarrow> Some (textureSamplingReject d s)
      | Some (face, u, v) \<Rightarrow>
          (case (textureCubeCenterIndex u (ds_width d), textureCubeCenterIndex v (ds_width d)) of
             (None, _) \<Rightarrow> None
           | (Some None, _) \<Rightarrow> Some (textureSamplingReject d s)
           | (Some (Some ix), None) \<Rightarrow> None
           | (Some (Some ix), Some None) \<Rightarrow> Some (textureSamplingReject d s)
           | (Some (Some ix), Some (Some iy)) \<Rightarrow> Some (textureLoadFloat d ix iy face s)))"

section \<open>Coordinates\<close>

(* Source: src/include/ascify/texture_sampling.hpp 140-158 textureCoordinate *)
definition textureCoordinate :: "fp32 \<Rightarrow> u32 \<Rightarrow> bool \<Rightarrow> u32 \<Rightarrow> fp32" where
  "textureCoordinate coordinate n normalized mode =
     (if normalized
      then
        let coordinate =
          (if mode = TextureAddressWrap then fp_sub coordinate (fp_floor coordinate)
           else if mode = TextureAddressMirror
           then
             let magnitude = fp_abs coordinate;
                 period = fp_sub magnitude (fp_mul fp_two (fp_floor (fp_mul magnitude fp_half)))
             in if fp_lt fp_one period then fp_sub fp_two period else period
           else if fp_lt coordinate fp_zero then fp_zero
           else if fp_lt fp_one coordinate then fp_one else coordinate)
        in fp_mul coordinate (fp_of_int (uint n))
      else
        let bound = fp_of_int (uint n)
        in if fp_lt coordinate fp_zero then fp_zero else if fp_lt bound coordinate then bound else coordinate)"

(* Source: src/include/ascify/texture_sampling.hpp 160-179 textureSamplingHeader *)
definition textureSamplingHeader ::
    "TextureSamplingDescriptor \<Rightarrow> u32 \<Rightarrow> fp32 \<Rightarrow> fp32 \<Rightarrow> int \<Rightarrow> bool \<Rightarrow> bool" where
  "textureSamplingHeader d expected x y layer layered \<longleftrightarrow>
     ds_abi_version d = TextureDescriptorVersion \<and> ds_unsigned_element d = expected
     \<and> (ds_linear d = TextureFilterPoint \<or> ds_linear d = TextureFilterLinear)
     \<and> ds_width d \<noteq> 0 \<and> ds_width d \<le> 2 ^ 20 \<and> ds_height d \<noteq> 0 \<and> ds_height d \<le> 2 ^ 20
     \<and> ds_layers d \<noteq> 0 \<and> ds_layers d \<le> 2 ^ 20
     \<and> ds_normalized d \<le> 1 \<and> ds_wrap_x d \<le> TextureAddressMirror \<and> ds_wrap_y d \<le> TextureAddressMirror
     \<and> (ds_wrap_x d = 0 \<or> ds_normalized d \<noteq> 0) \<and> (ds_wrap_y d = 0 \<or> ds_normalized d \<noteq> 0)
     \<and> ds_layered d \<le> 1 \<and> (ds_layered d \<noteq> 0) = layered
     \<and> 0 \<le> layer \<and> (word_of_int layer :: u32) < ds_layers d \<and> fp_finite x \<and> fp_finite y"

(* Source: src/include/ascify/texture_sampling.hpp 181-193 textureSampleCoordinates *)
definition textureSampleCoordinates :: "TextureSamplingDescriptor \<Rightarrow> fp32 \<Rightarrow> fp32 \<Rightarrow> (fp32 \<times> fp32) option" where
  "textureSampleCoordinates d x y =
     (let x = textureCoordinate x (ds_width d) (ds_normalized d \<noteq> 0) (ds_wrap_x d);
          y = textureCoordinate y (ds_height d) (ds_normalized d \<noteq> 0) (ds_wrap_y d)
      in if fp_finite x \<and> fp_finite y \<and> fp_le fp_zero x \<and> fp_le fp_zero y
            \<and> fp_le x (fp_of_int (uint (ds_width d))) \<and> fp_le y (fp_of_int (uint (ds_height d)))
         then Some (x, y) else None)"

definition fp_256 :: fp32 where "fp_256 = Fin False 256"

text \<open>The outer option is undefined behaviour, the inner one the rejection.\<close>

(* Source: src/include/ascify/texture_sampling.hpp 196-212 textureLinearCoordinates *)
definition textureLinearCoordinates ::
    "bool \<Rightarrow> TextureSamplingDescriptor \<Rightarrow> fp32 \<Rightarrow> fp32 \<Rightarrow> (int \<times> int \<times> fp32 \<times> fp32) option option" where
  "textureLinearCoordinates approximate d x y =
     (let xb = fp_sub x fp_half; yb = fp_sub y fp_half; xf = fp_floor xb; yf = fp_floor yb in
      if \<not> fp_finite xf \<or> \<not> fp_finite yf \<or> fp_lt xf (fp_neg fp_one) \<or> fp_lt yf (fp_neg fp_one)
         \<or> fp_lt (fp_of_int (uint (ds_width d))) xf \<or> fp_lt (fp_of_int (uint (ds_height d))) yf
      then Some None
      else
        let a = fp_sub xb xf; b = fp_sub yb yf; aq = fp_mul a fp_256; bq = fp_mul b fp_256 in
        if \<not> approximate \<and> (\<not> fp_eq aq (fp_floor aq) \<or> \<not> fp_eq bq (fp_floor bq)) then Some None
        else case (fp_to_int xf, fp_to_int yf) of
          (Some ix, Some iy) \<Rightarrow> Some (Some (ix, iy, a, b))
        | _ \<Rightarrow> None)"

section \<open>Scalar textures\<close>

definition lerp :: "fp32 \<Rightarrow> fp32 \<Rightarrow> fp32 \<Rightarrow> fp32" where
  "lerp weight left right = fp_add (fp_mul (fp_sub fp_one weight) left) (fp_mul weight right)"

(* Source: src/include/ascify/texture_sampling.hpp 228-238 textureSampleFloat (linear) *)
definition linear_float ::
    "TextureSamplingDescriptor \<Rightarrow> int \<Rightarrow> int \<Rightarrow> fp32 \<Rightarrow> fp32 \<Rightarrow> int \<Rightarrow> sampler \<Rightarrow> fp32 \<times> sampler" where
  "linear_float d ix iy a b layer s =
     (let (t00, s) = textureLoadFloat d ix iy layer s;
          (row0, s) = (if fp_eq a fp_zero then (t00, s)
                       else let (t10, s) = textureLoadFloat d (ix + 1) iy layer s in (lerp a t00 t10, s))
      in if fp_eq b fp_zero then (row0, s)
         else
           let (t01, s) = textureLoadFloat d ix (iy + 1) layer s;
               (row1, s) = (if fp_eq a fp_zero then (t01, s)
                            else let (t11, s) = textureLoadFloat d (ix + 1) (iy + 1) layer s in (lerp a t01 t11, s))
           in (lerp b row0 row1, s))"

(* Source: src/include/ascify/texture_sampling.hpp 214-239 textureSampleFloat *)
definition textureSampleFloat ::
    "bool \<Rightarrow> u64 \<Rightarrow> fp32 \<Rightarrow> fp32 \<Rightarrow> int \<Rightarrow> bool \<Rightarrow> sampler \<Rightarrow> (fp32 \<times> sampler) option" where
  "textureSampleFloat approximate token x y layer layered s =
     (let d = read_descriptor (gm s) token in
      if \<not> textureSamplingHeader d TextureSampleFloat x y layer layered then Some (textureSamplingReject d s)
      else case textureSampleCoordinates d x y of
        None \<Rightarrow> Some (textureSamplingReject d s)
      | Some (x, y) \<Rightarrow>
          if ds_linear d = TextureFilterPoint
          then (case (fp_to_int (fp_floor x), fp_to_int (fp_floor y)) of
                  (Some ix, Some iy) \<Rightarrow> Some (textureLoadFloat d ix iy layer s)
                | _ \<Rightarrow> None)
          else (case textureLinearCoordinates approximate d x y of
                  None \<Rightarrow> None
                | Some None \<Rightarrow> Some (textureSamplingReject d s)
                | Some (Some (ix, iy, a, b)) \<Rightarrow> Some (linear_float d ix iy a b layer s)))"

(* Source: src/include/ascify/texture_sampling.hpp 243-259 textureSampleUnsigned *)
definition textureSampleUnsigned ::
    "u64 \<Rightarrow> fp32 \<Rightarrow> fp32 \<Rightarrow> int \<Rightarrow> bool \<Rightarrow> sampler \<Rightarrow> (u32 \<times> sampler) option" where
  "textureSampleUnsigned token x y layer layered s =
     (let d = read_descriptor (gm s) token; refused = Some (0, snd (textureSamplingReject d s)) in
      if \<not> textureSamplingHeader d TextureSampleUnsigned x y layer layered \<or> ds_linear d \<noteq> TextureFilterPoint
      then refused
      else case textureSampleCoordinates d x y of
        None \<Rightarrow> refused
      | Some (x, y) \<Rightarrow>
          (case (fp_to_int (fp_floor x), fp_to_int (fp_floor y)) of
             (Some ix, Some iy) \<Rightarrow> Some (load_word (texel_address d (address_x d ix) (address_y d iy) layer) s)
           | _ \<Rightarrow> None))"

section \<open>Vector textures\<close>

(* Source: src/include/ascify/texture_sampling.hpp 262-272 textureRGBAWrapCoordinateAdmitted *)
definition textureRGBAWrapCoordinateAdmitted :: "TextureSamplingDescriptor \<Rightarrow> fp32 \<Rightarrow> fp32 \<Rightarrow> bool" where
  "textureRGBAWrapCoordinateAdmitted d x y \<longleftrightarrow>
     ds_normalized d = 0
     \<or> (ds_wrap_x d \<noteq> TextureAddressWrap \<or> fp_le fp_zero x \<or> \<not> fp_eq (fp_sub x (fp_floor x)) fp_one)
       \<and> (ds_wrap_y d \<noteq> TextureAddressWrap \<or> fp_le fp_zero y \<or> \<not> fp_eq (fp_sub y (fp_floor y)) fp_one)"

text \<open>The four bytes of a word, the lowest address first.\<close>

type_synonym uchar4 = "8 word list"

definition bytes_of :: "u32 \<Rightarrow> uchar4" where
  "bytes_of w = map (\<lambda>k. ucast (drop_bit (8 * k) w)) [0..<4]"

(* Source: src/include/ascify/texture_sampling.hpp 273-283 textureLoadRGBA *)
definition textureLoadRGBA :: "TextureSamplingDescriptor \<Rightarrow> int \<Rightarrow> int \<Rightarrow> int \<Rightarrow> sampler \<Rightarrow> uchar4 \<times> sampler" where
  "textureLoadRGBA d x y layer s =
     (let (w, s) = load_word (texel_address d (address_x d x) (address_y d y) layer) s in (bytes_of w, s))"

(* Source: src/include/ascify/texture_sampling.hpp 284-291 textureNormalizeRGBA *)
definition textureNormalizeRGBA :: "uchar4 \<Rightarrow> fp32 list" where
  "textureNormalizeRGBA value = map (\<lambda>c. fp_div (fp_of_int (uint c)) (Fin False 255)) value"

(* Source: src/include/ascify/texture_sampling.hpp 292-299 textureBlendRGBA *)
definition textureBlendRGBA :: "fp32 list \<Rightarrow> fp32 list \<Rightarrow> fp32 \<Rightarrow> fp32 list" where
  "textureBlendRGBA left right weight = map2 (lerp weight) left right"

(* Source: src/include/ascify/texture_sampling.hpp 300-306 textureRejectRGBA *)
definition textureRejectRGBA :: "TextureSamplingDescriptor \<Rightarrow> sampler \<Rightarrow> fp32 list \<times> sampler" where
  "textureRejectRGBA d s = (let (error, s) = textureSamplingReject d s in (replicate 4 error, s))"

(* Source: src/include/ascify/texture_sampling.hpp 307-318 textureSampleRGBAElement *)
definition textureSampleRGBAElement ::
    "u64 \<Rightarrow> fp32 \<Rightarrow> fp32 \<Rightarrow> int \<Rightarrow> bool \<Rightarrow> sampler \<Rightarrow> (uchar4 \<times> sampler) option" where
  "textureSampleRGBAElement token x y layer layered s =
     (let d = read_descriptor (gm s) token; refused = Some (replicate 4 0, snd (textureSamplingReject d s)) in
      if \<not> textureSamplingHeader d TextureSampleRGBAElement x y layer layered \<or> ds_linear d \<noteq> TextureFilterPoint
         \<or> \<not> textureRGBAWrapCoordinateAdmitted d x y
      then refused
      else case textureSampleCoordinates d x y of
        None \<Rightarrow> refused
      | Some (x, y) \<Rightarrow>
          (case (fp_to_int (fp_floor x), fp_to_int (fp_floor y)) of
             (Some ix, Some iy) \<Rightarrow> Some (textureLoadRGBA d ix iy layer s)
           | _ \<Rightarrow> None))"

(* Source: src/include/ascify/texture_sampling.hpp 332-342 textureSampleRGBANormalized (linear) *)
definition linear_RGBA ::
    "TextureSamplingDescriptor \<Rightarrow> int \<Rightarrow> int \<Rightarrow> fp32 \<Rightarrow> fp32 \<Rightarrow> int \<Rightarrow> sampler \<Rightarrow> fp32 list \<times> sampler" where
  "linear_RGBA d ix iy a b layer s =
     (let (c00, s) = textureLoadRGBA d ix iy layer s; t00 = textureNormalizeRGBA c00;
          (row0, s) = (if fp_eq a fp_zero then (t00, s)
                       else let (c10, s) = textureLoadRGBA d (ix + 1) iy layer s
                            in (textureBlendRGBA t00 (textureNormalizeRGBA c10) a, s))
      in if fp_eq b fp_zero then (row0, s)
         else
           let (c01, s) = textureLoadRGBA d ix (iy + 1) layer s; t01 = textureNormalizeRGBA c01;
               (row1, s) = (if fp_eq a fp_zero then (t01, s)
                            else let (c11, s) = textureLoadRGBA d (ix + 1) (iy + 1) layer s
                                 in (textureBlendRGBA t01 (textureNormalizeRGBA c11) a, s))
           in (textureBlendRGBA row0 row1 b, s))"

(* Source: src/include/ascify/texture_sampling.hpp 319-342 textureSampleRGBANormalized *)
definition textureSampleRGBANormalized ::
    "bool \<Rightarrow> u64 \<Rightarrow> fp32 \<Rightarrow> fp32 \<Rightarrow> int \<Rightarrow> bool \<Rightarrow> sampler \<Rightarrow> (fp32 list \<times> sampler) option" where
  "textureSampleRGBANormalized approximate token x y layer layered s =
     (let d = read_descriptor (gm s) token in
      if \<not> textureSamplingHeader d TextureSampleRGBANormalized x y layer layered
         \<or> \<not> textureRGBAWrapCoordinateAdmitted d x y
      then Some (textureRejectRGBA d s)
      else case textureSampleCoordinates d x y of
        None \<Rightarrow> Some (textureRejectRGBA d s)
      | Some (x, y) \<Rightarrow>
          if ds_linear d = TextureFilterPoint
          then (case (fp_to_int (fp_floor x), fp_to_int (fp_floor y)) of
                  (Some ix, Some iy) \<Rightarrow>
                    let (c, s) = textureLoadRGBA d ix iy layer s in Some (textureNormalizeRGBA c, s)
                | _ \<Rightarrow> None)
          else (case textureLinearCoordinates approximate d x y of
                  None \<Rightarrow> None
                | Some None \<Rightarrow> Some (textureRejectRGBA d s)
                | Some (Some (ix, iy, a, b)) \<Rightarrow> Some (linear_RGBA d ix iy a b layer s)))"

end
