(* ===== verification/Texture_Invariants.thy ===== *)
theory Texture_Invariants
  imports Texture_Objects Cuda_Api_Props
begin

text \<open>
  What the texture registry keeps: its reference counts, the geometry of its records, and that
  the record of a live texture object is never used for another allocation.
\<close>

section \<open>Operations that leave the registry alone\<close>

named_theorems registry_frame

lemma call_frame [registry_frame]: "call acl c s = (r, s') \<Longrightarrow> registry s' = registry s"
  by (auto simp: call_def Let_def split: prod.splits)

lemma call_status_frame [registry_frame]: "call_status acl c s = (e, s') \<Longrightarrow> registry s' = registry s"
  by (auto simp: call_status_def Let_def dest!: call_frame split: prod.splits)

lemma remember_frame [registry_frame]: "rememberLifecycleError e s = (e', s') \<Longrightarrow> registry s' = registry s"
  by (auto simp: rememberLifecycleError_def split: if_splits)

lemma initialized_frame [registry_frame]: "ensureInitialized acl s = (e, s') \<Longrightarrow> registry s' = registry s"
  by (auto simp: ensureInitialized_def registerExitCleanup_def Let_def dest!: registry_frame split: prod.splits if_splits)

lemma track_frame [registry_frame]: "track_device acl d s = (e, s') \<Longrightarrow> registry s' = registry s"
  by (auto simp: track_device_def registerExitCleanup_def Let_def dest!: registry_frame split: prod.splits if_splits)

lemma unwind_frame [registry_frame]: "unwind_binding acl d e s = (e', s') \<Longrightarrow> registry s' = registry s"
  by (auto simp: unwind_binding_def Let_def dest!: registry_frame split: prod.splits if_splits)

lemma bind_frame [registry_frame]: "bindDevice acl d s = (e, s') \<Longrightarrow> registry s' = registry s"
  by (auto simp: bindDevice_def Let_def registerExitCleanup_def dest!: registry_frame split: prod.splits if_splits)

lemma reset_frame [registry_frame]: "resetDevice acl d s = (e, s') \<Longrightarrow> registry s' = registry s"
  by (auto simp: resetDevice_def Let_def dest!: registry_frame split: prod.splits if_splits)

lemma ready_frame [registry_frame]: "ensureCurrentDevice acl s = (e, s') \<Longrightarrow> registry s' = registry s"
  by (auto simp: ensureCurrentDevice_def Let_def dest!: registry_frame split: prod.splits if_splits)

lemma current_frame [registry_frame]: "textureCurrent acl s = (x, s') \<Longrightarrow> registry s' = registry s"
  by (auto simp: textureCurrent_def Let_def dest!: registry_frame split: prod.splits if_splits)

lemma poll_frame [registry_frame]: "poll_handles acl d c hs s = (e, s') \<Longrightarrow> registry s' = registry s"
  by (induction hs arbitrary: s) (auto simp: Let_def dest!: registry_frame split: prod.splits if_splits)

lemma status_frame [registry_frame]: "textureStatusLocked acl d c s = (e, s') \<Longrightarrow> registry s' = registry s"
  by (auto simp: textureStatusLocked_def Let_def dest!: registry_frame split: prod.splits if_splits)

lemma pending_frame [registry_frame]: "textureCheckPending acl s = (e, s') \<Longrightarrow> registry s' = registry s"
  by (auto simp: textureCheckPending_def Let_def dest!: registry_frame split: prod.splits if_splits)

lemma invalidate_frame [registry_frame]: "invalidate_handles acl i hs s = (e, s') \<Longrightarrow> registry s' = registry s"
  by (induction hs arbitrary: s) (auto simp: Let_def dest!: registry_frame split: prod.splits if_splits)

lemma rows_frame [registry_frame]: "copy_rows acl f rs s = (e, s') \<Longrightarrow> registry s' = registry s"
  by (induction rs arbitrary: s) (auto simp: Let_def dest!: registry_frame split: prod.splits if_splits)

lemma copy_frame [registry_frame]: "textureCopyRows acl dst dp src sp w h k s = (e, s') \<Longrightarrow> registry s' = registry s"
  by (auto simp: textureCopyRows_def Let_def dest!: registry_frame split: prod.splits if_splits option.splits)

section \<open>The registry as a transition system\<close>

lemma find_index_Some: "find_index P xs = Some i \<Longrightarrow> i < length xs \<and> P (xs ! i)"
  by (induction xs arbitrary: i) (auto split: if_splits)

definition live :: "TextureRegistry \<Rightarrow> nat \<Rightarrow> bool" where
  "live g k \<longleftrightarrow> k < length (handles g) \<and> th_descriptor (handles g ! k) \<noteq> 0"

text \<open>The live handles of a slot, and what a record says of its storage.\<close>

definition users :: "TextureRegistry \<Rightarrow> nat \<Rightarrow> nat set" where
  "users g i = {k. live g k \<and> th_allocation (handles g ! k) = Some i}"

definition sound_record :: "TextureAllocation \<Rightarrow> bool" where
  "sound_record a \<longleftrightarrow> ta_storage a \<noteq> 0 \<longrightarrow>
     (if ta_borrowed a
      then \<not> ta_array a \<and> ta_topology a = TextureTopologyPlain \<and> ta_layers a = 1 \<and> ta_height a = 0
      else unat (ta_bytes a) = unat (ta_pitch a) * unat (ta_height a) * unat (ta_layers a)
        \<and> 0 < ta_width a \<and> ta_width a \<le> 2 ^ 20 \<and> 0 < ta_height a \<and> ta_height a \<le> 2 ^ 20
        \<and> 0 < ta_layers a \<and> ta_layers a \<le> 2 ^ 20
        \<and> (if ta_array a then unat (ta_pitch a) = 4 * unat (ta_width a)
           else ta_layers a = 1 \<and> ta_topology a = TextureTopologyPlain))"

definition registry_inv :: "TextureRegistry \<Rightarrow> bool" where
  "registry_inv g \<longleftrightarrow> length (records g) = 128 \<and> length (handles g) = 128
     \<and> (\<forall>k. live g k \<longrightarrow> (\<exists>i < 128. th_allocation (handles g ! k) = Some i))
     \<and> (\<forall>i < 128. ta_references (records g ! i) = card (users g i) \<and> sound_record (records g ! i))"

definition dropped :: "int \<Rightarrow> TextureRegistry \<Rightarrow> TextureRegistry" where
  "dropped device g = g\<lparr>handles := map (\<lambda>h. if th_descriptor h \<noteq> 0 \<and> ta_device (handle_record g h) = device
       then empty_handle else h) (handles g),
     records := map (\<lambda>a. if ta_device a = device then empty_record else a) (records g)\<rparr>"

text \<open>The steps of the registry in two phases: an operation that makes an object releases
  nothing, and every other operation makes none.\<close>

inductive registry_step :: "bool \<Rightarrow> TextureRegistry \<Rightarrow> TextureRegistry \<Rightarrow> bool" where
  step_hooks: "registry_step b g (g\<lparr>hooks_installed := h\<rparr>)"
| step_allocate: "i < 128 \<Longrightarrow> ta_storage (records g ! i) = 0 \<Longrightarrow> ta_references (records g ! i) = 0 \<Longrightarrow>
    sound_record a \<Longrightarrow> ta_references a = 0 \<Longrightarrow> registry_step b g (g\<lparr>records := (records g)[i := a]\<rparr>)"
| step_release: "i < 128 \<Longrightarrow> a = records g ! i \<Longrightarrow> registry_step False g (g\<lparr>records := (records g)
    [i := if ta_references a = 0 then empty_record else a\<lparr>ta_storage := 0\<rparr>]\<rparr>)"
| step_create: "k < 128 \<Longrightarrow> \<not> live g k \<Longrightarrow> i < 128 \<Longrightarrow> d \<noteq> 0 \<Longrightarrow> a = records g ! i \<Longrightarrow> registry_step True g
    (g\<lparr>handles := (handles g)[k := \<lparr>th_descriptor = d, th_allocation = Some i\<rparr>],
       records := (records g)[i := a\<lparr>ta_references := ta_references a + 1\<rparr>]\<rparr>)"
| step_destroy: "live g k \<Longrightarrow> th_allocation (handles g ! k) = Some i \<Longrightarrow> a = records g ! i \<Longrightarrow> registry_step False g
    (g\<lparr>handles := (handles g)[k := empty_handle],
       records := (records g)[i := if ta_storage a = 0 \<and> ta_references a - 1 = 0 then empty_record
         else a\<lparr>ta_references := ta_references a - 1\<rparr>]\<rparr>)"
| step_reset: "registry_step False g (dropped device g)"

abbreviation registry_steps :: "bool \<Rightarrow> TextureRegistry \<Rightarrow> TextureRegistry \<Rightarrow> bool" where
  "registry_steps b \<equiv> (registry_step b)\<^sup>*\<^sup>*"

lemma sound_empty [simp]: "sound_record empty_record" "ta_references empty_record = 0"
  by (simp_all add: sound_record_def empty_record_def)

lemma sound_references [simp]: "sound_record (a\<lparr>ta_references := n\<rparr>) = sound_record a"
  by (simp add: sound_record_def)

lemma sound_released [simp]: "sound_record (a\<lparr>ta_storage := 0\<rparr>)"
  by (simp add: sound_record_def)

lemma finite_users [simp]: "finite (users g i)"
  by (rule finite_subset[of _ "{..< length (handles g)}"]) (auto simp: users_def live_def)

lemma users_hooks [simp]: "users (g\<lparr>hooks_installed := h\<rparr>) = users g" "live (g\<lparr>hooks_installed := h\<rparr>) = live g"
  by (auto simp: users_def live_def fun_eq_iff)

lemma users_records [simp]: "users (g\<lparr>records := rs\<rparr>) = users g" "live (g\<lparr>records := rs\<rparr>) = live g"
  by (auto simp: users_def live_def fun_eq_iff)

lemma empty_handle_simps [simp]: "th_descriptor empty_handle = 0"
  by (simp add: empty_handle_def)

lemma nth_upd: "xs[k := x] ! j = (if j = k \<and> k < length xs then x else xs ! j)"
  by (cases "k < length xs") (auto simp: nth_list_update list_update_beyond)

lemma live_set_handle: "live (g\<lparr>handles := (handles g)[k := h]\<rparr>) j \<longleftrightarrow>
    (if j = k \<and> k < length (handles g) then th_descriptor h \<noteq> 0 else live g j)"
  by (auto simp: live_def nth_upd)

lemma users_create:
  assumes "k < length (handles g)" "\<not> live g k" "d \<noteq> 0"
  shows "users (g\<lparr>handles := (handles g)[k := \<lparr>th_descriptor = d, th_allocation = Some i\<rparr>]\<rparr>) j
    = (if j = i then insert k (users g j) else users g j)"
  using assms by (auto simp: users_def live_def nth_upd)

lemma users_destroy: "users (g\<lparr>handles := (handles g)[k := empty_handle]\<rparr>) j = users g j - {k}"
  by (auto simp: users_def live_def nth_upd)

lemma registry_step_inv:
  assumes "registry_step b g g'" and "registry_inv g"
  shows "registry_inv g'"
  using assms
proof (induction rule: registry_step.induct)
  case (step_hooks b g h)
  then show ?case
    by (simp add: registry_inv_def)
next
  case (step_allocate i g a b)
  then show ?case
    by (auto simp: registry_inv_def nth_list_update)
next
  case (step_release i a g)
  then show ?case
    by (auto simp: registry_inv_def nth_list_update)
next
  case (step_create k g i d a)
  then have "k \<notin> users g i" "k < length (handles g)"
    by (auto simp: users_def registry_inv_def)
  then show ?case
    using step_create by (auto simp: registry_inv_def nth_list_update live_set_handle users_create[simplified])
next
  case (step_destroy g k i a)
  then have "k \<in> users g i" and other: "\<And>j. j \<noteq> i \<Longrightarrow> k \<notin> users g j"
    by (auto simp: users_def)
  then have "card (users g i - {k}) = card (users g i) - 1"
    by simp
  then show ?case
    using step_destroy other by (auto simp: registry_inv_def nth_upd live_set_handle users_destroy[simplified] split: if_splits)
next
  case (step_reset g device)
  have len: "length (records g) = 128" "length (handles g) = 128"
    using step_reset by (simp_all add: registry_inv_def)
  have gone: "live (dropped device g) k \<longleftrightarrow> live g k \<and> ta_device (handle_record g (handles g ! k)) \<noteq> device" for k
    by (auto simp: live_def dropped_def split: if_splits)
  have same: "handles (dropped device g) ! k = handles g ! k" if "live (dropped device g) k" for k
    using that gone[of k] by (auto simp: live_def dropped_def)
  have "users (dropped device g) i = (if ta_device (records g ! i) = device then {} else users g i)" if "i < 128" for i
    using gone same that by (auto simp: users_def handle_record_def)
  moreover have "records (dropped device g) ! i = (if ta_device (records g ! i) = device then empty_record else records g ! i)"
    if "i < 128" for i
    using that len by (simp add: dropped_def)
  ultimately show ?case
    using step_reset len gone same by (simp add: registry_inv_def) (simp add: dropped_def)
qed

lemma registry_steps_inv: "registry_steps b g g' \<Longrightarrow> registry_inv g \<Longrightarrow> registry_inv g'"
  by (induction rule: rtranclp_induct) (auto intro: registry_step_inv)

section \<open>Every operation refines the transition system\<close>

lemma new_registry_inv: "registry_inv new_texture_registry"
  by (auto simp: registry_inv_def new_texture_registry_def users_def live_def)

named_theorems registry_ops

lemma set_record_registry [simp]: "registry (set_record i a s) = (registry s)\<lparr>records := (records (registry s))[i := a]\<rparr>"
  by (simp add: set_record_def)

lemma set_handle_registry [simp]: "registry (set_handle k h s) = (registry s)\<lparr>handles := (handles (registry s))[k := h]\<rparr>"
  by (simp add: set_handle_def)

lemma install_registry [simp]: "registry (textureInstallHooks s) = (registry s)\<lparr>hooks_installed := True\<rparr>"
  by (simp add: textureInstallHooks_def)

lemma free_record_Some:
  "free_record g = Some i \<Longrightarrow> registry_inv g \<Longrightarrow>
     i < 128 \<and> ta_storage (records g ! i) = 0 \<and> ta_references (records g ! i) = 0"
  by (auto simp: free_record_def registry_inv_def dest!: find_index_Some)

text \<open>Sizes as natural numbers.\<close>

lemma textureMultiply_Some: "textureMultiply a b = Some r \<Longrightarrow> unat r = unat a * unat b"
proof -
  assume "textureMultiply a b = Some r"
  then have r: "r = a * b" and guard: "b \<noteq> 0 \<longrightarrow> a \<le> - 1 div b"
    by (auto simp: textureMultiply_def split: if_splits)
  have "unat a * unat b \<le> uint64_max"
  proof (cases "b = 0")
    case False
    then have "unat a \<le> uint64_max div unat b"
      using guard by (simp add: word_le_nat_alt unat_div unsigned_minus_1_eq_mask mask_eq_exp_minus_1)
    moreover have "0 < unat b"
      using False by (simp add: unat_gt_0)
    ultimately show ?thesis
      by (simp add: div_guard_iff)
  qed simp
  then show ?thesis
    unfolding r by (rule unat_times_guard)
qed

lemma steps_hooks [intro!]: "registry_steps b g (g\<lparr>hooks_installed := h\<rparr>)"
  by (rule r_into_rtranclp) (rule step_hooks)

lemma steps_release_empty [intro!]:
  "i < 128 \<Longrightarrow> ta_references (records g ! i) = 0 \<Longrightarrow> registry_steps False g (g\<lparr>records := (records g)[i := empty_record]\<rparr>)"
  using step_release[OF _ refl, of i g] by auto

lemma steps_release_kept [intro!]:
  "i < 128 \<Longrightarrow> 0 < ta_references (records g ! i) \<Longrightarrow>
     registry_steps False g (g\<lparr>records := (records g)[i := (records g ! i)\<lparr>ta_storage := 0\<rparr>]\<rparr>)"
  using step_release[OF _ refl, of i g] by auto

lemma release_steps [registry_ops]:
  assumes "textureReleaseStorage acl i s = (e, s')" and "i < 128"
  shows "registry_steps False (registry s) (registry s')"
  using assms by (auto simp: textureReleaseStorage_def Let_def dest!: registry_frame split: prod.splits if_splits)

lemma texturePointer_Some: "texturePointer g p = Some i \<Longrightarrow> registry_inv g \<Longrightarrow>
    i < 128 \<and> ta_storage (records g ! i) = p \<and> p \<noteq> 0 \<and> \<not> ta_array (records g ! i)"
  by (auto simp: texturePointer_def registry_inv_def dest!: find_index_Some split: if_splits)

lemma textureArray_Some: "textureArray g a = Some i \<Longrightarrow> registry_inv g \<Longrightarrow>
    i < 128 \<and> ta_storage (records g ! i) \<noteq> 0 \<and> ta_array (records g ! i) \<and> a = Some i"
  by (auto simp: textureArray_def registry_inv_def split: option.splits if_splits)

lemma free_steps [registry_ops]:
  assumes "textureFreeAllocation acl p s = (x, s')" and "registry_inv (registry s)"
  shows "registry_steps False (registry s) (registry s')"
  using assms
  by (auto simp: textureFreeAllocation_def Let_def dest!: texturePointer_Some registry_frame
      split: prod.splits if_splits option.splits) (metis release_steps)

lemma free_array_steps [registry_ops]:
  assumes "cudaFreeArray acl array s = (e, s')" and "registry_inv (registry s)"
  shows "registry_steps False (registry s) (registry s')"
  using assms
  by (auto simp: cudaFreeArray_def Let_def dest!: textureArray_Some registry_frame
      split: prod.splits if_splits option.splits) (metis textureArray_Some release_steps)

lemma after_reset_steps: "registry_steps False (registry s) (registry (textureAfterReset d s))"
proof -
  have "registry (textureAfterReset d s) = dropped d (registry s)"
    by (simp add: textureAfterReset_def dropped_def Let_def)
  then show ?thesis
    by (auto intro: step_reset)
qed

lemma step_allocated:
  assumes "free_record g = Some i" "registry_inv g" "sound_record a" "ta_references a = 0"
  shows "registry_steps b g (g\<lparr>hooks_installed := True, records := (records g)[i := a]\<rparr>)"
proof -
  have "registry_step b (g\<lparr>hooks_installed := True\<rparr>) (g\<lparr>hooks_installed := True, records := (records g)[i := a]\<rparr>)"
    using step_allocate[of i "g\<lparr>hooks_installed := True\<rparr>" a] free_record_Some[OF assms(1,2)] assms(3,4) by simp
  then show ?thesis
    using step_hooks[of b g True] by (meson converse_rtranclp_into_rtranclp r_into_rtranclp)
qed

lemma free_record_hooks [simp]: "free_record (g\<lparr>hooks_installed := h\<rparr>) = free_record g"
  by (simp add: free_record_def)

lemma sound_allocated:
  assumes "textureMultiply pitch height = Some plane" "textureMultiply plane layers = Some bytes"
    and "width \<noteq> 0" "height \<noteq> 0" "layers \<noteq> 0" "\<not> 1048576 < width" "\<not> 1048576 < height" "\<not> 1048576 < layers"
    and "if array then textureMultiply width 4 = Some pitch else layers = 1 \<and> topology = TextureTopologyPlain"
  shows "sound_record \<lparr>ta_storage = p, ta_bytes = bytes, ta_pitch = pitch, ta_width = width,
       ta_height = height, ta_layers = layers, ta_device = device, ta_context = ctx,
       ta_references = 0, ta_array = array, ta_topology = topology, ta_channel_kind = c, ta_borrowed = False\<rparr>"
proof -
  have "unat bytes = unat pitch * unat height * unat layers"
    using assms(1,2) by (simp add: textureMultiply_Some)
  then show ?thesis
    using assms(3-) by (auto simp: sound_record_def word_neq_0_conv not_less dest!: textureMultiply_Some)
qed

lemma allocate_steps [registry_ops]:
  assumes "textureAllocate acl width height layers array topology c s = (x, s')" and "registry_inv (registry s)"
    and "array \<or> layers = 1 \<and> topology = TextureTopologyPlain"
  shows "registry_steps b (registry s) (registry s')"
  using assms
  apply (simp add: textureAllocate_def bind_eq_Some_conv Let_def split: prod.splits if_splits option.splits)
  by (auto dest!: registry_frame intro!: step_allocated sound_allocated)

section \<open>Texture objects\<close>

lemma borrow_steps:
  assumes "borrow_record device ctx p bytes s = ((e, i), s')" and "registry_inv (registry s)"
  shows "registry_steps b (registry s) (registry s') \<and> (e = ACL_SUCCESS \<longrightarrow> i < 128)"
proof -
  have reorder: "registry_steps b g (g\<lparr>records := (records g)[i := a], hooks_installed := True\<rparr>)"
    if "free_record g = Some i" "registry_inv g" "sound_record a" "ta_references a = 0" for g i a
  proof -
    have "registry_step b g (g\<lparr>records := (records g)[i := a]\<rparr>)"
      using step_allocate[of i g a] free_record_Some[OF that(1,2)] that(3,4) by simp
    then show ?thesis
      using steps_hooks[of b "g\<lparr>records := (records g)[i := a]\<rparr>" True] by (rule converse_rtranclp_into_rtranclp)
  qed
  show ?thesis
    using assms free_record_Some[of "registry s"]
    by (auto simp: borrow_record_def Let_def sound_record_def empty_record_def intro!: reorder split: option.splits if_splits)
qed

lemma lookup_steps:
  assumes "lookup_pitch device ctx t p desc width height pitch s = ((e, v), s')" and "registry_inv (registry s)"
  shows "registry_steps b (registry s) (registry s') \<and> (\<forall>i. fst v = Some i \<longrightarrow> i < 128)"
proof -
  have found: "\<forall>i. texturePointer (registry s) p = Some i \<longrightarrow> i < 128"
    using texturePointer_Some[OF _ assms(2)] by blast
  show ?thesis
    using assms(1) found
    by (auto simp: lookup_pitch_def Let_def dest!: borrow_steps[OF _ assms(2)] split: if_splits option.splits prod.splits)
qed

lemma lookup_array_Some: "fst (lookup_array g array) = Some i \<Longrightarrow> registry_inv g \<Longrightarrow> i < 128"
  by (auto simp: lookup_array_def dest: textureArray_Some split: option.splits)

lemma steps_create:
  assumes "find_index (\<lambda>h. th_descriptor h = 0) (handles g) = Some k" "registry_inv g" "i < 128" "d \<noteq> 0"
  shows "registry_steps True g (g\<lparr>handles := (handles g)[k := \<lparr>th_descriptor = d, th_allocation = Some i\<rparr>],
     records := (records g)[i := (records g ! i)\<lparr>ta_references := Suc (ta_references (records g ! i))\<rparr>]\<rparr>)"
proof -
  have "k < 128" "\<not> live g k"
    using find_index_Some[OF assms(1)] assms(2) by (auto simp: live_def registry_inv_def)
  then show ?thesis
    using step_create[OF _ _ assms(3,4) refl, of k g] by auto
qed

lemma publish_steps:
  assumes "publish_object acl i f s = (x, s')" and "registry_inv (registry s)" and "i < 128"
  shows "registry_steps True (registry s) (registry s')"
  using assms
  by (auto simp: publish_object_def Let_def dest!: registry_frame split: prod.splits option.splits if_splits
      intro!: steps_create)

lemma resolve_steps:
  assumes "resolve_resource device ctx t res s = ((e, v), s')" and "registry_inv (registry s)"
  shows "registry_steps b (registry s) (registry s') \<and> (\<forall>i. fst v = Some i \<longrightarrow> i < 128)"
  using assms lookup_steps[OF _ assms(2)] lookup_array_Some[OF _ assms(2)]
  by (auto simp: resolve_resource_def split: cudaResource.splits)

lemma publish_result: "publish_object acl k f s = (y, s') \<Longrightarrow> i = Some k \<Longrightarrow> registry_inv (registry s) \<Longrightarrow>
    (\<And>k. i = Some k \<Longrightarrow> k < 128) \<Longrightarrow> registry_steps True (registry s) (registry s')"
  using publish_steps by blast

lemma create_steps [registry_ops]:
  assumes "cudaCreateTextureObject acl out res tex view s = (x, s')" and "registry_inv (registry s)"
  shows "registry_steps True (registry s) (registry s')"
proof (cases "out = None \<or> res = None \<or> tex = None")
  case True
  then show ?thesis
    using assms(1) by (auto simp: cudaCreateTextureObject_def split: option.splits)
next
  case False
  then obtain o0 r t where args: "out = Some o0" "res = Some r" "tex = Some t"
    by auto
  obtain e1 device ctx s1 where 1: "textureCurrent acl s = ((e1, device, ctx), s1)"
    by (metis prod.collapse)
  obtain e2 i width height pitch c s2 where
    2: "resolve_resource device ctx t (rd_res r) s1 = ((e2, i, width, height, pitch, c), s2)"
    by (metis prod.collapse)
  have same: "registry s1 = registry s"
    by (rule current_frame[OF 1])
  have mid: "registry_steps True (registry s) (registry s2)" "\<And>k. i = Some k \<Longrightarrow> k < 128"
    using resolve_steps[OF 2] same assms(2) by auto
  have inv2: "registry_inv (registry s2)"
    using registry_steps_inv[OF mid(1) assms(2)] .
  have "s' = s \<or> s' = s1 \<or> s' = s2 \<or> (\<exists>k f y. i = Some k \<and> publish_object acl k f s2 = (y, s'))"
    using assms(1) by (auto simp: cudaCreateTextureObject_def args Let_def 1 2 split: if_splits option.splits prod.splits)
  then show ?thesis
    using mid same publish_result[OF _ _ inv2, of acl _ _ _ s' i] by (auto intro: rtranclp_trans)
qed

lemma steps_destroy:
  assumes "registry_inv g" "live g k" and i: "i = the (th_allocation (handles g ! k))"
  shows "registry_steps False g (g\<lparr>handles := (handles g)[k := empty_handle],
       records := (records g)[i := if ta_storage (records g ! i) = 0 \<and> ta_references (records g ! i) - 1 = 0
         then empty_record else (records g ! i)\<lparr>ta_references := ta_references (records g ! i) - 1\<rparr>]\<rparr>)"
proof -
  have "th_allocation (handles g ! k) = Some i"
    using assms by (auto simp: registry_inv_def)
  then show ?thesis
    using step_destroy[OF assms(2) _ refl] by auto
qed

lemma release_handle_steps:
  assumes "release_handle acl k s = (x, s')" and "registry_inv (registry s)" and "live (registry s) k"
  shows "registry_steps False (registry s) (registry s')"
  using assms(1) steps_destroy[OF assms(2,3) refl]
  by (auto simp: release_handle_def Let_def dest!: registry_frame split: prod.splits if_splits)

lemma destroy_steps [registry_ops]:
  assumes "cudaDestroyTextureObject acl texture s = (x, s')" and "registry_inv (registry s)"
  shows "registry_steps False (registry s) (registry s')"
proof -
  obtain e1 device ctx s1 where 1: "textureCurrent acl s = ((e1, device, ctx), s1)"
    by (metis prod.collapse)
  have same: "registry s1 = registry s"
    by (rule current_frame[OF 1])
  have "live (registry s1) k" if "find_index (\<lambda>h. th_descriptor h = texture) (handles (registry s1)) = Some k"
    "texture \<noteq> 0" for k
    using find_index_Some[OF that(1)] that(2) by (auto simp: live_def)
  then have "registry_steps False (registry s1) (registry s')" if "release_handle acl k s1 = (x, s')"
    "find_index (\<lambda>h. th_descriptor h = texture) (handles (registry s1)) = Some k" "texture \<noteq> 0" for k
    using release_handle_steps[OF that(1)] that(2,3) same assms(2) by simp
  then show ?thesis
    using assms(1) same by (auto simp: cudaDestroyTextureObject_def Let_def 1 split: if_splits option.splits)
qed

section \<open>Programs\<close>

text \<open>A program calls entry points of the texture layer and of the runtime in any order with any
  arguments; the runtime calls the hooks that are installed.\<close>

datatype texture_op =
    Malloc_pitch "ptr option" "u64 option" u64 u64
  | Malloc_array array_slot "cudaChannelFormatDesc option" u64 u64 u32
  | Malloc_3D_array array_slot "cudaChannelFormatDesc option" "u64 \<times> u64 \<times> u64" u32
  | Free_array "nat option"
  | Memcpy_2D ptr u64 ptr u64 u64 u64 aclrtMemcpyKind
  | Memset_2D ptr u64 u32 u64 u64
  | Memcpy_to_array "nat option" u64 u64 ptr u64 aclrtMemcpyKind
  | Memcpy_2D_to_array "nat option" u64 u64 ptr u64 u64 u64 aclrtMemcpyKind
  | Memcpy_3D "cudaMemcpy3DParms option"
  | Create_object "u64 option" "cudaResourceDesc option" "cudaTextureDesc option" bool
  | Destroy_object u64

fun texture_exec :: "'w acl \<Rightarrow> texture_op \<Rightarrow> 'w trt \<Rightarrow> 'w trt" where
  "texture_exec acl (Malloc_pitch p q w h) s = snd (cudaMallocPitch acl p q w h s)"
| "texture_exec acl (Malloc_array a c w h f) s = snd (cudaMallocArray acl a c w h f s)"
| "texture_exec acl (Malloc_3D_array a c e f) s = snd (cudaMalloc3DArray acl a c e f s)"
| "texture_exec acl (Free_array a) s = snd (cudaFreeArray acl a s)"
| "texture_exec acl (Memcpy_2D d dp p sp w h k) s = snd (cudaMemcpy2D acl d dp p sp w h k s)"
| "texture_exec acl (Memset_2D d p v w h) s = snd (cudaMemset2D acl d p v w h s)"
| "texture_exec acl (Memcpy_to_array a x y p n k) s = snd (cudaMemcpyToArray acl a x y p n k s)"
| "texture_exec acl (Memcpy_2D_to_array a x y p sp w h k) s = snd (cudaMemcpy2DToArray acl a x y p sp w h k s)"
| "texture_exec acl (Memcpy_3D p) s = snd (cudaMemcpy3D acl p s)"
| "texture_exec acl (Create_object p r t v) s = snd (cudaCreateTextureObject acl p r t v s)"
| "texture_exec acl (Destroy_object d) s = snd (cudaDestroyTextureObject acl d s)"

lemma snd_registry: "(\<And>r t. x = (r, t) \<Longrightarrow> registry_steps b g (registry t)) \<Longrightarrow> registry_steps b g (registry (snd x))"
  by (cases x) simp

lemma malloc_pitch_steps [registry_ops]:
  "cudaMallocPitch acl p q w h s = (x, s') \<Longrightarrow> registry_inv (registry s) \<Longrightarrow> registry_steps b (registry s) (registry s')"
  by (auto simp: cudaMallocPitch_def Let_def dest!: allocate_steps split: if_splits prod.splits)

lemma malloc_array_steps [registry_ops]:
  "cudaMallocArray acl a c w h f s = (x, s') \<Longrightarrow> registry_inv (registry s) \<Longrightarrow> registry_steps b (registry s) (registry s')"
  by (auto simp: cudaMallocArray_def Let_def dest!: allocate_steps split: if_splits prod.splits option.splits)

lemma malloc_3D_steps [registry_ops]:
  "cudaMalloc3DArray acl a c e f s = (x, s') \<Longrightarrow> registry_inv (registry s) \<Longrightarrow> registry_steps b (registry s) (registry s')"
  by (auto simp: cudaMalloc3DArray_def Let_def dest!: allocate_steps split: if_splits prod.splits option.splits)

lemma copy_2D_frame [registry_frame]: "cudaMemcpy2D acl d dp p sp w h k s = (e, s') \<Longrightarrow> registry s' = registry s"
  by (auto simp: cudaMemcpy2D_def Let_def dest!: registry_frame split: prod.splits if_splits)

lemma set_2D_frame [registry_frame]: "cudaMemset2D acl d p v w h s = (e, s') \<Longrightarrow> registry s' = registry s"
  by (auto simp: cudaMemset2D_def Let_def dest!: registry_frame split: prod.splits if_splits option.splits)

lemma to_array_frame [registry_frame]: "cudaMemcpyToArray acl a x y p n k s = (e, s') \<Longrightarrow> registry s' = registry s"
  by (auto simp: cudaMemcpyToArray_def Let_def dest!: registry_frame split: prod.splits if_splits option.splits)

lemma to_array_2D_frame [registry_frame]:
  "cudaMemcpy2DToArray acl a x y p sp w h k s = (e, s') \<Longrightarrow> registry s' = registry s"
  by (auto simp: cudaMemcpy2DToArray_def Let_def dest!: registry_frame split: prod.splits if_splits option.splits)

lemma copy_3D_frame [registry_frame]: "cudaMemcpy3D acl p s = (e, s') \<Longrightarrow> registry s' = registry s"
  by (auto simp: cudaMemcpy3D_def Let_def dest!: registry_frame split: prod.splits if_splits option.splits)

text \<open>The phase of an operation.\<close>

fun creates :: "texture_op \<Rightarrow> bool" where
  "creates (Create_object p r t v) = True"
| "creates _ = False"

lemma texture_exec_steps: "registry_inv (registry s) \<Longrightarrow> registry_steps (creates c) (registry s) (registry (texture_exec acl c s))"
  by (cases c) (auto intro!: snd_registry dest!: registry_ops dest: registry_frame)

end
