(* ===== verification/Texture_Programs.thy ===== *)
theory Texture_Programs
  imports Texture_Invariants
begin

text \<open>
  Programs that use the runtime and the texture layer together, in any order and with any
  arguments: the registry stays well formed, an object keeps its allocation, and the ledger of
  the runtime holds with the texture hooks installed.
\<close>

section \<open>Runtime entry points\<close>

text \<open>The runtime reaches the registry only through the hooks.\<close>

lemma check_frame [registry_frame]: "check_pending (textureHooks acl t) s = (e, s') \<Longrightarrow> registry s' = registry s"
  by (auto simp: check_pending_def textureHooks_def dest: pending_frame split: if_splits)

lemma with_ready_frame:
  assumes "\<And>s e s'. body s = (e, s') \<Longrightarrow> registry s' = registry s" and "with_ready acl body s = (e, s')"
  shows "registry s' = registry s"
  using assms(2) by (auto simp: with_ready_def Let_def dest!: registry_frame assms(1) split: prod.splits if_splits)

lemma with_ready_steps:
  assumes "\<And>s e s'. registry_inv (registry s) \<Longrightarrow> body s = (e, s') \<Longrightarrow> registry_steps b (registry s) (registry s')"
    and "registry_inv (registry s)" and "with_ready acl body s = (e, s')"
  shows "registry_steps b (registry s) (registry s')"
proof -
  obtain r t where t: "ensureCurrentDevice acl s = (r, t)"
    by fastforce
  have "registry t = registry s"
    by (rule ready_frame[OF t])
  then show ?thesis
    using assms(1)[of t] assms(2,3) t by (auto simp: with_ready_def split: if_splits)
qed

lemma snd_frame: "(\<And>r t. x = (r, t) \<Longrightarrow> registry t = g) \<Longrightarrow> registry (snd x) = g"
  by (cases x) simp

lemma reset_device_steps:
  assumes "cudaDeviceReset acl (textureHooks acl t) s = (e, s')" and "registry_inv (registry s)"
  shows "registry_steps False (registry s) (registry s')"
proof (rule with_ready_steps[OF _ assms(2) assms(1)[unfolded cudaDeviceReset_def]])
  fix s e and s' :: "'a trt"
  assume b: "(let (r, s) = call acl (Lifecycle AclrtGetDevice) s in
       if rep_status r \<noteq> ACL_SUCCESS then rememberLifecycleError (rep_status r) s
       else let current = rep_int r; s = s\<lparr>selected_device := current\<rparr>;
                (status, s) = resetDevice acl current s
            in if status \<noteq> ACL_SUCCESS then rememberLifecycleError status s
               else let s = case textureHooks acl t of None \<Rightarrow> s | Some h \<Rightarrow> hook_afterReset h current s;
                        s = s\<lparr>allocations := map (\<lambda>a. if ra_pointer a \<noteq> 0 \<and> ra_device a = current
                               then empty_allocation else a) (allocations s)\<rparr>
                    in rememberLifecycleError status s) = (e, s')"
  then show "registry_steps False (registry s) (registry s')"
    by (auto simp: Let_def textureHooks_def dest!: registry_frame split: prod.splits if_splits)
      (metis after_reset_steps)+
qed

lemma clear_frame [simp]: "registry (clear_slot i s) = registry s"
  by (simp add: clear_slot_def split: option.splits)

lemma free_pointer_steps:
  assumes "cudaFree acl (textureHooks acl t) p s = (e, s')" and "registry_inv (registry s)"
  shows "registry_steps False (registry s) (registry s')"
proof (cases "p = 0")
  case False
  show ?thesis
    by (rule with_ready_steps[OF _ assms(2) assms(1)[unfolded cudaFree_def if_not_P[OF False]]])
      (auto simp: Let_def textureHooks_def dest!: registry_frame free_steps split: prod.splits if_splits option.splits)
qed (use assms in \<open>simp add: cudaFree_def\<close>)

lemma frame_steps: "g' = g \<Longrightarrow> registry_steps b g g'"
  by simp

lemma device_exec_steps:
  assumes "registry_inv (registry s)"
  shows "registry_steps False (registry s) (registry (device_exec acl (textureHooks acl t) c s))"
proof (cases c)
  case Device_reset
  then show ?thesis
    using assms by (auto intro!: snd_registry dest: reset_device_steps)
qed (auto intro!: frame_steps snd_frame dest!: registry_frame
    simp: cudaSetDevice_def cudaGetDevice_def cudaGetDeviceCount_def cudaDeviceCanAccessPeer_def
      cudaDeviceEnablePeerAccess_def cudaDeviceDisablePeerAccess_def cudaDeviceSynchronize_def with_ready_def Let_def
    split: prod.splits if_splits)

lemma record_allocation_frame [simp]: "registry (record_allocation acl p n s) = registry s"
  by (auto simp: record_allocation_def Let_def dest!: registry_frame split: option.splits prod.splits)

lemma malloc_frame [registry_frame]: "cudaMalloc acl p n s = (e, s') \<Longrightarrow> registry s' = registry s"
  by (auto simp: cudaMalloc_def Let_def dest!: registry_frame split: prod.splits if_splits)

lemma malloc_host_frame [registry_frame]: "cudaMallocHost acl p n s = (e, s') \<Longrightarrow> registry s' = registry s"
  by (auto simp: cudaMallocHost_def Let_def dest!: registry_frame split: prod.splits if_splits)

lemma malloc_flags_frame [registry_frame]: "cudaMallocHost_flags acl p n f s = (e, s') \<Longrightarrow> registry s' = registry s"
  by (auto simp: cudaMallocHost_flags_def dest!: registry_frame split: if_splits)

lemma memory_exec_steps:
  assumes "registry_inv (registry s)"
  shows "registry_steps False (registry s) (registry (memory_exec acl (textureHooks acl t) c s))"
proof (cases c)
  case (Free p)
  then show ?thesis
    using assms by (auto intro!: snd_registry dest: free_pointer_steps)
qed (auto intro!: frame_steps snd_frame dest!: registry_frame
    simp: cudaMalloc_typed_def cudaMallocHost_typed_flags_def cudaFreeHost_def cudaMemcpy_def cudaMemcpyAsync_def
      cudaMemset_def cudaMemsetAsync_def with_ready_def Let_def
    split: prod.splits if_splits)

lemma stream_create_frame [registry_frame]: "cudaStreamCreate acl p s = (e, s') \<Longrightarrow> registry s' = registry s"
  by (auto simp: cudaStreamCreate_def Let_def dest!: registry_frame split: prod.splits if_splits)

lemma priority_range_frame [registry_frame]:
  "cudaDeviceGetStreamPriorityRange a acl l g s = (e, s') \<Longrightarrow> registry s' = registry s"
  by (auto simp: cudaDeviceGetStreamPriorityRange_def Let_def dest!: registry_frame split: prod.splits if_splits)

lemma stream_exec_steps: "registry_steps False (registry s) (registry (stream_exec a acl (textureHooks acl t) c s))"
  by (cases c) (auto intro!: frame_steps snd_frame dest!: registry_frame
    simp: cudaStreamCreateWithFlags_def cudaStreamCreateWithPriority_def cudaStreamDestroy_def cudaStreamSynchronize_def
      cudaStreamQuery_def cudaStreamWaitEvent_def cudaLaunchHostFunc_def with_ready_def Let_def
    split: prod.splits if_splits)

lemma event_exec_steps: "registry_steps False (registry s) (registry (event_exec a acl (textureHooks acl t) c s))"
  by (cases c) (auto intro!: frame_steps snd_frame dest!: registry_frame
    simp: cudaEventCreate_def cudaEventDestroy_def cudaEventRecord_def cudaEventSynchronize_def cudaEventQuery_def
      cudaEventElapsedTime_def cudaGetLastError_def cudaPeekAtLastError_def with_ready_def Let_def
    split: prod.splits if_splits)

lemma snd_call_frame [simp]: "registry (snd (call acl c s)) = registry s"
  by (cases "call acl c s") (auto dest: call_frame)

lemma reset_all_frame [simp]: "registry (reset_all acl ds s) = registry s"
  by (induction ds arbitrary: s) simp_all

lemma shutdown_frame [simp]: "registry (shutdown acl s) = registry s"
  by (auto simp: shutdown_def Let_def)

lemma exit_frame [simp]: "registry (runExitCleanup acl s) = registry s"
  by (auto simp: runExitCleanup_def)

section \<open>Programs\<close>

datatype program_op =
    Ensure | Texture texture_op | Device_entry device_op | Memory_entry memory_op
  | Stream_entry stream_op | Event_entry event_op | Exit_callback | Destructor

fun trt_exec :: "bool \<Rightarrow> 'w acl \<Rightarrow> program_op \<Rightarrow> 'w trt \<Rightarrow> 'w trt" where
  "trt_exec a acl Ensure s = snd (ensureCurrentDevice acl s)"
| "trt_exec a acl (Texture c) s = texture_exec acl c s"
| "trt_exec a acl (Device_entry c) s = device_exec acl (textureHooks acl s) c s"
| "trt_exec a acl (Memory_entry c) s = memory_exec acl (textureHooks acl s) c s"
| "trt_exec a acl (Stream_entry c) s = stream_exec a acl (textureHooks acl s) c s"
| "trt_exec a acl (Event_entry c) s = event_exec a acl (textureHooks acl s) c s"
| "trt_exec a acl Exit_callback s = runExitCleanup acl s"
| "trt_exec a acl Destructor s = shutdown acl s"

inductive texture_program :: "bool \<Rightarrow> 'w acl \<Rightarrow> 'w \<Rightarrow> 'w trt \<Rightarrow> bool" for a acl w where
  begins: "texture_program a acl w (initial_trt w)"
| calls: "texture_program a acl w s \<Longrightarrow> texture_program a acl w (trt_exec a acl c s)"

definition phase :: "program_op \<Rightarrow> bool" where
  "phase c \<longleftrightarrow> (\<exists>t. c = Texture t \<and> creates t)"

lemma trt_exec_steps: "registry_inv (registry s) \<Longrightarrow> registry_steps (phase c) (registry s) (registry (trt_exec a acl c s))"
  by (cases c) (auto simp: phase_def device_exec_steps memory_exec_steps stream_exec_steps event_exec_steps texture_exec_steps
      dest: registry_frame intro!: frame_steps snd_frame)

lemma initial_registry [simp]: "registry (initial_trt w) = new_texture_registry"
  by (simp add: initial_trt_def rt.defs)

lemma texture_program_inv: "texture_program a acl w s \<Longrightarrow> registry_inv (registry s)"
  by (induction rule: texture_program.induct) (auto intro: new_registry_inv registry_steps_inv trt_exec_steps)

section \<open>Objects and their allocations\<close>

text \<open>What may change in the record of a live object: its storage is released, and other
  objects come and go.\<close>

definition kept_record :: "TextureAllocation \<Rightarrow> TextureAllocation \<Rightarrow> bool" where
  "kept_record a a' \<longleftrightarrow>
     a'\<lparr>ta_storage := 0, ta_references := 0\<rparr> = a\<lparr>ta_storage := 0, ta_references := 0\<rparr>
     \<and> (ta_storage a' = ta_storage a \<or> ta_storage a' = 0)"

lemma kept_simps [simp]:
  "kept_record a a" "kept_record a (a\<lparr>ta_references := n\<rparr>)" "kept_record a (a\<lparr>ta_storage := 0\<rparr>)"
  by (simp_all add: kept_record_def)

lemma kept_trans: "kept_record a b \<Longrightarrow> kept_record b c \<Longrightarrow> kept_record a c"
  by (auto simp: kept_record_def)

lemma user_references:
  assumes "registry_inv g" "live g k" "th_allocation (handles g ! k) = Some i"
  shows "0 < ta_references (records g ! i)" and "i < 128"
proof -
  show i: "i < 128"
    using assms by (auto simp: registry_inv_def)
  have "k \<in> users g i"
    using assms by (simp add: users_def)
  then show "0 < ta_references (records g ! i)"
    using assms(1) i by (auto simp: registry_inv_def card_gt_0_iff)
qed

lemma other_user:
  assumes "registry_inv g" "live g k" "live g j" "j \<noteq> k"
    and "th_allocation (handles g ! k) = Some i" "th_allocation (handles g ! j) = Some i"
  shows "ta_references (records g ! i) - 1 \<noteq> 0"
proof -
  have "{k, j} \<subseteq> users g i"
    using assms by (auto simp: users_def)
  then have "card {k, j} \<le> card (users g i)"
    by (intro card_mono) simp_all
  then show ?thesis
    using assms(1,4) user_references(2)[OF assms(1,2,5)] by (auto simp: registry_inv_def)
qed

definition same_object :: "nat \<Rightarrow> TextureRegistry \<Rightarrow> TextureRegistry \<Rightarrow> bool" where
  "same_object k g g' \<longleftrightarrow> handles g' ! k = handles g ! k
     \<and> kept_record (handle_record g (handles g ! k)) (handle_record g' (handles g' ! k))"

lemma step_object:
  assumes "registry_step b g g'" and "registry_inv g" and "live g k" and "live g' k"
  shows "same_object k g g'"
proof -
  obtain i where i: "th_allocation (handles g ! k) = Some i" "i < 128"
    using assms(2,3) by (auto simp: registry_inv_def)
  have len: "length (records g) = 128" "length (handles g) = 128"
    using assms(2) by (simp_all add: registry_inv_def)
  note used = user_references(1)[OF assms(2,3) i(1)]
  show ?thesis
    using assms(1)
  proof cases
    case (step_destroy j l a)
    have "j \<noteq> k"
      using assms(4) step_destroy len by (auto simp: live_def)
    then have "l = i \<Longrightarrow> ta_references a - 1 \<noteq> 0"
      using other_user[OF assms(2) step_destroy(3) assms(3)] step_destroy i(1) by auto
    then show ?thesis
      using step_destroy \<open>j \<noteq> k\<close> i len by (auto simp: same_object_def handle_record_def nth_upd)
  next
    case (step_reset device)
    then have "ta_device (records g ! i) \<noteq> device"
      using assms(3,4) i len by (auto simp: live_def dropped_def handle_record_def split: if_splits)
    then show ?thesis
      using step_reset i len assms(3) by (auto simp: same_object_def handle_record_def dropped_def live_def)
  qed (use i len used assms(3) in \<open>auto simp: same_object_def handle_record_def nth_upd live_def\<close>)
qed

lemma step_grows: "registry_step b g g' \<Longrightarrow> b \<Longrightarrow> live g k \<Longrightarrow> live g' k"
  by (induction rule: registry_step.induct) (auto simp: live_def nth_upd split: if_splits)

lemma step_shrinks: "registry_step b g g' \<Longrightarrow> \<not> b \<Longrightarrow> live g' k \<Longrightarrow> live g k"
  by (induction rule: registry_step.induct) (auto simp: live_def nth_upd dropped_def split: if_splits)

lemma steps_object:
  assumes "registry_steps b g g'" and "registry_inv g" and "live g k" and "live g' k"
  shows "same_object k g g'"
  using assms(1,4)
proof (induction rule: rtranclp_induct)
  case base
  then show ?case
    by (simp add: same_object_def)
next
  case (step g1 g2)
  have "live g1 k"
  proof (cases b)
    case True
    from step.hyps(1) this show ?thesis
      by (induction rule: rtranclp_induct) (use assms(3) step_grows in auto)
  qed (use step step_shrinks in auto)
  then show ?case
    using step.IH step_object[OF step.hyps(2) registry_steps_inv[OF step.hyps(1) assms(2)]] step.prems
    unfolding same_object_def by (metis kept_trans)
qed

section \<open>Properties\<close>


text \<open>C29 (safety). No call moves a texture object to another allocation: when an object is live
  before and after the call, its handle is the same, its record has the same geometry, and its
  storage is the same address or has been released.\<close>
theorem texture_object_stable:
  assumes "texture_program a acl w s"
    and "live (registry s) k" and "live (registry (trt_exec a acl c s)) k"
  shows "handles (registry (trt_exec a acl c s)) ! k = handles (registry s) ! k
    \<and> kept_record (handle_record (registry s) (handles (registry s) ! k))
         (handle_record (registry (trt_exec a acl c s)) (handles (registry s) ! k))"
  using steps_object[OF trt_exec_steps texture_program_inv[OF assms(1)] assms(2,3)] texture_program_inv[OF assms(1)]
  by (auto simp: same_object_def)

text \<open>An ACL that accepts every call; memory is at address 4096.\<close>

definition willing_acl :: "unit acl" where
  "willing_acl c w = (\<lparr>rep_status = ACL_SUCCESS, rep_int = 0, rep_int2 = 0, rep_ptr = 4096, rep_float = 0,
     rep_progress = Progress_complete, rep_text = None\<rparr>, w)"

definition float_channel :: cudaChannelFormatDesc where
  "float_channel = \<lparr>cd_x = 32, cd_y = 0, cd_z = 0, cd_w = 0, cd_f = cudaChannelFormatKindFloat\<rparr>"

definition plain_texture :: cudaTextureDesc where
  "plain_texture = \<lparr>td_addressMode = [cudaAddressModeClamp, cudaAddressModeClamp, cudaAddressModeClamp],
     td_filterMode = cudaFilterModePoint, td_readMode = cudaReadModeElementType, td_sRGB = 0,
     td_borderColor = [0, 0, 0, 0], td_normalizedCoords = 0, td_maxAnisotropy = 0,
     td_mipmapFilterMode = cudaFilterModePoint, td_mipmapLevelBias = 0, td_minMipmapLevelClamp = 0,
     td_maxMipmapLevelClamp = 0, td_disableTrilinearOptimization = 0, td_seamlessCubemap = 0\<rparr>"

definition demo_objects :: "unit trt" where
  "demo_objects =
     texture_exec willing_acl (Create_object (Some 0) (Some \<lparr>rd_res = Resource_Array (Some 0), rd_flags = 0\<rparr>) (Some plain_texture) False)
       (texture_exec willing_acl (Malloc_array (Some None) (Some float_channel) 16 8 0) (initial_trt ()))"

lemma demo_program: "texture_program a willing_acl () demo_objects"
  unfolding demo_objects_def by (metis begins calls trt_exec.simps(2))

lemma demo_live: "live (registry demo_objects) 0
    \<and> live (registry (trt_exec a willing_acl (Texture (Free_array (Some 0))) demo_objects)) 0
    \<and> ta_storage (records (registry demo_objects) ! 0) = 4096
    \<and> ta_storage (records (registry (trt_exec a willing_acl (Texture (Free_array (Some 0))) demo_objects)) ! 0) = 0"
  by code_simp


lemma texture_object_stable_witness:
  "kept_record (handle_record (registry demo_objects) (handles (registry demo_objects) ! 0))
     (handle_record (registry (trt_exec False willing_acl (Texture (Free_array (Some 0))) demo_objects))
        (handles (registry demo_objects) ! 0))"
  using texture_object_stable[OF demo_program] demo_live by blast

section \<open>The runtime under the texture layer\<close>

lemma runtime_inv_registry [simp]:
  fixes s :: "('w \<times> acl_log) trt"
  shows "runtime_inv (s\<lparr>registry := g\<rparr>) = runtime_inv s"
  by (simp add: runtime_inv_def manager_inv_def ledger_inv_def usable_def)

lemma runtime_inv_set [simp]:
  fixes s :: "('w \<times> acl_log) trt"
  shows "runtime_inv (set_record i a s) = runtime_inv s" "runtime_inv (set_handle i h s) = runtime_inv s"
    "runtime_inv (textureInstallHooks s) = runtime_inv s" "runtime_inv (textureAfterReset d s) = runtime_inv s"
  by (simp_all add: set_record_def set_handle_def textureInstallHooks_def textureAfterReset_def Let_def)

named_theorems texture_keeps

lemma plain_keeps [texture_keeps]:
  "call (logged acl) (Memory m) s = (r, s') \<Longrightarrow> runtime_inv s \<Longrightarrow> runtime_inv s'"
  "call (logged acl) (Lifecycle AclrtGetDevice) s = (r, s') \<Longrightarrow> runtime_inv s \<Longrightarrow> runtime_inv s'"
  "call (logged acl) (Lifecycle AclrtGetCurrentContext) s = (r, s') \<Longrightarrow> runtime_inv s \<Longrightarrow> runtime_inv s'"
  "call_status (logged acl) (Memory m) s = (e, s') \<Longrightarrow> runtime_inv s \<Longrightarrow> runtime_inv s'"
  "call_status (logged acl) (Device d) s = (e, s') \<Longrightarrow> runtime_inv s \<Longrightarrow> runtime_inv s'"
  "call_status (logged acl) (Stream t) s = (e, s') \<Longrightarrow> runtime_inv s \<Longrightarrow> runtime_inv s'"
  "ensureCurrentDevice (logged acl) s = (e, s') \<Longrightarrow> runtime_inv s \<Longrightarrow> runtime_inv s'"
  by (simp_all add: chain_keeps ordinary_groups)

lemma current_keeps [texture_keeps]: "textureCurrent (logged acl) s = (x, s') \<Longrightarrow> runtime_inv s \<Longrightarrow> runtime_inv s'"
  by (auto simp: textureCurrent_def Let_def dest!: texture_keeps split: prod.splits if_splits)

lemma poll_keeps [texture_keeps]: "poll_handles (logged acl) d c hs s = (e, s') \<Longrightarrow> runtime_inv s \<Longrightarrow> runtime_inv s'"
  by (induction hs arbitrary: s) (auto simp: Let_def dest!: texture_keeps split: prod.splits if_splits)

lemma status_keeps [texture_keeps]: "textureStatusLocked (logged acl) d c s = (e, s') \<Longrightarrow> runtime_inv s \<Longrightarrow> runtime_inv s'"
  by (auto simp: textureStatusLocked_def Let_def dest!: texture_keeps split: prod.splits if_splits)

lemma check_keeps [texture_keeps]: "textureCheckPending (logged acl) s = (e, s') \<Longrightarrow> runtime_inv s \<Longrightarrow> runtime_inv s'"
  by (auto simp: textureCheckPending_def Let_def dest!: texture_keeps split: prod.splits if_splits)

lemma invalidate_keeps [texture_keeps]: "invalidate_handles (logged acl) i hs s = (e, s') \<Longrightarrow> runtime_inv s \<Longrightarrow> runtime_inv s'"
  by (induction hs arbitrary: s) (auto simp: Let_def dest!: texture_keeps split: prod.splits if_splits)

lemma rows_keeps [texture_keeps]: "copy_rows (logged acl) f rs s = (e, s') \<Longrightarrow> runtime_inv s \<Longrightarrow> runtime_inv s'"
  by (induction rs arbitrary: s) (auto simp: Let_def dest!: texture_keeps split: prod.splits if_splits)

lemma copy_keeps [texture_keeps]:
  "textureCopyRows (logged acl) dst dp src sp w h k s = (e, s') \<Longrightarrow> runtime_inv s \<Longrightarrow> runtime_inv s'"
  by (auto simp: textureCopyRows_def Let_def dest!: texture_keeps split: prod.splits if_splits option.splits)

lemma release_keeps [texture_keeps]: "textureReleaseStorage (logged acl) i s = (e, s') \<Longrightarrow> runtime_inv s \<Longrightarrow> runtime_inv s'"
  by (auto simp: textureReleaseStorage_def Let_def dest!: texture_keeps split: prod.splits if_splits)

lemma free_keeps [texture_keeps]: "textureFreeAllocation (logged acl) p s = (x, s') \<Longrightarrow> runtime_inv s \<Longrightarrow> runtime_inv s'"
  by (auto simp: textureFreeAllocation_def Let_def dest!: texture_keeps split: prod.splits if_splits option.splits)

lemma texture_hooks_keep: "hooks_keep (textureHooks (logged acl) s)"
  by (auto simp: hooks_keep_def textureHooks_def intro: check_keeps[OF surjective_pairing] free_keeps[OF surjective_pairing])

lemma allocate_keeps [texture_keeps]:
  "textureAllocate (logged acl) w h l a t c s = (x, s') \<Longrightarrow> runtime_inv s \<Longrightarrow> runtime_inv s'"
  by (auto simp: textureAllocate_def Let_def dest!: texture_keeps split: prod.splits if_splits option.splits)

lemma resolve_keeps [texture_keeps]: "resolve_resource d c t res s = (x, s') \<Longrightarrow> runtime_inv s \<Longrightarrow> runtime_inv s'"
  by (auto simp: resolve_resource_def lookup_pitch_def borrow_record_def Let_def
      split: prod.splits if_splits option.splits cudaResource.splits)

lemma publish_keeps [texture_keeps]: "publish_object (logged acl) i f s = (x, s') \<Longrightarrow> runtime_inv s \<Longrightarrow> runtime_inv s'"
  by (auto simp: publish_object_def Let_def dest!: texture_keeps split: prod.splits if_splits option.splits)

lemma release_handle_keeps [texture_keeps]: "release_handle (logged acl) k s = (x, s') \<Longrightarrow> runtime_inv s \<Longrightarrow> runtime_inv s'"
  by (auto simp: release_handle_def Let_def dest!: texture_keeps split: prod.splits if_splits)

lemma create_keeps [texture_keeps]: "cudaCreateTextureObject (logged acl) out res tex view s = (x, s') \<Longrightarrow> runtime_inv s \<Longrightarrow> runtime_inv s'"
  by (auto simp: cudaCreateTextureObject_def Let_def dest!: texture_keeps split: prod.splits if_splits option.splits)

lemma destroy_keeps [texture_keeps]: "cudaDestroyTextureObject (logged acl) d s = (x, s') \<Longrightarrow> runtime_inv s \<Longrightarrow> runtime_inv s'"
  by (auto simp: cudaDestroyTextureObject_def Let_def dest!: texture_keeps split: prod.splits if_splits option.splits)

lemma free_array_keeps [texture_keeps]: "cudaFreeArray (logged acl) a s = (x, s') \<Longrightarrow> runtime_inv s \<Longrightarrow> runtime_inv s'"
  by (auto simp: cudaFreeArray_def Let_def dest!: texture_keeps split: prod.splits if_splits option.splits)

lemma malloc_pitch_keeps [texture_keeps]: "cudaMallocPitch (logged acl) p q w h s = (x, s') \<Longrightarrow> runtime_inv s \<Longrightarrow> runtime_inv s'"
  by (auto simp: cudaMallocPitch_def Let_def dest!: texture_keeps split: prod.splits if_splits option.splits)

lemma malloc_array_keeps [texture_keeps]: "cudaMallocArray (logged acl) a c w h f s = (x, s') \<Longrightarrow> runtime_inv s \<Longrightarrow> runtime_inv s'"
  by (auto simp: cudaMallocArray_def Let_def dest!: texture_keeps split: prod.splits if_splits option.splits)

lemma malloc_3D_keeps [texture_keeps]: "cudaMalloc3DArray (logged acl) a c e f s = (x, s') \<Longrightarrow> runtime_inv s \<Longrightarrow> runtime_inv s'"
  by (auto simp: cudaMalloc3DArray_def Let_def dest!: texture_keeps split: prod.splits if_splits option.splits)

lemma copy_2D_keeps [texture_keeps]: "cudaMemcpy2D (logged acl) d dp p sp w h k s = (x, s') \<Longrightarrow> runtime_inv s \<Longrightarrow> runtime_inv s'"
  by (auto simp: cudaMemcpy2D_def Let_def dest!: texture_keeps split: prod.splits if_splits option.splits)

lemma set_2D_keeps [texture_keeps]: "cudaMemset2D (logged acl) d p v w h s = (x, s') \<Longrightarrow> runtime_inv s \<Longrightarrow> runtime_inv s'"
  by (auto simp: cudaMemset2D_def Let_def dest!: texture_keeps split: prod.splits if_splits option.splits)

lemma to_array_keeps [texture_keeps]: "cudaMemcpyToArray (logged acl) a x0 y p n k s = (x, s') \<Longrightarrow> runtime_inv s \<Longrightarrow> runtime_inv s'"
  by (auto simp: cudaMemcpyToArray_def Let_def dest!: texture_keeps split: prod.splits if_splits option.splits)

lemma to_array_2D_keeps [texture_keeps]: "cudaMemcpy2DToArray (logged acl) a x0 y p sp w h k s = (x, s') \<Longrightarrow> runtime_inv s \<Longrightarrow> runtime_inv s'"
  by (auto simp: cudaMemcpy2DToArray_def Let_def dest!: texture_keeps split: prod.splits if_splits option.splits)

lemma copy_3D_keeps [texture_keeps]: "cudaMemcpy3D (logged acl) p s = (x, s') \<Longrightarrow> runtime_inv s \<Longrightarrow> runtime_inv s'"
  by (auto simp: cudaMemcpy3D_def Let_def dest!: texture_keeps split: prod.splits if_splits option.splits)

lemma texture_exec_keeps: "runtime_inv s \<Longrightarrow> runtime_inv (texture_exec (logged acl) c s)"
  by (cases c) (auto intro!: snd_keeps dest: texture_keeps)

lemma initial_trt_inv: "runtime_inv (initial_trt (w, []) :: ('w \<times> acl_log) trt)"
  by (simp add: initial_trt_def initial_rt_def rt.defs runtime_inv_def manager_inv_def ledger_inv_def usable_def)

lemma shutdown_keeps: "runtime_inv s \<Longrightarrow> runtime_inv (shutdown (logged acl) s)"
  using shutdown_inv[of s acl] by (simp add: runtime_inv_def)

lemma trt_exec_keeps: "runtime_inv s \<Longrightarrow> runtime_inv (trt_exec a (logged acl) c s)"
  by (cases c) (simp_all add: shutdown_keeps texture_exec_keeps device_exec_keeps memory_exec_keeps stream_exec_keeps event_exec_keeps
      texture_hooks_keep exit_callback_inv snd_keeps ready_keeps)

lemma texture_runtime_inv: "texture_program a (logged acl) (w, []) s \<Longrightarrow> runtime_inv s"
  by (induction rule: texture_program.induct) (auto intro: initial_trt_inv trt_exec_keeps)

text \<open>A program that uses textures runs on the same runtime: with the hooks of
  the texture layer installed by its first allocation, and called by the runtime from then on,
  ACL is still initialised at most once, finalised only if this program initialised it, used only
  in between, and the devices that the manager lists are exactly those bound in ACL as long as
  resets succeed.\<close>
theorem texture_program_ledger:
  assumes "texture_program a (logged acl) (w, []) s"
  shows "calls_of (Lifecycle AclInit) (history s) \<le> 1
    \<and> calls_of (Lifecycle AclFinalize) (history s) \<le> succeeded (Lifecycle AclInit) (history s)
    \<and> well_ordered (history s)
    \<and> (resets_succeed (history s) \<longrightarrow> bound (history s) = set (active_devices s))"
  using runtime_inv_ledger[OF texture_runtime_inv[OF assms]] runtime_inv_devices[OF texture_runtime_inv[OF assms]]
  by blast

lemma texture_program_ledger_witness:
  "let s = trt_exec False (logged willing_acl) (Device_entry Device_reset)
       (trt_exec False (logged willing_acl) (Texture (Malloc_array (Some None) (Some float_channel) 16 8 0)) (initial_trt ((), [])))
   in hooks_installed (registry s) \<and> succeeded (Lifecycle AclInit) (history s) = 1
     \<and> calls_of (Lifecycle AclInit) (history s) = 1 \<and> well_ordered (history s)"
proof -
  define s where "s = trt_exec False (logged willing_acl) (Device_entry Device_reset)
       (trt_exec False (logged willing_acl) (Texture (Malloc_array (Some None) (Some float_channel) 16 8 0)) (initial_trt ((), [])))"
  have r: "texture_program False (logged willing_acl) ((), []) s"
    unfolding s_def by (intro texture_program.intros)
  have "hooks_installed (registry s) \<and> succeeded (Lifecycle AclInit) (history s) = 1
      \<and> calls_of (Lifecycle AclInit) (history s) = 1"
    unfolding s_def by code_simp
  then show ?thesis
    unfolding s_def[symmetric] Let_def using texture_program_ledger[OF r] by blast
qed

end
