(* ===== verification/Texture_Bounds.thy ===== *)
theory Texture_Bounds
  imports Texture_Programs "HOL-Library.Sublist"
begin

text \<open>
  The memory that the texture layer touches: copies to and from an array stay in its storage, and
  storage is freed only after every texture object that reads it has been invalidated.
\<close>

section \<open>The copies of a run\<close>

text \<open>\<open>copies R t s\<close>: every \<open>aclrtMemcpy\<close> that was called between the states \<open>t\<close> and \<open>s\<close>
  satisfies \<open>R\<close>.\<close>

definition copies ::
    "(ptr \<Rightarrow> u64 \<Rightarrow> ptr \<Rightarrow> u64 \<Rightarrow> bool) \<Rightarrow> ('w \<times> acl_log) trt \<Rightarrow> ('w \<times> acl_log) trt \<Rightarrow> bool" where
  "copies R t s \<longleftrightarrow> (\<exists>calls. history s = calls @ history t
     \<and> (\<forall>(c, r) \<in> set calls. \<forall>d m p n k. c = Memory (AclrtMemcpy d m p n k) \<longrightarrow> R d m p n))"

lemma copies_refl [simp]: "copies R s s"
  by (simp add: copies_def)

named_theorems copies_ops

lemma copies_call:
  "call (logged acl) c s = (r, s') \<Longrightarrow> copies R t s \<Longrightarrow>
     (\<And>d m p n k. c = Memory (AclrtMemcpy d m p n k) \<Longrightarrow> R d m p n) \<Longrightarrow> copies R t s'"
  unfolding copies_def by (auto dest!: call_logged intro: exI[of _ "(c, r) # x" for x])

lemma copies_call_status:
  "call_status (logged acl) c s = (e, s') \<Longrightarrow> copies R t s \<Longrightarrow>
     (\<And>d m p n k. c = Memory (AclrtMemcpy d m p n k) \<Longrightarrow> R d m p n) \<Longrightarrow> copies R t s'"
  by (auto simp: call_status_def Let_def split: prod.splits intro: copies_call)

lemma copies_other [copies_ops]:
  "call (logged acl) (Lifecycle l) s = (r, s') \<Longrightarrow> copies R t s \<Longrightarrow> copies R t s'"
  "call (logged acl) (Memory (AclrtMemcpy_to_local p n)) s = (r, s') \<Longrightarrow> copies R t s \<Longrightarrow> copies R t s'"
  "call_status (logged acl) (Lifecycle l) s = (e, s') \<Longrightarrow> copies R t s \<Longrightarrow> copies R t s'"
  "call_status (logged acl) (Device d) s = (e, s') \<Longrightarrow> copies R t s \<Longrightarrow> copies R t s'"
  "call_status (logged acl) (Stream u) s = (e, s') \<Longrightarrow> copies R t s \<Longrightarrow> copies R t s'"
  by (auto elim: copies_call copies_call_status)

lemma copies_update [simp]:
  "copies R t (s\<lparr>pending_error := e\<rparr>) = copies R t s" "copies R t (s\<lparr>selected_device := d\<rparr>) = copies R t s"
  "copies R t (s\<lparr>active_devices := ds\<rparr>) = copies R t s"
  "copies R t (s\<lparr>initialization_attempted := b\<rparr>) = copies R t s"
  "copies R t (s\<lparr>initialization_status := e\<rparr>) = copies R t s"
  "copies R t (s\<lparr>owns_acl_initialization := b\<rparr>) = copies R t s"
  "copies R t (s\<lparr>cleanup_registered := b\<rparr>) = copies R t s"
  "copies R t (s\<lparr>exit_cleanup_manager := b\<rparr>) = copies R t s"
  "copies R t (s\<lparr>device_cleanup_registered := b\<rparr>) = copies R t s"
  "copies R t (s\<lparr>registry := g\<rparr>) = copies R t s"
  by (simp_all add: copies_def)

lemma remember_copies [copies_ops]: "rememberLifecycleError e s = (e', s') \<Longrightarrow> copies R t s \<Longrightarrow> copies R t s'"
  by (auto simp: rememberLifecycleError_def split: if_splits)

lemma initialized_copies [copies_ops]: "ensureInitialized (logged acl) s = (e, s') \<Longrightarrow> copies R t s \<Longrightarrow> copies R t s'"
  by (auto simp: ensureInitialized_def registerExitCleanup_def Let_def dest!: copies_ops split: prod.splits if_splits)

lemma track_copies [copies_ops]: "track_device (logged acl) d s = (e, s') \<Longrightarrow> copies R t s \<Longrightarrow> copies R t s'"
  by (auto simp: track_device_def registerExitCleanup_def Let_def dest!: copies_ops split: prod.splits if_splits)

lemma unwind_copies [copies_ops]: "unwind_binding (logged acl) d e s = (e', s') \<Longrightarrow> copies R t s \<Longrightarrow> copies R t s'"
  by (auto simp: unwind_binding_def Let_def dest!: copies_ops split: prod.splits if_splits)

lemma bind_copies [copies_ops]: "bindDevice (logged acl) d s = (e, s') \<Longrightarrow> copies R t s \<Longrightarrow> copies R t s'"
  by (auto simp: bindDevice_def Let_def registerExitCleanup_def dest!: copies_ops split: prod.splits if_splits)

lemma ready_copies [copies_ops]: "ensureCurrentDevice (logged acl) s = (e, s') \<Longrightarrow> copies R t s \<Longrightarrow> copies R t s'"
  by (auto simp: ensureCurrentDevice_def Let_def dest!: copies_ops split: prod.splits if_splits)

lemma current_copies [copies_ops]: "textureCurrent (logged acl) s = (x, s') \<Longrightarrow> copies R t s \<Longrightarrow> copies R t s'"
  by (auto simp: textureCurrent_def Let_def dest!: copies_ops split: prod.splits if_splits)

lemma poll_copies [copies_ops]: "poll_handles (logged acl) d c hs s = (e, s') \<Longrightarrow> copies R t s \<Longrightarrow> copies R t s'"
  by (induction hs arbitrary: s) (auto simp: Let_def dest!: copies_ops split: prod.splits if_splits)

lemma status_copies [copies_ops]: "textureStatusLocked (logged acl) d c s = (e, s') \<Longrightarrow> copies R t s \<Longrightarrow> copies R t s'"
  by (auto simp: textureStatusLocked_def Let_def dest!: copies_ops split: prod.splits if_splits)

lemma rows_copies:
  assumes "copy_rows (logged acl) f rs s = (e, s')" and "copies R t s"
    and "\<And>r d m p n k. r \<in> set rs \<Longrightarrow> f r = AclrtMemcpy d m p n k \<Longrightarrow> R d m p n"
  shows "copies R t s'"
  using assms
proof (induction rs arbitrary: s)
  case (Cons r rs)
  obtain e1 s1 where 1: "call_status (logged acl) (Memory (f r)) s = (e1, s1)"
    by fastforce
  have "copies R t s1"
    by (rule copies_call_status[OF 1 Cons.prems(2)]) (use Cons.prems(3) in force)
  moreover have "copies R t s'" if "copy_rows (logged acl) f rs s1 = (e, s')" "copies R t s1"
    by (rule Cons.IH[OF that]) (use Cons.prems(3) in force)
  ultimately show ?case
    using Cons.prems(1) 1 by (auto split: if_splits)
qed simp

section \<open>Boxes in an array\<close>

definition in_array :: "TextureAllocation \<Rightarrow> ptr \<Rightarrow> u64 \<Rightarrow> bool" where
  "in_array a p n \<longleftrightarrow> (\<exists>offset. p = ta_storage a + offset \<and> unat offset + unat n \<le> unat (ta_bytes a))"

lemma row_bound:
  fixes y P :: nat
  assumes "y < H" and "e \<le> P"
  shows "y * P + e \<le> H * P"
proof -
  have "y * P + e \<le> Suc y * P"
    using assms(2) by simp
  also have "\<dots> \<le> H * P"
    using assms(1) by (intro mult_right_mono) simp_all
  finally show ?thesis .
qed

lemma box_bound:
  fixes z y P :: nat
  assumes "z < L" "y < H" "e \<le> P"
  shows "z * (P * H) + y * P + e \<le> P * H * L"
proof -
  have "z * (H * P) + (y * P + e) \<le> L * (H * P)"
    by (rule row_bound[OF assms(1) row_bound[OF assms(2,3)]])
  then show ?thesis
    by (simp add: ac_simps)
qed

text \<open>A row of a record, as words.\<close>

lemma sound_bytes:
  assumes "sound_record a" "ta_storage a \<noteq> 0" "ta_array a"
  shows "unat (ta_bytes a) = unat (ta_pitch a) * unat (ta_height a) * unat (ta_layers a)" "1 \<le> unat (ta_layers a)"
proof -
  show "unat (ta_bytes a) = unat (ta_pitch a) * unat (ta_height a) * unat (ta_layers a)"
    using assms by (auto simp: sound_record_def split: if_splits)
  have "0 < ta_layers a"
    using assms by (auto simp: sound_record_def split: if_splits)
  then show "1 \<le> unat (ta_layers a)"
    by (simp add: word_less_nat_alt)
qed

lemma unat_row:
  fixes y P e :: u64
  assumes "unat y * unat P + unat e \<le> unat (B :: u64)"
  shows "unat (y * P + e) = unat y * unat P + unat e"
proof -
  have "unat B < 2 ^ 64"
    using unsigned_less[of B] by simp
  then have "unat y * unat P < 2 ^ 64" "unat y * unat P + unat e < 2 ^ 64"
    using assms by linarith+
  then show ?thesis
    by (simp add: unat_word_ariths)
qed

lemma copy_1D_bounds:
  assumes "registry_inv (registry s)" and "textureArray (registry s) array = Some i"
    and "cudaMemcpyToArray (logged acl) array x y src n kind s = (e, s')"
  shows "copies (\<lambda>d m p k. in_array (records (registry s) ! i) d m \<and> k \<le> m) s s'"
proof -
  obtain e1 device ctx s1 where 1: "textureCurrent (logged acl) s = ((e1, device, ctx), s1)"
    by (metis prod.collapse)
  have same: "registry s1 = registry s"
    by (rule current_frame[OF 1])
  let ?a = "records (registry s) ! i"
  let ?offset = "y * ta_pitch ?a + x"
  let ?R = "\<lambda>d m p k. in_array ?a d m \<and> k \<le> m"
  have s1: "copies ?R s s1"
    by (rule current_copies[OF 1]) simp
  have a: "sound_record ?a" "ta_storage ?a \<noteq> 0" "ta_array ?a"
    using assms(1) textureArray_Some[OF assms(2,1)] by (auto simp: registry_inv_def)
  have fits: "in_array ?a (ta_storage ?a + ?offset) (ta_bytes ?a - ?offset)" if "y < ta_height ?a" "x \<le> ta_pitch ?a"
  proof -
    have "unat y * unat (ta_pitch ?a) + unat x \<le> unat (ta_height ?a) * unat (ta_pitch ?a)"
      using that by (intro row_bound) (simp_all add: word_less_nat_alt word_le_nat_alt)
    also have "\<dots> \<le> unat (ta_bytes ?a)"
      using sound_bytes[OF a] by (simp add: ac_simps)
    finally have "unat y * unat (ta_pitch ?a) + unat x \<le> unat (ta_bytes ?a)" .
    note bound = this unat_row[OF this]
    then have "?offset \<le> ta_bytes ?a"
      by (simp add: word_le_nat_alt)
    then have "unat (ta_bytes ?a - ?offset) = unat (ta_bytes ?a) - unat ?offset"
      by (rule unat_sub)
    then show ?thesis
      using bound by (auto simp: in_array_def intro!: exI[of _ ?offset])
  qed
  show ?thesis
    using assms(2,3) s1 fits
    by (auto simp: cudaMemcpyToArray_def Let_def 1 same dest!: copies_ops elim!: copies_call_status
        split: prod.splits if_splits)
qed

lemma row_copies:
  assumes "textureCopyRows (logged acl) dst dp src sp w h k s = (e, s')" and "copies R t s"
    and "\<And>r db. r < unat h \<Longrightarrow> textureRowsRange dp w h = Some db \<Longrightarrow>
           R (dst + of_nat r * dp) (db - of_nat r * dp) (src + of_nat r * sp) w"
  shows "copies R t s'"
  using assms(1,2)
  by (auto simp: textureCopyRows_def Let_def dest!: copies_ops elim!: rows_copies assms(3)
      split: prod.splits if_splits option.splits)

lemma unat_room: "unat (- 1 - l :: u64) = uint64_max - unat l"
proof -
  have "unat (- 1 - l) = unat (- 1 :: u64) - unat l"
    by (rule unat_sub) simp
  then show ?thesis
    by (simp add: unsigned_minus_1_eq_mask mask_eq_exp_minus_1)
qed

lemma rows_range:
  assumes "textureRowsRange P w h = Some db" and "h \<noteq> 0"
  shows "unat db = (unat h - 1) * unat P + unat w" and "unat w \<le> unat P"
proof -
  obtain last_row where last: "textureMultiply (h - 1) P = Some last_row" "w \<le> P" "\<not> w > - 1 - last_row"
      "db = last_row + w"
    using assms by (auto simp: textureRowsRange_def split: if_splits option.splits)
  have "unat (h - 1) = unat h - 1"
    using assms(2) by (simp add: unat_minus_one)
  then have "unat last_row = (unat h - 1) * unat P"
    using textureMultiply_Some[OF last(1)] by simp
  moreover have "unat (last_row + w) = unat last_row + unat w"
    using last(3) unat_room[of last_row] unat_le64[of last_row]
    by (intro unat_plus_guard) (simp add: not_less word_le_nat_alt)
  ultimately show "unat db = (unat h - 1) * unat P + unat w" "unat w \<le> unat P"
    using last by (simp_all add: word_le_nat_alt)
qed

lemma row_index: "r < unat (h :: u64) \<Longrightarrow> unat (of_nat r :: u64) = r"
  by (rule of_nat_inverse[OF refl]) (rule less_trans[OF _ unsigned_less])

lemma row_offset:
  fixes P B :: u64
  assumes "r < unat (h :: u64)" "r * unat P \<le> unat B"
  shows "unat (of_nat r * P) = r * unat P"
  using assms row_index[OF assms(1)] unat_le64[of B] unat_times_guard[of "of_nat r" P] by simp

lemma row_rest:
  fixes P db :: u64
  assumes "r < unat (h :: u64)" "r * unat P \<le> unat db"
  shows "unat (db - of_nat r * P) = unat db - r * unat P"
  using assms(2) row_offset[OF assms] by (simp add: unat_sub word_le_nat_alt)

text \<open>Row \<open>r\<close> of a box of an array: the row and what is left of the box.\<close>

lemma box_row:
  fixes x y w h P B db :: u64
  assumes "r < unat h" "unat x + unat w \<le> unat P" "unat y + unat h \<le> H" "unat P * H \<le> unat B"
    and "unat db = (unat h - 1) * unat P + unat w"
  shows "unat (y * P + x + of_nat r * P) + unat (db - of_nat r * P) \<le> unat B"
proof -
  have r: "unat (of_nat r :: u64) = r"
    using assms(1) by (rule row_index)
  have top: "(unat y + (unat h - 1)) * unat P + (unat x + unat w) \<le> H * unat P"
    using assms(1-3) by (intro row_bound) linarith+
  have "r * unat P \<le> (unat h - 1) * unat P"
    using assms(1) by (intro mult_right_mono) auto
  then have small: "r * unat P \<le> unat db" and
    all: "unat y * unat P + unat x + r * unat P + (unat db - r * unat P) \<le> unat B"
    using top assms(4,5) by (simp_all add: algebra_simps)
  have rP: "unat (of_nat r * P) = r * unat P"
    by (rule row_offset[OF assms(1) small])
  have "unat (db - of_nat r * P) = unat db - r * unat P"
    by (rule row_rest[OF assms(1) small])
  moreover have "unat (y * P + x + of_nat r * P) = unat y * unat P + unat x + r * unat P"
    using all unat_row[of y P x B] rP unat_le64[of B] by (subst unat_plus_guard) linarith+
  ultimately show ?thesis
    using all by simp
qed

lemma copy_2D_bounds:
  assumes "registry_inv (registry s)" and "textureArray (registry s) array = Some i"
    and "cudaMemcpy2DToArray (logged acl) array x y src spitch w h kind s = (e, s')"
  shows "copies (\<lambda>d m p k. in_array (records (registry s) ! i) d m \<and> k \<le> m) s s'"
proof -
  obtain e1 device ctx s1 where 1: "textureCurrent (logged acl) s = ((e1, device, ctx), s1)"
    by (metis prod.collapse)
  have same: "registry s1 = registry s"
    by (rule current_frame[OF 1])
  let ?a = "records (registry s) ! i"
  let ?R = "\<lambda>d m p k. in_array ?a d m \<and> k \<le> m"
  have s1: "copies ?R s s1"
    by (rule current_copies[OF 1]) simp
  have a: "sound_record ?a" "ta_storage ?a \<noteq> 0" "ta_array ?a"
    using assms(1) textureArray_Some[OF assms(2,1)] by (auto simp: registry_inv_def)
  have fits: "?R (ta_storage ?a + (y * ta_pitch ?a + x) + of_nat r * ta_pitch ?a) (db - of_nat r * ta_pitch ?a) p w"
    if "r < unat h" "textureRowsRange (ta_pitch ?a) w h = Some db" "x \<le> ta_pitch ?a" "w \<le> ta_pitch ?a - x"
      "y \<le> ta_height ?a" "h \<le> ta_height ?a - y" for r db p
  proof -
    have h: "h \<noteq> 0"
      using that(1) by auto
    note db = rows_range[OF that(2) h]
    have xw: "unat x + unat w \<le> unat (ta_pitch ?a)" and yh: "unat y + unat h \<le> unat (ta_height ?a)"
      using that(3-6) by (auto simp: word_le_nat_alt unat_sub)
    have "unat (ta_pitch ?a) * unat (ta_height ?a) \<le> unat (ta_bytes ?a)"
      using sound_bytes[OF a] by simp
    note fit = box_row[OF that(1) xw yh this db(1)]
    have r: "r * unat (ta_pitch ?a) \<le> (unat h - 1) * unat (ta_pitch ?a)"
      using that(1) by (intro mult_right_mono) auto
    then have "unat (db - of_nat r * ta_pitch ?a) = unat db - r * unat (ta_pitch ?a)"
      using db(1) by (intro row_rest[OF that(1)]) linarith
    then have "w \<le> db - of_nat r * ta_pitch ?a"
      using r db(1) by (simp only: word_le_nat_alt)
    then show ?thesis
      using fit by (auto simp: in_array_def ac_simps intro!: exI[of _ "y * ta_pitch ?a + x + of_nat r * ta_pitch ?a"])
  qed
  show ?thesis
    using assms(2,3) s1
    by (auto simp: cudaMemcpy2DToArray_def Let_def 1 same not_less dest!: copies_ops elim!: row_copies intro!: fits[THEN conjunct1] fits[THEN conjunct2]
        split: prod.splits if_splits option.splits)
qed

lemma unat_parts:
  fixes a b c d e :: u64
  assumes "unat a + unat b + unat c + unat d + unat e \<le> uint64_max"
  shows "unat (a + b + c + d + e) = unat a + unat b + unat c + unat d + unat e"
proof -
  have "unat (a + b) = unat a + unat b"
    using assms by (intro unat_plus_guard) linarith
  moreover from this have "unat (a + b + c) = unat a + unat b + unat c"
    using assms by (subst unat_plus_guard) linarith+
  moreover from this have "unat (a + b + c + d) = unat a + unat b + unat c + unat d"
    using assms by (subst unat_plus_guard) linarith+
  ultimately show ?thesis
    using assms by (subst unat_plus_guard) linarith+
qed

lemma geometry_array:
  assumes "endpoint_geometry g device ctx ext (Some k) pointer pos = Some v"
  shows "\<exists>x. v = (ta_storage (records g ! k), ta_pitch (records g ! k), ta_height (records g ! k), x)
    \<and> textureArray g (Some k) = Some k
    \<and> t_z pos \<le> ta_layers (records g ! k) \<and> t_z ext \<le> ta_layers (records g ! k) - t_z pos"
  using assms by (auto simp: endpoint_geometry_def Let_def textureArray_def not_less split: option.splits if_splits)

lemma endpoint_Some:
  assumes "endpoint g device ctx ext w array pointer pos = Some E"
    and "endpoint_geometry g device ctx ext array pointer pos = Some (base, P, H, x)"
  shows "\<exists>plane zbytes ybytes. textureMultiply P H = Some plane \<and> textureMultiply (t_z pos) plane = Some zbytes
    \<and> textureMultiply (t_y pos) P = Some ybytes \<and> x \<le> P \<and> w \<le> P - x \<and> t_y pos \<le> H \<and> t_y ext \<le> H - t_y pos
    \<and> E = \<lparr>ep_base = base, ep_pitch = P, ep_plane = plane, ep_offset = zbytes + ybytes + x\<rparr>"
  using assms by (auto simp: endpoint_def Let_def not_less split: option.splits if_splits)

text \<open>An end of a box copy that is an array: every row lies in it.\<close>

lemma endpoint_row:
  assumes "registry_inv g" and "endpoint g device ctx ext w (Some k) pointer pos = Some E"
    and "l < unat (t_z ext)" and "r < unat (t_y ext)"
  shows "in_array (records g ! k)
    (ep_base E + ep_offset E + of_nat l * ep_plane E + of_nat r * ep_pitch E) w"
proof -
  let ?a = "records g ! k"
  obtain v where v: "endpoint_geometry g device ctx ext (Some k) pointer pos = Some v"
    using assms(2) by (auto simp: endpoint_def split: option.splits)
  obtain x where x: "v = (ta_storage ?a, ta_pitch ?a, ta_height ?a, x)" and array: "textureArray g (Some k) = Some k"
      and z: "t_z pos \<le> ta_layers ?a" "t_z ext \<le> ta_layers ?a - t_z pos"
    using geometry_array[OF v] by blast
  have a: "sound_record ?a" "ta_storage ?a \<noteq> 0" "ta_array ?a"
    using assms(1) textureArray_Some[OF array assms(1)] by (auto simp: registry_inv_def)
  obtain plane zbytes ybytes where
    mult: "textureMultiply (ta_pitch ?a) (ta_height ?a) = Some plane" "textureMultiply (t_z pos) plane = Some zbytes"
      "textureMultiply (t_y pos) (ta_pitch ?a) = Some ybytes"
    and guards: "x \<le> ta_pitch ?a" "w \<le> ta_pitch ?a - x" "t_y pos \<le> ta_height ?a" "t_y ext \<le> ta_height ?a - t_y pos"
    and E: "E = \<lparr>ep_base = ta_storage ?a, ep_pitch = ta_pitch ?a, ep_plane = plane, ep_offset = zbytes + ybytes + x\<rparr>"
    using endpoint_Some[OF assms(2) v[unfolded x]] by blast
  let ?P = "unat (ta_pitch ?a)" and ?H = "unat (ta_height ?a)"
  have nat: "unat plane = ?P * ?H" "unat zbytes = unat (t_z pos) * (?P * ?H)" "unat ybytes = unat (t_y pos) * ?P"
    using mult by (simp_all add: textureMultiply_Some)
  have box: "(unat (t_z pos) + l) * (?P * ?H) + (unat (t_y pos) + r) * ?P + (unat x + unat w) \<le> unat (ta_bytes ?a)"
    unfolding sound_bytes(1)[OF a]
    by (rule box_bound) (use z guards assms(3,4) in \<open>auto simp: word_le_nat_alt unat_sub\<close>)
  then have "l * unat plane \<le> unat (ta_bytes ?a)" "r * ?P \<le> unat (ta_bytes ?a)"
    unfolding nat by (simp_all add: add_mult_distrib)
  then have lp: "unat (of_nat l * plane) = l * (?P * ?H)" and rp: "unat (of_nat r * ta_pitch ?a) = r * ?P"
    using row_offset[OF assms(3)] row_offset[OF assms(4)] by (simp_all add: nat(1))
  let ?off = "zbytes + ybytes + x + of_nat l * plane + of_nat r * ta_pitch ?a"
  have sum: "unat zbytes + unat ybytes + unat x + unat (of_nat l * plane) + unat (of_nat r * ta_pitch ?a) + unat w
      \<le> unat (ta_bytes ?a)"
    using box unfolding nat lp rp by (simp add: add_mult_distrib)
  have "unat ?off = unat zbytes + unat ybytes + unat x + unat (of_nat l * plane) + unat (of_nat r * ta_pitch ?a)"
    using sum unat_le64[of "ta_bytes ?a"] by (intro unat_parts) linarith
  moreover have "ep_base E + ep_offset E + of_nat l * ep_plane E + of_nat r * ep_pitch E = ta_storage ?a + ?off"
    by (simp add: E add.assoc)
  ultimately show ?thesis
    using sum unfolding in_array_def by metis
qed

definition box_in_arrays :: "TextureRegistry \<Rightarrow> cudaMemcpy3DParms \<Rightarrow> ptr \<Rightarrow> ptr \<Rightarrow> u64 \<Rightarrow> bool" where
  "box_in_arrays g p d q n \<longleftrightarrow> (\<forall>i. dstArray p = Some i \<longrightarrow> in_array (records g ! i) d n)
     \<and> (\<forall>i. srcArray p = Some i \<longrightarrow> in_array (records g ! i) q n)"

lemma copy_3D_bounds:
  assumes "registry_inv (registry s)" and "cudaMemcpy3D (logged acl) (Some p) s = (e, s')"
  shows "copies (\<lambda>d m q n. box_in_arrays (registry s) p d q n \<and> n \<le> m) s s'"
proof -
  obtain e1 device ctx s1 where 1: "textureCurrent (logged acl) s = ((e1, device, ctx), s1)"
    by (metis prod.collapse)
  have same: "registry s1 = registry s"
    by (rule current_frame[OF 1])
  let ?R = "\<lambda>d m q n. box_in_arrays (registry s) p d q n \<and> n \<le> m"
  let ?h = "unat (t_y (extent p))"
  have s1: "copies ?R s s1"
    by (rule current_copies[OF 1]) simp
  have row: "?R (ep_base D + ep_offset D + of_nat (k div ?h) * ep_plane D + of_nat (k mod ?h) * ep_pitch D) w
      (ep_base S + ep_offset S + of_nat (k div ?h) * ep_plane S + of_nat (k mod ?h) * ep_pitch S) w"
    if "endpoint (registry s) device ctx (extent p) w (dstArray p) (dstPtr p) (dstPos p) = Some D"
      "endpoint (registry s) device ctx (extent p) w (srcArray p) (srcPtr p) (srcPos p) = Some S"
      "k < unat (t_z (extent p)) * ?h" for D S k w
  proof -
    have "k div ?h < unat (t_z (extent p))" "k mod ?h < ?h"
      using that(3) by (auto simp: less_mult_imp_div_less intro!: mod_less_divisor gr0I)
    then show ?thesis
      using that(1,2) endpoint_row[OF assms(1)] by (auto simp: box_in_arrays_def)
  qed
  have R: "copies ?R s t'" if "copy_rows (logged acl) (\<lambda>k. AclrtMemcpy
         (ep_base D + ep_offset D + of_nat (k div ?h) * ep_plane D + of_nat (k mod ?h) * ep_pitch D) w
         (ep_base S + ep_offset S + of_nat (k div ?h) * ep_plane S + of_nat (k mod ?h) * ep_pitch S) w (mp_kind p))
         [0..<unat (t_z (extent p)) * ?h] t = (e, t')" "copies ?R s t"
      "endpoint (registry s) device ctx (extent p) w (dstArray p) (dstPtr p) (dstPos p) = Some D"
      "endpoint (registry s) device ctx (extent p) w (srcArray p) (srcPtr p) (srcPos p) = Some S" for D S w t t'
    by (rule rows_copies[OF that(1,2)]) (use row[OF that(3,4)] in auto)
  have plain: "copies ?R s t'" if "copy_rows (logged acl) (\<lambda>k. AclrtMemcpy (d k) n (q k) n c) ks t = (e, t')"
      "copies ?R s t" "dstArray p = None" "srcArray p = None" for d q n c ks t t'
    by (rule rows_copies[OF that(1,2)]) (use that(3,4) in \<open>auto simp: box_in_arrays_def\<close>)
  show ?thesis
    using assms(2) s1
    by (auto simp: cudaMemcpy3D_def Let_def 1 same dest!: copies_ops elim!: R elim: plain
        split: prod.splits if_splits option.splits)
qed

section \<open>Release\<close>

text \<open>The writes that invalidate the live objects of a record: width 0 at offset 24.\<close>

definition invalidations :: "nat \<Rightarrow> TextureHandle list \<Rightarrow> acl_call list" where
  "invalidations i hs = map (\<lambda>h. Memory (AclrtMemcpy_from_local (th_descriptor h + 24) 4 [0]))
     (filter (\<lambda>h. th_descriptor h \<noteq> 0 \<and> th_allocation h = Some i) hs)"

text \<open>\<open>calls_in_order plan e s s'\<close>: the calls made are the plan, in order, up to the first that fails,
  and \<open>e\<close> is its status.\<close>

definition calls_in_order :: "acl_call list \<Rightarrow> aclError \<Rightarrow> ('w \<times> acl_log) trt \<Rightarrow> ('w \<times> acl_log) trt \<Rightarrow> bool" where
  "calls_in_order plan e s s' \<longleftrightarrow> (\<exists>calls. history s' = rev calls @ history s
     \<and> prefix (map fst calls) plan \<and> (\<forall>c \<in> set (butlast calls). rep_status (snd c) = ACL_SUCCESS)
     \<and> (if e = ACL_SUCCESS then map fst calls = plan \<and> (\<forall>c \<in> set calls. rep_status (snd c) = ACL_SUCCESS)
        else calls \<noteq> [] \<and> rep_status (snd (last calls)) = e))"

lemma calls_none [simp]: "calls_in_order [] ACL_SUCCESS s s"
  by (simp add: calls_in_order_def)

lemma calls_one: "call_status (logged acl) c s = (e, s') \<Longrightarrow> calls_in_order [c] e s s'"
proof -
  assume "call_status (logged acl) c s = (e, s')"
  then obtain w r where "s' = s\<lparr>world := (w, (c, r) # history s)\<rparr>" "rep_status r = e"
    using call_status_logged by blast
  then show ?thesis
    unfolding calls_in_order_def by (intro exI[of _ "[(c, r)]"]) auto
qed

lemma calls_then:
  assumes "calls_in_order p ACL_SUCCESS s t" and "calls_in_order q e t u"
  shows "calls_in_order (p @ q) e s u"
proof -
  obtain cs where cs: "history t = rev cs @ history s" "map fst cs = p" "\<forall>c \<in> set cs. rep_status (snd c) = ACL_SUCCESS"
    using assms(1) by (auto simp: calls_in_order_def)
  obtain ds where ds: "history u = rev ds @ history t" "prefix (map fst ds) q"
      "\<forall>c \<in> set (butlast ds). rep_status (snd c) = ACL_SUCCESS"
      "if e = ACL_SUCCESS then map fst ds = q \<and> (\<forall>c \<in> set ds. rep_status (snd c) = ACL_SUCCESS)
       else ds \<noteq> [] \<and> rep_status (snd (last ds)) = e"
    using assms(2) by (auto simp: calls_in_order_def)
  show ?thesis
    unfolding calls_in_order_def
    by (rule exI[of _ "cs @ ds"]) (use cs ds in \<open>auto simp: butlast_append dest: in_set_butlastD split: if_splits\<close>)
qed

lemma calls_stop:
  assumes "calls_in_order p e s t" and "e \<noteq> ACL_SUCCESS"
  shows "calls_in_order (p @ q) e s t"
  using assms unfolding calls_in_order_def by (auto intro: prefix_prefix)

lemmas calls_step = calls_then[of "[c]" for c, simplified] and calls_halt = calls_stop[of "[c]" for c, simplified]

lemma invalidate_calls: "invalidate_handles (logged acl) i hs s = (e, s') \<Longrightarrow> calls_in_order (invalidations i hs) e s s'"
proof (induction hs arbitrary: s)
  case (Cons h hs)
  show ?case
  proof (cases "th_descriptor h = 0 \<or> th_allocation h \<noteq> Some i")
    case False
    let ?c = "Memory (AclrtMemcpy_from_local (th_descriptor h + 24) 4 [0])"
    obtain e1 s1 where 1: "call_status (logged acl) ?c s = (e1, s1)"
      by fastforce
    have "invalidations i (h # hs) = ?c # invalidations i hs"
      using False by (simp add: invalidations_def)
    then show ?thesis
      using Cons False 1 calls_one[OF 1] by (auto intro: calls_step calls_halt split: if_splits)
  qed (use Cons in \<open>auto simp: invalidations_def\<close>)
qed (simp add: invalidations_def)

lemma release_calls:
  assumes "textureReleaseStorage (logged acl) i s = (e, s')"
  shows "calls_in_order ([Device AclrtSynchronizeDevice] @ invalidations i (handles (registry s))
    @ [Memory (AclrtFree (ta_storage (records (registry s) ! i)))]) e s s'"
proof -
  obtain e1 s1 where 1: "call_status (logged acl) (Device AclrtSynchronizeDevice) s = (e1, s1)"
    by fastforce
  obtain e2 s2 where 2: "invalidate_handles (logged acl) i (handles (registry s)) s1 = (e2, s2)"
    by fastforce
  have same: "registry s1 = registry s" "registry s2 = registry s"
    using call_status_frame[OF 1] invalidate_frame[OF 2] by simp_all
  obtain e3 s3 where 3: "call_status (logged acl) (Memory (AclrtFree (ta_storage (records (registry s) ! i)))) s2 = (e3, s3)"
    by fastforce
  have set: "calls_in_order p x u (set_record i a s3) = calls_in_order p x u s3" for p x u a
    by (simp add: calls_in_order_def set_record_def)
  show ?thesis
    using assms calls_one[OF 1] invalidate_calls[OF 2] calls_one[OF 3]
      calls_step[OF _ calls_then[OF _ calls_one[OF 3]], of "Device AclrtSynchronizeDevice" s s1 "invalidations i (handles (registry s))"]
    by (auto simp: textureReleaseStorage_def Let_def 1 2 3 same set intro: calls_step calls_halt calls_stop
        split: if_splits)
qed

section \<open>Properties\<close>

text \<open>C99 (bounds). Every copy into an array stays in its storage, for every shape and every
  answer of ACL: each \<open>aclrtMemcpy\<close> that the three copy functions issue writes (and a box copy
  also reads) only bytes of the array, and never more than the size it declares.\<close>
theorem array_copies_in_bounds:
  assumes "texture_program a (logged acl) w s"
    and "textureArray (registry s) array = Some i"
  shows "copies (\<lambda>d m q n. in_array (records (registry s) ! i) d m \<and> n \<le> m) s
        (texture_exec (logged acl) (Memcpy_to_array array x y src bytes kind) s)
    \<and> copies (\<lambda>d m q n. in_array (records (registry s) ! i) d m \<and> n \<le> m) s
        (texture_exec (logged acl) (Memcpy_2D_to_array array x y src spitch width height kind) s)
    \<and> copies (\<lambda>d m q n. box_in_arrays (registry s) p d q n \<and> n \<le> m) s
        (texture_exec (logged acl) (Memcpy_3D (Some p)) s)"
  using copy_1D_bounds[OF texture_program_inv[OF assms(1)] assms(2) surjective_pairing]
    copy_2D_bounds[OF texture_program_inv[OF assms(1)] assms(2) surjective_pairing]
    copy_3D_bounds[OF texture_program_inv[OF assms(1)] surjective_pairing]
  by simp

definition demo_logged :: "(unit \<times> acl_log) trt" where
  "demo_logged = texture_exec (logged willing_acl)
     (Create_object (Some 0) (Some \<lparr>rd_res = Resource_Array (Some 0), rd_flags = 0\<rparr>) (Some plain_texture) False)
       (texture_exec (logged willing_acl) (Malloc_array (Some None) (Some float_channel) 16 8 0) (initial_trt ((), [])))"

lemma demo_logged_program: "texture_program a (logged willing_acl) ((), []) demo_logged"
  unfolding demo_logged_def by (metis begins calls trt_exec.simps(2))

lemma array_copies_in_bounds_witness:
  "copies (\<lambda>d m q n. in_array (records (registry demo_logged) ! 0) d m \<and> n \<le> m) demo_logged
     (texture_exec (logged willing_acl) (Memcpy_2D_to_array (Some 0) 8 2 8192 64 16 3 ACL_MEMCPY_HOST_TO_DEVICE) demo_logged)"
proof -
  have "textureArray (registry demo_logged) (Some 0) = Some 0"
    by code_simp
  then show ?thesis
    using array_copies_in_bounds[OF demo_logged_program] by blast
qed

text \<open>C28 (safety). Storage is released only after its readers are: the release of an array, or of
  an allocation that the runtime frees through the hook, synchronises the device, then writes width 0 into the descriptor of every live object
  of that record, and frees the storage last; the first call that fails ends the release, so
  storage is never freed under a descriptor that still admits reads.\<close>
theorem release_invalidates_first:
  assumes "textureReleaseStorage (logged acl) i s = (e, s')"
  shows "\<exists>calls. history s' = rev calls @ history s
    \<and> prefix (map fst calls)
        (Device AclrtSynchronizeDevice # invalidations i (handles (registry s))
         @ [Memory (AclrtFree (ta_storage (records (registry s) ! i)))])
    \<and> (\<forall>c \<in> set (butlast calls). rep_status (snd c) = ACL_SUCCESS)
    \<and> (e = ACL_SUCCESS \<longleftrightarrow> length calls = length (invalidations i (handles (registry s))) + 2
         \<and> rep_status (snd (last calls)) = ACL_SUCCESS)"
proof -
  obtain calls where c: "history s' = rev calls @ history s"
      "prefix (map fst calls) (Device AclrtSynchronizeDevice # invalidations i (handles (registry s))
         @ [Memory (AclrtFree (ta_storage (records (registry s) ! i)))])"
      "\<forall>c \<in> set (butlast calls). rep_status (snd c) = ACL_SUCCESS"
      "if e = ACL_SUCCESS then map fst calls = Device AclrtSynchronizeDevice # invalidations i (handles (registry s))
           @ [Memory (AclrtFree (ta_storage (records (registry s) ! i)))]
           \<and> (\<forall>c \<in> set calls. rep_status (snd c) = ACL_SUCCESS)
       else calls \<noteq> [] \<and> rep_status (snd (last calls)) = e"
    using release_calls[OF assms] unfolding calls_in_order_def by auto
  show ?thesis
  proof (cases "e = ACL_SUCCESS")
    case True
    then have m: "map fst calls = Device AclrtSynchronizeDevice # invalidations i (handles (registry s))
        @ [Memory (AclrtFree (ta_storage (records (registry s) ! i)))]"
      using c(4) by simp
    have "length calls = length (invalidations i (handles (registry s))) + 2"
      using arg_cong[OF m, of length] by simp
    moreover from this have "last calls \<in> set calls"
      by (intro last_in_set) auto
    ultimately show ?thesis
      using c True by (intro exI[of _ calls]) auto
  qed (use c in \<open>intro exI[of _ calls], auto\<close>)
qed

lemma release_invalidates_first_witness:
  "let s' = snd (textureReleaseStorage (logged willing_acl) 0 demo_logged)
   in take 3 (map fst (history s')) =
      [Memory (AclrtFree 4096), Memory (AclrtMemcpy_from_local 4120 4 [0]), Device AclrtSynchronizeDevice]
    \<and> (\<exists>calls. history s' = rev calls @ history demo_logged \<and> length calls = 3)"
proof -
  define r where "r = textureReleaseStorage (logged willing_acl) 0 demo_logged"
  have e: "fst r = ACL_SUCCESS"
    unfolding r_def by code_simp
  have n: "length (invalidations 0 (handles (registry demo_logged))) = 1"
    by code_simp
  have t: "take 3 (map fst (history (snd r))) =
      [Memory (AclrtFree 4096), Memory (AclrtMemcpy_from_local 4120 4 [0]), Device AclrtSynchronizeDevice]"
    unfolding r_def by code_simp
  have "textureReleaseStorage (logged willing_acl) 0 demo_logged = (ACL_SUCCESS, snd r)"
    using e by (simp add: r_def prod_eq_iff)
  from release_invalidates_first[OF this] n t show ?thesis
    by (auto simp: Let_def r_def)
qed

end
