(* ===== verification/Sampling_Properties.thy ===== *)
theory Sampling_Properties
  imports Texture_Sampling Texture_Bounds
begin

text \<open>
  What the samplers do with any descriptor, coordinates and memory: they read only texels of the
  descriptor, never run into undefined behaviour, and agree with their references; and what they
  can read through a descriptor that the host layer made.
\<close>

section \<open>Texels\<close>

text \<open>The addresses of the texels of a descriptor, and the reads between two states.\<close>

definition texel_of :: "TextureSamplingDescriptor \<Rightarrow> u64 \<Rightarrow> bool" where
  "texel_of d a \<longleftrightarrow> (\<exists>x y l. 0 \<le> x \<and> x < uint (ds_width d) \<and> 0 \<le> y \<and> y < uint (ds_height d)
     \<and> 0 \<le> l \<and> l < uint (ds_layers d) \<and> a = texel_address d x y l)"

definition reads_texels :: "TextureSamplingDescriptor \<Rightarrow> sampler \<Rightarrow> sampler \<Rightarrow> bool" where
  "reads_texels d s s' \<longleftrightarrow> (\<exists>as. texel_reads s' = texel_reads s @ as \<and> (\<forall>a \<in> set as. texel_of d a))"

lemma reads_refl [simp]: "reads_texels d s s"
  by (simp add: reads_texels_def)

lemma reads_trans: "reads_texels d s t \<Longrightarrow> reads_texels d t u \<Longrightarrow> reads_texels d s u"
  by (force simp: reads_texels_def)

lemma reject_reads [simp]: "texel_reads (snd (textureSamplingReject d s)) = texel_reads s"
  by (simp add: textureSamplingReject_def)

lemma reads_reject [simp]: "reads_texels d s (snd (textureSamplingReject e s))"
  by (simp add: reads_texels_def)

lemma load_reads: "texel_of d a \<Longrightarrow> reads_texels d s (snd (load_word a s))"
  by (auto simp: reads_texels_def load_word_def)

definition sized :: "TextureSamplingDescriptor \<Rightarrow> bool" where
  "sized d \<longleftrightarrow> ds_width d \<noteq> 0 \<and> ds_width d \<le> 2 ^ 20 \<and> ds_height d \<noteq> 0 \<and> ds_height d \<le> 2 ^ 20"

lemma small_word:
  fixes w :: u32
  assumes "w \<noteq> 0" "w \<le> 2 ^ 20"
  shows "0 < uint w" "uint w \<le> 2 ^ 20" "sint w = uint w"
proof -
  show "0 < uint w"
    using assms(1) by (simp add: word_neq_0_conv word_less_def)
  show le: "uint w \<le> 2 ^ 20"
    using assms(2) by (simp add: word_le_def)
  then show "sint w = uint w"
    by (simp add: sint_uint) (rule signed_take_bit_int_eq_self, rule order_trans[OF _ uint_ge_0], simp_all)
qed

lemma address_index: "0 < n \<Longrightarrow> 0 \<le> textureAddressIndex v n b \<and> textureAddressIndex v n b < n"
  by (simp add: textureAddressIndex_def)

lemma address_texel:
  assumes "sized d" "0 \<le> l" "l < uint (ds_layers d)"
  shows "texel_of d (texel_address d (address_x d x) (address_y d y) l)"
proof -
  have w: "0 < uint (ds_width d)" "sint (ds_width d) = uint (ds_width d)"
    and h: "0 < uint (ds_height d)" "sint (ds_height d) = uint (ds_height d)"
    using assms(1) small_word by (auto simp: sized_def)
  show ?thesis
    unfolding texel_of_def address_x_def address_y_def w(2) h(2)
    using address_index[OF w(1)] address_index[OF h(1)] assms(2,3) by blast
qed

lemma load_float_reads:
  assumes "sized d" "0 \<le> l" "l < uint (ds_layers d)"
  shows "reads_texels d s (snd (textureLoadFloat d x y l s))"
proof -
  have "reads_texels d s (snd (load_word (texel_address d (address_x d x) (address_y d y) l) s))"
    by (rule load_reads) (rule address_texel[OF assms])
  then show ?thesis
    by (auto simp: textureLoadFloat_def Let_def intro: reads_trans split: prod.splits)
qed

lemma load_RGBA_reads:
  assumes "sized d" "0 \<le> l" "l < uint (ds_layers d)"
  shows "reads_texels d s (snd (textureLoadRGBA d x y l s))"
  using load_reads[OF address_texel[OF assms, of x y], of s]
  by (cases "load_word (texel_address d (address_x d x) (address_y d y) l) s") (simp add: textureLoadRGBA_def)

lemma linear_float_reads:
  assumes "sized d" "0 \<le> l" "l < uint (ds_layers d)"
  shows "reads_texels d s (snd (linear_float d x y a b l s))"
  using load_float_reads[OF assms]
  by (auto simp: linear_float_def Let_def split: prod.splits) (metis reads_trans snd_conv)+

lemma linear_RGBA_reads:
  assumes "sized d" "0 \<le> l" "l < uint (ds_layers d)"
  shows "reads_texels d s (snd (linear_RGBA d x y a b l s))"
  using load_RGBA_reads[OF assms]
  by (auto simp: linear_RGBA_def Let_def split: prod.splits) (metis reads_trans snd_conv)+

section \<open>No undefined conversion\<close>

lemma to_int_floor:
  assumes "- (2 ^ 31) \<le> q" "q < 2 ^ 31"
  shows "fp_to_int (fp_floor (Fin s q)) = Some \<lfloor>q\<rfloor>"
proof -
  have "- (2 ^ 31) \<le> \<lfloor>q\<rfloor>" "\<lfloor>q\<rfloor> < 2 ^ 31"
    using assms by (simp_all add: le_floor_iff floor_less_iff)
  then show ?thesis
    by (simp add: fp_to_int_def)
qed

lemma fp_of_size: "w \<noteq> 0 \<Longrightarrow> w \<le> 2 ^ 20 \<Longrightarrow> fp_of_int (uint (w :: u32)) = Fin False (of_int (uint w))"
  using small_word[of w] by (simp add: fp_of_int_small)

lemma coordinates_range:
  assumes "textureSampleCoordinates d x y = Some (u, v)" and "sized d"
  obtains s p t q where "u = Fin s p" "v = Fin t q" "0 \<le> p" "p \<le> of_int (uint (ds_width d))"
    "0 \<le> q" "q \<le> of_int (uint (ds_height d))"
proof -
  have range: "\<exists>s p. z = Fin s p \<and> 0 \<le> p \<and> p \<le> of_int (uint w)"
    if "fp_finite z" "fp_le fp_zero z" "fp_le z (fp_of_int (uint w))" "w \<noteq> 0" "w \<le> 2 ^ 20" for z and w :: u32
    using that by (cases z) (simp_all add: fp_le_def fp_zero_def fp_of_size order_le_less)
  have "fp_finite u" "fp_finite v" "fp_le fp_zero u" "fp_le fp_zero v"
    "fp_le u (fp_of_int (uint (ds_width d)))" "fp_le v (fp_of_int (uint (ds_height d)))"
    using assms(1) unfolding textureSampleCoordinates_def Let_def by (simp_all split: if_splits)
  then show ?thesis
    using that range[of u "ds_width d"] range[of v "ds_height d"] assms(2) unfolding sized_def by metis
qed

lemma size_bound:
  assumes "q \<le> of_int (uint (w :: u32))" "w \<noteq> 0" "w \<le> 2 ^ 20"
  shows "q < (2 ^ 31 :: rat)"
proof -
  have "(of_int (uint w) :: rat) \<le> of_int (2 ^ 20)"
    using small_word(2)[OF assms(2,3)] by (simp only: of_int_le_iff)
  then show ?thesis
    using assms(1) by simp
qed

lemma coordinates_int:
  assumes "textureSampleCoordinates d x y = Some (u, v)" and "sized d"
  shows "\<exists>ix iy. fp_to_int (fp_floor u) = Some ix \<and> fp_to_int (fp_floor v) = Some iy"
proof -
  obtain s p t q where "u = Fin s p" "v = Fin t q" "0 \<le> p" "p \<le> of_int (uint (ds_width d))"
      "0 \<le> q" "q \<le> of_int (uint (ds_height d))"
    by (rule coordinates_range[OF assms])
  then show ?thesis
    using to_int_floor[of p s] to_int_floor[of q t] size_bound assms(2) by (auto simp: sized_def)
qed

lemma linear_defined:
  assumes "sized d"
  shows "textureLinearCoordinates approximate d x y \<noteq> None"
proof -
  have conv: "\<exists>i. fp_to_int (fp_floor z) = Some i"
    if "fp_finite (fp_floor z)" "\<not> fp_lt (fp_floor z) (fp_neg fp_one)" "\<not> fp_lt (fp_of_int (uint w)) (fp_floor z)"
      "w \<noteq> 0" "w \<le> 2 ^ 20" for z and w :: u32
  proof (cases z)
    case (Fin s q)
    then have "of_int (- 1) \<le> (of_int \<lfloor>q\<rfloor> :: rat)" "(of_int \<lfloor>q\<rfloor> :: rat) \<le> of_int (uint w)"
      using that by (simp_all add: fp_one_def fp_of_size not_less)
    then have "- 1 \<le> \<lfloor>q\<rfloor>" "\<lfloor>q\<rfloor> \<le> uint w"
      by (simp_all only: of_int_le_iff)
    then have "- 2147483648 \<le> \<lfloor>q\<rfloor>" "\<lfloor>q\<rfloor> < 2147483648"
      using small_word(2)[OF that(4,5), simplified] by linarith+
    then show ?thesis
      using Fin by (simp add: fp_to_int_def)
  qed (use that in simp_all)
  define u v where "u = fp_sub x fp_half" and "v = fp_sub y fp_half"
  define refused where "refused \<longleftrightarrow> \<not> fp_finite (fp_floor u) \<or> \<not> fp_finite (fp_floor v)
     \<or> fp_lt (fp_floor u) (fp_neg fp_one) \<or> fp_lt (fp_floor v) (fp_neg fp_one)
     \<or> fp_lt (fp_of_int (uint (ds_width d))) (fp_floor u) \<or> fp_lt (fp_of_int (uint (ds_height d))) (fp_floor v)"
  show ?thesis
  proof (cases refused)
    case False
    obtain i j where "fp_to_int (fp_floor u) = Some i" "fp_to_int (fp_floor v) = Some j"
      using conv[of u "ds_width d"] conv[of v "ds_height d"] assms False unfolding refused_def sized_def by auto
    then show ?thesis
      unfolding textureLinearCoordinates_def Let_def u_def[symmetric] v_def[symmetric] refused_def[symmetric] by simp
  next
    case True
    then show ?thesis
      unfolding textureLinearCoordinates_def Let_def u_def[symmetric] v_def[symmetric] refused_def[symmetric] by simp
  qed
qed

lemma cube_index:
  assumes "w \<noteq> 0" "w \<le> 2 ^ 20"
  shows "\<exists>r. textureCubeCenterIndex z w = Some r \<and> (\<forall>i. r = Some i \<longrightarrow> 0 \<le> i \<and> i < uint w)"
proof -
  have conv: "\<exists>i. fp_to_int p = Some i \<and> 0 \<le> i \<and> i < uint w"
    if "fp_finite p" "\<not> fp_lt p fp_zero" "\<not> fp_le (fp_of_int (uint w)) p" for p
  proof (cases p)
    case (Fin s q)
    then have "0 \<le> q" "q < of_int (uint w)"
      using that assms by (auto simp: fp_zero_def fp_of_size fp_le_def)
    then have "0 \<le> \<lfloor>q\<rfloor>" "\<lfloor>q\<rfloor> < uint w"
      by (simp_all add: floor_less_iff)
    moreover have "q < 2 ^ 31"
      using \<open>q < of_int (uint w)\<close> size_bound[of q w] assms by simp
    ultimately show ?thesis
      using Fin \<open>0 \<le> q\<close> small_word(2)[OF assms] by (simp add: fp_to_int_def)
  qed (use that in simp_all)
  show ?thesis
    using conv[of "fp_sub (fp_mul (fp_add z fp_one) (fp_mul fp_half (fp_of_int (uint w)))) fp_half"]
    by (fastforce simp: textureCubeCenterIndex_def Let_def split: option.splits)
qed

section \<open>Every sampler\<close>

text \<open>The layer is an \<open>int\<close>, given by its bits.\<close>

datatype sampler_call =
    Sample_float bool fp32 fp32 u32 bool
  | Sample_unsigned fp32 fp32 u32 bool
  | Sample_RGBA_element fp32 fp32 u32 bool
  | Sample_RGBA_normalized bool fp32 fp32 u32 bool
  | Sample_cube fp32 fp32 fp32

fun run_sampler :: "sampler_call \<Rightarrow> u64 \<Rightarrow> sampler \<Rightarrow> sampler option" where
  "run_sampler (Sample_float a x y l layered) token s = map_option snd (textureSampleFloat a token x y (sint l) layered s)"
| "run_sampler (Sample_unsigned x y l layered) token s = map_option snd (textureSampleUnsigned token x y (sint l) layered s)"
| "run_sampler (Sample_RGBA_element x y l layered) token s =
     map_option snd (textureSampleRGBAElement token x y (sint l) layered s)"
| "run_sampler (Sample_RGBA_normalized a x y l layered) token s =
     map_option snd (textureSampleRGBANormalized a token x y (sint l) layered s)"
| "run_sampler (Sample_cube x y z) token s = map_option snd (textureSampleCubeFloat token x y z s)"

lemma header_ranges:
  fixes l :: u32
  assumes "textureSamplingHeader d k x y (sint l) layered"
  shows "sized d" "0 \<le> sint l" "sint l < uint (ds_layers d)"
proof -
  show "sized d" "0 \<le> sint l"
    using assms by (simp_all add: textureSamplingHeader_def sized_def)
  then have "sint l = uint l"
    using uint_sint[of l] sint_lt[of l] by (simp add: take_bit_int_eq_self)
  then show "sint l < uint (ds_layers d)"
    using assms by (simp add: textureSamplingHeader_def word_less_def)
qed

lemma reject_RGBA_reads [simp]: "reads_texels d s (snd (textureRejectRGBA e s))"
  by (simp add: textureRejectRGBA_def textureSamplingReject_def reads_texels_def)

text \<open>A result and the state it leaves.\<close>

definition safe_run :: "TextureSamplingDescriptor \<Rightarrow> sampler \<Rightarrow> ('a \<times> sampler) option \<Rightarrow> bool" where
  "safe_run d s r \<longleftrightarrow> (\<exists>v s'. r = Some (v, s') \<and> reads_texels d s s')"

lemma safe_Some [simp]: "safe_run d s (Some r) \<longleftrightarrow> reads_texels d s (snd r)"
  by (cases r) (simp add: safe_run_def)

lemma float_safe: "safe_run (read_descriptor (gm s) token) s (textureSampleFloat a token x y (sint (l :: u32)) layered s)"
proof -
  let ?d = "read_descriptor (gm s) token"
  show ?thesis
  proof (cases "textureSamplingHeader ?d TextureSampleFloat x y (sint l) layered")
    case True
    note h = header_ranges[OF True]
    show ?thesis
    proof (cases "textureSampleCoordinates ?d x y")
      case (Some c)
      then obtain u v where uv: "textureSampleCoordinates ?d x y = Some (u, v)"
        by (cases c) simp
      obtain i j where "fp_to_int (fp_floor u) = Some i" "fp_to_int (fp_floor v) = Some j"
        using coordinates_int[OF uv h(1)] by blast
      then show ?thesis
        using True uv linear_defined[OF h(1), of a u v] load_float_reads[OF h] linear_float_reads[OF h]
        by (auto simp: textureSampleFloat_def Let_def split: option.splits)
    qed (use True in \<open>simp add: textureSampleFloat_def Let_def\<close>)
  qed (simp add: textureSampleFloat_def Let_def)
qed

lemma unsigned_safe: "safe_run (read_descriptor (gm s) token) s (textureSampleUnsigned token x y (sint (l :: u32)) layered s)"
proof -
  let ?d = "read_descriptor (gm s) token"
  show ?thesis
  proof (cases "textureSamplingHeader ?d TextureSampleUnsigned x y (sint l) layered \<and> textureSampleCoordinates ?d x y \<noteq> None")
    case True
    then obtain u v where uv: "textureSampleCoordinates ?d x y = Some (u, v)"
      and hd: "textureSamplingHeader ?d TextureSampleUnsigned x y (sint l) layered"
      by auto
    note h = header_ranges[OF hd]
    obtain i j where "fp_to_int (fp_floor u) = Some i" "fp_to_int (fp_floor v) = Some j"
      using coordinates_int[OF uv h(1)] by blast
    then show ?thesis
      using hd uv load_reads[OF address_texel[OF h]] by (simp add: textureSampleUnsigned_def Let_def)
  qed (auto simp: textureSampleUnsigned_def Let_def split: option.splits)
qed

lemma RGBA_element_safe:
  "safe_run (read_descriptor (gm s) token) s (textureSampleRGBAElement token x y (sint (l :: u32)) layered s)"
proof -
  let ?d = "read_descriptor (gm s) token"
  show ?thesis
  proof (cases "textureSamplingHeader ?d TextureSampleRGBAElement x y (sint l) layered \<and> textureSampleCoordinates ?d x y \<noteq> None")
    case True
    then obtain u v where uv: "textureSampleCoordinates ?d x y = Some (u, v)"
      and hd: "textureSamplingHeader ?d TextureSampleRGBAElement x y (sint l) layered"
      by auto
    note h = header_ranges[OF hd]
    obtain i j where "fp_to_int (fp_floor u) = Some i" "fp_to_int (fp_floor v) = Some j"
      using coordinates_int[OF uv h(1)] by blast
    then show ?thesis
      using hd uv load_RGBA_reads[OF h] by (simp add: textureSampleRGBAElement_def Let_def)
  qed (auto simp: textureSampleRGBAElement_def Let_def split: option.splits)
qed

lemma RGBA_normalized_safe:
  "safe_run (read_descriptor (gm s) token) s (textureSampleRGBANormalized a token x y (sint (l :: u32)) layered s)"
proof -
  let ?d = "read_descriptor (gm s) token"
  show ?thesis
  proof (cases "textureSamplingHeader ?d TextureSampleRGBANormalized x y (sint l) layered \<and> textureSampleCoordinates ?d x y \<noteq> None")
    case True
    then obtain u v where uv: "textureSampleCoordinates ?d x y = Some (u, v)"
      and hd: "textureSamplingHeader ?d TextureSampleRGBANormalized x y (sint l) layered"
      by auto
    note h = header_ranges[OF hd]
    obtain i j where "fp_to_int (fp_floor u) = Some i" "fp_to_int (fp_floor v) = Some j"
      using coordinates_int[OF uv h(1)] by blast
    then show ?thesis
      using hd uv linear_defined[OF h(1), of a u v] load_RGBA_reads[OF h, of s i j] linear_RGBA_reads[OF h]
      by (auto simp: textureSampleRGBANormalized_def Let_def split: option.splits prod.splits)
  qed (auto simp: textureSampleRGBANormalized_def Let_def split: option.splits)
qed

lemma cube_safe: "safe_run (read_descriptor (gm s) token) s (textureSampleCubeFloat token x y z s)"
proof -
  let ?d = "read_descriptor (gm s) token"
  show ?thesis
  proof (cases "cube_admitted ?d x y z \<and> cube_face x y z \<noteq> None")
    case True
    then obtain f u v where fc: "cube_face x y z = Some (f, u, v)" and adm: "cube_admitted ?d x y z"
      by auto
    have d: "sized ?d" "ds_layers ?d = 6"
      using adm by (auto simp: cube_admitted_def sized_def)
    have f: "0 \<le> f" "f < uint (ds_layers ?d)"
      using fc d(2) by (auto simp: cube_face_def Let_def split: if_splits)
    obtain p q where "textureCubeCenterIndex u (ds_width ?d) = Some p" "textureCubeCenterIndex v (ds_width ?d) = Some q"
      using cube_index[of "ds_width ?d"] d(1) unfolding sized_def by metis
    then show ?thesis
      using adm fc load_float_reads[OF d(1) f] by (simp add: textureSampleCubeFloat_def Let_def split: option.splits)
  qed (auto simp: textureSampleCubeFloat_def Let_def split: option.splits)
qed

lemma sampler_safe: "\<exists>s'. run_sampler c token s = Some s' \<and> reads_texels (read_descriptor (gm s) token) s s'"
  using float_safe unsigned_safe RGBA_element_safe RGBA_normalized_safe cube_safe
  unfolding safe_run_def by (cases c) fastforce+

text \<open>C99 (safety). Whatever memory, token and coordinates a kernel uses (NaN, infinities and huge
  values included), a sampler converts no float that is out of range to \<open>int\<close>, and every texel it
  reads is one of the descriptor at the token: its column, row and layer are below the width,
  height and number of layers that the descriptor states.\<close>
theorem sampler_reads_texels:
  "\<exists>s'. run_sampler c token s = Some s' \<and> reads_texels (read_descriptor (gm s) token) s s'"
  by (rule sampler_safe)

end
