(* ===== verification/Texture_Safety.thy ===== *)
theory Texture_Safety
  imports Sampling_Properties
begin

text \<open>
  Host and device together: a texture object that the host layer makes reaches only the storage of
  its allocation, whatever a kernel samples through it, and a released one reaches nothing.
\<close>

section \<open>The descriptor in memory\<close>

lemma join_two_words: "join_words (ucast x) (ucast (drop_bit 32 x)) = x"
  by (rule bit_word_eqI) (auto simp: join_words_def bit_or_iff bit_push_bit_iff bit_unsigned_iff bit_drop_bit_eq)

definition holds_image :: "(u64 \<Rightarrow> u32) \<Rightarrow> u64 \<Rightarrow> u32 list \<Rightarrow> bool" where
  "holds_image m p ws \<longleftrightarrow> (\<forall>n < length ws. m (p + of_nat (4 * n)) = ws ! n)"

lemma image_length [simp]: "length (descriptor_image v) = 24"
  by (simp add: descriptor_image_def two_words_def)

lemma read_image:
  assumes "holds_image m p (descriptor_image v)"
  shows "read_descriptor m p = v"
proof -
  have w: "m (p + of_nat (4 * n)) = descriptor_image v ! n" if "n < 24" for n
    using assms that by (simp add: holds_image_def)
  show ?thesis
    using w[of 0] w[of 1] w[of 2] w[of 3] w[of 4] w[of 5] w[of 6] w[of 7] w[of 8] w[of 9] w[of 10] w[of 11]
      w[of 12] w[of 13] w[of 14] w[of 15] w[of 16] w[of 17]
    by (simp add: read_descriptor_def descriptor_image_def two_words_def join_two_words)
qed

section \<open>Views\<close>

text \<open>What a view of a record must satisfy for its texels to lie in the record.\<close>

definition view_in :: "TextureAllocation \<Rightarrow> u64 \<Rightarrow> u64 \<Rightarrow> u64 \<Rightarrow> bool" where
  "view_in a w h p \<longleftrightarrow> 0 < w \<and> w \<le> 2 ^ 20 \<and> 0 < h \<and> h \<le> 2 ^ 20 \<and> 0 < ta_layers a \<and> ta_layers a \<le> 2 ^ 20
     \<and> (\<forall>x y l. x < unat w \<longrightarrow> y < unat h \<longrightarrow> l < unat (ta_layers a) \<longrightarrow>
          l * unat (ta_pitch a * ta_height a) + y * unat p + 4 * x + 4 \<le> unat (ta_bytes a))"

lemma array_view:
  assumes "sound_record a" "ta_storage a \<noteq> 0" "ta_array a"
  shows "view_in a (ta_width a) (ta_height a) (ta_pitch a)"
proof -
  have size: "0 < ta_width a" "ta_width a \<le> 2 ^ 20" "0 < ta_height a" "ta_height a \<le> 2 ^ 20"
    "0 < ta_layers a" "ta_layers a \<le> 2 ^ 20" "unat (ta_pitch a) = 4 * unat (ta_width a)"
    using assms by (auto simp: sound_record_def split: if_splits)
  have "unat (ta_pitch a) * unat (ta_height a) * 1 \<le> unat (ta_pitch a) * unat (ta_height a) * unat (ta_layers a)"
    using sound_bytes(2)[OF assms] by (intro mult_left_mono) simp_all
  then have plane: "unat (ta_pitch a * ta_height a) = unat (ta_pitch a) * unat (ta_height a)"
    using sound_bytes(1)[OF assms] unat_le64[of "ta_bytes a"] by (intro unat_times_guard) linarith
  have "l * unat (ta_pitch a * ta_height a) + y * unat (ta_pitch a) + (4 * x + 4) \<le> unat (ta_bytes a)"
    if "x < unat (ta_width a)" "y < unat (ta_height a)" "l < unat (ta_layers a)" for x y l
    unfolding plane sound_bytes(1)[OF assms] by (rule box_bound) (use that size(7) in simp_all)
  then show ?thesis
    using size by (simp add: view_in_def add.assoc)
qed

lemma pitch_view:
  assumes "textureMultiply w 4 = Some row" "textureRowsRange p row h = Some bytes" "bytes \<le> ta_bytes a"
    and "w \<noteq> 0" "w \<le> 2 ^ 20" "h \<noteq> 0" "h \<le> 2 ^ 20" "ta_layers a = 1"
  shows "view_in a w h p"
proof -
  have row: "unat row = 4 * unat w"
    using textureMultiply_Some[OF assms(1)] by simp
  note bytes = rows_range[OF assms(2,6)]
  have "y * unat p + 4 * x + 4 \<le> unat (ta_bytes a)" if "x < unat w" "y < unat h" for x y
  proof -
    have "y * unat p \<le> (unat h - 1) * unat p"
      using that(2) by (intro mult_right_mono) auto
    then have "y * unat p + 4 * x + 4 \<le> unat bytes"
      using that(1) bytes(1) row by linarith
    then show ?thesis
      using assms(3) by (simp add: word_le_nat_alt)
  qed
  then show ?thesis
    using assms(4-8) by (simp add: view_in_def word_gt_0 add.assoc)
qed

lemma borrow_layers:
  assumes "borrow_record device ctx p bytes s = ((ACL_SUCCESS, i), s')" and "registry_inv (registry s)"
  shows "ta_layers (records (registry s') ! i) = 1"
  using assms free_record_Some[of "registry s"]
  by (auto simp: borrow_record_def Let_def registry_inv_def split: option.splits if_splits)

lemma lookup_view:
  assumes "lookup_pitch device ctx t q desc w h p s = ((ACL_SUCCESS, Some i, w', h', p', c), s')" and "registry_inv (registry s)"
  shows "view_in (records (registry s') ! i) w' h' p'"
proof -
  note r = assms(1)[unfolded lookup_pitch_def Let_def]
  have chan: "textureChannelKind desc \<noteq> TextureChannelInvalid"
    using r by (cases "textureChannelKind desc = TextureChannelInvalid") simp_all
  have "\<not> (w = 0 \<or> h = 0 \<or> w > 2 ^ 20 \<or> h > 2 ^ 20)"
  proof
    assume "w = 0 \<or> h = 0 \<or> w > 2 ^ 20 \<or> h > 2 ^ 20"
    then show False
      using r chan by (simp only: if_True if_False option.case prod.inject) simp
  qed
  then have wh: "w \<noteq> 0" "w \<le> 2 ^ 20" "h \<noteq> 0" "h \<le> 2 ^ 20"
    by (simp_all only: de_Morgan_disj linorder_not_less not_False_eq_True)
  then have lim: "\<not> 1048576 < w" "\<not> 1048576 < h"
    by (simp_all add: not_less)
  obtain row where row: "textureMultiply w 4 = Some row"
    using r chan wh by (cases "textureMultiply w 4") (simp_all add: lim)
  obtain bytes where bytes: "textureRowsRange p row h = Some bytes"
    using r chan wh row by (cases "textureRowsRange p row h") (simp_all add: lim)
  obtain status k s1 where found: "(case texturePointer (registry s) q of Some i \<Rightarrow> ((ACL_SUCCESS, i), s)
      | None \<Rightarrow> borrow_record device ctx q bytes s) = ((status, k), s1)"
    by (metis surj_pair)
  have fits: "status = ACL_SUCCESS \<and> i = k \<and> s' = s1 \<and> w' = w \<and> h' = h \<and> p' = p
      \<and> bytes \<le> ta_bytes (records (registry s1) ! k)"
    using r chan wh row bytes found by (simp add: lim not_less split: if_splits)
  have one: "ta_layers (records (registry s') ! i) = 1"
  proof (cases "texturePointer (registry s) q")
    case None
    then show ?thesis
      using found fits by (auto intro: borrow_layers[OF _ assms(2)])
  next
    case (Some j)
    then have "j < 128" "ta_storage (records (registry s) ! j) \<noteq> 0" "\<not> ta_array (records (registry s) ! j)"
      using texturePointer_Some[OF Some assms(2)] by simp_all
    moreover have "sound_record (records (registry s) ! j)"
      using assms(2) \<open>j < 128\<close> by (simp add: registry_inv_def)
    ultimately have "ta_layers (records (registry s) ! j) = 1"
      by (simp add: sound_record_def split: if_splits)
    then show ?thesis
      using Some found fits by simp
  qed
  show ?thesis
    using fits pitch_view[OF row bytes _ wh one] by simp
qed

lemma resolve_view:
  assumes "resolve_resource device ctx t res s = ((ACL_SUCCESS, Some i, w, h, p, c), s')" and "registry_inv (registry s)"
  shows "view_in (records (registry s') ! i) w h p"
proof (cases res)
  case (Resource_Array array)
  then have found: "textureArray (registry s) array = Some i" and s: "s' = s"
    and v: "w = ta_width (records (registry s) ! i)" "h = ta_height (records (registry s) ! i)"
      "p = ta_pitch (records (registry s) ! i)"
    using assms(1) by (auto simp: resolve_resource_def lookup_array_def split: option.splits)
  have "i < 128" "ta_storage (records (registry s) ! i) \<noteq> 0" "ta_array (records (registry s) ! i)"
    using textureArray_Some[OF found assms(2)] by simp_all
  moreover have "sound_record (records (registry s) ! i)"
    using assms(2) \<open>i < 128\<close> by (simp add: registry_inv_def)
  ultimately show ?thesis
    unfolding v s by (intro array_view)
next
  case (Resource_Pitch2D q desc w' h' p')
  then show ?thesis
    using assms by (auto simp: resolve_resource_def intro: lookup_view)
qed (use assms in \<open>auto simp: resolve_resource_def\<close>)

text \<open>The texels of the descriptor of a view.\<close>

lemma view_texel:
  assumes "view_in a w h p" and "texel_of (make_descriptor a w h p t kind d) x"
  shows "in_array a x 4"
proof -
  let ?v = "make_descriptor a w h p t kind d"
  obtain i j l where ijl: "0 \<le> i" "i < uint (ds_width ?v)" "0 \<le> j" "j < uint (ds_height ?v)" "0 \<le> l" "l < uint (ds_layers ?v)"
      "x = texel_address ?v i j l"
    using assms(2) unfolding texel_of_def by auto
  have cast: "uint (ucast z :: u32) = int (unat z)" if "z \<le> 2 ^ 20" for z :: u64
  proof -
    have "uint z \<le> 2 ^ 20"
      using that by (simp add: word_le_def)
    then have "take_bit 32 (uint z) = uint z"
      by (intro take_bit_int_eq_self) simp_all
    then show ?thesis
      by (simp add: unsigned_ucast_eq)
  qed
  obtain ni nj nl where n: "i = int ni" "j = int nj" "l = int nl"
    using ijl by (metis nonneg_int_cases)
  have "w \<le> 2 ^ 20" "h \<le> 2 ^ 20" "ta_layers a \<le> 2 ^ 20"
    using assms(1) unfolding view_in_def by blast+
  then have sizes: "uint (ds_width ?v) = int (unat w)" "uint (ds_height ?v) = int (unat h)"
    "uint (ds_layers ?v) = int (unat (ta_layers a))"
    using cast unfolding make_descriptor_def TextureSamplingDescriptor.simps by blast+
  have lim: "ni < unat w" "nj < unat h" "nl < unat (ta_layers a)"
    using ijl(2,4,6) unfolding n sizes of_nat_less_iff .
  then have fit: "nl * unat (ta_pitch a * ta_height a) + nj * unat p + 4 * ni + 4 \<le> unat (ta_bytes a)"
    using assms(1) unfolding view_in_def by blast
  let ?L = "of_nat nl * (ta_pitch a * ta_height a)" and ?J = "of_nat nj * p" and ?I = "of_nat ni * (4 :: u64)"
  have parts: "unat ?L = nl * unat (ta_pitch a * ta_height a)" "unat ?J = nj * unat p" "unat ?I = ni * 4"
    using row_offset[OF lim(3), of "ta_pitch a * ta_height a" "ta_bytes a"] row_offset[OF lim(2), of p "ta_bytes a"]
      row_offset[OF lim(1), of 4 "ta_bytes a"] fit by simp_all
  have "unat (?L + ?J + ?I + 0 + 0) = unat ?L + unat ?J + unat ?I + unat (0 :: u64) + unat (0 :: u64)"
    using fit parts unat_le64[of "ta_bytes a"] by (intro unat_parts) simp
  then have "unat (?L + ?J + ?I) + unat (4 :: u64) \<le> unat (ta_bytes a)"
    using fit parts by simp
  moreover have "x = ta_storage a + (?L + ?J + ?I)"
    by (simp add: ijl(7) n texel_address_def make_descriptor_def add.assoc)
  ultimately show ?thesis
    unfolding in_array_def by blast
qed

section \<open>Objects that the host makes\<close>

lemma view_references [simp]: "view_in (a\<lparr>ta_references := n\<rparr>) = view_in a" "in_array (a\<lparr>ta_references := n\<rparr>) = in_array a"
  by (simp_all add: view_in_def in_array_def fun_eq_iff)

lemma publish_success:
  assumes "publish_object (logged acl) i f s = ((ACL_SUCCESS, d), s')"
  shows "\<exists>k r. find_index (\<lambda>h. th_descriptor h = 0) (handles (registry s)) = Some k \<and> d \<noteq> 0
    \<and> hd (history s') = (Memory (AclrtMemcpy_from_local d 96 (descriptor_image (f d))), r) \<and> rep_status r = ACL_SUCCESS
    \<and> handles (registry s') = (handles (registry s))[k := \<lparr>th_descriptor = d, th_allocation = Some i\<rparr>]
    \<and> records (registry s') = (records (registry s))[i := (records (registry s) ! i)
         \<lparr>ta_references := ta_references (records (registry s) ! i) + 1\<rparr>]"
proof -
  obtain k where k: "find_index (\<lambda>h. th_descriptor h = 0) (handles (registry s)) = Some k"
    using assms by (auto simp: publish_object_def split: option.splits)
  obtain r s1 where 1: "call (logged acl) (Memory (AclrtMalloc 96)) s = (r, s1)"
    by (metis surj_pair)
  obtain e s2 where 2: "call_status (logged acl)
      (Memory (AclrtMemcpy_from_local (rep_ptr r) 96 (descriptor_image (f (rep_ptr r))))) s1 = (e, s2)"
    by (metis surj_pair)
  have ok: "e = ACL_SUCCESS" "d = rep_ptr r" "d \<noteq> 0"
    and s': "s' = set_record i ((records (registry s2) ! i)\<lparr>ta_references := ta_references (records (registry s2) ! i) + 1\<rparr>)
       (set_handle k \<lparr>th_descriptor = d, th_allocation = Some i\<rparr> s2)"
    using assms by (auto simp: publish_object_def Let_def k 1 2 split: if_splits prod.splits)
  obtain w r2 where "s2 = s1\<lparr>world := (w, (Memory (AclrtMemcpy_from_local d 96 (descriptor_image (f d))), r2) # history s1)\<rparr>"
      "rep_status r2 = e"
    using call_status_logged[OF 2] ok(2) by auto
  then show ?thesis
    using call_frame[OF 1] ok k by (auto simp: s' set_record_def set_handle_def)
qed

lemma create_success:
  assumes "cudaCreateTextureObject (logged acl) out res tex view s = ((ACL_SUCCESS, Some token), s')"
  obtains device ctx t r i w h p c s1 s2 kind where
    "registry s1 = registry s" "resolve_resource device ctx t r s1 = ((ACL_SUCCESS, Some i, w, h, p, c), s2)"
    "publish_object (logged acl) i (make_descriptor (records (registry s2) ! i) w h p t kind) s2 = ((ACL_SUCCESS, token), s')"
proof -
  obtain o0 r t where args: "out = Some o0" "res = Some r" "tex = Some t"
    using assms by (auto simp: cudaCreateTextureObject_def split: option.splits)
  obtain e1 device ctx s1 where 1: "textureCurrent (logged acl) s = ((e1, device, ctx), s1)"
    by (metis prod.collapse)
  obtain e2 i w h p c s2 where 2: "resolve_resource device ctx t (rd_res r) s1 = ((e2, i, w, h, p, c), s2)"
    by (metis prod.collapse)
  note a = assms[unfolded cudaCreateTextureObject_def args Let_def]
  have e: "e1 = ACL_SUCCESS" "e2 = ACL_SUCCESS"
    using a by (auto simp: 1 2 split: if_splits)
  obtain k where k: "i = Some k"
    using a by (auto simp: 1 2 e split: if_splits option.splits)
  obtain kind where kind: "sample_kind_of (records (registry s2) ! k) c t = Some kind"
    using a by (auto simp: 1 2 e k split: if_splits option.splits)
  have "publish_object (logged acl) k (make_descriptor (records (registry s2) ! k) w h p t kind) s2 = ((ACL_SUCCESS, token), s')"
    using a by (auto simp: 1 2 e k kind split: if_splits prod.splits)
  then show ?thesis
    using that[OF current_frame[OF 1]] 2 e k by blast
qed

lemma image_reads:
  assumes "view_in a w h p" and "holds_image (gm q) token (descriptor_image (make_descriptor a w h p t kind token))"
    and "run_sampler c token q = Some q'"
  shows "\<exists>as. texel_reads q' = texel_reads q @ as \<and> (\<forall>x \<in> set as. in_array a x 4)"
  using sampler_safe[of c token q] assms(3) view_texel[OF assms(1), of t kind token]
  by (auto simp: read_image[OF assms(2)] reads_texels_def)

text \<open>C3 (safety). From host to kernel: when a program makes a texture object, the last call
  writes the image of a descriptor at the token; a kernel that finds this image there and calls
  any sampler with any arguments reads only whole texels inside the storage of the allocation
  that the object holds a reference to.\<close>
theorem texture_reads_in_bounds:
  assumes "texture_program a (logged acl) w s"
    and "cudaCreateTextureObject (logged acl) out res tex view s = ((ACL_SUCCESS, Some token), s')"
  shows "\<exists>i k ws r. live (registry s') k \<and> handles (registry s') ! k = \<lparr>th_descriptor = token, th_allocation = Some i\<rparr>
    \<and> hd (history s') = (Memory (AclrtMemcpy_from_local token 96 ws), r) \<and> rep_status r = ACL_SUCCESS
    \<and> (\<forall>c q q'. holds_image (gm q) token ws \<and> run_sampler c token q = Some q' \<longrightarrow>
         (\<exists>as. texel_reads q' = texel_reads q @ as \<and> (\<forall>x \<in> set as. in_array (records (registry s') ! i) x 4)))"
proof -
  obtain device ctx t r i w h p c s1 s2 kind where c: "registry s1 = registry s"
      "resolve_resource device ctx t r s1 = ((ACL_SUCCESS, Some i, w, h, p, c), s2)"
      "publish_object (logged acl) i (make_descriptor (records (registry s2) ! i) w h p t kind) s2 = ((ACL_SUCCESS, token), s')"
    by (rule create_success[OF assms(2)])
  have inv: "registry_inv (registry s1)"
    using texture_program_inv[OF assms(1)] c(1) by simp
  have i: "i < 128" and inv2: "registry_inv (registry s2)"
    using resolve_steps[OF c(2) inv, of True] registry_steps_inv[OF _ inv] by auto
  note view = resolve_view[OF c(2) inv]
  obtain k r where k: "find_index (\<lambda>h. th_descriptor h = 0) (handles (registry s2)) = Some k" "token \<noteq> 0"
      "hd (history s') = (Memory (AclrtMemcpy_from_local token 96
         (descriptor_image (make_descriptor (records (registry s2) ! i) w h p t kind token))), r)" "rep_status r = ACL_SUCCESS"
      "handles (registry s') = (handles (registry s2))[k := \<lparr>th_descriptor = token, th_allocation = Some i\<rparr>]"
      "records (registry s') = (records (registry s2))[i := (records (registry s2) ! i)
         \<lparr>ta_references := ta_references (records (registry s2) ! i) + 1\<rparr>]"
    using publish_success[OF c(3)] by blast
  have len: "k < length (handles (registry s2))" "i < length (records (registry s2))"
    using find_index_Some[OF k(1)] i inv2 by (simp_all add: registry_inv_def)
  show ?thesis
    using image_reads[OF view] k(2-6) len by (intro exI[of _ i] exI[of _ k]) (auto simp: live_def)
qed


text \<open>An array of the demonstration, before its object is made, and a kernel's memory that holds
  the image.\<close>

definition demo_array :: "(unit \<times> acl_log) trt" where
  "demo_array = texture_exec (logged willing_acl) (Malloc_array (Some None) (Some float_channel) 16 8 0) (initial_trt ((), []))"

definition demo_creation :: "(aclError \<times> u64 option) \<times> (unit \<times> acl_log) trt" where
  "demo_creation = cudaCreateTextureObject (logged willing_acl) (Some 0)
     (Some \<lparr>rd_res = Resource_Array (Some 0), rd_flags = 0\<rparr>) (Some plain_texture) False demo_array"

definition demo_image :: "u32 list" where
  "demo_image = [4096, 0, 64, 0, 512, 0, 16, 8, 1, 0, 0, 0, TextureFilterPoint, 0, TextureSampleFloat,
     TextureDescriptorVersion, 4168, 0, 0, 0, 0, 0, 0, 0]"

lemma demo_image_written: "fst (hd (history (snd demo_creation))) = Memory (AclrtMemcpy_from_local 4096 96 demo_image)"
  by code_simp

definition demo_sampler :: sampler where
  "demo_sampler = \<lparr>gm = (\<lambda>x. let k = unat (x - 4096) div 4 in if k < 24 then demo_image ! k else 0), texel_reads = []\<rparr>"

lemma texture_reads_in_bounds_witness:
  "\<exists>q'. run_sampler (Sample_float False (Fin False (7 / 2)) (Fin False (5 / 2)) 0 False) 4096 demo_sampler = Some q'
    \<and> texel_reads q' = [4096 + 2 * 64 + 3 * 4]
    \<and> in_array (records (registry (snd demo_creation)) ! 0) (4096 + 2 * 64 + 3 * 4) 4"
proof -
  let ?c = "Sample_float False (Fin False (7 / 2)) (Fin False (5 / 2)) 0 False"
  have p: "texture_program False (logged willing_acl) ((), []) demo_array"
    unfolding demo_array_def by (metis begins calls trt_exec.simps(2))
  have "fst demo_creation = (ACL_SUCCESS, Some 4096)"
    by code_simp
  then have "cudaCreateTextureObject (logged willing_acl) (Some 0) (Some \<lparr>rd_res = Resource_Array (Some 0), rd_flags = 0\<rparr>)
      (Some plain_texture) False demo_array = ((ACL_SUCCESS, Some 4096), snd demo_creation)"
    by (simp add: demo_creation_def prod_eq_iff)
  from texture_reads_in_bounds[OF p this] obtain i k ws r where
    made: "live (registry (snd demo_creation)) k" "th_allocation (handles (registry (snd demo_creation)) ! k) = Some i"
      "fst (hd (history (snd demo_creation))) = Memory (AclrtMemcpy_from_local 4096 96 ws)"
    and reads: "\<And>c q q'. holds_image (gm q) 4096 ws \<Longrightarrow> run_sampler c 4096 q = Some q' \<Longrightarrow>
         \<exists>as. texel_reads q' = texel_reads q @ as \<and> (\<forall>x \<in> set as. in_array (records (registry (snd demo_creation)) ! i) x 4)"
    by (metis fst_conv TextureHandle.select_convs(2))
  have "list_all (\<lambda>h. th_descriptor h \<noteq> 0 \<longrightarrow> th_allocation h = Some 0) (handles (registry (snd demo_creation)))"
    by code_simp
  then have i: "i = 0"
    using made(1,2) by (auto simp: live_def list_all_length)
  have "unat (of_nat (4 * n) :: u64) = 4 * n" if "n < 24" for n
    using that by (simp add: unat_of_nat take_bit_nat_eq_self del: of_nat_mult)
  then have "holds_image (gm demo_sampler) 4096 demo_image"
    by (simp add: holds_image_def demo_sampler_def demo_image_def Let_def)
  then have image: "holds_image (gm demo_sampler) 4096 ws"
    using made(3) by (simp add: demo_image_written)
  have d: "read_descriptor (gm demo_sampler) 4096 = \<lparr>ds_data = 4096, ds_pitch_bytes = 64, ds_layer_bytes = 512,
      ds_width = 16, ds_height = 8, ds_layers = 1, ds_normalized = 0, ds_wrap_x = 0, ds_wrap_y = 0,
      ds_linear = TextureFilterPoint, ds_layered = 0, ds_unsigned_element = TextureSampleFloat,
      ds_abi_version = TextureDescriptorVersion, ds_error = 4168\<rparr>"
    by (simp add: read_descriptor_def demo_sampler_def demo_image_def join_words_def Let_def)
  have f: "\<lfloor>7 / 2 :: rat\<rfloor> = 3" "\<lfloor>5 / 2 :: rat\<rfloor> = 2"
    by (rule floor_unique; simp)+
  have "fp_of_int 16 = Fin False 16" "fp_of_int 8 = Fin False 8" "gm demo_sampler 4236 = 0" "fp_of_bits 0 = Fin False 0"
    using fp_of_int_small[of 16] fp_of_int_small[of 8]
    by (simp_all add: demo_sampler_def Let_def fp_of_bits_def)
  then have "map_option texel_reads (run_sampler ?c 4096 demo_sampler) = Some [4096 + 2 * 64 + 3 * 4]"
    by (simp add: textureSampleFloat_def textureSamplingHeader_def TextureFilterPoint_def TextureAddressMirror_def Let_def d f
        textureSampleCoordinates_def textureCoordinate_def fp_zero_def fp_le_def fp_to_int_def textureLoadFloat_def
        load_word_def texel_address_def address_x_def address_y_def textureAddressIndex_def, simp add: demo_sampler_def)
  then obtain q' where q': "run_sampler ?c 4096 demo_sampler = Some q'" "texel_reads q' = [4096 + 2 * 64 + 3 * 4]"
    unfolding map_option_eq_Some by (elim exE conjE)
  have "in_array (records (registry (snd demo_creation)) ! 0) (4096 + 2 * 64 + 3 * 4) 4"
    using reads[OF image q'(1)] i q'(2) by (simp add: demo_sampler_def)
  then show ?thesis
    using q' by blast
qed

text \<open>A descriptor whose width is zero, as the release of its allocation leaves it,
  is dead: whatever sampler a kernel calls, it reads no texel, and the only word it writes is the
  sticky flag of the object, whose bit 0 it sets.\<close>
theorem dead_descriptor:
  assumes "gm q (token + 24) = 0"
  shows "\<exists>q'. run_sampler c token q = Some q' \<and> texel_reads q' = texel_reads q
    \<and> gm q' = (let e = ds_error (read_descriptor (gm q) token) in (gm q)(e := gm q e OR 1))"
proof -
  have "ds_width (read_descriptor (gm q) token) = 0"
    using assms by (simp add: read_descriptor_def)
  then show ?thesis
    by (cases c) (simp_all add: textureSampleFloat_def textureSampleUnsigned_def textureSampleRGBAElement_def
        textureSampleRGBANormalized_def textureSampleCubeFloat_def textureSamplingHeader_def cube_admitted_def
        textureSamplingReject_def textureRejectRGBA_def Let_def)
qed

lemma dead_descriptor_witness:
  "\<exists>q'. run_sampler (Sample_cube fp_one fp_zero fp_zero) 64 \<lparr>gm = (\<lambda>_. 0), texel_reads = []\<rparr> = Some q'
    \<and> texel_reads q' = [] \<and> gm q' 0 = 1"
  using dead_descriptor[of "\<lparr>gm = (\<lambda>_. 0), texel_reads = []\<rparr>" 64 "Sample_cube fp_one fp_zero fp_zero"]
  by (fastforce simp: read_descriptor_def join_words_def Let_def)

end
