(* ===== verification/Device_Queries.thy ===== *)
theory Device_Queries
  imports Cuda_Api "HOL-Library.Signed_Division"
begin

text \<open>
  Queries of the device in \<open>include/ascify/ascify_cuda_compat.hpp\<close>: attributes and properties,
  the selection of the sample helpers, the tables of cores per multiprocessor and the occupancy
  estimates.  An \<open>int64_t\<close> that ACL writes is read from its reply at that width; an out
  parameter is an option, None for a null pointer, whose new content is returned.
\<close>

definition INT_MAX :: int where "INT_MAX = 2 ^ 31 - 1"

text \<open>The \<open>int64_t\<close> out value of a reply, and the conversion to \<open>int\<close>.\<close>

definition rep_long :: "acl_reply \<Rightarrow> int" where
  "rep_long r = sint (word_of_int (rep_int r) :: u64)"

definition to_int32 :: "int \<Rightarrow> int" where
  "to_int32 v = sint (word_of_int v :: u32)"

definition device_info :: "'w acl \<Rightarrow> int \<Rightarrow> int \<Rightarrow> ('w, 'z) rt_scheme \<Rightarrow> (aclError \<times> int) \<times> ('w, 'z) rt_scheme" where
  "device_info acl device attribute s =
     (let (r, s) = call acl (Device (AclrtGetDeviceInfo device attribute)) s in ((rep_status r, rep_long r), s))"

section \<open>Cores per multiprocessor\<close>

type_synonym core_table = "(int \<times> int) list"

(* Source: src/include/ascify/ascify_cuda_compat.hpp 1525-1550 nGpuArchCoresPerSM (13.0) *)
definition cores_V130 :: core_table where
  "cores_V130 =
     [(0x30, 192), (0x32, 192), (0x35, 192), (0x37, 192), (0x50, 128), (0x52, 128), (0x53, 128), (0x60, 64),
      (0x61, 128), (0x62, 128), (0x70, 64), (0x72, 64), (0x75, 64), (0x80, 64), (0x86, 128), (0x87, 128),
      (0x89, 128), (0x90, 128), (0xa0, 128), (0xa1, 128), (0xa3, 128), (0xb0, 128), (0xc0, 128), (0xc1, 128),
      (-1, -1)]"

(* Source: src/include/ascify/ascify_cuda_compat.hpp 1580-1606 nGpuArchCoresPerSM (13.4) *)
definition cores_V134 :: core_table where
  "cores_V134 =
     [(0x30, 192), (0x32, 192), (0x35, 192), (0x37, 192), (0x50, 128), (0x52, 128), (0x53, 128), (0x60, 64),
      (0x61, 128), (0x62, 128), (0x70, 64), (0x72, 64), (0x75, 64), (0x80, 64), (0x86, 128), (0x87, 128),
      (0x89, 128), (0x90, 128), (0xa0, 128), (0xa1, 128), (0xa3, 128), (0xa7, 128), (0xb0, 128), (0xc0, 128),
      (0xc1, 128), (-1, -1)]"

text \<open>The loop over a table; the result says whether the fallback message is printed.\<close>

fun cores_loop :: "core_table \<Rightarrow> nat \<Rightarrow> int \<Rightarrow> nat \<Rightarrow> int \<times> bool" where
  "cores_loop table 0 sm index = (snd (table ! (index - 1)), True)"
| "cores_loop table (Suc fuel) sm index =
     (if fst (table ! index) = -1 then (snd (table ! (index - 1)), True)
      else if fst (table ! index) = sm then (snd (table ! index), False)
      else cores_loop table fuel sm (index + 1))"

(* Source: src/include/ascify/ascify_cuda_compat.hpp 1516-1569 sampleSMVersionToCoresV130 *)
definition sampleSMVersionToCoresV130 :: "int \<Rightarrow> int \<Rightarrow> int \<times> bool" where
  "sampleSMVersionToCoresV130 major minor = cores_loop cores_V130 (length cores_V130) (push_bit 4 major + minor) 0"

(* Source: src/include/ascify/ascify_cuda_compat.hpp 1571-1625 sampleSMVersionToCoresV134 *)
definition sampleSMVersionToCoresV134 :: "int \<Rightarrow> int \<Rightarrow> int \<times> bool" where
  "sampleSMVersionToCoresV134 major minor = cores_loop cores_V134 (length cores_V134) (push_bit 4 major + minor) 0"

section \<open>Selection of the device\<close>

definition fold_case :: "char \<Rightarrow> char" where
  "fold_case c = (let n = of_char c :: nat in if 65 \<le> n \<and> n \<le> 90 then char_of (n + 32) else c)"

text \<open>The text after a prefix that agrees up to the case of letters.\<close>

fun after_folded :: "string \<Rightarrow> string \<Rightarrow> string option" where
  "after_folded [] text = Some text"
| "after_folded (e # es) [] = None"
| "after_folded (e # es) (c # cs) = (if fold_case c \<noteq> e then None else after_folded es cs)"

(* Source: src/include/ascify/ascify_cuda_compat.hpp 1647-1662 sampleFindCudaDeviceArgumentIsSelector *)
definition sampleFindCudaDeviceArgumentIsSelector :: "string \<Rightarrow> bool" where
  "sampleFindCudaDeviceArgumentIsSelector argument =
     (case after_folded ''device'' (dropWhile (\<lambda>c. c = CHR ''-'') argument) of
        None \<Rightarrow> False
      | Some suffix \<Rightarrow> suffix = [] \<or> hd suffix = CHR ''='')"

(* Source: src/include/ascify/ascify_cuda_compat.hpp 1664-1672 sampleFindCudaDeviceArgumentIsExactZero *)
definition sampleFindCudaDeviceArgumentIsExactZero :: "string \<Rightarrow> bool" where
  "sampleFindCudaDeviceArgumentIsExactZero argument \<longleftrightarrow> argument = ''--device=0''"

text \<open>What makes the selection end the program.\<close>

datatype find_failure =
    Invalid_arguments | Null_argument | Selector_not_supported | Count_failed aclError | Not_one_device
  | Binding_failed aclError

text \<open>The arguments after the first; a null pointer is None.\<close>

fun scan_selectors :: "string option list \<Rightarrow> bool \<Rightarrow> find_failure option" where
  "scan_selectors [] explicit_zero = None"
| "scan_selectors (None # rest) explicit_zero = Some Null_argument"
| "scan_selectors (Some argument # rest) explicit_zero =
     (if \<not> sampleFindCudaDeviceArgumentIsSelector argument then scan_selectors rest explicit_zero
      else if \<not> sampleFindCudaDeviceArgumentIsExactZero argument \<or> explicit_zero then Some Selector_not_supported
      else scan_selectors rest True)"

(* Source: src/include/ascify/ascify_cuda_compat.hpp 1633-1645 sampleFindCudaDeviceFailure *)
definition sampleFindCudaDeviceFailure ::
    "'w acl \<Rightarrow> find_failure \<Rightarrow> ('w, 'z) rt_scheme \<Rightarrow> (find_failure + int) \<times> ('w, 'z) rt_scheme" where
  "sampleFindCudaDeviceFailure acl reason s =
     (Inl reason,
      case reason of
        Count_failed status \<Rightarrow> snd (cudaGetErrorString acl status s)
      | Binding_failed status \<Rightarrow> snd (cudaGetErrorString acl status s)
      | _ \<Rightarrow> s)"

(* Source: src/include/ascify/ascify_cuda_compat.hpp 1676-1717 sampleFindCudaDevice *)
definition sampleFindCudaDevice ::
    "'w acl \<Rightarrow> int \<Rightarrow> string option list option \<Rightarrow> ('w, 'z) rt_scheme \<Rightarrow> (find_failure + int) \<times> ('w, 'z) rt_scheme" where
  "sampleFindCudaDevice acl argc argv s =
     (if argc < 0 \<or> (argc > 0 \<and> argv = None) then sampleFindCudaDeviceFailure acl Invalid_arguments s
      else case scan_selectors (drop 1 (take (nat argc) (case argv of None \<Rightarrow> [] | Some a \<Rightarrow> a))) False of
        Some reason \<Rightarrow> sampleFindCudaDeviceFailure acl reason s
      | None \<Rightarrow>
          let ((count_status, count), s) = cudaGetDeviceCount acl (Some 0) s in
          if count_status \<noteq> ACL_SUCCESS then sampleFindCudaDeviceFailure acl (Count_failed count_status) s
          else if count \<noteq> Some 1 then sampleFindCudaDeviceFailure acl Not_one_device s
          else
            let (bind_status, s) = cudaSetDevice acl 0 s in
            if bind_status \<noteq> ACL_SUCCESS then sampleFindCudaDeviceFailure acl (Binding_failed bind_status) s
            else (Inr 0, s))"

section \<open>Attributes and properties\<close>

(* Source: src/include/ascify/ascify_cuda_compat.hpp 1736-1742 cudaDeviceGetAttribute (SM) *)
definition cudaDeviceGetAttribute_sm :: "int option \<Rightarrow> int \<Rightarrow> aclError \<times> int option" where
  "cudaDeviceGetAttribute_sm out device =
     (if out = None \<or> device < 0 then (ACL_ERROR_RT_PARAM_INVALID, out) else (ACL_ERROR_FEATURE_UNSUPPORTED, out))"

(* Source: src/include/ascify/ascify_cuda_compat.hpp 1744-1757 cudaDeviceGetAttribute *)
definition cudaDeviceGetAttribute ::
    "'w acl \<Rightarrow> int option \<Rightarrow> int \<Rightarrow> int \<Rightarrow> ('w, 'z) rt_scheme \<Rightarrow> (aclError \<times> int option) \<times> ('w, 'z) rt_scheme" where
  "cudaDeviceGetAttribute acl out attribute device s =
     (if out = None \<or> device < 0 then ((ACL_ERROR_RT_PARAM_INVALID, out), s)
      else
        let (initialized, s) = ensureInitialized acl s in
        if initialized \<noteq> ACL_SUCCESS
        then let (status, s) = rememberLifecycleError initialized s in ((status, out), s)
        else
          let ((status, raw_value), s) = device_info acl device attribute s in
          ((status, if status = ACL_SUCCESS then Some (to_int32 raw_value) else out), s))"

(* Source: src/include/ascify/ascify_cuda_compat.hpp 1762-1779 cudaDeviceProp *)
record cudaDeviceProp =
  dp_name :: string
  dp_multiProcessorCount :: int
  dp_major :: int
  dp_minor :: int
  dp_warpSize :: int
  dp_maxThreadsPerMultiProcessor :: int
  dp_totalGlobalMem :: u64
  dp_maxThreadsPerBlock :: int
  dp_maxGridSize :: "int list"

fun query_limits ::
    "'w acl \<Rightarrow> int \<Rightarrow> int list \<Rightarrow> ('w, 'z) rt_scheme \<Rightarrow> (aclError \<times> int list) \<times> ('w, 'z) rt_scheme" where
  "query_limits acl device [] s = ((ACL_SUCCESS, []), s)"
| "query_limits acl device (a # as) s =
     (let ((status, raw), s) = device_info acl device a s in
      if status \<noteq> ACL_SUCCESS then ((status, []), s)
      else if raw \<le> 0 \<or> raw > INT_MAX then ((ACL_ERROR_FEATURE_UNSUPPORTED, []), s)
      else
        let ((status, rest), s) = query_limits acl device as s in ((status, raw # rest), s))"

(* Source: src/include/ascify/ascify_cuda_compat.hpp 1814-1850 cudaGetDeviceProperties (result) *)
definition make_properties :: "string \<Rightarrow> int \<Rightarrow> int \<Rightarrow> int list \<Rightarrow> cudaDeviceProp" where
  "make_properties soc_name cores memory limits =
     \<lparr>dp_name = take 255 soc_name, dp_multiProcessorCount = cores, dp_major = 7, dp_minor = 0,
      dp_warpSize = limits ! 4, dp_maxThreadsPerMultiProcessor = limits ! 5,
      dp_totalGlobalMem = word_of_int memory, dp_maxThreadsPerBlock = limits ! 0,
      dp_maxGridSize = [limits ! 1, limits ! 2, limits ! 3]\<rparr>"

(* Source: src/include/ascify/ascify_cuda_compat.hpp 1781-1852 cudaGetDeviceProperties *)
definition cudaGetDeviceProperties ::
    "'w acl \<Rightarrow> cudaDeviceProp option \<Rightarrow> int \<Rightarrow> ('w, 'z) rt_scheme
     \<Rightarrow> (aclError \<times> cudaDeviceProp option) \<times> ('w, 'z) rt_scheme" where
  "cudaGetDeviceProperties acl properties device s =
     (if properties = None \<or> device < 0 then ((ACL_ERROR_RT_PARAM_INVALID, properties), s)
      else
        let (initialized, s) = ensureInitialized acl s in
        if initialized \<noteq> ACL_SUCCESS
        then let (status, s) = rememberLifecycleError initialized s in ((status, properties), s)
        else if device \<noteq> 0 then ((ACL_ERROR_FEATURE_UNSUPPORTED, properties), s)
        else
          let ((status, cores), s) = device_info acl device 201 s in
          if status \<noteq> ACL_SUCCESS then ((status, properties), s)
          else if cores \<le> 0 \<or> cores > INT_MAX then ((ACL_ERROR_FEATURE_UNSUPPORTED, properties), s)
          else
            let ((status, memory), s) = device_info acl device 301 s in
            if status \<noteq> ACL_SUCCESS then ((status, properties), s)
            else if memory \<le> 0 then ((ACL_ERROR_FEATURE_UNSUPPORTED, properties), s)
            else
              let (r, s) = call acl (Device AclrtGetSocName) s in
              if rep_text r = None \<or> rep_text r = Some [] then ((ACL_ERROR_FEATURE_UNSUPPORTED, properties), s)
              else
                let ((status, limits), s) = query_limits acl device [209, 205, 206, 207, 202, 203] s in
                if status \<noteq> ACL_SUCCESS then ((status, properties), s)
                else ((ACL_SUCCESS, Some (make_properties (the (rep_text r)) cores memory limits)), s))"

end
