(* ===== verification/Occupancy.thy ===== *)
theory Occupancy
  imports Device_Queries
begin

text \<open>
  The occupancy estimates of \<open>include/ascify/ascify_cuda_compat.hpp\<close>: active blocks per vector
  core, the block size that saturates a core under a model of its buffer, and the launch bound of
  a kernel.  A kernel is its address; the buffer model is the caller's function with its state.
\<close>

section \<open>Active blocks\<close>

(* Source: src/include/ascify/ascify_cuda_compat.hpp 448-449 cudaDevAttrWarpSize *)
definition cudaDevAttrWarpSize :: int where "cudaDevAttrWarpSize = 202"

(* Source: src/include/ascify/ascify_cuda_compat.hpp 450-451 cudaDevAttrMaxThreadsPerVectorCore *)
definition cudaDevAttrMaxThreadsPerVectorCore :: int where "cudaDevAttrMaxThreadsPerVectorCore = 203"

(* Source: src/include/ascify/ascify_cuda_compat.hpp 452-453 cudaDevAttrLocalMemoryPerVectorCore *)
definition cudaDevAttrLocalMemoryPerVectorCore :: int where "cudaDevAttrLocalMemoryPerVectorCore = 204"

(* Source: src/include/ascify/ascify_cuda_compat.hpp 454-455 cudaDevAttrMaxThreadsPerBlock *)
definition cudaDevAttrMaxThreadsPerBlock :: int where "cudaDevAttrMaxThreadsPerBlock = 209"

lemmas device_attributes = cudaDevAttrWarpSize_def cudaDevAttrMaxThreadsPerVectorCore_def
  cudaDevAttrLocalMemoryPerVectorCore_def cudaDevAttrMaxThreadsPerBlock_def

(* Source: src/include/ascify/ascify_cuda_compat.hpp 1867-1903 cudaOccupancyMaxActiveBlocksPerMultiprocessor *)
definition cudaOccupancyMaxActiveBlocksPerMultiprocessor ::
    "'w acl \<Rightarrow> int option \<Rightarrow> int \<Rightarrow> u64 \<Rightarrow> ('w, 'z) rt_scheme \<Rightarrow> (aclError \<times> int option) \<times> ('w, 'z) rt_scheme" where
  "cudaOccupancyMaxActiveBlocksPerMultiprocessor acl active_blocks block_size dynamic_ub_bytes s =
     (if active_blocks = None \<or> block_size \<le> 0 then ((ACL_ERROR_RT_PARAM_INVALID, active_blocks), s)
      else
        let (ready, s) = ensureCurrentDevice acl s in
        if ready \<noteq> ACL_SUCCESS then ((ready, active_blocks), s)
        else
          let (r, s) = call acl (Lifecycle AclrtGetDevice) s; device = rep_int r in
          if rep_status r \<noteq> ACL_SUCCESS then ((rep_status r, active_blocks), s)
          else
            let ((status, max_threads), s) = device_info acl device cudaDevAttrMaxThreadsPerVectorCore s in
            if status \<noteq> ACL_SUCCESS then ((status, active_blocks), s)
            else
              let blocks = max_threads sdiv block_size;
                  ((status, blocks), s) =
                    (if dynamic_ub_bytes = 0 then ((ACL_SUCCESS, blocks), s)
                     else
                       let ((status, ub_bytes), s) = device_info acl device cudaDevAttrLocalMemoryPerVectorCore s;
                           ub_blocks = (if ub_bytes > 0 then ub_bytes sdiv sint dynamic_ub_bytes else 0)
                       in ((status, if ub_blocks < blocks then ub_blocks else blocks), s))
              in if status \<noteq> ACL_SUCCESS then ((status, active_blocks), s)
                 else
                   let blocks = (if blocks < 0 then 0 else blocks);
                       blocks = (if blocks > INT_MAX then INT_MAX else blocks)
                   in ((ACL_SUCCESS, Some blocks), s))"

section \<open>Block size\<close>

text \<open>The model of the buffer: given a block size and the buffer's default, it accepts and
  writes the bytes, in a state of its own.\<close>

type_synonym 'u ub_model = "'u \<Rightarrow> int \<Rightarrow> u64 \<Rightarrow> (bool \<times> u64) \<times> 'u"

datatype descent = Model_refused | Nothing_fits | Fits int

(* Source: src/include/ascify/ascify_cuda_compat.hpp 1955-1972 cudaOccupancyMaxPotentialBlockSizeEstimate (descent) *)
fun descend :: "'u ub_model option \<Rightarrow> u64 \<Rightarrow> int \<Rightarrow> int \<Rightarrow> nat \<Rightarrow> int \<Rightarrow> 'u \<Rightarrow> descent \<times> 'u" where
  "descend ub_model dynamic_ub ub_bytes warp 0 candidate u = (Nothing_fits, u)"
| "descend ub_model dynamic_ub ub_bytes warp (Suc steps) candidate u =
     (if candidate < warp then (Nothing_fits, u)
      else
        let ((admitted, ub), u) = (case ub_model of None \<Rightarrow> ((True, dynamic_ub), u) | Some m \<Rightarrow> m u candidate dynamic_ub) in
        if \<not> admitted then (Model_refused, u)
        else if ub = 0 \<or> (ub_bytes > 0 \<and> int (unat ub) \<le> ub_bytes) then (Fits candidate, u)
        else descend ub_model dynamic_ub ub_bytes warp steps (candidate - warp) u)"

(* Source: src/include/ascify/ascify_cuda_compat.hpp 1926-1942 cudaOccupancyMaxPotentialBlockSizeEstimate (queries) *)
fun query_all :: "'w acl \<Rightarrow> int \<Rightarrow> int list \<Rightarrow> ('w, 'z) rt_scheme \<Rightarrow> (aclError \<times> int list) \<times> ('w, 'z) rt_scheme" where
  "query_all acl device [] s = ((ACL_SUCCESS, []), s)"
| "query_all acl device (a # as) s =
     (let ((status, value), s) = device_info acl device a s in
      if status \<noteq> ACL_SUCCESS then ((status, []), s)
      else let ((status, rest), s) = query_all acl device as s in ((status, value # rest), s))"

text \<open>Warp size, threads and buffer of a core, threads of a block, cores, blocks of a grid.\<close>

(* Source: src/include/ascify/ascify_cuda_compat.hpp 1943-1947 cudaOccupancyMaxPotentialBlockSizeEstimate (limits) *)
definition limits_valid :: "int list \<Rightarrow> bool" where
  "limits_valid q \<longleftrightarrow>
     0 < q ! 0 \<and> q ! 0 \<le> INT_MAX \<and> 0 < q ! 1 \<and> q ! 1 \<le> INT_MAX \<and> 0 < q ! 3 \<and> q ! 3 \<le> INT_MAX
     \<and> 0 \<le> q ! 2 \<and> 0 < q ! 4 \<and> q ! 4 \<le> INT_MAX \<and> 0 < q ! 5 \<and> q ! 5 \<le> INT_MAX"

(* Source: src/include/ascify/ascify_cuda_compat.hpp 1948-1952 cudaOccupancyMaxPotentialBlockSizeEstimate (cap) *)
definition block_cap :: "int list \<Rightarrow> int \<Rightarrow> int" where
  "block_cap q block_size_limit =
     (let cap = (if block_size_limit > 0
                 then (if block_size_limit < q ! 3 then block_size_limit else q ! 3)
                 else q ! 3)
      in if cap > q ! 1 then q ! 1 else cap)"

(* Source: src/include/ascify/ascify_cuda_compat.hpp 1973-1976 cudaOccupancyMaxPotentialBlockSizeEstimate (grid) *)
definition grid_of :: "int list \<Rightarrow> int \<Rightarrow> int" where
  "grid_of q candidate =
     (let grid = (q ! 1 + candidate - 1) sdiv candidate;
          grid = (if q ! 4 > 0 then grid * q ! 4 else grid);
          grid = (if q ! 5 > 0 \<and> grid > q ! 5 then q ! 5 else grid)
      in if grid < 1 then 1 else grid)"

(* Source: src/include/ascify/ascify_cuda_compat.hpp 1915-1980 cudaOccupancyMaxPotentialBlockSizeEstimate *)
definition cudaOccupancyMaxPotentialBlockSizeEstimate ::
    "'w acl \<Rightarrow> int option \<Rightarrow> int option \<Rightarrow> int \<Rightarrow> u64 \<Rightarrow> 'u ub_model option \<Rightarrow> 'u \<Rightarrow> ('w, 'z) rt_scheme
     \<Rightarrow> (aclError \<times> int option \<times> int option) \<times> 'u \<times> ('w, 'z) rt_scheme" where
  "cudaOccupancyMaxPotentialBlockSizeEstimate acl min_grid_size block_size block_size_limit dynamic_ub ub_model u s =
     (let left = (min_grid_size, block_size) in
      if min_grid_size = None \<or> block_size = None \<or> block_size_limit < 0
      then ((ACL_ERROR_RT_PARAM_INVALID, left), u, s)
      else
        let (ready, s) = ensureCurrentDevice acl s in
        if ready \<noteq> ACL_SUCCESS then ((ready, left), u, s)
        else
          let (r, s) = call acl (Lifecycle AclrtGetDevice) s in
          if rep_status r \<noteq> ACL_SUCCESS then ((rep_status r, left), u, s)
          else
            let ((status, q), s) = query_all acl (rep_int r)
                  [cudaDevAttrWarpSize, cudaDevAttrMaxThreadsPerVectorCore, cudaDevAttrLocalMemoryPerVectorCore,
                   cudaDevAttrMaxThreadsPerBlock, 201, 208] s
            in if status \<noteq> ACL_SUCCESS then ((status, left), u, s)
               else if \<not> limits_valid q then ((ACL_ERROR_FEATURE_UNSUPPORTED, left), u, s)
               else
                 let warp = q ! 0; candidate = (block_cap q block_size_limit sdiv warp) * warp in
                 if candidate < warp then ((ACL_ERROR_FEATURE_UNSUPPORTED, left), u, s)
                 else
                   let (found, u) = descend ub_model dynamic_ub (q ! 2) warp 1024 candidate u in
                   (case found of
                      Model_refused \<Rightarrow> ((ACL_ERROR_RT_PARAM_INVALID, left), u, s)
                    | Nothing_fits \<Rightarrow> ((ACL_ERROR_FEATURE_UNSUPPORTED, left), u, s)
                    | Fits candidate \<Rightarrow> ((ACL_SUCCESS, Some (grid_of q candidate), Some candidate), u, s)))"

(* Source: src/include/ascify/ascify_cuda_compat.hpp 1982-1988 cudaOccupancyMaxPotentialBlockSize *)
definition cudaOccupancyMaxPotentialBlockSize ::
    "'w acl \<Rightarrow> int option \<Rightarrow> int option \<Rightarrow> u64 \<Rightarrow> int \<Rightarrow> ('w, 'z) rt_scheme
     \<Rightarrow> (aclError \<times> int option \<times> int option) \<times> ('w, 'z) rt_scheme" where
  "cudaOccupancyMaxPotentialBlockSize acl min_grid_size block_size dynamic_ub block_size_limit s =
     (let (r, _, s) = cudaOccupancyMaxPotentialBlockSizeEstimate acl min_grid_size block_size block_size_limit
                        dynamic_ub None () s
      in (r, s))"

text \<open>A function that gives the bytes of a block, as a model: it accepts every candidate.\<close>

(* Source: src/include/ascify/ascify_cuda_compat.hpp 1991-2000 PotentialBlockSizeUbModel::apply *)
definition function_model :: "('u \<Rightarrow> int \<Rightarrow> u64 \<times> 'u) \<Rightarrow> 'u ub_model" where
  "function_model f u candidate ub = (let (bytes, u) = f u candidate in ((True, bytes), u))"

(* Source: src/include/ascify/ascify_cuda_compat.hpp 2004-2010 cudaOccupancyMaxPotentialBlockSize (function) *)
definition cudaOccupancyMaxPotentialBlockSize_function ::
    "'w acl \<Rightarrow> int option \<Rightarrow> int option \<Rightarrow> ('u \<Rightarrow> int \<Rightarrow> u64 \<times> 'u) \<Rightarrow> int \<Rightarrow> 'u \<Rightarrow> ('w, 'z) rt_scheme
     \<Rightarrow> (aclError \<times> int option \<times> int option) \<times> 'u \<times> ('w, 'z) rt_scheme" where
  "cudaOccupancyMaxPotentialBlockSize_function acl min_grid_size block_size f block_size_limit u s =
     cudaOccupancyMaxPotentialBlockSizeEstimate acl min_grid_size block_size block_size_limit 0
       (Some (function_model f)) u s"

section \<open>Kernels with a launch bound\<close>

(* Source: src/include/ascify/ascify_cuda_compat.hpp 2016-2057 cudaOccupancyMaxActiveBlocksPerMultiprocessorMaxThreads *)
definition cudaOccupancyMaxActiveBlocksPerMultiprocessorMaxThreads ::
    "'w acl \<Rightarrow> nat \<Rightarrow> int option \<Rightarrow> ptr \<Rightarrow> int \<Rightarrow> u64 \<Rightarrow> ('w, 'z) rt_scheme
     \<Rightarrow> (aclError \<times> int option) \<times> ('w, 'z) rt_scheme" where
  "cudaOccupancyMaxActiveBlocksPerMultiprocessorMaxThreads acl MaxThreads active_blocks kernel_ptr block_size dynamic_ub s =
     (if active_blocks = None \<or> kernel_ptr = 0 \<or> block_size \<le> 0 then ((ACL_ERROR_RT_PARAM_INVALID, active_blocks), s)
      else if block_size > int MaxThreads then ((ACL_ERROR_FEATURE_UNSUPPORTED, active_blocks), s)
      else
        let (ready, s) = ensureCurrentDevice acl s in
        if ready \<noteq> ACL_SUCCESS then ((ready, active_blocks), s)
        else
          let (r, s) = call acl (Lifecycle AclrtGetDevice) s; device = rep_int r in
          if rep_status r \<noteq> ACL_SUCCESS then ((rep_status r, active_blocks), s)
          else if device < 0 then ((ACL_ERROR_FEATURE_UNSUPPORTED, active_blocks), s)
          else
            let ((status, device_limit), s) = device_info acl device cudaDevAttrMaxThreadsPerBlock s in
            if status \<noteq> ACL_SUCCESS then ((status, active_blocks), s)
            else
              let ((status, threads), s) = device_info acl device cudaDevAttrMaxThreadsPerVectorCore s in
              if status \<noteq> ACL_SUCCESS then ((status, active_blocks), s)
              else if device_limit \<le> 0 \<or> device_limit > INT_MAX \<or> threads \<le> 0 \<or> threads > INT_MAX
                      \<or> block_size > device_limit \<or> block_size > threads
              then ((ACL_ERROR_FEATURE_UNSUPPORTED, active_blocks), s)
              else
                let blocks = threads sdiv block_size in
                if dynamic_ub = 0 then ((ACL_SUCCESS, Some blocks), s)
                else
                  let ((status, ub_bytes), s) = device_info acl device cudaDevAttrLocalMemoryPerVectorCore s in
                  if status \<noteq> ACL_SUCCESS then ((status, active_blocks), s)
                  else if ub_bytes \<le> 0 \<or> int (unat dynamic_ub) > 2 ^ 63 - 1
                  then ((ACL_ERROR_FEATURE_UNSUPPORTED, active_blocks), s)
                  else
                    let ub_blocks = ub_bytes sdiv sint dynamic_ub
                    in ((ACL_SUCCESS, Some (if ub_blocks < blocks then ub_blocks else blocks)), s))"

(* Source: src/include/ascify/ascify_cuda_compat.hpp 2068-2069 cudaOccupancyMaxPotentialBlockSizeMaxThreads (limit) *)
definition launch_limit :: "nat \<Rightarrow> int \<Rightarrow> int" where
  "launch_limit MaxThreads block_size_limit =
     (if block_size_limit > 0 \<and> block_size_limit < int MaxThreads then block_size_limit else int MaxThreads)"

(* Source: src/include/ascify/ascify_cuda_compat.hpp 2059-2072 cudaOccupancyMaxPotentialBlockSizeMaxThreads *)
definition cudaOccupancyMaxPotentialBlockSizeMaxThreads ::
    "'w acl \<Rightarrow> nat \<Rightarrow> int option \<Rightarrow> int option \<Rightarrow> ptr \<Rightarrow> u64 \<Rightarrow> int \<Rightarrow> ('w, 'z) rt_scheme
     \<Rightarrow> (aclError \<times> int option \<times> int option) \<times> ('w, 'z) rt_scheme" where
  "cudaOccupancyMaxPotentialBlockSizeMaxThreads acl MaxThreads min_grid_size block_size kernel_ptr dynamic_ub block_size_limit s =
     (if kernel_ptr = 0 \<or> block_size_limit < 0 then ((ACL_ERROR_RT_PARAM_INVALID, min_grid_size, block_size), s)
      else
        let (r, _, s) = cudaOccupancyMaxPotentialBlockSizeEstimate acl min_grid_size block_size
                          (launch_limit MaxThreads block_size_limit) dynamic_ub None () s
        in (r, s))"

(* Source: src/include/ascify/ascify_cuda_compat.hpp 2076-2089 cudaOccupancyMaxPotentialBlockSizeMaxThreads (function) *)
definition cudaOccupancyMaxPotentialBlockSizeMaxThreads_function ::
    "'w acl \<Rightarrow> nat \<Rightarrow> int option \<Rightarrow> int option \<Rightarrow> ptr \<Rightarrow> ('u \<Rightarrow> int \<Rightarrow> u64 \<times> 'u) \<Rightarrow> int \<Rightarrow> 'u \<Rightarrow> ('w, 'z) rt_scheme
     \<Rightarrow> (aclError \<times> int option \<times> int option) \<times> 'u \<times> ('w, 'z) rt_scheme" where
  "cudaOccupancyMaxPotentialBlockSizeMaxThreads_function acl MaxThreads min_grid_size block_size kernel_ptr f block_size_limit u s =
     (if kernel_ptr = 0 \<or> block_size_limit < 0 then ((ACL_ERROR_RT_PARAM_INVALID, min_grid_size, block_size), u, s)
      else cudaOccupancyMaxPotentialBlockSizeEstimate acl min_grid_size block_size
             (launch_limit MaxThreads block_size_limit) 0 (Some (function_model f)) u s)"

(* Source: src/include/ascify/ascify_cuda_compat.hpp 431-435 cudaFuncAttributes *)
record cudaFuncAttributes =
  fa_sharedSizeBytes :: u64
  fa_maxThreadsPerBlock :: int

(* Source: src/include/ascify/ascify_cuda_compat.hpp 2094-2099 cudaFuncGetAttributes *)
definition cudaFuncGetAttributes :: "cudaFuncAttributes option \<Rightarrow> aclError \<times> cudaFuncAttributes option" where
  "cudaFuncGetAttributes attributes =
     (case attributes of
        None \<Rightarrow> (ACL_ERROR_RT_PARAM_INVALID, None)
      | Some a \<Rightarrow> (ACL_SUCCESS, Some (a\<lparr>fa_sharedSizeBytes := 0\<rparr>)))"

(* Source: src/include/ascify/ascify_cuda_compat.hpp 2106-2135 cudaFuncGetAttributesMaxThreads *)
definition cudaFuncGetAttributesMaxThreads ::
    "bool \<Rightarrow> 'w acl \<Rightarrow> nat \<Rightarrow> cudaFuncAttributes option \<Rightarrow> ptr \<Rightarrow> ('w, 'z) rt_scheme
     \<Rightarrow> (aclError \<times> cudaFuncAttributes option) \<times> ('w, 'z) rt_scheme" where
  "cudaFuncGetAttributesMaxThreads legacy acl MaxThreads attributes kernel_ptr s =
     (case attributes of
        None \<Rightarrow> ((ACL_ERROR_RT_PARAM_INVALID, attributes), s)
      | Some a \<Rightarrow>
          if kernel_ptr = 0 then ((ACL_ERROR_RT_PARAM_INVALID, attributes), s)
          else if \<not> legacy then ((ACL_ERROR_FEATURE_UNSUPPORTED, attributes), s)
          else
            let (ready, s) = ensureCurrentDevice acl s in
            if ready \<noteq> ACL_SUCCESS then ((ready, attributes), s)
            else
              let (r, s) = call acl (Lifecycle AclrtGetDevice) s; device = rep_int r in
              if rep_status r \<noteq> ACL_SUCCESS then ((rep_status r, attributes), s)
              else if device < 0 then ((ACL_ERROR_FEATURE_UNSUPPORTED, attributes), s)
              else
                let ((status, device_limit), s) = device_info acl device cudaDevAttrMaxThreadsPerBlock s in
                if status \<noteq> ACL_SUCCESS then ((status, attributes), s)
                else if device_limit \<le> 0 \<or> device_limit > INT_MAX then ((ACL_ERROR_FEATURE_UNSUPPORTED, attributes), s)
                else ((ACL_SUCCESS, Some (a\<lparr>fa_maxThreadsPerBlock :=
                        if device_limit < int MaxThreads then device_limit else int MaxThreads\<rparr>)), s))"

end
