(* ===== verification/Query_Properties.thy ===== *)
theory Query_Properties
  imports Occupancy
begin

text \<open>
  What the queries of the device promise: the two tables of cores, the selection of the device,
  all-or-nothing properties, and occupancy estimates that fit the device and are the best in
  their order of search.
\<close>

section \<open>Cores per multiprocessor\<close>

text \<open>A table ends in its only entry -1, and the loop is a lookup that stops there.\<close>

lemma cores_lookup:
  assumes "table = pre @ rest @ [(-1, e)]" and "\<forall>(k, c) \<in> set (pre @ rest). k \<noteq> -1"
    and "pre @ rest \<noteq> []" and "length rest < fuel"
  shows "cores_loop table fuel sm (length pre) =
    (case map_of rest sm of Some c \<Rightarrow> (c, False) | None \<Rightarrow> (snd (last (pre @ rest)), True))"
  using assms
proof (induction rest arbitrary: pre fuel)
  case Nil
  then obtain f where "fuel = Suc f" "pre \<noteq> []"
    by (cases fuel) auto
  then show ?case
    using Nil.prems(1) by (simp add: nth_append last_conv_nth)
next
  case (Cons kc rest)
  obtain f where f: "fuel = Suc f"
    using Cons.prems(4) by (cases fuel) auto
  obtain k c where kc: "kc = (k, c)"
    by (cases kc)
  have "cores_loop table f sm (length (pre @ [kc])) =
      (case map_of rest sm of Some c \<Rightarrow> (c, False) | None \<Rightarrow> (snd (last ((pre @ [kc]) @ rest)), True))"
    by (rule Cons.IH) (use Cons.prems f in simp_all)
  then show ?case
    using Cons.prems(1,2) by (auto simp: f kc nth_append split: option.splits)
qed

lemma cores_of_table:
  assumes "\<forall>(k, c) \<in> set rest. k \<noteq> -1" and "rest \<noteq> []"
  shows "cores_loop (rest @ [(-1, e)]) (Suc (length rest)) sm 0 =
    (case map_of rest sm of Some c \<Rightarrow> (c, False) | None \<Rightarrow> (snd (last rest), True))"
  using cores_lookup[of "rest @ [(-1, e)]" "[]" rest e "Suc (length rest)" sm] assms
  by (simp split: option.splits)

lemma cores_split:
  "cores_V130 = butlast cores_V130 @ [(-1, -1)]" "cores_V134 = butlast cores_V134 @ [(-1, -1)]"
  by (simp_all add: cores_V130_def cores_V134_def)

text \<open>Both helper versions are lookups of \<open>16 * major + minor\<close> in their
  table: the loop always ends at the sentinel, so it reads no entry outside the table; an unknown
  version gives the 128 cores of the last entry with the message.  The versions differ only for
  10.7, which is an entry of 13.4 and gives the same count under 13.0 with the message.\<close>
theorem core_tables_agree:
  "sampleSMVersionToCoresV134 major minor =
     (case map_of (butlast cores_V134) (16 * major + minor) of Some c \<Rightarrow> (c, False) | None \<Rightarrow> (128, True))
   \<and> sampleSMVersionToCoresV130 major minor =
     (if 16 * major + minor = 0xa7 then (128, True) else sampleSMVersionToCoresV134 major minor)"
proof -
  have V134: "sampleSMVersionToCoresV134 major minor =
     (case map_of (butlast cores_V134) (16 * major + minor) of Some c \<Rightarrow> (c, False) | None \<Rightarrow> (128, True))"
    using cores_of_table[of "butlast cores_V134" "-1" "16 * major + minor", folded cores_split(2)]
    by (simp add: sampleSMVersionToCoresV134_def push_bit_eq_mult cores_V134_def mult.commute)
  have V130: "sampleSMVersionToCoresV130 major minor =
     (case map_of (butlast cores_V130) (16 * major + minor) of Some c \<Rightarrow> (c, False) | None \<Rightarrow> (128, True))"
    using cores_of_table[of "butlast cores_V130" "-1" "16 * major + minor", folded cores_split(1)]
    by (simp add: sampleSMVersionToCoresV130_def push_bit_eq_mult cores_V130_def mult.commute)
  show ?thesis
    unfolding V134 V130 by (simp add: cores_V130_def cores_V134_def)
qed

section \<open>Selection of the device\<close>

lemma scan_result:
  "scan_selectors args zero = None \<longleftrightarrow>
     None \<notin> set args
     \<and> filter sampleFindCudaDeviceArgumentIsSelector (map the args) \<in> (if zero then {[]} else {[], [''--device=0'']})"
  by (induction args zero rule: scan_selectors.induct) (auto simp: sampleFindCudaDeviceArgumentIsExactZero_def)

lemma scan_reason: "scan_selectors args zero = Some reason \<Longrightarrow> reason = Null_argument \<or> reason = Selector_not_supported"
  by (induction args zero rule: scan_selectors.induct) (auto split: if_splits)

text \<open>The sample selection returns only device 0, and only for arguments that
  select nothing or say \<open>--device=0\<close> exactly once (any other spelling, prefix or repetition of
  a device selector ends the program before the runtime is touched) and a runtime that reports
  exactly one device.\<close>
theorem find_device_contract:
  assumes "sampleFindCudaDevice acl argc (Some args) s = (r, s')" and "0 \<le> argc"
  shows "(\<forall>d. r = Inr d \<longrightarrow> d = 0
            \<and> None \<notin> set (drop 1 (take (nat argc) args))
            \<and> filter sampleFindCudaDeviceArgumentIsSelector (map the (drop 1 (take (nat argc) args)))
                 \<in> {[], [''--device=0'']}
            \<and> fst (cudaGetDeviceCount acl (Some 0) s) = (ACL_SUCCESS, Some 1)
            \<and> (ACL_SUCCESS, s') = cudaSetDevice acl 0 (snd (cudaGetDeviceCount acl (Some 0) s)))
    \<and> (r = Inl Selector_not_supported \<or> r = Inl Null_argument \<longrightarrow> s' = s)"
proof (cases "scan_selectors (drop 1 (take (nat argc) args)) False")
  case None
  obtain status count s1 where c: "cudaGetDeviceCount acl (Some 0) s = ((status, count), s1)"
    by (metis surj_pair)
  obtain bind s2 where b: "cudaSetDevice acl 0 s1 = (bind, s2)"
    by (metis surj_pair)
  show ?thesis
    using assms None scan_result[of "drop 1 (take (nat argc) args)" False]
    by (auto simp: sampleFindCudaDevice_def c b sampleFindCudaDeviceFailure_def split: if_splits)
next
  case (Some reason)
  then show ?thesis
    using assms scan_reason[OF Some]
    by (auto simp: sampleFindCudaDevice_def sampleFindCudaDeviceFailure_def)
qed

section \<open>Occupancy\<close>

lemma sdiv_nonneg: "0 \<le> a \<Longrightarrow> 0 < b \<Longrightarrow> a sdiv b = a div (b :: int)"
  by (auto simp: signed_divide_int_def sgn_if)

text \<open>A model of the buffer that has no state and refuses nothing, given by its bytes.\<close>

definition pure_model :: "'u ub_model option \<Rightarrow> u64 \<Rightarrow> (int \<Rightarrow> u64) \<Rightarrow> bool" where
  "pure_model model d f \<longleftrightarrow>
     (\<forall>u c. (case model of None \<Rightarrow> ((True, d), u) | Some m \<Rightarrow> m u c d) = ((True, f c), u))"

lemma pure_models: "pure_model None d (\<lambda>_. d)" "pure_model (Some (function_model (\<lambda>u c. (f c, u)))) d f"
  by (simp_all add: pure_model_def function_model_def)

definition fits :: "int \<Rightarrow> u64 \<Rightarrow> bool" where
  "fits ub_bytes b \<longleftrightarrow> b = 0 \<or> (0 < ub_bytes \<and> int (unat b) \<le> ub_bytes)"

lemma multiple_below: "w dvd c \<Longrightarrow> w dvd x \<Longrightarrow> c < x \<Longrightarrow> c \<le> x - (w :: int)"
  using zdvd_imp_le[of w "x - c"] by simp

lemma descend_Suc:
  assumes "pure_model model d f"
  shows "descend model d ub w (Suc n) x u =
    (if x < w then (Nothing_fits, u) else if fits ub (f x) then (Fits x, u) else descend model d ub w n (x - w) u)"
  using assms by (simp add: pure_model_def fits_def)

declare descend.simps(2) [simp del]

text \<open>The descent gives the largest multiple that fits, and finds one when its steps reach one.\<close>

lemma descend_largest:
  assumes "pure_model model d f" and "0 < w"
  shows "descend model d ub w n x u = (Fits c, u') \<Longrightarrow> w dvd x \<Longrightarrow>
    w dvd c \<and> w \<le> c \<and> c \<le> x \<and> fits ub (f c) \<and> (\<forall>c'. w dvd c' \<and> c < c' \<and> c' \<le> x \<longrightarrow> \<not> fits ub (f c'))"
proof (induction n arbitrary: x)
  case (Suc n)
  show ?case
  proof (cases "x < w \<or> fits ub (f x)")
    case True
    then show ?thesis
      using Suc.prems by (auto simp: descend_Suc[OF assms(1)] split: if_splits)
  next
    case False
    have "w dvd x - w"
      using Suc.prems(2) by simp
    moreover have "descend model d ub w n (x - w) u = (Fits c, u')"
      using Suc.prems(1) False by (simp add: descend_Suc[OF assms(1)])
    ultimately have IH: "w dvd c" "w \<le> c" "c \<le> x - w" "fits ub (f c)"
        "\<And>c'. w dvd c' \<Longrightarrow> c < c' \<Longrightarrow> c' \<le> x - w \<Longrightarrow> \<not> fits ub (f c')"
      using Suc.IH by blast+
    have "\<not> fits ub (f c')" if "w dvd c'" "c < c'" "c' \<le> x" for c'
      using that IH(5) False multiple_below[OF that(1) Suc.prems(2)] by (cases "c' = x") auto
    then show ?thesis
      using IH assms(2) by simp
  qed
qed simp

lemma descend_finds:
  assumes "pure_model model d f" and "0 < w" and "w dvd c" and "w \<le> c" and "fits ub (f c)"
  shows "w dvd x \<Longrightarrow> c \<le> x \<Longrightarrow> x - c < int n * w \<Longrightarrow> \<exists>c' \<ge> c. descend model d ub w n x u = (Fits c', u)"
proof (induction n arbitrary: x)
  case (Suc n)
  show ?case
  proof (cases "fits ub (f x)")
    case True
    then show ?thesis
      using Suc.prems(2) assms(4) by (simp add: descend_Suc[OF assms(1)])
  next
    case False
    then have "c \<le> x - w"
      using Suc.prems assms(3,5) multiple_below[of w c x] by (cases "c = x") auto
    moreover have "x - w - c < int n * w"
      using Suc.prems(3) by (simp add: algebra_simps)
    ultimately show ?thesis
      using Suc.IH[of "x - w"] Suc.prems(1,2) False assms(4) by (simp add: descend_Suc[OF assms(1)])
  qed
qed (use assms in simp)

lemma grid_bounds:
  assumes "limits_valid q" and "0 < c" and "c \<le> q ! 1"
  shows "1 \<le> grid_of q c \<and> grid_of q c \<le> q ! 5 \<and> (q ! 1 * q ! 4 \<le> grid_of q c * c \<or> grid_of q c = q ! 5)"
proof -
  let ?g = "(q ! 1 + c - 1) div c"
  have pos: "0 < q ! 1" "0 < q ! 4" "0 < q ! 5"
    using assms(1) by (simp_all add: limits_valid_def)
  have g: "(q ! 1 + c - 1) sdiv c = ?g"
    using pos assms(2) by (intro sdiv_nonneg) simp_all
  have one: "1 \<le> ?g"
    using pos assms(2) by (simp add: int_one_le_iff_zero_less pos_imp_zdiv_pos_iff)
  have "q ! 1 + c - 1 < (?g + 1) * c"
    unfolding distrib_right using div_mult_mod_eq[of "q ! 1 + c - 1" c] pos_mod_bound[OF assms(2), of "q ! 1 + c - 1"]
    by linarith
  then have "q ! 1 \<le> ?g * c"
    by (simp add: algebra_simps)
  then have "q ! 1 * q ! 4 \<le> ?g * c * q ! 4"
    using pos by (intro mult_right_mono) simp_all
  moreover have "1 * 1 \<le> ?g * q ! 4"
    using one pos by (intro mult_mono) simp_all
  moreover have "grid_of q c = (if q ! 5 < ?g * q ! 4 then q ! 5 else if ?g * q ! 4 < 1 then 1 else ?g * q ! 4)"
    unfolding grid_of_def Let_def g using pos by (simp del: One_nat_def)
  ultimately show ?thesis
    using pos by (simp add: ac_simps del: One_nat_def)
qed

lemma candidate:
  assumes "limits_valid q" and "0 < block_cap q limit"
  shows "q ! 0 dvd block_cap q limit sdiv q ! 0 * q ! 0" "block_cap q limit sdiv q ! 0 * q ! 0 \<le> block_cap q limit"
    "q ! 0 dvd c \<Longrightarrow> c \<le> block_cap q limit \<Longrightarrow> c \<le> block_cap q limit sdiv q ! 0 * q ! 0"
proof -
  have w: "0 < q ! 0"
    using assms(1) by (simp add: limits_valid_def)
  have s: "block_cap q limit sdiv q ! 0 = block_cap q limit div q ! 0"
    using w assms(2) by (intro sdiv_nonneg) simp_all
  show "q ! 0 dvd block_cap q limit sdiv q ! 0 * q ! 0"
    by simp
  show "block_cap q limit sdiv q ! 0 * q ! 0 \<le> block_cap q limit"
    unfolding s using div_mult_mod_eq[of "block_cap q limit" "q ! 0"] pos_mod_sign[OF w, of "block_cap q limit"] by linarith
  assume "q ! 0 dvd c" "c \<le> block_cap q limit"
  then have "c div q ! 0 * q ! 0 \<le> block_cap q limit div q ! 0 * q ! 0"
    using w zdiv_mono1 by (intro mult_right_mono) auto
  then show "c \<le> block_cap q limit sdiv q ! 0 * q ! 0"
    unfolding s using \<open>q ! 0 dvd c\<close> by simp
qed

lemma cap_bounds:
  assumes "limits_valid q" and "0 \<le> limit"
  shows "0 < block_cap q limit" "block_cap q limit \<le> q ! 1" "block_cap q limit \<le> q ! 3"
    "0 < limit \<Longrightarrow> block_cap q limit \<le> limit"
  using assms by (auto simp: block_cap_def limits_valid_def Let_def)

definition occupancy_attributes :: "int list" where
  "occupancy_attributes = [cudaDevAttrWarpSize, cudaDevAttrMaxThreadsPerVectorCore, cudaDevAttrLocalMemoryPerVectorCore,
     cudaDevAttrMaxThreadsPerBlock, 201, 208]"

text \<open>The result of the estimate, once the device has answered its queries.\<close>

lemma estimate_result:
  assumes "ensureCurrentDevice acl s = (ACL_SUCCESS, s1)" and "call acl (Lifecycle AclrtGetDevice) s1 = (r, s2)"
    and "rep_status r = ACL_SUCCESS" and "query_all acl (rep_int r) occupancy_attributes s2 = ((ACL_SUCCESS, q), s3)"
    and "limits_valid q" and "0 \<le> limit"
  shows "cudaOccupancyMaxPotentialBlockSizeEstimate acl (Some g) (Some b) limit d model u s =
    (if block_cap q limit sdiv q ! 0 * q ! 0 < q ! 0 then ((ACL_ERROR_FEATURE_UNSUPPORTED, Some g, Some b), u, s3)
     else case descend model d (q ! 2) (q ! 0) 1024 (block_cap q limit sdiv q ! 0 * q ! 0) u of
       (Model_refused, u) \<Rightarrow> ((ACL_ERROR_RT_PARAM_INVALID, Some g, Some b), u, s3)
     | (Nothing_fits, u) \<Rightarrow> ((ACL_ERROR_FEATURE_UNSUPPORTED, Some g, Some b), u, s3)
     | (Fits c, u) \<Rightarrow> ((ACL_SUCCESS, Some (grid_of q c), Some c), u, s3))"
  using assms
  by (simp add: cudaOccupancyMaxPotentialBlockSizeEstimate_def occupancy_attributes_def Let_def
      split: prod.split descent.split)

lemma estimate_queries:
  assumes "cudaOccupancyMaxPotentialBlockSizeEstimate acl (Some g) (Some b) limit d model u s = ((ACL_SUCCESS, out), u', s')"
  obtains s1 r s2 q s3 where "ensureCurrentDevice acl s = (ACL_SUCCESS, s1)" "call acl (Lifecycle AclrtGetDevice) s1 = (r, s2)"
    "rep_status r = ACL_SUCCESS" "query_all acl (rep_int r) occupancy_attributes s2 = ((ACL_SUCCESS, q), s3)"
    "limits_valid q" "0 \<le> limit"
proof -
  obtain e s1 where 1: "ensureCurrentDevice acl s = (e, s1)"
    by (metis surj_pair)
  obtain r s2 where 2: "call acl (Lifecycle AclrtGetDevice) s1 = (r, s2)"
    by (metis surj_pair)
  obtain f q s3 where 3: "query_all acl (rep_int r) occupancy_attributes s2 = ((f, q), s3)"
    by (metis surj_pair)
  show ?thesis
    using assms that[of s1 r s2 q s3] 1 2 3
    by (simp add: cudaOccupancyMaxPotentialBlockSizeEstimate_def occupancy_attributes_def[symmetric] Let_def split: if_splits)
qed

text \<open>C20 (functional). A block size that the estimate gives is the best in its order of search:
  with the limits that the device reports, it is a multiple of the warp size within the limits of
  the block, of the core and of the caller, its buffer fits, and no larger multiple within the
  limits fits.  The grid covers the threads of all cores or is the largest grid.\<close>
theorem block_size_largest:
  assumes "cudaOccupancyMaxPotentialBlockSizeEstimate acl (Some g) (Some b) limit d model u s
      = ((ACL_SUCCESS, Some grid, Some c), u', s')"
    and "pure_model model d f"
  shows "\<exists>q device s1. query_all acl device occupancy_attributes s1 = ((ACL_SUCCESS, q), s') \<and> limits_valid q
    \<and> q ! 0 dvd c \<and> q ! 0 \<le> c \<and> c \<le> q ! 1 \<and> c \<le> q ! 3 \<and> (0 < limit \<longrightarrow> c \<le> limit) \<and> fits (q ! 2) (f c)
    \<and> (\<forall>c'. q ! 0 dvd c' \<and> c < c' \<and> c' \<le> block_cap q limit \<longrightarrow> \<not> fits (q ! 2) (f c'))
    \<and> 1 \<le> grid \<and> grid \<le> q ! 5 \<and> (q ! 1 * q ! 4 \<le> grid * c \<or> grid = q ! 5)"
proof -
  obtain s1 r s2 q s3 where q: "ensureCurrentDevice acl s = (ACL_SUCCESS, s1)" "call acl (Lifecycle AclrtGetDevice) s1 = (r, s2)"
      "rep_status r = ACL_SUCCESS" "query_all acl (rep_int r) occupancy_attributes s2 = ((ACL_SUCCESS, q), s3)"
      "limits_valid q" "0 \<le> limit"
    by (rule estimate_queries[OF assms(1)])
  note cap = cap_bounds[OF q(5,6)]
  note cand = candidate[OF q(5) cap(1)]
  let ?x = "block_cap q limit sdiv q ! 0 * q ! 0"
  obtain u2 where "descend model d (q ! 2) (q ! 0) 1024 ?x u = (Fits c, u2)" and res: "grid = grid_of q c" "s' = s3"
    using assms(1) unfolding estimate_result[OF q] by (auto split: if_splits prod.splits descent.splits)
  then have best: "q ! 0 dvd c" "q ! 0 \<le> c" "c \<le> ?x" "fits (q ! 2) (f c)"
      "\<And>c'. q ! 0 dvd c' \<Longrightarrow> c < c' \<Longrightarrow> c' \<le> ?x \<Longrightarrow> \<not> fits (q ! 2) (f c')"
    using descend_largest[OF assms(2) _ _ cand(1)] q(5) unfolding limits_valid_def by blast+
  have le: "c \<le> block_cap q limit"
    using best(3) cand(2) by simp
  have grid: "1 \<le> grid \<and> grid \<le> q ! 5 \<and> (q ! 1 * q ! 4 \<le> grid * c \<or> grid = q ! 5)"
    unfolding res using best(2) le cap(2) q(5) by (intro grid_bounds) (auto simp: limits_valid_def)
  have none: "\<forall>c'. q ! 0 dvd c' \<and> c < c' \<and> c' \<le> block_cap q limit \<longrightarrow> \<not> fits (q ! 2) (f c')"
    using best(5) cand(3) by blast
  show ?thesis
    by (rule exI[of _ q], rule exI[of _ "rep_int r"], rule exI[of _ s2], intro conjI)
      (use q(4,5) res(2) best(1,2,4) none grid le cap in \<open>simp_all only: simp_thms\<close>, use le cap in linarith)
qed

text \<open>C24 (liveness). The estimate does find a block size: when the device answers with valid
  limits and some multiple of the warp size fits that the 1024 candidates of the search reach, it
  returns a block size that is at least that multiple, with a grid.\<close>
theorem block_size_found:
  assumes "ensureCurrentDevice acl s = (ACL_SUCCESS, s1)" and "call acl (Lifecycle AclrtGetDevice) s1 = (r, s2)"
    and "rep_status r = ACL_SUCCESS" and "query_all acl (rep_int r) occupancy_attributes s2 = ((ACL_SUCCESS, q), s3)"
    and "limits_valid q" and "0 \<le> limit" and "pure_model model d f"
    and "q ! 0 dvd c" and "q ! 0 \<le> c" and "c \<le> block_cap q limit" and "fits (q ! 2) (f c)"
    and "block_cap q limit - c < 1024 * q ! 0"
  shows "\<exists>grid c'. cudaOccupancyMaxPotentialBlockSizeEstimate acl (Some g) (Some b) limit d model u s
      = ((ACL_SUCCESS, Some grid, Some c'), u, s3) \<and> c \<le> c'"
proof -
  note cand = candidate[OF assms(5) cap_bounds(1)[OF assms(5,6)]]
  have "0 < q ! 0"
    using assms(5) by (simp add: limits_valid_def)
  then obtain c' where "c \<le> c'"
      "descend model d (q ! 2) (q ! 0) 1024 (block_cap q limit sdiv q ! 0 * q ! 0) u = (Fits c', u)"
    using descend_finds[OF assms(7) _ assms(8,9,11) cand(1) cand(3)[OF assms(8,10)], of 1024] cand(2) assms(12)
    by fastforce
  then show ?thesis
    using cand(3)[OF assms(8,10)] assms(9) by (simp add: estimate_result[OF assms(1-6)])
qed

text \<open>Active blocks.\<close>

lemma blocks_fit:
  assumes "0 < b" and "0 \<le> a"
  shows "0 \<le> a sdiv b" "a sdiv b * b \<le> (a :: int)"
  using assms div_mult_mod_eq[of a b] pos_mod_sign[of b a] unfolding sdiv_nonneg[OF assms(2,1)]
  by (simp add: pos_imp_zdiv_nonneg_iff, linarith)

lemma ub_fit:
  fixes ub :: u64
  assumes "n \<le> bytes sdiv sint ub" and "0 \<le> n" and "ub \<noteq> 0" and "0 < bytes"
  shows "n * uint ub \<le> bytes"
proof (cases "0 \<le> sint ub")
  case True
  have "uint ub \<noteq> 0"
    using assms(3) by (simp add: uint_0_iff)
  moreover have u: "sint ub = uint ub"
    using True uint_sint[of ub] sint_lt[of ub] by (simp add: take_bit_int_eq_self)
  ultimately have pos: "0 < uint ub"
    using uint_ge_0[of ub] by linarith
  have "n * uint ub \<le> bytes sdiv uint ub * uint ub"
    using assms(1) u pos by (intro mult_right_mono) simp_all
  then show ?thesis
    using blocks_fit(2)[OF pos, of bytes] assms(4) by simp
next
  case False
  then have "bytes sdiv sint ub \<le> 0"
    using assms(4) by (auto simp: signed_divide_int_def sgn_if pos_imp_zdiv_nonneg_iff)
  then have "n = 0"
    using assms(1,2) by simp
  then show ?thesis
    using assms(4) by simp
qed

text \<open>Active blocks fit the core: the number that the occupancy query returns is
  between 0 and \<open>INT_MAX\<close>, together the blocks have no more threads than the core reports, and
  their buffers no more bytes; a request of \<open>2 ^ 63\<close> bytes or more, which the code reads as a
  negative number, gives 0.\<close>
theorem active_blocks_fit:
  assumes "cudaOccupancyMaxActiveBlocksPerMultiprocessor acl (Some v) block ub s = ((ACL_SUCCESS, Some n), s')"
  shows "0 \<le> n \<and> n \<le> INT_MAX \<and> 0 < block
    \<and> (\<exists>device s1 threads s2. device_info acl device cudaDevAttrMaxThreadsPerVectorCore s1 = ((ACL_SUCCESS, threads), s2)
         \<and> n * block \<le> max 0 threads
         \<and> (ub \<noteq> 0 \<longrightarrow> (\<exists>bytes. device_info acl device cudaDevAttrLocalMemoryPerVectorCore s2 = ((ACL_SUCCESS, bytes), s')
              \<and> n * uint ub \<le> max 0 bytes)))"
proof -
  obtain e s1 where 1: "ensureCurrentDevice acl s = (e, s1)"
    by (metis surj_pair)
  obtain r s2 where 2: "call acl (Lifecycle AclrtGetDevice) s1 = (r, s2)"
    by (metis surj_pair)
  obtain e3 threads s3 where 3: "device_info acl (rep_int r) cudaDevAttrMaxThreadsPerVectorCore s2 = ((e3, threads), s3)"
    by (metis surj_pair)
  obtain e4 bytes s4 where 4: "device_info acl (rep_int r) cudaDevAttrLocalMemoryPerVectorCore s3 = ((e4, bytes), s4)"
    by (metis surj_pair)
  let ?t = "threads sdiv block" and ?b = "if 0 < bytes then bytes sdiv sint ub else 0"
  note a = assms[unfolded cudaOccupancyMaxActiveBlocksPerMultiprocessor_def Let_def]
  have ok: "0 < block" "e = ACL_SUCCESS" "rep_status r = ACL_SUCCESS" "e3 = ACL_SUCCESS"
    using a by (auto simp: 1 2 3 not_le split: if_splits)
  have n: "n = min INT_MAX (max 0 (if ub = 0 then ?t else min ?b ?t))"
    and ub: "ub \<noteq> 0 \<Longrightarrow> e4 = ACL_SUCCESS \<and> s' = s4"
    using a ok by (auto simp: 1 2 3 4 not_le min_def max_def INT_MAX_def split: if_splits)
  have nn: "0 \<le> n" "n \<le> INT_MAX"
    by (simp_all add: n INT_MAX_def)
  have t: "n \<le> max 0 ?t"
    by (auto simp: n)
  have "n * block \<le> max 0 threads"
  proof (cases "0 \<le> threads")
    case True
    have "n * block \<le> ?t * block"
      using t blocks_fit(1)[OF ok(1) True] ok(1) by (intro mult_right_mono) simp_all
    then show ?thesis
      using blocks_fit(2)[OF ok(1) True] True by simp
  next
    case False
    then have "?t \<le> 0"
      using ok(1) by (auto simp: signed_divide_int_def sgn_if pos_imp_zdiv_nonneg_iff)
    then show ?thesis
      using nn(1) t by simp
  qed
  moreover have "n * uint ub \<le> max 0 bytes" if "ub \<noteq> 0"
  proof (cases "0 < bytes \<and> 0 \<le> bytes sdiv sint ub")
    case True
    have "n \<le> bytes sdiv sint ub"
      using True that by (auto simp: n min_def max_def)
    then show ?thesis
      using ub_fit[OF _ nn(1) that] True by simp
  next
    case False
    then have "n = 0"
      using that nn(1) by (auto simp: n)
    then show ?thesis
      by simp
  qed
  ultimately show ?thesis
    using nn ok 3 4 ub by blast
qed

section \<open>Properties of the device\<close>

lemma query_limits_success:
  "query_limits acl device as s = ((ACL_SUCCESS, ls), s') \<Longrightarrow> length ls = length as \<and> (\<forall>l \<in> set ls. 0 < l \<and> l \<le> INT_MAX)"
proof (induction as arbitrary: s ls)
  case (Cons a as)
  then show ?case
    by (fastforce simp: Let_def split: prod.splits if_splits)
qed simp

text \<open>The properties of the device are written all or not at all: on an error the
  caller's structure is unchanged; on success the device is 0, the name is the first 255
  characters of a non-empty name, and every count is a positive \<open>int\<close>.\<close>
theorem device_properties_all_or_nothing:
  assumes "cudaGetDeviceProperties acl properties device s = ((status, result), s')"
  shows "(status \<noteq> ACL_SUCCESS \<longrightarrow> result = properties)
    \<and> (status = ACL_SUCCESS \<longrightarrow> device = 0 \<and> properties \<noteq> None
       \<and> (\<exists>p. result = Some p \<and> dp_name p \<noteq> [] \<and> length (dp_name p) < 256
            \<and> (\<forall>v \<in> set ([dp_multiProcessorCount p, dp_warpSize p, dp_maxThreadsPerMultiProcessor p,
                 dp_maxThreadsPerBlock p] @ dp_maxGridSize p). 0 < v \<and> v \<le> INT_MAX)))"
proof -
  obtain e0 s0 where 0: "ensureInitialized acl s = (e0, s0)"
    by (metis surj_pair)
  obtain e1 cores s1 where 1: "device_info acl 0 201 s0 = ((e1, cores), s1)"
    by (metis surj_pair)
  obtain e2 memory s2 where 2: "device_info acl 0 301 s1 = ((e2, memory), s2)"
    by (metis surj_pair)
  obtain r s3 where 3: "call acl (Device AclrtGetSocName) s2 = (r, s3)"
    by (metis surj_pair)
  obtain e4 limits s4 where 4: "query_limits acl 0 [209, 205, 206, 207, 202, 203] s3 = ((e4, limits), s4)"
    by (metis surj_pair)
  obtain e5 s5 where 5: "rememberLifecycleError e0 s0 = (e5, s5)"
    by (metis surj_pair)
  note a = assms[unfolded cudaGetDeviceProperties_def Let_def]
  show ?thesis
  proof (cases "status = ACL_SUCCESS \<and> e0 = ACL_SUCCESS")
    case True
    then have ok: "device = 0" "properties \<noteq> None" "0 < cores" "cores \<le> INT_MAX" "e4 = ACL_SUCCESS"
        "rep_text r \<noteq> None" "rep_text r \<noteq> Some []" "result = Some (make_properties (the (rep_text r)) cores memory limits)"
      using a by (auto simp: 0 1 2 3 4 not_le simp del: query_limits.simps split: if_splits)
    have l: "length limits = 6" "\<forall>l \<in> set limits. 0 < l \<and> l \<le> INT_MAX"
      using query_limits_success[OF 4[unfolded ok(5)]] by simp_all
    then have "limits ! k \<in> set limits" if "k < 6" for k
      using that by simp
    then show ?thesis
      using ok True l(2) by (auto simp: make_properties_def)
  next
    case False
    have "e5 = e0"
      using 5 by (auto simp: rememberLifecycleError_def Let_def split: if_splits)
    then show ?thesis
      using a False by (auto simp: 0 1 2 3 4 5 simp del: query_limits.simps split: if_splits)
  qed
qed

section \<open>Witnesses\<close>

text \<open>A device with warps of 32 threads, cores of 2048 threads and 65536 bytes, blocks of 1024
  threads, 20 cores and grids of up to 65535 blocks.\<close>

definition device_acl :: "unit acl" where
  "device_acl c w = (\<lparr>rep_status = ACL_SUCCESS,
     rep_int = (case c of
         Device (AclrtGetDeviceInfo d a) \<Rightarrow> (case map_of [(202, 32), (203, 2048), (204, 65536), (209, 1024), (201, 20)] a of
           Some v \<Rightarrow> v | None \<Rightarrow> 65535)
       | Device AclrtGetDeviceCount \<Rightarrow> 1
       | _ \<Rightarrow> 0),
     rep_int2 = 0, rep_ptr = 4096, rep_float = 0, rep_progress = Progress_complete, rep_text = Some ''Ascend''\<rparr>, w)"

lemma find_device_contract_witness:
  "fst (sampleFindCudaDevice device_acl 3 (Some [Some ''prog'', Some ''-n=7'', Some ''--device=0'']) (initial_rt ())) = Inr 0
   \<and> fst (cudaGetDeviceCount device_acl (Some 0) (initial_rt ())) = (ACL_SUCCESS, Some 1)"
proof -
  let ?s = "initial_rt ()" and ?a = "[Some ''prog'', Some ''-n=7'', Some ''--device=0'']"
  have r: "fst (sampleFindCudaDevice device_acl 3 (Some ?a) ?s) = Inr 0"
    by code_simp
  have "sampleFindCudaDevice device_acl 3 (Some ?a) ?s = (Inr 0, snd (sampleFindCudaDevice device_acl 3 (Some ?a) ?s))"
    using r by (simp add: prod_eq_iff)
  from find_device_contract[OF this zero_le_numeral] r show ?thesis
    by blast
qed

text \<open>A kernel whose block takes 65 bytes a thread: 1024 threads do not fit, 992 do.\<close>

definition demo_bytes :: "int \<Rightarrow> u64" where
  "demo_bytes c = word_of_int (65 * c)"

definition demo_ready :: "unit rt" where
  "demo_ready = snd (call device_acl (Lifecycle AclrtGetDevice) (snd (ensureCurrentDevice device_acl (initial_rt ()))))"

definition demo_limits :: "int list" where
  "demo_limits = [32, 2048, 65536, 1024, 20, 65535]"

lemma demo_queries:
  "ensureCurrentDevice device_acl (initial_rt ()) = (ACL_SUCCESS, snd (ensureCurrentDevice device_acl (initial_rt ())))"
  "call device_acl (Lifecycle AclrtGetDevice) s = (fst (call device_acl (Lifecycle AclrtGetDevice) s), snd (call device_acl (Lifecycle AclrtGetDevice) s))"
  "rep_status (fst (call device_acl (Lifecycle AclrtGetDevice) s)) = ACL_SUCCESS"
  "query_all device_acl d occupancy_attributes s = ((ACL_SUCCESS, demo_limits), s)"
  "limits_valid demo_limits"
proof -
  have "fst (ensureCurrentDevice device_acl (initial_rt ())) = ACL_SUCCESS"
    by code_simp
  then show "ensureCurrentDevice device_acl (initial_rt ()) = (ACL_SUCCESS, snd (ensureCurrentDevice device_acl (initial_rt ())))"
    by (simp add: prod_eq_iff)
  show "limits_valid demo_limits"
    by code_simp
  show "query_all device_acl d occupancy_attributes s = ((ACL_SUCCESS, demo_limits), s)"
    by (simp add: occupancy_attributes_def device_info_def call_def device_acl_def device_attributes rep_long_def demo_limits_def)
qed (simp_all add: call_def device_acl_def)

lemma demo_descend:
  "descend (Some (function_model (\<lambda>u c. (demo_bytes c, u)))) d 65536 32 1024 1024 (0 :: nat) = (Fits 992, 0)"
proof -
  have "\<not> fits 65536 (demo_bytes 1024)" "fits 65536 (demo_bytes 992)"
    by (simp_all add: fits_def demo_bytes_def)
  then show ?thesis
    using descend_Suc[OF pure_models(2), of demo_bytes d 65536 32 1023 1024 "0 :: nat"]
      descend_Suc[OF pure_models(2), of demo_bytes d 65536 32 1022 992 "0 :: nat"] by simp
qed

lemma demo_cap: "block_cap demo_limits 0 = 1024" "demo_limits ! 0 = 32" "demo_limits ! 2 = 65536" "grid_of demo_limits 992 = 60"
  by code_simp+

lemma demo_estimate:
  "cudaOccupancyMaxPotentialBlockSizeEstimate device_acl (Some 0) (Some 0) 0 0
     (Some (function_model (\<lambda>u c. (demo_bytes c, u)))) (0 :: nat) (initial_rt ()) = ((ACL_SUCCESS, Some 60, Some 992), 0, demo_ready)"
  using estimate_result[OF demo_queries, of 0 0 0 0 "Some (function_model (\<lambda>u c. (demo_bytes c, u)))" "0 :: nat"]
  by (simp add: demo_cap demo_descend demo_ready_def)

lemma block_size_largest_witness:
  "\<exists>q. limits_valid q \<and> q ! 0 dvd 992 \<and> 992 \<le> q ! 3 \<and> fits (q ! 2) (demo_bytes 992)"
  using block_size_largest[OF demo_estimate pure_models(2)] by blast

lemma block_size_found_witness:
  "\<exists>grid c'. cudaOccupancyMaxPotentialBlockSizeEstimate device_acl (Some 0) (Some 0) 0 0
     (Some (function_model (\<lambda>u c. (demo_bytes c, u)))) (0 :: nat) (initial_rt ()) = ((ACL_SUCCESS, Some grid, Some c'), 0, demo_ready)
     \<and> 640 \<le> c'"
proof -
  have "fits (demo_limits ! 2) (demo_bytes 640)"
    by (simp add: fits_def demo_bytes_def demo_cap)
  then show ?thesis
    using block_size_found[OF demo_queries _ pure_models(2), of 0 640 demo_bytes 0 0 0 "0 :: nat"]
    by (simp add: demo_cap demo_ready_def)
qed

lemma active_blocks_fit_witness:
  "0 \<le> (16 :: int) \<and> (\<exists>device (s1 :: unit rt) threads s2. device_info device_acl device cudaDevAttrMaxThreadsPerVectorCore s1
     = ((ACL_SUCCESS, threads), s2) \<and> 16 * 128 \<le> max 0 threads)"
proof -
  let ?r = "cudaOccupancyMaxActiveBlocksPerMultiprocessor device_acl (Some 0) 128 4096 (initial_rt ())"
  have "fst ?r = (ACL_SUCCESS, Some 16)"
    by code_simp
  then have "?r = ((ACL_SUCCESS, Some 16), snd ?r)"
    by (simp add: prod_eq_iff)
  from active_blocks_fit[OF this] show ?thesis
    by blast
qed

lemma device_properties_all_or_nothing_witness:
  "\<exists>p. snd (fst (cudaGetDeviceProperties device_acl (Some (make_properties [] 0 0 [0, 0, 0, 0, 0, 0])) 0 (initial_rt ()))) = Some p
     \<and> dp_name p \<noteq> []"
proof -
  let ?r = "cudaGetDeviceProperties device_acl (Some (make_properties [] 0 0 [0, 0, 0, 0, 0, 0])) 0 (initial_rt ())"
  have "fst (fst ?r) = ACL_SUCCESS"
    by code_simp
  then have "?r = ((ACL_SUCCESS, snd (fst ?r)), snd ?r)"
    by (simp add: prod_eq_iff)
  from device_properties_all_or_nothing[OF this] show ?thesis
    by blast
qed

end
