(* ===== verification/Symbol_Layer.thy ===== *)
theory Symbol_Layer
  imports Texture_Programs
begin

text \<open>
  Copies to and from device globals, \<open>include/ascify/symbol_compat.hpp\<close>: the list of resolvers
  that translation units register, the resolver that the macro emits for one symbol, and the two
  copies.  They are modelled for legacy SIMT headers with the SDK's symbol functions; elsewhere
  the templates reject the call at compile time.
\<close>

section \<open>Resolvers\<close>

text \<open>An entry has an identity, its address in the program; its callback is the tag of the macro.\<close>

(* Source: src/include/ascify/symbol_compat.hpp 26-31 DeviceSymbolResolver *)
record DeviceSymbolResolver =
  sr_identity :: nat
  sr_token :: ptr
  sr_bytes :: u64
  sr_resolve :: nat

(* Source: src/include/ascify/symbol_compat.hpp 45-50 DeviceSymbolResolver::DeviceSymbolResolver *)
definition register_resolver :: "DeviceSymbolResolver \<Rightarrow> DeviceSymbolResolver list \<Rightarrow> DeviceSymbolResolver list" where
  "register_resolver r head = r # head"

(* Source: src/include/ascify/symbol_compat.hpp 51-56 DeviceSymbolResolver::~DeviceSymbolResolver *)
fun unregister_resolver :: "nat \<Rightarrow> DeviceSymbolResolver list \<Rightarrow> DeviceSymbolResolver list" where
  "unregister_resolver this [] = []"
| "unregister_resolver this (r # rs) = (if sr_identity r = this then rs else r # unregister_resolver this rs)"

(* Source: src/include/ascify/symbol_compat.hpp 59-68 DeviceSymbolResolver::find *)
fun find_resolver :: "ptr \<Rightarrow> DeviceSymbolResolver list \<Rightarrow> (u64 \<times> nat) option" where
  "find_resolver token [] = None"
| "find_resolver token (r # rs) = (if sr_token r = token then Some (sr_bytes r, sr_resolve r) else find_resolver token rs)"

section \<open>The address of a symbol\<close>

text \<open>\<open>cudaMemcpy\<close> from the device into a variable of the caller, whose content is the reply's pointer.\<close>

definition copy_to_variable ::
    "'w acl \<Rightarrow> ('w, 'z) texture_hooks option \<Rightarrow> ptr \<Rightarrow> u64 \<Rightarrow> ('w, 'z) rt_scheme \<Rightarrow> (aclError \<times> ptr) \<times> ('w, 'z) rt_scheme" where
  "copy_to_variable acl hooks source bytes s =
     (if \<not> nonnullMemoryRange source bytes then ((ACL_ERROR_RT_PARAM_INVALID, 0), s)
      else
        let (ready, s) = ensureCurrentDevice acl s in
        if ready \<noteq> ACL_SUCCESS then ((ready, 0), s)
        else
          let (status, s) = call_status acl (Stream (AclrtSynchronizeStream 0)) s in
          if status \<noteq> ACL_SUCCESS then ((status, 0), s)
          else
            let (status, s) = check_pending hooks s in
            if status \<noteq> ACL_SUCCESS then ((status, 0), s)
            else
              let (r, s) = call acl (Memory (AclrtMemcpy_to_local source bytes)) s
              in ((rep_status r, if rep_status r = ACL_SUCCESS then rep_ptr r else 0), s))"

(* Source: src/include/ascify/symbol_compat.hpp 225-246 ASCIFY_REGISTER_DEVICE_SYMBOL *)
definition resolve_symbol ::
    "'w acl \<Rightarrow> ('w, 'z) texture_hooks option \<Rightarrow> nat \<Rightarrow> ('w, 'z) rt_scheme \<Rightarrow> (aclError \<times> ptr option) \<times> ('w, 'z) rt_scheme" where
  "resolve_symbol acl hooks tag s =
     (let ((status, result), s) = cudaMalloc acl (Some 0) 8 s in
      if status \<noteq> ACL_SUCCESS then ((status, None), s)
      else
        let device_result = the result;
            (_, s) = call acl (Symbol (Launch_address tag device_result)) s;
            (status, s) = cudaGetLastError acl s;
            (status, s) = (if status = ACL_SUCCESS then cudaStreamSynchronize acl hooks 0 s else (status, s));
            ((status, host_result), s) =
              (if status = ACL_SUCCESS then copy_to_variable acl hooks device_result 8 s else ((status, 0), s));
            (released, s) = cudaFree acl hooks device_result s;
            status = (if status = ACL_SUCCESS then released else status)
        in ((status, if status = ACL_SUCCESS then Some host_result else None), s))"

section \<open>Copies\<close>

text \<open>The address variable is null until the resolver writes it.\<close>

(* Source: src/include/ascify/symbol_compat.hpp 71-83 copyResolvedSymbol *)
definition copyResolvedSymbol ::
    "'w acl \<Rightarrow> (('w, 'z) rt_scheme \<Rightarrow> (aclError \<times> ptr option) \<times> ('w, 'z) rt_scheme) \<Rightarrow> u64 \<Rightarrow> ptr \<Rightarrow> ptr \<Rightarrow> u64 \<Rightarrow> u64
     \<Rightarrow> aclrtMemcpyKind \<Rightarrow> bool \<Rightarrow> ('w, 'z) rt_scheme \<Rightarrow> aclError \<times> ('w, 'z) rt_scheme" where
  "copyResolvedSymbol acl resolve bytes destination source count offset kind to_symbol s =
     (if offset > bytes \<or> count > bytes - offset then (ACL_ERROR_RT_PARAM_INVALID, s)
      else
        let ((status, written), s) = resolve s; address = (case written of None \<Rightarrow> 0 | Some a \<Rightarrow> a) in
        if status \<noteq> ACL_SUCCESS then (status, s)
        else if address = 0 then (ACL_ERROR_RT_PARAM_INVALID, s)
        else if to_symbol then call_status acl (Memory (AclrtMemcpy (address + offset) (bytes - offset) source count kind)) s
        else call_status acl (Memory (AclrtMemcpy destination count (address + offset) count kind)) s)"

(* Source: src/include/ascify/symbol_compat.hpp 134-181 cudaMemcpyToSymbol *)
definition cudaMemcpyToSymbol ::
    "'w acl \<Rightarrow> ('w, 'z) texture_hooks option \<Rightarrow> DeviceSymbolResolver list \<Rightarrow> ptr \<Rightarrow> ptr \<Rightarrow> u64 \<Rightarrow> u64 \<Rightarrow> aclrtMemcpyKind
     \<Rightarrow> ('w, 'z) rt_scheme \<Rightarrow> aclError \<times> ('w, 'z) rt_scheme" where
  "cudaMemcpyToSymbol acl hooks head token source count offset kind s =
     (if kind \<noteq> ACL_MEMCPY_HOST_TO_DEVICE \<and> kind \<noteq> ACL_MEMCPY_DEVICE_TO_DEVICE then (ACL_ERROR_RT_PARAM_INVALID, s)
      else if count \<noteq> 0 \<and> source = 0 then (ACL_ERROR_RT_PARAM_INVALID, s)
      else
        let (ready, s) = ensureCurrentDevice acl s in
        if ready \<noteq> ACL_SUCCESS then (ready, s)
        else case find_resolver token head of
          Some (symbol_bytes, tag) \<Rightarrow>
            copyResolvedSymbol acl (resolve_symbol acl hooks tag) symbol_bytes 0 source count offset kind True s
        | None \<Rightarrow>
            let (r, s) = call acl (Symbol (AclrtGetSymbolSize token)) s; symbol_bytes = (word_of_int (rep_int r) :: u64) in
            if rep_status r \<noteq> ACL_SUCCESS then (rep_status r, s)
            else if offset > symbol_bytes \<or> count > symbol_bytes - offset then (ACL_ERROR_RT_PARAM_INVALID, s)
            else call_status acl (Symbol (AclrtMemcpyToSymbol token source count offset kind)) s)"

(* Source: src/include/ascify/symbol_compat.hpp 183-216 cudaMemcpyFromSymbol *)
definition cudaMemcpyFromSymbol ::
    "'w acl \<Rightarrow> ('w, 'z) texture_hooks option \<Rightarrow> DeviceSymbolResolver list \<Rightarrow> ptr \<Rightarrow> ptr \<Rightarrow> u64 \<Rightarrow> u64 \<Rightarrow> aclrtMemcpyKind
     \<Rightarrow> ('w, 'z) rt_scheme \<Rightarrow> aclError \<times> ('w, 'z) rt_scheme" where
  "cudaMemcpyFromSymbol acl hooks head destination token count offset kind s =
     (if (kind \<noteq> ACL_MEMCPY_DEVICE_TO_HOST \<and> kind \<noteq> ACL_MEMCPY_DEVICE_TO_DEVICE) \<or> (count \<noteq> 0 \<and> destination = 0)
      then (ACL_ERROR_RT_PARAM_INVALID, s)
      else
        let (ready, s) = ensureCurrentDevice acl s in
        if ready \<noteq> ACL_SUCCESS then (ready, s)
        else case find_resolver token head of
          Some (symbol_bytes, tag) \<Rightarrow>
            copyResolvedSymbol acl (resolve_symbol acl hooks tag) symbol_bytes destination 0 count offset kind False s
        | None \<Rightarrow>
            let (r, s) = call acl (Symbol (AclrtGetSymbolSize token)) s; symbol_bytes = (word_of_int (rep_int r) :: u64) in
            if rep_status r \<noteq> ACL_SUCCESS then (rep_status r, s)
            else if offset > symbol_bytes \<or> count > symbol_bytes - offset then (ACL_ERROR_RT_PARAM_INVALID, s)
            else call_status acl (Symbol (AclrtMemcpyFromSymbol destination count token count offset kind)) s)"

section \<open>Properties\<close>

text \<open>Entries have distinct identities; the end of one removes it and nothing else, and a token is
  resolved by the latest of its entries that is left.\<close>

lemma unregister_filter:
  "distinct (map sr_identity rs) \<Longrightarrow> unregister_resolver this rs = filter (\<lambda>r. sr_identity r \<noteq> this) rs"
proof (induction rs)
  case (Cons r rs)
  have "filter (\<lambda>q. sr_identity q \<noteq> sr_identity r) rs = rs"
    using Cons.prems by (auto simp: filter_id_conv) (metis image_eqI)
  then show ?case
    using Cons by auto
qed simp

lemma find_first:
  "find_resolver token rs = map_option (\<lambda>r. (sr_bytes r, sr_resolve r)) (find (\<lambda>r. sr_token r = token) rs)"
  by (induction rs) auto

lemma symbol_entries:
  assumes "distinct (map sr_identity head)"
  shows "find_resolver token (unregister_resolver this head) =
      map_option (\<lambda>r. (sr_bytes r, sr_resolve r)) (find (\<lambda>r. sr_token r = token) (filter (\<lambda>r. sr_identity r \<noteq> this) head))"
    and "find_resolver token (register_resolver r head) =
      (if sr_token r = token then Some (sr_bytes r, sr_resolve r) else find_resolver token head)"
  by (simp_all add: unregister_filter[OF assms] find_first register_resolver_def)

text \<open>Once its temporary is allocated, the resolver ends in freeing it on every path, and it gives
  an address only when the free succeeded too.\<close>

lemma resolver_frees:
  assumes "resolve_symbol acl hooks tag s = ((e, a), s')" and "cudaMalloc acl (Some 0) 8 s = ((ACL_SUCCESS, Some p), s1)"
  shows "\<exists>released s5. cudaFree acl hooks p s5 = (released, s') \<and> (e = ACL_SUCCESS \<longrightarrow> released = ACL_SUCCESS)
    \<and> (a \<noteq> None \<longleftrightarrow> e = ACL_SUCCESS)"
proof -
  obtain r s2 where 2: "call acl (Symbol (Launch_address tag p)) s1 = (r, s2)"
    by (metis surj_pair)
  obtain e3 s3 where 3: "cudaGetLastError acl s2 = (e3, s3)"
    by (metis surj_pair)
  obtain e4 s4 where 4: "(if e3 = ACL_SUCCESS then cudaStreamSynchronize acl hooks 0 s3 else (e3, s3)) = (e4, s4)"
    by (metis surj_pair)
  obtain e5 h s5 where 5: "(if e4 = ACL_SUCCESS then copy_to_variable acl hooks p 8 s4 else ((e4, 0), s4)) = ((e5, h), s5)"
    by (metis surj_pair)
  obtain released s6 where 6: "cudaFree acl hooks p s5 = (released, s6)"
    by (metis surj_pair)
  have "e = (if e5 = ACL_SUCCESS then released else e5)" "a = (if e = ACL_SUCCESS then Some h else None)" "s' = s6"
    using assms(1)[unfolded resolve_symbol_def Let_def assms(2) prod.case option.sel 2 3 4 5 6] by auto
  then show ?thesis
    using 6 by auto
qed

lemma copied_symbol:
  assumes "copyResolvedSymbol acl resolve bytes destination source count offset kind to_symbol s = (ACL_SUCCESS, s')"
  shows "\<exists>address s1. resolve s = ((ACL_SUCCESS, Some address), s1) \<and> address \<noteq> 0
    \<and> unat offset + unat count \<le> unat bytes
    \<and> call_status acl (Memory (if to_symbol then AclrtMemcpy (address + offset) (bytes - offset) source count kind
         else AclrtMemcpy destination count (address + offset) count kind)) s1 = (ACL_SUCCESS, s')"
proof -
  have guard: "offset \<le> bytes" "count \<le> bytes - offset"
    using assms by (auto simp: copyResolvedSymbol_def not_less split: if_splits)
  then have "unat count \<le> unat bytes - unat offset"
    by (simp add: word_le_nat_alt unat_sub)
  then have "unat offset + unat count \<le> unat bytes"
    using guard(1) by (simp add: word_le_nat_alt)
  moreover obtain e w s1 where "resolve s = ((e, w), s1)"
    by (metis surj_pair)
  ultimately show ?thesis
    using assms guard by (auto simp: copyResolvedSymbol_def not_less split: if_splits option.splits)
qed

text \<open>C40 (bounds). A successful copy to or from a registered symbol moves bytes of that symbol
  only: the range lies in the bytes that its translation unit registered, and the address is
  the one its resolver gave during this very call, on the device that is current, so an address
  from before a reset is never used.\<close>
theorem symbol_copies_in_bounds:
  assumes "find_resolver token head = Some (bytes, tag)"
  shows "(cudaMemcpyToSymbol acl hooks head token source count offset kind s = (ACL_SUCCESS, s') \<longrightarrow>
      (\<exists>s1 address s2. ensureCurrentDevice acl s = (ACL_SUCCESS, s1)
         \<and> resolve_symbol acl hooks tag s1 = ((ACL_SUCCESS, Some address), s2) \<and> address \<noteq> 0
         \<and> unat offset + unat count \<le> unat bytes
         \<and> call_status acl (Memory (AclrtMemcpy (address + offset) (bytes - offset) source count kind)) s2 = (ACL_SUCCESS, s')))
    \<and> (cudaMemcpyFromSymbol acl hooks head destination token count offset kind s = (ACL_SUCCESS, s') \<longrightarrow>
      (\<exists>s1 address s2. ensureCurrentDevice acl s = (ACL_SUCCESS, s1)
         \<and> resolve_symbol acl hooks tag s1 = ((ACL_SUCCESS, Some address), s2) \<and> address \<noteq> 0
         \<and> unat offset + unat count \<le> unat bytes
         \<and> call_status acl (Memory (AclrtMemcpy destination count (address + offset) count kind)) s2 = (ACL_SUCCESS, s')))"
proof -
  obtain e s1 where ready: "ensureCurrentDevice acl s = (e, s1)"
    by (metis surj_pair)
  have "copyResolvedSymbol acl (resolve_symbol acl hooks tag) bytes 0 source count offset kind True s1 = (ACL_SUCCESS, s')
      \<and> e = ACL_SUCCESS"
    if "cudaMemcpyToSymbol acl hooks head token source count offset kind s = (ACL_SUCCESS, s')"
    using that by (auto simp: cudaMemcpyToSymbol_def ready assms split: if_splits)
  moreover have "copyResolvedSymbol acl (resolve_symbol acl hooks tag) bytes destination 0 count offset kind False s1
      = (ACL_SUCCESS, s') \<and> e = ACL_SUCCESS"
    if "cudaMemcpyFromSymbol acl hooks head destination token count offset kind s = (ACL_SUCCESS, s')"
    using that by (auto simp: cudaMemcpyFromSymbol_def ready assms split: if_splits)
  ultimately show ?thesis
    using ready copied_symbol[of acl "resolve_symbol acl hooks tag" bytes 0 source count offset kind True s1 s']
      copied_symbol[of acl "resolve_symbol acl hooks tag" bytes destination 0 count offset kind False s1 s'] by auto
qed

definition demo_symbol :: DeviceSymbolResolver where
  "demo_symbol = \<lparr>sr_identity = 1, sr_token = 7, sr_bytes = 64, sr_resolve = 0\<rparr>"

lemma symbol_copies_in_bounds_witness:
  "\<exists>s1 address (s2 :: unit rt). resolve_symbol willing_acl None 0 s1 = ((ACL_SUCCESS, Some address), s2)
     \<and> unat (48 :: u64) + unat (16 :: u64) \<le> unat (64 :: u64)"
proof -
  let ?r = "cudaMemcpyToSymbol willing_acl None (register_resolver demo_symbol []) 7 8192 16 48 ACL_MEMCPY_HOST_TO_DEVICE
    (initial_rt () :: unit rt)"
  have "fst ?r = ACL_SUCCESS"
    by code_simp
  then have r: "?r = (ACL_SUCCESS, snd ?r)"
    by (simp add: prod_eq_iff)
  have "find_resolver 7 (register_resolver demo_symbol []) = Some (64, 0)"
    by (simp add: register_resolver_def demo_symbol_def)
  from symbol_copies_in_bounds[OF this] r show ?thesis
    by blast
qed

end
