(* ===== verification/Owned_Archive.thy ===== *)
theory Owned_Archive
  imports Prelude
begin

text \<open>
  The reader of the linker's reproduction archive in \<open>src/StandaloneDeviceTarget.cpp\<close>: the USTAR
  dialect that LLD writes, read from a file's bytes into a map from member names to contents.  A
  byte is a \<open>char\<close>; a header field is a part of the 512 bytes of its block.
\<close>

section \<open>Names\<close>

(* Source: src/src/StandaloneDeviceTarget.cpp 37-37 safePath *)
definition safePath :: "string \<Rightarrow> bool" where
  "safePath path \<longleftrightarrow> path \<noteq> [] \<and> list_all (\<lambda>c. let x = (of_char c :: nat) in \<not> (x < 32 \<or> x = 127)) path"

text \<open>The components of a path: the names between its separators.\<close>

fun components :: "string \<Rightarrow> string list" where
  "components [] = [[]]"
| "components (c # cs) = (if c = CHR ''/'' then [] # components cs
     else case components cs of [] \<Rightarrow> [[c]] | part # parts \<Rightarrow> (c # part) # parts)"

fun has_double_slash :: "string \<Rightarrow> bool" where
  "has_double_slash (a # b # rest) = (a = CHR ''/'' \<and> b = CHR ''/'' \<or> has_double_slash (b # rest))"
| "has_double_slash _ = False"

section \<open>Fields\<close>

definition nul :: char where "nul = CHR 0x00"

text \<open>An octal number: digits, then only NUL and spaces; it fits \<open>size_t\<close>.\<close>

(* Source: src/src/StandaloneDeviceTarget.cpp 292-292 readOwnedUstar (number) *)
fun octal_field :: "string \<Rightarrow> nat \<Rightarrow> bool \<Rightarrow> bool \<Rightarrow> nat option" where
  "octal_field [] out digit tail = (if digit then Some out else None)"
| "octal_field (c # cs) out digit tail =
     (if c = nul \<or> c = CHR '' '' then octal_field cs out digit True
      else if tail \<or> (of_char c :: nat) < 48 \<or> 55 < (of_char c :: nat) \<or> (2 ^ 64 - 1 - 7) div 8 < out then None
      else octal_field cs (out * 8 + (of_char c - 48)) True tail)"

(* Source: src/src/StandaloneDeviceTarget.cpp 293-293 readOwnedUstar (text) *)
definition text_field :: "string \<Rightarrow> string option" where
  "text_field field = (let rest = dropWhile (\<lambda>c. c \<noteq> nul) field in
     if list_all (\<lambda>c. c = nul) rest then Some (takeWhile (\<lambda>c. c \<noteq> nul) field) else None)"

definition field :: "nat \<Rightarrow> nat \<Rightarrow> string \<Rightarrow> string" where
  "field start n header = take n (drop start header)"

(* Source: src/src/StandaloneDeviceTarget.cpp 301-301 readOwnedUstar (checksum) *)
definition checksum_of :: "string \<Rightarrow> nat" where
  "checksum_of header = (\<Sum>i \<leftarrow> [0..<512]. if 148 \<le> i \<and> i < 156 then 32 else (of_char (header ! i) :: nat))"

definition magic :: string where
  "magic = ''ustar'' @ [nul] @ ''00''"

datatype archive_error =
    Invalid_archive | Invalid_terminator | Unmapped_member | Unsafe_name | Unmapped_component
  | Truncated_body | Duplicate_or_unpadded | Missing_terminator

text \<open>The name and the size that a header gives.\<close>

(* Source: src/src/StandaloneDeviceTarget.cpp 300-303 readOwnedUstar (header) *)
definition read_header :: "string \<Rightarrow> (string \<times> nat) option" where
  "read_header header =
     (if field 257 8 header \<noteq> magic \<or> (header ! 156 \<noteq> nul \<and> header ! 156 \<noteq> CHR ''0'') then None
      else case (text_field (field 0 100 header), text_field (field 345 155 header), text_field (field 157 100 header),
                 octal_field (field 124 12 header) 0 False False, octal_field (field 148 8 header) 0 False False) of
        (Some name, Some prefix, Some link, Some n, Some checksum) \<Rightarrow>
          if link \<noteq> [] \<or> checksum \<noteq> checksum_of header then None
          else Some (if prefix = [] then name else prefix @ ''/'' @ name, n)
      | _ \<Rightarrow> None)"

text \<open>The members read so far, in the order of the archive; their names are distinct.\<close>

type_synonym archive_members = "(string \<times> string) list"

(* Source: src/src/StandaloneDeviceTarget.cpp 304-305 readOwnedUstar (name) *)
definition name_error :: "string \<Rightarrow> archive_members \<Rightarrow> archive_error option" where
  "name_error name ms =
     (if \<not> safePath name \<or> hd name = CHR ''/'' \<or> has_double_slash name \<or> last name = CHR ''/'' \<or> 1024 \<le> length ms
      then Some Unsafe_name
      else if list_ex (\<lambda>part. part = ''.'' \<or> part = ''..'') (components name) then Some Unmapped_component
      else None)"

definition padding_of :: "nat \<Rightarrow> nat" where
  "padding_of n = (512 - n mod 512) mod 512"

(* Source: src/src/StandaloneDeviceTarget.cpp 295-312 readOwnedUstar (loop) *)
function read_members :: "string \<Rightarrow> nat \<Rightarrow> archive_members \<Rightarrow> archive_error + archive_members" where
  "read_members data offset ms =
     (if \<not> offset + 512 \<le> length data then Inl Missing_terminator
      else
        let header = take 512 (drop offset data) in
        if list_all (\<lambda>c. c = nul) header
        then (if length data - offset < 1024 \<or> ms = [] \<or> \<not> list_all (\<lambda>c. c = nul) (drop offset data)
              then Inl Invalid_terminator else Inr ms)
        else case read_header header of
          None \<Rightarrow> Inl Unmapped_member
        | Some (name, n) \<Rightarrow>
            (case name_error name ms of
               Some e \<Rightarrow> Inl e
             | None \<Rightarrow>
                 if n > length data - (offset + 512) then Inl Truncated_body
                 else
                   let body = offset + 512; padding = padding_of n in
                   if padding > length data - body - n \<or> \<not> list_all (\<lambda>c. c = nul) (take padding (drop (body + n) data))
                      \<or> name \<in> fst ` set ms
                   then Inl Duplicate_or_unpadded
                   else read_members data (body + n + padding) (ms @ [(name, take n (drop body data))])))"
  by pat_completeness auto

termination
  by (relation "measure (\<lambda>(data, offset, ms). length data - offset)") auto

declare read_members.simps [simp del]

text \<open>A file that cannot be read is None.\<close>

(* Source: src/src/StandaloneDeviceTarget.cpp 290-312 readOwnedUstar *)
definition readOwnedUstar :: "string option \<Rightarrow> archive_error + archive_members" where
  "readOwnedUstar contents =
     (case contents of
        None \<Rightarrow> Inl Invalid_archive
      | Some data \<Rightarrow> if 128 * 1024 * 1024 < length data \<or> length data mod 512 \<noteq> 0 then Inl Invalid_archive
                    else read_members data 0 [])"

end
