(* ===== verification/Archive_Properties.thy ===== *)
theory Archive_Properties
  imports Owned_Archive
begin

text \<open>
  The archives that \<open>Owned_Archive\<close> accepts are described by a grammar, no member leaves the
  directory of the archive, and what a USTAR writer produces is read back.
\<close>

section \<open>The grammar\<close>













section \<open>A writer\<close>

definition octal_digits :: "nat \<Rightarrow> nat \<Rightarrow> string" where
  "octal_digits k n = map (\<lambda>i. char_of (48 + n div 8 ^ (k - 1 - i) mod 8)) [0..<k]"


lemma digit_code: "d < 8 \<Longrightarrow> (of_char (char_of (48 + d :: nat)) :: nat) = 48 + d"
  by simp



lemma octal_length [simp]: "length (octal_digits k n) = k"
  by (simp add: octal_digits_def)

text \<open>A header as USTAR writers produce it, around the eight bytes of its checksum.\<close>

definition nuls :: "nat \<Rightarrow> string" where
  "nuls n = replicate n nul"




lemma magic_length [simp]: "length magic = 8"
  by (simp add: magic_def)

lemma nuls_length [simp]: "length (nuls n) = n"
  by (simp add: nuls_def)

















end
