(* ===== verification/Input_Seals.thy ===== *)
theory Input_Seals
  imports Owned_Archive Fs_Path "HOL-Library.List_Lexorder" "HOL-Library.Char_ord"
begin

text \<open>
  The evidence that inputs have not changed: the seals of \<open>src/StandaloneDeviceTarget.cpp\<close> (files,
  directories, generated files and the private temporary directory of a build) and the witness of
  \<open>src/HostCxxRootInput.cpp\<close>.  Other processes may change the files at any moment: the file system is a
  function of the time, every call reads it at its own time, and the time of the next call is
  passed on.  SHA-256 is a parameter.
\<close>

section \<open>The file system\<close>

datatype file_kind = Regular_file | Directory_file | Other_file

record file_status =
  st_kind :: file_kind
  st_unique :: "nat \<times> nat"
  st_size :: nat
  st_owner_all :: bool

text \<open>Statuses through links and of the name itself; None is an error, and \<open>fs_missing\<close> tells the
  error that the name does not exist.\<close>

record files =
  fs_real_path :: "string \<Rightarrow> string option"
  fs_absolute :: "string \<Rightarrow> string option"
  fs_status :: "string \<Rightarrow> file_status option"
  fs_missing :: "string \<Rightarrow> bool"
  fs_link_status :: "string \<Rightarrow> file_status option"
  fs_read :: "string \<Rightarrow> string option"

type_synonym fstimes = "nat \<Rightarrow> files"

(* Source: src/src/StandaloneDeviceTarget.cpp 38-38 physicalPath *)
definition physicalPath :: "fstimes \<Rightarrow> string \<Rightarrow> nat \<Rightarrow> string \<times> nat" where
  "physicalPath w p t =
     (if \<not> safePath p then ([], t)
      else (case fs_real_path (w t) p of None \<Rightarrow> [] | Some q \<Rightarrow> if safePath q then q else [], Suc t))"

(* Source: src/src/StandaloneDeviceTarget.cpp 39-44 read *)
definition read_file :: "fstimes \<Rightarrow> string \<Rightarrow> nat \<Rightarrow> string option \<times> nat" where
  "read_file w p t = (fs_read (w t) p, Suc t)"

definition unique_id :: "fstimes \<Rightarrow> string \<Rightarrow> nat \<Rightarrow> (nat \<times> nat) option \<times> nat" where
  "unique_id w p t = (map_option st_unique (fs_status (w t) p), Suc t)"

type_synonym sha = "string \<Rightarrow> 8 word list"

(* Source: src/src/StandaloneDeviceTarget.cpp 45-45 hash *)
definition hash_hex :: "sha \<Rightarrow> string \<Rightarrow> string" where
  "hash_hex sha s = concat (map (\<lambda>x. let v = unat x; hex = ''0123456789abcdef'' in [hex ! (v div 16), hex ! (v mod 16)]) (sha s))"

text \<open>A \<open>std::map\<close> over strings in key order: assignment, and emplacement, which keeps an old entry.\<close>

fun map_put :: "string \<Rightarrow> 'a \<Rightarrow> (string \<times> 'a) list \<Rightarrow> (string \<times> 'a) list" where
  "map_put k v [] = [(k, v)]"
| "map_put k v ((k', v') # m) =
     (if k = k' then (k, v) # m else if k < k' then (k, v) # (k', v') # m else (k', v') # map_put k v m)"

definition map_emplace :: "string \<Rightarrow> 'a \<Rightarrow> (string \<times> 'a) list \<Rightarrow> (string \<times> 'a) list" where
  "map_emplace k v m = (if map_of m k = None then map_put k v m else m)"

section \<open>The seals of a build\<close>

(* Source: src/src/StandaloneDeviceTarget.cpp 52-54 GeneratedPhysical *)
record GeneratedPhysical =
  g_canonical :: string
  g_digest :: string
  g_uid :: "nat \<times> nat"
  g_size :: nat

(* Source: src/src/StandaloneDeviceTarget.cpp 47-86 Target *)
record Target =
  privateLinkTemporary :: string
  privateTemporaryPhysical :: string
  privateTemporaryIdentity :: "(nat \<times> nat) option"
  generatedPhysical :: "(string \<times> GeneratedPhysical) list"
  inputs :: "(string \<times> string) list"
  bindings :: "(string \<times> string) list"
  identities :: "(string \<times> nat \<times> nat) list"
  directoryBindings :: "(string \<times> string) list"
  directoryIdentities :: "(string \<times> nat \<times> nat) list"
  absentDirectories :: "(string \<times> unit) list"

(* Source: src/src/StandaloneDeviceTarget.cpp 94-98 remember *)
definition remember :: "fstimes \<Rightarrow> sha \<Rightarrow> string \<Rightarrow> Target \<Rightarrow> nat \<Rightarrow> bool \<times> Target \<times> nat" where
  "remember w sha p s t =
     (let (path, t) = physicalPath w p t in
      if path = [] then (False, s, t)
      else
        let (before, t) = unique_id w path t in
        if before = None then (False, s, t)
        else
          let (bytes, t) = read_file w path t in
          if bytes = None then (False, s, t)
          else
            let (after, t) = unique_id w path t in
            if after = None \<or> before \<noteq> after then (False, s, t)
            else
              let spelling = fs_absolute (w t) p; t = Suc t in
              if spelling = None then (False, s, t)
              else if \<not> (case map_of (bindings s) (the spelling) of None \<Rightarrow> True | Some q \<Rightarrow> q = path) then (False, s, t)
              else
                let s = s\<lparr>bindings := map_put (the spelling) path (bindings s)\<rparr>; digest = hash_hex sha (the bytes) in
                (case map_of (inputs s) path of
                   Some d \<Rightarrow> (d = digest \<and> map_of (identities s) path = before, s, t)
                 | None \<Rightarrow> (True, s\<lparr>inputs := map_put path digest (inputs s), identities := map_emplace path (the before) (identities s)\<rparr>, t)))"

(* Source: src/src/StandaloneDeviceTarget.cpp 99-107 rememberDirectory *)
definition rememberDirectory :: "fstimes \<Rightarrow> string \<Rightarrow> Target \<Rightarrow> nat \<Rightarrow> bool \<times> Target \<times> nat" where
  "rememberDirectory w p s t =
     (let spelling = fs_absolute (w t) p; t = Suc t in
      if spelling = None \<or> \<not> safePath (the spelling) then (False, s, t)
      else
        let spelling = the spelling; missing = fs_missing (w t) spelling; status = fs_status (w t) spelling; t = Suc t in
        if missing
        then (if map_of (directoryBindings s) spelling \<noteq> None then (False, s, t)
              else (True, s\<lparr>absentDirectories := map_put spelling () (absentDirectories s)\<rparr>, t))
        else if (case status of None \<Rightarrow> True | Some st \<Rightarrow> st_kind st \<noteq> Directory_file)
                \<or> map_of (absentDirectories s) spelling \<noteq> None
        then (False, s, t)
        else
          let (physical, t) = physicalPath w p t in
          if physical = [] then (False, s, t)
          else
            let (uid, t) = unique_id w spelling t in
            if uid = None then (False, s, t)
            else
              (case map_of (directoryBindings s) spelling of
                 Some q \<Rightarrow> (q = physical \<and> map_of (directoryIdentities s) spelling = uid, s, t)
               | None \<Rightarrow> (True, s\<lparr>directoryBindings := map_put spelling physical (directoryBindings s),
                     directoryIdentities := map_emplace spelling (the uid) (directoryIdentities s)\<rparr>, t)))"

definition regular :: "file_status option \<Rightarrow> bool" where
  "regular status \<longleftrightarrow> (case status of None \<Rightarrow> False | Some st \<Rightarrow> st_kind st = Regular_file)"

(* Source: src/src/StandaloneDeviceTarget.cpp 65-75 rememberGeneratedPhysical *)
definition rememberGeneratedPhysical :: "fstimes \<Rightarrow> sha \<Rightarrow> string \<Rightarrow> Target \<Rightarrow> nat \<Rightarrow> bool \<times> Target \<times> nat" where
  "rememberGeneratedPhysical w sha path s t =
     (let status = fs_link_status (w t) path; t = Suc t; (canonical, t) = physicalPath w path t in
      if canonical = [] \<or> \<not> regular status then (False, s, t)
      else
        let (first, t) = unique_id w path t in
        if first = None then (False, s, t)
        else
          let (bytes, t) = read_file w path t in
          if bytes = None then (False, s, t)
          else
            let (last, t) = unique_id w path t in
            if last = None \<or> first \<noteq> last then (False, s, t)
            else
              let e = \<lparr>g_canonical = canonical, g_digest = hash_hex sha (the bytes), g_uid = the first,
                       g_size = length (the bytes)\<rparr> in
              (case map_of (generatedPhysical s) path of
                 Some old \<Rightarrow> (old = e, s, t)
               | None \<Rightarrow> (True, s\<lparr>generatedPhysical := map_put path e (generatedPhysical s)\<rparr>, t)))"

text \<open>A check of every entry in order, ended by the first that fails.\<close>

fun check_all :: "('a \<Rightarrow> nat \<Rightarrow> bool \<times> nat) \<Rightarrow> 'a list \<Rightarrow> nat \<Rightarrow> bool \<times> nat" where
  "check_all check [] t = (True, t)"
| "check_all check (x # xs) t = (let (ok, t) = check x t in if \<not> ok then (False, t) else check_all check xs t)"

(* Source: src/src/StandaloneDeviceTarget.cpp 57-62 generatedMatch *)
definition generated_entry :: "fstimes \<Rightarrow> sha \<Rightarrow> string \<times> GeneratedPhysical \<Rightarrow> nat \<Rightarrow> bool \<times> nat" where
  "generated_entry w sha item t =
     (let (path, expected) = item; status = fs_link_status (w t) path; t = Suc t in
      if \<not> regular status then (False, t)
      else
        let (physical, t) = physicalPath w path t in
        if physical \<noteq> g_canonical expected then (False, t)
        else
          let (uid, t) = unique_id w path t in
          if uid \<noteq> Some (g_uid expected) then (False, t)
          else
            let (bytes, t) = read_file w path t in
            (case bytes of None \<Rightarrow> False | Some b \<Rightarrow> length b = g_size expected \<and> hash_hex sha b = g_digest expected, t))"

(* Source: src/src/StandaloneDeviceTarget.cpp 56-64 generatedMatch *)
definition generatedMatch :: "fstimes \<Rightarrow> sha \<Rightarrow> Target \<Rightarrow> nat \<Rightarrow> bool \<times> nat" where
  "generatedMatch w sha s t = check_all (generated_entry w sha) (generatedPhysical s) t"

(* Source: src/src/StandaloneDeviceTarget.cpp 87-93 matchesPrivateTemporary *)
definition matchesPrivateTemporary :: "fstimes \<Rightarrow> Target \<Rightarrow> nat \<Rightarrow> bool \<times> nat" where
  "matchesPrivateTemporary w s t =
     (if privateLinkTemporary s = []
      then (privateTemporaryPhysical s = [] \<and> privateTemporaryIdentity s = None, t)
      else if privateTemporaryIdentity s = None then (False, t)
      else
        let (physical, t) = physicalPath w (privateLinkTemporary s) t in
        if physical \<noteq> privateTemporaryPhysical s then (False, t)
        else
          let status = fs_link_status (w t) (privateLinkTemporary s); t = Suc t in
          if (case status of None \<Rightarrow> True | Some st \<Rightarrow> st_kind st \<noteq> Directory_file \<or> \<not> st_owner_all st) then (False, t)
          else
            let (uid, t) = unique_id w (privateLinkTemporary s) t in (uid = privateTemporaryIdentity s, t))"

(* Source: src/src/StandaloneDeviceTarget.cpp 108-108 matches (absent directories) *)
definition absent_entry :: "fstimes \<Rightarrow> string \<times> unit \<Rightarrow> nat \<Rightarrow> bool \<times> nat" where
  "absent_entry w item t = (fs_missing (w t) (fst item), Suc t)"

(* Source: src/src/StandaloneDeviceTarget.cpp 109-109 matches (directories) *)
definition directory_entry :: "fstimes \<Rightarrow> Target \<Rightarrow> string \<times> string \<Rightarrow> nat \<Rightarrow> bool \<times> nat" where
  "directory_entry w s item t =
     (let (physical, t) = physicalPath w (fst item) t in
      if physical \<noteq> snd item then (False, t)
      else let (uid, t) = unique_id w (fst item) t in (uid \<noteq> None \<and> uid = map_of (directoryIdentities s) (fst item), t))"

(* Source: src/src/StandaloneDeviceTarget.cpp 110-110 matches (bindings) *)
definition binding_entry :: "fstimes \<Rightarrow> string \<times> string \<Rightarrow> nat \<Rightarrow> bool \<times> nat" where
  "binding_entry w item t = (let (physical, t) = physicalPath w (fst item) t in (physical = snd item, t))"

(* Source: src/src/StandaloneDeviceTarget.cpp 111-111 matches (inputs) *)
definition input_entry :: "fstimes \<Rightarrow> sha \<Rightarrow> Target \<Rightarrow> string \<times> string \<Rightarrow> nat \<Rightarrow> bool \<times> nat" where
  "input_entry w sha s item t =
     (let (uid, t) = unique_id w (fst item) t in
      if uid = None \<or> uid \<noteq> map_of (identities s) (fst item) then (False, t)
      else let (bytes, t) = read_file w (fst item) t in
        (case bytes of None \<Rightarrow> False | Some b \<Rightarrow> hash_hex sha b = snd item, t))"

definition and_then :: "(nat \<Rightarrow> bool \<times> nat) \<Rightarrow> (nat \<Rightarrow> bool \<times> nat) \<Rightarrow> nat \<Rightarrow> bool \<times> nat" where
  "and_then f g t = (let (ok, t) = f t in if ok then g t else (False, t))"

(* Source: src/src/StandaloneDeviceTarget.cpp 108-112 matches *)
definition matches :: "fstimes \<Rightarrow> sha \<Rightarrow> Target \<Rightarrow> nat \<Rightarrow> bool \<times> nat" where
  "matches w sha s =
     and_then (matchesPrivateTemporary w s) (and_then (generatedMatch w sha s)
       (and_then (check_all (absent_entry w) (absentDirectories s))
         (and_then (check_all (directory_entry w s) (directoryBindings s))
           (and_then (check_all (binding_entry w) (bindings s)) (check_all (input_entry w sha s) (inputs s))))))"

(* Source: src/src/StandaloneDeviceTarget.cpp 113-113 stamp *)
definition stamp :: "sha \<Rightarrow> Target \<Rightarrow> string" where
  "stamp sha s = hash_hex sha (concat (map (\<lambda>(path, digest).
     let (device, file) = the (map_of (identities s) path) in
       path @ [CHR 0x0A] @ digest @ [CHR 0x0A] @ digits device @ '':'' @ digits file @ [CHR 0x0A]) (inputs s)))"

text \<open>What the member functions start from: no private temporary directory and nothing sealed.
  \<open>at\<close> of a map raises where the model's lookup is None; the sealed names have identities
  (\<open>sealing_inv\<close> of \<open>Seal_Properties\<close>), so neither happens.\<close>

definition no_seals :: Target where
  "no_seals = \<lparr>privateLinkTemporary = [], privateTemporaryPhysical = [], privateTemporaryIdentity = None,
     generatedPhysical = [], inputs = [], bindings = [], identities = [], directoryBindings = [],
     directoryIdentities = [], absentDirectories = []\<rparr>"

section \<open>The witness of a host root\<close>

(* Source: src/src/HostCxxRootInput.cpp 33-39 status *)
definition host_status :: "fstimes \<Rightarrow> string \<Rightarrow> nat \<Rightarrow> file_status option \<times> nat" where
  "host_status w path t =
     (if \<not> (path \<noteq> [] \<and> hd path = CHR ''/'') then (None, t)
      else if fs_real_path (w t) path \<noteq> Some path then (None, Suc t)
      else let status = fs_status (w (Suc t)) path
           in (if regular status then status else None, Suc (Suc t)))"

(* Source: src/src/HostCxxRootInput.h 15-33 HostCxxRootInputWitness *)
record HostCxxRootInputWitness =
  hw_path :: string
  hw_bytes :: string
  hw_sha256 :: string
  hw_unique :: "nat \<times> nat"
  hw_size :: nat

(* Source: src/src/HostCxxRootInput.cpp 67-78 matchesPhysical *)
definition matchesPhysical :: "fstimes \<Rightarrow> sha \<Rightarrow> HostCxxRootInputWitness \<Rightarrow> nat \<Rightarrow> bool \<times> nat" where
  "matchesPhysical w sha e t =
     (let (before, t) = host_status w (hw_path e) t in
      if (case before of None \<Rightarrow> True | Some b \<Rightarrow> st_unique b \<noteq> hw_unique e \<or> st_size b \<noteq> hw_size e) then (False, t)
      else
        let (physical, t) = read_file w (hw_path e) t in
        if physical = None then (False, t)
        else
          let (after, t) = host_status w (hw_path e) t in
          (case (before, after) of
             (Some b, Some a) \<Rightarrow> st_unique b = st_unique a \<and> st_size b = st_size a
               \<and> the physical = hw_bytes e \<and> hash_hex sha (the physical) = hw_sha256 e
           | _ \<Rightarrow> False, t))"

(* Source: src/src/HostCxxRootInput.cpp 48-65 capture *)
definition capture :: "fstimes \<Rightarrow> sha \<Rightarrow> string \<Rightarrow> nat \<Rightarrow> HostCxxRootInputWitness option \<times> nat" where
  "capture w sha path t =
     (let (before, t) = host_status w path t in
      if before = None then (None, t)
      else
        let (physical, t) = read_file w path t in
        if physical = None then (None, t)
        else
          let (after, t) = host_status w path t in
          if after = None \<or> st_unique (the before) \<noteq> st_unique (the after) \<or> st_size (the before) \<noteq> st_size (the after)
             \<or> st_size (the after) \<noteq> length (the physical)
          then (None, t)
          else
            let hash = hash_hex sha (the physical) in
            if hash = [] then (None, t)
            else
              let witness = \<lparr>hw_path = path, hw_bytes = the physical, hw_sha256 = hash,
                             hw_unique = st_unique (the after), hw_size = st_size (the after)\<rparr>;
                  (ok, t) = matchesPhysical w sha witness t
              in (if ok then Some witness else None, t))"

(* Source: src/src/HostCxxRootInput.cpp 80-85 matchesParsed *)
definition matchesParsed ::
    "fstimes \<Rightarrow> sha \<Rightarrow> HostCxxRootInputWitness \<Rightarrow> string \<Rightarrow> string \<Rightarrow> nat \<Rightarrow> nat \<Rightarrow> bool \<times> nat" where
  "matchesParsed w sha e filename buffer entrySize t =
     (if filename = hw_path e \<and> entrySize = hw_size e \<and> buffer = hw_bytes e \<and> hash_hex sha buffer = hw_sha256 e
      then matchesPhysical w sha e t else (False, t))"

end
