(* ===== verification/Seal_Properties.thy ===== *)
theory Seal_Properties
  imports Input_Seals
begin

text \<open>
  What the seals promise.  A successful \<open>matches\<close> saw for every sealed input the identity and the
  digest that \<open>remember\<close> saw, whatever happened to the files and to the seals in between
  (\<open>sealed_input_unchanged\<close>); and when the files do not change, no check fails (\<open>seals_no_false_alarm\<close>).
  For the witness of a host root: the parser's buffer is the file's text both when it was
  captured and when it is checked (\<open>host_root_unchanged\<close>).
\<close>

section \<open>Maps\<close>

lemma map_of_map_put [simp]: "map_of (map_put k v m) = (map_of m)(k \<mapsto> v)"
  by (induction m rule: map_put.induct) (auto simp: fun_eq_iff)

lemma set_map_put: "set (map_put k v m) \<subseteq> insert (k, v) (set m)"
  by (induction k v m rule: map_put.induct) auto

lemma map_of_map_emplace [simp]: "map_of (map_emplace k v m) = (map_of m)(k \<mapsto> (case map_of m k of None \<Rightarrow> v | Some v' \<Rightarrow> v'))"
  by (auto simp: map_emplace_def fun_eq_iff split: option.splits)

lemma map_of_emplace_kept: "map_of m k = Some v \<Longrightarrow> map_of (map_emplace k' v' m) k = Some v"
  by (auto split: option.splits)

lemma in_map_put: "x \<in> set (map_put k v m) \<Longrightarrow> x = (k, v) \<or> x \<in> set m"
  using set_map_put by fast

section \<open>What a call observes\<close>

text \<open>At time \<open>t\<close> the name resolves to \<open>path\<close>, which has an identity; its text is read at the next
  time, and the identity is the same at the time after.\<close>

definition identity_at :: "fstimes \<Rightarrow> string \<Rightarrow> nat \<Rightarrow> (nat \<times> nat) option" where
  "identity_at w path t = map_option st_unique (fs_status (w t) path)"

definition observed :: "fstimes \<Rightarrow> string \<Rightarrow> nat \<times> nat \<Rightarrow> string \<Rightarrow> nat \<Rightarrow> bool" where
  "observed w path uid bytes t \<longleftrightarrow>
     identity_at w path t = Some uid \<and> fs_read (w (Suc t)) path = Some bytes"

definition resolves :: "fstimes \<Rightarrow> string \<Rightarrow> string \<Rightarrow> nat \<Rightarrow> bool" where
  "resolves w p path t \<longleftrightarrow> safePath p \<and> fs_real_path (w t) p = Some path \<and> safePath path"

lemma safePath_nonempty: "safePath p \<Longrightarrow> p \<noteq> []"
  by (auto simp: safePath_def)

lemma physicalPath_some: "fst (physicalPath w p t) = path \<Longrightarrow> path \<noteq> [] \<Longrightarrow> resolves w p path t \<and> snd (physicalPath w p t) = Suc t"
  by (auto simp: physicalPath_def resolves_def split: if_splits option.splits)

lemma resolves_physicalPath: "resolves w p path t \<Longrightarrow> physicalPath w p t = (path, Suc t)"
  by (simp add: physicalPath_def resolves_def)

section \<open>The branches of the operations\<close>

lemma remember_cases:
  assumes "remember w sha p s t = (ok, s', t')"
  obtains (failed) "\<not> ok" "s' = s" "t \<le> t'"
  | (bound) path uid bytes spelling digest where "resolves w p path t" "observed w path uid bytes (t + 1)"
      "identity_at w path (t + 3) = Some uid" "fs_absolute (w (t + 4)) p = Some spelling" "t' = t + 5"
      "map_of (bindings s) spelling = None \<or> map_of (bindings s) spelling = Some path"
      "map_of (inputs s) path = Some digest" "ok \<longleftrightarrow> digest = hash_hex sha bytes \<and> map_of (identities s) path = Some uid"
      "s' = s\<lparr>bindings := map_put spelling path (bindings s)\<rparr>"
  | (sealed) path uid bytes spelling where "resolves w p path t" "observed w path uid bytes (t + 1)"
      "identity_at w path (t + 3) = Some uid" "fs_absolute (w (t + 4)) p = Some spelling" "t' = t + 5" "ok"
      "map_of (bindings s) spelling = None \<or> map_of (bindings s) spelling = Some path"
      "map_of (inputs s) path = None"
      "s' = s\<lparr>bindings := map_put spelling path (bindings s), inputs := map_put path (hash_hex sha bytes) (inputs s),
              identities := map_emplace path uid (identities s)\<rparr>"
proof -
  obtain path t1 where pp: "physicalPath w p t = (path, t1)" by force
  show thesis
  proof (cases "path = []")
    case True
    then have "t \<le> t1" using pp by (auto simp: physicalPath_def split: if_splits)
    then show ?thesis using assms failed True pp by (simp add: remember_def)
  next
    case False
    then have r: "resolves w p path t" "t1 = Suc t" using physicalPath_some[of w p t path] pp by auto
    show ?thesis
    proof (cases "\<exists>uid bytes spelling. observed w path uid bytes (t + 1) \<and> identity_at w path (t + 3) = Some uid
                    \<and> fs_absolute (w (t + 4)) p = Some spelling
                    \<and> (map_of (bindings s) spelling = None \<or> map_of (bindings s) spelling = Some path)")
      case True
      then obtain uid bytes spelling where o: "observed w path uid bytes (t + 1)" "identity_at w path (t + 3) = Some uid"
        "fs_absolute (w (t + 4)) p = Some spelling" "map_of (bindings s) spelling = None \<or> map_of (bindings s) spelling = Some path"
        by blast
      have e: "identity_at w path (Suc t) = Some uid" "fs_read (w (Suc (Suc t))) path = Some bytes"
        "identity_at w path (Suc (Suc (Suc t))) = Some uid" "fs_absolute (w (Suc (Suc (Suc (Suc t))))) p = Some spelling"
        using o by (auto simp: observed_def numeral_eq_Suc)
      have u: "unique_id w path a = (identity_at w path a, Suc a)" for a by (simp add: unique_id_def identity_at_def)
      show ?thesis
      proof (cases "map_of (inputs s) path")
        case None
        show ?thesis
          by (rule sealed[OF r(1) o(1-3) _ _ o(4) None])
            (use assms None o(4) False in \<open>auto simp: remember_def pp r(2) u e read_file_def numeral_eq_Suc split: option.splits\<close>)
      next
        case (Some d)
        show ?thesis
          by (rule bound[OF r(1) o(1-3) _ o(4) Some])
            (use assms Some o(4) False in \<open>auto simp: remember_def pp r(2) u e read_file_def numeral_eq_Suc split: option.splits\<close>)
      qed
    next
      case False': False
      then have "\<not> ok" "s' = s" "t \<le> t'"
        using assms \<open>path \<noteq> []\<close>
        by (auto simp: remember_def pp r(2) observed_def unique_id_def identity_at_def read_file_def Let_def numeral_eq_Suc
            split: if_splits option.splits)
      then show ?thesis by (rule failed)
    qed
  qed
qed

lemma rememberDirectory_cases:
  assumes "rememberDirectory w p s t = (ok, s', t')"
  obtains (unchanged) "s' = s" "t \<le> t'"
  | (absent) spelling where "ok" "t' = t + 2" "fs_absolute (w t) p = Some spelling" "fs_missing (w (t + 1)) spelling"
      "s' = s\<lparr>absentDirectories := map_put spelling () (absentDirectories s)\<rparr>"
  | (sealed) spelling path uid where "ok" "t' = t + 4" "fs_absolute (w t) p = Some spelling" "safePath spelling"
      "resolves w p path (t + 2)" "identity_at w spelling (t + 3) = Some uid" "map_of (directoryBindings s) spelling = None"
      "s' = s\<lparr>directoryBindings := map_put spelling path (directoryBindings s),
              directoryIdentities := map_emplace spelling uid (directoryIdentities s)\<rparr>"
proof -
  have pp: "physicalPath w p a = (path, b) \<Longrightarrow> path \<noteq> [] \<Longrightarrow> resolves w p path a \<and> b = Suc a" for path a b
    using physicalPath_some[of w p a path] by simp
  have le: "physicalPath w p a = (path, b) \<Longrightarrow> a \<le> b" for path a b
    by (auto simp: physicalPath_def split: if_splits)
  obtain path t1 where ph: "physicalPath w p (Suc (Suc t)) = (path, t1)" by force
  note le' = le[OF ph]
  show thesis
  proof (cases "s' = s")
    case True
    moreover have "t \<le> t'"
      using assms ph le' unfolding rememberDirectory_def
      by (auto simp: Let_def unique_id_def split: if_splits option.splits)
    ultimately show ?thesis by (rule unchanged)
  next
    case False
    obtain spelling where sp: "fs_absolute (w t) p = Some spelling" "safePath spelling"
      using assms False by (auto simp: rememberDirectory_def Let_def split: if_splits)
    show ?thesis
    proof (cases "fs_missing (w (Suc t)) spelling")
      case True
      show ?thesis
        by (rule absent[OF _ _ sp(1)])
          (use assms sp True False in \<open>auto simp: rememberDirectory_def Let_def split: if_splits\<close>)
    next
      case present: False
      have ne: "path \<noteq> []"
        using assms sp present False ph by (auto simp: rememberDirectory_def Let_def split: if_splits)
      note r = pp[OF ph ne]
      have "identity_at w spelling (t + 3) \<noteq> None"
        using assms sp present False ph r ne
        by (auto simp: rememberDirectory_def Let_def unique_id_def identity_at_def numeral_eq_Suc split: if_splits)
      then obtain uid where uid: "identity_at w spelling (t + 3) = Some uid" by blast
      show ?thesis
        by (rule sealed[OF _ _ sp _ uid])
          (use assms sp present False ph r ne uid in \<open>auto simp: rememberDirectory_def Let_def unique_id_def identity_at_def
             numeral_eq_Suc split: if_splits option.splits\<close>)
    qed
  qed
qed

lemma rememberGeneratedPhysical_cases:
  assumes "rememberGeneratedPhysical w sha p s t = (ok, s', t')"
  obtains (unchanged) "s' = s" "t \<le> t'"
  | (sealed) path uid bytes where "ok" "t' = t + 5" "regular (fs_link_status (w t) p)" "resolves w p path (t + 1)"
      "observed w p uid bytes (t + 2)" "identity_at w p (t + 4) = Some uid" "map_of (generatedPhysical s) p = None"
      "s' = s\<lparr>generatedPhysical := map_put p \<lparr>g_canonical = path, g_digest = hash_hex sha bytes, g_uid = uid,
                                         g_size = length bytes\<rparr> (generatedPhysical s)\<rparr>"
proof -
  obtain path t1 where ph: "physicalPath w p (Suc t) = (path, t1)" by force
  have le: "Suc t \<le> t1" using ph by (auto simp: physicalPath_def split: if_splits)
  show thesis
  proof (cases "s' = s")
    case True
    moreover have "t \<le> t'"
      using assms ph le unfolding rememberGeneratedPhysical_def
      by (auto simp: Let_def unique_id_def read_file_def split: if_splits option.splits)
    ultimately show ?thesis by (rule unchanged)
  next
    case False
    have ne: "path \<noteq> []" "regular (fs_link_status (w t) p)"
      using assms False ph by (auto simp: rememberGeneratedPhysical_def Let_def split: if_splits)
    have r: "resolves w p path (Suc t)" "t1 = Suc (Suc t)"
      using physicalPath_some[of w p "Suc t" path] ph ne by auto
    have "identity_at w p (t + 2) \<noteq> None \<and> fs_read (w (t + 3)) p \<noteq> None \<and> identity_at w p (t + 4) = identity_at w p (t + 2)"
      using assms False ph ne r
      by (auto simp: rememberGeneratedPhysical_def Let_def unique_id_def read_file_def identity_at_def
          numeral_eq_Suc split: if_splits)
    then obtain uid bytes where o: "observed w p uid bytes (t + 2)" "identity_at w p (t + 4) = Some uid"
      by (auto simp: observed_def numeral_eq_Suc)
    show ?thesis
      by (rule sealed[OF _ _ ne(2) _ o])
        (use assms False ph ne r o in \<open>auto simp: rememberGeneratedPhysical_def Let_def unique_id_def read_file_def
           identity_at_def observed_def numeral_eq_Suc split: if_splits option.splits\<close>)
  qed
qed

section \<open>Runs\<close>

text \<open>From seals \<open>s\<close> at time \<open>t\<close> some calls, in any order, successful or not, with any delays, lead to
  \<open>s'\<close> at time \<open>t'\<close>.\<close>

inductive sealing :: "fstimes \<Rightarrow> sha \<Rightarrow> Target \<Rightarrow> nat \<Rightarrow> Target \<Rightarrow> nat \<Rightarrow> bool" for w sha s t where
  seal_start: "t \<le> t' \<Longrightarrow> sealing w sha s t s t'"
| seal_file: "sealing w sha s t s1 t1 \<Longrightarrow> t1 \<le> t2 \<Longrightarrow> remember w sha p s1 t2 = (ok, s2, t3) \<Longrightarrow> sealing w sha s t s2 t3"
| seal_directory: "sealing w sha s t s1 t1 \<Longrightarrow> t1 \<le> t2 \<Longrightarrow> rememberDirectory w p s1 t2 = (ok, s2, t3) \<Longrightarrow> sealing w sha s t s2 t3"
| seal_generated: "sealing w sha s t s1 t1 \<Longrightarrow> t1 \<le> t2 \<Longrightarrow> rememberGeneratedPhysical w sha p s1 t2 = (ok, s2, t3)
    \<Longrightarrow> sealing w sha s t s2 t3"

text \<open>Later seals extend earlier ones, and sealed names have identities.\<close>

definition seals_extend :: "Target \<Rightarrow> Target \<Rightarrow> bool" where
  "seals_extend s s' \<longleftrightarrow> map_of (inputs s) \<subseteq>\<^sub>m map_of (inputs s') \<and> map_of (identities s) \<subseteq>\<^sub>m map_of (identities s')
     \<and> map_of (bindings s) \<subseteq>\<^sub>m map_of (bindings s')"

definition sealing_inv :: "Target \<Rightarrow> bool" where
  "sealing_inv s \<longleftrightarrow> dom (map_of (inputs s)) = dom (map_of (identities s))
     \<and> dom (map_of (directoryBindings s)) = dom (map_of (directoryIdentities s))"

lemma seals_extend_refl: "seals_extend s s"
  by (simp add: seals_extend_def)

lemma seals_extend_trans: "seals_extend s s' \<Longrightarrow> seals_extend s' s'' \<Longrightarrow> seals_extend s s''"
  by (auto simp: seals_extend_def intro: map_le_trans)

lemma remember_extends: "remember w sha p s t = (ok, s', t') \<Longrightarrow> seals_extend s s'"
  by (erule remember_cases) (auto simp: seals_extend_def map_le_def split: option.splits)

lemma rememberDirectory_extends: "rememberDirectory w p s t = (ok, s', t') \<Longrightarrow> seals_extend s s'"
  by (erule rememberDirectory_cases) (simp_all add: seals_extend_def)

lemma rememberGeneratedPhysical_extends: "rememberGeneratedPhysical w sha p s t = (ok, s', t') \<Longrightarrow> seals_extend s s'"
  by (erule rememberGeneratedPhysical_cases) (simp_all add: seals_extend_def)

lemma remember_seals_inv: "remember w sha p s t = (ok, s', t') \<Longrightarrow> sealing_inv s \<Longrightarrow> sealing_inv s'"
  by (erule remember_cases) (simp_all add: sealing_inv_def)

lemma rememberDirectory_inv: "rememberDirectory w p s t = (ok, s', t') \<Longrightarrow> sealing_inv s \<Longrightarrow> sealing_inv s'"
  by (erule rememberDirectory_cases) (simp_all add: sealing_inv_def)

lemma rememberGeneratedPhysical_inv:
  "rememberGeneratedPhysical w sha p s t = (ok, s', t') \<Longrightarrow> sealing_inv s \<Longrightarrow> sealing_inv s'"
  by (erule rememberGeneratedPhysical_cases) (simp_all add: sealing_inv_def)

lemma sealing_extends: "sealing w sha s t s' t' \<Longrightarrow> seals_extend s s'"
proof (induction rule: sealing.induct)
  case seal_start
  show ?case by (rule seals_extend_refl)
next
  case (seal_file s1 t1 t2 p ok s2 t3)
  show ?case by (rule seals_extend_trans[OF seal_file.IH remember_extends[OF seal_file.hyps(3)]])
next
  case (seal_directory s1 t1 t2 p ok s2 t3)
  show ?case by (rule seals_extend_trans[OF seal_directory.IH rememberDirectory_extends[OF seal_directory.hyps(3)]])
next
  case (seal_generated s1 t1 t2 p ok s2 t3)
  show ?case by (rule seals_extend_trans[OF seal_generated.IH rememberGeneratedPhysical_extends[OF seal_generated.hyps(3)]])
qed

lemma sealing_inv_kept: "sealing w sha s t s' t' \<Longrightarrow> sealing_inv s \<Longrightarrow> sealing_inv s'"
proof (induction rule: sealing.induct)
  case (seal_file s1 t1 t2 p ok s2 t3)
  then show ?case using remember_seals_inv[OF seal_file.hyps(3)] by simp
next
  case (seal_directory s1 t1 t2 p ok s2 t3)
  then show ?case using rememberDirectory_inv[OF seal_directory.hyps(3)] by simp
next
  case (seal_generated s1 t1 t2 p ok s2 t3)
  then show ?case using rememberGeneratedPhysical_inv[OF seal_generated.hyps(3)] by simp
qed

section \<open>Checks in order\<close>

lemma check_all_later:
  assumes "\<And>x a ok b. check x a = (ok, b) \<Longrightarrow> a \<le> b"
  shows "check_all check xs t = (ok, t') \<Longrightarrow> t \<le> t'"
  by (induction xs arbitrary: t) (auto split: if_splits prod.splits dest!: assms intro: order_trans)

lemma check_all_true:
  assumes "check_all check xs t = (True, t')" "x \<in> set xs" and later: "\<And>x a ok b. check x a = (ok, b) \<Longrightarrow> a \<le> b"
  shows "\<exists>a b. t \<le> a \<and> check x a = (True, b) \<and> b \<le> t'"
  using assms(1,2)
proof (induction xs arbitrary: t)
  case (Cons y ys)
  obtain ok t1 where c: "check y t = (ok, t1)" by force
  then have ok: "ok" "check_all check ys t1 = (True, t')"
    using Cons.prems(1) by (auto split: if_splits)
  show ?case
  proof (cases "x = y")
    case True
    have "t1 \<le> t'" by (rule check_all_later[OF _ ok(2)]) (rule later)
    then show ?thesis using True c ok(1) by (intro exI[of _ t] exI[of _ t1]) simp
  next
    case False
    then obtain a b where "t1 \<le> a" "check x a = (True, b)" "b \<le> t'"
      using Cons.IH[OF ok(2)] Cons.prems(2) by auto
    then show ?thesis using later[OF c] by (meson order_trans)
  qed
qed simp

lemma check_all_passes:
  assumes "\<And>x a. x \<in> set xs \<Longrightarrow> fst (check x a)"
  shows "fst (check_all check xs t)"
  using assms by (induction xs arbitrary: t) (simp_all add: split_def)

lemma and_then_true: "and_then f g t = (True, t') \<Longrightarrow> \<exists>t1. f t = (True, t1) \<and> g t1 = (True, t')"
  by (auto simp: and_then_def split: prod.splits if_splits)

lemma and_then_passes: "(\<And>t. fst (f t)) \<Longrightarrow> (\<And>t. fst (g t)) \<Longrightarrow> fst (and_then f g t)"
  by (auto simp: and_then_def split: prod.splits) (metis fst_conv)

lemma and_then_later:
  "(\<And>t ok b. f t = (ok, b) \<Longrightarrow> t \<le> b) \<Longrightarrow> (\<And>t ok b. g t = (ok, b) \<Longrightarrow> t \<le> b) \<Longrightarrow> and_then f g t = (r, t') \<Longrightarrow> t \<le> t'"
  by (fastforce simp: and_then_def split: prod.splits if_splits intro: order_trans)

lemma physicalPath_later: "physicalPath w p t = (q, t') \<Longrightarrow> t \<le> t'"
  by (auto simp: physicalPath_def split: if_splits)

lemma entries_later:
  "absent_entry w i1 t = (ok, t') \<Longrightarrow> t \<le> t'"
  "directory_entry w s i2 t = (ok, t') \<Longrightarrow> t \<le> t'"
  "binding_entry w i2 t = (ok, t') \<Longrightarrow> t \<le> t'"
  "input_entry w sha s i2 t = (ok, t') \<Longrightarrow> t \<le> t'"
  "generated_entry w sha i4 t = (ok, t') \<Longrightarrow> t \<le> t'"
  by (auto simp: absent_entry_def directory_entry_def binding_entry_def input_entry_def generated_entry_def unique_id_def
      read_file_def Let_def split: prod.splits if_splits option.splits dest!: physicalPath_later)

lemma matchesPrivateTemporary_later: "matchesPrivateTemporary w s t = (ok, t') \<Longrightarrow> t \<le> t'"
  by (auto simp: matchesPrivateTemporary_def unique_id_def Let_def split: prod.splits if_splits option.splits
      dest!: physicalPath_later)

text \<open>Every binding and every input passes during a successful match.\<close>

lemma matches_true:
  assumes "matches w sha s t = (True, t')"
  shows "x \<in> set (bindings s) \<Longrightarrow> \<exists>a b. t \<le> a \<and> binding_entry w x a = (True, b) \<and> b \<le> t'" (is "?B \<Longrightarrow> ?b")
    and "y \<in> set (inputs s) \<Longrightarrow> \<exists>a b. t \<le> a \<and> input_entry w sha s y a = (True, b) \<and> b \<le> t'" (is "?I \<Longrightarrow> ?i")
proof -
  obtain t1 t2 t3 t4 t5 where m: "matchesPrivateTemporary w s t = (True, t1)" "generatedMatch w sha s t1 = (True, t2)"
    "check_all (absent_entry w) (absentDirectories s) t2 = (True, t3)"
    "check_all (directory_entry w s) (directoryBindings s) t3 = (True, t4)"
    "check_all (binding_entry w) (bindings s) t4 = (True, t5)" "check_all (input_entry w sha s) (inputs s) t5 = (True, t')"
    using assms unfolding matches_def by (blast dest!: and_then_true)
  have le: "t \<le> t1" "t1 \<le> t2" "t2 \<le> t3" "t3 \<le> t4" "t4 \<le> t5" "t5 \<le> t'"
    by (rule matchesPrivateTemporary_later[OF m(1)] check_all_later[OF _ m(2)[unfolded generatedMatch_def]]
      check_all_later[OF _ m(3)] check_all_later[OF _ m(4)] check_all_later[OF _ m(5)] check_all_later[OF _ m(6)];
      rule entries_later, assumption)+
  show ?b if b: ?B
  proof -
    obtain a b where "t4 \<le> a" "binding_entry w x a = (True, b)" "b \<le> t5"
      using check_all_true[OF m(5) b] entries_later(3) by blast
    then show ?thesis using le by (intro exI[of _ a] exI[of _ b]) linarith
  qed
  show ?i if i: ?I
  proof -
    obtain a b where "t5 \<le> a" "input_entry w sha s y a = (True, b)" "b \<le> t'"
      using check_all_true[OF m(6) i] entries_later(4) by blast
    then show ?thesis using le by (intro exI[of _ a] exI[of _ b]) linarith
  qed
qed

lemma binding_entry_true: "binding_entry w (p, q) t = (True, t') \<Longrightarrow> q \<noteq> [] \<Longrightarrow> resolves w p q t \<and> t' = Suc t"
  using physicalPath_some[of w p t q] by (auto simp: binding_entry_def split: prod.splits)

lemma input_entry_true:
  "input_entry w sha s (path, digest) t = (True, t') \<Longrightarrow>
     \<exists>uid bytes. map_of (identities s) path = Some uid \<and> observed w path uid bytes t \<and> hash_hex sha bytes = digest \<and> t' = t + 2"
  by (cases "identity_at w path t")
    (auto simp: input_entry_def observed_def unique_id_def read_file_def identity_at_def[symmetric] Let_def
      split: if_splits option.splits)

section \<open>What a successful match proves\<close>

lemma remember_seals:
  assumes "remember w sha p s t = (True, s', t')" "sealing_inv s"
  shows "\<exists>path uid bytes spelling. resolves w p path t \<and> observed w path uid bytes (t + 1)
    \<and> identity_at w path (t + 3) = Some uid \<and> fs_absolute (w (t + 4)) p = Some spelling \<and> t' = t + 5
    \<and> map_of (bindings s') spelling = Some path \<and> map_of (inputs s') path = Some (hash_hex sha bytes)
    \<and> map_of (identities s') path = Some uid"
  using assms(1)
proof (cases rule: remember_cases)
  case (bound path uid bytes spelling digest)
  then show ?thesis by (intro exI[of _ path] exI[of _ uid] exI[of _ bytes] exI[of _ spelling]) auto
next
  case (sealed path uid bytes spelling)
  have "map_of (identities s) path = None"
    using assms(2) sealed(8) unfolding sealing_inv_def by (metis domIff)
  then show ?thesis using sealed by (intro exI[of _ path] exI[of _ uid] exI[of _ bytes] exI[of _ spelling]) auto
qed simp

text \<open>C99 (safety). What \<open>matches\<close> vouches for: let \<open>remember\<close> succeed on a path, then any calls seal
  other files, with any failures and delays, while anything happens to the files; when \<open>matches\<close>
  then returns true, the spelling of the path resolved during the match to the same physical path, and
  that path had the identity and a text of the digest that \<open>remember\<close> had seen before and after it read.\<close>

theorem sealed_input_unchanged:
  assumes "sealing w sha (no_seals\<lparr>privateLinkTemporary := d, privateTemporaryPhysical := q, privateTemporaryIdentity := i\<rparr>) t0 s t"
    and "remember w sha p s t = (True, s1, t1)" and "sealing w sha s1 t1 s2 t2" and "matches w sha s2 t3 = (True, t4)"
  shows "\<exists>path uid bytes spelling. resolves w p path t \<and> observed w path uid bytes (t + 1) \<and> identity_at w path (t + 3) = Some uid
    \<and> fs_absolute (w (t + 4)) p = Some spelling
    \<and> (\<exists>a. t3 \<le> a \<and> a < t4 \<and> resolves w spelling path a)
    \<and> (\<exists>a bytes'. t3 \<le> a \<and> a + 1 < t4 \<and> observed w path uid bytes' a \<and> hash_hex sha bytes' = hash_hex sha bytes)"
proof -
  have "sealing_inv s"
    by (rule sealing_inv_kept[OF assms(1)]) (simp add: sealing_inv_def no_seals_def)
  then obtain path uid bytes spelling where r: "resolves w p path t" "observed w path uid bytes (t + 1)"
    "identity_at w path (t + 3) = Some uid" "fs_absolute (w (t + 4)) p = Some spelling"
    "map_of (bindings s1) spelling = Some path" "map_of (inputs s1) path = Some (hash_hex sha bytes)"
    "map_of (identities s1) path = Some uid"
    using remember_seals[OF assms(2)] by blast
  have k: "map_of (bindings s2) spelling = Some path" "map_of (inputs s2) path = Some (hash_hex sha bytes)"
    "map_of (identities s2) path = Some uid"
    using sealing_extends[OF assms(3)] r(5-7) by (auto simp: seals_extend_def map_le_def dom_def)
  have ne: "path \<noteq> []" using r(1) safePath_nonempty by (auto simp: resolves_def)
  obtain a b where b: "t3 \<le> a" "binding_entry w (spelling, path) a = (True, b)" "b \<le> t4"
    using matches_true(1)[OF assms(4) map_of_SomeD[OF k(1)]] by blast
  then have "resolves w spelling path a" "a < t4" using binding_entry_true[OF b(2) ne] by auto
  moreover obtain a' b' where i: "t3 \<le> a'" "input_entry w sha s2 (path, hash_hex sha bytes) a' = (True, b')" "b' \<le> t4"
    using matches_true(2)[OF assms(4) map_of_SomeD[OF k(2)]] by blast
  moreover obtain bytes' where "observed w path uid bytes' a'" "hash_hex sha bytes' = hash_hex sha bytes" "b' = a' + 2"
    using input_entry_true[OF i(2)] k(3) by auto
  ultimately have "\<exists>a. t3 \<le> a \<and> a < t4 \<and> resolves w spelling path a"
    "\<exists>a bytes'. t3 \<le> a \<and> a + 1 < t4 \<and> observed w path uid bytes' a \<and> hash_hex sha bytes' = hash_hex sha bytes"
    using b(1) by (blast, intro exI[of _ a'] exI[of _ bytes'], simp)
  then show ?thesis using r(1-4) by blast
qed

text \<open>A world in which one file exists and nothing changes.\<close>

definition one_file :: files where
  "one_file = \<lparr>fs_real_path = Some, fs_absolute = Some,
     fs_status = \<lambda>p. Some \<lparr>st_kind = Regular_file, st_unique = (1, 2), st_size = 1, st_owner_all = True\<rparr>,
     fs_missing = \<lambda>p. False,
     fs_link_status = \<lambda>p. Some \<lparr>st_kind = Regular_file, st_unique = (1, 2), st_size = 1, st_owner_all = True\<rparr>,
     fs_read = \<lambda>p. Some ''x''\<rparr>"

definition short_sha :: sha where
  "short_sha s = [of_nat (length s)]"

definition one_seal :: Target where
  "one_seal = no_seals\<lparr>bindings := [(''/a'', ''/a'')], inputs := [(''/a'', ''01'')], identities := [(''/a'', (1, 2))]\<rparr>"

lemmas world_defs = one_file_def short_sha_def one_seal_def no_seals_def hash_hex_def

lemma remember_one: "remember (\<lambda>_. one_file) short_sha ''/a'' no_seals 3 = (True, one_seal, 8)"
  by (simp add: remember_def physicalPath_def safePath_def unique_id_def read_file_def map_emplace_def world_defs Let_def)

lemma matches_one: "matches (\<lambda>_. one_file) short_sha one_seal 9 = (True, 12)"
  by (simp add: matches_def and_then_def matchesPrivateTemporary_def generatedMatch_def binding_entry_def input_entry_def
      physicalPath_def safePath_def unique_id_def read_file_def world_defs Let_def)

lemma sealed_input_unchanged_witness:
  "\<exists>path uid bytes spelling. resolves (\<lambda>_. one_file) ''/a'' path 3 \<and> observed (\<lambda>_. one_file) path uid bytes (3 + 1)
    \<and> identity_at (\<lambda>_. one_file) path (3 + 3) = Some uid \<and> fs_absolute ((\<lambda>_. one_file) (3 + 4)) ''/a'' = Some spelling
    \<and> (\<exists>a. (9::nat) \<le> a \<and> a < 12 \<and> resolves (\<lambda>_. one_file) spelling path a)
    \<and> (\<exists>a bytes'. (9::nat) \<le> a \<and> a + 1 < 12 \<and> observed (\<lambda>_. one_file) path uid bytes' a \<and> hash_hex short_sha bytes' = hash_hex short_sha bytes)"
proof -
  have "sealing (\<lambda>_. one_file) short_sha
      (no_seals\<lparr>privateLinkTemporary := [], privateTemporaryPhysical := [], privateTemporaryIdentity := None\<rparr>) 0 no_seals 3"
    using seal_start[of 0 3 "\<lambda>_. one_file" short_sha no_seals] by (simp add: no_seals_def)
  moreover have "sealing (\<lambda>_. one_file) short_sha one_seal 8 one_seal 8"
    by (rule seal_start) simp
  ultimately show ?thesis
    by (rule sealed_input_unchanged[OF _ remember_one _ matches_one])
qed

section \<open>No false alarm\<close>

text \<open>In a file system \<open>f\<close> that does not change, what the seals hold stays true.\<close>

definition seals_current :: "files \<Rightarrow> sha \<Rightarrow> Target \<Rightarrow> bool" where
  "seals_current f sha s \<longleftrightarrow> sealing_inv s
     \<and> (\<forall>(p, q) \<in> set (bindings s). safePath p \<and> fs_real_path f p = Some q \<and> safePath q)
     \<and> (\<forall>(p, d) \<in> set (inputs s). map_of (identities s) p \<noteq> None \<and> map_option st_unique (fs_status f p) = map_of (identities s) p
          \<and> (\<exists>b. fs_read f p = Some b \<and> hash_hex sha b = d))
     \<and> (\<forall>(p, q) \<in> set (directoryBindings s). safePath p \<and> fs_real_path f p = Some q \<and> safePath q
          \<and> map_of (directoryIdentities s) p \<noteq> None \<and> map_option st_unique (fs_status f p) = map_of (directoryIdentities s) p)
     \<and> (\<forall>(p, _) \<in> set (absentDirectories s). fs_missing f p)
     \<and> (\<forall>(p, e) \<in> set (generatedPhysical s). regular (fs_link_status f p) \<and> safePath p
          \<and> fs_real_path f p = Some (g_canonical e) \<and> safePath (g_canonical e)
          \<and> map_option st_unique (fs_status f p) = Some (g_uid e)
          \<and> (\<exists>b. fs_read f p = Some b \<and> length b = g_size e \<and> hash_hex sha b = g_digest e))"

text \<open>A spelling is made absolute with a safe working directory and names the same file.\<close>

definition absolute_law :: "files \<Rightarrow> bool" where
  "absolute_law f \<longleftrightarrow> (\<forall>p q. safePath p \<longrightarrow> fs_absolute f p = Some q \<longrightarrow> safePath q \<and> fs_real_path f q = fs_real_path f p)"

lemma current_remember:
  assumes "absolute_law f" "seals_current f sha s" "remember (\<lambda>_. f) sha p s t = (ok, s', t')"
  shows "seals_current f sha s'"
  using assms(3)
proof (cases rule: remember_cases)
  case failed
  then show ?thesis using assms(2) by simp
next
  case (bound path uid bytes spelling digest)
  have "safePath spelling \<and> fs_real_path f spelling = Some path \<and> safePath path"
    using bound(1,4) assms(1) by (auto simp: absolute_law_def resolves_def)
  then show ?thesis
    using assms(2) remember_seals_inv[OF assms(3)] unfolding seals_current_def bound(9)
    by (auto dest!: in_map_put split: option.splits)
next
  case (sealed path uid bytes spelling)
  have "safePath spelling \<and> fs_real_path f spelling = Some path \<and> safePath path"
    using sealed(1,4) assms(1) by (auto simp: absolute_law_def resolves_def)
  moreover have "map_of (identities s) path = None"
    using assms(2) sealed(8) unfolding seals_current_def sealing_inv_def by (metis domIff)
  moreover have "map_option st_unique (fs_status f path) = Some uid" "fs_read f path = Some bytes"
    using sealed(2) by (auto simp: observed_def identity_at_def)
  ultimately show ?thesis
    using assms(2) remember_seals_inv[OF assms(3)] unfolding seals_current_def sealed(9)
    by (auto dest!: in_map_put split: option.splits)
qed

lemma current_rememberDirectory:
  assumes "absolute_law f" "seals_current f sha s" "rememberDirectory (\<lambda>_. f) p s t = (ok, s', t')"
  shows "seals_current f sha s'"
  using assms(3)
proof (cases rule: rememberDirectory_cases)
  case unchanged
  then show ?thesis using assms(2) by simp
next
  case (absent spelling)
  then show ?thesis
    using assms(2) rememberDirectory_inv[OF assms(3)] unfolding seals_current_def absent(5) by (auto dest!: in_map_put)
next
  case (sealed spelling path uid)
  have "fs_real_path f spelling = Some path \<and> safePath path"
    using sealed(3,5) assms(1) by (auto simp: absolute_law_def resolves_def)
  moreover have "map_of (directoryIdentities s) spelling = None"
    using assms(2) sealed(7) unfolding seals_current_def sealing_inv_def by (metis domIff)
  moreover have "map_option st_unique (fs_status f spelling) = Some uid"
    using sealed(6) by (simp add: identity_at_def)
  ultimately show ?thesis
    using assms(2) rememberDirectory_inv[OF assms(3)] sealed(4) unfolding seals_current_def sealed(8)
    by (auto dest!: in_map_put split: option.splits)
qed

lemma current_rememberGeneratedPhysical:
  assumes "seals_current f sha s" "rememberGeneratedPhysical (\<lambda>_. f) sha p s t = (ok, s', t')"
  shows "seals_current f sha s'"
  using assms(2)
proof (cases rule: rememberGeneratedPhysical_cases)
  case unchanged
  then show ?thesis using assms(1) by simp
next
  case (sealed path uid bytes)
  have "safePath p \<and> fs_real_path f p = Some path \<and> safePath path" "map_option st_unique (fs_status f p) = Some uid"
    "fs_read f p = Some bytes"
    using sealed(4,5) by (auto simp: resolves_def observed_def identity_at_def)
  then show ?thesis
    using assms(1) rememberGeneratedPhysical_inv[OF assms(2)] sealed(3) unfolding seals_current_def sealed(8)
    by (auto dest!: in_map_put)
qed

lemma current_sealing:
  assumes "absolute_law f" "seals_current f sha s"
  shows "sealing (\<lambda>_. f) sha s t s' t' \<Longrightarrow> seals_current f sha s'"
proof (induction rule: sealing.induct)
  case (seal_file s1 t1 t2 p ok s2 t3)
  then show ?case using current_remember[OF assms(1)] by blast
next
  case (seal_directory s1 t1 t2 p ok s2 t3)
  then show ?case using current_rememberDirectory[OF assms(1)] by blast
next
  case (seal_generated s1 t1 t2 p ok s2 t3)
  then show ?case using current_rememberGeneratedPhysical by blast
qed (rule assms(2))

lemma sealing_private: "sealing w sha s t s' t' \<Longrightarrow> privateLinkTemporary s' = privateLinkTemporary s
    \<and> privateTemporaryPhysical s' = privateTemporaryPhysical s \<and> privateTemporaryIdentity s' = privateTemporaryIdentity s"
  by (induction rule: sealing.induct)
    (auto elim!: remember_cases rememberDirectory_cases rememberGeneratedPhysical_cases)

lemma physicalPath_current:
  "safePath p \<Longrightarrow> fs_real_path f p = Some q \<Longrightarrow> safePath q \<Longrightarrow> physicalPath (\<lambda>_. f) p t = (q, Suc t)"
  by (simp add: physicalPath_def)

lemmas entry_defs = absent_entry_def directory_entry_def binding_entry_def input_entry_def generated_entry_def
  physicalPath_current unique_id_def read_file_def

lemma current_entries:
  assumes "seals_current f sha s"
  shows "x \<in> set (absentDirectories s) \<Longrightarrow> fst (absent_entry (\<lambda>_. f) x t)"
    and "y \<in> set (directoryBindings s) \<Longrightarrow> fst (directory_entry (\<lambda>_. f) s y t)"
    and "y \<in> set (bindings s) \<Longrightarrow> fst (binding_entry (\<lambda>_. f) y t)"
    and "y \<in> set (inputs s) \<Longrightarrow> fst (input_entry (\<lambda>_. f) sha s y t)"
    and "z \<in> set (generatedPhysical s) \<Longrightarrow> fst (generated_entry (\<lambda>_. f) sha z t)"
proof -
  obtain p q where y: "y = (p, q)" by force
  obtain g e where z: "z = (g, e)" by force
  show "fst (absent_entry (\<lambda>_. f) x t)" if "x \<in> set (absentDirectories s)"
    using assms that by (auto simp: seals_current_def absent_entry_def)
  show "fst (directory_entry (\<lambda>_. f) s y t)" if "y \<in> set (directoryBindings s)"
  proof -
    have "safePath p" "fs_real_path f p = Some q" "safePath q" "map_of (directoryIdentities s) p \<noteq> None"
      "map_option st_unique (fs_status f p) = map_of (directoryIdentities s) p"
      using assms that unfolding seals_current_def y by fast+
    then show ?thesis by (simp add: entry_defs y)
  qed
  show "fst (binding_entry (\<lambda>_. f) y t)" if "y \<in> set (bindings s)"
  proof -
    have "safePath p" "fs_real_path f p = Some q" "safePath q"
      using assms that unfolding seals_current_def y by fast+
    then show ?thesis by (simp add: entry_defs y)
  qed
  show "fst (input_entry (\<lambda>_. f) sha s y t)" if "y \<in> set (inputs s)"
  proof -
    have i: "map_of (identities s) p \<noteq> None" "map_option st_unique (fs_status f p) = map_of (identities s) p"
      "\<exists>b. fs_read f p = Some b \<and> hash_hex sha b = q"
      using assms that unfolding seals_current_def y by fast+
    then show ?thesis by (auto simp: entry_defs y)
  qed
  show "fst (generated_entry (\<lambda>_. f) sha z t)" if "z \<in> set (generatedPhysical s)"
  proof -
    have i: "regular (fs_link_status f g)" "safePath g" "fs_real_path f g = Some (g_canonical e)" "safePath (g_canonical e)"
      "map_option st_unique (fs_status f g) = Some (g_uid e)"
      "\<exists>b. fs_read f g = Some b \<and> length b = g_size e \<and> hash_hex sha b = g_digest e"
      using assms that unfolding seals_current_def z by fast+
    then show ?thesis by (auto simp: entry_defs z)
  qed
qed

lemma current_matches:
  assumes "seals_current f sha s" "\<And>t. fst (matchesPrivateTemporary (\<lambda>_. f) s t)"
  shows "fst (matches (\<lambda>_. f) sha s t)"
  unfolding matches_def generatedMatch_def
  by (intro and_then_passes check_all_passes assms(2)) (erule current_entries[OF assms(1)])+

text \<open>C99 (liveness). No false alarm: when the file system does not change and makes paths absolute
  with a safe working directory, \<open>matches\<close> returns true after any calls that seal files, directories
  and generated files in any order.\<close>

theorem seals_no_false_alarm:
  assumes "absolute_law f" "sealing (\<lambda>_. f) sha no_seals t0 s t"
  shows "\<exists>t''. matches (\<lambda>_. f) sha s t' = (True, t'')"
proof -
  have start: "seals_current f sha no_seals" by (simp add: seals_current_def no_seals_def sealing_inv_def)
  have priv: "fst (matchesPrivateTemporary (\<lambda>_. f) s a)" for a
    using sealing_private[OF assms(2)] by (simp add: matchesPrivateTemporary_def no_seals_def)
  have "fst (matches (\<lambda>_. f) sha s t')"
    by (rule current_matches[OF current_sealing[OF assms(1) start assms(2)] priv])
  then show ?thesis by (metis prod.collapse)
qed

lemma seals_no_false_alarm_witness: "\<exists>t''. matches (\<lambda>_. one_file) short_sha one_seal 20 = (True, t'')"
proof (rule seals_no_false_alarm[of one_file short_sha 0 one_seal 8])
  show "absolute_law one_file" by (simp add: absolute_law_def one_file_def)
  show "sealing (\<lambda>_. one_file) short_sha no_seals 0 one_seal 8"
    by (rule seal_file[OF seal_start[of 0 0] _ remember_one]) simp_all
qed

section \<open>The witness of a host root\<close>

text \<open>A regular file at its physical absolute path, with an identity and a size.\<close>

definition root_at :: "fstimes \<Rightarrow> string \<Rightarrow> nat \<times> nat \<Rightarrow> nat \<Rightarrow> nat \<Rightarrow> bool" where
  "root_at w path uid n t \<longleftrightarrow> path \<noteq> [] \<and> hd path = CHR ''/'' \<and> fs_real_path (w t) path = Some path
     \<and> (\<exists>st. fs_status (w (Suc t)) path = Some st \<and> st_kind st = Regular_file \<and> st_unique st = uid \<and> st_size st = n)"

lemma host_status_some:
  assumes "host_status w path t = (Some st, t')"
  shows "root_at w path (st_unique st) (st_size st) t" "t' = t + 2"
  using assms by (auto simp: host_status_def root_at_def regular_def Let_def split: if_splits option.splits)

lemma host_status_later: "host_status w path t = (r, t') \<Longrightarrow> t \<le> t'"
  by (auto simp: host_status_def Let_def split: if_splits)

lemma matchesPhysical_true:
  assumes "matchesPhysical w sha e t = (True, t')"
  shows "root_at w (hw_path e) (hw_unique e) (hw_size e) t" "fs_read (w (t + 2)) (hw_path e) = Some (hw_bytes e)"
    "root_at w (hw_path e) (hw_unique e) (hw_size e) (t + 3)" "t' = t + 5" "hash_hex sha (hw_bytes e) = hw_sha256 e"
proof -
  obtain st t1 where b: "host_status w (hw_path e) t = (Some st, t1)" "st_unique st = hw_unique e" "st_size st = hw_size e"
    using assms by (auto simp: matchesPhysical_def Let_def split: prod.splits option.splits if_splits)
  note h = host_status_some[OF b(1)]
  obtain bytes where r: "fs_read (w t1) (hw_path e) = Some bytes"
    using assms b by (auto simp: matchesPhysical_def Let_def read_file_def split: prod.splits option.splits if_splits)
  obtain st2 t2 where a: "host_status w (hw_path e) (Suc t1) = (Some st2, t2)" "st_unique st2 = hw_unique e" "st_size st2 = hw_size e"
      "bytes = hw_bytes e" "hash_hex sha bytes = hw_sha256 e" "t' = t2"
    using assms b r by (auto simp: matchesPhysical_def Let_def read_file_def split: prod.splits option.splits if_splits)
  note h2 = host_status_some[OF a(1)]
  show "root_at w (hw_path e) (hw_unique e) (hw_size e) t" "fs_read (w (t + 2)) (hw_path e) = Some (hw_bytes e)"
    "root_at w (hw_path e) (hw_unique e) (hw_size e) (t + 3)" "t' = t + 5" "hash_hex sha (hw_bytes e) = hw_sha256 e"
    using h h2 b r a by (simp_all add: numeral_eq_Suc)
qed

lemma capture_some:
  assumes "capture w sha path t = (Some e, t')"
  shows "hw_path e = path" "hw_size e = length (hw_bytes e)" "root_at w path (hw_unique e) (hw_size e) t"
    "fs_read (w (t + 2)) path = Some (hw_bytes e)" "root_at w path (hw_unique e) (hw_size e) (t + 3)" "t' = t + 10"
proof -
  obtain st t1 where b: "host_status w path t = (Some st, t1)"
    using assms by (auto simp: capture_def Let_def split: prod.splits if_splits)
  note h = host_status_some[OF b]
  obtain bytes where r: "fs_read (w t1) path = Some bytes"
    using assms b by (auto simp: capture_def Let_def read_file_def split: prod.splits if_splits)
  obtain st2 t2 where a: "host_status w path (Suc t1) = (Some st2, t2)"
    using assms b r by (auto simp: capture_def Let_def read_file_def split: prod.splits if_splits)
  note h2 = host_status_some[OF a]
  have s: "st_unique st = st_unique st2" "st_size st = st_size st2" "st_size st2 = length bytes"
    and e: "e = \<lparr>hw_path = path, hw_bytes = bytes, hw_sha256 = hash_hex sha bytes, hw_unique = st_unique st2, hw_size = st_size st2\<rparr>"
    and m: "matchesPhysical w sha e t2 = (True, t')"
    using assms b r a by (auto simp: capture_def Let_def read_file_def split: prod.splits if_splits)
  show "hw_path e = path" "hw_size e = length (hw_bytes e)" "root_at w path (hw_unique e) (hw_size e) t"
    "fs_read (w (t + 2)) path = Some (hw_bytes e)" "root_at w path (hw_unique e) (hw_size e) (t + 3)" "t' = t + 10"
    using h h2 s e r matchesPhysical_true(4)[OF m] by (simp_all add: numeral_eq_Suc)
qed

text \<open>C22 (safety). What the witness of a host root proves: when it was captured for a path and later
  agrees with what the parser read, the parser's file name is the path, its buffer and size are those
  of the file, whose text was read as the buffer both during the capture and during the check, each
  time between two observations of the same regular file at its physical path.\<close>

theorem host_root_unchanged:
  assumes "capture w sha path t0 = (Some e, t1)" and "matchesParsed w sha e filename buffer entrySize t2 = (True, t3)"
  shows "filename = path \<and> entrySize = length buffer
    \<and> (\<exists>a uid. t0 \<le> a \<and> a + 5 \<le> t1 \<and> root_at w path uid entrySize a \<and> fs_read (w (a + 2)) path = Some buffer
        \<and> root_at w path uid entrySize (a + 3)
        \<and> root_at w path uid entrySize t2 \<and> fs_read (w (t2 + 2)) path = Some buffer
        \<and> root_at w path uid entrySize (t2 + 3) \<and> t3 = t2 + 5)"
proof -
  have p: "filename = path" "entrySize = hw_size e" "buffer = hw_bytes e" "matchesPhysical w sha e t2 = (True, t3)"
    using assms(2) capture_some(1)[OF assms(1)] by (auto simp: matchesParsed_def split: if_splits)
  show ?thesis
    using capture_some[OF assms(1)] matchesPhysical_true[OF p(4)] p(1-3)
    by (intro conjI exI[of _ t0] exI[of _ "hw_unique e"]) simp_all
qed

lemma host_root_unchanged_witness:
  "''/a'' = ''/a'' \<and> 1 = length ''x''
    \<and> (\<exists>a uid. (0::nat) \<le> a \<and> a + 5 \<le> 10 \<and> root_at (\<lambda>_. one_file) ''/a'' uid 1 a \<and> fs_read one_file ''/a'' = Some ''x''
        \<and> root_at (\<lambda>_. one_file) ''/a'' uid 1 (a + 3)
        \<and> root_at (\<lambda>_. one_file) ''/a'' uid 1 50 \<and> fs_read one_file ''/a'' = Some ''x''
        \<and> root_at (\<lambda>_. one_file) ''/a'' uid 1 (50 + 3) \<and> (55::nat) = 50 + 5)"
proof -
  let ?e = "\<lparr>hw_path = ''/a'', hw_bytes = ''x'', hw_sha256 = ''01'', hw_unique = (1, 2), hw_size = 1\<rparr>"
  have "capture (\<lambda>_. one_file) short_sha ''/a'' 0 = (Some ?e, 10)"
    by (simp add: capture_def matchesPhysical_def host_status_def regular_def read_file_def world_defs Let_def)
  moreover have "matchesParsed (\<lambda>_. one_file) short_sha ?e ''/a'' ''x'' 1 50 = (True, 55)"
    by (simp add: matchesParsed_def matchesPhysical_def host_status_def regular_def read_file_def world_defs Let_def)
  ultimately show ?thesis
    by (rule host_root_unchanged[of "\<lambda>_. one_file" short_sha "''/a''" 0 ?e 10 "''/a''" "''x''" 1 50 55])
qed

end
