(* ===== verification/Dependency_Rules.thy ===== *)
theory Dependency_Rules
  imports Prelude
begin

text \<open>
  The reader of the compiler's dependency output in \<open>src/StandaloneDeviceTarget.cpp\<close>: rules of a fixed
  target in make's spelling, read into one set of absolute paths for each rule.  What the file system
  says of a path (\<open>physicalPath\<close> finds it) is the parameter \<open>physical\<close>.  The property: what a writer that
  escapes make's characters and continues lines, as clang does, puts down is read back.
\<close>

section \<open>The reader\<close>

datatype dependency_error = Missing_output | Unexpected_target | Unsupported_substitution | Nonphysical
  | Unsupported_spelling | Incomplete_rule | Missing_rules | Not_one_rule

abbreviation lf_char :: char where "lf_char \<equiv> CHR 0x0A"
abbreviation escape_mark :: char where "escape_mark \<equiv> CHR 0x5C"

definition is_space :: "char \<Rightarrow> bool" where
  "is_space c \<longleftrightarrow> (let n = (of_char c :: nat) in n = 32 \<or> (9 \<le> n \<and> n \<le> 13))"

definition rule_prefix :: string where "rule_prefix = ''ascify-owned-target:''"

(* Source: src/src/StandaloneDeviceTarget.cpp 147-147 dependencyRules (add) *)
definition add_item :: "(string \<Rightarrow> bool) \<Rightarrow> string \<Rightarrow> string set \<Rightarrow> string set option" where
  "add_item physical item paths =
     (if item = [] then Some paths
      else if \<not> (hd item = CHR ''/'' \<and> physical item) then None
      else Some (insert item paths))"

(* Source: src/src/StandaloneDeviceTarget.cpp 146-156 dependencyRules (rule) *)
fun rule_items :: "(string \<Rightarrow> bool) \<Rightarrow> string \<Rightarrow> string \<Rightarrow> bool \<Rightarrow> string set \<Rightarrow> dependency_error + string set \<times> string" where
  "rule_items physical [] item escape paths =
     (if escape then Inl Incomplete_rule
      else case add_item physical item paths of
        None \<Rightarrow> Inl Incomplete_rule
      | Some ps \<Rightarrow> if ps = {} then Inl Incomplete_rule else Inr (ps, []))"
| "rule_items physical (c # cs) item escape paths =
     (if escape then rule_items physical cs (if c \<noteq> lf_char then item @ [c] else item) False paths
      else if c = escape_mark then rule_items physical cs item True paths
      else if c = CHR ''$'' then
        (case cs of
           [] \<Rightarrow> Inl Unsupported_substitution
         | d # ds \<Rightarrow> if d \<noteq> CHR ''$'' then Inl Unsupported_substitution
                     else rule_items physical ds (item @ [CHR ''$'']) False paths)
      else if c = lf_char then
        (case add_item physical item paths of
           None \<Rightarrow> Inl Nonphysical
         | Some ps \<Rightarrow> if ps = {} then Inl Incomplete_rule else Inr (ps, cs))
      else if is_space c then
        (case add_item physical item paths of
           None \<Rightarrow> Inl Nonphysical
         | Some ps \<Rightarrow> rule_items physical cs [] False ps)
      else if c = CHR '':'' \<or> c = CHR ''#'' then Inl Unsupported_spelling
      else rule_items physical cs (item @ [c]) False paths)"

lemma rule_items_shorter: "rule_items physical cs item escape paths = Inr (ps, rest) \<Longrightarrow> length rest \<le> length cs"
  by (induction physical cs item escape paths rule: rule_items.induct)
    (fastforce split: if_splits option.splits list.splits)+

(* Source: src/src/StandaloneDeviceTarget.cpp 142-157 dependencyRules (loop) *)
function dependency_loop :: "(string \<Rightarrow> bool) \<Rightarrow> string \<Rightarrow> string set list \<Rightarrow> dependency_error + string set list" where
  "dependency_loop physical data rules =
     (let data = dropWhile is_space data; n = length rule_prefix in
      if data = [] then Inr rules
      else if take n data \<noteq> rule_prefix then Inl Unexpected_target
      else case rule_items physical (drop n data) [] False {} of
        Inl e \<Rightarrow> Inl e
      | Inr (ps, rest) \<Rightarrow> dependency_loop physical rest (rules @ [ps]))"
  by pat_completeness auto
termination
proof (relation "measure (\<lambda>(physical, data, rules). length data)", goal_cases)
  case (2 physical data rules d n y ps rest)
  have "length rest \<le> length (drop n d)"
    using rule_items_shorter 2(5,6) by metis
  moreover have "0 < n" using 2(2) by (simp add: rule_prefix_def)
  moreover have "length d \<noteq> 0" using 2(3) by simp
  moreover have "length d \<le> length data" using 2(1) by (simp add: length_dropWhile_le)
  ultimately have "length rest < length data" unfolding length_drop by linarith
  then show ?case by simp
qed simp

declare dependency_loop.simps [simp del]

(* Source: src/src/StandaloneDeviceTarget.cpp 139-159 dependencyRules *)
definition dependencyRules :: "(string \<Rightarrow> bool) \<Rightarrow> string option \<Rightarrow> dependency_error + string set list" where
  "dependencyRules physical data =
     (case data of
        None \<Rightarrow> Inl Missing_output
      | Some text \<Rightarrow> (case dependency_loop physical text [] of
          Inl e \<Rightarrow> Inl e
        | Inr rules \<Rightarrow> if rules = [] then Inl Missing_rules else Inr rules))"

(* Source: src/src/StandaloneDeviceTarget.cpp 160-163 dependencyList *)
definition dependencyList :: "(string \<Rightarrow> bool) \<Rightarrow> string option \<Rightarrow> dependency_error + string set" where
  "dependencyList physical data =
     (case dependencyRules physical data of
        Inl e \<Rightarrow> Inl e
      | Inr rules \<Rightarrow> if length rules \<noteq> 1 then Inl Not_one_rule else Inr (hd rules))"

section \<open>The writer\<close>





section \<open>What is written is read back\<close>

lemma space_chars [simp]: "is_space (CHR '' '')" "is_space lf_char" "\<not> is_space escape_mark" "\<not> is_space (CHR ''$'')"
  "\<not> is_space (CHR '':'')" "\<not> is_space (CHR ''#'')" "\<not> is_space (CHR ''a'')"
  by (simp_all add: is_space_def)









end
