(* ===== verification/Spec2Isabelle.thy ===== *)
theory Spec2Isabelle
  imports Rowwise_Dispatch Rowwise_Contracts Cuda_Properties Profiler Closure_Policies Binary64_Properties Warp_Properties Block_Reduction
    Pragma_Properties Guard_Properties Rename_Properties Receipt_Properties Driver_Properties
    Texture_Safety Sampling_Results Query_Properties Symbol_Layer
    Archive_Properties Seal_Properties Dependency_Rules
begin

text \<open>
  \<^bold>\<open>Ascify: a verification library.\<close>  Ascify translates CUDA sources for Ascend devices.  The
  repository has two halves.  The \<^emph>\<open>translator\<close> (\<open>src/\<close>, C++ over Clang) reads a source,
  renames its CUDA names, plans which local headers it must translate along, writes the results
  as one transaction and records a receipt.  The \<^emph>\<open>runtime headers\<close> (\<open>include/ascify/\<close>) are what a
  translated program includes: CUDA's entry points over the Ascend Computing Language (ACL),
  textures, warp groups and reductions, binary64 arithmetic, and the row-wise recipes of the
  dav-c310 target.  Paths below are relative to the repository's \<open>src/\<close> or \<open>include/ascify/\<close>.

  \<^bold>\<open>How the parts meet.\<close>  \<open>main.cpp\<close> (\<open>Driver\<close>) orders the sources, chooses outputs and calls the
  conversion of each.  A conversion parses, runs the rename pass (\<open>Rename_Pass\<close> over the tables of
  \<open>Name_Maps\<close>), applies the pragma and guard policies (\<open>Pragma_Policy\<close>, \<open>Outer_Guard\<close>), observes includes into a closure plan
  (\<open>Closure_Plan\<close>), translates the discovered headers in a loop (\<open>Closure_Loop\<close>), validates and
  publishes (\<open>Closure_Checks\<close>, \<open>Closure_Publish\<close>) and counts (\<open>Statistics\<close>); the driver writes the
  receipt (\<open>Receipt\<close>) with the file operations of the publication.  At run time the entry points (\<open>Cuda_Api\<close>) act on the
  runtime manager (\<open>Cuda_Runtime\<close>), which the profiler (\<open>Profiler\<close>), the texture layer
  (\<open>Texture_*\<close>, hooked into free, reset and synchronisation), the symbol layer (\<open>Symbol_Layer\<close>) and the queries (\<open>Device_Queries\<close>,
  \<open>Occupancy\<close>) share.  Kernels sample textures through descriptors that the host wrote into their memory
  (\<open>Texture_Objects\<close> to \<open>Texture_Sampling\<close>).

  \<^bold>\<open>State and environment.\<close>  Stateful code passes its state explicitly: \<open>rt\<close> is the runtime manager
  with the allocation registry, extended with the registry of textures to \<open>trt\<close>; \<open>plan\<close> is the
  closure; \<open>disk\<close> the file system of the publication with its injected faults; \<open>sampler\<close> a kernel's memory.
  ACL, CANN's warp instructions, Clang and the file system are not in the repository: they are
  parameters.  An ACL is a function from a call and a world to a reply and a world, with no
  assumption on its replies; \<open>logged\<close> wraps one with the history of its calls, and
  the safety properties speak of that history.  Machine integers are words of their width;
  32-bit values that C++ keeps as \<open>int\<close> are integers where the code bounds them, and an out-of-range
  conversion is written out.  Errors are the code's own status values, options or sums.
  \<open>Prelude\<close> holds the shared facts on words and lists, \<open>Acl_Base\<close> the vocabulary of ACL.

  \<^bold>\<open>Theories and code, translator.\<close>
  \<^item> \<open>Driver\<close>: \<open>main.cpp\<close> (option conflicts, \<open>Init\<close>, outputs, the loop with every \<open>continue\<close>, exit
    code); \<open>Driver_Properties\<close>: exit code zero means every source was converted, where outputs go, and two defects.
  \<^item> \<open>Name_Maps\<close>, \<open>Rename_Pass\<close>: \<open>CUDA2DPP*.cpp\<close>, \<open>AscifyAction::RewriteToken\<close>, \<open>RewriteString\<close>,
    \<open>FindAndReplace\<close>; \<open>Rename_Properties\<close>: the text of the result is the source with exactly the mapped tokens replaced.
  \<^item> \<open>Pragma_Policy\<close>, \<open>Outer_Guard\<close>: recognisers of \<open>AscifyAction.cpp\<close>; \<open>Pragma_Properties\<close>: what the
    policy protects; \<open>Guard_Properties\<close>: the accepted token sequences are a grammar.
  \<^item> \<open>Fs_Path\<close>, \<open>Closure_Plan\<close>, \<open>Closure_Checks\<close>, \<open>Closure_Loop\<close>, \<open>Closure_Publish\<close>: \<open>LocalHeader.cpp\<close>;
    \<open>Closure_Invariants\<close> (the plan's invariant and that every operation keeps it), \<open>Closure_Properties\<close> and
    \<open>Publish_Atomic\<close> (the loop returns, artifacts are distinct, inputs survive, the publication is
    all or nothing under any fault), \<open>Closure_Policies\<close> (roots, validation, seals).
  \<^item> \<open>Receipt\<close>: \<open>MigrationReceipt*.cpp\<close>; \<open>Receipt_Properties\<close>: its text is JSON that lists the entries,
    and its publication is atomic.  \<open>Statistics\<close>: \<open>Statistics.cpp\<close>.
  \<^item> \<open>Owned_Archive\<close>, \<open>Dependency_Rules\<close>, \<open>Input_Seals\<close>: the evidence that a native build used the inputs it
    says, of \<open>StandaloneDeviceTarget.cpp\<close> (the linker's USTAR archive, the compiler's dependency rules, the
    seals of files and directories) and \<open>HostCxxRootInput.cpp\<close>.  Files are a function of the time, so every call may
    see another state of them.  \<open>Archive_Properties\<close>: the accepted archives are a grammar and what a writer writes is
    read back; \<open>Dependency_Rules\<close> holds its round trip itself; \<open>Seal_Properties\<close>: what a successful match proves, and
    that it succeeds when nothing changes.

  \<^bold>\<open>Theories and code, runtime.\<close>
  \<^item> \<open>Cuda_Runtime\<close>, \<open>Cuda_Api\<close>, \<open>Profiler\<close>: \<open>ascify_cuda_compat.hpp\<close>; \<open>Runtime_Invariants\<close> and \<open>Cuda_Api_Props\<close>
    prove the invariant of the manager and that every entry point keeps it, \<open>Cuda_Properties\<close>
    concludes for programs: ACL is finalised once and only when owned, after every reset.
  \<^item> \<open>Device_Queries\<close>, \<open>Occupancy\<close>: the same file; \<open>Query_Properties\<close>: the block size is the largest that fits, and is found.
  \<^item> \<open>Texture_Registry\<close>, \<open>Texture_Api\<close>, \<open>Texture_Objects\<close>: \<open>texture_compat.hpp\<close>; \<open>Texture_Invariants\<close> (steps of
    the registry and its invariant), \<open>Texture_Programs\<close> (any program over all entry points),
    \<open>Texture_Bounds\<close> (copies stay in their array; a release invalidates descriptors first).
  \<^item> \<open>Fp32\<close>, \<open>Texture_Sampling\<close>: \<open>texture_sampling.hpp\<close> with binary32 arithmetic; \<open>Sampling_Properties\<close> (only
    texels are read, no undefined conversion), \<open>Sampling_Results\<close> (nearest texels, cube centres),
    \<open>Texture_Safety\<close> (host to kernel: an object reads only its allocation).
  \<^item> \<open>Symbol_Layer\<close>: \<open>symbol_compat.hpp\<close>.
  \<^item> \<open>Warp_Groups\<close>, \<open>Block_Reduction\<close>: \<open>masked_warp_compat.hpp\<close>, \<open>dynamic_warp_groups_compat.hpp\<close>,
    \<open>cooperative_groups_compat.hpp\<close>, \<open>uniform_block_reduction_compat.hpp\<close>, \<open>register_tile32_compat.hpp\<close>;
    \<open>Warp_Facts\<close> and \<open>Warp_Properties\<close>: groups partition a mask and every reduction is the fold over its members.
  \<^item> \<open>Binary64\<close>: \<open>binary64_rne_v1.hpp\<close>; \<open>Rounding\<close>, \<open>Binary64_Words\<close>, \<open>Binary64_Rounding\<close>, \<open>Binary64_Correct\<close> and
    \<open>Binary64_Properties\<close> prove it the correctly rounded sum.
  \<^item> \<open>Rowwise_Selectors\<close>, \<open>Rowwise_Launch\<close>, \<open>Hybrid_Registry\<close>, \<open>Rowwise_Recipes\<close>, \<open>Rowwise_Dispatch\<close>: the headers
    under \<open>target/dav_c310\<close> and the dispatch that \<open>DavC310TargetRecipe.cpp\<close> emits;
    \<open>Rowwise_Contracts\<close>: what an admitted call guarantees to the vector kernels.

  \<^bold>\<open>Interfaces.\<close>  The contracts between components are locales, interpreted on the model's own
  definitions: \<open>plan_operation\<close> (what an operation on the closure plan keeps), \<open>runtime_gate\<close> (what
  an entry point may rely on once the device is current), \<open>try_route\<close> (a route that may refuse a
  launch), \<open>counter_measure\<close> and \<open>tally\<close> (the sums of the statistics).

  \<^bold>\<open>Bounds and termination.\<close>  Loops over data are structural.  The closure loop has a measure, the
  nodes not yet handled, because a plan holds a bounded number of nodes; that it returns is the
  property \<open>closure_returns\<close>.  \<open>cores_loop\<close> has the length of its table as fuel, which the sentinel entry makes
  enough (\<open>cores_lookup\<close>).  \<open>descend\<close> counts down the 1024 candidates that the source's own loop bounds;
  \<open>block_size_found\<close> says when they are enough.  \<open>Fp32\<close> needs no fuel: rounding is one division.

  \<^bold>\<open>Not modelled.\<close>
  \<^item> The analyses and lowerings over Clang's AST (most of \<open>AscifyAction.cpp\<close>, \<open>DavC310TargetRecipe.cpp\<close>,
    \<open>Scalar64Lowering.cpp\<close>, \<open>FullWarpGroups.cpp\<close>, \<open>CudaVec3AbiBoundary.cpp\<close> and their like): their inputs are
    Clang's data structures and their code is calls to Clang's matchers and Sema, which are not in the repository.
  \<^item> The rest of \<open>StandaloneDeviceTarget.cpp\<close>: running compilers and linkers and reading their plans, ELF objects
    through LLVM, the receipt of a build.
  \<^item> Device kernels: \<open>__global__\<close> bodies over compiler intrinsics.
  \<^item> LLVM's command line, the set-up of the Clang tool, version printing, clocks and percentages.
  \<^item> The wrappers that forward to one intrinsic (\<open>half2_compat.hpp\<close>, atomics, shuffles), static rejections, layout structs.
  \<^item> Threads: locks are taken as given, each entry point is one step; interleavings of programs are sequences of entry points.
\<close>

end
